(* ===== verification/Prelude.thy ===== *)
theory Prelude
  imports Complex_Main "HOL-Library.Char_ord" "HOL-Library.List_Lexorder"
begin

text \<open>
  Shared base of the development: the Python string and list operations the worker
  (src/apps/worker/firmcode\_worker) uses, and generic facts about them.

  A Python \<open>str\<close> is a sequence of code points; the model's \<open>string\<close> is a list of \<open>char\<close>,
  read as the code points U+0000 to U+00FF. Length, indexing, slicing and ordering therefore
  agree with Python on such texts. Case mapping and white space follow the Unicode tables on this
  range; the three letters whose upper or folded form leaves the range (U+00B5, U+00DF, U+00FF)
  are treated where the operations are defined.
\<close>

named_theorems py_simps "evaluation rules of the Python string operations"
named_theorems nonblank_intro "texts that still hold a visible character after strip()"

section \<open>White space, strip, case mapping\<close>

definition is_space :: "char \<Rightarrow> bool" where
  \<comment> \<open>\<open>str.isspace\<close> on U+0000..U+00FF\<close>
  "is_space c \<longleftrightarrow> c \<in> set [CHR 0x09, CHR 0x0A, CHR 0x0B, CHR 0x0C, CHR 0x0D, CHR 0x1C,
     CHR 0x1D, CHR 0x1E, CHR 0x1F, CHR '' '', CHR 0x85, CHR 0xA0]"

definition lstrip :: "string \<Rightarrow> string" where
  "lstrip s = dropWhile is_space s"

definition rstrip :: "string \<Rightarrow> string" where
  "rstrip s = rev (dropWhile is_space (rev s))"

definition strip :: "string \<Rightarrow> string" where
  "strip s = rstrip (lstrip s)"

definition rstrip_chars :: "string \<Rightarrow> string \<Rightarrow> string" where
  \<comment> \<open>\<open>value.rstrip(chars)\<close>\<close>
  "rstrip_chars cs s = rev (dropWhile (\<lambda>c. c \<in> set cs) (rev s))"

definition lower_char :: "char \<Rightarrow> char" where
  "lower_char c = (let n = (of_char c :: nat) in
     if (65 \<le> n \<and> n \<le> 90) \<or> (192 \<le> n \<and> n \<le> 222 \<and> n \<noteq> 215) then char_of (n + 32) else c)"

definition lower :: "string \<Rightarrow> string" where
  "lower s = map lower_char s"

definition upper_char :: "char \<Rightarrow> string" where
  \<comment> \<open>U+00DF becomes two letters; U+00B5 and U+00FF map outside the range and are kept.\<close>
  "upper_char c = (let n = (of_char c :: nat) in
     if n = 223 then ''SS''
     else if (97 \<le> n \<and> n \<le> 122) \<or> (224 \<le> n \<and> n \<le> 254 \<and> n \<noteq> 247) then [char_of (n - 32)]
     else [c])"

definition upper :: "string \<Rightarrow> string" where
  "upper s = concat (map upper_char s)"

definition fold_char :: "char \<Rightarrow> string" where
  \<comment> \<open>\<open>str.casefold\<close>: as \<open>lower\<close>, but U+00DF becomes ''ss''; U+00B5 maps outside the range
      to a letter nothing else maps to, and is kept.\<close>
  "fold_char c = (if (of_char c :: nat) = 223 then ''ss'' else [lower_char c])"

definition casefold :: "string \<Rightarrow> string" where
  "casefold s = concat (map fold_char s)"

definition nonblank :: "string \<Rightarrow> bool" where
  \<comment> \<open>the test \<open>value.strip()\<close> of the readers\<close>
  "nonblank s \<longleftrightarrow> strip s \<noteq> []"

lemma dropWhile_eq_Nil_iff: "dropWhile P xs = [] \<longleftrightarrow> (\<forall>x \<in> set xs. P x)"
  by (induction xs) auto

lemma nonblank_iff: "nonblank s \<longleftrightarrow> (\<exists>c \<in> set s. \<not> is_space c)"
proof -
  have "strip s = [] \<longleftrightarrow> dropWhile is_space s = []"
  proof
    assume "strip s = []"
    then have "\<forall>c \<in> set (dropWhile is_space s). is_space c"
      by (simp add: strip_def rstrip_def lstrip_def dropWhile_eq_Nil_iff)
    then show "dropWhile is_space s = []"
      by (metis hd_dropWhile list.set_sel(1))
  next
    assume "dropWhile is_space s = []"
    then show "strip s = []" by (auto simp: strip_def rstrip_def lstrip_def dest: set_dropWhileD)
  qed
  then show ?thesis
    by (auto simp: nonblank_def dropWhile_eq_Nil_iff)
qed

lemma nonblank_Nil [simp]: "\<not> nonblank []"
  by (simp add: nonblank_iff)

lemma nonblank_Cons [simp, py_simps]: "nonblank (c # s) \<longleftrightarrow> \<not> is_space c \<or> nonblank s"
  by (auto simp: nonblank_iff)

lemma nonblank_append [simp, py_simps]: "nonblank (s @ t) \<longleftrightarrow> nonblank s \<or> nonblank t"
  by (auto simp: nonblank_iff)

lemma nonblank_not_Nil: "nonblank s \<Longrightarrow> s \<noteq> []"
  by auto

lemma hd_strip_not_space: "strip s \<noteq> [] \<Longrightarrow> \<not> is_space (hd (strip s))"
proof -
  assume ne: "strip s \<noteq> []"
  have pre: "\<exists>t. lstrip s = rstrip (lstrip s) @ t"
  proof -
    have "rev (lstrip s) = takeWhile is_space (rev (lstrip s)) @ dropWhile is_space (rev (lstrip s))"
      by simp
    then have "lstrip s = rstrip (lstrip s) @ rev (takeWhile is_space (rev (lstrip s)))"
      by (metis rev_append rev_rev_ident rstrip_def)
    then show ?thesis by blast
  qed
  then obtain t where t: "lstrip s = strip s @ t" by (auto simp: strip_def)
  with ne have "hd (strip s) = hd (dropWhile is_space s)" and "dropWhile is_space s \<noteq> []"
    by (auto simp: lstrip_def)
  then show ?thesis by (simp add: hd_dropWhile)
qed

lemma nonblank_take_strip [nonblank_intro]: "0 < n \<Longrightarrow> strip s \<noteq> [] \<Longrightarrow> nonblank (take n (strip s))"
proof -
  assume n: "0 < n" and ne: "strip s \<noteq> []"
  then obtain c cs where c: "strip s = c # cs" by (cases "strip s") auto
  with hd_strip_not_space [OF ne] have "\<not> is_space c" by simp
  with n c show ?thesis by (cases n) auto
qed

lemma length_lower [simp]: "length (lower s) = length s"
  by (simp add: lower_def)

section \<open>Decimal numerals, join, split, replace\<close>

definition digit_char :: "nat \<Rightarrow> char" where
  "digit_char d = ''0123456789'' ! d"

fun str_of_nat :: "nat \<Rightarrow> string" where
  "str_of_nat n = (if n < 10 then [digit_char n] else str_of_nat (n div 10) @ [digit_char (n mod 10)])"

declare str_of_nat.simps [simp del]

definition str_of_int :: "int \<Rightarrow> string" where
  \<comment> \<open>\<open>str(n)\<close>, also inside an f-string\<close>
  "str_of_int i = (if i < 0 then ''-'' @ str_of_nat (nat (- i)) else str_of_nat (nat i))"

lemma digit_char_not_space: "d < 10 \<Longrightarrow> \<not> is_space (digit_char d)"
proof -
  assume "d < 10"
  then have "d = 0 \<or> d = 1 \<or> d = 2 \<or> d = 3 \<or> d = 4 \<or> d = 5 \<or> d = 6 \<or> d = 7 \<or> d = 8 \<or> d = 9"
    by presburger
  then show ?thesis by (elim disjE) (simp_all add: digit_char_def is_space_def)
qed

lemma nonblank_str_of_nat [nonblank_intro]: "nonblank (str_of_nat n)"
proof (induction n rule: str_of_nat.induct)
  case (1 n)
  show ?case
  proof (cases "n < 10")
    case True
    then show ?thesis by (subst str_of_nat.simps) (simp add: digit_char_not_space)
  next
    case False
    with "1.IH" show ?thesis by (subst str_of_nat.simps) simp
  qed
qed

lemma nonblank_str_of_int [nonblank_intro]: "nonblank (str_of_int i)"
  by (simp add: str_of_int_def nonblank_str_of_nat)

fun join :: "string \<Rightarrow> string list \<Rightarrow> string" where
  "join sep [] = []"
| "join sep [x] = x"
| "join sep (x # y # xs) = x @ sep @ join sep (y # xs)"

fun split_char :: "char \<Rightarrow> string \<Rightarrow> string list" where
  \<comment> \<open>\<open>value.split(c)\<close>: always at least one part\<close>
  "split_char c [] = [[]]"
| "split_char c (x # xs) =
     (if x = c then [] # split_char c xs
      else (case split_char c xs of [] \<Rightarrow> [[x]] | p # ps \<Rightarrow> (x # p) # ps))"

lemma split_char_not_Nil [simp]: "split_char c s \<noteq> []"
  by (induction s) (auto split: list.splits)

lemma split_char_no_sep: "p \<in> set (split_char c s) \<Longrightarrow> c \<notin> set p"
  by (induction s arbitrary: p) (auto split: list.splits if_splits)

lemma join_split_char: "join [c] (split_char c s) = s"
proof (induction s)
  case (Cons x xs)
  obtain p ps where ps: "split_char c xs = p # ps"
    by (cases "split_char c xs") auto
  with Cons.IH show ?case by (cases ps) auto
qed simp

fun split_words_aux :: "string \<Rightarrow> string \<Rightarrow> string list" where
  "split_words_aux cur [] = (if cur = [] then [] else [cur])"
| "split_words_aux cur (c # cs) =
     (if is_space c then (if cur = [] then [] else [cur]) @ split_words_aux [] cs
      else split_words_aux (cur @ [c]) cs)"

definition split_words :: "string \<Rightarrow> string list" where
  \<comment> \<open>\<open>value.split()\<close>\<close>
  "split_words s = split_words_aux [] s"

function replace_str :: "string \<Rightarrow> string \<Rightarrow> string \<Rightarrow> string" where
  \<comment> \<open>\<open>value.replace(old, new)\<close> for a non-empty \<open>old\<close>, left to right, not overlapping\<close>
  "replace_str old new [] = []"
| "replace_str old new (c # cs) =
     (if old \<noteq> [] \<and> take (length old) (c # cs) = old
      then new @ replace_str old new (drop (length old) (c # cs))
      else c # replace_str old new cs)"
  by pat_completeness auto
termination
  by (relation "measure (\<lambda>(old, new, s). length s)") (auto simp: Suc_le_eq length_greater_0_conv)

definition starts_with :: "string \<Rightarrow> string \<Rightarrow> bool" where
  \<comment> \<open>\<open>value.startswith(p)\<close>\<close>
  "starts_with p s \<longleftrightarrow> take (length p) s = p"

fun contains_str :: "string \<Rightarrow> string \<Rightarrow> bool" where
  \<comment> \<open>\<open>p in value\<close>\<close>
  "contains_str p [] \<longleftrightarrow> p = []"
| "contains_str p (c # cs) \<longleftrightarrow> starts_with p (c # cs) \<or> contains_str p cs"

lemma starts_with_iff: "starts_with p s \<longleftrightarrow> (\<exists>t. s = p @ t)"
  by (auto simp: starts_with_def) (metis append_take_drop_id)

lemma contains_str_iff: "contains_str p s \<longleftrightarrow> (\<exists>u v. s = u @ p @ v)"
proof (induction s)
  case (Cons c cs)
  show ?case
  proof
    assume "contains_str p (c # cs)"
    then consider "starts_with p (c # cs)" | "contains_str p cs" by auto
    then show "\<exists>u v. c # cs = u @ p @ v"
    proof cases
      case 1
      then show ?thesis by (metis append_Nil starts_with_iff)
    next
      case 2
      then show ?thesis using Cons.IH by (metis append_Cons)
    qed
  next
    assume "\<exists>u v. c # cs = u @ p @ v"
    then obtain u v where uv: "c # cs = u @ p @ v" by blast
    show "contains_str p (c # cs)"
    proof (cases u)
      case Nil
      with uv have "starts_with p (c # cs)" by (auto simp: starts_with_iff)
      then show ?thesis by simp
    next
      case (Cons a u')
      with uv show ?thesis using Cons.IH by auto
    qed
  qed
qed auto

lemma contains_str_sep:
  assumes "contains_str k (x @ d # y)" and "d \<notin> set k"
  shows "contains_str k x \<or> contains_str k y"
proof -
  from assms(1) obtain u v where uv: "x @ d # y = u @ k @ v" by (auto simp: contains_str_iff)
  then consider (left) w where "x = u @ k @ w" | (right) w where "y = w @ k @ v" | (mid) "d \<in> set k"
  proof -
    from uv consider (a) us where "x @ us = u" "d # y = us @ k @ v" | (b) us where "x = u @ us" "us @ d # y = k @ v"
      by (auto simp: append_eq_append_conv2)
    then show thesis
    proof cases
      case a
      show thesis
      proof (cases us)
        case Nil
        with a show thesis using that(1) [of "[]"] that(3) that(2) [of "[]"] by (cases k) auto
      next
        case (Cons e us')
        with a have "y = us' @ k @ v" by simp
        then show thesis by (rule that(2))
      qed
    next
      case b
      from b(2) consider (c) vs where "us = k @ vs" | (e) vs where "us @ vs = k" "d # y = vs @ v" "vs \<noteq> []"
        unfolding append_eq_append_conv2 by (metis append_Nil2)
      then show thesis
      proof cases
        case c
        with b(1) show thesis using that(1) by simp
      next
        case e
        then show thesis using that(3) by (cases vs) auto
      qed
    qed
  qed
  with assms(2) show ?thesis by cases (auto simp: contains_str_iff)
qed

lemma contains_str_append_left: "contains_str k x \<Longrightarrow> contains_str k (x @ y)"
  unfolding contains_str_iff by (metis append.assoc)

lemma contains_str_append_right: "contains_str k y \<Longrightarrow> contains_str k (x @ y)"
  unfolding contains_str_iff by (metis append.assoc)

lemma starts_with_Cons [simp]: "starts_with (a # p) (c # s) \<longleftrightarrow> a = c \<and> starts_with p s"
  by (auto simp: starts_with_iff)

lemma starts_with_Nil [simp]: "starts_with [] s"
  by (simp add: starts_with_def)

lemma starts_with_append_sep: "starts_with p (x @ d # y) \<Longrightarrow> d \<notin> set p \<Longrightarrow> starts_with p x"
proof (induction x arbitrary: p)
  case Nil
  then show ?case by (cases p) auto
next
  case (Cons a x)
  then show ?case by (cases p) auto
qed

lemma starts_with_append: "starts_with p x \<Longrightarrow> starts_with p (x @ y)"
  by (auto simp: starts_with_iff)

text \<open>Replacing a text by a marker that starts with a character the searched text lacks.\<close>

lemma starts_with_replace_str:
  assumes "d \<notin> set p"
  shows "starts_with p (replace_str old (d # m) s) \<Longrightarrow> starts_with p s"
  using assms
proof (induction old "d # m" s arbitrary: p rule: replace_str.induct)
  case (2 old c cs)
  then show ?case by (cases p) (auto split: if_splits)
qed simp

lemma replace_str_removes:
  assumes "k \<noteq> []" and "a \<notin> set k" and "b \<notin> set k" and "\<not> contains_str k m"
  shows "\<not> contains_str k (replace_str k (a # m @ [b]) s)"
  using assms
proof (induction k "a # m @ [b]" s rule: replace_str.induct)
  case (1 k)
  then show ?case by simp
next
  case (2 k c cs)
  let ?R = "a # m @ [b]"
  show ?case
  proof (cases "take (length k) (c # cs) = k")
    case True
    let ?rest = "replace_str k ?R (drop (length k) (c # cs))"
    from True "2.prems" have eq: "replace_str k ?R (c # cs) = [] @ a # (m @ b # ?rest)" by simp
    have "\<not> contains_str k ?rest" using True "2.hyps"(1) "2.prems" by simp
    then show ?thesis
      using contains_str_sep [of k "[]" a "m @ b # ?rest"] contains_str_sep [of k m b ?rest] "2.prems"
      unfolding eq by auto
  next
    case False
    then have eq: "replace_str k ?R (c # cs) = c # replace_str k ?R cs" by simp
    have IH: "\<not> contains_str k (replace_str k ?R cs)" using False "2.hyps"(2) "2.prems" by simp
    have "\<not> starts_with k (c # replace_str k ?R cs)"
    proof
      assume "starts_with k (c # replace_str k ?R cs)"
      then obtain k' where k: "k = c # k'" and "starts_with k' (replace_str k ?R cs)"
        using "2.prems"(1) by (cases k) auto
      with "2.prems"(2) have "starts_with k' cs" by (auto intro: starts_with_replace_str)
      with k have "starts_with k (c # cs)" by simp
      with False show False by (simp add: starts_with_def)
    qed
    with IH eq show ?thesis by simp
  qed
qed

fun splitlines_aux :: "string \<Rightarrow> string \<Rightarrow> string list" where
  "splitlines_aux cur [] = (if cur = [] then [] else [cur])"
| "splitlines_aux cur (c # cs) =
     (if c = CHR 0x0D
      then (case cs of d # ds \<Rightarrow> (if d = CHR 0x0A then cur # splitlines_aux [] ds
                                  else cur # splitlines_aux [] cs)
            | [] \<Rightarrow> [cur])
      else if c \<in> set [CHR 0x0A, CHR 0x0B, CHR 0x0C, CHR 0x1C, CHR 0x1D, CHR 0x1E, CHR 0x85]
      then cur # splitlines_aux [] cs
      else splitlines_aux (cur @ [c]) cs)"

definition splitlines :: "string \<Rightarrow> string list" where
  \<comment> \<open>\<open>value.splitlines()\<close>: a trailing line break opens no further line\<close>
  "splitlines s = splitlines_aux [] s"

section \<open>Lists, dictionaries, errors\<close>

definition dedupe_keep_order :: "'a list \<Rightarrow> 'a list" where
  \<comment> \<open>the idiom \<open>if x not in seen: out.append(x); seen.add(x)\<close>: first occurrences, in order\<close>
  "dedupe_keep_order xs = rev (foldl (\<lambda>acc x. if x \<in> set acc then acc else x # acc) [] xs)"

lemma foldl_dedupe_distinct:
  "distinct acc \<Longrightarrow> distinct (foldl (\<lambda>acc x. if x \<in> set acc then acc else x # acc) acc xs)"
  by (induction xs arbitrary: acc) auto

lemma foldl_dedupe_set:
  "set (foldl (\<lambda>acc x. if x \<in> set acc then acc else x # acc) acc xs) = set acc \<union> set xs"
  by (induction xs arbitrary: acc) auto

lemma distinct_dedupe [simp]: "distinct (dedupe_keep_order xs)"
  by (simp add: dedupe_keep_order_def foldl_dedupe_distinct)

lemma set_dedupe [simp]: "set (dedupe_keep_order xs) = set xs"
  by (simp add: dedupe_keep_order_def foldl_dedupe_set)

lemma dedupe_Nil [simp]: "dedupe_keep_order [] = []"
  by (simp add: dedupe_keep_order_def)

lemma dedupe_snoc:
  "dedupe_keep_order (xs @ [x]) = (if x \<in> set xs then dedupe_keep_order xs else dedupe_keep_order xs @ [x])"
  using foldl_dedupe_set [of "[]" xs] by (simp add: dedupe_keep_order_def)

definition is_err :: "'e + 'a \<Rightarrow> bool" where
  "is_err r \<longleftrightarrow> (case r of Inl _ \<Rightarrow> True | Inr _ \<Rightarrow> False)"

lemma is_err_simps [simp]: "is_err (Inl e)" "\<not> is_err (Inr a)"
  by (simp_all add: is_err_def)

definition bind_sum :: "'e + 'a \<Rightarrow> ('a \<Rightarrow> 'e + 'b) \<Rightarrow> 'e + 'b" where
  \<comment> \<open>a raise stops the rest of the function\<close>
  "bind_sum m f = (case m of Inl e \<Rightarrow> Inl e | Inr a \<Rightarrow> f a)"

lemma bind_sum_simps [simp]:
  "bind_sum (Inl e) f = Inl e" "bind_sum (Inr a) f = f a"
  by (simp_all add: bind_sum_def)

lemma bind_sum_eq_Inr: "bind_sum m f = Inr b \<longleftrightarrow> (\<exists>a. m = Inr a \<and> f a = Inr b)"
  by (cases m) auto

lemma bind_sum_eq_Inl: "bind_sum m f = Inl e \<longleftrightarrow> m = Inl e \<or> (\<exists>a. m = Inr a \<and> f a = Inl e)"
  by (cases m) auto

definition or_else :: "string \<Rightarrow> string \<Rightarrow> string" where
  \<comment> \<open>\<open>a or b\<close> on texts\<close>
  "or_else a b = (if a = [] then b else a)"

end
