(* ===== verification/PyJson.thy ===== *)
theory PyJson
  imports Prelude
begin

text \<open>
  The values the worker reads out of decoded JSON (\<open>Any\<close> in the annotations): what
  \<open>json.loads\<close> returns. A \<open>dict\<close> is an association list (insertion order, one entry per key);
  a missing key and an explicit null both read as \<open>JNull\<close>, as \<open>value.get(key)\<close> gives None for
  both. A Python \<open>bool\<close> is an instance of \<open>int\<close>, which the readers that care exclude.
  A \<open>float\<close> is its exact rational value, or one of the three non-finite values.
\<close>

section \<open>Floats\<close>

datatype py_float = Fin rat | PosInf | NegInf | NotANum

fun float_le :: "py_float \<Rightarrow> py_float \<Rightarrow> bool" where
  \<comment> \<open>\<open>a <= b\<close>: every comparison with NaN is False\<close>
  "float_le NotANum b = False"
| "float_le a NotANum = False"
| "float_le NegInf b = True"
| "float_le a PosInf = True"
| "float_le (Fin x) (Fin y) = (x \<le> y)"
| "float_le a b = False"

definition float_gt :: "py_float \<Rightarrow> py_float \<Rightarrow> bool" where
  "float_gt a b \<longleftrightarrow> float_le b a \<and> \<not> float_le a b"

definition unit_interval :: "py_float \<Rightarrow> bool" where
  "unit_interval x \<longleftrightarrow> float_le (Fin 0) x \<and> float_le x (Fin 1)"

lemma unit_interval_iff: "unit_interval x \<longleftrightarrow> (\<exists>q. x = Fin q \<and> 0 \<le> q \<and> q \<le> 1)"
  by (cases x) (auto simp: unit_interval_def)

lemma float_gt_Fin [simp]: "float_gt (Fin x) (Fin y) \<longleftrightarrow> y < x"
  by (auto simp: float_gt_def)

section \<open>JSON values\<close>

datatype json =
    JNull
  | JBool bool
  | JInt int
  | JFloat py_float
  | JStr string
  | JList "json list"
  | JObj "(string \<times> json) list"

type_synonym obj = "(string \<times> json) list"

definition obj_get :: "obj \<Rightarrow> string \<Rightarrow> json" where
  \<comment> \<open>\<open>value.get(key)\<close>\<close>
  "obj_get v k = (case map_of v k of None \<Rightarrow> JNull | Some j \<Rightarrow> j)"

lemma obj_get_Nil [simp]: "obj_get [] k = JNull"
  by (simp add: obj_get_def)

lemma obj_get_Cons [simp]: "obj_get ((k', j) # v) k = (if k = k' then j else obj_get v k)"
  by (simp add: obj_get_def)

definition as_mapping :: "json \<Rightarrow> obj option" where
  \<comment> \<open>\<open>isinstance(value, Mapping)\<close>\<close>
  "as_mapping j = (case j of JObj v \<Rightarrow> Some v | _ \<Rightarrow> None)"

definition opt_json :: "('a \<Rightarrow> json) \<Rightarrow> 'a option \<Rightarrow> json" where
  "opt_json f x = (case x of None \<Rightarrow> JNull | Some a \<Rightarrow> f a)"

lemma opt_json_simps [simp]: "opt_json f None = JNull" "opt_json f (Some a) = f a"
  by (simp_all add: opt_json_def)

lemma opt_json_JStr_simps [simp]:
  "opt_json JStr x = JStr s \<longleftrightarrow> x = Some s" "opt_json JStr x = JNull \<longleftrightarrow> x = None"
  "opt_json JInt y = JInt i \<longleftrightarrow> y = Some i" "opt_json JInt y = JNull \<longleftrightarrow> y = None"
  by (cases x; cases y; auto)+

section \<open>Truth values\<close>

fun json_truthy :: "json \<Rightarrow> bool" where
  "json_truthy JNull = False"
| "json_truthy (JBool b) = b"
| "json_truthy (JInt i) = (i \<noteq> 0)"
| "json_truthy (JFloat x) = (x \<noteq> Fin 0)"
| "json_truthy (JStr s) = (s \<noteq> [])"
| "json_truthy (JList xs) = (xs \<noteq> [])"
| "json_truthy (JObj kvs) = (kvs \<noteq> [])"

end
