(* ===== verification/Reader.thy ===== *)
theory Reader
  imports PyJson "HOL-Library.State_Monad"
begin

text \<open>
  The error-collecting readers of schemas/contracts.py. Every reader appends to one shared list
  \<open>errors\<close> and returns a value even for malformed input; \<open>_raise_if_errors\<close> raises once, at the
  end, with everything that was collected. The model is a state monad over that list, so the order
  of the messages is the order of the calls.

  \<open>yields m P\<close>: \<open>m\<close> only appends, and what it returns satisfies \<open>P\<close> whenever it appends nothing.
  \<open>accepts m a\<close>: \<open>m\<close> reports nothing and returns \<open>a\<close>. The locales \<open>contract_item\<close> and
  \<open>contract_document\<close> state what each artifact's reader promises against an encoding of its
  record; they are interpreted by every theory that models one.
\<close>

named_theorems reader_defs "definitions of the composed readers"
named_theorems yields_intro "soundness rules of the primitive readers"
named_theorems run_reader "what the primitive readers do with the error list"
named_theorems obj_run "what the composed readers do on their own encoding"

section \<open>The monad\<close>

type_synonym 'a reader = "(string list, 'a) state"

datatype contract_error = ContractValidationError (errors: "string list")

definition contract_error_str :: "contract_error \<Rightarrow> string" where
  "contract_error_str e = join ''; '' (errors e)"

abbreviation ret :: "'a \<Rightarrow> 'a reader" where
  "ret \<equiv> State_Monad.return"

definition report :: "string \<Rightarrow> unit reader" where
  \<comment> \<open>\<open>errors.append(msg)\<close>\<close>
  "report msg = State (\<lambda>es. ((), es @ [msg]))"

definition complain :: "string \<Rightarrow> 'a \<Rightarrow> 'a reader" where
  \<comment> \<open>append the message, go on with a neutral value\<close>
  "complain msg a = do { report msg; ret a }"

definition require :: "bool \<Rightarrow> string \<Rightarrow> unit reader" where
  "require b msg = (if b then ret () else report msg)"

definition raise_if_errors :: "'a reader \<Rightarrow> contract_error + 'a" where
  "raise_if_errors m = (case run_state m [] of (payload, es) \<Rightarrow>
     if es = [] then Inr payload else Inl (ContractValidationError es))"

definition yields :: "'a reader \<Rightarrow> ('a \<Rightarrow> bool) \<Rightarrow> bool" where
  "yields m P \<longleftrightarrow> (\<exists>v d. (\<forall>es. run_state m es = (v, es @ d)) \<and> (d = [] \<longrightarrow> P v))"

definition accepts :: "'a reader \<Rightarrow> 'a \<Rightarrow> bool" where
  "accepts m a \<longleftrightarrow> (\<forall>es. run_state m es = (a, es))"

lemma run_report [run_reader]: "run_state (report msg) es = ((), es @ [msg])"
  by (simp add: report_def)

lemma run_complain [run_reader]: "run_state (complain msg a) es = (a, es @ [msg])"
  by (simp add: complain_def run_report)

lemma run_require [run_reader]: "run_state (require b msg) es = ((), if b then es else es @ [msg])"
  by (simp add: require_def run_report)

lemma yields_return: "P v \<Longrightarrow> yields (ret v) P"
  by (simp add: yields_def)

lemma yields_bind:
  assumes "yields m P" and "\<And>v. yields (f v) (\<lambda>w. P v \<longrightarrow> Q w)"
  shows "yields (m \<bind> f) Q"
proof -
  from assms(1) obtain v d where m: "\<And>es. run_state m es = (v, es @ d)" and P: "d = [] \<longrightarrow> P v"
    by (auto simp: yields_def)
  from assms(2) [of v] obtain w d' where f: "\<And>es. run_state (f v) es = (w, es @ d')"
    and Q: "d' = [] \<longrightarrow> P v \<longrightarrow> Q w"
    by (auto simp: yields_def)
  have "run_state (m \<bind> f) es = (w, es @ (d @ d'))" for es
    by (simp add: m f)
  with P Q show ?thesis
    unfolding yields_def by (intro exI [of _ w] exI [of _ "d @ d'"]) auto
qed

lemma yields_mono: "yields m P \<Longrightarrow> (\<And>v. P v \<Longrightarrow> Q v) \<Longrightarrow> yields m Q"
  unfolding yields_def by blast

lemma yields_complain [yields_intro]: "yields (complain msg a) (\<lambda>_. False)"
  by (auto simp: yields_def run_complain)

lemma yields_require [yields_intro]: "yields (require b msg) (\<lambda>_. b)"
  by (auto simp: yields_def run_require)

lemma yields_if: "yields a P \<Longrightarrow> yields b Q \<Longrightarrow> yields (if c then a else b) (\<lambda>v. if c then P v else Q v)"
  by simp

lemma accepts_return: "accepts (ret v) v"
  by (simp add: accepts_def)

lemma accepts_bind: "accepts m a \<Longrightarrow> accepts (f a) b \<Longrightarrow> accepts (m \<bind> f) b"
  by (simp add: accepts_def)

lemma accepts_run: "accepts m a \<Longrightarrow> run_state m es = (a, es)"
  by (simp add: accepts_def)

lemma raise_if_errors_sound: "yields m P \<Longrightarrow> raise_if_errors m = Inr a \<Longrightarrow> P a"
  by (auto simp: yields_def raise_if_errors_def split: if_splits)

lemma raise_if_errors_accepts: "accepts m a \<Longrightarrow> raise_if_errors m = Inr a"
  by (simp add: accepts_def raise_if_errors_def)

lemma raise_if_errors_Inl: "raise_if_errors m = Inl e \<Longrightarrow> errors e \<noteq> []"
  by (auto simp: raise_if_errors_def split: if_splits prod.splits)

section \<open>The primitive readers\<close>

definition join_path :: "string option \<Rightarrow> string \<Rightarrow> string" where
  "join_path prefix key = (case prefix of None \<Rightarrow> key | Some p \<Rightarrow> p @ ''.'' @ key)"

definition read_literal :: "obj \<Rightarrow> string \<Rightarrow> string \<Rightarrow> string option \<Rightarrow> string reader" where
  "read_literal v key expected prefix = do {
     require (obj_get v key = JStr expected) (join_path prefix key @ '' must be '' @ expected);
     ret expected }"

definition one_of_message :: "string list \<Rightarrow> string" where
  "one_of_message expected = '' must be one of '' @ join '', '' (sort expected)"

definition read_literal_from_set :: "obj \<Rightarrow> string \<Rightarrow> string list \<Rightarrow> string option \<Rightarrow> string reader" where
  "read_literal_from_set v key expected prefix =
     (case obj_get v key of
        JStr s \<Rightarrow> (if s \<in> set expected then ret s
                   else complain (join_path prefix key @ one_of_message expected) [])
      | _ \<Rightarrow> complain (join_path prefix key @ one_of_message expected) [])"

definition read_nullable_literal_from_set ::
  "obj \<Rightarrow> string \<Rightarrow> string list \<Rightarrow> string option \<Rightarrow> string option reader" where
  "read_nullable_literal_from_set v key expected prefix =
     (case obj_get v key of
        JNull \<Rightarrow> ret None
      | JStr s \<Rightarrow> (if s \<in> set expected then ret (Some s)
                   else complain (join_path prefix key @ one_of_message expected @ '' or null'') None)
      | _ \<Rightarrow> complain (join_path prefix key @ one_of_message expected @ '' or null'') None)"

definition as_object :: "json \<Rightarrow> string \<Rightarrow> obj reader" where
  "as_object j path = (case as_mapping j of Some v \<Rightarrow> ret v
                       | None \<Rightarrow> complain (path @ '' must be an object'') [])"

definition read_object :: "obj \<Rightarrow> string \<Rightarrow> string option \<Rightarrow> obj reader" where
  "read_object v key prefix = as_object (obj_get v key) (join_path prefix key)"

definition read_list :: "obj \<Rightarrow> string \<Rightarrow> string option \<Rightarrow> json list reader" where
  \<comment> \<open>the last argument is the whole path of the field, not a prefix\<close>
  "read_list v key path =
     (case obj_get v key of
        JList js \<Rightarrow> ret js
      | _ \<Rightarrow> complain ((case path of None \<Rightarrow> key | Some p \<Rightarrow> or_else p key) @ '' must be an array'') [])"

fun read_string_items :: "string \<Rightarrow> nat \<Rightarrow> json list \<Rightarrow> string list reader" where
  "read_string_items key i [] = ret []"
| "read_string_items key i (j # js) =
     (case j of
        JStr s \<Rightarrow>
          if s = [] then do {
            report (key @ ''['' @ str_of_nat i @ ''] must be a non-empty string'');
            read_string_items key (Suc i) js }
          else do { rest \<leftarrow> read_string_items key (Suc i) js; ret (s # rest) }
      | _ \<Rightarrow> do {
            report (key @ ''['' @ str_of_nat i @ ''] must be a non-empty string'');
            read_string_items key (Suc i) js })"

definition read_string_list :: "obj \<Rightarrow> string \<Rightarrow> string list reader" where
  "read_string_list v key = do { items \<leftarrow> read_list v key None; read_string_items key 0 items }"

definition read_str :: "obj \<Rightarrow> string \<Rightarrow> string option \<Rightarrow> string reader" where
  "read_str v key prefix =
     (case obj_get v key of JStr s \<Rightarrow> ret s
      | _ \<Rightarrow> complain (join_path prefix key @ '' must be a string'') [])"

definition read_value_non_empty_str :: "json \<Rightarrow> string \<Rightarrow> string reader" where
  "read_value_non_empty_str j path =
     (case j of
        JStr s \<Rightarrow> (if nonblank s then ret s else complain (path @ '' must be a non-empty string'') [])
      | _ \<Rightarrow> complain (path @ '' must be a non-empty string'') [])"

definition read_non_empty_str :: "obj \<Rightarrow> string \<Rightarrow> string option \<Rightarrow> string reader" where
  "read_non_empty_str v key prefix = read_value_non_empty_str (obj_get v key) (join_path prefix key)"

definition read_nullable_str :: "obj \<Rightarrow> string \<Rightarrow> string option \<Rightarrow> string option reader" where
  "read_nullable_str v key prefix =
     (case obj_get v key of
        JNull \<Rightarrow> ret None
      | JStr s \<Rightarrow> (if nonblank s then ret (Some s)
                   else complain (join_path prefix key @ '' must be a non-empty string or null'') None)
      | _ \<Rightarrow> complain (join_path prefix key @ '' must be a non-empty string or null'') None)"

definition read_bool :: "obj \<Rightarrow> string \<Rightarrow> string option \<Rightarrow> bool reader" where
  "read_bool v key prefix =
     (case obj_get v key of JBool b \<Rightarrow> ret b
      | _ \<Rightarrow> complain (join_path prefix key @ '' must be a boolean'') False)"

definition read_int :: "obj \<Rightarrow> string \<Rightarrow> string option \<Rightarrow> int reader" where
  "read_int v key prefix =
     (case obj_get v key of JInt i \<Rightarrow> ret i
      | _ \<Rightarrow> complain (join_path prefix key @ '' must be an integer'') 0)"

definition read_value_positive_int :: "json \<Rightarrow> string \<Rightarrow> int reader" where
  "read_value_positive_int j path =
     (case j of
        JInt i \<Rightarrow> (if i > 0 then ret i else complain (path @ '' must be a positive integer'') 1)
      | _ \<Rightarrow> complain (path @ '' must be a positive integer'') 1)"

definition read_positive_int :: "obj \<Rightarrow> string \<Rightarrow> string option \<Rightarrow> int reader" where
  "read_positive_int v key prefix = read_value_positive_int (obj_get v key) (join_path prefix key)"

definition read_non_negative_int :: "obj \<Rightarrow> string \<Rightarrow> string option \<Rightarrow> int reader" where
  "read_non_negative_int v key prefix =
     (case obj_get v key of
        JInt i \<Rightarrow> (if i \<ge> 0 then ret i
                   else complain (join_path prefix key @ '' must be a non-negative integer'') 0)
      | _ \<Rightarrow> complain (join_path prefix key @ '' must be a non-negative integer'') 0)"

definition read_nullable_positive_int :: "obj \<Rightarrow> string \<Rightarrow> string option \<Rightarrow> int option reader" where
  "read_nullable_positive_int v key prefix =
     (if obj_get v key = JNull then ret None
      else do { i \<leftarrow> read_value_positive_int (obj_get v key) (join_path prefix key); ret (Some i) })"

definition read_nullable_non_negative_int :: "obj \<Rightarrow> string \<Rightarrow> string option \<Rightarrow> int option reader" where
  "read_nullable_non_negative_int v key prefix =
     (case obj_get v key of
        JNull \<Rightarrow> ret None
      | JInt i \<Rightarrow> (if i \<ge> 0 then ret (Some i)
                   else complain (join_path prefix key @ '' must be a non-negative integer or null'') None)
      | _ \<Rightarrow> complain (join_path prefix key @ '' must be a non-negative integer or null'') None)"

definition read_confidence :: "obj \<Rightarrow> string \<Rightarrow> string option \<Rightarrow> py_float reader" where
  \<comment> \<open>\<open>float(actual)\<close> of the integers 0 and 1 is exact\<close>
  "read_confidence v key prefix =
     (case obj_get v key of
        JInt i \<Rightarrow> (if 0 \<le> i \<and> i \<le> 1 then ret (Fin (rat_of_int i))
                   else complain (join_path prefix key @ '' must be a number between 0 and 1'') (Fin 0))
      | JFloat x \<Rightarrow> (if unit_interval x then ret x
                     else complain (join_path prefix key @ '' must be a number between 0 and 1'') (Fin 0))
      | _ \<Rightarrow> complain (join_path prefix key @ '' must be a number between 0 and 1'') (Fin 0))"

definition nullable_line_bounds_ok :: "int option \<Rightarrow> int option \<Rightarrow> bool" where
  "nullable_line_bounds_ok s e \<longleftrightarrow> (case (s, e) of (None, None) \<Rightarrow> True
     | (Some a, Some b) \<Rightarrow> a \<le> b | _ \<Rightarrow> False)"

definition validate_nullable_line_bounds ::
  "int option \<Rightarrow> int option \<Rightarrow> string \<Rightarrow> string \<Rightarrow> unit reader" where
  "validate_nullable_line_bounds start_line end_line start_path end_path =
     (case (start_line, end_line) of
        (None, None) \<Rightarrow> ret ()
      | (Some s, Some e) \<Rightarrow>
          (if e < s then report (end_path @ '' must be greater than or equal to '' @ start_path)
           else ret ())
      | _ \<Rightarrow> report (start_path @ '' and '' @ end_path @ '' must both be set or both be null''))"

text \<open>
  \<open>[_read_x(item, f"{path}[{index}]", errors) for index, item in enumerate(items)]\<close>
\<close>

fun read_items_from :: "(json \<Rightarrow> string \<Rightarrow> 'a reader) \<Rightarrow> string \<Rightarrow> nat \<Rightarrow> json list \<Rightarrow> 'a list reader" where
  "read_items_from rd path i [] = ret []"
| "read_items_from rd path i (j # js) = do {
     x \<leftarrow> rd j (path @ ''['' @ str_of_nat i @ '']'');
     xs \<leftarrow> read_items_from rd path (Suc i) js;
     ret (x # xs) }"

definition read_items :: "(json \<Rightarrow> string \<Rightarrow> 'a reader) \<Rightarrow> string \<Rightarrow> json list \<Rightarrow> 'a list reader" where
  "read_items rd path js = read_items_from rd path 0 js"

section \<open>What the primitive readers promise\<close>

lemma yields_read_literal [yields_intro]:
  "yields (read_literal v key expected prefix) (\<lambda>s. s = expected \<and> obj_get v key = JStr expected)"
  by (auto simp: yields_def read_literal_def run_require)

lemma yields_read_literal_from_set [yields_intro]:
  "yields (read_literal_from_set v key expected prefix) (\<lambda>s. s \<in> set expected)"
  by (auto simp: yields_def read_literal_from_set_def run_complain split: json.split)

lemma yields_read_nullable_literal_from_set [yields_intro]:
  "yields (read_nullable_literal_from_set v key expected prefix) (pred_option (\<lambda>s. s \<in> set expected))"
  by (auto simp: yields_def read_nullable_literal_from_set_def run_complain split: json.split)

lemma yields_as_object [yields_intro]: "yields (as_object j path) (\<lambda>v. j = JObj v)"
  by (auto simp: yields_def as_object_def as_mapping_def run_complain split: json.split)

lemma yields_read_object [yields_intro]: "yields (read_object v key prefix) (\<lambda>w. obj_get v key = JObj w)"
  unfolding read_object_def by (rule yields_as_object)

lemma yields_read_list [yields_intro]: "yields (read_list v key path) (\<lambda>js. obj_get v key = JList js)"
  by (auto simp: yields_def read_list_def run_complain split: json.split)

lemma yields_read_str [yields_intro]: "yields (read_str v key prefix) (\<lambda>s. obj_get v key = JStr s)"
  by (auto simp: yields_def read_str_def run_complain split: json.split)

lemma yields_read_value_non_empty_str [yields_intro]: "yields (read_value_non_empty_str j path) nonblank"
  by (auto simp: yields_def read_value_non_empty_str_def run_complain split: json.split)

lemma yields_read_non_empty_str [yields_intro]: "yields (read_non_empty_str v key prefix) nonblank"
  unfolding read_non_empty_str_def by (rule yields_read_value_non_empty_str)

lemma yields_read_nullable_str [yields_intro]: "yields (read_nullable_str v key prefix) (pred_option nonblank)"
  by (auto simp: yields_def read_nullable_str_def run_complain split: json.split)

lemma yields_read_bool [yields_intro]: "yields (read_bool v key prefix) (\<lambda>b. obj_get v key = JBool b)"
  by (auto simp: yields_def read_bool_def run_complain split: json.split)

lemma yields_read_int [yields_intro]: "yields (read_int v key prefix) (\<lambda>i. obj_get v key = JInt i)"
  by (auto simp: yields_def read_int_def run_complain split: json.split)

lemma yields_read_value_positive_int [yields_intro]: "yields (read_value_positive_int j path) (\<lambda>i. 0 < i)"
  by (auto simp: yields_def read_value_positive_int_def run_complain split: json.split)

lemma yields_read_positive_int [yields_intro]: "yields (read_positive_int v key prefix) (\<lambda>i. 0 < i)"
  unfolding read_positive_int_def by (rule yields_read_value_positive_int)

lemma yields_read_non_negative_int [yields_intro]: "yields (read_non_negative_int v key prefix) (\<lambda>i. 0 \<le> i)"
  by (auto simp: yields_def read_non_negative_int_def run_complain split: json.split)

lemma yields_read_nullable_positive_int [yields_intro]:
  "yields (read_nullable_positive_int v key prefix) (pred_option (\<lambda>i. 0 < i))"
  unfolding read_nullable_positive_int_def
  by (auto simp: yields_def read_value_positive_int_def run_complain split: json.split)

lemma yields_read_nullable_non_negative_int [yields_intro]:
  "yields (read_nullable_non_negative_int v key prefix) (pred_option (\<lambda>i. 0 \<le> i))"
  by (auto simp: yields_def read_nullable_non_negative_int_def run_complain split: json.split)

lemma yields_read_confidence [yields_intro]: "yields (read_confidence v key prefix) unit_interval"
  by (auto simp: yields_def read_confidence_def run_complain unit_interval_iff split: json.split)

lemma yields_validate_nullable_line_bounds [yields_intro]:
  "yields (validate_nullable_line_bounds a b p q) (\<lambda>_. nullable_line_bounds_ok a b)"
  by (auto simp: yields_def validate_nullable_line_bounds_def nullable_line_bounds_ok_def run_report
      split: option.split)

lemma yields_read_items_from:
  "(\<And>j p. yields (rd j p) P) \<Longrightarrow> yields (read_items_from rd path i js) (list_all P)"
proof (induction js arbitrary: i)
  case Nil
  then show ?case by (simp add: yields_return)
next
  case (Cons j js)
  from Cons.prems have "yields (read_items_from rd path (Suc i) js) (list_all P)"
    by (rule Cons.IH)
  then show ?case
    by (auto intro!: yields_bind [OF Cons.prems] yields_bind yields_return)
qed

lemma yields_read_items: "(\<And>j p. yields (rd j p) P) \<Longrightarrow> yields (read_items rd path js) (list_all P)"
  unfolding read_items_def by (rule yields_read_items_from)

lemma yields_read_string_items: "yields (read_string_items key i js) (list_all (\<lambda>s. s \<noteq> []))"
proof (induction js arbitrary: i)
  case Nil
  then show ?case by (simp add: yields_return)
next
  case (Cons j js)
  have bad: "yields (do { report m; read_string_items key (Suc i) js }) (list_all (\<lambda>s. s \<noteq> []))" for m
    by (rule yields_bind [where P = "\<lambda>_. True"])
      (auto simp: yields_def run_report intro: yields_mono [OF Cons.IH, unfolded yields_def])
  show ?case
  proof (cases j)
    case (JStr s)
    then show ?thesis
      by (auto intro!: bad yields_bind [OF Cons.IH] yields_return)
  qed (use bad in simp_all)
qed

lemma yields_read_string_list [yields_intro]:
  "yields (read_string_list v key) (list_all (\<lambda>s. s \<noteq> []))"
  unfolding read_string_list_def
  by (rule yields_bind [OF yields_read_list])
    (rule yields_mono [OF yields_read_string_items], simp)

lemma accepts_read_items_from:
  "(\<And>a p. a \<in> set xs \<Longrightarrow> accepts (rd (enc a) p) a) \<Longrightarrow> accepts (read_items_from rd path i (map enc xs)) xs"
  by (induction xs arbitrary: i) (auto intro!: accepts_bind accepts_return)

lemma accepts_read_items:
  "(\<And>a p. a \<in> set xs \<Longrightarrow> accepts (rd (enc a) p) a) \<Longrightarrow> accepts (read_items rd path (map enc xs)) xs"
  unfolding read_items_def by (rule accepts_read_items_from)

lemma accepts_read_string_items:
  "list_all (\<lambda>s. s \<noteq> []) xs \<Longrightarrow> run_state (read_string_items key i (map JStr xs)) es = (xs, es)"
  by (induction xs arbitrary: i es) auto

lemma run_read_nullable_str [run_reader]:
  "obj_get v key = opt_json JStr x \<Longrightarrow> pred_option nonblank x \<Longrightarrow>
     run_state (read_nullable_str v key prefix) es = (x, es)"
  by (cases x) (simp_all add: read_nullable_str_def)

lemma run_read_nullable_literal_from_set [run_reader]:
  "obj_get v key = opt_json JStr x \<Longrightarrow> pred_option (\<lambda>s. s \<in> set expected) x \<Longrightarrow>
     run_state (read_nullable_literal_from_set v key expected prefix) es = (x, es)"
  by (cases x) (simp_all add: read_nullable_literal_from_set_def)

lemma run_read_nullable_positive_int [run_reader]:
  "obj_get v key = opt_json JInt x \<Longrightarrow> pred_option (\<lambda>i. 0 < i) x \<Longrightarrow>
     run_state (read_nullable_positive_int v key prefix) es = (x, es)"
  by (cases x) (simp_all add: read_nullable_positive_int_def read_value_positive_int_def)

lemma run_read_nullable_non_negative_int [run_reader]:
  "obj_get v key = opt_json JInt x \<Longrightarrow> pred_option (\<lambda>i. 0 \<le> i) x \<Longrightarrow>
     run_state (read_nullable_non_negative_int v key prefix) es = (x, es)"
  by (cases x) (simp_all add: read_nullable_non_negative_int_def)

lemma run_validate_nullable_line_bounds [run_reader]:
  "nullable_line_bounds_ok a b \<Longrightarrow> run_state (validate_nullable_line_bounds a b p q) es = ((), es)"
  by (cases a; cases b) (simp_all add: nullable_line_bounds_ok_def validate_nullable_line_bounds_def)

lemma run_read_text_items [run_reader]:
  "list_all nonblank xs \<Longrightarrow>
     run_state (read_items read_value_non_empty_str path (map JStr xs)) es = (xs, es)"
  by (rule accepts_run, rule accepts_read_items)
    (simp add: accepts_def read_value_non_empty_str_def list.pred_set)

lemma run_read_positive_items [run_reader]:
  "list_all (\<lambda>i. 0 < i) xs \<Longrightarrow>
     run_state (read_items read_value_positive_int path (map JInt xs)) es = (xs, es)"
  by (rule accepts_run, rule accepts_read_items)
    (simp add: accepts_def read_value_positive_int_def list.pred_set)

lemmas yields_text_items [yields_intro] = yields_read_items [OF yields_read_value_non_empty_str]
lemmas yields_positive_items [yields_intro] = yields_read_items [OF yields_read_value_positive_int]

lemmas primitive_readers =
  read_literal_def read_literal_from_set_def as_object_def
  as_mapping_def read_object_def read_list_def read_str_def read_value_non_empty_str_def
  read_non_empty_str_def read_bool_def read_int_def
  read_value_positive_int_def read_positive_int_def read_non_negative_int_def
  read_confidence_def
  read_string_list_def accepts_read_string_items
  run_report run_complain run_require

section \<open>Interfaces\<close>

text \<open>
  What the reader of one kind of item (\<open>_read_diff_line\<close>, \<open>_read_review_finding\<close>, ...) promises:
  a clean read gives a well-formed record, and the encoding of a well-formed record reads back
  as that record with no error, wherever it occurs.
\<close>

locale contract_item =
  fixes enc :: "'a \<Rightarrow> json"
    and rd :: "json \<Rightarrow> string \<Rightarrow> 'a reader"
    and ok :: "'a \<Rightarrow> bool"
  assumes sound: "yields (rd j p) ok"
    and complete: "ok a \<Longrightarrow> accepts (rd (enc a) p) a"
begin

lemma items_sound: "yields (read_items rd path js) (list_all ok)"
  by (rule yields_read_items) (rule sound)

lemma items_complete: "list_all ok xs \<Longrightarrow> accepts (read_items rd path (map enc xs)) xs"
  by (rule accepts_read_items) (simp add: complete list.pred_set)

lemma items_run: "list_all ok xs \<Longrightarrow> run_state (read_items rd path (map enc xs)) es = (xs, es)"
  by (rule accepts_run) (rule items_complete)

lemma item_run: "ok a \<Longrightarrow> run_state (rd (enc a) p) es = (a, es)"
  by (rule accepts_run) (rule complete)

lemma enc_inj: "ok a \<Longrightarrow> ok b \<Longrightarrow> enc a = enc b \<Longrightarrow> a = b"
  using item_run [of a] item_run [of b] by (metis prod.inject)

end

text \<open>The same for a whole document, read by a class method \<open>from_mapping\<close> that raises.\<close>

locale contract_document =
  fixes enc :: "'a \<Rightarrow> obj"
    and rd :: "obj \<Rightarrow> 'a reader"
    and ok :: "'a \<Rightarrow> bool"
    and from_mapping :: "obj \<Rightarrow> contract_error + 'a"
  assumes from_mapping_eq: "from_mapping v = raise_if_errors (rd v)"
    and doc_sound: "yields (rd v) ok"
    and doc_complete: "ok a \<Longrightarrow> accepts (rd (enc a)) a"
begin

lemma accepted_ok: "from_mapping v = Inr a \<Longrightarrow> ok a"
  unfolding from_mapping_eq by (rule raise_if_errors_sound [OF doc_sound])

lemma roundtrip: "ok a \<Longrightarrow> from_mapping (enc a) = Inr a"
  unfolding from_mapping_eq by (rule raise_if_errors_accepts) (rule doc_complete)

lemma canonical: "from_mapping v = Inr a \<Longrightarrow> from_mapping (enc a) = Inr a"
  by (rule roundtrip) (rule accepted_ok)

lemma rejected_reports: "from_mapping v = Inl e \<Longrightarrow> errors e \<noteq> []"
  unfolding from_mapping_eq by (rule raise_if_errors_Inl)

lemma ok_iff_accepted: "ok a \<longleftrightarrow> from_mapping (enc a) = Inr a"
  using roundtrip accepted_ok by blast

end

end
