(* ===== verification/ContractsDiff.thy ===== *)
theory ContractsDiff
  imports Reader
begin

text \<open>
  schemas/contracts.py: the scalar vocabularies, \<open>Position\<close>, \<open>LineRange\<close>, and the diff artifact
  (\<open>DiffArtifact\<close> with its files, hunks, lines and skipped files). For every class: its record, its
  reader (the class's \<open>_read_...\<close> function or \<open>from_mapping\<close>), the JSON object the contract
  describes (\<open>enc_...\<close>) and the well-formedness a clean read guarantees (\<open>ok_...\<close>).
\<close>

section \<open>Vocabularies\<close>

definition DIFF_ARTIFACT_SCHEMA_VERSION :: string where
  "DIFF_ARTIFACT_SCHEMA_VERSION = ''diff-artifact/v1''"

definition FILE_STATUSES :: "string list" where
  "FILE_STATUSES = [''added'', ''deleted'', ''modified'', ''renamed'', ''copied'', ''unknown'']"

definition SEVERITIES :: "string list" where
  "SEVERITIES = [''info'', ''low'', ''medium'', ''high'', ''critical'']"

definition FINDING_SOURCES :: "string list" where
  "FINDING_SOURCES = [''llm'', ''semgrep'', ''tree_sitter'', ''ci'', ''policy'']"

definition FINDING_CATEGORIES :: "string list" where
  "FINDING_CATEGORIES = [''bug'', ''security'', ''performance'', ''maintainability'', ''testing'', ''ci'',
     ''infrastructure'', ''documentation'']"

section \<open>Positions and line ranges\<close>


record Position =
  ps_line :: int
  ps_column :: int
  ps_offset :: "int option"

definition read_position :: "bool \<Rightarrow> json \<Rightarrow> string \<Rightarrow> Position reader" where
  "read_position include_offset value path = do {
     item \<leftarrow> as_object value path;
     line' \<leftarrow> read_positive_int item ''line'' (Some path);
     column' \<leftarrow> read_non_negative_int item ''column'' (Some path);
     offset' \<leftarrow> (if include_offset then read_nullable_non_negative_int item ''offset'' (Some path) else ret None);
     ret \<lparr> ps_line = line', ps_column = column', ps_offset = offset' \<rparr> }"

abbreviation read_position_with_offset :: "json \<Rightarrow> string \<Rightarrow> Position reader" where
  "read_position_with_offset \<equiv> read_position True"

definition enc_position :: "Position \<Rightarrow> json" where
  "enc_position a = JObj [
       (''line'', JInt (ps_line a)),
       (''column'', JInt (ps_column a)),
       (''offset'', opt_json JInt (ps_offset a))]"

definition ok_position :: "Position \<Rightarrow> bool" where
  "ok_position a \<longleftrightarrow> 0 < ps_line a \<and>
     0 \<le> ps_column a \<and>
     pred_option (\<lambda>i. 0 \<le> i) (ps_offset a)"

interpretation position: contract_item enc_position read_position_with_offset ok_position
proof unfold_locales
  show "yields (read_position_with_offset j p) ok_position" for j p
    unfolding read_position_def if_True
    by (rule yields_bind yields_intro yields_return)+ (simp add: ok_position_def)
  show "accepts (read_position_with_offset (enc_position a) p) a" if "ok_position a" for a p
    using that
    by (simp add: accepts_def read_position_def enc_position_def ok_position_def run_reader primitive_readers)
qed

record LineRange =
  lr_start_line :: int
  lr_end_line :: int

definition read_line_range :: "json \<Rightarrow> string \<Rightarrow> LineRange reader" where
  "read_line_range value path = do {
     item \<leftarrow> as_object value path;
     start_line' \<leftarrow> read_positive_int item ''startLine'' (Some path);
     end_line' \<leftarrow> read_positive_int item ''endLine'' (Some path);
     ret \<lparr> lr_start_line = start_line',
        lr_end_line = end_line' \<rparr> }"

definition enc_line_range :: "LineRange \<Rightarrow> json" where
  "enc_line_range a = JObj [
       (''startLine'', JInt (lr_start_line a)),
       (''endLine'', JInt (lr_end_line a))]"

definition ok_line_range :: "LineRange \<Rightarrow> bool" where
  "ok_line_range a \<longleftrightarrow> 0 < lr_start_line a \<and>
     0 < lr_end_line a"

interpretation line_range: contract_item enc_line_range read_line_range ok_line_range
proof unfold_locales
  show "yields (read_line_range j p) ok_line_range" for j p
    unfolding read_line_range_def
    by (rule yields_bind yields_intro yields_return )+ (simp add: ok_line_range_def)
  show "accepts (read_line_range (enc_line_range a) p) a" if "ok_line_range a" for a p
    using that
    by (simp add: accepts_def read_line_range_def enc_line_range_def ok_line_range_def run_reader primitive_readers )
qed

definition read_nullable_line_range :: "json \<Rightarrow> string \<Rightarrow> LineRange option reader" where
  "read_nullable_line_range value path =
     (if value = JNull then ret None else do { r \<leftarrow> read_line_range value path; ret (Some r) })"

lemma yields_read_nullable_line_range: "yields (read_nullable_line_range j p) (pred_option ok_line_range)"
proof (cases "j = JNull")
  case True
  then show ?thesis by (simp add: read_nullable_line_range_def yields_return)
next
  case False
  then show ?thesis
    by (simp add: read_nullable_line_range_def)
      (intro yields_bind [OF line_range.sound] yields_return, simp)
qed

lemma run_read_nullable_line_range:
  "pred_option ok_line_range x \<Longrightarrow>
     run_state (read_nullable_line_range (opt_json enc_line_range x) p) es = (x, es)"
  by (cases x) (simp_all add: read_nullable_line_range_def line_range.item_run, simp add: enc_line_range_def)

section \<open>The diff artifact\<close>

record DiffLine =
  dl_type :: string
  dl_content :: string
  dl_old_line_number :: "int option"
  dl_new_line_number :: "int option"

definition read_diff_line :: "json \<Rightarrow> string \<Rightarrow> DiffLine reader" where
  "read_diff_line value path = do {
     item \<leftarrow> as_object value path;
     type' \<leftarrow> read_literal_from_set item ''type'' [''context'', ''addition'', ''deletion''] (Some path);
     content' \<leftarrow> read_str item ''content'' (Some path);
     old_line_number' \<leftarrow> read_nullable_positive_int item ''oldLineNumber'' (Some path);
     new_line_number' \<leftarrow> read_nullable_positive_int item ''newLineNumber'' (Some path);
     ret \<lparr> dl_type = type',
        dl_content = content',
        dl_old_line_number = old_line_number',
        dl_new_line_number = new_line_number' \<rparr> }"

definition enc_diff_line :: "DiffLine \<Rightarrow> json" where
  "enc_diff_line a = JObj [
       (''type'', JStr (dl_type a)),
       (''content'', JStr (dl_content a)),
       (''oldLineNumber'', opt_json JInt (dl_old_line_number a)),
       (''newLineNumber'', opt_json JInt (dl_new_line_number a))]"

definition ok_diff_line :: "DiffLine \<Rightarrow> bool" where
  "ok_diff_line a \<longleftrightarrow> dl_type a \<in> set [''context'', ''addition'', ''deletion''] \<and>
     pred_option (\<lambda>i. 0 < i) (dl_old_line_number a) \<and>
     pred_option (\<lambda>i. 0 < i) (dl_new_line_number a)"

interpretation diff_line: contract_item enc_diff_line read_diff_line ok_diff_line
proof unfold_locales
  show "yields (read_diff_line j p) ok_diff_line" for j p
    unfolding read_diff_line_def
    by (rule yields_bind yields_intro yields_return )+ (simp add: ok_diff_line_def)
  show "accepts (read_diff_line (enc_diff_line a) p) a" if "ok_diff_line a" for a p
    using that
    by (simp add: accepts_def read_diff_line_def enc_diff_line_def ok_diff_line_def run_reader primitive_readers )
qed

record DiffHunk =
  dh_old_start :: int
  dh_old_line_count :: int
  dh_new_start :: int
  dh_new_line_count :: int
  dh_section_header :: string
  dh_lines :: "DiffLine list"

definition read_diff_hunk :: "json \<Rightarrow> string \<Rightarrow> DiffHunk reader" where
  "read_diff_hunk value path = do {
     item \<leftarrow> as_object value path;
     old_start' \<leftarrow> read_positive_int item ''oldStart'' (Some path);
     old_line_count' \<leftarrow> read_non_negative_int item ''oldLineCount'' (Some path);
     new_start' \<leftarrow> read_positive_int item ''newStart'' (Some path);
     new_line_count' \<leftarrow> read_non_negative_int item ''newLineCount'' (Some path);
     section_header' \<leftarrow> read_str item ''sectionHeader'' (Some path);
     lines_js \<leftarrow> read_list item ''lines'' (Some (path @ ''.lines''));
     lines' \<leftarrow> read_items read_diff_line (path @ ''.lines'') lines_js;
     ret \<lparr> dh_old_start = old_start',
        dh_old_line_count = old_line_count',
        dh_new_start = new_start',
        dh_new_line_count = new_line_count',
        dh_section_header = section_header',
        dh_lines = lines' \<rparr> }"

definition enc_diff_hunk :: "DiffHunk \<Rightarrow> json" where
  "enc_diff_hunk a = JObj [
       (''oldStart'', JInt (dh_old_start a)),
       (''oldLineCount'', JInt (dh_old_line_count a)),
       (''newStart'', JInt (dh_new_start a)),
       (''newLineCount'', JInt (dh_new_line_count a)),
       (''sectionHeader'', JStr (dh_section_header a)),
       (''lines'', JList (map enc_diff_line (dh_lines a)))]"

definition ok_diff_hunk :: "DiffHunk \<Rightarrow> bool" where
  "ok_diff_hunk a \<longleftrightarrow> 0 < dh_old_start a \<and>
     0 \<le> dh_old_line_count a \<and>
     0 < dh_new_start a \<and>
     0 \<le> dh_new_line_count a \<and>
     list_all ok_diff_line (dh_lines a)"

interpretation diff_hunk: contract_item enc_diff_hunk read_diff_hunk ok_diff_hunk
proof unfold_locales
  show "yields (read_diff_hunk j p) ok_diff_hunk" for j p
    unfolding read_diff_hunk_def
    by (rule yields_bind yields_intro yields_return diff_line.sound diff_line.items_sound)+ (simp add: ok_diff_hunk_def)
  show "accepts (read_diff_hunk (enc_diff_hunk a) p) a" if "ok_diff_hunk a" for a p
    using that
    by (simp add: accepts_def read_diff_hunk_def enc_diff_hunk_def ok_diff_hunk_def run_reader primitive_readers diff_line.item_run diff_line.items_run)
qed

record ChangedFileArtifact =
  cfa_path :: string
  cfa_previous_path :: "string option"
  cfa_status :: string
  cfa_additions :: int
  cfa_deletions :: int
  cfa_language :: "string option"
  cfa_patch :: "string option"
  cfa_head_content_sha256 :: "string option"
  cfa_size_bytes :: "int option"
  cfa_changed_new_lines :: "int list"
  cfa_hunks :: "DiffHunk list"

definition read_changed_file :: "json \<Rightarrow> string \<Rightarrow> ChangedFileArtifact reader" where
  "read_changed_file value path = do {
     item \<leftarrow> as_object value path;
     path' \<leftarrow> read_non_empty_str item ''path'' (Some path);
     previous_path' \<leftarrow> read_nullable_str item ''previousPath'' (Some path);
     status' \<leftarrow> read_literal_from_set item ''status'' FILE_STATUSES (Some path);
     additions' \<leftarrow> read_non_negative_int item ''additions'' (Some path);
     deletions' \<leftarrow> read_non_negative_int item ''deletions'' (Some path);
     language' \<leftarrow> read_nullable_str item ''language'' (Some path);
     patch' \<leftarrow> read_nullable_str item ''patch'' (Some path);
     head_content_sha256' \<leftarrow> read_nullable_str item ''headContentSha256'' (Some path);
     size_bytes' \<leftarrow> read_nullable_non_negative_int item ''sizeBytes'' (Some path);
     changed_new_lines_js \<leftarrow> read_list item ''changedNewLines'' (Some (path @ ''.changedNewLines''));
     changed_new_lines' \<leftarrow> read_items read_value_positive_int (path @ ''.changedNewLines'') changed_new_lines_js;
     hunks_js \<leftarrow> read_list item ''hunks'' (Some (path @ ''.hunks''));
     hunks' \<leftarrow> read_items read_diff_hunk (path @ ''.hunks'') hunks_js;
     ret \<lparr> cfa_path = path',
        cfa_previous_path = previous_path',
        cfa_status = status',
        cfa_additions = additions',
        cfa_deletions = deletions',
        cfa_language = language',
        cfa_patch = patch',
        cfa_head_content_sha256 = head_content_sha256',
        cfa_size_bytes = size_bytes',
        cfa_changed_new_lines = changed_new_lines',
        cfa_hunks = hunks' \<rparr> }"

definition enc_changed_file :: "ChangedFileArtifact \<Rightarrow> json" where
  "enc_changed_file a = JObj [
       (''path'', JStr (cfa_path a)),
       (''previousPath'', opt_json JStr (cfa_previous_path a)),
       (''status'', JStr (cfa_status a)),
       (''additions'', JInt (cfa_additions a)),
       (''deletions'', JInt (cfa_deletions a)),
       (''language'', opt_json JStr (cfa_language a)),
       (''patch'', opt_json JStr (cfa_patch a)),
       (''headContentSha256'', opt_json JStr (cfa_head_content_sha256 a)),
       (''sizeBytes'', opt_json JInt (cfa_size_bytes a)),
       (''changedNewLines'', JList (map JInt (cfa_changed_new_lines a))),
       (''hunks'', JList (map enc_diff_hunk (cfa_hunks a)))]"

definition ok_changed_file :: "ChangedFileArtifact \<Rightarrow> bool" where
  "ok_changed_file a \<longleftrightarrow> nonblank (cfa_path a) \<and>
     pred_option nonblank (cfa_previous_path a) \<and>
     cfa_status a \<in> set FILE_STATUSES \<and>
     0 \<le> cfa_additions a \<and>
     0 \<le> cfa_deletions a \<and>
     pred_option nonblank (cfa_language a) \<and>
     pred_option nonblank (cfa_patch a) \<and>
     pred_option nonblank (cfa_head_content_sha256 a) \<and>
     pred_option (\<lambda>i. 0 \<le> i) (cfa_size_bytes a) \<and>
     list_all (\<lambda>i. 0 < i) (cfa_changed_new_lines a) \<and>
     list_all ok_diff_hunk (cfa_hunks a)"

interpretation changed_file: contract_item enc_changed_file read_changed_file ok_changed_file
proof unfold_locales
  show "yields (read_changed_file j p) ok_changed_file" for j p
    unfolding read_changed_file_def
    by (rule yields_bind yields_intro yields_return diff_hunk.sound diff_hunk.items_sound)+ (simp add: ok_changed_file_def)
  show "accepts (read_changed_file (enc_changed_file a) p) a" if "ok_changed_file a" for a p
    using that
    by (simp add: accepts_def read_changed_file_def enc_changed_file_def ok_changed_file_def run_reader primitive_readers diff_hunk.item_run diff_hunk.items_run)
qed

record SkippedFileArtifact =
  sfa_path :: string
  sfa_previous_path :: "string option"
  sfa_status :: string
  sfa_reason :: string
  sfa_detail :: string
  sfa_excluded_from_semgrep :: bool
  sfa_excluded_from_tree_sitter :: bool
  sfa_excluded_from_llm_context :: bool

definition read_skipped_file :: "json \<Rightarrow> string \<Rightarrow> SkippedFileArtifact reader" where
  "read_skipped_file value path = do {
     item \<leftarrow> as_object value path;
     path' \<leftarrow> read_non_empty_str item ''path'' (Some path);
     previous_path' \<leftarrow> read_nullable_str item ''previousPath'' (Some path);
     status' \<leftarrow> read_literal_from_set item ''status'' FILE_STATUSES (Some path);
     reason' \<leftarrow> read_non_empty_str item ''reason'' (Some path);
     detail' \<leftarrow> read_non_empty_str item ''detail'' (Some path);
     excluded_from_semgrep' \<leftarrow> read_bool item ''excludedFromSemgrep'' (Some path);
     excluded_from_tree_sitter' \<leftarrow> read_bool item ''excludedFromTreeSitter'' (Some path);
     excluded_from_llm_context' \<leftarrow> read_bool item ''excludedFromLlmContext'' (Some path);
     ret \<lparr> sfa_path = path',
        sfa_previous_path = previous_path',
        sfa_status = status',
        sfa_reason = reason',
        sfa_detail = detail',
        sfa_excluded_from_semgrep = excluded_from_semgrep',
        sfa_excluded_from_tree_sitter = excluded_from_tree_sitter',
        sfa_excluded_from_llm_context = excluded_from_llm_context' \<rparr> }"

definition enc_skipped_file :: "SkippedFileArtifact \<Rightarrow> json" where
  "enc_skipped_file a = JObj [
       (''path'', JStr (sfa_path a)),
       (''previousPath'', opt_json JStr (sfa_previous_path a)),
       (''status'', JStr (sfa_status a)),
       (''reason'', JStr (sfa_reason a)),
       (''detail'', JStr (sfa_detail a)),
       (''excludedFromSemgrep'', JBool (sfa_excluded_from_semgrep a)),
       (''excludedFromTreeSitter'', JBool (sfa_excluded_from_tree_sitter a)),
       (''excludedFromLlmContext'', JBool (sfa_excluded_from_llm_context a))]"

definition ok_skipped_file :: "SkippedFileArtifact \<Rightarrow> bool" where
  "ok_skipped_file a \<longleftrightarrow> nonblank (sfa_path a) \<and>
     pred_option nonblank (sfa_previous_path a) \<and>
     sfa_status a \<in> set FILE_STATUSES \<and>
     nonblank (sfa_reason a) \<and>
     nonblank (sfa_detail a)"

interpretation skipped_file: contract_item enc_skipped_file read_skipped_file ok_skipped_file
proof unfold_locales
  show "yields (read_skipped_file j p) ok_skipped_file" for j p
    unfolding read_skipped_file_def
    by (rule yields_bind yields_intro yields_return )+ (simp add: ok_skipped_file_def)
  show "accepts (read_skipped_file (enc_skipped_file a) p) a" if "ok_skipped_file a" for a p
    using that
    by (simp add: accepts_def read_skipped_file_def enc_skipped_file_def ok_skipped_file_def run_reader primitive_readers )
qed

record DiffArtifact =
  da_schema_version :: string
  da_review_run_id :: string
  da_repository_full_name :: string
  da_pull_request_number :: int
  da_base_sha :: string
  da_head_sha :: string
  da_files :: "ChangedFileArtifact list"
  da_skipped_files :: "SkippedFileArtifact list"

definition DiffArtifact_reader :: "obj \<Rightarrow> DiffArtifact reader" where
  "DiffArtifact_reader value = do {
     read_literal value ''schemaVersion'' DIFF_ARTIFACT_SCHEMA_VERSION None;
     review_run_id' \<leftarrow> read_non_empty_str value ''reviewRunId'' None;
     repository_full_name' \<leftarrow> read_non_empty_str value ''repositoryFullName'' None;
     pull_request_number' \<leftarrow> read_positive_int value ''pullRequestNumber'' None;
     base_sha' \<leftarrow> read_non_empty_str value ''baseSha'' None;
     head_sha' \<leftarrow> read_non_empty_str value ''headSha'' None;
     files_js \<leftarrow> read_list value ''files'' None;
     files' \<leftarrow> read_items read_changed_file ''files'' files_js;
     skipped_files_js \<leftarrow> read_list value ''skippedFiles'' None;
     skipped_files' \<leftarrow> read_items read_skipped_file ''skippedFiles'' skipped_files_js;
     ret \<lparr> da_schema_version = DIFF_ARTIFACT_SCHEMA_VERSION,
        da_review_run_id = review_run_id',
        da_repository_full_name = repository_full_name',
        da_pull_request_number = pull_request_number',
        da_base_sha = base_sha',
        da_head_sha = head_sha',
        da_files = files',
        da_skipped_files = skipped_files' \<rparr> }"

definition DiffArtifact_from_mapping :: "obj \<Rightarrow> contract_error + DiffArtifact" where
  "DiffArtifact_from_mapping value = raise_if_errors (DiffArtifact_reader value)"

definition enc_DiffArtifact :: "DiffArtifact \<Rightarrow> obj" where
  "enc_DiffArtifact a = [
       (''schemaVersion'', JStr (da_schema_version a)),
       (''reviewRunId'', JStr (da_review_run_id a)),
       (''repositoryFullName'', JStr (da_repository_full_name a)),
       (''pullRequestNumber'', JInt (da_pull_request_number a)),
       (''baseSha'', JStr (da_base_sha a)),
       (''headSha'', JStr (da_head_sha a)),
       (''files'', JList (map enc_changed_file (da_files a))),
       (''skippedFiles'', JList (map enc_skipped_file (da_skipped_files a)))]"

definition ok_DiffArtifact :: "DiffArtifact \<Rightarrow> bool" where
  "ok_DiffArtifact a \<longleftrightarrow> da_schema_version a = DIFF_ARTIFACT_SCHEMA_VERSION \<and>
     nonblank (da_review_run_id a) \<and>
     nonblank (da_repository_full_name a) \<and>
     0 < da_pull_request_number a \<and>
     nonblank (da_base_sha a) \<and>
     nonblank (da_head_sha a) \<and>
     list_all ok_changed_file (da_files a) \<and>
     list_all ok_skipped_file (da_skipped_files a)"

interpretation DiffArtifact: contract_document enc_DiffArtifact DiffArtifact_reader ok_DiffArtifact DiffArtifact_from_mapping
proof unfold_locales
  show "DiffArtifact_from_mapping v = raise_if_errors (DiffArtifact_reader v)" for v
    by (rule DiffArtifact_from_mapping_def)
  show "yields (DiffArtifact_reader v) ok_DiffArtifact" for v
    unfolding DiffArtifact_reader_def
    by (rule yields_bind yields_intro yields_return changed_file.sound changed_file.items_sound skipped_file.sound skipped_file.items_sound)+ (simp add: ok_DiffArtifact_def)
  show "accepts (DiffArtifact_reader (enc_DiffArtifact a)) a" if "ok_DiffArtifact a" for a
    using that
    by (simp add: accepts_def DiffArtifact_reader_def enc_DiffArtifact_def ok_DiffArtifact_def run_reader primitive_readers changed_file.item_run changed_file.items_run skipped_file.item_run skipped_file.items_run)
qed

end
