(* ===== verification/ContractsJobs.thy ===== *)
theory ContractsJobs
  imports ContractsDiff
begin

text \<open>
  schemas/contracts.py: the two job payloads the worker consumes, \<open>ReviewJobInput\<close> and
  \<open>CodebaseScanJobInput\<close> with its optional \<open>CodebaseScanJobConfig\<close>.
\<close>

definition REVIEW_JOB_INPUT_SCHEMA_VERSION :: string where
  "REVIEW_JOB_INPUT_SCHEMA_VERSION = ''review-job-input/v1''"

definition CODEBASE_SCAN_JOB_INPUT_SCHEMA_VERSION :: string where
  "CODEBASE_SCAN_JOB_INPUT_SCHEMA_VERSION = ''codebase-scan-job-input/v1''"

definition CODEBASE_SCAN_TRIGGERS :: "string list" where
  "CODEBASE_SCAN_TRIGGERS = [''install'', ''scheduled'', ''manual'', ''push'']"

record ReviewJobInput =
  rj_schema_version :: string
  rj_delivery_id :: string
  rj_review_run_id :: string
  rj_repository_id :: string
  rj_pull_request_id :: string
  rj_pull_request_number :: int
  rj_head_sha :: string
  rj_trigger_event :: string

definition ReviewJobInput_reader :: "obj \<Rightarrow> ReviewJobInput reader" where
  "ReviewJobInput_reader value = do {
     read_literal value ''schemaVersion'' REVIEW_JOB_INPUT_SCHEMA_VERSION None;
     delivery_id' \<leftarrow> read_non_empty_str value ''deliveryId'' None;
     review_run_id' \<leftarrow> read_non_empty_str value ''reviewRunId'' None;
     repository_id' \<leftarrow> read_non_empty_str value ''repositoryId'' None;
     pull_request_id' \<leftarrow> read_non_empty_str value ''pullRequestId'' None;
     pull_request_number' \<leftarrow> read_positive_int value ''pullRequestNumber'' None;
     head_sha' \<leftarrow> read_non_empty_str value ''headSha'' None;
     trigger_event' \<leftarrow> read_non_empty_str value ''triggerEvent'' None;
     ret \<lparr> rj_schema_version = REVIEW_JOB_INPUT_SCHEMA_VERSION,
        rj_delivery_id = delivery_id',
        rj_review_run_id = review_run_id',
        rj_repository_id = repository_id',
        rj_pull_request_id = pull_request_id',
        rj_pull_request_number = pull_request_number',
        rj_head_sha = head_sha',
        rj_trigger_event = trigger_event' \<rparr> }"

definition ReviewJobInput_from_mapping :: "obj \<Rightarrow> contract_error + ReviewJobInput" where
  "ReviewJobInput_from_mapping value = raise_if_errors (ReviewJobInput_reader value)"

definition enc_ReviewJobInput :: "ReviewJobInput \<Rightarrow> obj" where
  "enc_ReviewJobInput a = [
       (''schemaVersion'', JStr (rj_schema_version a)),
       (''deliveryId'', JStr (rj_delivery_id a)),
       (''reviewRunId'', JStr (rj_review_run_id a)),
       (''repositoryId'', JStr (rj_repository_id a)),
       (''pullRequestId'', JStr (rj_pull_request_id a)),
       (''pullRequestNumber'', JInt (rj_pull_request_number a)),
       (''headSha'', JStr (rj_head_sha a)),
       (''triggerEvent'', JStr (rj_trigger_event a))]"

definition ok_ReviewJobInput :: "ReviewJobInput \<Rightarrow> bool" where
  "ok_ReviewJobInput a \<longleftrightarrow> rj_schema_version a = REVIEW_JOB_INPUT_SCHEMA_VERSION \<and>
     nonblank (rj_delivery_id a) \<and>
     nonblank (rj_review_run_id a) \<and>
     nonblank (rj_repository_id a) \<and>
     nonblank (rj_pull_request_id a) \<and>
     0 < rj_pull_request_number a \<and>
     nonblank (rj_head_sha a) \<and>
     nonblank (rj_trigger_event a)"

interpretation ReviewJobInput: contract_document enc_ReviewJobInput ReviewJobInput_reader ok_ReviewJobInput ReviewJobInput_from_mapping
proof unfold_locales
  show "ReviewJobInput_from_mapping v = raise_if_errors (ReviewJobInput_reader v)" for v
    by (rule ReviewJobInput_from_mapping_def)
  show "yields (ReviewJobInput_reader v) ok_ReviewJobInput" for v
    unfolding ReviewJobInput_reader_def
    by (rule yields_bind yields_intro yields_return )+ (simp add: ok_ReviewJobInput_def)
  show "accepts (ReviewJobInput_reader (enc_ReviewJobInput a)) a" if "ok_ReviewJobInput a" for a
    using that
    by (simp add: accepts_def ReviewJobInput_reader_def enc_ReviewJobInput_def ok_ReviewJobInput_def run_reader primitive_readers )
qed

record CodebaseScanJobConfig =
  sc_ignored_paths :: "string list"
  sc_severity_threshold :: string
  sc_max_files :: int
  sc_max_bytes :: int

definition CodebaseScanJobConfig_from_mapping :: "obj \<Rightarrow> CodebaseScanJobConfig option reader" where
  "CodebaseScanJobConfig_from_mapping value =
     (case obj_get value ''scanConfig'' of
        JNull \<Rightarrow> ret None
      | JObj raw \<Rightarrow> do {
          ignored_paths' \<leftarrow> read_string_list raw ''ignoredPaths'';
          severity_threshold' \<leftarrow> read_literal_from_set raw ''severityThreshold'' SEVERITIES None;
          max_files' \<leftarrow> read_positive_int raw ''maxFiles'' None;
          max_bytes' \<leftarrow> read_positive_int raw ''maxBytes'' None;
          ret (Some \<lparr> sc_ignored_paths = ignored_paths',
                      sc_severity_threshold = severity_threshold',
                      sc_max_files = max_files',
                      sc_max_bytes = max_bytes' \<rparr>) }
      | _ \<Rightarrow> complain ''scanConfig must be an object'' None)"

definition enc_scan_config :: "CodebaseScanJobConfig \<Rightarrow> json" where
  "enc_scan_config a = JObj [
       (''ignoredPaths'', JList (map JStr (sc_ignored_paths a))),
       (''severityThreshold'', JStr (sc_severity_threshold a)),
       (''maxFiles'', JInt (sc_max_files a)),
       (''maxBytes'', JInt (sc_max_bytes a))]"

definition ok_scan_config :: "CodebaseScanJobConfig \<Rightarrow> bool" where
  "ok_scan_config a \<longleftrightarrow> list_all (\<lambda>s. s \<noteq> []) (sc_ignored_paths a) \<and>
     sc_severity_threshold a \<in> set SEVERITIES \<and>
     0 < sc_max_files a \<and>
     0 < sc_max_bytes a"

lemma yields_scan_config: "yields (CodebaseScanJobConfig_from_mapping v) (pred_option ok_scan_config)"
proof (cases "obj_get v ''scanConfig''")
  case JNull
  then show ?thesis by (simp add: CodebaseScanJobConfig_from_mapping_def yields_return)
next
  case (JObj raw)
  then show ?thesis
    by (simp only: CodebaseScanJobConfig_from_mapping_def json.case)
      ((rule yields_bind yields_intro yields_return)+, simp add: ok_scan_config_def)
qed (simp_all add: CodebaseScanJobConfig_from_mapping_def yields_mono [OF yields_complain])

lemma run_scan_config:
  "obj_get v ''scanConfig'' = opt_json enc_scan_config x \<Longrightarrow> pred_option ok_scan_config x \<Longrightarrow>
     run_state (CodebaseScanJobConfig_from_mapping v) es = (x, es)"
  by (cases x)
    (simp_all add: CodebaseScanJobConfig_from_mapping_def enc_scan_config_def ok_scan_config_def
      run_reader primitive_readers)

record CodebaseScanJobInput =
  cj_schema_version :: string
  cj_scan_run_id :: "string option"
  cj_repository_id :: string
  cj_installation_id :: int
  cj_repository_full_name :: string
  cj_default_branch :: string
  cj_commit_sha :: "string option"
  cj_trigger :: string
  cj_correlation_id :: string
  cj_requested_by_user_id :: "string option"
  cj_scan_config :: "CodebaseScanJobConfig option"

definition CodebaseScanJobInput_reader :: "obj \<Rightarrow> CodebaseScanJobInput reader" where
  "CodebaseScanJobInput_reader value = do {
     read_literal value ''schemaVersion'' CODEBASE_SCAN_JOB_INPUT_SCHEMA_VERSION None;
     scan_run_id' \<leftarrow> read_nullable_str value ''scanRunId'' None;
     repository_id' \<leftarrow> read_non_empty_str value ''repositoryId'' None;
     installation_id' \<leftarrow> read_positive_int value ''installationId'' None;
     repository_full_name' \<leftarrow> read_non_empty_str value ''repositoryFullName'' None;
     default_branch' \<leftarrow> read_non_empty_str value ''defaultBranch'' None;
     commit_sha' \<leftarrow> read_nullable_str value ''commitSha'' None;
     trigger' \<leftarrow> read_literal_from_set value ''trigger'' CODEBASE_SCAN_TRIGGERS None;
     correlation_id' \<leftarrow> read_non_empty_str value ''correlationId'' None;
     requested_by_user_id' \<leftarrow> read_nullable_str value ''requestedByUserId'' None;
     scan_config' \<leftarrow> CodebaseScanJobConfig_from_mapping value;
     ret \<lparr> cj_schema_version = CODEBASE_SCAN_JOB_INPUT_SCHEMA_VERSION,
        cj_scan_run_id = scan_run_id',
        cj_repository_id = repository_id',
        cj_installation_id = installation_id',
        cj_repository_full_name = repository_full_name',
        cj_default_branch = default_branch',
        cj_commit_sha = commit_sha',
        cj_trigger = trigger',
        cj_correlation_id = correlation_id',
        cj_requested_by_user_id = requested_by_user_id',
        cj_scan_config = scan_config' \<rparr> }"

definition CodebaseScanJobInput_from_mapping :: "obj \<Rightarrow> contract_error + CodebaseScanJobInput" where
  "CodebaseScanJobInput_from_mapping value = raise_if_errors (CodebaseScanJobInput_reader value)"

definition enc_CodebaseScanJobInput :: "CodebaseScanJobInput \<Rightarrow> obj" where
  "enc_CodebaseScanJobInput a = [
       (''schemaVersion'', JStr (cj_schema_version a)),
       (''scanRunId'', opt_json JStr (cj_scan_run_id a)),
       (''repositoryId'', JStr (cj_repository_id a)),
       (''installationId'', JInt (cj_installation_id a)),
       (''repositoryFullName'', JStr (cj_repository_full_name a)),
       (''defaultBranch'', JStr (cj_default_branch a)),
       (''commitSha'', opt_json JStr (cj_commit_sha a)),
       (''trigger'', JStr (cj_trigger a)),
       (''correlationId'', JStr (cj_correlation_id a)),
       (''requestedByUserId'', opt_json JStr (cj_requested_by_user_id a)),
       (''scanConfig'', opt_json enc_scan_config (cj_scan_config a))]"

definition ok_CodebaseScanJobInput :: "CodebaseScanJobInput \<Rightarrow> bool" where
  "ok_CodebaseScanJobInput a \<longleftrightarrow> cj_schema_version a = CODEBASE_SCAN_JOB_INPUT_SCHEMA_VERSION \<and>
     pred_option nonblank (cj_scan_run_id a) \<and>
     nonblank (cj_repository_id a) \<and>
     0 < cj_installation_id a \<and>
     nonblank (cj_repository_full_name a) \<and>
     nonblank (cj_default_branch a) \<and>
     pred_option nonblank (cj_commit_sha a) \<and>
     cj_trigger a \<in> set CODEBASE_SCAN_TRIGGERS \<and>
     nonblank (cj_correlation_id a) \<and>
     pred_option nonblank (cj_requested_by_user_id a) \<and>
     pred_option ok_scan_config (cj_scan_config a)"

interpretation CodebaseScanJobInput: contract_document enc_CodebaseScanJobInput CodebaseScanJobInput_reader ok_CodebaseScanJobInput CodebaseScanJobInput_from_mapping
proof unfold_locales
  show "CodebaseScanJobInput_from_mapping v = raise_if_errors (CodebaseScanJobInput_reader v)" for v
    by (rule CodebaseScanJobInput_from_mapping_def)
  show "yields (CodebaseScanJobInput_reader v) ok_CodebaseScanJobInput" for v
    unfolding CodebaseScanJobInput_reader_def
    by (rule yields_bind yields_intro yields_return yields_scan_config)+ (simp add: ok_CodebaseScanJobInput_def)
  show "accepts (CodebaseScanJobInput_reader (enc_CodebaseScanJobInput a)) a" if "ok_CodebaseScanJobInput a" for a
    using that
    by (simp add: accepts_def CodebaseScanJobInput_reader_def enc_CodebaseScanJobInput_def ok_CodebaseScanJobInput_def run_reader primitive_readers run_scan_config)
qed

end
