(* ===== verification/ContractsSemgrep.thy ===== *)
theory ContractsSemgrep
  imports ContractsDiff
begin

text \<open>
  schemas/contracts.py: the Semgrep artifact (findings with their positions, errors, scanned and
  skipped paths).
\<close>

definition SEMGREP_ARTIFACT_SCHEMA_VERSION :: string where
  "SEMGREP_ARTIFACT_SCHEMA_VERSION = ''semgrep-artifact/v1''"

record SemgrepFinding =
  sgf_id :: string
  sgf_rule_id :: string
  sgf_path :: string
  sgf_start :: Position
  sgf_end :: Position
  sgf_severity :: string
  sgf_source_severity :: string
  sgf_message :: string
  sgf_fingerprint :: "string option"
  sgf_lines :: string
  sgf_metadata :: obj
  sgf_fix :: "string option"

definition read_semgrep_finding :: "json \<Rightarrow> string \<Rightarrow> SemgrepFinding reader" where
  "read_semgrep_finding value path = do {
     item \<leftarrow> as_object value path;
     metadata' \<leftarrow> as_object (obj_get item ''metadata'') (path @ ''.metadata'');
     id' \<leftarrow> read_non_empty_str item ''id'' (Some path);
     rule_id' \<leftarrow> read_non_empty_str item ''ruleId'' (Some path);
     path' \<leftarrow> read_non_empty_str item ''path'' (Some path);
     start' \<leftarrow> read_position_with_offset (obj_get item ''start'') (path @ ''.start'');
     end' \<leftarrow> read_position_with_offset (obj_get item ''end'') (path @ ''.end'');
     severity' \<leftarrow> read_literal_from_set item ''severity'' SEVERITIES (Some path);
     source_severity' \<leftarrow> read_non_empty_str item ''sourceSeverity'' (Some path);
     message' \<leftarrow> read_non_empty_str item ''message'' (Some path);
     fingerprint' \<leftarrow> read_nullable_str item ''fingerprint'' (Some path);
     lines' \<leftarrow> read_str item ''lines'' (Some path);
     fix' \<leftarrow> read_nullable_str item ''fix'' (Some path);
     ret \<lparr> sgf_id = id',
        sgf_rule_id = rule_id',
        sgf_path = path',
        sgf_start = start',
        sgf_end = end',
        sgf_severity = severity',
        sgf_source_severity = source_severity',
        sgf_message = message',
        sgf_fingerprint = fingerprint',
        sgf_lines = lines',
        sgf_metadata = metadata',
        sgf_fix = fix' \<rparr> }"

definition enc_semgrep_finding :: "SemgrepFinding \<Rightarrow> json" where
  "enc_semgrep_finding a = JObj [
       (''id'', JStr (sgf_id a)),
       (''ruleId'', JStr (sgf_rule_id a)),
       (''path'', JStr (sgf_path a)),
       (''start'', enc_position (sgf_start a)),
       (''end'', enc_position (sgf_end a)),
       (''severity'', JStr (sgf_severity a)),
       (''sourceSeverity'', JStr (sgf_source_severity a)),
       (''message'', JStr (sgf_message a)),
       (''fingerprint'', opt_json JStr (sgf_fingerprint a)),
       (''lines'', JStr (sgf_lines a)),
       (''metadata'', JObj (sgf_metadata a)),
       (''fix'', opt_json JStr (sgf_fix a))]"

definition ok_semgrep_finding :: "SemgrepFinding \<Rightarrow> bool" where
  "ok_semgrep_finding a \<longleftrightarrow> nonblank (sgf_id a) \<and>
     nonblank (sgf_rule_id a) \<and>
     nonblank (sgf_path a) \<and>
     ok_position (sgf_start a) \<and>
     ok_position (sgf_end a) \<and>
     sgf_severity a \<in> set SEVERITIES \<and>
     nonblank (sgf_source_severity a) \<and>
     nonblank (sgf_message a) \<and>
     pred_option nonblank (sgf_fingerprint a) \<and>
     pred_option nonblank (sgf_fix a)"

interpretation semgrep_finding: contract_item enc_semgrep_finding read_semgrep_finding ok_semgrep_finding
proof unfold_locales
  show "yields (read_semgrep_finding j p) ok_semgrep_finding" for j p
    unfolding read_semgrep_finding_def
    by (rule yields_bind yields_intro yields_return position.sound position.items_sound)+ (simp add: ok_semgrep_finding_def)
  show "accepts (read_semgrep_finding (enc_semgrep_finding a) p) a" if "ok_semgrep_finding a" for a p
    using that
    by (simp add: accepts_def read_semgrep_finding_def enc_semgrep_finding_def ok_semgrep_finding_def run_reader primitive_readers position.item_run position.items_run)
qed

record SemgrepError =
  sge_code :: string
  sge_message :: string
  sge_path :: "string option"
  sge_severity :: string

definition read_semgrep_error :: "json \<Rightarrow> string \<Rightarrow> SemgrepError reader" where
  "read_semgrep_error value path = do {
     item \<leftarrow> as_object value path;
     code' \<leftarrow> read_non_empty_str item ''code'' (Some path);
     message' \<leftarrow> read_non_empty_str item ''message'' (Some path);
     path' \<leftarrow> read_nullable_str item ''path'' (Some path);
     severity' \<leftarrow> read_literal_from_set item ''severity'' [''info'', ''warning'', ''error''] (Some path);
     ret \<lparr> sge_code = code',
        sge_message = message',
        sge_path = path',
        sge_severity = severity' \<rparr> }"

definition enc_semgrep_error :: "SemgrepError \<Rightarrow> json" where
  "enc_semgrep_error a = JObj [
       (''code'', JStr (sge_code a)),
       (''message'', JStr (sge_message a)),
       (''path'', opt_json JStr (sge_path a)),
       (''severity'', JStr (sge_severity a))]"

definition ok_semgrep_error :: "SemgrepError \<Rightarrow> bool" where
  "ok_semgrep_error a \<longleftrightarrow> nonblank (sge_code a) \<and>
     nonblank (sge_message a) \<and>
     pred_option nonblank (sge_path a) \<and>
     sge_severity a \<in> set [''info'', ''warning'', ''error'']"

interpretation semgrep_error: contract_item enc_semgrep_error read_semgrep_error ok_semgrep_error
proof unfold_locales
  show "yields (read_semgrep_error j p) ok_semgrep_error" for j p
    unfolding read_semgrep_error_def
    by (rule yields_bind yields_intro yields_return )+ (simp add: ok_semgrep_error_def)
  show "accepts (read_semgrep_error (enc_semgrep_error a) p) a" if "ok_semgrep_error a" for a p
    using that
    by (simp add: accepts_def read_semgrep_error_def enc_semgrep_error_def ok_semgrep_error_def run_reader primitive_readers )
qed

record SemgrepSkippedPath =
  sgs_path :: string
  sgs_reason :: string
  sgs_detail :: "string option"

definition read_semgrep_skipped_path :: "json \<Rightarrow> string \<Rightarrow> SemgrepSkippedPath reader" where
  "read_semgrep_skipped_path value path = do {
     item \<leftarrow> as_object value path;
     path' \<leftarrow> read_non_empty_str item ''path'' (Some path);
     reason' \<leftarrow> read_non_empty_str item ''reason'' (Some path);
     detail' \<leftarrow> read_nullable_str item ''detail'' (Some path);
     ret \<lparr> sgs_path = path',
        sgs_reason = reason',
        sgs_detail = detail' \<rparr> }"

definition enc_semgrep_skipped_path :: "SemgrepSkippedPath \<Rightarrow> json" where
  "enc_semgrep_skipped_path a = JObj [
       (''path'', JStr (sgs_path a)),
       (''reason'', JStr (sgs_reason a)),
       (''detail'', opt_json JStr (sgs_detail a))]"

definition ok_semgrep_skipped_path :: "SemgrepSkippedPath \<Rightarrow> bool" where
  "ok_semgrep_skipped_path a \<longleftrightarrow> nonblank (sgs_path a) \<and>
     nonblank (sgs_reason a) \<and>
     pred_option nonblank (sgs_detail a)"

interpretation semgrep_skipped_path: contract_item enc_semgrep_skipped_path read_semgrep_skipped_path ok_semgrep_skipped_path
proof unfold_locales
  show "yields (read_semgrep_skipped_path j p) ok_semgrep_skipped_path" for j p
    unfolding read_semgrep_skipped_path_def
    by (rule yields_bind yields_intro yields_return )+ (simp add: ok_semgrep_skipped_path_def)
  show "accepts (read_semgrep_skipped_path (enc_semgrep_skipped_path a) p) a" if "ok_semgrep_skipped_path a" for a p
    using that
    by (simp add: accepts_def read_semgrep_skipped_path_def enc_semgrep_skipped_path_def ok_semgrep_skipped_path_def run_reader primitive_readers )
qed

record SemgrepArtifact =
  sga_schema_version :: string
  sga_review_run_id :: string
  sga_tool_version :: "string option"
  sga_exit_code :: int
  sga_duration_ms :: int
  sga_findings :: "SemgrepFinding list"
  sga_errors :: "SemgrepError list"
  sga_scanned_paths :: "string list"
  sga_skipped_paths :: "SemgrepSkippedPath list"

definition SemgrepArtifact_reader :: "obj \<Rightarrow> SemgrepArtifact reader" where
  "SemgrepArtifact_reader value = do {
     read_literal value ''schemaVersion'' SEMGREP_ARTIFACT_SCHEMA_VERSION None;
     paths' \<leftarrow> read_object value ''paths'' None;
     review_run_id' \<leftarrow> read_non_empty_str value ''reviewRunId'' None;
     tool_version' \<leftarrow> read_nullable_str value ''toolVersion'' None;
     exit_code' \<leftarrow> read_int value ''exitCode'' None;
     duration_ms' \<leftarrow> read_non_negative_int value ''durationMs'' None;
     findings_js \<leftarrow> read_list value ''findings'' None;
     findings' \<leftarrow> read_items read_semgrep_finding ''findings'' findings_js;
     errors_js \<leftarrow> read_list value ''errors'' None;
     errors' \<leftarrow> read_items read_semgrep_error ''errors'' errors_js;
     scanned_paths_js \<leftarrow> read_list paths' ''scanned'' (Some ''paths.scanned'');
     scanned_paths' \<leftarrow> read_items read_value_non_empty_str ''paths.scanned'' scanned_paths_js;
     skipped_paths_js \<leftarrow> read_list paths' ''skipped'' (Some ''paths.skipped'');
     skipped_paths' \<leftarrow> read_items read_semgrep_skipped_path ''paths.skipped'' skipped_paths_js;
     ret \<lparr> sga_schema_version = SEMGREP_ARTIFACT_SCHEMA_VERSION,
        sga_review_run_id = review_run_id',
        sga_tool_version = tool_version',
        sga_exit_code = exit_code',
        sga_duration_ms = duration_ms',
        sga_findings = findings',
        sga_errors = errors',
        sga_scanned_paths = scanned_paths',
        sga_skipped_paths = skipped_paths' \<rparr> }"

definition SemgrepArtifact_from_mapping :: "obj \<Rightarrow> contract_error + SemgrepArtifact" where
  "SemgrepArtifact_from_mapping value = raise_if_errors (SemgrepArtifact_reader value)"

definition enc_SemgrepArtifact :: "SemgrepArtifact \<Rightarrow> obj" where
  "enc_SemgrepArtifact a = [
       (''schemaVersion'', JStr (sga_schema_version a)),
       (''reviewRunId'', JStr (sga_review_run_id a)),
       (''toolVersion'', opt_json JStr (sga_tool_version a)),
       (''exitCode'', JInt (sga_exit_code a)),
       (''durationMs'', JInt (sga_duration_ms a)),
       (''findings'', JList (map enc_semgrep_finding (sga_findings a))),
       (''errors'', JList (map enc_semgrep_error (sga_errors a))),
       (''paths'', JObj [(''scanned'', JList (map JStr (sga_scanned_paths a))), (''skipped'', JList (map enc_semgrep_skipped_path (sga_skipped_paths a)))])]"

definition ok_SemgrepArtifact :: "SemgrepArtifact \<Rightarrow> bool" where
  "ok_SemgrepArtifact a \<longleftrightarrow> sga_schema_version a = SEMGREP_ARTIFACT_SCHEMA_VERSION \<and>
     nonblank (sga_review_run_id a) \<and>
     pred_option nonblank (sga_tool_version a) \<and>
     0 \<le> sga_duration_ms a \<and>
     list_all ok_semgrep_finding (sga_findings a) \<and>
     list_all ok_semgrep_error (sga_errors a) \<and>
     list_all nonblank (sga_scanned_paths a) \<and>
     list_all ok_semgrep_skipped_path (sga_skipped_paths a)"

interpretation SemgrepArtifact: contract_document enc_SemgrepArtifact SemgrepArtifact_reader ok_SemgrepArtifact SemgrepArtifact_from_mapping
proof unfold_locales
  show "SemgrepArtifact_from_mapping v = raise_if_errors (SemgrepArtifact_reader v)" for v
    by (rule SemgrepArtifact_from_mapping_def)
  show "yields (SemgrepArtifact_reader v) ok_SemgrepArtifact" for v
    unfolding SemgrepArtifact_reader_def
    by (rule yields_bind yields_intro yields_return semgrep_error.sound semgrep_error.items_sound semgrep_finding.sound semgrep_finding.items_sound semgrep_skipped_path.sound semgrep_skipped_path.items_sound)+ (simp add: ok_SemgrepArtifact_def)
  show "accepts (SemgrepArtifact_reader (enc_SemgrepArtifact a)) a" if "ok_SemgrepArtifact a" for a
    using that
    by (simp add: accepts_def SemgrepArtifact_reader_def enc_SemgrepArtifact_def ok_SemgrepArtifact_def run_reader primitive_readers semgrep_error.item_run semgrep_error.items_run semgrep_finding.item_run semgrep_finding.items_run semgrep_skipped_path.item_run semgrep_skipped_path.items_run)
qed

end
