(* ===== verification/ContractsTreeSitter.thy ===== *)
theory ContractsTreeSitter
  imports ContractsDiff
begin

text \<open>
  schemas/contracts.py: the tree-sitter artifact (symbols, imports and hunk scopes per file).
\<close>

definition TREE_SITTER_ARTIFACT_SCHEMA_VERSION :: string where
  "TREE_SITTER_ARTIFACT_SCHEMA_VERSION = ''tree-sitter-artifact/v1''"

record TreeSitterSymbol =
  tss_name :: string
  tss_kind :: string
  tss_range :: LineRange
  tss_start_byte :: int
  tss_end_byte :: int
  tss_changed :: bool

definition read_tree_sitter_symbol :: "json \<Rightarrow> string \<Rightarrow> TreeSitterSymbol reader" where
  "read_tree_sitter_symbol value path = do {
     item \<leftarrow> as_object value path;
     byte_range' \<leftarrow> read_object item ''byteRange'' (Some path);
     name' \<leftarrow> read_non_empty_str item ''name'' (Some path);
     kind' \<leftarrow> read_non_empty_str item ''kind'' (Some path);
     range' \<leftarrow> read_line_range (obj_get item ''range'') (path @ ''.range'');
     start_byte' \<leftarrow> read_non_negative_int byte_range' ''startByte'' (Some (path @ ''.byteRange''));
     end_byte' \<leftarrow> read_non_negative_int byte_range' ''endByte'' (Some (path @ ''.byteRange''));
     changed' \<leftarrow> read_bool item ''changed'' (Some path);
     ret \<lparr> tss_name = name',
        tss_kind = kind',
        tss_range = range',
        tss_start_byte = start_byte',
        tss_end_byte = end_byte',
        tss_changed = changed' \<rparr> }"

definition enc_tree_sitter_symbol :: "TreeSitterSymbol \<Rightarrow> json" where
  "enc_tree_sitter_symbol a = JObj [
       (''name'', JStr (tss_name a)),
       (''kind'', JStr (tss_kind a)),
       (''range'', enc_line_range (tss_range a)),
       (''changed'', JBool (tss_changed a)),
       (''byteRange'', JObj [(''startByte'', JInt (tss_start_byte a)), (''endByte'', JInt (tss_end_byte a))])]"

definition ok_tree_sitter_symbol :: "TreeSitterSymbol \<Rightarrow> bool" where
  "ok_tree_sitter_symbol a \<longleftrightarrow> nonblank (tss_name a) \<and>
     nonblank (tss_kind a) \<and>
     ok_line_range (tss_range a) \<and>
     0 \<le> tss_start_byte a \<and>
     0 \<le> tss_end_byte a"

interpretation tree_sitter_symbol: contract_item enc_tree_sitter_symbol read_tree_sitter_symbol ok_tree_sitter_symbol
proof unfold_locales
  show "yields (read_tree_sitter_symbol j p) ok_tree_sitter_symbol" for j p
    unfolding read_tree_sitter_symbol_def
    by (rule yields_bind yields_intro yields_return line_range.sound line_range.items_sound yields_read_nullable_line_range)+ (simp add: ok_tree_sitter_symbol_def)
  show "accepts (read_tree_sitter_symbol (enc_tree_sitter_symbol a) p) a" if "ok_tree_sitter_symbol a" for a p
    using that
    by (simp add: accepts_def read_tree_sitter_symbol_def enc_tree_sitter_symbol_def ok_tree_sitter_symbol_def run_reader primitive_readers line_range.item_run line_range.items_run run_read_nullable_line_range)
qed

record TreeSitterImport =
  tsi_source :: string
  tsi_symbols :: "string list"
  tsi_line :: int

definition read_tree_sitter_import :: "json \<Rightarrow> string \<Rightarrow> TreeSitterImport reader" where
  "read_tree_sitter_import value path = do {
     item \<leftarrow> as_object value path;
     source' \<leftarrow> read_non_empty_str item ''source'' (Some path);
     symbols_js \<leftarrow> read_list item ''symbols'' (Some (path @ ''.symbols''));
     symbols' \<leftarrow> read_items read_value_non_empty_str (path @ ''.symbols'') symbols_js;
     line' \<leftarrow> read_positive_int item ''line'' (Some path);
     ret \<lparr> tsi_source = source',
        tsi_symbols = symbols',
        tsi_line = line' \<rparr> }"

definition enc_tree_sitter_import :: "TreeSitterImport \<Rightarrow> json" where
  "enc_tree_sitter_import a = JObj [
       (''source'', JStr (tsi_source a)),
       (''symbols'', JList (map JStr (tsi_symbols a))),
       (''line'', JInt (tsi_line a))]"

definition ok_tree_sitter_import :: "TreeSitterImport \<Rightarrow> bool" where
  "ok_tree_sitter_import a \<longleftrightarrow> nonblank (tsi_source a) \<and>
     list_all nonblank (tsi_symbols a) \<and>
     0 < tsi_line a"

interpretation tree_sitter_import: contract_item enc_tree_sitter_import read_tree_sitter_import ok_tree_sitter_import
proof unfold_locales
  show "yields (read_tree_sitter_import j p) ok_tree_sitter_import" for j p
    unfolding read_tree_sitter_import_def
    by (rule yields_bind yields_intro yields_return )+ (simp add: ok_tree_sitter_import_def)
  show "accepts (read_tree_sitter_import (enc_tree_sitter_import a) p) a" if "ok_tree_sitter_import a" for a p
    using that
    by (simp add: accepts_def read_tree_sitter_import_def enc_tree_sitter_import_def ok_tree_sitter_import_def run_reader primitive_readers )
qed

record TreeSitterHunkScope =
  tsh_path :: string
  tsh_hunk_new_start :: int
  tsh_hunk_new_end :: int
  tsh_enclosing_symbol :: "string option"

definition read_tree_sitter_hunk_scope :: "json \<Rightarrow> string \<Rightarrow> TreeSitterHunkScope reader" where
  "read_tree_sitter_hunk_scope value path = do {
     item \<leftarrow> as_object value path;
     path' \<leftarrow> read_non_empty_str item ''path'' (Some path);
     hunk_new_start' \<leftarrow> read_positive_int item ''hunkNewStart'' (Some path);
     hunk_new_end' \<leftarrow> read_positive_int item ''hunkNewEnd'' (Some path);
     enclosing_symbol' \<leftarrow> read_nullable_str item ''enclosingSymbol'' (Some path);
     ret \<lparr> tsh_path = path',
        tsh_hunk_new_start = hunk_new_start',
        tsh_hunk_new_end = hunk_new_end',
        tsh_enclosing_symbol = enclosing_symbol' \<rparr> }"

definition enc_tree_sitter_hunk_scope :: "TreeSitterHunkScope \<Rightarrow> json" where
  "enc_tree_sitter_hunk_scope a = JObj [
       (''path'', JStr (tsh_path a)),
       (''hunkNewStart'', JInt (tsh_hunk_new_start a)),
       (''hunkNewEnd'', JInt (tsh_hunk_new_end a)),
       (''enclosingSymbol'', opt_json JStr (tsh_enclosing_symbol a))]"

definition ok_tree_sitter_hunk_scope :: "TreeSitterHunkScope \<Rightarrow> bool" where
  "ok_tree_sitter_hunk_scope a \<longleftrightarrow> nonblank (tsh_path a) \<and>
     0 < tsh_hunk_new_start a \<and>
     0 < tsh_hunk_new_end a \<and>
     pred_option nonblank (tsh_enclosing_symbol a)"

interpretation tree_sitter_hunk_scope: contract_item enc_tree_sitter_hunk_scope read_tree_sitter_hunk_scope ok_tree_sitter_hunk_scope
proof unfold_locales
  show "yields (read_tree_sitter_hunk_scope j p) ok_tree_sitter_hunk_scope" for j p
    unfolding read_tree_sitter_hunk_scope_def
    by (rule yields_bind yields_intro yields_return )+ (simp add: ok_tree_sitter_hunk_scope_def)
  show "accepts (read_tree_sitter_hunk_scope (enc_tree_sitter_hunk_scope a) p) a" if "ok_tree_sitter_hunk_scope a" for a p
    using that
    by (simp add: accepts_def read_tree_sitter_hunk_scope_def enc_tree_sitter_hunk_scope_def ok_tree_sitter_hunk_scope_def run_reader primitive_readers )
qed

record TreeSitterFileArtifact =
  tsf_path :: string
  tsf_language :: string
  tsf_parser :: string
  tsf_parse_status :: string
  tsf_has_error :: bool
  tsf_missing_node_count :: int
  tsf_error_node_count :: int
  tsf_symbols :: "TreeSitterSymbol list"
  tsf_imports :: "TreeSitterImport list"
  tsf_hunk_scopes :: "TreeSitterHunkScope list"
  tsf_errors :: "string list"

definition read_tree_sitter_file :: "json \<Rightarrow> string \<Rightarrow> TreeSitterFileArtifact reader" where
  "read_tree_sitter_file value path = do {
     item \<leftarrow> as_object value path;
     path' \<leftarrow> read_non_empty_str item ''path'' (Some path);
     language' \<leftarrow> read_non_empty_str item ''language'' (Some path);
     parser' \<leftarrow> read_non_empty_str item ''parser'' (Some path);
     parse_status' \<leftarrow> read_literal_from_set item ''parseStatus'' [''parsed'', ''partial'', ''failed'', ''unsupported''] (Some path);
     has_error' \<leftarrow> read_bool item ''hasError'' (Some path);
     missing_node_count' \<leftarrow> read_non_negative_int item ''missingNodeCount'' (Some path);
     error_node_count' \<leftarrow> read_non_negative_int item ''errorNodeCount'' (Some path);
     symbols_js \<leftarrow> read_list item ''symbols'' (Some (path @ ''.symbols''));
     symbols' \<leftarrow> read_items read_tree_sitter_symbol (path @ ''.symbols'') symbols_js;
     imports_js \<leftarrow> read_list item ''imports'' (Some (path @ ''.imports''));
     imports' \<leftarrow> read_items read_tree_sitter_import (path @ ''.imports'') imports_js;
     hunk_scopes_js \<leftarrow> read_list item ''hunkScopes'' (Some (path @ ''.hunkScopes''));
     hunk_scopes' \<leftarrow> read_items read_tree_sitter_hunk_scope (path @ ''.hunkScopes'') hunk_scopes_js;
     errors_js \<leftarrow> read_list item ''errors'' (Some (path @ ''.errors''));
     errors' \<leftarrow> read_items read_value_non_empty_str (path @ ''.errors'') errors_js;
     ret \<lparr> tsf_path = path',
        tsf_language = language',
        tsf_parser = parser',
        tsf_parse_status = parse_status',
        tsf_has_error = has_error',
        tsf_missing_node_count = missing_node_count',
        tsf_error_node_count = error_node_count',
        tsf_symbols = symbols',
        tsf_imports = imports',
        tsf_hunk_scopes = hunk_scopes',
        tsf_errors = errors' \<rparr> }"

definition enc_tree_sitter_file :: "TreeSitterFileArtifact \<Rightarrow> json" where
  "enc_tree_sitter_file a = JObj [
       (''path'', JStr (tsf_path a)),
       (''language'', JStr (tsf_language a)),
       (''parser'', JStr (tsf_parser a)),
       (''parseStatus'', JStr (tsf_parse_status a)),
       (''hasError'', JBool (tsf_has_error a)),
       (''missingNodeCount'', JInt (tsf_missing_node_count a)),
       (''errorNodeCount'', JInt (tsf_error_node_count a)),
       (''symbols'', JList (map enc_tree_sitter_symbol (tsf_symbols a))),
       (''imports'', JList (map enc_tree_sitter_import (tsf_imports a))),
       (''hunkScopes'', JList (map enc_tree_sitter_hunk_scope (tsf_hunk_scopes a))),
       (''errors'', JList (map JStr (tsf_errors a)))]"

definition ok_tree_sitter_file :: "TreeSitterFileArtifact \<Rightarrow> bool" where
  "ok_tree_sitter_file a \<longleftrightarrow> nonblank (tsf_path a) \<and>
     nonblank (tsf_language a) \<and>
     nonblank (tsf_parser a) \<and>
     tsf_parse_status a \<in> set [''parsed'', ''partial'', ''failed'', ''unsupported''] \<and>
     0 \<le> tsf_missing_node_count a \<and>
     0 \<le> tsf_error_node_count a \<and>
     list_all ok_tree_sitter_symbol (tsf_symbols a) \<and>
     list_all ok_tree_sitter_import (tsf_imports a) \<and>
     list_all ok_tree_sitter_hunk_scope (tsf_hunk_scopes a) \<and>
     list_all nonblank (tsf_errors a)"

interpretation tree_sitter_file: contract_item enc_tree_sitter_file read_tree_sitter_file ok_tree_sitter_file
proof unfold_locales
  show "yields (read_tree_sitter_file j p) ok_tree_sitter_file" for j p
    unfolding read_tree_sitter_file_def
    by (rule yields_bind yields_intro yields_return tree_sitter_hunk_scope.sound tree_sitter_hunk_scope.items_sound tree_sitter_import.sound tree_sitter_import.items_sound tree_sitter_symbol.sound tree_sitter_symbol.items_sound)+ (simp add: ok_tree_sitter_file_def)
  show "accepts (read_tree_sitter_file (enc_tree_sitter_file a) p) a" if "ok_tree_sitter_file a" for a p
    using that
    by (simp add: accepts_def read_tree_sitter_file_def enc_tree_sitter_file_def ok_tree_sitter_file_def run_reader primitive_readers tree_sitter_hunk_scope.item_run tree_sitter_hunk_scope.items_run tree_sitter_import.item_run tree_sitter_import.items_run tree_sitter_symbol.item_run tree_sitter_symbol.items_run)
qed

record TreeSitterArtifact =
  tsa_schema_version :: string
  tsa_review_run_id :: string
  tsa_parser_version :: "string option"
  tsa_files :: "TreeSitterFileArtifact list"

definition TreeSitterArtifact_reader :: "obj \<Rightarrow> TreeSitterArtifact reader" where
  "TreeSitterArtifact_reader value = do {
     read_literal value ''schemaVersion'' TREE_SITTER_ARTIFACT_SCHEMA_VERSION None;
     review_run_id' \<leftarrow> read_non_empty_str value ''reviewRunId'' None;
     parser_version' \<leftarrow> read_nullable_str value ''parserVersion'' None;
     files_js \<leftarrow> read_list value ''files'' None;
     files' \<leftarrow> read_items read_tree_sitter_file ''files'' files_js;
     ret \<lparr> tsa_schema_version = TREE_SITTER_ARTIFACT_SCHEMA_VERSION,
        tsa_review_run_id = review_run_id',
        tsa_parser_version = parser_version',
        tsa_files = files' \<rparr> }"

definition TreeSitterArtifact_from_mapping :: "obj \<Rightarrow> contract_error + TreeSitterArtifact" where
  "TreeSitterArtifact_from_mapping value = raise_if_errors (TreeSitterArtifact_reader value)"

definition enc_TreeSitterArtifact :: "TreeSitterArtifact \<Rightarrow> obj" where
  "enc_TreeSitterArtifact a = [
       (''schemaVersion'', JStr (tsa_schema_version a)),
       (''reviewRunId'', JStr (tsa_review_run_id a)),
       (''parserVersion'', opt_json JStr (tsa_parser_version a)),
       (''files'', JList (map enc_tree_sitter_file (tsa_files a)))]"

definition ok_TreeSitterArtifact :: "TreeSitterArtifact \<Rightarrow> bool" where
  "ok_TreeSitterArtifact a \<longleftrightarrow> tsa_schema_version a = TREE_SITTER_ARTIFACT_SCHEMA_VERSION \<and>
     nonblank (tsa_review_run_id a) \<and>
     pred_option nonblank (tsa_parser_version a) \<and>
     list_all ok_tree_sitter_file (tsa_files a)"

interpretation TreeSitterArtifact: contract_document enc_TreeSitterArtifact TreeSitterArtifact_reader ok_TreeSitterArtifact TreeSitterArtifact_from_mapping
proof unfold_locales
  show "TreeSitterArtifact_from_mapping v = raise_if_errors (TreeSitterArtifact_reader v)" for v
    by (rule TreeSitterArtifact_from_mapping_def)
  show "yields (TreeSitterArtifact_reader v) ok_TreeSitterArtifact" for v
    unfolding TreeSitterArtifact_reader_def
    by (rule yields_bind yields_intro yields_return tree_sitter_file.sound tree_sitter_file.items_sound)+ (simp add: ok_TreeSitterArtifact_def)
  show "accepts (TreeSitterArtifact_reader (enc_TreeSitterArtifact a)) a" if "ok_TreeSitterArtifact a" for a
    using that
    by (simp add: accepts_def TreeSitterArtifact_reader_def enc_TreeSitterArtifact_def ok_TreeSitterArtifact_def run_reader primitive_readers tree_sitter_file.item_run tree_sitter_file.items_run)
qed

end
