(* ===== verification/ContractsCi.thy ===== *)
theory ContractsCi
  imports ContractsDiff
begin

text \<open>
  schemas/contracts.py: the CI log artifact and the CI failure explanation artifact.
\<close>

definition CI_LOG_ARTIFACT_SCHEMA_VERSION :: string where
  "CI_LOG_ARTIFACT_SCHEMA_VERSION = ''ci-log-artifact/v1''"

definition CI_FAILURE_EXPLANATION_SCHEMA_VERSION :: string where
  "CI_FAILURE_EXPLANATION_SCHEMA_VERSION = ''ci-failure-explanation/v1''"

definition CI_LOG_UNAVAILABLE_REASONS :: "string list" where
  "CI_LOG_UNAVAILABLE_REASONS = [''checks_unavailable'', ''github_request_failed'', ''log_expired'', ''log_not_found'',
     ''missing_actions_permission'', ''missing_checks_permission'', ''not_github_actions'', ''workflow_job_unavailable'',
     ''workflow_run_unavailable'']"

definition CI_FAILURE_CATEGORIES :: "string list" where
  "CI_FAILURE_CATEGORIES = [''test_failure'', ''build_failure'', ''dependency_failure'', ''lint_failure'',
     ''typecheck_failure'', ''timeout'', ''cancellation'', ''infrastructure'',
     ''unknown'']"

record CiCheckRun =
  ccr_id :: int
  ccr_name :: string
  ccr_status :: string
  ccr_conclusion :: string
  ccr_app_slug :: "string option"
  ccr_details_url :: "string option"
  ccr_html_url :: "string option"
  ccr_workflow_run_id :: "int option"
  ccr_workflow_job_id :: "int option"
  ccr_started_at :: "string option"
  ccr_completed_at :: "string option"

definition read_ci_check_run :: "json \<Rightarrow> string \<Rightarrow> CiCheckRun reader" where
  "read_ci_check_run value path = do {
     item \<leftarrow> as_object value path;
     id' \<leftarrow> read_positive_int item ''id'' (Some path);
     name' \<leftarrow> read_non_empty_str item ''name'' (Some path);
     status' \<leftarrow> read_non_empty_str item ''status'' (Some path);
     conclusion' \<leftarrow> read_non_empty_str item ''conclusion'' (Some path);
     app_slug' \<leftarrow> read_nullable_str item ''appSlug'' (Some path);
     details_url' \<leftarrow> read_nullable_str item ''detailsUrl'' (Some path);
     html_url' \<leftarrow> read_nullable_str item ''htmlUrl'' (Some path);
     workflow_run_id' \<leftarrow> read_nullable_positive_int item ''workflowRunId'' (Some path);
     workflow_job_id' \<leftarrow> read_nullable_positive_int item ''workflowJobId'' (Some path);
     started_at' \<leftarrow> read_nullable_str item ''startedAt'' (Some path);
     completed_at' \<leftarrow> read_nullable_str item ''completedAt'' (Some path);
     ret \<lparr> ccr_id = id',
        ccr_name = name',
        ccr_status = status',
        ccr_conclusion = conclusion',
        ccr_app_slug = app_slug',
        ccr_details_url = details_url',
        ccr_html_url = html_url',
        ccr_workflow_run_id = workflow_run_id',
        ccr_workflow_job_id = workflow_job_id',
        ccr_started_at = started_at',
        ccr_completed_at = completed_at' \<rparr> }"

definition enc_ci_check_run :: "CiCheckRun \<Rightarrow> json" where
  "enc_ci_check_run a = JObj [
       (''id'', JInt (ccr_id a)),
       (''name'', JStr (ccr_name a)),
       (''status'', JStr (ccr_status a)),
       (''conclusion'', JStr (ccr_conclusion a)),
       (''appSlug'', opt_json JStr (ccr_app_slug a)),
       (''detailsUrl'', opt_json JStr (ccr_details_url a)),
       (''htmlUrl'', opt_json JStr (ccr_html_url a)),
       (''workflowRunId'', opt_json JInt (ccr_workflow_run_id a)),
       (''workflowJobId'', opt_json JInt (ccr_workflow_job_id a)),
       (''startedAt'', opt_json JStr (ccr_started_at a)),
       (''completedAt'', opt_json JStr (ccr_completed_at a))]"

definition ok_ci_check_run :: "CiCheckRun \<Rightarrow> bool" where
  "ok_ci_check_run a \<longleftrightarrow> 0 < ccr_id a \<and>
     nonblank (ccr_name a) \<and>
     nonblank (ccr_status a) \<and>
     nonblank (ccr_conclusion a) \<and>
     pred_option nonblank (ccr_app_slug a) \<and>
     pred_option nonblank (ccr_details_url a) \<and>
     pred_option nonblank (ccr_html_url a) \<and>
     pred_option (\<lambda>i. 0 < i) (ccr_workflow_run_id a) \<and>
     pred_option (\<lambda>i. 0 < i) (ccr_workflow_job_id a) \<and>
     pred_option nonblank (ccr_started_at a) \<and>
     pred_option nonblank (ccr_completed_at a)"

interpretation ci_check_run: contract_item enc_ci_check_run read_ci_check_run ok_ci_check_run
proof unfold_locales
  show "yields (read_ci_check_run j p) ok_ci_check_run" for j p
    unfolding read_ci_check_run_def
    by (rule yields_bind yields_intro yields_return )+ (simp add: ok_ci_check_run_def)
  show "accepts (read_ci_check_run (enc_ci_check_run a) p) a" if "ok_ci_check_run a" for a p
    using that
    by (simp add: accepts_def read_ci_check_run_def enc_ci_check_run_def ok_ci_check_run_def run_reader primitive_readers )
qed

record CiLogEntry =
  cle_check_run_id :: int
  cle_name :: string
  cle_source :: string
  cle_workflow_run_id :: "int option"
  cle_workflow_job_id :: int
  cle_content :: string
  cle_original_bytes :: int
  cle_redacted_bytes :: int
  cle_stored_bytes :: int
  cle_truncated :: bool
  cle_redacted :: bool

definition read_ci_log_entry :: "json \<Rightarrow> string \<Rightarrow> CiLogEntry reader" where
  "read_ci_log_entry value path = do {
     item \<leftarrow> as_object value path;
     check_run_id' \<leftarrow> read_positive_int item ''checkRunId'' (Some path);
     name' \<leftarrow> read_non_empty_str item ''name'' (Some path);
     source' \<leftarrow> read_literal_from_set item ''source'' [''github_actions_job''] (Some path);
     workflow_run_id' \<leftarrow> read_nullable_positive_int item ''workflowRunId'' (Some path);
     workflow_job_id' \<leftarrow> read_positive_int item ''workflowJobId'' (Some path);
     content' \<leftarrow> read_str item ''content'' (Some path);
     original_bytes' \<leftarrow> read_non_negative_int item ''originalBytes'' (Some path);
     redacted_bytes' \<leftarrow> read_non_negative_int item ''redactedBytes'' (Some path);
     stored_bytes' \<leftarrow> read_non_negative_int item ''storedBytes'' (Some path);
     truncated' \<leftarrow> read_bool item ''truncated'' (Some path);
     redacted' \<leftarrow> read_bool item ''redacted'' (Some path);
     ret \<lparr> cle_check_run_id = check_run_id',
        cle_name = name',
        cle_source = source',
        cle_workflow_run_id = workflow_run_id',
        cle_workflow_job_id = workflow_job_id',
        cle_content = content',
        cle_original_bytes = original_bytes',
        cle_redacted_bytes = redacted_bytes',
        cle_stored_bytes = stored_bytes',
        cle_truncated = truncated',
        cle_redacted = redacted' \<rparr> }"

definition enc_ci_log_entry :: "CiLogEntry \<Rightarrow> json" where
  "enc_ci_log_entry a = JObj [
       (''checkRunId'', JInt (cle_check_run_id a)),
       (''name'', JStr (cle_name a)),
       (''source'', JStr (cle_source a)),
       (''workflowRunId'', opt_json JInt (cle_workflow_run_id a)),
       (''workflowJobId'', JInt (cle_workflow_job_id a)),
       (''content'', JStr (cle_content a)),
       (''originalBytes'', JInt (cle_original_bytes a)),
       (''redactedBytes'', JInt (cle_redacted_bytes a)),
       (''storedBytes'', JInt (cle_stored_bytes a)),
       (''truncated'', JBool (cle_truncated a)),
       (''redacted'', JBool (cle_redacted a))]"

definition ok_ci_log_entry :: "CiLogEntry \<Rightarrow> bool" where
  "ok_ci_log_entry a \<longleftrightarrow> 0 < cle_check_run_id a \<and>
     nonblank (cle_name a) \<and>
     cle_source a \<in> set [''github_actions_job''] \<and>
     pred_option (\<lambda>i. 0 < i) (cle_workflow_run_id a) \<and>
     0 < cle_workflow_job_id a \<and>
     0 \<le> cle_original_bytes a \<and>
     0 \<le> cle_redacted_bytes a \<and>
     0 \<le> cle_stored_bytes a"

interpretation ci_log_entry: contract_item enc_ci_log_entry read_ci_log_entry ok_ci_log_entry
proof unfold_locales
  show "yields (read_ci_log_entry j p) ok_ci_log_entry" for j p
    unfolding read_ci_log_entry_def
    by (rule yields_bind yields_intro yields_return )+ (simp add: ok_ci_log_entry_def)
  show "accepts (read_ci_log_entry (enc_ci_log_entry a) p) a" if "ok_ci_log_entry a" for a p
    using that
    by (simp add: accepts_def read_ci_log_entry_def enc_ci_log_entry_def ok_ci_log_entry_def run_reader primitive_readers )
qed

record UnavailableCiLog =
  ucl_check_run_id :: "int option"
  ucl_name :: "string option"
  ucl_reason :: string
  ucl_detail :: string

definition read_unavailable_ci_log :: "json \<Rightarrow> string \<Rightarrow> UnavailableCiLog reader" where
  "read_unavailable_ci_log value path = do {
     item \<leftarrow> as_object value path;
     check_run_id' \<leftarrow> read_nullable_positive_int item ''checkRunId'' (Some path);
     name' \<leftarrow> read_nullable_str item ''name'' (Some path);
     reason' \<leftarrow> read_literal_from_set item ''reason'' CI_LOG_UNAVAILABLE_REASONS (Some path);
     detail' \<leftarrow> read_non_empty_str item ''detail'' (Some path);
     ret \<lparr> ucl_check_run_id = check_run_id',
        ucl_name = name',
        ucl_reason = reason',
        ucl_detail = detail' \<rparr> }"

definition enc_unavailable_ci_log :: "UnavailableCiLog \<Rightarrow> json" where
  "enc_unavailable_ci_log a = JObj [
       (''checkRunId'', opt_json JInt (ucl_check_run_id a)),
       (''name'', opt_json JStr (ucl_name a)),
       (''reason'', JStr (ucl_reason a)),
       (''detail'', JStr (ucl_detail a))]"

definition ok_unavailable_ci_log :: "UnavailableCiLog \<Rightarrow> bool" where
  "ok_unavailable_ci_log a \<longleftrightarrow> pred_option (\<lambda>i. 0 < i) (ucl_check_run_id a) \<and>
     pred_option nonblank (ucl_name a) \<and>
     ucl_reason a \<in> set CI_LOG_UNAVAILABLE_REASONS \<and>
     nonblank (ucl_detail a)"

interpretation unavailable_ci_log: contract_item enc_unavailable_ci_log read_unavailable_ci_log ok_unavailable_ci_log
proof unfold_locales
  show "yields (read_unavailable_ci_log j p) ok_unavailable_ci_log" for j p
    unfolding read_unavailable_ci_log_def
    by (rule yields_bind yields_intro yields_return )+ (simp add: ok_unavailable_ci_log_def)
  show "accepts (read_unavailable_ci_log (enc_unavailable_ci_log a) p) a" if "ok_unavailable_ci_log a" for a p
    using that
    by (simp add: accepts_def read_unavailable_ci_log_def enc_unavailable_ci_log_def ok_unavailable_ci_log_def run_reader primitive_readers )
qed

record CiLogArtifact =
  cla_schema_version :: string
  cla_review_run_id :: string
  cla_repository_full_name :: string
  cla_pull_request_number :: int
  cla_head_sha :: string
  cla_check_runs :: "CiCheckRun list"
  cla_logs :: "CiLogEntry list"
  cla_unavailable_logs :: "UnavailableCiLog list"

definition CiLogArtifact_reader :: "obj \<Rightarrow> CiLogArtifact reader" where
  "CiLogArtifact_reader value = do {
     read_literal value ''schemaVersion'' CI_LOG_ARTIFACT_SCHEMA_VERSION None;
     review_run_id' \<leftarrow> read_non_empty_str value ''reviewRunId'' None;
     repository_full_name' \<leftarrow> read_non_empty_str value ''repositoryFullName'' None;
     pull_request_number' \<leftarrow> read_positive_int value ''pullRequestNumber'' None;
     head_sha' \<leftarrow> read_non_empty_str value ''headSha'' None;
     check_runs_js \<leftarrow> read_list value ''checkRuns'' None;
     check_runs' \<leftarrow> read_items read_ci_check_run ''checkRuns'' check_runs_js;
     logs_js \<leftarrow> read_list value ''logs'' None;
     logs' \<leftarrow> read_items read_ci_log_entry ''logs'' logs_js;
     unavailable_logs_js \<leftarrow> read_list value ''unavailableLogs'' None;
     unavailable_logs' \<leftarrow> read_items read_unavailable_ci_log ''unavailableLogs'' unavailable_logs_js;
     ret \<lparr> cla_schema_version = CI_LOG_ARTIFACT_SCHEMA_VERSION,
        cla_review_run_id = review_run_id',
        cla_repository_full_name = repository_full_name',
        cla_pull_request_number = pull_request_number',
        cla_head_sha = head_sha',
        cla_check_runs = check_runs',
        cla_logs = logs',
        cla_unavailable_logs = unavailable_logs' \<rparr> }"

definition CiLogArtifact_from_mapping :: "obj \<Rightarrow> contract_error + CiLogArtifact" where
  "CiLogArtifact_from_mapping value = raise_if_errors (CiLogArtifact_reader value)"

definition enc_CiLogArtifact :: "CiLogArtifact \<Rightarrow> obj" where
  "enc_CiLogArtifact a = [
       (''schemaVersion'', JStr (cla_schema_version a)),
       (''reviewRunId'', JStr (cla_review_run_id a)),
       (''repositoryFullName'', JStr (cla_repository_full_name a)),
       (''pullRequestNumber'', JInt (cla_pull_request_number a)),
       (''headSha'', JStr (cla_head_sha a)),
       (''checkRuns'', JList (map enc_ci_check_run (cla_check_runs a))),
       (''logs'', JList (map enc_ci_log_entry (cla_logs a))),
       (''unavailableLogs'', JList (map enc_unavailable_ci_log (cla_unavailable_logs a)))]"

definition ok_CiLogArtifact :: "CiLogArtifact \<Rightarrow> bool" where
  "ok_CiLogArtifact a \<longleftrightarrow> cla_schema_version a = CI_LOG_ARTIFACT_SCHEMA_VERSION \<and>
     nonblank (cla_review_run_id a) \<and>
     nonblank (cla_repository_full_name a) \<and>
     0 < cla_pull_request_number a \<and>
     nonblank (cla_head_sha a) \<and>
     list_all ok_ci_check_run (cla_check_runs a) \<and>
     list_all ok_ci_log_entry (cla_logs a) \<and>
     list_all ok_unavailable_ci_log (cla_unavailable_logs a)"

interpretation CiLogArtifact: contract_document enc_CiLogArtifact CiLogArtifact_reader ok_CiLogArtifact CiLogArtifact_from_mapping
proof unfold_locales
  show "CiLogArtifact_from_mapping v = raise_if_errors (CiLogArtifact_reader v)" for v
    by (rule CiLogArtifact_from_mapping_def)
  show "yields (CiLogArtifact_reader v) ok_CiLogArtifact" for v
    unfolding CiLogArtifact_reader_def
    by (rule yields_bind yields_intro yields_return ci_check_run.sound ci_check_run.items_sound ci_log_entry.sound ci_log_entry.items_sound unavailable_ci_log.sound unavailable_ci_log.items_sound)+ (simp add: ok_CiLogArtifact_def)
  show "accepts (CiLogArtifact_reader (enc_CiLogArtifact a)) a" if "ok_CiLogArtifact a" for a
    using that
    by (simp add: accepts_def CiLogArtifact_reader_def enc_CiLogArtifact_def ok_CiLogArtifact_def run_reader primitive_readers ci_check_run.item_run ci_check_run.items_run ci_log_entry.item_run ci_log_entry.items_run unavailable_ci_log.item_run unavailable_ci_log.items_run)
qed

record CiFlakySignal =
  cfs_signal :: string
  cfs_detail :: string
  cfs_confidence :: py_float

definition read_ci_flaky_signal :: "json \<Rightarrow> string \<Rightarrow> CiFlakySignal reader" where
  "read_ci_flaky_signal value path = do {
     item \<leftarrow> as_object value path;
     signal' \<leftarrow> read_non_empty_str item ''signal'' (Some path);
     detail' \<leftarrow> read_non_empty_str item ''detail'' (Some path);
     confidence' \<leftarrow> read_confidence item ''confidence'' (Some path);
     ret \<lparr> cfs_signal = signal',
        cfs_detail = detail',
        cfs_confidence = confidence' \<rparr> }"

definition enc_ci_flaky_signal :: "CiFlakySignal \<Rightarrow> json" where
  "enc_ci_flaky_signal a = JObj [
       (''signal'', JStr (cfs_signal a)),
       (''detail'', JStr (cfs_detail a)),
       (''confidence'', JFloat (cfs_confidence a))]"

definition ok_ci_flaky_signal :: "CiFlakySignal \<Rightarrow> bool" where
  "ok_ci_flaky_signal a \<longleftrightarrow> nonblank (cfs_signal a) \<and>
     nonblank (cfs_detail a) \<and>
     unit_interval (cfs_confidence a)"

interpretation ci_flaky_signal: contract_item enc_ci_flaky_signal read_ci_flaky_signal ok_ci_flaky_signal
proof unfold_locales
  show "yields (read_ci_flaky_signal j p) ok_ci_flaky_signal" for j p
    unfolding read_ci_flaky_signal_def
    by (rule yields_bind yields_intro yields_return )+ (simp add: ok_ci_flaky_signal_def)
  show "accepts (read_ci_flaky_signal (enc_ci_flaky_signal a) p) a" if "ok_ci_flaky_signal a" for a p
    using that
    by (simp add: accepts_def read_ci_flaky_signal_def enc_ci_flaky_signal_def ok_ci_flaky_signal_def run_reader primitive_readers )
qed

record CiFailureEvidence =
  cfe_check_run_id :: int
  cfe_workflow_job_id :: "int option"
  cfe_step_name :: "string option"
  cfe_excerpt :: string

definition read_ci_failure_evidence :: "json \<Rightarrow> string \<Rightarrow> CiFailureEvidence reader" where
  "read_ci_failure_evidence value path = do {
     item \<leftarrow> as_object value path;
     check_run_id' \<leftarrow> read_positive_int item ''checkRunId'' (Some path);
     workflow_job_id' \<leftarrow> read_nullable_positive_int item ''workflowJobId'' (Some path);
     step_name' \<leftarrow> read_nullable_str item ''stepName'' (Some path);
     excerpt' \<leftarrow> read_non_empty_str item ''excerpt'' (Some path);
     ret \<lparr> cfe_check_run_id = check_run_id',
        cfe_workflow_job_id = workflow_job_id',
        cfe_step_name = step_name',
        cfe_excerpt = excerpt' \<rparr> }"

definition enc_ci_failure_evidence :: "CiFailureEvidence \<Rightarrow> json" where
  "enc_ci_failure_evidence a = JObj [
       (''checkRunId'', JInt (cfe_check_run_id a)),
       (''workflowJobId'', opt_json JInt (cfe_workflow_job_id a)),
       (''stepName'', opt_json JStr (cfe_step_name a)),
       (''excerpt'', JStr (cfe_excerpt a))]"

definition ok_ci_failure_evidence :: "CiFailureEvidence \<Rightarrow> bool" where
  "ok_ci_failure_evidence a \<longleftrightarrow> 0 < cfe_check_run_id a \<and>
     pred_option (\<lambda>i. 0 < i) (cfe_workflow_job_id a) \<and>
     pred_option nonblank (cfe_step_name a) \<and>
     nonblank (cfe_excerpt a)"

interpretation ci_failure_evidence: contract_item enc_ci_failure_evidence read_ci_failure_evidence ok_ci_failure_evidence
proof unfold_locales
  show "yields (read_ci_failure_evidence j p) ok_ci_failure_evidence" for j p
    unfolding read_ci_failure_evidence_def
    by (rule yields_bind yields_intro yields_return )+ (simp add: ok_ci_failure_evidence_def)
  show "accepts (read_ci_failure_evidence (enc_ci_failure_evidence a) p) a" if "ok_ci_failure_evidence a" for a p
    using that
    by (simp add: accepts_def read_ci_failure_evidence_def enc_ci_failure_evidence_def ok_ci_failure_evidence_def run_reader primitive_readers )
qed

record CiFailureGroup =
  cfg_id :: string
  cfg_job_name :: string
  cfg_check_run_id :: int
  cfg_conclusion :: string
  cfg_step_name :: "string option"
  cfg_category :: string
  cfg_root_cause_summary :: string
  cfg_suggested_fixes :: "string list"
  cfg_flaky :: bool
  cfg_flaky_signals :: "CiFlakySignal list"
  cfg_evidence :: "CiFailureEvidence list"

definition read_ci_failure_group :: "json \<Rightarrow> string \<Rightarrow> CiFailureGroup reader" where
  "read_ci_failure_group value path = do {
     item \<leftarrow> as_object value path;
     suggested_fixes_js \<leftarrow> read_list item ''suggestedFixes'' (Some (path @ ''.suggestedFixes''));
     suggested_fixes' \<leftarrow> read_items read_value_non_empty_str (path @ ''.suggestedFixes'') suggested_fixes_js;
     require (suggested_fixes' \<noteq> []) (path @ ''.suggestedFixes'' @ '' must include at least one item'');
     evidence_js \<leftarrow> read_list item ''evidence'' (Some (path @ ''.evidence''));
     evidence' \<leftarrow> read_items read_ci_failure_evidence (path @ ''.evidence'') evidence_js;
     require (evidence' \<noteq> []) (path @ ''.evidence'' @ '' must include at least one item'');
     id' \<leftarrow> read_non_empty_str item ''id'' (Some path);
     job_name' \<leftarrow> read_non_empty_str item ''jobName'' (Some path);
     check_run_id' \<leftarrow> read_positive_int item ''checkRunId'' (Some path);
     conclusion' \<leftarrow> read_non_empty_str item ''conclusion'' (Some path);
     step_name' \<leftarrow> read_nullable_str item ''stepName'' (Some path);
     category' \<leftarrow> read_literal_from_set item ''category'' CI_FAILURE_CATEGORIES (Some path);
     root_cause_summary' \<leftarrow> read_non_empty_str item ''rootCauseSummary'' (Some path);
     flaky' \<leftarrow> read_bool item ''flaky'' (Some path);
     flaky_signals_js \<leftarrow> read_list item ''flakySignals'' (Some (path @ ''.flakySignals''));
     flaky_signals' \<leftarrow> read_items read_ci_flaky_signal (path @ ''.flakySignals'') flaky_signals_js;
     ret \<lparr> cfg_id = id',
        cfg_job_name = job_name',
        cfg_check_run_id = check_run_id',
        cfg_conclusion = conclusion',
        cfg_step_name = step_name',
        cfg_category = category',
        cfg_root_cause_summary = root_cause_summary',
        cfg_suggested_fixes = suggested_fixes',
        cfg_flaky = flaky',
        cfg_flaky_signals = flaky_signals',
        cfg_evidence = evidence' \<rparr> }"

definition enc_ci_failure_group :: "CiFailureGroup \<Rightarrow> json" where
  "enc_ci_failure_group a = JObj [
       (''id'', JStr (cfg_id a)),
       (''jobName'', JStr (cfg_job_name a)),
       (''checkRunId'', JInt (cfg_check_run_id a)),
       (''conclusion'', JStr (cfg_conclusion a)),
       (''stepName'', opt_json JStr (cfg_step_name a)),
       (''category'', JStr (cfg_category a)),
       (''rootCauseSummary'', JStr (cfg_root_cause_summary a)),
       (''suggestedFixes'', JList (map JStr (cfg_suggested_fixes a))),
       (''flaky'', JBool (cfg_flaky a)),
       (''flakySignals'', JList (map enc_ci_flaky_signal (cfg_flaky_signals a))),
       (''evidence'', JList (map enc_ci_failure_evidence (cfg_evidence a)))]"

definition ok_ci_failure_group :: "CiFailureGroup \<Rightarrow> bool" where
  "ok_ci_failure_group a \<longleftrightarrow> list_all nonblank (cfg_suggested_fixes a) \<and>
     cfg_suggested_fixes a \<noteq> [] \<and>
     list_all ok_ci_failure_evidence (cfg_evidence a) \<and>
     cfg_evidence a \<noteq> [] \<and>
     nonblank (cfg_id a) \<and>
     nonblank (cfg_job_name a) \<and>
     0 < cfg_check_run_id a \<and>
     nonblank (cfg_conclusion a) \<and>
     pred_option nonblank (cfg_step_name a) \<and>
     cfg_category a \<in> set CI_FAILURE_CATEGORIES \<and>
     nonblank (cfg_root_cause_summary a) \<and>
     list_all ok_ci_flaky_signal (cfg_flaky_signals a)"

interpretation ci_failure_group: contract_item enc_ci_failure_group read_ci_failure_group ok_ci_failure_group
proof unfold_locales
  show "yields (read_ci_failure_group j p) ok_ci_failure_group" for j p
    unfolding read_ci_failure_group_def
    by (rule yields_bind yields_intro yields_return ci_failure_evidence.sound ci_failure_evidence.items_sound ci_flaky_signal.sound ci_flaky_signal.items_sound)+ (simp add: ok_ci_failure_group_def)
  show "accepts (read_ci_failure_group (enc_ci_failure_group a) p) a" if "ok_ci_failure_group a" for a p
    using that
    by (simp add: accepts_def read_ci_failure_group_def enc_ci_failure_group_def ok_ci_failure_group_def run_reader primitive_readers ci_failure_evidence.item_run ci_failure_evidence.items_run ci_flaky_signal.item_run ci_flaky_signal.items_run)
qed

record CiFailureExplanationArtifact =
  cfx_schema_version :: string
  cfx_review_run_id :: string
  cfx_repository_full_name :: string
  cfx_pull_request_number :: int
  cfx_head_sha :: string
  cfx_summary :: string
  cfx_groups :: "CiFailureGroup list"
  cfx_unavailable_log_notes :: "UnavailableCiLog list"

definition CiFailureExplanationArtifact_reader :: "obj \<Rightarrow> CiFailureExplanationArtifact reader" where
  "CiFailureExplanationArtifact_reader value = do {
     read_literal value ''schemaVersion'' CI_FAILURE_EXPLANATION_SCHEMA_VERSION None;
     review_run_id' \<leftarrow> read_non_empty_str value ''reviewRunId'' None;
     repository_full_name' \<leftarrow> read_non_empty_str value ''repositoryFullName'' None;
     pull_request_number' \<leftarrow> read_positive_int value ''pullRequestNumber'' None;
     head_sha' \<leftarrow> read_non_empty_str value ''headSha'' None;
     summary' \<leftarrow> read_non_empty_str value ''summary'' None;
     groups_js \<leftarrow> read_list value ''groups'' None;
     groups' \<leftarrow> read_items read_ci_failure_group ''groups'' groups_js;
     unavailable_log_notes_js \<leftarrow> read_list value ''unavailableLogNotes'' None;
     unavailable_log_notes' \<leftarrow> read_items read_unavailable_ci_log ''unavailableLogNotes'' unavailable_log_notes_js;
     ret \<lparr> cfx_schema_version = CI_FAILURE_EXPLANATION_SCHEMA_VERSION,
        cfx_review_run_id = review_run_id',
        cfx_repository_full_name = repository_full_name',
        cfx_pull_request_number = pull_request_number',
        cfx_head_sha = head_sha',
        cfx_summary = summary',
        cfx_groups = groups',
        cfx_unavailable_log_notes = unavailable_log_notes' \<rparr> }"

definition CiFailureExplanationArtifact_from_mapping :: "obj \<Rightarrow> contract_error + CiFailureExplanationArtifact" where
  "CiFailureExplanationArtifact_from_mapping value = raise_if_errors (CiFailureExplanationArtifact_reader value)"

definition enc_CiFailureExplanationArtifact :: "CiFailureExplanationArtifact \<Rightarrow> obj" where
  "enc_CiFailureExplanationArtifact a = [
       (''schemaVersion'', JStr (cfx_schema_version a)),
       (''reviewRunId'', JStr (cfx_review_run_id a)),
       (''repositoryFullName'', JStr (cfx_repository_full_name a)),
       (''pullRequestNumber'', JInt (cfx_pull_request_number a)),
       (''headSha'', JStr (cfx_head_sha a)),
       (''summary'', JStr (cfx_summary a)),
       (''groups'', JList (map enc_ci_failure_group (cfx_groups a))),
       (''unavailableLogNotes'', JList (map enc_unavailable_ci_log (cfx_unavailable_log_notes a)))]"

definition ok_CiFailureExplanationArtifact :: "CiFailureExplanationArtifact \<Rightarrow> bool" where
  "ok_CiFailureExplanationArtifact a \<longleftrightarrow> cfx_schema_version a = CI_FAILURE_EXPLANATION_SCHEMA_VERSION \<and>
     nonblank (cfx_review_run_id a) \<and>
     nonblank (cfx_repository_full_name a) \<and>
     0 < cfx_pull_request_number a \<and>
     nonblank (cfx_head_sha a) \<and>
     nonblank (cfx_summary a) \<and>
     list_all ok_ci_failure_group (cfx_groups a) \<and>
     list_all ok_unavailable_ci_log (cfx_unavailable_log_notes a)"

interpretation CiFailureExplanationArtifact: contract_document enc_CiFailureExplanationArtifact CiFailureExplanationArtifact_reader ok_CiFailureExplanationArtifact CiFailureExplanationArtifact_from_mapping
proof unfold_locales
  show "CiFailureExplanationArtifact_from_mapping v = raise_if_errors (CiFailureExplanationArtifact_reader v)" for v
    by (rule CiFailureExplanationArtifact_from_mapping_def)
  show "yields (CiFailureExplanationArtifact_reader v) ok_CiFailureExplanationArtifact" for v
    unfolding CiFailureExplanationArtifact_reader_def
    by (rule yields_bind yields_intro yields_return ci_failure_group.sound ci_failure_group.items_sound unavailable_ci_log.sound unavailable_ci_log.items_sound)+ (simp add: ok_CiFailureExplanationArtifact_def)
  show "accepts (CiFailureExplanationArtifact_reader (enc_CiFailureExplanationArtifact a)) a" if "ok_CiFailureExplanationArtifact a" for a
    using that
    by (simp add: accepts_def CiFailureExplanationArtifact_reader_def enc_CiFailureExplanationArtifact_def ok_CiFailureExplanationArtifact_def run_reader primitive_readers ci_failure_group.item_run ci_failure_group.items_run unavailable_ci_log.item_run unavailable_ci_log.items_run)
qed

end
