(* ===== verification/ContractsScan.thy ===== *)
theory ContractsScan
  imports ContractsDiff
begin

text \<open>
  schemas/contracts.py: the codebase-scan payloads: artifact metadata, findings, and the
  enrichment of a review with existing findings.
\<close>

definition CODEBASE_SCAN_ARTIFACT_METADATA_SCHEMA_VERSION :: string where
  "CODEBASE_SCAN_ARTIFACT_METADATA_SCHEMA_VERSION = ''codebase-scan-artifact-metadata/v1''"

definition CODEBASE_SCAN_FINDING_SCHEMA_VERSION :: string where
  "CODEBASE_SCAN_FINDING_SCHEMA_VERSION = ''codebase-scan-finding/v1''"

definition CODEBASE_SCAN_REVIEW_ENRICHMENT_SCHEMA_VERSION :: string where
  "CODEBASE_SCAN_REVIEW_ENRICHMENT_SCHEMA_VERSION = ''codebase-scan-review-enrichment/v1''"

definition CODEBASE_SCAN_ARTIFACT_TYPES :: "string list" where
  "CODEBASE_SCAN_ARTIFACT_TYPES = [''semgrep'', ''tree_sitter'', ''context_pack'', ''llm_raw'',
     ''scan_summary'']"

definition CODEBASE_SCAN_FINDING_CATEGORIES :: "string list" where
  "CODEBASE_SCAN_FINDING_CATEGORIES = [''bug'', ''security'', ''performance'', ''maintainability'',
     ''test'', ''infra'', ''ci'']"

definition CODEBASE_SCAN_FINDING_CONFIDENCES :: "string list" where
  "CODEBASE_SCAN_FINDING_CONFIDENCES = [''low'', ''medium'', ''high'']"

definition CODEBASE_SCAN_FINDING_STATUSES :: "string list" where
  "CODEBASE_SCAN_FINDING_STATUSES = [''open'', ''resolved'', ''suppressed'', ''false_positive'']"

record CodebaseScanArtifactMetadataItem =
  smi_artifact_type :: string
  smi_storage_key :: string
  smi_size_bytes :: int
  smi_sha256 :: string
  smi_redacted :: bool
  smi_retention_expires_at :: string
  smi_metadata :: obj

definition read_codebase_scan_artifact_metadata_item :: "json \<Rightarrow> string \<Rightarrow> CodebaseScanArtifactMetadataItem reader" where
  "read_codebase_scan_artifact_metadata_item value path = do {
     item \<leftarrow> as_object value path;
     metadata' \<leftarrow> as_object (obj_get item ''metadata'') (path @ ''.metadata'');
     artifact_type' \<leftarrow> read_literal_from_set item ''artifactType'' CODEBASE_SCAN_ARTIFACT_TYPES (Some path);
     storage_key' \<leftarrow> read_non_empty_str item ''storageKey'' (Some path);
     size_bytes' \<leftarrow> read_non_negative_int item ''sizeBytes'' (Some path);
     sha256' \<leftarrow> read_non_empty_str item ''sha256'' (Some path);
     redacted' \<leftarrow> read_bool item ''redacted'' (Some path);
     retention_expires_at' \<leftarrow> read_non_empty_str item ''retentionExpiresAt'' (Some path);
     ret \<lparr> smi_artifact_type = artifact_type',
        smi_storage_key = storage_key',
        smi_size_bytes = size_bytes',
        smi_sha256 = sha256',
        smi_redacted = redacted',
        smi_retention_expires_at = retention_expires_at',
        smi_metadata = metadata' \<rparr> }"

definition enc_codebase_scan_artifact_metadata_item :: "CodebaseScanArtifactMetadataItem \<Rightarrow> json" where
  "enc_codebase_scan_artifact_metadata_item a = JObj [
       (''artifactType'', JStr (smi_artifact_type a)),
       (''storageKey'', JStr (smi_storage_key a)),
       (''sizeBytes'', JInt (smi_size_bytes a)),
       (''sha256'', JStr (smi_sha256 a)),
       (''redacted'', JBool (smi_redacted a)),
       (''retentionExpiresAt'', JStr (smi_retention_expires_at a)),
       (''metadata'', JObj (smi_metadata a))]"

definition ok_codebase_scan_artifact_metadata_item :: "CodebaseScanArtifactMetadataItem \<Rightarrow> bool" where
  "ok_codebase_scan_artifact_metadata_item a \<longleftrightarrow> smi_artifact_type a \<in> set CODEBASE_SCAN_ARTIFACT_TYPES \<and>
     nonblank (smi_storage_key a) \<and>
     0 \<le> smi_size_bytes a \<and>
     nonblank (smi_sha256 a) \<and>
     nonblank (smi_retention_expires_at a)"

interpretation codebase_scan_artifact_metadata_item: contract_item enc_codebase_scan_artifact_metadata_item read_codebase_scan_artifact_metadata_item ok_codebase_scan_artifact_metadata_item
proof unfold_locales
  show "yields (read_codebase_scan_artifact_metadata_item j p) ok_codebase_scan_artifact_metadata_item" for j p
    unfolding read_codebase_scan_artifact_metadata_item_def
    by (rule yields_bind yields_intro yields_return )+ (simp add: ok_codebase_scan_artifact_metadata_item_def)
  show "accepts (read_codebase_scan_artifact_metadata_item (enc_codebase_scan_artifact_metadata_item a) p) a" if "ok_codebase_scan_artifact_metadata_item a" for a p
    using that
    by (simp add: accepts_def read_codebase_scan_artifact_metadata_item_def enc_codebase_scan_artifact_metadata_item_def ok_codebase_scan_artifact_metadata_item_def run_reader primitive_readers )
qed

record CodebaseScanArtifactMetadata =
  sam_schema_version :: string
  sam_scan_run_id :: string
  sam_repository_id :: string
  sam_repository_full_name :: string
  sam_default_branch :: string
  sam_commit_sha :: string
  sam_artifacts :: "CodebaseScanArtifactMetadataItem list"

definition CodebaseScanArtifactMetadata_reader :: "obj \<Rightarrow> CodebaseScanArtifactMetadata reader" where
  "CodebaseScanArtifactMetadata_reader value = do {
     read_literal value ''schemaVersion'' CODEBASE_SCAN_ARTIFACT_METADATA_SCHEMA_VERSION None;
     scan_run_id' \<leftarrow> read_non_empty_str value ''scanRunId'' None;
     repository_id' \<leftarrow> read_non_empty_str value ''repositoryId'' None;
     repository_full_name' \<leftarrow> read_non_empty_str value ''repositoryFullName'' None;
     default_branch' \<leftarrow> read_non_empty_str value ''defaultBranch'' None;
     commit_sha' \<leftarrow> read_non_empty_str value ''commitSha'' None;
     artifacts_js \<leftarrow> read_list value ''artifacts'' None;
     artifacts' \<leftarrow> read_items read_codebase_scan_artifact_metadata_item ''artifacts'' artifacts_js;
     ret \<lparr> sam_schema_version = CODEBASE_SCAN_ARTIFACT_METADATA_SCHEMA_VERSION,
        sam_scan_run_id = scan_run_id',
        sam_repository_id = repository_id',
        sam_repository_full_name = repository_full_name',
        sam_default_branch = default_branch',
        sam_commit_sha = commit_sha',
        sam_artifacts = artifacts' \<rparr> }"

definition CodebaseScanArtifactMetadata_from_mapping :: "obj \<Rightarrow> contract_error + CodebaseScanArtifactMetadata" where
  "CodebaseScanArtifactMetadata_from_mapping value = raise_if_errors (CodebaseScanArtifactMetadata_reader value)"

definition enc_CodebaseScanArtifactMetadata :: "CodebaseScanArtifactMetadata \<Rightarrow> obj" where
  "enc_CodebaseScanArtifactMetadata a = [
       (''schemaVersion'', JStr (sam_schema_version a)),
       (''scanRunId'', JStr (sam_scan_run_id a)),
       (''repositoryId'', JStr (sam_repository_id a)),
       (''repositoryFullName'', JStr (sam_repository_full_name a)),
       (''defaultBranch'', JStr (sam_default_branch a)),
       (''commitSha'', JStr (sam_commit_sha a)),
       (''artifacts'', JList (map enc_codebase_scan_artifact_metadata_item (sam_artifacts a)))]"

definition ok_CodebaseScanArtifactMetadata :: "CodebaseScanArtifactMetadata \<Rightarrow> bool" where
  "ok_CodebaseScanArtifactMetadata a \<longleftrightarrow> sam_schema_version a = CODEBASE_SCAN_ARTIFACT_METADATA_SCHEMA_VERSION \<and>
     nonblank (sam_scan_run_id a) \<and>
     nonblank (sam_repository_id a) \<and>
     nonblank (sam_repository_full_name a) \<and>
     nonblank (sam_default_branch a) \<and>
     nonblank (sam_commit_sha a) \<and>
     list_all ok_codebase_scan_artifact_metadata_item (sam_artifacts a)"

interpretation CodebaseScanArtifactMetadata: contract_document enc_CodebaseScanArtifactMetadata CodebaseScanArtifactMetadata_reader ok_CodebaseScanArtifactMetadata CodebaseScanArtifactMetadata_from_mapping
proof unfold_locales
  show "CodebaseScanArtifactMetadata_from_mapping v = raise_if_errors (CodebaseScanArtifactMetadata_reader v)" for v
    by (rule CodebaseScanArtifactMetadata_from_mapping_def)
  show "yields (CodebaseScanArtifactMetadata_reader v) ok_CodebaseScanArtifactMetadata" for v
    unfolding CodebaseScanArtifactMetadata_reader_def
    by (rule yields_bind yields_intro yields_return codebase_scan_artifact_metadata_item.sound codebase_scan_artifact_metadata_item.items_sound)+ (simp add: ok_CodebaseScanArtifactMetadata_def)
  show "accepts (CodebaseScanArtifactMetadata_reader (enc_CodebaseScanArtifactMetadata a)) a" if "ok_CodebaseScanArtifactMetadata a" for a
    using that
    by (simp add: accepts_def CodebaseScanArtifactMetadata_reader_def enc_CodebaseScanArtifactMetadata_def ok_CodebaseScanArtifactMetadata_def run_reader primitive_readers codebase_scan_artifact_metadata_item.item_run codebase_scan_artifact_metadata_item.items_run)
qed

record CodebaseScanFindingEvidence =
  sfe_source :: string
  sfe_artifact_type :: "string option"
  sfe_path :: "string option"
  sfe_line_range :: "LineRange option"
  sfe_excerpt :: string
  sfe_redacted :: bool

definition read_codebase_scan_finding_evidence :: "json \<Rightarrow> string \<Rightarrow> CodebaseScanFindingEvidence reader" where
  "read_codebase_scan_finding_evidence value path = do {
     item \<leftarrow> as_object value path;
     source' \<leftarrow> read_literal_from_set item ''source'' FINDING_SOURCES (Some path);
     artifact_type' \<leftarrow> read_nullable_literal_from_set item ''artifactType'' CODEBASE_SCAN_ARTIFACT_TYPES (Some path);
     path' \<leftarrow> read_nullable_str item ''path'' (Some path);
     line_range' \<leftarrow> read_nullable_line_range (obj_get item ''lineRange'') (path @ ''.lineRange'');
     excerpt' \<leftarrow> read_non_empty_str item ''excerpt'' (Some path);
     redacted' \<leftarrow> read_bool item ''redacted'' (Some path);
     ret \<lparr> sfe_source = source',
        sfe_artifact_type = artifact_type',
        sfe_path = path',
        sfe_line_range = line_range',
        sfe_excerpt = excerpt',
        sfe_redacted = redacted' \<rparr> }"

definition enc_codebase_scan_finding_evidence :: "CodebaseScanFindingEvidence \<Rightarrow> json" where
  "enc_codebase_scan_finding_evidence a = JObj [
       (''source'', JStr (sfe_source a)),
       (''artifactType'', opt_json JStr (sfe_artifact_type a)),
       (''path'', opt_json JStr (sfe_path a)),
       (''lineRange'', opt_json enc_line_range (sfe_line_range a)),
       (''excerpt'', JStr (sfe_excerpt a)),
       (''redacted'', JBool (sfe_redacted a))]"

definition ok_codebase_scan_finding_evidence :: "CodebaseScanFindingEvidence \<Rightarrow> bool" where
  "ok_codebase_scan_finding_evidence a \<longleftrightarrow> sfe_source a \<in> set FINDING_SOURCES \<and>
     pred_option (\<lambda>s. s \<in> set CODEBASE_SCAN_ARTIFACT_TYPES) (sfe_artifact_type a) \<and>
     pred_option nonblank (sfe_path a) \<and>
     pred_option ok_line_range (sfe_line_range a) \<and>
     nonblank (sfe_excerpt a)"

interpretation codebase_scan_finding_evidence: contract_item enc_codebase_scan_finding_evidence read_codebase_scan_finding_evidence ok_codebase_scan_finding_evidence
proof unfold_locales
  show "yields (read_codebase_scan_finding_evidence j p) ok_codebase_scan_finding_evidence" for j p
    unfolding read_codebase_scan_finding_evidence_def
    by (rule yields_bind yields_intro yields_return line_range.sound line_range.items_sound yields_read_nullable_line_range)+ (simp add: ok_codebase_scan_finding_evidence_def)
  show "accepts (read_codebase_scan_finding_evidence (enc_codebase_scan_finding_evidence a) p) a" if "ok_codebase_scan_finding_evidence a" for a p
    using that
    by (simp add: accepts_def read_codebase_scan_finding_evidence_def enc_codebase_scan_finding_evidence_def ok_codebase_scan_finding_evidence_def run_reader primitive_readers line_range.item_run line_range.items_run run_read_nullable_line_range)
qed

record CodebaseScanFinding =
  csf_schema_version :: string
  csf_scan_run_id :: string
  csf_repository_id :: string
  csf_repository_full_name :: string
  csf_default_branch :: string
  csf_commit_sha :: string
  csf_source :: string
  csf_category :: string
  csf_severity :: string
  csf_confidence :: string
  csf_file_path :: "string option"
  csf_start_line :: "int option"
  csf_end_line :: "int option"
  csf_title :: string
  csf_body :: string
  csf_evidence :: "CodebaseScanFindingEvidence list"
  csf_recommendation :: "string option"
  csf_dedupe_key :: string
  csf_status :: string
  csf_first_seen_at :: "string option"
  csf_last_seen_at :: "string option"
  csf_resolved_at :: "string option"

definition CodebaseScanFinding_reader :: "obj \<Rightarrow> CodebaseScanFinding reader" where
  "CodebaseScanFinding_reader value = do {
     read_literal value ''schemaVersion'' CODEBASE_SCAN_FINDING_SCHEMA_VERSION None;
     evidence_js \<leftarrow> read_list value ''evidence'' None;
     evidence' \<leftarrow> read_items read_codebase_scan_finding_evidence ''evidence'' evidence_js;
     require (evidence' \<noteq> []) (''evidence'' @ '' must include at least one item'');
     start_line' \<leftarrow> read_nullable_positive_int value ''startLine'' None;
     end_line' \<leftarrow> read_nullable_positive_int value ''endLine'' None;
     validate_nullable_line_bounds start_line' end_line' (''startLine'') (''endLine'');
     scan_run_id' \<leftarrow> read_non_empty_str value ''scanRunId'' None;
     repository_id' \<leftarrow> read_non_empty_str value ''repositoryId'' None;
     repository_full_name' \<leftarrow> read_non_empty_str value ''repositoryFullName'' None;
     default_branch' \<leftarrow> read_non_empty_str value ''defaultBranch'' None;
     commit_sha' \<leftarrow> read_non_empty_str value ''commitSha'' None;
     source' \<leftarrow> read_literal_from_set value ''source'' FINDING_SOURCES None;
     category' \<leftarrow> read_literal_from_set value ''category'' CODEBASE_SCAN_FINDING_CATEGORIES None;
     severity' \<leftarrow> read_literal_from_set value ''severity'' SEVERITIES None;
     confidence' \<leftarrow> read_literal_from_set value ''confidence'' CODEBASE_SCAN_FINDING_CONFIDENCES None;
     file_path' \<leftarrow> read_nullable_str value ''filePath'' None;
     title' \<leftarrow> read_non_empty_str value ''title'' None;
     body' \<leftarrow> read_non_empty_str value ''body'' None;
     recommendation' \<leftarrow> read_nullable_str value ''recommendation'' None;
     dedupe_key' \<leftarrow> read_non_empty_str value ''dedupeKey'' None;
     status' \<leftarrow> read_literal_from_set value ''status'' CODEBASE_SCAN_FINDING_STATUSES None;
     first_seen_at' \<leftarrow> read_nullable_str value ''firstSeenAt'' None;
     last_seen_at' \<leftarrow> read_nullable_str value ''lastSeenAt'' None;
     resolved_at' \<leftarrow> read_nullable_str value ''resolvedAt'' None;
     ret \<lparr> csf_schema_version = CODEBASE_SCAN_FINDING_SCHEMA_VERSION,
        csf_scan_run_id = scan_run_id',
        csf_repository_id = repository_id',
        csf_repository_full_name = repository_full_name',
        csf_default_branch = default_branch',
        csf_commit_sha = commit_sha',
        csf_source = source',
        csf_category = category',
        csf_severity = severity',
        csf_confidence = confidence',
        csf_file_path = file_path',
        csf_start_line = start_line',
        csf_end_line = end_line',
        csf_title = title',
        csf_body = body',
        csf_evidence = evidence',
        csf_recommendation = recommendation',
        csf_dedupe_key = dedupe_key',
        csf_status = status',
        csf_first_seen_at = first_seen_at',
        csf_last_seen_at = last_seen_at',
        csf_resolved_at = resolved_at' \<rparr> }"

definition CodebaseScanFinding_from_mapping :: "obj \<Rightarrow> contract_error + CodebaseScanFinding" where
  "CodebaseScanFinding_from_mapping value = raise_if_errors (CodebaseScanFinding_reader value)"

definition enc_CodebaseScanFinding :: "CodebaseScanFinding \<Rightarrow> obj" where
  "enc_CodebaseScanFinding a = [
       (''schemaVersion'', JStr (csf_schema_version a)),
       (''scanRunId'', JStr (csf_scan_run_id a)),
       (''repositoryId'', JStr (csf_repository_id a)),
       (''repositoryFullName'', JStr (csf_repository_full_name a)),
       (''defaultBranch'', JStr (csf_default_branch a)),
       (''commitSha'', JStr (csf_commit_sha a)),
       (''source'', JStr (csf_source a)),
       (''category'', JStr (csf_category a)),
       (''severity'', JStr (csf_severity a)),
       (''confidence'', JStr (csf_confidence a)),
       (''filePath'', opt_json JStr (csf_file_path a)),
       (''startLine'', opt_json JInt (csf_start_line a)),
       (''endLine'', opt_json JInt (csf_end_line a)),
       (''title'', JStr (csf_title a)),
       (''body'', JStr (csf_body a)),
       (''evidence'', JList (map enc_codebase_scan_finding_evidence (csf_evidence a))),
       (''recommendation'', opt_json JStr (csf_recommendation a)),
       (''dedupeKey'', JStr (csf_dedupe_key a)),
       (''status'', JStr (csf_status a)),
       (''firstSeenAt'', opt_json JStr (csf_first_seen_at a)),
       (''lastSeenAt'', opt_json JStr (csf_last_seen_at a)),
       (''resolvedAt'', opt_json JStr (csf_resolved_at a))]"

definition ok_CodebaseScanFinding :: "CodebaseScanFinding \<Rightarrow> bool" where
  "ok_CodebaseScanFinding a \<longleftrightarrow> csf_schema_version a = CODEBASE_SCAN_FINDING_SCHEMA_VERSION \<and>
     list_all ok_codebase_scan_finding_evidence (csf_evidence a) \<and>
     csf_evidence a \<noteq> [] \<and>
     pred_option (\<lambda>i. 0 < i) (csf_start_line a) \<and>
     pred_option (\<lambda>i. 0 < i) (csf_end_line a) \<and>
     nullable_line_bounds_ok (csf_start_line a) (csf_end_line a) \<and>
     nonblank (csf_scan_run_id a) \<and>
     nonblank (csf_repository_id a) \<and>
     nonblank (csf_repository_full_name a) \<and>
     nonblank (csf_default_branch a) \<and>
     nonblank (csf_commit_sha a) \<and>
     csf_source a \<in> set FINDING_SOURCES \<and>
     csf_category a \<in> set CODEBASE_SCAN_FINDING_CATEGORIES \<and>
     csf_severity a \<in> set SEVERITIES \<and>
     csf_confidence a \<in> set CODEBASE_SCAN_FINDING_CONFIDENCES \<and>
     pred_option nonblank (csf_file_path a) \<and>
     nonblank (csf_title a) \<and>
     nonblank (csf_body a) \<and>
     pred_option nonblank (csf_recommendation a) \<and>
     nonblank (csf_dedupe_key a) \<and>
     csf_status a \<in> set CODEBASE_SCAN_FINDING_STATUSES \<and>
     pred_option nonblank (csf_first_seen_at a) \<and>
     pred_option nonblank (csf_last_seen_at a) \<and>
     pred_option nonblank (csf_resolved_at a)"

interpretation CodebaseScanFinding: contract_document enc_CodebaseScanFinding CodebaseScanFinding_reader ok_CodebaseScanFinding CodebaseScanFinding_from_mapping
proof unfold_locales
  show "CodebaseScanFinding_from_mapping v = raise_if_errors (CodebaseScanFinding_reader v)" for v
    by (rule CodebaseScanFinding_from_mapping_def)
  show "yields (CodebaseScanFinding_reader v) ok_CodebaseScanFinding" for v
    unfolding CodebaseScanFinding_reader_def
    by (rule yields_bind yields_intro yields_return codebase_scan_finding_evidence.sound codebase_scan_finding_evidence.items_sound)+ (simp add: ok_CodebaseScanFinding_def)
  show "accepts (CodebaseScanFinding_reader (enc_CodebaseScanFinding a)) a" if "ok_CodebaseScanFinding a" for a
    using that
    by (simp add: accepts_def CodebaseScanFinding_reader_def enc_CodebaseScanFinding_def ok_CodebaseScanFinding_def run_reader primitive_readers codebase_scan_finding_evidence.item_run codebase_scan_finding_evidence.items_run)
qed

record CodebaseScanReviewEnrichmentFinding =
  sef_finding_id :: string
  sef_dedupe_key :: string
  sef_source :: string
  sef_category :: string
  sef_severity :: string
  sef_confidence :: string
  sef_file_path :: "string option"
  sef_start_line :: "int option"
  sef_end_line :: "int option"
  sef_title :: string
  sef_evidence :: "CodebaseScanFindingEvidence list"
  sef_recommendation :: "string option"
  sef_first_seen_at :: string
  sef_last_seen_at :: string

definition read_codebase_scan_review_enrichment_finding :: "json \<Rightarrow> string \<Rightarrow> CodebaseScanReviewEnrichmentFinding reader" where
  "read_codebase_scan_review_enrichment_finding value path = do {
     item \<leftarrow> as_object value path;
     evidence_js \<leftarrow> read_list item ''evidence'' (Some (path @ ''.evidence''));
     evidence' \<leftarrow> read_items read_codebase_scan_finding_evidence (path @ ''.evidence'') evidence_js;
     require (evidence' \<noteq> []) (path @ ''.evidence'' @ '' must include at least one item'');
     start_line' \<leftarrow> read_nullable_positive_int item ''startLine'' (Some path);
     end_line' \<leftarrow> read_nullable_positive_int item ''endLine'' (Some path);
     validate_nullable_line_bounds start_line' end_line' (path @ ''.startLine'') (path @ ''.endLine'');
     finding_id' \<leftarrow> read_non_empty_str item ''findingId'' (Some path);
     dedupe_key' \<leftarrow> read_non_empty_str item ''dedupeKey'' (Some path);
     source' \<leftarrow> read_literal_from_set item ''source'' FINDING_SOURCES (Some path);
     category' \<leftarrow> read_literal_from_set item ''category'' CODEBASE_SCAN_FINDING_CATEGORIES (Some path);
     severity' \<leftarrow> read_literal_from_set item ''severity'' SEVERITIES (Some path);
     confidence' \<leftarrow> read_literal_from_set item ''confidence'' CODEBASE_SCAN_FINDING_CONFIDENCES (Some path);
     file_path' \<leftarrow> read_nullable_str item ''filePath'' (Some path);
     title' \<leftarrow> read_non_empty_str item ''title'' (Some path);
     recommendation' \<leftarrow> read_nullable_str item ''recommendation'' (Some path);
     first_seen_at' \<leftarrow> read_non_empty_str item ''firstSeenAt'' (Some path);
     last_seen_at' \<leftarrow> read_non_empty_str item ''lastSeenAt'' (Some path);
     ret \<lparr> sef_finding_id = finding_id',
        sef_dedupe_key = dedupe_key',
        sef_source = source',
        sef_category = category',
        sef_severity = severity',
        sef_confidence = confidence',
        sef_file_path = file_path',
        sef_start_line = start_line',
        sef_end_line = end_line',
        sef_title = title',
        sef_evidence = evidence',
        sef_recommendation = recommendation',
        sef_first_seen_at = first_seen_at',
        sef_last_seen_at = last_seen_at' \<rparr> }"

definition enc_codebase_scan_review_enrichment_finding :: "CodebaseScanReviewEnrichmentFinding \<Rightarrow> json" where
  "enc_codebase_scan_review_enrichment_finding a = JObj [
       (''findingId'', JStr (sef_finding_id a)),
       (''dedupeKey'', JStr (sef_dedupe_key a)),
       (''source'', JStr (sef_source a)),
       (''category'', JStr (sef_category a)),
       (''severity'', JStr (sef_severity a)),
       (''confidence'', JStr (sef_confidence a)),
       (''filePath'', opt_json JStr (sef_file_path a)),
       (''startLine'', opt_json JInt (sef_start_line a)),
       (''endLine'', opt_json JInt (sef_end_line a)),
       (''title'', JStr (sef_title a)),
       (''evidence'', JList (map enc_codebase_scan_finding_evidence (sef_evidence a))),
       (''recommendation'', opt_json JStr (sef_recommendation a)),
       (''firstSeenAt'', JStr (sef_first_seen_at a)),
       (''lastSeenAt'', JStr (sef_last_seen_at a))]"

definition ok_codebase_scan_review_enrichment_finding :: "CodebaseScanReviewEnrichmentFinding \<Rightarrow> bool" where
  "ok_codebase_scan_review_enrichment_finding a \<longleftrightarrow> list_all ok_codebase_scan_finding_evidence (sef_evidence a) \<and>
     sef_evidence a \<noteq> [] \<and>
     pred_option (\<lambda>i. 0 < i) (sef_start_line a) \<and>
     pred_option (\<lambda>i. 0 < i) (sef_end_line a) \<and>
     nullable_line_bounds_ok (sef_start_line a) (sef_end_line a) \<and>
     nonblank (sef_finding_id a) \<and>
     nonblank (sef_dedupe_key a) \<and>
     sef_source a \<in> set FINDING_SOURCES \<and>
     sef_category a \<in> set CODEBASE_SCAN_FINDING_CATEGORIES \<and>
     sef_severity a \<in> set SEVERITIES \<and>
     sef_confidence a \<in> set CODEBASE_SCAN_FINDING_CONFIDENCES \<and>
     pred_option nonblank (sef_file_path a) \<and>
     nonblank (sef_title a) \<and>
     pred_option nonblank (sef_recommendation a) \<and>
     nonblank (sef_first_seen_at a) \<and>
     nonblank (sef_last_seen_at a)"

interpretation codebase_scan_review_enrichment_finding: contract_item enc_codebase_scan_review_enrichment_finding read_codebase_scan_review_enrichment_finding ok_codebase_scan_review_enrichment_finding
proof unfold_locales
  show "yields (read_codebase_scan_review_enrichment_finding j p) ok_codebase_scan_review_enrichment_finding" for j p
    unfolding read_codebase_scan_review_enrichment_finding_def
    by (rule yields_bind yields_intro yields_return codebase_scan_finding_evidence.sound codebase_scan_finding_evidence.items_sound)+ (simp add: ok_codebase_scan_review_enrichment_finding_def)
  show "accepts (read_codebase_scan_review_enrichment_finding (enc_codebase_scan_review_enrichment_finding a) p) a" if "ok_codebase_scan_review_enrichment_finding a" for a p
    using that
    by (simp add: accepts_def read_codebase_scan_review_enrichment_finding_def enc_codebase_scan_review_enrichment_finding_def ok_codebase_scan_review_enrichment_finding_def run_reader primitive_readers codebase_scan_finding_evidence.item_run codebase_scan_finding_evidence.items_run)
qed

record CodebaseScanReviewEnrichment =
  sre_schema_version :: string
  sre_review_run_id :: string
  sre_repository_id :: string
  sre_repository_full_name :: string
  sre_pull_request_number :: int
  sre_head_sha :: string
  sre_touched_file_paths :: "string list"
  sre_findings :: "CodebaseScanReviewEnrichmentFinding list"

definition CodebaseScanReviewEnrichment_reader :: "obj \<Rightarrow> CodebaseScanReviewEnrichment reader" where
  "CodebaseScanReviewEnrichment_reader value = do {
     read_literal value ''schemaVersion'' CODEBASE_SCAN_REVIEW_ENRICHMENT_SCHEMA_VERSION None;
     review_run_id' \<leftarrow> read_non_empty_str value ''reviewRunId'' None;
     repository_id' \<leftarrow> read_non_empty_str value ''repositoryId'' None;
     repository_full_name' \<leftarrow> read_non_empty_str value ''repositoryFullName'' None;
     pull_request_number' \<leftarrow> read_positive_int value ''pullRequestNumber'' None;
     head_sha' \<leftarrow> read_non_empty_str value ''headSha'' None;
     touched_file_paths_js \<leftarrow> read_list value ''touchedFilePaths'' None;
     touched_file_paths' \<leftarrow> read_items read_value_non_empty_str ''touchedFilePaths'' touched_file_paths_js;
     findings_js \<leftarrow> read_list value ''findings'' None;
     findings' \<leftarrow> read_items read_codebase_scan_review_enrichment_finding ''findings'' findings_js;
     ret \<lparr> sre_schema_version = CODEBASE_SCAN_REVIEW_ENRICHMENT_SCHEMA_VERSION,
        sre_review_run_id = review_run_id',
        sre_repository_id = repository_id',
        sre_repository_full_name = repository_full_name',
        sre_pull_request_number = pull_request_number',
        sre_head_sha = head_sha',
        sre_touched_file_paths = touched_file_paths',
        sre_findings = findings' \<rparr> }"

definition CodebaseScanReviewEnrichment_from_mapping :: "obj \<Rightarrow> contract_error + CodebaseScanReviewEnrichment" where
  "CodebaseScanReviewEnrichment_from_mapping value = raise_if_errors (CodebaseScanReviewEnrichment_reader value)"

definition enc_CodebaseScanReviewEnrichment :: "CodebaseScanReviewEnrichment \<Rightarrow> obj" where
  "enc_CodebaseScanReviewEnrichment a = [
       (''schemaVersion'', JStr (sre_schema_version a)),
       (''reviewRunId'', JStr (sre_review_run_id a)),
       (''repositoryId'', JStr (sre_repository_id a)),
       (''repositoryFullName'', JStr (sre_repository_full_name a)),
       (''pullRequestNumber'', JInt (sre_pull_request_number a)),
       (''headSha'', JStr (sre_head_sha a)),
       (''touchedFilePaths'', JList (map JStr (sre_touched_file_paths a))),
       (''findings'', JList (map enc_codebase_scan_review_enrichment_finding (sre_findings a)))]"

definition ok_CodebaseScanReviewEnrichment :: "CodebaseScanReviewEnrichment \<Rightarrow> bool" where
  "ok_CodebaseScanReviewEnrichment a \<longleftrightarrow> sre_schema_version a = CODEBASE_SCAN_REVIEW_ENRICHMENT_SCHEMA_VERSION \<and>
     nonblank (sre_review_run_id a) \<and>
     nonblank (sre_repository_id a) \<and>
     nonblank (sre_repository_full_name a) \<and>
     0 < sre_pull_request_number a \<and>
     nonblank (sre_head_sha a) \<and>
     list_all nonblank (sre_touched_file_paths a) \<and>
     list_all ok_codebase_scan_review_enrichment_finding (sre_findings a)"

interpretation CodebaseScanReviewEnrichment: contract_document enc_CodebaseScanReviewEnrichment CodebaseScanReviewEnrichment_reader ok_CodebaseScanReviewEnrichment CodebaseScanReviewEnrichment_from_mapping
proof unfold_locales
  show "CodebaseScanReviewEnrichment_from_mapping v = raise_if_errors (CodebaseScanReviewEnrichment_reader v)" for v
    by (rule CodebaseScanReviewEnrichment_from_mapping_def)
  show "yields (CodebaseScanReviewEnrichment_reader v) ok_CodebaseScanReviewEnrichment" for v
    unfolding CodebaseScanReviewEnrichment_reader_def
    by (rule yields_bind yields_intro yields_return codebase_scan_review_enrichment_finding.sound codebase_scan_review_enrichment_finding.items_sound)+ (simp add: ok_CodebaseScanReviewEnrichment_def)
  show "accepts (CodebaseScanReviewEnrichment_reader (enc_CodebaseScanReviewEnrichment a)) a" if "ok_CodebaseScanReviewEnrichment a" for a
    using that
    by (simp add: accepts_def CodebaseScanReviewEnrichment_reader_def enc_CodebaseScanReviewEnrichment_def ok_CodebaseScanReviewEnrichment_def run_reader primitive_readers codebase_scan_review_enrichment_finding.item_run codebase_scan_review_enrichment_finding.items_run)
qed

end
