(* ===== verification/ContractsReview.thy ===== *)
theory ContractsReview
  imports ContractsDiff
begin

text \<open>
  schemas/contracts.py: the structured review the model returns (\<open>LlmReviewOutput\<close> with its
  findings and their evidence) and the payload that is published.
\<close>

definition LLM_REVIEW_OUTPUT_SCHEMA_VERSION :: string where
  "LLM_REVIEW_OUTPUT_SCHEMA_VERSION = ''llm-review-output/v1''"

definition PUBLISH_PAYLOAD_SCHEMA_VERSION :: string where
  "PUBLISH_PAYLOAD_SCHEMA_VERSION = ''publish-payload/v1''"

record FindingEvidence =
  fe_source :: string
  fe_artifact_id :: "string option"
  fe_path :: "string option"
  fe_line_range :: "LineRange option"
  fe_excerpt :: string

definition read_finding_evidence :: "json \<Rightarrow> string \<Rightarrow> FindingEvidence reader" where
  "read_finding_evidence value path = do {
     item \<leftarrow> as_object value path;
     source' \<leftarrow> read_literal_from_set item ''source'' FINDING_SOURCES (Some path);
     artifact_id' \<leftarrow> read_nullable_str item ''artifactId'' (Some path);
     path' \<leftarrow> read_nullable_str item ''path'' (Some path);
     line_range' \<leftarrow> read_nullable_line_range (obj_get item ''lineRange'') (path @ ''.lineRange'');
     excerpt' \<leftarrow> read_non_empty_str item ''excerpt'' (Some path);
     ret \<lparr> fe_source = source',
        fe_artifact_id = artifact_id',
        fe_path = path',
        fe_line_range = line_range',
        fe_excerpt = excerpt' \<rparr> }"

definition enc_finding_evidence :: "FindingEvidence \<Rightarrow> json" where
  "enc_finding_evidence a = JObj [
       (''source'', JStr (fe_source a)),
       (''artifactId'', opt_json JStr (fe_artifact_id a)),
       (''path'', opt_json JStr (fe_path a)),
       (''lineRange'', opt_json enc_line_range (fe_line_range a)),
       (''excerpt'', JStr (fe_excerpt a))]"

definition ok_finding_evidence :: "FindingEvidence \<Rightarrow> bool" where
  "ok_finding_evidence a \<longleftrightarrow> fe_source a \<in> set FINDING_SOURCES \<and>
     pred_option nonblank (fe_artifact_id a) \<and>
     pred_option nonblank (fe_path a) \<and>
     pred_option ok_line_range (fe_line_range a) \<and>
     nonblank (fe_excerpt a)"

interpretation finding_evidence: contract_item enc_finding_evidence read_finding_evidence ok_finding_evidence
proof unfold_locales
  show "yields (read_finding_evidence j p) ok_finding_evidence" for j p
    unfolding read_finding_evidence_def
    by (rule yields_bind yields_intro yields_return line_range.sound line_range.items_sound yields_read_nullable_line_range)+ (simp add: ok_finding_evidence_def)
  show "accepts (read_finding_evidence (enc_finding_evidence a) p) a" if "ok_finding_evidence a" for a p
    using that
    by (simp add: accepts_def read_finding_evidence_def enc_finding_evidence_def ok_finding_evidence_def run_reader primitive_readers line_range.item_run line_range.items_run run_read_nullable_line_range)
qed

record ReviewFinding =
  rf_id :: string
  rf_source :: string
  rf_category :: string
  rf_severity :: string
  rf_confidence :: py_float
  rf_path :: "string option"
  rf_line_range :: "LineRange option"
  rf_title :: string
  rf_body :: string
  rf_evidence :: "FindingEvidence list"
  rf_suggested_fix :: "string option"

definition read_review_finding :: "json \<Rightarrow> string \<Rightarrow> ReviewFinding reader" where
  "read_review_finding value path = do {
     item \<leftarrow> as_object value path;
     evidence_js \<leftarrow> read_list item ''evidence'' (Some (path @ ''.evidence''));
     evidence' \<leftarrow> read_items read_finding_evidence (path @ ''.evidence'') evidence_js;
     require (evidence' \<noteq> []) (path @ ''.evidence'' @ '' must include at least one item'');
     id' \<leftarrow> read_non_empty_str item ''id'' (Some path);
     source' \<leftarrow> read_literal_from_set item ''source'' FINDING_SOURCES (Some path);
     category' \<leftarrow> read_literal_from_set item ''category'' FINDING_CATEGORIES (Some path);
     severity' \<leftarrow> read_literal_from_set item ''severity'' SEVERITIES (Some path);
     confidence' \<leftarrow> read_confidence item ''confidence'' (Some path);
     path' \<leftarrow> read_nullable_str item ''path'' (Some path);
     line_range' \<leftarrow> read_nullable_line_range (obj_get item ''lineRange'') (path @ ''.lineRange'');
     title' \<leftarrow> read_non_empty_str item ''title'' (Some path);
     body' \<leftarrow> read_non_empty_str item ''body'' (Some path);
     suggested_fix' \<leftarrow> read_nullable_str item ''suggestedFix'' (Some path);
     ret \<lparr> rf_id = id',
        rf_source = source',
        rf_category = category',
        rf_severity = severity',
        rf_confidence = confidence',
        rf_path = path',
        rf_line_range = line_range',
        rf_title = title',
        rf_body = body',
        rf_evidence = evidence',
        rf_suggested_fix = suggested_fix' \<rparr> }"

definition enc_review_finding :: "ReviewFinding \<Rightarrow> json" where
  "enc_review_finding a = JObj [
       (''id'', JStr (rf_id a)),
       (''source'', JStr (rf_source a)),
       (''category'', JStr (rf_category a)),
       (''severity'', JStr (rf_severity a)),
       (''confidence'', JFloat (rf_confidence a)),
       (''path'', opt_json JStr (rf_path a)),
       (''lineRange'', opt_json enc_line_range (rf_line_range a)),
       (''title'', JStr (rf_title a)),
       (''body'', JStr (rf_body a)),
       (''evidence'', JList (map enc_finding_evidence (rf_evidence a))),
       (''suggestedFix'', opt_json JStr (rf_suggested_fix a))]"

definition ok_review_finding :: "ReviewFinding \<Rightarrow> bool" where
  "ok_review_finding a \<longleftrightarrow> list_all ok_finding_evidence (rf_evidence a) \<and>
     rf_evidence a \<noteq> [] \<and>
     nonblank (rf_id a) \<and>
     rf_source a \<in> set FINDING_SOURCES \<and>
     rf_category a \<in> set FINDING_CATEGORIES \<and>
     rf_severity a \<in> set SEVERITIES \<and>
     unit_interval (rf_confidence a) \<and>
     pred_option nonblank (rf_path a) \<and>
     pred_option ok_line_range (rf_line_range a) \<and>
     nonblank (rf_title a) \<and>
     nonblank (rf_body a) \<and>
     pred_option nonblank (rf_suggested_fix a)"

interpretation review_finding: contract_item enc_review_finding read_review_finding ok_review_finding
proof unfold_locales
  show "yields (read_review_finding j p) ok_review_finding" for j p
    unfolding read_review_finding_def
    by (rule yields_bind yields_intro yields_return finding_evidence.sound finding_evidence.items_sound line_range.sound line_range.items_sound yields_read_nullable_line_range)+ (simp add: ok_review_finding_def)
  show "accepts (read_review_finding (enc_review_finding a) p) a" if "ok_review_finding a" for a p
    using that
    by (simp add: accepts_def read_review_finding_def enc_review_finding_def ok_review_finding_def run_reader primitive_readers finding_evidence.item_run finding_evidence.items_run line_range.item_run line_range.items_run run_read_nullable_line_range)
qed

record LlmReviewOutput =
  lro_schema_version :: string
  lro_prompt_id :: string
  lro_prompt_version :: string
  lro_model :: string
  lro_summary :: string
  lro_risk_level :: string
  lro_changed_components :: "string list"
  lro_inline_findings :: "ReviewFinding list"
  lro_summary_findings :: "ReviewFinding list"
  lro_test_suggestions :: "string list"
  lro_ci_explanation :: "string option"
  lro_confidence :: py_float

definition LlmReviewOutput_reader :: "obj \<Rightarrow> LlmReviewOutput reader" where
  "LlmReviewOutput_reader value = do {
     read_literal value ''schemaVersion'' LLM_REVIEW_OUTPUT_SCHEMA_VERSION None;
     prompt_id' \<leftarrow> read_non_empty_str value ''promptId'' None;
     prompt_version' \<leftarrow> read_non_empty_str value ''promptVersion'' None;
     model' \<leftarrow> read_non_empty_str value ''model'' None;
     summary' \<leftarrow> read_non_empty_str value ''summary'' None;
     risk_level' \<leftarrow> read_literal_from_set value ''riskLevel'' [''low'', ''medium'', ''high''] None;
     changed_components_js \<leftarrow> read_list value ''changedComponents'' None;
     changed_components' \<leftarrow> read_items read_value_non_empty_str ''changedComponents'' changed_components_js;
     inline_findings_js \<leftarrow> read_list value ''inlineFindings'' None;
     inline_findings' \<leftarrow> read_items read_review_finding ''inlineFindings'' inline_findings_js;
     summary_findings_js \<leftarrow> read_list value ''summaryFindings'' None;
     summary_findings' \<leftarrow> read_items read_review_finding ''summaryFindings'' summary_findings_js;
     test_suggestions_js \<leftarrow> read_list value ''testSuggestions'' None;
     test_suggestions' \<leftarrow> read_items read_value_non_empty_str ''testSuggestions'' test_suggestions_js;
     ci_explanation' \<leftarrow> read_nullable_str value ''ciExplanation'' None;
     confidence' \<leftarrow> read_confidence value ''confidence'' None;
     ret \<lparr> lro_schema_version = LLM_REVIEW_OUTPUT_SCHEMA_VERSION,
        lro_prompt_id = prompt_id',
        lro_prompt_version = prompt_version',
        lro_model = model',
        lro_summary = summary',
        lro_risk_level = risk_level',
        lro_changed_components = changed_components',
        lro_inline_findings = inline_findings',
        lro_summary_findings = summary_findings',
        lro_test_suggestions = test_suggestions',
        lro_ci_explanation = ci_explanation',
        lro_confidence = confidence' \<rparr> }"

definition LlmReviewOutput_from_mapping :: "obj \<Rightarrow> contract_error + LlmReviewOutput" where
  "LlmReviewOutput_from_mapping value = raise_if_errors (LlmReviewOutput_reader value)"

definition enc_LlmReviewOutput :: "LlmReviewOutput \<Rightarrow> obj" where
  "enc_LlmReviewOutput a = [
       (''schemaVersion'', JStr (lro_schema_version a)),
       (''promptId'', JStr (lro_prompt_id a)),
       (''promptVersion'', JStr (lro_prompt_version a)),
       (''model'', JStr (lro_model a)),
       (''summary'', JStr (lro_summary a)),
       (''riskLevel'', JStr (lro_risk_level a)),
       (''changedComponents'', JList (map JStr (lro_changed_components a))),
       (''inlineFindings'', JList (map enc_review_finding (lro_inline_findings a))),
       (''summaryFindings'', JList (map enc_review_finding (lro_summary_findings a))),
       (''testSuggestions'', JList (map JStr (lro_test_suggestions a))),
       (''ciExplanation'', opt_json JStr (lro_ci_explanation a)),
       (''confidence'', JFloat (lro_confidence a))]"

definition ok_LlmReviewOutput :: "LlmReviewOutput \<Rightarrow> bool" where
  "ok_LlmReviewOutput a \<longleftrightarrow> lro_schema_version a = LLM_REVIEW_OUTPUT_SCHEMA_VERSION \<and>
     nonblank (lro_prompt_id a) \<and>
     nonblank (lro_prompt_version a) \<and>
     nonblank (lro_model a) \<and>
     nonblank (lro_summary a) \<and>
     lro_risk_level a \<in> set [''low'', ''medium'', ''high''] \<and>
     list_all nonblank (lro_changed_components a) \<and>
     list_all ok_review_finding (lro_inline_findings a) \<and>
     list_all ok_review_finding (lro_summary_findings a) \<and>
     list_all nonblank (lro_test_suggestions a) \<and>
     pred_option nonblank (lro_ci_explanation a) \<and>
     unit_interval (lro_confidence a)"

interpretation LlmReviewOutput: contract_document enc_LlmReviewOutput LlmReviewOutput_reader ok_LlmReviewOutput LlmReviewOutput_from_mapping
proof unfold_locales
  show "LlmReviewOutput_from_mapping v = raise_if_errors (LlmReviewOutput_reader v)" for v
    by (rule LlmReviewOutput_from_mapping_def)
  show "yields (LlmReviewOutput_reader v) ok_LlmReviewOutput" for v
    unfolding LlmReviewOutput_reader_def
    by (rule yields_bind yields_intro yields_return review_finding.sound review_finding.items_sound)+ (simp add: ok_LlmReviewOutput_def)
  show "accepts (LlmReviewOutput_reader (enc_LlmReviewOutput a)) a" if "ok_LlmReviewOutput a" for a
    using that
    by (simp add: accepts_def LlmReviewOutput_reader_def enc_LlmReviewOutput_def ok_LlmReviewOutput_def run_reader primitive_readers review_finding.item_run review_finding.items_run)
qed

record PublishInlineComment =
  pic_finding_id :: string
  pic_path :: string
  pic_line :: int
  pic_body :: string
  pic_severity :: string

definition read_publish_inline_comment :: "json \<Rightarrow> string \<Rightarrow> PublishInlineComment reader" where
  "read_publish_inline_comment value path = do {
     item \<leftarrow> as_object value path;
     finding_id' \<leftarrow> read_non_empty_str item ''findingId'' (Some path);
     path' \<leftarrow> read_non_empty_str item ''path'' (Some path);
     line' \<leftarrow> read_positive_int item ''line'' (Some path);
     body' \<leftarrow> read_non_empty_str item ''body'' (Some path);
     severity' \<leftarrow> read_literal_from_set item ''severity'' SEVERITIES (Some path);
     ret \<lparr> pic_finding_id = finding_id',
        pic_path = path',
        pic_line = line',
        pic_body = body',
        pic_severity = severity' \<rparr> }"

definition enc_publish_inline_comment :: "PublishInlineComment \<Rightarrow> json" where
  "enc_publish_inline_comment a = JObj [
       (''findingId'', JStr (pic_finding_id a)),
       (''path'', JStr (pic_path a)),
       (''line'', JInt (pic_line a)),
       (''body'', JStr (pic_body a)),
       (''severity'', JStr (pic_severity a))]"

definition ok_publish_inline_comment :: "PublishInlineComment \<Rightarrow> bool" where
  "ok_publish_inline_comment a \<longleftrightarrow> nonblank (pic_finding_id a) \<and>
     nonblank (pic_path a) \<and>
     0 < pic_line a \<and>
     nonblank (pic_body a) \<and>
     pic_severity a \<in> set SEVERITIES"

interpretation publish_inline_comment: contract_item enc_publish_inline_comment read_publish_inline_comment ok_publish_inline_comment
proof unfold_locales
  show "yields (read_publish_inline_comment j p) ok_publish_inline_comment" for j p
    unfolding read_publish_inline_comment_def
    by (rule yields_bind yields_intro yields_return )+ (simp add: ok_publish_inline_comment_def)
  show "accepts (read_publish_inline_comment (enc_publish_inline_comment a) p) a" if "ok_publish_inline_comment a" for a p
    using that
    by (simp add: accepts_def read_publish_inline_comment_def enc_publish_inline_comment_def ok_publish_inline_comment_def run_reader primitive_readers )
qed

record PublishPayload =
  pp_schema_version :: string
  pp_review_run_id :: string
  pp_repository_full_name :: string
  pp_pull_request_number :: int
  pp_head_sha :: string
  pp_mode :: string
  pp_summary_body :: string
  pp_inline_comments :: "PublishInlineComment list"

definition PublishPayload_reader :: "obj \<Rightarrow> PublishPayload reader" where
  "PublishPayload_reader value = do {
     read_literal value ''schemaVersion'' PUBLISH_PAYLOAD_SCHEMA_VERSION None;
     review_run_id' \<leftarrow> read_non_empty_str value ''reviewRunId'' None;
     repository_full_name' \<leftarrow> read_non_empty_str value ''repositoryFullName'' None;
     pull_request_number' \<leftarrow> read_positive_int value ''pullRequestNumber'' None;
     head_sha' \<leftarrow> read_non_empty_str value ''headSha'' None;
     mode' \<leftarrow> read_literal_from_set value ''mode'' [''dry_run'', ''publish''] None;
     summary_body' \<leftarrow> read_non_empty_str value ''summaryBody'' None;
     inline_comments_js \<leftarrow> read_list value ''inlineComments'' None;
     inline_comments' \<leftarrow> read_items read_publish_inline_comment ''inlineComments'' inline_comments_js;
     ret \<lparr> pp_schema_version = PUBLISH_PAYLOAD_SCHEMA_VERSION,
        pp_review_run_id = review_run_id',
        pp_repository_full_name = repository_full_name',
        pp_pull_request_number = pull_request_number',
        pp_head_sha = head_sha',
        pp_mode = mode',
        pp_summary_body = summary_body',
        pp_inline_comments = inline_comments' \<rparr> }"

definition PublishPayload_from_mapping :: "obj \<Rightarrow> contract_error + PublishPayload" where
  "PublishPayload_from_mapping value = raise_if_errors (PublishPayload_reader value)"

definition enc_PublishPayload :: "PublishPayload \<Rightarrow> obj" where
  "enc_PublishPayload a = [
       (''schemaVersion'', JStr (pp_schema_version a)),
       (''reviewRunId'', JStr (pp_review_run_id a)),
       (''repositoryFullName'', JStr (pp_repository_full_name a)),
       (''pullRequestNumber'', JInt (pp_pull_request_number a)),
       (''headSha'', JStr (pp_head_sha a)),
       (''mode'', JStr (pp_mode a)),
       (''summaryBody'', JStr (pp_summary_body a)),
       (''inlineComments'', JList (map enc_publish_inline_comment (pp_inline_comments a)))]"

definition ok_PublishPayload :: "PublishPayload \<Rightarrow> bool" where
  "ok_PublishPayload a \<longleftrightarrow> pp_schema_version a = PUBLISH_PAYLOAD_SCHEMA_VERSION \<and>
     nonblank (pp_review_run_id a) \<and>
     nonblank (pp_repository_full_name a) \<and>
     0 < pp_pull_request_number a \<and>
     nonblank (pp_head_sha a) \<and>
     pp_mode a \<in> set [''dry_run'', ''publish''] \<and>
     nonblank (pp_summary_body a) \<and>
     list_all ok_publish_inline_comment (pp_inline_comments a)"

interpretation PublishPayload: contract_document enc_PublishPayload PublishPayload_reader ok_PublishPayload PublishPayload_from_mapping
proof unfold_locales
  show "PublishPayload_from_mapping v = raise_if_errors (PublishPayload_reader v)" for v
    by (rule PublishPayload_from_mapping_def)
  show "yields (PublishPayload_reader v) ok_PublishPayload" for v
    unfolding PublishPayload_reader_def
    by (rule yields_bind yields_intro yields_return publish_inline_comment.sound publish_inline_comment.items_sound)+ (simp add: ok_PublishPayload_def)
  show "accepts (PublishPayload_reader (enc_PublishPayload a)) a" if "ok_PublishPayload a" for a
    using that
    by (simp add: accepts_def PublishPayload_reader_def enc_PublishPayload_def ok_PublishPayload_def run_reader primitive_readers publish_inline_comment.item_run publish_inline_comment.items_run)
qed

end
