(* ===== verification/ContractProperties.thy ===== *)
theory ContractProperties
  imports ContractsJobs ContractsSemgrep ContractsTreeSitter ContractsCi ContractsScan ContractsReview
begin

text \<open>
  What the readers of schemas/contracts.py guarantee together: which payloads each document accepts,
  the exact report for a job payload, and where the message of a nested defect points.
\<close>

section \<open>One defect in a list of items\<close>

definition defect_of :: "(json \<Rightarrow> string \<Rightarrow> 'a reader) \<Rightarrow> json \<Rightarrow> (string \<Rightarrow> string) \<Rightarrow> bool" where
  \<comment> \<open>the reader reports exactly one message on this item, and the message depends on the path only\<close>
  "defect_of rd j msg \<longleftrightarrow> (\<forall>p. \<exists>v. \<forall>es. run_state (rd j p) es = (v, es @ [msg p]))"

lemma defect_in_items_from:
  assumes ok: "\<And>a p es. a \<in> set xs \<Longrightarrow> run_state (rd (enc a) p) es = (a, es)"
    and i: "i < length xs" and bad: "defect_of rd j msg"
  shows "\<exists>ys. length ys = length xs \<and> (\<forall>es. run_state (read_items_from rd path k ((map enc xs)[i := j])) es =
     (ys, es @ [msg (path @ ''['' @ str_of_nat (k + i) @ '']'')]))"
  using ok i
proof (induction xs arbitrary: i k)
  case Nil
  then show ?case by simp
next
  case (Cons x xs)
  have rest: "run_state (read_items_from rd path (Suc k) (map enc xs)) es = (xs, es)" for es
    using Cons.prems(1) by (intro accepts_run accepts_read_items_from) (simp add: accepts_def)
  show ?case
  proof (cases i)
    case 0
    from bad obtain v where "\<And>es. run_state (rd j (path @ ''['' @ str_of_nat k @ '']'')) es =
        (v, es @ [msg (path @ ''['' @ str_of_nat k @ '']'')])"
      unfolding defect_of_def by metis
    with rest 0 show ?thesis by (intro exI [of _ "v # xs"]) simp
  next
    case (Suc n)
    with Cons.prems obtain ys where "length ys = length xs" and
      "\<forall>es. run_state (read_items_from rd path (Suc k) ((map enc xs)[n := j])) es =
         (ys, es @ [msg (path @ ''['' @ str_of_nat (Suc k + n) @ '']'')])"
      using Cons.IH [of n "Suc k"] by auto
    with Cons.prems(1) Suc show ?thesis by (intro exI [of _ "x # ys"]) simp
  qed
qed

lemma defect_in_items:
  assumes "\<And>a p es. a \<in> set xs \<Longrightarrow> run_state (rd (enc a) p) es = (a, es)"
    and "i < length xs" and "defect_of rd j msg"
  shows "\<exists>ys. length ys = length xs \<and> (\<forall>es. run_state (read_items rd path ((map enc xs)[i := j])) es =
     (ys, es @ [msg (path @ ''['' @ str_of_nat i @ '']'')]))"
  using defect_in_items_from [OF assms, of path 0] by (simp add: read_items_def)

lemma severity_message:
  "one_of_message SEVERITIES = '' must be one of critical, high, info, low, medium''"
  by code_simp

lemma severity_defect:
  assumes f: "ok_review_finding f" and s: "s \<notin> set SEVERITIES"
  shows "defect_of read_review_finding (enc_review_finding (f\<lparr>rf_severity := s\<rparr>))
    (\<lambda>p. p @ ''.severity must be one of critical, high, info, low, medium'')"
  using assms unfolding defect_of_def
  by (simp add: read_review_finding_def enc_review_finding_def ok_review_finding_def run_reader
      primitive_readers finding_evidence.items_run run_read_nullable_line_range join_path_def
      severity_message)

section \<open>The documents\<close>

text \<open>C8: The structured review output: the values LlmReviewOutput.from_mapping can return are exactly
  the well-formed ones (version, non-blank identifiers and texts, known risk level, source, category
  and severity, at least one piece of evidence per finding, confidences between 0 and 1), and each of
  them is accepted again, unchanged, from the JSON object the contract describes.\<close>

theorem llm_review_output_accepts_exactly_well_formed:
  "((\<exists>v. LlmReviewOutput_from_mapping v = Inr a) \<longleftrightarrow> ok_LlmReviewOutput a) \<and>
   (LlmReviewOutput_from_mapping (enc_LlmReviewOutput a) = Inr a \<longleftrightarrow> ok_LlmReviewOutput a)"
  using LlmReviewOutput.accepted_ok LlmReviewOutput.ok_iff_accepted by blast

text \<open>A defect deep inside the review output is reported once and at its place: when one inline
  finding of an otherwise well-formed output has an unknown severity, from_mapping raises with exactly
  one message, which names the index of the finding and the allowed values in sorted order.\<close>

theorem llm_review_output_locates_bad_severity:
  assumes a: "ok_LlmReviewOutput a" and i: "i < length (lro_inline_findings a)"
    and s: "s \<notin> set SEVERITIES"
  shows "LlmReviewOutput_from_mapping (enc_LlmReviewOutput
      (a\<lparr>lro_inline_findings := (lro_inline_findings a)
          [i := (lro_inline_findings a ! i)\<lparr>rf_severity := s\<rparr>]\<rparr>)) =
    Inl (ContractValidationError [''inlineFindings['' @ str_of_nat i @
       ''].severity must be one of critical, high, info, low, medium''])"
proof -
  let ?fs = "lro_inline_findings a"
  from a have ok: "list_all ok_review_finding ?fs" by (simp add: ok_LlmReviewOutput_def)
  with i have "ok_review_finding (?fs ! i)" by (simp add: list_all_length)
  note defect = severity_defect [OF this s]
  have items: "run_state (read_review_finding (enc_review_finding f) p) es = (f, es)"
    if "f \<in> set ?fs" for f p es
    using that ok by (simp add: review_finding.item_run list_all_iff)
  obtain ys where "\<And>es. run_state (read_items read_review_finding ''inlineFindings''
      ((map enc_review_finding ?fs)[i := enc_review_finding ((?fs ! i)\<lparr>rf_severity := s\<rparr>)])) es =
      (ys, es @ [''inlineFindings['' @ str_of_nat i @
         ''].severity must be one of critical, high, info, low, medium''])"
    using defect_in_items [of ?fs read_review_finding enc_review_finding, OF items i defect,
      of "''inlineFindings''"] by auto
  with a show ?thesis
    by (simp add: LlmReviewOutput_from_mapping_def raise_if_errors_def LlmReviewOutput_reader_def
        enc_LlmReviewOutput_def ok_LlmReviewOutput_def run_reader primitive_readers map_update
        review_finding.items_run)
qed

definition sample_finding :: ReviewFinding where
  "sample_finding = \<lparr> rf_id = ''f1'', rf_source = ''llm'', rf_category = ''bug'', rf_severity = ''high'',
     rf_confidence = Fin (9/10), rf_path = Some ''a.py'', rf_line_range = Some \<lparr>lr_start_line = 3, lr_end_line = 4\<rparr>,
     rf_title = ''Title'', rf_body = ''Body'',
     rf_evidence = [\<lparr> fe_source = ''llm'', fe_artifact_id = None, fe_path = None, fe_line_range = None,
        fe_excerpt = ''x = 1'' \<rparr>], rf_suggested_fix = None \<rparr>"

definition sample_output :: LlmReviewOutput where
  "sample_output = \<lparr> lro_schema_version = LLM_REVIEW_OUTPUT_SCHEMA_VERSION, lro_prompt_id = ''p'',
     lro_prompt_version = ''v1'', lro_model = ''m'', lro_summary = ''s'', lro_risk_level = ''low'',
     lro_changed_components = [], lro_inline_findings = [sample_finding], lro_summary_findings = [],
     lro_test_suggestions = [], lro_ci_explanation = None, lro_confidence = Fin 1 \<rparr>"

lemma sample_output_ok: "ok_LlmReviewOutput sample_output"
proof -
  have texts: "nonblank ''f1''" "nonblank ''a.py''" "nonblank ''Title''" "nonblank ''Body''"
    "nonblank ''x = 1''" "nonblank ''p''" "nonblank ''v1''" "nonblank ''m''" "nonblank ''s''"
    by code_simp+
  show ?thesis
    by (simp add: sample_output_def sample_finding_def ok_LlmReviewOutput_def ok_review_finding_def
        ok_finding_evidence_def ok_line_range_def FINDING_SOURCES_def FINDING_CATEGORIES_def
        SEVERITIES_def unit_interval_def texts del: nonblank_Cons)
qed

theorem llm_review_output_locates_bad_severity_witness:
  "LlmReviewOutput_from_mapping (enc_LlmReviewOutput
      (sample_output\<lparr>lro_inline_findings := (lro_inline_findings sample_output)
          [0 := (lro_inline_findings sample_output ! 0)\<lparr>rf_severity := ''urgent''\<rparr>]\<rparr>)) =
    Inl (ContractValidationError [''inlineFindings['' @ str_of_nat 0 @
       ''].severity must be one of critical, high, info, low, medium''])"
  by (rule llm_review_output_locates_bad_severity [OF sample_output_ok])
    (simp_all add: sample_output_def SEVERITIES_def)

text \<open>C29: The artifacts the analysers hand to each other: for the diff, Semgrep, tree-sitter and CI log
  artifacts, the values from_mapping returns are exactly the
  well-formed ones, and reading back the JSON object of a well-formed artifact gives that artifact.\<close>

theorem analyser_artifacts_accept_exactly_well_formed:
  "(((\<exists>v. DiffArtifact_from_mapping v = Inr d) \<longleftrightarrow> ok_DiffArtifact d) \<and>
    (DiffArtifact_from_mapping (enc_DiffArtifact d) = Inr d \<longleftrightarrow> ok_DiffArtifact d)) \<and>
   (((\<exists>v. SemgrepArtifact_from_mapping v = Inr s) \<longleftrightarrow> ok_SemgrepArtifact s) \<and>
    (SemgrepArtifact_from_mapping (enc_SemgrepArtifact s) = Inr s \<longleftrightarrow> ok_SemgrepArtifact s)) \<and>
   (((\<exists>v. TreeSitterArtifact_from_mapping v = Inr t) \<longleftrightarrow> ok_TreeSitterArtifact t) \<and>
    (TreeSitterArtifact_from_mapping (enc_TreeSitterArtifact t) = Inr t \<longleftrightarrow> ok_TreeSitterArtifact t)) \<and>
   (((\<exists>v. CiLogArtifact_from_mapping v = Inr c) \<longleftrightarrow> ok_CiLogArtifact c) \<and>
    (CiLogArtifact_from_mapping (enc_CiLogArtifact c) = Inr c \<longleftrightarrow> ok_CiLogArtifact c))"
  using DiffArtifact.accepted_ok DiffArtifact.ok_iff_accepted
    SemgrepArtifact.accepted_ok SemgrepArtifact.ok_iff_accepted
    TreeSitterArtifact.accepted_ok TreeSitterArtifact.ok_iff_accepted
    CiLogArtifact.accepted_ok CiLogArtifact.ok_iff_accepted
  by blast

section \<open>Job payloads\<close>

definition text_problem :: "obj \<Rightarrow> string \<Rightarrow> string list" where
  "text_problem v key = (case obj_get v key of
      JStr s \<Rightarrow> if nonblank s then [] else [key @ '' must be a non-empty string'']
    | _ \<Rightarrow> [key @ '' must be a non-empty string''])"

definition review_job_problems :: "obj \<Rightarrow> string list" where
  "review_job_problems v =
     (if obj_get v ''schemaVersion'' = JStr ''review-job-input/v1'' then []
      else [''schemaVersion must be review-job-input/v1'']) @
     text_problem v ''deliveryId'' @ text_problem v ''reviewRunId'' @ text_problem v ''repositoryId'' @
     text_problem v ''pullRequestId'' @
     (case obj_get v ''pullRequestNumber'' of
        JInt n \<Rightarrow> if 0 < n then [] else [''pullRequestNumber must be a positive integer'']
      | _ \<Rightarrow> [''pullRequestNumber must be a positive integer'']) @
     text_problem v ''headSha'' @ text_problem v ''triggerEvent''"

definition text_at :: "obj \<Rightarrow> string \<Rightarrow> string" where
  "text_at v key = (case obj_get v key of JStr s \<Rightarrow> s | _ \<Rightarrow> [])"

lemma run_read_text:
  "run_state (read_non_empty_str v key None) es =
     (if text_problem v key = [] then text_at v key else [], es @ text_problem v key)"
  by (simp add: read_non_empty_str_def read_value_non_empty_str_def text_problem_def text_at_def
      join_path_def run_complain split: json.split)

lemma run_read_number:
  "run_state (read_positive_int v key None) es =
     (case obj_get v key of JInt n \<Rightarrow> if 0 < n then n else 1 | _ \<Rightarrow> 1,
      es @ (case obj_get v key of
        JInt n \<Rightarrow> if 0 < n then [] else [key @ '' must be a positive integer'']
      | _ \<Rightarrow> [key @ '' must be a positive integer'']))"
  by (simp add: read_positive_int_def read_value_positive_int_def join_path_def run_complain split: json.split)

text \<open>A review job payload is rejected with the complete list of its problems, one message per
  offending field in the order of the contract, and otherwise accepted with every field copied from
  the payload; a field that is missing, of the wrong type, blank, or (for the pull request number) a
  boolean or not positive is a problem, and nothing else is.\<close>

theorem review_job_input_reports_every_problem:
  "ReviewJobInput_from_mapping v =
     (if review_job_problems v \<noteq> [] then Inl (ContractValidationError (review_job_problems v))
      else Inr \<lparr> rj_schema_version = ''review-job-input/v1'',
        rj_delivery_id = text_at v ''deliveryId'',
        rj_review_run_id = text_at v ''reviewRunId'',
        rj_repository_id = text_at v ''repositoryId'',
        rj_pull_request_id = text_at v ''pullRequestId'',
        rj_pull_request_number = (case obj_get v ''pullRequestNumber'' of JInt n \<Rightarrow> n),
        rj_head_sha = text_at v ''headSha'',
        rj_trigger_event = text_at v ''triggerEvent'' \<rparr>)"
  by (simp add: ReviewJobInput_from_mapping_def raise_if_errors_def ReviewJobInput_reader_def
      run_read_text run_read_number read_literal_def run_require join_path_def review_job_problems_def
      REVIEW_JOB_INPUT_SCHEMA_VERSION_def split: json.split)

end
