(* ===== verification/PyRegex.thy ===== *)
theory PyRegex
  imports Prelude
begin

text \<open>
  The part of Python's \<open>re\<close> the worker uses: character classes, sequences, alternatives, greedy
  and lazy repetition of a class, \<open>{m,n}\<close> counts, groups, word boundaries and anchors. Matching
  is backtracking: \<open>run_re\<close> returns every way to match at a position, in the order Python's
  engine tries them, so the first is the match. \<open>re_search\<close> and \<open>re_sub\<close> scan left to right.
  The classes \<open>\w\<close>, \<open>\s\<close>, \<open>\d\<close> are Python's on the code points U+0000..U+00FF.
\<close>

section \<open>Patterns\<close>

definition is_digit :: "char \<Rightarrow> bool" where
  \<comment> \<open>\<open>\d\<close>: the only decimal digits of the range are ASCII\<close>
  "is_digit c \<longleftrightarrow> c \<in> set ''0123456789''"

definition is_lower_ascii :: "char \<Rightarrow> bool" where
  "is_lower_ascii c \<longleftrightarrow> c \<in> set ''abcdefghijklmnopqrstuvwxyz''"

definition is_upper_ascii :: "char \<Rightarrow> bool" where
  "is_upper_ascii c \<longleftrightarrow> c \<in> set ''ABCDEFGHIJKLMNOPQRSTUVWXYZ''"

definition is_word :: "char \<Rightarrow> bool" where
  \<comment> \<open>\<open>\w\<close>: letters, numeric characters and the underscore\<close>
  "is_word c \<longleftrightarrow> is_digit c \<or> is_lower_ascii c \<or> is_upper_ascii c \<or> c = CHR ''_'' \<or>
     (let n = (of_char c :: nat) in
        n \<in> set [170, 178, 179, 181, 185, 186, 188, 189, 190] \<or>
        (192 \<le> n \<and> n \<noteq> 215 \<and> n \<noteq> 247))"

datatype re =
    Eps
  | Cls "char \<Rightarrow> bool"
  | Seq re re
  | Alt re re
  | Star "char \<Rightarrow> bool"       \<comment> \<open>\<open>[...]*\<close>, greedy\<close>
  | LazyStar "char \<Rightarrow> bool"   \<comment> \<open>\<open>[...]*?\<close>\<close>
  | Group nat re
  | WordB                     \<comment> \<open>\<open>\b\<close>\<close>
  | BeginText                 \<comment> \<open>\<open>^\<close>\<close>
  | EndText                   \<comment> \<open>\<open>$\<close>: at the end, or before a final line feed\<close>

record match_state =
  ms_prev :: "char option"
  ms_rest :: string
  ms_caps :: "(nat \<times> string) list"

fun star_runs :: "(char \<Rightarrow> bool) \<Rightarrow> char option \<Rightarrow> string \<Rightarrow> (char option \<times> string) list" where
  "star_runs p prev [] = [(prev, [])]"
| "star_runs p prev (c # cs) = (if p c then star_runs p (Some c) cs @ [(prev, c # cs)] else [(prev, c # cs)])"

definition word_at :: "char option \<Rightarrow> bool" where
  "word_at x = (case x of None \<Rightarrow> False | Some c \<Rightarrow> is_word c)"

definition first_char :: "string \<Rightarrow> char option" where
  "first_char s = (case s of [] \<Rightarrow> None | c # _ \<Rightarrow> Some c)"

fun run_re :: "re \<Rightarrow> match_state \<Rightarrow> match_state list" where
  "run_re Eps s = [s]"
| "run_re (Cls p) s =
     (case ms_rest s of
        c # cs \<Rightarrow> (if p c then [s\<lparr>ms_prev := Some c, ms_rest := cs\<rparr>] else [])
      | [] \<Rightarrow> [])"
| "run_re (Seq a b) s = concat (map (run_re b) (run_re a s))"
| "run_re (Alt a b) s = run_re a s @ run_re b s"
| "run_re (Star p) s = map (\<lambda>(pr, r). s\<lparr>ms_prev := pr, ms_rest := r\<rparr>) (star_runs p (ms_prev s) (ms_rest s))"
| "run_re (LazyStar p) s =
     map (\<lambda>(pr, r). s\<lparr>ms_prev := pr, ms_rest := r\<rparr>) (rev (star_runs p (ms_prev s) (ms_rest s)))"
| "run_re (Group n r) s =
     map (\<lambda>t. t\<lparr>ms_caps := (n, take (length (ms_rest s) - length (ms_rest t)) (ms_rest s)) # ms_caps t\<rparr>)
       (run_re r s)"
| "run_re WordB s = (if word_at (ms_prev s) \<noteq> word_at (first_char (ms_rest s)) then [s] else [])"
| "run_re BeginText s = (if ms_prev s = None then [s] else [])"
| "run_re EndText s = (if ms_rest s = [] \<or> ms_rest s = [CHR 0x0A] then [s] else [])"

section \<open>Pattern builders\<close>

definition lit :: "string \<Rightarrow> re" where
  "lit s = foldr (\<lambda>c r. Seq (Cls (\<lambda>x. x = c)) r) s Eps"

definition ilit :: "string \<Rightarrow> re" where
  \<comment> \<open>a literal under \<open>re.IGNORECASE\<close>\<close>
  "ilit s = foldr (\<lambda>c r. Seq (Cls (\<lambda>x. lower_char x = lower_char c)) r) s Eps"

definition seqs :: "re list \<Rightarrow> re" where
  "seqs rs = foldr Seq rs Eps"

fun alts :: "re list \<Rightarrow> re" where
  "alts [] = Eps"
| "alts [r] = r"
| "alts (r # rs) = Alt r (alts rs)"

definition opt :: "re \<Rightarrow> re" where
  "opt r = Alt r Eps"

definition plus :: "(char \<Rightarrow> bool) \<Rightarrow> re" where
  "plus p = Seq (Cls p) (Star p)"

definition at_least :: "nat \<Rightarrow> (char \<Rightarrow> bool) \<Rightarrow> re" where
  "at_least n p = Seq (seqs (replicate n (Cls p))) (Star p)"

definition exactly :: "nat \<Rightarrow> (char \<Rightarrow> bool) \<Rightarrow> re" where
  "exactly n p = seqs (replicate n (Cls p))"

section \<open>Matching, searching, substituting\<close>

definition match_at :: "re \<Rightarrow> char option \<Rightarrow> string \<Rightarrow> match_state option" where
  "match_at r prev s =
     (case run_re r \<lparr>ms_prev = prev, ms_rest = s, ms_caps = []\<rparr> of [] \<Rightarrow> None | t # _ \<Rightarrow> Some t)"

definition re_match :: "re \<Rightarrow> string \<Rightarrow> match_state option" where
  \<comment> \<open>\<open>pattern.match(text)\<close>\<close>
  "re_match r s = match_at r None s"

fun search_from :: "re \<Rightarrow> char option \<Rightarrow> string \<Rightarrow> bool" where
  "search_from r prev [] = (match_at r prev [] \<noteq> None)"
| "search_from r prev (c # cs) = (match_at r prev (c # cs) \<noteq> None \<or> search_from r (Some c) cs)"

definition re_search :: "re \<Rightarrow> string \<Rightarrow> bool" where
  \<comment> \<open>whether \<open>pattern.search(text)\<close> finds a match\<close>
  "re_search r s = search_from r None s"

definition group :: "match_state \<Rightarrow> nat \<Rightarrow> string option" where
  "group t n = map_of (ms_caps t) n"

text \<open>
  \<open>pattern.subn(repl, text)\<close> for patterns that match no empty text (all of the worker's): an empty
  match would be skipped here. The count is the number of replacements.
\<close>

function sub_from :: "re \<Rightarrow> (match_state \<Rightarrow> string) \<Rightarrow> char option \<Rightarrow> string \<Rightarrow> string \<times> nat" where
  "sub_from r f prev [] = ([], 0)"
| "sub_from r f prev (c # cs) =
     (case match_at r prev (c # cs) of
        Some t \<Rightarrow>
          (if length (ms_rest t) < length (c # cs)
           then (case sub_from r f (ms_prev t) (ms_rest t) of (out, n) \<Rightarrow> (f t @ out, Suc n))
           else (case sub_from r f (Some c) cs of (out, n) \<Rightarrow> (c # out, n)))
      | None \<Rightarrow> (case sub_from r f (Some c) cs of (out, n) \<Rightarrow> (c # out, n)))"
  by pat_completeness auto
termination
  by (relation "measure (\<lambda>(r, f, prev, s). length s)") auto

definition re_subn :: "re \<Rightarrow> (match_state \<Rightarrow> string) \<Rightarrow> string \<Rightarrow> string \<times> nat" where
  "re_subn r f s = sub_from r f None s"

definition re_sub :: "re \<Rightarrow> (match_state \<Rightarrow> string) \<Rightarrow> string \<Rightarrow> string" where
  "re_sub r f s = fst (re_subn r f s)"

text \<open>
  \<open>re.split(pattern, text)\<close> for a pattern that matches no empty text. The pattern is given as a function of the
  character before and the text ahead, so that it may look behind.
\<close>

function split_matches :: "(char option \<Rightarrow> string \<Rightarrow> match_state option) \<Rightarrow> string \<Rightarrow> char option \<Rightarrow> string \<Rightarrow> string list" where
  "split_matches m cur prev [] = [cur]"
| "split_matches m cur prev (c # cs) =
     (case m prev (c # cs) of
        Some t \<Rightarrow>
          (if length (ms_rest t) < length (c # cs) then cur # split_matches m [] (ms_prev t) (ms_rest t)
           else split_matches m (cur @ [c]) (Some c) cs)
      | None \<Rightarrow> split_matches m (cur @ [c]) (Some c) cs)"
  by pat_completeness auto
termination
  by (relation "measure (\<lambda>(m, cur, prev, s). length s)") auto

definition re_split :: "(char option \<Rightarrow> string \<Rightarrow> match_state option) \<Rightarrow> string \<Rightarrow> string list" where
  "re_split m s = split_matches m [] None s"

section \<open>Facts about the matcher\<close>

lemma star_runs_suffix: "(pr, r) \<in> set (star_runs p prev s) \<Longrightarrow> \<exists>u. s = u @ r \<and> (\<forall>c \<in> set u. p c)"
proof (induction s arbitrary: prev)
  case (Cons c cs)
  show ?case
  proof (cases "p c \<and> (pr, r) \<in> set (star_runs p (Some c) cs)")
    case True
    with Cons.IH obtain u where "cs = u @ r" "\<forall>c \<in> set u. p c" by blast
    with True show ?thesis by (intro exI [of _ "c # u"]) auto
  next
    case False
    with Cons.prems show ?thesis by (auto split: if_splits)
  qed
qed simp

text \<open>A match consumes a prefix of the remaining text.\<close>

lemma run_re_suffix: "t \<in> set (run_re r s) \<Longrightarrow> \<exists>u. ms_rest s = u @ ms_rest t"
proof (induction r arbitrary: s t)
  case (Cls p)
  then obtain c cs where c: "ms_rest s = c # cs" by (cases "ms_rest s") auto
  with Cls have "ms_rest s = [c] @ ms_rest t" by (auto split: if_splits)
  then show ?case by blast
next
  case (Seq a b)
  then show ?case by fastforce
next
  case (Star p)
  then show ?case by (auto dest: star_runs_suffix)
next
  case (LazyStar p)
  then show ?case by (auto dest: star_runs_suffix)
next
  case (Group n r)
  then show ?case by fastforce
qed (auto split: if_splits)

lemma match_at_suffix: "match_at r prev s = Some t \<Longrightarrow> \<exists>u. s = u @ ms_rest t"
proof -
  assume "match_at r prev s = Some t"
  then have "t \<in> set (run_re r \<lparr>ms_prev = prev, ms_rest = s, ms_caps = []\<rparr>)"
    by (auto simp: match_at_def split: list.splits)
  from run_re_suffix [OF this] show ?thesis by simp
qed

lemma sub_from_unchanged: "snd (sub_from r f prev s) = 0 \<Longrightarrow> fst (sub_from r f prev s) = s"
  by (induction r f prev s rule: sub_from.induct)
    (auto split: option.splits if_splits prod.splits)

lemma re_sub_unchanged: "snd (re_subn r f s) = 0 \<Longrightarrow> re_sub r f s = s"
  by (simp add: re_subn_def re_sub_def sub_from_unchanged)

text \<open>
  A substitution whose replacement is a prefix of the match followed by such a marker brings no
  new occurrence of a text without the marker's outer characters.
\<close>

definition marks :: "(match_state \<Rightarrow> string) \<Rightarrow> re \<Rightarrow> string \<Rightarrow> bool" where
  "marks f r k \<longleftrightarrow> (\<forall>prev s t. match_at r prev s = Some t \<longrightarrow>
     (\<exists>g g' a m b. f t = g @ a # m @ [b] \<and> s = g @ g' \<and> a \<notin> set k \<and> b \<notin> set k \<and> \<not> contains_str k m))"

lemma marksD:
  "marks f r k \<Longrightarrow> match_at r prev s = Some t \<Longrightarrow>
     \<exists>g g' a m b. f t = g @ a # m @ [b] \<and> s = g @ g' \<and> a \<notin> set k \<and> b \<notin> set k \<and> \<not> contains_str k m"
  unfolding marks_def by blast

lemma starts_with_sub_from:
  assumes "marks f r k"
  shows "set p \<subseteq> set k \<Longrightarrow> starts_with p (fst (sub_from r f prev s)) \<Longrightarrow> starts_with p s"
  using assms
proof (induction r f prev s arbitrary: p rule: sub_from.induct)
  case (1 r f prev)
  then show ?case by simp
next
  case (2 r f prev c cs)
  show ?case
  proof (cases "\<exists>t. match_at r prev (c # cs) = Some t \<and> length (ms_rest t) < length (c # cs)")
    case True
    then obtain t where t: "match_at r prev (c # cs) = Some t" "length (ms_rest t) < length (c # cs)" by blast
    from marksD [OF "2.prems"(3) t(1)] obtain g g' a m b
      where f: "f t = g @ a # m @ [b]" and s: "c # cs = g @ g'" and a: "a \<notin> set k" by blast
    from t "2.prems"(2) f obtain z where "starts_with p (g @ a # z)"
      by (auto split: prod.splits)
    with a "2.prems"(1) have "starts_with p g" by (blast intro: starts_with_append_sep)
    then show ?thesis unfolding s by (rule starts_with_append)
  next
    case False
    then have eq: "fst (sub_from r f prev (c # cs)) = c # fst (sub_from r f (Some c) cs)"
      by (auto split: option.splits prod.splits)
    show ?thesis
    proof (cases p)
      case (Cons a p')
      with "2.prems"(2) eq have a: "a = c" and p': "starts_with p' (fst (sub_from r f (Some c) cs))" by auto
      have "starts_with p' cs"
      proof (cases "match_at r prev (c # cs)")
        case None
        then show ?thesis using "2.IH"(1) [OF None, of p'] "2.prems" p' Cons by auto
      next
        case (Some t)
        then show ?thesis using "2.IH"(3) [OF Some, of p'] "2.prems" p' Cons False by auto
      qed
      with a Cons show ?thesis by simp
    qed simp
  qed
qed

lemma contains_str_sub_from:
  assumes "marks f r k" and "k \<noteq> []"
  shows "contains_str k (fst (sub_from r f prev s)) \<Longrightarrow> contains_str k s"
  using assms
proof (induction r f prev s rule: sub_from.induct)
  case (1 r f prev)
  then show ?case by simp
next
  case (2 r f prev c cs)
  show ?case
  proof (cases "\<exists>t. match_at r prev (c # cs) = Some t \<and> length (ms_rest t) < length (c # cs)")
    case True
    then obtain t where t: "match_at r prev (c # cs) = Some t" "length (ms_rest t) < length (c # cs)" by blast
    from marksD [OF "2.prems"(2) t(1)] obtain g g' a m b
      where f: "f t = g @ a # m @ [b]" and s: "c # cs = g @ g'"
        and ab: "a \<notin> set k" "b \<notin> set k" "\<not> contains_str k m" by blast
    let ?rest = "fst (sub_from r f (ms_prev t) (ms_rest t))"
    from t "2.prems"(1) f have "contains_str k (g @ a # (m @ b # ?rest))"
      by (auto split: prod.splits)
    with ab have "contains_str k g \<or> contains_str k ?rest"
      using contains_str_sep [of k g a "m @ b # ?rest"] contains_str_sep [of k m b ?rest] by blast
    then show ?thesis
    proof
      assume "contains_str k g"
      then show ?thesis unfolding s by (rule contains_str_append_left)
    next
      assume "contains_str k ?rest"
      with "2.IH"(2) [OF t(1) t(2)] "2.prems" have "contains_str k (ms_rest t)" by blast
      moreover obtain u where "c # cs = u @ ms_rest t" using match_at_suffix [OF t(1)] by blast
      ultimately show ?thesis using contains_str_append_right by metis
    qed
  next
    case False
    then have eq: "fst (sub_from r f prev (c # cs)) = c # fst (sub_from r f (Some c) cs)"
      by (auto split: option.splits prod.splits)
    have IH: "contains_str k (fst (sub_from r f (Some c) cs)) \<Longrightarrow> contains_str k cs"
    proof (cases "match_at r prev (c # cs)")
      case None
      then show "contains_str k (fst (sub_from r f (Some c) cs)) \<Longrightarrow> contains_str k cs"
        using "2.IH"(1) [OF None] "2.prems" by auto
    next
      case (Some t)
      then show "contains_str k (fst (sub_from r f (Some c) cs)) \<Longrightarrow> contains_str k cs"
        using "2.IH"(3) [OF Some] "2.prems" False by auto
    qed
    have "starts_with k (fst (sub_from r f prev (c # cs))) \<Longrightarrow> starts_with k (c # cs)"
      using starts_with_sub_from [OF "2.prems"(2), of k prev "c # cs"] by blast
    with IH "2.prems"(1) eq show ?thesis by auto
  qed
qed

text \<open>The groups a match records are those of its pattern.\<close>

primrec groups :: "re \<Rightarrow> nat set" where
  "groups Eps = {}"
| "groups (Cls p) = {}"
| "groups (Seq a b) = groups a \<union> groups b"
| "groups (Alt a b) = groups a \<union> groups b"
| "groups (Star p) = {}"
| "groups (LazyStar p) = {}"
| "groups (Group n r) = insert n (groups r)"
| "groups WordB = {}"
| "groups BeginText = {}"
| "groups EndText = {}"

lemma groups_lit [simp]: "groups (lit s) = {}" "groups (ilit s) = {}"
  by (induction s) (auto simp: lit_def ilit_def)

lemma groups_builders [simp]:
  "groups (seqs rs) = (\<Union>r \<in> set rs. groups r)"
  "groups (opt r) = groups r" "groups (plus p) = {}" "groups (at_least n p) = {}"
  by (induction rs) (auto simp: seqs_def opt_def plus_def at_least_def
      intro!: foldr_cong, induction n, auto)

lemma groups_alts [simp]: "groups (alts rs) = (\<Union>r \<in> set rs. groups r)"
  by (induction rs rule: alts.induct) auto

lemma run_re_caps:
  "t \<in> set (run_re r s) \<Longrightarrow> \<exists>new. ms_caps t = new @ ms_caps s \<and> fst ` set new \<subseteq> groups r"
proof (induction r arbitrary: s t)
  case (Seq a b)
  then obtain u where u: "u \<in> set (run_re a s)" "t \<in> set (run_re b u)" by auto
  from Seq.IH(1) [OF u(1)] obtain n1 where "ms_caps u = n1 @ ms_caps s" "fst ` set n1 \<subseteq> groups a" by blast
  moreover from Seq.IH(2) [OF u(2)] obtain n2 where "ms_caps t = n2 @ ms_caps u" "fst ` set n2 \<subseteq> groups b" by blast
  ultimately show ?case by (intro exI [of _ "n2 @ n1"]) auto
next
  case (Alt a b)
  then have "t \<in> set (run_re a s) \<or> t \<in> set (run_re b s)" by simp
  then show ?case
  proof
    assume "t \<in> set (run_re a s)"
    from Alt.IH(1) [OF this] show ?thesis by auto
  next
    assume "t \<in> set (run_re b s)"
    from Alt.IH(2) [OF this] show ?thesis by auto
  qed
next
  case (Group n r)
  then obtain u where u: "u \<in> set (run_re r s)"
    and t: "t = u\<lparr>ms_caps := (n, take (length (ms_rest s) - length (ms_rest u)) (ms_rest s)) # ms_caps u\<rparr>"
    by auto
  from Group.IH [OF u] obtain new where "ms_caps u = new @ ms_caps s" "fst ` set new \<subseteq> groups r" by blast
  with t show ?case
    by (intro exI [of _ "(n, take (length (ms_rest s) - length (ms_rest u)) (ms_rest s)) # new"]) auto
qed (auto split: list.splits if_splits)

lemma match_at_run:
  "match_at r prev s = Some t \<Longrightarrow> t \<in> set (run_re r \<lparr>ms_prev = prev, ms_rest = s, ms_caps = []\<rparr>)"
  by (auto simp: match_at_def split: list.splits)

text \<open>A leading group, after a word boundary, captures a prefix of the text matched.\<close>

lemma leading_group_prefix:
  assumes m: "match_at (Seq WordB (Seq (Group n a) r)) prev s = Some t" and "n \<notin> groups r"
  shows "\<exists>g g'. group t n = Some g \<and> s = g @ g'"
proof -
  from match_at_run [OF m] obtain u where u: "u \<in> set (run_re (Group n a) \<lparr>ms_prev = prev, ms_rest = s, ms_caps = []\<rparr>)"
    and t: "t \<in> set (run_re r u)" by (auto split: if_splits)
  from u obtain l w where caps: "ms_caps u = (n, take l s) # w" by auto
  from run_re_caps [OF t] obtain new where new: "ms_caps t = new @ ms_caps u" "fst ` set new \<subseteq> groups r" by blast
  with assms(2) have "map_of new n = None" by (auto simp: map_of_eq_None_iff)
  with new(1) caps have "group t n = Some (take l s)" by (simp add: group_def map_add_def)
  then show ?thesis by (metis append_take_drop_id)
qed

text \<open>What a match captures is text it was given.\<close>

lemma run_re_caps_text:
  "t \<in> set (run_re r s) \<Longrightarrow> (n, g) \<in> set (ms_caps t) \<Longrightarrow> (n, g) \<in> set (ms_caps s) \<or> set g \<subseteq> set (ms_rest s)"
proof (induction r arbitrary: s t)
  case (Seq a b)
  then obtain u where u: "u \<in> set (run_re a s)" "t \<in> set (run_re b u)" by auto
  obtain w where "ms_rest s = w @ ms_rest u" using run_re_suffix [OF u(1)] by blast
  with Seq.IH(2) [OF u(2) Seq.prems(2)] Seq.IH(1) [OF u(1)] show ?case by auto
next
  case (Alt a b)
  then show ?case by fastforce
next
  case (Group m r)
  then obtain u where u: "u \<in> set (run_re r s)"
    and t: "t = u\<lparr>ms_caps := (m, take (length (ms_rest s) - length (ms_rest u)) (ms_rest s)) # ms_caps u\<rparr>" by auto
  with Group.IH [OF u] Group.prems(2) show ?case by (auto dest: in_set_takeD)
qed (auto split: list.splits if_splits)

section \<open>The first match\<close>

text \<open>
  \<open>first_match r s caps s' caps'\<close>: at a place with rest \<open>s\<close>, the first way to match leaves \<open>s'\<close>. The rules
  below derive it for a text given in pieces, one rule per pattern.
\<close>

named_theorems first_match_intro

definition first_match :: "re \<Rightarrow> string \<Rightarrow> (nat \<times> string) list \<Rightarrow> string \<Rightarrow> (nat \<times> string) list \<Rightarrow> bool" where
  "first_match r s caps s' caps' \<longleftrightarrow> (\<forall>prev. \<exists>prev' ts.
     run_re r \<lparr>ms_prev = prev, ms_rest = s, ms_caps = caps\<rparr> = \<lparr>ms_prev = prev', ms_rest = s', ms_caps = caps'\<rparr> # ts)"

lemma first_match_Eps [first_match_intro]: "first_match Eps s caps s caps"
  by (simp add: first_match_def)

lemma first_match_Seq [first_match_intro]:
  assumes "first_match a s caps s1 caps1" and "first_match b s1 caps1 s2 caps2"
  shows "first_match (Seq a b) s caps s2 caps2"
  unfolding first_match_def
proof
  fix prev
  obtain prev1 ts1 where "run_re a \<lparr>ms_prev = prev, ms_rest = s, ms_caps = caps\<rparr> =
      \<lparr>ms_prev = prev1, ms_rest = s1, ms_caps = caps1\<rparr> # ts1" using assms(1) unfolding first_match_def by blast
  moreover obtain prev2 ts2 where "run_re b \<lparr>ms_prev = prev1, ms_rest = s1, ms_caps = caps1\<rparr> =
      \<lparr>ms_prev = prev2, ms_rest = s2, ms_caps = caps2\<rparr> # ts2" using assms(2) unfolding first_match_def by blast
  ultimately show "\<exists>prev' ts. run_re (Seq a b) \<lparr>ms_prev = prev, ms_rest = s, ms_caps = caps\<rparr> =
      \<lparr>ms_prev = prev', ms_rest = s2, ms_caps = caps2\<rparr> # ts" by simp
qed

lemma first_match_seqs [first_match_intro]:
  "first_match (seqs []) s caps s caps"
  "first_match r s caps s1 caps1 \<Longrightarrow> first_match (seqs rs) s1 caps1 s2 caps2 \<Longrightarrow> first_match (seqs (r # rs)) s caps s2 caps2"
  by (simp_all add: seqs_def first_match_intro)

lemma first_match_lit [first_match_intro]: "first_match (lit u) (u @ s) caps s caps"
  unfolding lit_def by (induction u) (auto simp: first_match_def)

lemma first_match_opt [first_match_intro]: "first_match r s caps s' caps' \<Longrightarrow> first_match (opt r) s caps s' caps'"
  unfolding first_match_def opt_def by (metis append_Cons run_re.simps(4))

lemma first_match_Star [first_match_intro]:
  assumes "\<forall>c \<in> set u. p c" and "s = [] \<or> \<not> p (hd s)"
  shows "first_match (Star p) (u @ s) caps s caps"
  unfolding first_match_def
proof
  fix prev
  have "\<exists>prev' ts. star_runs p prev (u @ s) = (prev', s) # ts"
    using assms
  proof (induction u arbitrary: prev)
    case Nil
    then show ?case by (cases s) auto
  next
    case (Cons c u)
    then have "\<exists>prev' ts. star_runs p (Some c) (u @ s) = (prev', s) # ts" by auto
    with Cons.prems show ?case by auto
  qed
  then show "\<exists>prev' ts. run_re (Star p) \<lparr>ms_prev = prev, ms_rest = u @ s, ms_caps = caps\<rparr> =
      \<lparr>ms_prev = prev', ms_rest = s, ms_caps = caps\<rparr> # ts" by auto
qed

lemma first_match_plus [first_match_intro]:
  assumes "u \<noteq> []" and "\<forall>c \<in> set u. p c" and "s = [] \<or> \<not> p (hd s)"
  shows "first_match (plus p) (u @ s) caps s caps"
proof -
  obtain c v where u: "u = c # v" using assms(1) by (cases u) auto
  have "first_match (Cls p) (c # (v @ s)) caps (v @ s) caps"
    using assms(2) u by (simp add: first_match_def)
  moreover have "first_match (Star p) (v @ s) caps s caps"
    using assms u by (intro first_match_Star) auto
  ultimately show ?thesis unfolding plus_def u by (simp add: first_match_Seq)
qed

lemma first_match_Group [first_match_intro]:
  assumes "first_match r (u @ s) caps s caps'"
  shows "first_match (Group n r) (u @ s) caps s ((n, u) # caps')"
  unfolding first_match_def
proof
  fix prev
  obtain prev' ts where "run_re r \<lparr>ms_prev = prev, ms_rest = u @ s, ms_caps = caps\<rparr> =
      \<lparr>ms_prev = prev', ms_rest = s, ms_caps = caps'\<rparr> # ts" using assms unfolding first_match_def by blast
  then show "\<exists>prev' ts. run_re (Group n r) \<lparr>ms_prev = prev, ms_rest = u @ s, ms_caps = caps\<rparr> =
      \<lparr>ms_prev = prev', ms_rest = s, ms_caps = (n, u) # caps'\<rparr> # ts" by simp
qed

lemma first_match_EndText [first_match_intro]: "first_match EndText [] caps [] caps"
  by (simp add: first_match_def)

lemma re_match_first:
  assumes "first_match r s [] s' caps'"
  shows "\<exists>prev'. re_match (Seq BeginText r) s = Some \<lparr>ms_prev = prev', ms_rest = s', ms_caps = caps'\<rparr>"
proof -
  obtain prev' ts where "run_re r \<lparr>ms_prev = None, ms_rest = s, ms_caps = []\<rparr> =
      \<lparr>ms_prev = prev', ms_rest = s', ms_caps = caps'\<rparr> # ts" using assms unfolding first_match_def by blast
  then show ?thesis by (auto simp: re_match_def match_at_def)
qed

end
