(* ===== verification/LlmClient.thy ===== *)
theory LlmClient
  imports PyJson PyRegex
begin

text \<open>
  llm/client.py: request options and their validation, the log redaction, the retrying client
  (\<open>RetryingLLMClient\<close>) and the fake client of the tests (\<open>FakeLLMClient\<close>).

  The provider and \<open>json.loads\<close> are parameters: the provider answers the n-th call of a request
  (a value, a timeout of \<open>asyncio.wait_for\<close>, or a raise), \<open>json.loads\<close> is a function from text to a
  value or a decode message. The logger and the sleep are the events the request leaves in its
  trace; latencies are not modelled.
\<close>

section \<open>Errors and options\<close>

definition DEFAULT_LLM_TIMEOUT_MS :: int where "DEFAULT_LLM_TIMEOUT_MS = 30000"

definition DEFAULT_LLM_MAX_RETRIES :: int where "DEFAULT_LLM_MAX_RETRIES = 2"

definition DEFAULT_LLM_MAX_OUTPUT_TOKENS :: int where "DEFAULT_LLM_MAX_OUTPUT_TOKENS = 2000"

definition DEFAULT_RETRY_BACKOFF_MS :: int where "DEFAULT_RETRY_BACKOFF_MS = 100"

definition DEFAULT_RETRY_BACKOFF_MULTIPLIER :: rat where "DEFAULT_RETRY_BACKOFF_MULTIPLIER = 2"

definition MAX_LOG_PREVIEW_CHARS :: nat where "MAX_LOG_PREVIEW_CHARS = 160"

definition REDACTED :: string where "REDACTED = ''[REDACTED]''"

text \<open>The exception classes; every constructor but the last three carries the message of the class.\<close>

datatype llm_error =
    LLMClientError string
  | LLMTimeoutError string
  | LLMProviderError string bool "string option"     \<comment> \<open>message, transient, code\<close>
  | LLMInvalidJsonError string string                \<comment> \<open>message, raw content\<close>
  | LlmReviewOutputValidationError string "string list"  \<comment> \<open>message, validation errors\<close>

fun llm_error_str :: "llm_error \<Rightarrow> string" where
  "llm_error_str (LLMClientError m) = m"
| "llm_error_str (LLMTimeoutError m) = m"
| "llm_error_str (LLMProviderError m t c) = m"
| "llm_error_str (LLMInvalidJsonError m r) = m"
| "llm_error_str (LlmReviewOutputValidationError m es) = m"

fun llm_error_class :: "llm_error \<Rightarrow> string" where
  "llm_error_class (LLMClientError m) = ''LLMClientError''"
| "llm_error_class (LLMTimeoutError m) = ''LLMTimeoutError''"
| "llm_error_class (LLMProviderError m t c) = ''LLMProviderError''"
| "llm_error_class (LLMInvalidJsonError m r) = ''LLMInvalidJsonError''"
| "llm_error_class (LlmReviewOutputValidationError m es) = ''LlmReviewOutputValidationError''"

record LLMRetryConfig =
  rc_max_retries :: int
  rc_backoff_initial_ms :: int
  rc_backoff_multiplier :: rat

datatype value_error = ValueError string

definition make_LLMRetryConfig :: "int \<Rightarrow> int \<Rightarrow> rat \<Rightarrow> value_error + LLMRetryConfig" where
  \<comment> \<open>the constructor with \<open>__post_init__\<close>\<close>
  "make_LLMRetryConfig n b m =
     (if n < 0 then Inl (ValueError ''LLM retry count must be zero or greater.'')
      else if b < 0 then Inl (ValueError ''LLM retry backoff must be zero or greater.'')
      else if m < 1 then Inl (ValueError ''LLM retry backoff multiplier must be at least 1.'')
      else Inr \<lparr> rc_max_retries = n, rc_backoff_initial_ms = b, rc_backoff_multiplier = m \<rparr>)"

record LLMRequestOptions =
  ro_model :: string
  ro_temperature :: py_float
  ro_max_tokens :: int
  ro_timeout_ms :: int
  ro_retry_config :: LLMRetryConfig

definition make_LLMRequestOptions ::
  "string \<Rightarrow> py_float \<Rightarrow> int \<Rightarrow> int \<Rightarrow> LLMRetryConfig \<Rightarrow> value_error + LLMRequestOptions" where
  "make_LLMRequestOptions model temperature max_tokens timeout_ms retry =
     (if \<not> nonblank model then Inl (ValueError ''LLM model is required.'')
      else if float_gt (Fin 0) temperature \<or> float_gt temperature (Fin 2) then Inl (ValueError ''LLM temperature must be between 0 and 2.'')
      else if max_tokens \<le> 0 then Inl (ValueError ''LLM max tokens must be positive.'')
      else if timeout_ms \<le> 0 then Inl (ValueError ''LLM timeout must be positive.'')
      else Inr \<lparr> ro_model = model, ro_temperature = temperature, ro_max_tokens = max_tokens,
                  ro_timeout_ms = timeout_ms, ro_retry_config = retry \<rparr>)"

record LLMMessage =
  msg_role :: string
  msg_content :: string

definition make_LLMMessage :: "string \<Rightarrow> string \<Rightarrow> value_error + LLMMessage" where
  "make_LLMMessage role content =
     (if role \<notin> set [''system'', ''user'', ''assistant'']
      then Inl (ValueError ''LLM message role must be system, user, or assistant.'')
      else Inr \<lparr> msg_role = role, msg_content = content \<rparr>)"

record LLMTokenUsage =
  tu_input_tokens :: int
  tu_output_tokens :: int
  tu_total_tokens :: int

definition make_LLMTokenUsage :: "int \<Rightarrow> int \<Rightarrow> int \<Rightarrow> value_error + LLMTokenUsage" where
  "make_LLMTokenUsage i u t =
     (if i < 0 \<or> u < 0 \<or> t < 0 then Inl (ValueError ''LLM token usage cannot be negative.'')
      else Inr \<lparr> tu_input_tokens = i, tu_output_tokens = u, tu_total_tokens = t \<rparr>)"

definition LLMTokenUsage_from_counts :: "int \<Rightarrow> int \<Rightarrow> int option \<Rightarrow> value_error + LLMTokenUsage" where
  "LLMTokenUsage_from_counts i u t = make_LLMTokenUsage i u (case t of Some n \<Rightarrow> n | None \<Rightarrow> i + u)"

record LLMProviderResponse =
  pr_content :: string
  pr_usage :: LLMTokenUsage
  pr_model :: "string option"
  pr_finish_reason :: "string option"

record LLMStructuredResponse =
  sr_content :: obj
  sr_raw_content :: string
  sr_model :: string
  sr_usage :: LLMTokenUsage
  sr_attempts :: nat
  sr_finish_reason :: "string option"

section \<open>Redaction of logged text\<close>

definition redact_token_re :: re where
  \<comment> \<open>\<open>\b(?:sk|ghp|glpat|xoxb)-[A-Za-z0-9_\-]{8,}\b\<close>\<close>
  "redact_token_re = seqs [WordB, alts [lit ''sk'', lit ''ghp'', lit ''glpat'', lit ''xoxb''], lit ''-'',
     at_least 8 (\<lambda>c. is_lower_ascii c \<or> is_upper_ascii c \<or> is_digit c \<or> c = CHR ''_'' \<or> c = CHR ''-''), WordB]"

definition redact_github_pat_re :: re where
  \<comment> \<open>\<open>\bgithub_pat_[A-Za-z0-9_]{8,}\b\<close>\<close>
  "redact_github_pat_re = seqs [WordB, lit ''github_pat_'',
     at_least 8 (\<lambda>c. is_lower_ascii c \<or> is_upper_ascii c \<or> is_digit c \<or> c = CHR ''_''), WordB]"

definition dash_or_underscore :: re where
  "dash_or_underscore = opt (Cls (\<lambda>c. c = CHR ''_'' \<or> c = CHR ''-''))"

definition redact_assignment_re :: re where
  "redact_assignment_re = seqs [WordB,
     Group 1 (alts [seqs [ilit ''api'', dash_or_underscore, ilit ''key''], ilit ''authorization'', ilit ''bearer'',
       seqs [ilit ''client'', dash_or_underscore, ilit ''secret''], ilit ''password'', ilit ''secret'', ilit ''token'']),
     WordB, Star is_space, Cls (\<lambda>c. c = CHR '':'' \<or> c = CHR ''=''), Star is_space,
     Group 2 (plus (\<lambda>c. \<not> is_space c \<and> c \<noteq> CHR '','' \<and> c \<noteq> CHR '';''))]"

definition redact_values :: "string list \<Rightarrow> string \<Rightarrow> string" where
  \<comment> \<open>the loop over \<open>sensitive_values\<close>\<close>
  "redact_values vs text = foldl (\<lambda>t v. if v \<noteq> [] then replace_str v REDACTED t else t) text vs"

definition redact_text :: "string \<Rightarrow> string list \<Rightarrow> string" where
  "redact_text text sensitive_values =
     (let t0 = redact_values sensitive_values text;
          t1 = re_sub redact_token_re (\<lambda>_. REDACTED) t0;
          t2 = re_sub redact_github_pat_re (\<lambda>_. REDACTED) t1
      in re_sub redact_assignment_re
           (\<lambda>t. (case group t 1 of Some g \<Rightarrow> g | None \<Rightarrow> []) @ ''='' @ REDACTED) t2)"

definition truncate_text :: "string \<Rightarrow> nat \<Rightarrow> string" where
  \<comment> \<open>called with \<open>max_chars\<close> = 160 only\<close>
  "truncate_text value max_chars =
     (if length value \<le> max_chars then value else take (max_chars - 3) value @ ''...'')"

definition redacted_prompt_preview :: "LLMMessage list \<Rightarrow> string list \<Rightarrow> (string \<times> string) list" where
  \<comment> \<open>the pairs \<open>role\<close>, \<open>contentPreview\<close>\<close>
  "redacted_prompt_preview messages sensitive_values =
     map (\<lambda>m. (msg_role m, redact_text (truncate_text (msg_content m) MAX_LOG_PREVIEW_CHARS) sensitive_values)) messages"

section \<open>The retrying client\<close>

datatype provider_outcome =
    Returned LLMProviderResponse
  | TimedOut                        \<comment> \<open>\<open>asyncio.TimeoutError\<close> of \<open>wait_for\<close>\<close>
  | RaisedLLM llm_error
  | RaisedValueError string

datatype llm_event =
    RequestStarted nat "(string \<times> string) list" "string list"   \<comment> \<open>attempt, prompt preview, schema keys\<close>
  | RequestCompleted string nat LLMTokenUsage "string option"  \<comment> \<open>model, attempt, usage, finish reason\<close>
  | RequestFailed nat bool string string                      \<comment> \<open>attempt, retrying, errorCode, error\<close>
  | Slept rat                                                 \<comment> \<open>seconds\<close>

definition coerce_prompt :: "string + LLMMessage list \<Rightarrow> LLMMessage list" where
  \<comment> \<open>\<open>_coerce_messages\<close>: a text becomes one user message\<close>
  "coerce_prompt prompt = (case prompt of
     Inl s \<Rightarrow> [\<lparr> msg_role = ''user'', msg_content = s \<rparr>] | Inr ms \<Rightarrow> ms)"

definition is_retryable :: "llm_error \<Rightarrow> bool" where
  "is_retryable e = (case e of LLMTimeoutError _ \<Rightarrow> True | LLMProviderError _ transient _ \<Rightarrow> transient | _ \<Rightarrow> False)"

definition retry_delay_seconds :: "LLMRetryConfig \<Rightarrow> nat \<Rightarrow> rat" where
  "retry_delay_seconds c attempt =
     (of_int (rc_backoff_initial_ms c) / 1000) * rc_backoff_multiplier c ^ (attempt - 1)"

definition parse_structured_content :: "(string \<Rightarrow> string + json) \<Rightarrow> string \<Rightarrow> llm_error + obj" where
  \<comment> \<open>\<open>_parse_structured_content\<close> with the two handlers of \<open>_request_structured\<close> around it\<close>
  "parse_structured_content json_loads content =
     (case json_loads content of
        Inl msg \<Rightarrow> Inl (LLMInvalidJsonError (''LLM response was not valid JSON: '' @ msg @ ''.'') content)
      | Inr j \<Rightarrow> (case as_mapping j of
          Some v \<Rightarrow> Inr v
        | None \<Rightarrow> Inl (LLMInvalidJsonError ''LLM structured response must be a JSON object.'' content)))"

text \<open>How one attempt ends: with a response, with an error that leaves the loop, or with
  \<open>last_error\<close> set.\<close>

datatype attempt_result =
    Succeeded LLMStructuredResponse
  | Raised llm_error
  | Failed llm_error

definition run_attempt ::
  "(string \<Rightarrow> string + json) \<Rightarrow> LLMRequestOptions \<Rightarrow> nat \<Rightarrow> provider_outcome \<Rightarrow> attempt_result" where
  "run_attempt json_loads options attempt outcome =
     (case outcome of
        Returned r \<Rightarrow>
          (case parse_structured_content json_loads (pr_content r) of
             Inl e \<Rightarrow> Raised e
           | Inr parsed \<Rightarrow> Succeeded \<lparr> sr_content = parsed, sr_raw_content = pr_content r,
               sr_model = (case pr_model r of Some m \<Rightarrow> or_else m (ro_model options) | None \<Rightarrow> ro_model options),
               sr_usage = pr_usage r, sr_attempts = attempt, sr_finish_reason = pr_finish_reason r \<rparr>)
      | TimedOut \<Rightarrow> Failed (LLMTimeoutError
          (''LLM request timed out after '' @ str_of_int (ro_timeout_ms options) @ '' ms.''))
      | RaisedLLM e \<Rightarrow> (case e of LLMProviderError _ _ _ \<Rightarrow> Failed e | _ \<Rightarrow> Raised e)
      | RaisedValueError m \<Rightarrow> Raised (LLMClientError m))"

definition error_code_of :: "llm_error \<Rightarrow> string" where
  \<comment> \<open>\<open>getattr(last_error, "code", None) or last_error.__class__.__name__\<close>\<close>
  "error_code_of e = (case e of
     LLMProviderError _ _ (Some c) \<Rightarrow> or_else c (llm_error_class e) | _ \<Rightarrow> llm_error_class e)"

definition sensitive_values :: "string option \<Rightarrow> string list" where
  "sensitive_values api_key = (case api_key of None \<Rightarrow> [] | Some k \<Rightarrow> if k = [] then [] else [k])"

text \<open>
  The loop of \<open>_request_structured\<close>. \<open>attempt\<close> counts the attempts made so far; the provider
  answers attempt n with \<open>provider n\<close>. The recursion is on the attempts still allowed.
\<close>

function request_loop ::
  "(string \<Rightarrow> string + json) \<Rightarrow> (nat \<Rightarrow> provider_outcome) \<Rightarrow> string option \<Rightarrow> LLMMessage list \<Rightarrow> obj \<Rightarrow>
   LLMRequestOptions \<Rightarrow> nat \<Rightarrow> llm_error option \<Rightarrow> (llm_error + LLMStructuredResponse) \<times> llm_event list" where
  "request_loop json_loads provider api_key messages schema options attempt last_error =
     (if int attempt \<le> rc_max_retries (ro_retry_config options) then
        (let n = Suc attempt;
             started = RequestStarted n (redacted_prompt_preview messages (sensitive_values api_key))
                         (sort (map fst schema))
         in case run_attempt json_loads options n (provider n) of
              Succeeded r \<Rightarrow> (Inr r, [started, RequestCompleted (sr_model r) n (sr_usage r) (sr_finish_reason r)])
            | Raised e \<Rightarrow> (Inl e, [started])
            | Failed e \<Rightarrow>
                (let should_retry = (is_retryable e \<and> int n \<le> rc_max_retries (ro_retry_config options));
                     failed = RequestFailed n should_retry (error_code_of e)
                                (redact_text (llm_error_str e) (sensitive_values api_key))
                 in if \<not> should_retry then (Inl e, [started, failed])
                    else (case request_loop json_loads provider api_key messages schema options n (Some e) of
                            (res, tr) \<Rightarrow>
                              (res, [started, failed, Slept (retry_delay_seconds (ro_retry_config options) n)] @ tr))))
      else (Inl (case last_error of Some e \<Rightarrow> e | None \<Rightarrow> LLMClientError ''LLM request failed.''), []))"
  by pat_completeness auto
termination
  by (relation "measure (\<lambda>(json_loads, provider, api_key, messages, schema, options, attempt, last_error).
        nat (rc_max_retries (ro_retry_config options) + 1 - int attempt))") auto

declare request_loop.simps [simp del]

definition request_structured ::
  "(string \<Rightarrow> string + json) \<Rightarrow> (nat \<Rightarrow> provider_outcome) \<Rightarrow> string option \<Rightarrow> LLMMessage list \<Rightarrow> obj \<Rightarrow>
   LLMRequestOptions \<Rightarrow> (llm_error + LLMStructuredResponse) \<times> llm_event list" where
  "request_structured json_loads provider api_key messages schema options =
     request_loop json_loads provider api_key messages schema options 0 None"

definition complete_structured ::
  "(string \<Rightarrow> string + json) \<Rightarrow> (nat \<Rightarrow> provider_outcome) \<Rightarrow> string option \<Rightarrow> string + LLMMessage list \<Rightarrow> obj \<Rightarrow>
   LLMRequestOptions \<Rightarrow> (llm_error + LLMStructuredResponse) \<times> llm_event list" where
  "complete_structured json_loads provider api_key prompt schema options =
     request_structured json_loads provider api_key (coerce_prompt prompt) schema options"

definition repair_messages :: "string \<Rightarrow> LLMMessage list" where
  "repair_messages raw = [
     \<lparr> msg_role = ''system'', msg_content = ''Repair the supplied model output so it is valid JSON matching the requested schema. Return only JSON.'' \<rparr>,
     \<lparr> msg_role = ''user'', msg_content = raw \<rparr>]"

definition repair_structured_output ::
  "(string \<Rightarrow> string + json) \<Rightarrow> (nat \<Rightarrow> provider_outcome) \<Rightarrow> string option \<Rightarrow> string \<Rightarrow> obj \<Rightarrow>
   LLMRequestOptions \<Rightarrow> (llm_error + LLMStructuredResponse) \<times> llm_event list" where
  "repair_structured_output json_loads provider api_key raw schema options =
     request_structured json_loads provider api_key (repair_messages raw) schema options"

section \<open>The fake client\<close>

record fake_client =
  fc_responses :: "(obj + LLMStructuredResponse) list"
  fc_usage :: LLMTokenUsage
  fc_requests :: "(LLMMessage list \<times> obj \<times> LLMRequestOptions) list"

definition fake_complete_structured ::
  "(obj \<Rightarrow> string) \<Rightarrow> fake_client \<Rightarrow> string + LLMMessage list \<Rightarrow> obj \<Rightarrow> LLMRequestOptions \<Rightarrow>
   (llm_error + LLMStructuredResponse) \<times> fake_client" where
  \<comment> \<open>the first argument is \<open>json.dumps(response, sort_keys=True)\<close>\<close>
  "fake_complete_structured json_dumps c prompt schema options =
     (let c' = c\<lparr>fc_requests := fc_requests c @ [(coerce_prompt prompt, schema, options)]\<rparr>
      in case fc_responses c' of
           [] \<Rightarrow> (Inl (LLMProviderError ''Fake LLM response queue is empty.'' False (Some ''fake_response_missing'')), c')
         | Inr r # rest \<Rightarrow> (Inr r, c'\<lparr>fc_responses := rest\<rparr>)
         | Inl v # rest \<Rightarrow>
             (Inr \<lparr> sr_content = v, sr_raw_content = json_dumps v, sr_model = ro_model options,
                    sr_usage = fc_usage c', sr_attempts = 1, sr_finish_reason = Some ''stop'' \<rparr>,
              c'\<lparr>fc_responses := rest\<rparr>))"

definition fake_repair_structured_output ::
  "(obj \<Rightarrow> string) \<Rightarrow> fake_client \<Rightarrow> string \<Rightarrow> obj \<Rightarrow> LLMRequestOptions \<Rightarrow>
   (llm_error + LLMStructuredResponse) \<times> fake_client" where
  "fake_repair_structured_output json_dumps c raw schema options =
     fake_complete_structured json_dumps c
       (Inr [\<lparr> msg_role = ''system'', msg_content = ''Repair the supplied model output as JSON.'' \<rparr>,
             \<lparr> msg_role = ''user'', msg_content = raw \<rparr>]) schema options"

section \<open>What a request does\<close>

definition attempt_value :: "attempt_result \<Rightarrow> llm_error + LLMStructuredResponse" where
  "attempt_value a = (case a of Succeeded r \<Rightarrow> Inr r | Raised e \<Rightarrow> Inl e | Failed e \<Rightarrow> Inl e)"

definition transient_failure :: "attempt_result \<Rightarrow> bool" where
  "transient_failure a = (case a of Failed e \<Rightarrow> is_retryable e | _ \<Rightarrow> False)"

definition deciding_attempt :: "(nat \<Rightarrow> attempt_result) \<Rightarrow> nat \<Rightarrow> nat \<Rightarrow> nat" where
  \<comment> \<open>the first attempt from \<open>n\<close> on that is not a transient failure, or the last one allowed\<close>
  "deciding_attempt result n limit =
     (case find (\<lambda>k. \<not> transient_failure (result k)) [n..<limit] of Some k \<Rightarrow> k | None \<Rightarrow> limit)"

fun started_attempt :: "llm_event \<Rightarrow> nat option" where
  "started_attempt (RequestStarted n pv ks) = Some n"
| "started_attempt _ = None"

fun slept_seconds :: "llm_event \<Rightarrow> rat option" where
  "slept_seconds (Slept q) = Some q"
| "slept_seconds _ = None"

lemma deciding_attempt_here: "\<not> transient_failure (result n) \<or> n = limit \<Longrightarrow> n \<le> limit \<Longrightarrow> deciding_attempt result n limit = n"
  by (cases "n < limit") (auto simp: deciding_attempt_def upt_conv_Cons)

lemma deciding_attempt_later:
  "transient_failure (result n) \<Longrightarrow> n < limit \<Longrightarrow> deciding_attempt result n limit = deciding_attempt result (Suc n) limit"
  by (simp add: deciding_attempt_def upt_conv_Cons)

lemma deciding_attempt_bounds:
  assumes "n \<le> limit"
  shows "n \<le> deciding_attempt result n limit \<and> deciding_attempt result n limit \<le> limit"
proof (cases "find (\<lambda>k. \<not> transient_failure (result k)) [n..<limit]")
  case None
  with assms show ?thesis by (simp add: deciding_attempt_def)
next
  case (Some k)
  then have "k \<in> set [n..<limit]" by (auto simp: find_Some_iff)
  with Some show ?thesis by (simp add: deciding_attempt_def)
qed

lemma request_loop_result:
  assumes max: "rc_max_retries (ro_retry_config options) = int m"
  shows "a \<le> m \<Longrightarrow>
     (let result = (\<lambda>n. run_attempt json_loads options n (provider n));
          k = deciding_attempt result (Suc a) (Suc m);
          run = request_loop json_loads provider api_key messages schema options a last_error
      in fst run = attempt_value (result k) \<and>
         List.map_filter started_attempt (snd run) = [Suc a..<Suc k] \<and>
         List.map_filter slept_seconds (snd run) = map (retry_delay_seconds (ro_retry_config options)) [Suc a..<k])"
proof (induction "m - a" arbitrary: a last_error)
  case 0
  then have [simp]: "a = m" by simp
  have k: "deciding_attempt r (Suc m) (Suc m) = Suc m" for r by (simp add: deciding_attempt_here)
  show ?case
    by (simp add: Let_def k request_loop.simps [where attempt = m] max attempt_value_def map_filter_simps
        split: attempt_result.split)
next
  case (Suc d)
  then have am: "a < m" by simp
  let ?result = "\<lambda>n. run_attempt json_loads options n (provider n)"
  show ?case
  proof (cases "transient_failure (?result (Suc a))")
    case True
    then obtain e where e: "?result (Suc a) = Failed e" "is_retryable e"
      by (auto simp: transient_failure_def split: attempt_result.splits)
    have k: "deciding_attempt ?result (Suc a) (Suc m) = deciding_attempt ?result (Suc (Suc a)) (Suc m)"
      using True am by (intro deciding_attempt_later) auto
    have bounds: "Suc (Suc a) \<le> deciding_attempt ?result (Suc (Suc a)) (Suc m)"
      using am deciding_attempt_bounds [of "Suc (Suc a)" "Suc m" ?result] by simp
    have "d = m - Suc a" "Suc a \<le> m" using Suc.hyps(2) am by auto
    note IH = Suc.hyps(1) [OF this, of "Some e"]
    let ?k = "deciding_attempt ?result (Suc (Suc a)) (Suc m)"
    have upts: "[Suc a..<Suc ?k] = Suc a # [Suc (Suc a)..<Suc ?k]" "[Suc a..<?k] = Suc a # [Suc (Suc a)..<?k]"
      using bounds by (simp_all add: upt_conv_Cons del: upt_Suc)
    from IH e am show ?thesis
      by (simp add: Let_def k request_loop.simps [where attempt = a] max map_filter_simps case_prod_beta upts
          del: upt_Suc)
  next
    case False
    then have "deciding_attempt ?result (Suc a) (Suc m) = Suc a"
      using am by (intro deciding_attempt_here) auto
    with False am show ?thesis
      by (simp add: Let_def request_loop.simps [where attempt = a] max attempt_value_def
          map_filter_simps transient_failure_def split: attempt_result.splits)
  qed
qed

text \<open>C13: A structured request makes its attempts one after the other until one is not a transient
  failure (a timeout, or a provider error marked transient), at most max_retries + 1 of them; the
  result is that attempt's response or error, unchanged; exactly the attempts 1..k are started, and
  before attempt i + 1 the client sleeps backoff * multiplier^(i - 1) and nowhere else.\<close>

theorem request_runs_until_deciding_attempt:
  assumes "0 \<le> rc_max_retries (ro_retry_config options)"
  shows "let result = (\<lambda>n. run_attempt json_loads options n (provider n));
             limit = Suc (nat (rc_max_retries (ro_retry_config options)));
             k = deciding_attempt result 1 limit;
             run = complete_structured json_loads provider api_key prompt schema options
         in fst run = attempt_value (result k) \<and>
            List.map_filter started_attempt (snd run) = [1..<Suc k] \<and>
            List.map_filter slept_seconds (snd run) = map (retry_delay_seconds (ro_retry_config options)) [1..<k]"
  using request_loop_result [of options "nat (rc_max_retries (ro_retry_config options))" 0] assms
  by (simp add: complete_structured_def request_structured_def Let_def)

definition sample_options :: LLMRequestOptions where
  "sample_options = \<lparr> ro_model = ''m'', ro_temperature = Fin 0, ro_max_tokens = 10, ro_timeout_ms = 50,
     ro_retry_config = \<lparr> rc_max_retries = 2, rc_backoff_initial_ms = 100, rc_backoff_multiplier = 2 \<rparr> \<rparr>"

theorem request_runs_until_deciding_attempt_witness:
  "fst (complete_structured (\<lambda>s. Inr (JObj [])) (\<lambda>n. TimedOut) None (Inl ''hi'') [] sample_options) =
     Inl (LLMTimeoutError ''LLM request timed out after 50 ms.'') \<and>
   List.map_filter started_attempt
     (snd (complete_structured (\<lambda>s. Inr (JObj [])) (\<lambda>n. TimedOut) None (Inl ''hi'') [] sample_options)) = [1, 2, 3] \<and>
   List.map_filter slept_seconds
     (snd (complete_structured (\<lambda>s. Inr (JObj [])) (\<lambda>n. TimedOut) None (Inl ''hi'') [] sample_options)) = [1/10, 1/5]"
proof -
  let ?result = "\<lambda>n. run_attempt (\<lambda>s. Inr (JObj [])) sample_options n TimedOut"
  have "\<And>n. ?result n = Failed (LLMTimeoutError ''LLM request timed out after 50 ms.'')"
    by (simp add: run_attempt_def sample_options_def) code_simp
  moreover from this have "deciding_attempt ?result 1 3 = 3"
    by (simp add: deciding_attempt_def transient_failure_def is_retryable_def upt_rec)
  moreover have "0 \<le> rc_max_retries (ro_retry_config sample_options)" by (simp add: sample_options_def)
  moreover have "rc_max_retries (ro_retry_config sample_options) = 2" by (simp add: sample_options_def)
  moreover have "map (retry_delay_seconds (ro_retry_config sample_options)) [1..<3] = [1/10, 1/5]"
    by (simp add: sample_options_def retry_delay_seconds_def upt_rec)
  moreover have "[1..<Suc 3] = [1, 2, 3]" by (simp add: upt_rec del: upt_Suc)
  ultimately show ?thesis
    using request_runs_until_deciding_attempt [of sample_options "\<lambda>s. Inr (JObj [])" "\<lambda>n. TimedOut" None "Inl ''hi''" "[]"]
    by (simp add: Let_def attempt_value_def numeral_3_eq_3 [symmetric] del: upt_Suc)
qed

section \<open>The key never reaches the log\<close>

lemma marks_constant:
  assumes "CHR ''['' \<notin> set k" "CHR '']'' \<notin> set k" "\<not> contains_str k ''REDACTED''"
  shows "marks (\<lambda>_. REDACTED) r k"
proof -
  have "REDACTED = [] @ CHR ''['' # ''REDACTED'' @ [CHR '']'']" by (simp add: REDACTED_def)
  with assms show ?thesis unfolding marks_def by (metis append_Nil)
qed

lemma marks_assignment:
  assumes "CHR ''='' \<notin> set k" "CHR ''['' \<notin> set k" "CHR '']'' \<notin> set k" "\<not> contains_str k ''REDACTED''" "k \<noteq> []"
  shows "marks (\<lambda>t. (case group t 1 of Some g \<Rightarrow> g | None \<Rightarrow> []) @ ''='' @ REDACTED) redact_assignment_re k"
  unfolding marks_def
proof (intro allI impI)
  fix prev s t
  assume "match_at redact_assignment_re prev s = Some t"
  moreover obtain a r where "redact_assignment_re = Seq WordB (Seq (Group 1 a) r)" "1 \<notin> groups r"
    by (simp add: redact_assignment_re_def seqs_def plus_def)
  ultimately obtain g g' where g: "group t 1 = Some g" "s = g @ g'" using leading_group_prefix by metis
  have "\<not> contains_str k (CHR ''['' # ''REDACTED'')"
    using assms contains_str_sep [of k "[]" "CHR ''[''" "''REDACTED''"] by (auto simp: contains_str_iff)
  with g assms show "\<exists>g g' a m b. (case group t 1 of Some g \<Rightarrow> g | None \<Rightarrow> []) @ ''='' @ REDACTED = g @ a # m @ [b] \<and>
      s = g @ g' \<and> a \<notin> set k \<and> b \<notin> set k \<and> \<not> contains_str k m"
    by (intro exI [of _ g] exI [of _ g'] exI [of _ "CHR ''=''"] exI [of _ "CHR ''['' # ''REDACTED''"]
        exI [of _ "CHR '']''"]) (simp add: REDACTED_def)
qed

definition loggable_key :: "string \<Rightarrow> bool" where
  \<comment> \<open>a key that the replacement text cannot itself spell out\<close>
  "loggable_key k \<longleftrightarrow> k \<noteq> [] \<and> CHR ''='' \<notin> set k \<and> CHR ''['' \<notin> set k \<and> CHR '']'' \<notin> set k \<and>
     \<not> contains_str k ''REDACTED''"

lemma redact_text_removes_key:
  assumes "loggable_key k"
  shows "\<not> contains_str k (redact_text t [k])"
proof -
  from assms have k: "k \<noteq> []" "CHR ''='' \<notin> set k" "CHR ''['' \<notin> set k" "CHR '']'' \<notin> set k"
    "\<not> contains_str k ''REDACTED''" by (auto simp: loggable_key_def)
  have red: "REDACTED = CHR ''['' # ''REDACTED'' @ [CHR '']'']" by (simp add: REDACTED_def)
  have "\<not> contains_str k (redact_values [k] t)"
    using replace_str_removes [of k "CHR ''[''" "CHR '']''" "''REDACTED''" t] k by (simp add: redact_values_def red)
  moreover have "\<not> contains_str k u \<Longrightarrow> \<not> contains_str k (re_sub r (\<lambda>_. REDACTED) u)" for r u
    unfolding re_sub_def re_subn_def using contains_str_sub_from [OF marks_constant [OF k(3,4,5)] k(1)] by blast
  moreover have "\<not> contains_str k u \<Longrightarrow> \<not> contains_str k (re_sub redact_assignment_re
      (\<lambda>t. (case group t 1 of Some g \<Rightarrow> g | None \<Rightarrow> []) @ ''='' @ REDACTED) u)" for u
    unfolding re_sub_def re_subn_def using contains_str_sub_from [OF marks_assignment [OF k(2,3,4,5,1)] k(1)] by blast
  ultimately show ?thesis
    unfolding redact_text_def Let_def by blast
qed

fun redacted_texts :: "llm_event \<Rightarrow> string list" where
  \<comment> \<open>the prompt previews and the error text of a log record\<close>
  "redacted_texts (RequestStarted n pv ks) = map snd pv"
| "redacted_texts (RequestFailed n b c t) = [t]"
| "redacted_texts _ = []"

lemma request_loop_hides_key:
  assumes "loggable_key k"
  shows "ev \<in> set (snd (request_loop json_loads provider (Some k) messages schema options a le)) \<Longrightarrow>
     t \<in> set (redacted_texts ev) \<Longrightarrow> \<not> contains_str k t"
proof (induction "nat (rc_max_retries (ro_retry_config options) + 1 - int a)" arbitrary: a le rule: less_induct)
  case less
  have key: "sensitive_values (Some k) = [k]" using assms by (simp add: sensitive_values_def loggable_key_def)
  let ?started = "\<lambda>ks. RequestStarted (Suc a) (redacted_prompt_preview messages [k]) ks"
  let ?failed = "\<lambda>b c u. RequestFailed (Suc a) b c (redact_text u [k])"
  let ?rec = "\<lambda>e. request_loop json_loads provider (Some k) messages schema options (Suc a) e"
  have "(\<exists>ks. ev = ?started ks) \<or> (\<exists>m u f. ev = RequestCompleted m (Suc a) u f) \<or> (\<exists>b c u. ev = ?failed b c u) \<or>
      (\<exists>q. ev = Slept q) \<or> (\<exists>e. ev \<in> set (snd (?rec e)) \<and> int a \<le> rc_max_retries (ro_retry_config options))"
  proof (cases "int a \<le> rc_max_retries (ro_retry_config options)")
    case True
    show ?thesis
    proof (cases "run_attempt json_loads options (Suc a) (provider (Suc a))")
      case (Failed e)
      show ?thesis
      proof (cases "is_retryable e \<and> int (Suc a) \<le> rc_max_retries (ro_retry_config options)")
        case retry: True
        from less.prems(1) True Failed retry
        have "ev \<in> {?started (sort (map fst schema)), ?failed True (error_code_of e) (llm_error_str e),
            Slept (retry_delay_seconds (ro_retry_config options) (Suc a))} \<union> set (snd (?rec (Some e)))"
          by (simp add: request_loop.simps [where attempt = a] key case_prod_beta)
        with True show ?thesis by blast
      next
        case False
        with less.prems(1) True Failed
        have "ev = ?started (sort (map fst schema)) \<or> (\<exists>b. ev = ?failed b (error_code_of e) (llm_error_str e))"
          by (simp add: request_loop.simps [where attempt = a] key) blast
        then show ?thesis by blast
      qed
    next
      case (Succeeded r)
      with less.prems(1) True have "ev = ?started (sort (map fst schema)) \<or>
          ev = RequestCompleted (sr_model r) (Suc a) (sr_usage r) (sr_finish_reason r)"
        by (simp add: request_loop.simps [where attempt = a] key)
      then show ?thesis by blast
    next
      case (Raised e)
      with less.prems(1) True have "ev = ?started (sort (map fst schema))"
        by (simp add: request_loop.simps [where attempt = a] key)
      then show ?thesis by blast
    qed
  next
    case False
    with less.prems(1) show ?thesis by (simp add: request_loop.simps [where attempt = a])
  qed
  then consider ks where "ev = ?started ks" | m u f where "ev = RequestCompleted m (Suc a) u f"
    | b c u where "ev = ?failed b c u" | q where "ev = Slept q"
    | e where "ev \<in> set (snd (?rec e))" "int a \<le> rc_max_retries (ro_retry_config options)"
    by blast
  then show ?case
  proof cases
    case 1
    with less.prems(2) redact_text_removes_key [OF assms] show ?thesis
      by (auto simp: redacted_prompt_preview_def)
  next
    case 3
    with less.prems(2) redact_text_removes_key [OF assms] show ?thesis by simp
  next
    case 5
    with less.hyps [OF _ 5(1) less.prems(2)] show ?thesis by simp
  qed (use less.prems(2) in simp_all)
qed

text \<open>C27: The client's api key never appears in a prompt preview or an error text that it logs, whatever
  the prompt and whatever the provider and its errors contain, for every key that the marker
  [REDACTED] and an equals sign cannot spell.\<close>

theorem request_log_hides_api_key:
  assumes "loggable_key k"
    and "ev \<in> set (snd (complete_structured json_loads provider (Some k) prompt schema options))"
    and "t \<in> set (redacted_texts ev)"
  shows "\<not> contains_str k t"
  using request_loop_hides_key [OF assms(1)] assms(2,3)
  unfolding complete_structured_def request_structured_def by blast

theorem request_log_hides_api_key_witness:
  "\<not> contains_str ''sekrit'' (redact_text ''bad key sekrit'' [''sekrit''])"
proof -
  let ?run = "complete_structured (\<lambda>s. Inr (JObj [])) (\<lambda>n. RaisedLLM (LLMProviderError ''bad key sekrit'' False None))
    (Some ''sekrit'') (Inl ''hi'') [] sample_options"
  have "loggable_key ''sekrit''" by code_simp
  moreover have "RequestFailed 1 False ''LLMProviderError'' (redact_text ''bad key sekrit'' [''sekrit'']) \<in> set (snd ?run)"
    by (simp add: complete_structured_def request_structured_def request_loop.simps [where attempt = 0]
        sample_options_def run_attempt_def is_retryable_def error_code_of_def sensitive_values_def)
  ultimately show ?thesis
    by (rule request_log_hides_api_key) simp
qed

end
