(* ===== verification/OutputValidation.thy ===== *)
theory OutputValidation
  imports ContractProperties LlmClient "HOL-Library.Product_Lexorder"
begin

text \<open>
  review/output_validation.py: the structured output of the model is parsed against its contract with
  at most one repair request, joined with the Semgrep findings, split into inline findings (every line
  of the range is a changed line) and summary findings, and deduplicated.

  \<open>sha256\<close> is a parameter \<open>digest\<close> on texts (\<open>hexdigest\<close> of the UTF-8 encoding); the
  two methods of the client are functions from their arguments to an error or a response.
\<close>

section \<open>Keys of a finding\<close>

definition normalized_text :: "string \<Rightarrow> string" where
  "normalized_text value = join '' '' (split_words (casefold value))"

definition finding_line :: "ReviewFinding \<Rightarrow> int option" where
  "finding_line finding = (case rf_line_range finding of None \<Rightarrow> None | Some r \<Rightarrow> Some (lr_start_line r))"

definition or_empty :: "string option \<Rightarrow> string" where
  \<comment> \<open>\<open>value or ""\<close>\<close>
  "or_empty v = (case v of None \<Rightarrow> [] | Some s \<Rightarrow> s)"

definition evidence_sort_key :: "FindingEvidence \<Rightarrow> string \<times> string \<times> int \<times> int \<times> string" where
  "evidence_sort_key item =
     (fe_source item, or_empty (fe_path item),
      (case fe_line_range item of Some r \<Rightarrow> lr_start_line r | None \<Rightarrow> 0),
      (case fe_line_range item of Some r \<Rightarrow> lr_end_line r | None \<Rightarrow> 0),
      normalized_text (fe_excerpt item))"

definition NUL :: string where
  "NUL = [CHR 0x00]"

definition evidence_digest_input :: "FindingEvidence \<Rightarrow> string" where
  "evidence_digest_input item =
     fe_source item @ NUL @ or_empty (fe_path item) @ NUL @
     (case fe_line_range item of Some r \<Rightarrow> str_of_int (lr_start_line r) | None \<Rightarrow> []) @ '':'' @
     (case fe_line_range item of Some r \<Rightarrow> str_of_int (lr_end_line r) | None \<Rightarrow> []) @ NUL @
     normalized_text (fe_excerpt item) @ NUL"

definition evidence_hash :: "(string \<Rightarrow> string) \<Rightarrow> FindingEvidence list \<Rightarrow> string" where
  "evidence_hash digest evidence =
     digest (concat (map evidence_digest_input (sort_key evidence_sort_key evidence)))"

type_synonym cross_key = "string \<times> int option \<times> string \<times> string"

definition cross_source_key :: "(string \<Rightarrow> string) \<Rightarrow> ReviewFinding \<Rightarrow> cross_key" where
  "cross_source_key digest finding =
     (or_empty (rf_path finding), finding_line finding, normalized_text (rf_title finding),
      evidence_hash digest (rf_evidence finding))"

definition exact_key :: "(string \<Rightarrow> string) \<Rightarrow> ReviewFinding \<Rightarrow> string \<times> cross_key" where
  "exact_key digest finding =
     (rf_source finding, or_empty (rf_path finding), finding_line finding, normalized_text (rf_title finding),
      evidence_hash digest (rf_evidence finding))"

section \<open>Deduplication\<close>

definition should_replace :: "ReviewFinding \<Rightarrow> ReviewFinding \<Rightarrow> bool" where
  "should_replace current candidate =
     (if rf_source current \<noteq> ''semgrep'' \<and> rf_source candidate = ''semgrep'' then True
      else if rf_source current = ''semgrep'' \<and> rf_source candidate \<noteq> ''semgrep'' then False
      else float_gt (rf_confidence candidate) (rf_confidence current))"

definition merge_evidence :: "ReviewFinding \<Rightarrow> ReviewFinding \<Rightarrow> ReviewFinding" where
  \<comment> \<open>\<open>seen\<close> holds the sort keys of the evidence collected so far\<close>
  "merge_evidence preferred duplicate =
     preferred\<lparr>rf_evidence := foldl (\<lambda>evidence item.
        if evidence_sort_key item \<in> set (map evidence_sort_key evidence) then evidence else evidence @ [item])
       (rf_evidence preferred) (rf_evidence duplicate)\<rparr>"

record dedupe_state =
  ds_selected :: "ReviewFinding list"
  ds_exact :: "string \<times> cross_key \<Rightarrow> int option"
  ds_cross :: "cross_key \<Rightarrow> int option"
  ds_deduped :: "string list"

definition dedupe_start :: "(string \<Rightarrow> string) \<Rightarrow> ReviewFinding list \<Rightarrow> dedupe_state" where
  \<comment> \<open>the loop over \<open>existing\<close>\<close>
  "dedupe_start digest existing = foldl (\<lambda>st finding.
       st\<lparr>ds_exact := (ds_exact st)(exact_key digest finding \<mapsto> -1),
          ds_cross := (ds_cross st)(cross_source_key digest finding \<mapsto> -1)\<rparr>)
     \<lparr> ds_selected = [], ds_exact = Map.empty, ds_cross = Map.empty, ds_deduped = [] \<rparr> existing"

definition dedupe_step :: "(string \<Rightarrow> string) \<Rightarrow> dedupe_state \<Rightarrow> ReviewFinding \<Rightarrow> dedupe_state" where
  "dedupe_step digest st finding =
     (let ek = exact_key digest finding; ck = cross_source_key digest finding;
          duplicate = (case ds_exact st ek of Some i \<Rightarrow> Some i | None \<Rightarrow> ds_cross st ck)
      in case duplicate of
           None \<Rightarrow> st\<lparr>ds_exact := (ds_exact st)(ek \<mapsto> int (length (ds_selected st))),
                      ds_cross := (ds_cross st)(ck \<mapsto> int (length (ds_selected st))),
                      ds_selected := ds_selected st @ [finding]\<rparr>
         | Some i \<Rightarrow>
             (let st' = st\<lparr>ds_deduped := ds_deduped st @ [rf_id finding]\<rparr>
              in if i \<ge> 0 \<and> should_replace (ds_selected st ! nat i) finding
                 then st'\<lparr>ds_selected := (ds_selected st)[nat i := merge_evidence finding (ds_selected st ! nat i)],
                          ds_exact := (ds_exact st)(ek \<mapsto> i), ds_cross := (ds_cross st)(ck \<mapsto> i)\<rparr>
                 else st'))"

definition dedupe_run :: "(string \<Rightarrow> string) \<Rightarrow> ReviewFinding list \<Rightarrow> ReviewFinding list \<Rightarrow> dedupe_state" where
  "dedupe_run digest existing findings = foldl (dedupe_step digest) (dedupe_start digest existing) findings"

definition dedupe_findings ::
  "(string \<Rightarrow> string) \<Rightarrow> ReviewFinding list \<Rightarrow> ReviewFinding list \<Rightarrow> ReviewFinding list \<times> string list" where
  \<comment> \<open>second argument: \<open>existing\<close>\<close>
  "dedupe_findings digest existing findings =
     (let st = dedupe_run digest existing findings in (ds_selected st, ds_deduped st))"

section \<open>Semgrep findings as review findings, changed lines\<close>

definition semgrep_confidence :: py_float where
  \<comment> \<open>the double nearest to 0.95\<close>
  "semgrep_confidence = Fin (4278419646001971 / 4503599627370496)"

definition semgrep_category :: "obj \<Rightarrow> string" where
  \<comment> \<open>\<open>str(...)\<close> of a value that is not a text is never one of the categories\<close>
  "semgrep_category metadata = (case obj_get metadata ''category'' of
      JStr s \<Rightarrow> if s \<in> set [''bug'', ''security'', ''performance'', ''maintainability'', ''testing'', ''ci'',
                    ''infrastructure'', ''documentation''] then s else ''security''
    | _ \<Rightarrow> ''security'')"

definition semgrep_to_review_finding :: "SemgrepFinding \<Rightarrow> ReviewFinding" where
  "semgrep_to_review_finding finding =
     (let line_range = \<lparr> lr_start_line = ps_line (sgf_start finding), lr_end_line = ps_line (sgf_end finding) \<rparr>
      in \<lparr> rf_id = sgf_id finding, rf_source = ''semgrep'', rf_category = semgrep_category (sgf_metadata finding),
           rf_severity = sgf_severity finding, rf_confidence = semgrep_confidence, rf_path = Some (sgf_path finding),
           rf_line_range = Some line_range, rf_title = sgf_message finding, rf_body = sgf_message finding,
           rf_evidence = [\<lparr> fe_source = ''semgrep'', fe_artifact_id = Some (sgf_id finding),
              fe_path = Some (sgf_path finding), fe_line_range = Some line_range,
              fe_excerpt = or_else (sgf_lines finding) (sgf_message finding) \<rparr>],
           rf_suggested_fix = sgf_fix finding \<rparr>)"

definition changed_line_index :: "DiffArtifact \<Rightarrow> string \<Rightarrow> int list option" where
  \<comment> \<open>a dictionary: a later file of the same path replaces an earlier one\<close>
  "changed_line_index d = foldl (\<lambda>m f. m(cfa_path f \<mapsto> cfa_changed_new_lines f)) Map.empty (da_files d)"

definition is_changed_line_finding :: "ReviewFinding \<Rightarrow> (string \<Rightarrow> int list option) \<Rightarrow> bool" where
  "is_changed_line_finding finding changed_lines =
     (case (rf_path finding, rf_line_range finding) of
        (Some path, Some r) \<Rightarrow>
          (case changed_lines path of
             None \<Rightarrow> False
           | Some eligible \<Rightarrow>
               eligible \<noteq> [] \<and> \<not> lr_start_line r > lr_end_line r \<and>
               list_all (\<lambda>line. line \<in> set eligible) [lr_start_line r..lr_end_line r])
      | _ \<Rightarrow> False)"

definition summary_version :: "ReviewFinding \<Rightarrow> ReviewFinding" where
  "summary_version finding = finding\<lparr>rf_line_range := None\<rparr>"

record ReviewOutputValidationResult =
  vr_output :: LlmReviewOutput
  vr_repaired :: bool
  vr_downgraded_inline_finding_ids :: "string list"
  vr_deduplicated_finding_ids :: "string list"

definition split_candidates ::
  "(string \<Rightarrow> int list option) \<Rightarrow> ReviewFinding list \<Rightarrow> ReviewFinding list \<times> ReviewFinding list \<times> string list" where
  \<comment> \<open>the loop over \<open>inline_candidates\<close>: inline findings, summary findings, downgraded ids\<close>
  "split_candidates changed_lines candidates = foldl (\<lambda>(inl, sumf, ids) finding.
       if is_changed_line_finding finding changed_lines then (inl @ [finding], sumf, ids)
       else (inl, sumf @ [summary_version finding], ids @ [rf_id finding])) ([], [], []) candidates"

definition validate_and_prepare_review_output ::
  "(string \<Rightarrow> string) \<Rightarrow> LlmReviewOutput \<Rightarrow> DiffArtifact \<Rightarrow> SemgrepArtifact option \<Rightarrow> ReviewOutputValidationResult" where
  "validate_and_prepare_review_output digest output diff_artifact semgrep_artifact =
     (let changed_lines = changed_line_index diff_artifact;
          semgrep_findings = map semgrep_to_review_finding
            (case semgrep_artifact of Some a \<Rightarrow> sga_findings a | None \<Rightarrow> []);
          inline_candidates = semgrep_findings @ lro_inline_findings output
      in case split_candidates changed_lines inline_candidates of (inl0, sum0, downgraded) \<Rightarrow>
           (case dedupe_findings digest [] inl0 of (inl, inl_deduped) \<Rightarrow>
              (case dedupe_findings digest inl (sum0 @ lro_summary_findings output) of (sumf, sum_deduped) \<Rightarrow>
                 \<lparr> vr_output = output\<lparr>lro_inline_findings := inl, lro_summary_findings := sumf\<rparr>,
                    vr_repaired = False,
                    vr_downgraded_inline_finding_ids = downgraded,
                    vr_deduplicated_finding_ids = inl_deduped @ sum_deduped \<rparr>)))"

section \<open>The repair protocol\<close>

definition repair_input :: "string \<Rightarrow> string list \<Rightarrow> string" where
  "repair_input raw original_errors =
     or_else raw (''Model output failed schema validation: '' @ join ''; '' original_errors)"

definition repair_once :: "(string \<Rightarrow> llm_error + LLMStructuredResponse) \<Rightarrow> string \<Rightarrow> llm_error + LlmReviewOutput" where
  \<comment> \<open>\<open>_repair_once\<close> from the call on; the argument is \<open>repair_input\<close>\<close>
  "repair_once repair sent =
     (case repair sent of
        Inl (LLMInvalidJsonError m raw) \<Rightarrow>
          Inl (LlmReviewOutputValidationError ''LLM repair response was not valid JSON.'' [m])
      | Inl e \<Rightarrow> Inl (LlmReviewOutputValidationError ''LLM repair attempt failed.'' [llm_error_str e])
      | Inr response \<Rightarrow>
          (case LlmReviewOutput_from_mapping (sr_content response) of
             Inl e \<Rightarrow> Inl (LlmReviewOutputValidationError
               ''LLM repair response did not match the review output schema.'' (errors e))
           | Inr output \<Rightarrow> Inr output))"

definition complete_validated_review_output ::
  "(string \<Rightarrow> string) \<Rightarrow> (llm_error + LLMStructuredResponse) \<Rightarrow> (string \<Rightarrow> llm_error + LLMStructuredResponse) \<Rightarrow>
   DiffArtifact \<Rightarrow> SemgrepArtifact option \<Rightarrow> (llm_error + ReviewOutputValidationResult) \<times> string list" where
  \<comment> \<open>\<open>first\<close>: what \<open>complete_structured\<close> gives; second component: the repair requests sent\<close>
  "complete_validated_review_output digest first repair diff_artifact semgrep_artifact =
     (let finish = (\<lambda>repaired out. case out of
            Inl e \<Rightarrow> Inl e
          | Inr output \<Rightarrow> Inr ((validate_and_prepare_review_output digest output diff_artifact semgrep_artifact)
                                \<lparr>vr_repaired := repaired\<rparr>))
      in case first of
           Inl (LLMInvalidJsonError m raw) \<Rightarrow>
             (let sent = repair_input raw [] in (finish True (repair_once repair sent), [sent]))
         | Inl e \<Rightarrow> (Inl e, [])
         | Inr response \<Rightarrow>
             (case LlmReviewOutput_from_mapping (sr_content response) of
                Inr output \<Rightarrow> (finish False (Inr output), [])
              | Inl e \<Rightarrow>
                  (let sent = repair_input (sr_raw_content response) (errors e)
                   in (finish True (repair_once repair sent), [sent]))))"

section \<open>Deduplication against its reference\<close>

text \<open>
  The reference: findings are grouped by their cross-source key in the order of first occurrence,
  keys of \<open>existing\<close> are left out, and every group is reduced by the preference rule.
\<close>

definition survivor :: "ReviewFinding list \<Rightarrow> ReviewFinding" where
  "survivor gs = foldl (\<lambda>current candidate.
     if should_replace current candidate then merge_evidence candidate current else current) (hd gs) (tl gs)"

definition new_keys :: "(string \<Rightarrow> string) \<Rightarrow> ReviewFinding list \<Rightarrow> ReviewFinding list \<Rightarrow> cross_key list" where
  "new_keys digest existing findings =
     dedupe_keep_order (filter (\<lambda>k. k \<notin> cross_source_key digest ` set existing) (map (cross_source_key digest) findings))"

fun repeated_ids :: "(string \<Rightarrow> string) \<Rightarrow> cross_key list \<Rightarrow> ReviewFinding list \<Rightarrow> string list" where
  "repeated_ids digest seen [] = []"
| "repeated_ids digest seen (f # fs) =
     (if cross_source_key digest f \<in> set seen then [rf_id f] else []) @
     repeated_ids digest (cross_source_key digest f # seen) fs"

definition group_of :: "(string \<Rightarrow> string) \<Rightarrow> ReviewFinding list \<Rightarrow> cross_key \<Rightarrow> ReviewFinding list" where
  "group_of digest findings k = filter (\<lambda>f. cross_source_key digest f = k) findings"

definition dedupe_inv ::
  "(string \<Rightarrow> string) \<Rightarrow> ReviewFinding list \<Rightarrow> ReviewFinding list \<Rightarrow> dedupe_state \<Rightarrow> bool" where
  "dedupe_inv digest existing fs st \<longleftrightarrow>
     (let ks = new_keys digest existing fs; old = cross_source_key digest ` set existing in
      ds_selected st = map (\<lambda>k. survivor (group_of digest fs k)) ks \<and>
      (\<forall>k \<in> old. ds_cross st k = Some (-1)) \<and>
      (\<forall>i < length ks. ds_cross st (ks ! i) = Some (int i)) \<and>
      (\<forall>k. k \<notin> old \<longrightarrow> k \<notin> set ks \<longrightarrow> ds_cross st k = None) \<and>
      (\<forall>s k. ds_exact st (s, k) = None \<or> ds_exact st (s, k) = ds_cross st k) \<and>
      ds_deduped st = repeated_ids digest (map (cross_source_key digest) existing) fs)"

lemma exact_key_eq: "exact_key digest f = (rf_source f, cross_source_key digest f)"
  by (simp add: exact_key_def cross_source_key_def)

lemma repeated_ids_snoc:
  "repeated_ids digest seen (fs @ [f]) = repeated_ids digest seen fs @
     (if cross_source_key digest f \<in> set seen \<union> cross_source_key digest ` set fs then [rf_id f] else [])"
  by (induction fs arbitrary: seen) auto

lemma set_new_keys:
  "set (new_keys digest existing fs) = cross_source_key digest ` set fs - cross_source_key digest ` set existing"
  by (auto simp: new_keys_def)

lemma distinct_new_keys: "distinct (new_keys digest existing fs)"
  by (simp add: new_keys_def)

lemma new_keys_snoc:
  "new_keys digest existing (fs @ [f]) =
     (if cross_source_key digest f \<in> cross_source_key digest ` set existing \<or>
         cross_source_key digest f \<in> cross_source_key digest ` set fs
      then new_keys digest existing fs else new_keys digest existing fs @ [cross_source_key digest f])"
  by (auto simp: new_keys_def dedupe_snoc)

lemma group_of_snoc:
  "group_of digest (fs @ [f]) k = group_of digest fs k @ (if cross_source_key digest f = k then [f] else [])"
  by (simp add: group_of_def)

lemma group_of_not_Nil: "k \<in> set (new_keys digest existing fs) \<Longrightarrow> group_of digest fs k \<noteq> []"
  by (auto simp: set_new_keys group_of_def filter_empty_conv)

lemma survivor_snoc:
  "gs \<noteq> [] \<Longrightarrow> survivor (gs @ [f]) =
     (if should_replace (survivor gs) f then merge_evidence f (survivor gs) else survivor gs)"
  by (cases gs) (simp_all add: survivor_def)

lemma dedupe_start_eq:
  "dedupe_start digest ex =
     \<lparr> ds_selected = [],
        ds_exact = (\<lambda>p. if p \<in> exact_key digest ` set ex then Some (-1) else None),
        ds_cross = (\<lambda>k. if k \<in> cross_source_key digest ` set ex then Some (-1) else None), ds_deduped = [] \<rparr>"
proof (induction ex rule: rev_induct)
  case Nil
  then show ?case by (simp add: dedupe_start_def)
next
  case (snoc f ex)
  have "dedupe_start digest (ex @ [f]) = (dedupe_start digest ex)
      \<lparr>ds_exact := (ds_exact (dedupe_start digest ex))(exact_key digest f \<mapsto> -1),
       ds_cross := (ds_cross (dedupe_start digest ex))(cross_source_key digest f \<mapsto> -1)\<rparr>"
    by (simp add: dedupe_start_def)
  then show ?case
    unfolding snoc by (simp add: fun_eq_iff del: split_paired_All)
qed

lemma dedupe_start_inv: "dedupe_inv digest existing [] (dedupe_start digest existing)"
  unfolding dedupe_inv_def Let_def dedupe_start_eq
  by (auto simp: new_keys_def exact_key_eq)

lemma dedupe_step_inv:
  assumes inv: "dedupe_inv digest existing fs st"
  shows "dedupe_inv digest existing (fs @ [f]) (dedupe_step digest st f)"
proof -
  let ?ck = "cross_source_key digest f" and ?ks = "new_keys digest existing fs"
  let ?old = "cross_source_key digest ` set existing"
  from inv have sel: "ds_selected st = map (\<lambda>k. survivor (group_of digest fs k)) ?ks"
    and old: "\<And>k. k \<in> ?old \<Longrightarrow> ds_cross st k = Some (-1)"
    and new: "\<And>i. i < length ?ks \<Longrightarrow> ds_cross st (?ks ! i) = Some (int i)"
    and none: "\<And>k. k \<notin> ?old \<Longrightarrow> k \<notin> set ?ks \<Longrightarrow> ds_cross st k = None"
    and ex: "\<And>s k. ds_exact st (s, k) = None \<or> ds_exact st (s, k) = ds_cross st k"
    and ids: "ds_deduped st = repeated_ids digest (map (cross_source_key digest) existing) fs"
    unfolding dedupe_inv_def Let_def by blast+
  have dup: "(case ds_exact st (exact_key digest f) of Some i \<Rightarrow> Some i | None \<Rightarrow> ds_cross st ?ck) = ds_cross st ?ck"
    using ex [of "rf_source f" ?ck] by (auto simp: exact_key_eq split: option.split)
  consider "?ck \<in> ?old" | i where "?ck \<notin> ?old" "i < length ?ks" "?ks ! i = ?ck"
    | "?ck \<notin> ?old" "?ck \<notin> set ?ks" by (metis in_set_conv_nth)
  then show ?thesis
  proof cases
    case 1
    then have "dedupe_step digest st f = st\<lparr>ds_deduped := ds_deduped st @ [rf_id f]\<rparr>"
      using dup old [OF 1] by (simp add: dedupe_step_def Let_def)
    moreover have "group_of digest (fs @ [f]) k = group_of digest fs k" if "k \<in> set ?ks" for k
      using that 1 by (auto simp: group_of_snoc set_new_keys)
    ultimately show ?thesis
      using inv 1 by (simp add: dedupe_inv_def Let_def new_keys_snoc repeated_ids_snoc)
  next
    case 2
    let ?cur = "ds_selected st ! i"
    have cross: "ds_cross st ?ck = Some (int i)" using new [OF 2(2)] 2(3) by simp
    have mem: "?ck \<in> set ?ks" using 2(2,3) nth_mem by metis
    then have seen: "?ck \<in> cross_source_key digest ` set fs" by (simp add: set_new_keys)
    have cur: "?cur = survivor (group_of digest fs ?ck)" using sel 2 by simp
    have step: "dedupe_step digest st f =
        (if should_replace ?cur f
         then st\<lparr>ds_deduped := ds_deduped st @ [rf_id f], ds_selected := (ds_selected st)[i := merge_evidence f ?cur],
                 ds_exact := (ds_exact st)(exact_key digest f \<mapsto> int i)\<rparr>
         else st\<lparr>ds_deduped := ds_deduped st @ [rf_id f]\<rparr>)"
      using dup cross by (simp add: dedupe_step_def Let_def fun_upd_idem)
    have keys: "new_keys digest existing (fs @ [f]) = ?ks" using seen by (simp add: new_keys_snoc)
    have "map (\<lambda>k. survivor (group_of digest (fs @ [f]) k)) ?ks =
        (ds_selected st)[i := (if should_replace ?cur f then merge_evidence f ?cur else ?cur)]"
    proof (rule nth_equalityI)
      fix j
      assume "j < length (map (\<lambda>k. survivor (group_of digest (fs @ [f]) k)) ?ks)"
      then have j: "j < length ?ks" by simp
      show "map (\<lambda>k. survivor (group_of digest (fs @ [f]) k)) ?ks ! j =
          (ds_selected st)[i := (if should_replace ?cur f then merge_evidence f ?cur else ?cur)] ! j"
      proof (cases "j = i")
        case True
        with j 2 group_of_not_Nil [OF mem] sel show ?thesis
          by (simp add: group_of_snoc survivor_snoc cur)
      next
        case False
        with j 2 have "?ks ! j \<noteq> ?ck" using distinct_new_keys nth_eq_iff_index_eq by metis
        with j False sel show ?thesis by (simp add: group_of_snoc)
      qed
    qed (simp add: sel)
    then have sel': "ds_selected (dedupe_step digest st f) = map (\<lambda>k. survivor (group_of digest (fs @ [f]) k)) ?ks"
      by (simp add: step)
    moreover have "ds_cross (dedupe_step digest st f) = ds_cross st" by (simp add: step)
    moreover have "ds_exact (dedupe_step digest st f) (s, k) = None \<or>
        ds_exact (dedupe_step digest st f) (s, k) = ds_cross st k" for s k
      using ex [of s k] cross by (auto simp: step exact_key_eq)
    moreover have "ds_deduped (dedupe_step digest st f) = ds_deduped st @ [rf_id f]" by (simp add: step)
    ultimately show ?thesis
      unfolding dedupe_inv_def Let_def keys using old new none ids seen by (simp add: repeated_ids_snoc)
  next
    case 3
    let ?n = "length ?ks"
    have fresh: "?ck \<notin> cross_source_key digest ` set fs" using 3 by (simp add: set_new_keys)
    have step: "dedupe_step digest st f =
        st\<lparr>ds_exact := (ds_exact st)(exact_key digest f \<mapsto> int ?n),
           ds_cross := (ds_cross st)(?ck \<mapsto> int ?n), ds_selected := ds_selected st @ [f]\<rparr>"
      using dup none [OF 3] by (simp add: dedupe_step_def Let_def sel)
    have keys: "new_keys digest existing (fs @ [f]) = ?ks @ [?ck]" using 3 fresh by (simp add: new_keys_snoc)
    have "group_of digest (fs @ [f]) ?ck = [f]"
      using fresh by (simp add: group_of_snoc group_of_def filter_empty_conv)
        (metis image_eqI)
    moreover have "group_of digest (fs @ [f]) k = group_of digest fs k" if "k \<in> set ?ks" for k
      using that 3 by (auto simp: group_of_snoc)
    ultimately have "ds_selected (dedupe_step digest st f) =
        map (\<lambda>k. survivor (group_of digest (fs @ [f]) k)) (?ks @ [?ck])"
      by (simp add: step sel survivor_def)
    moreover have "ds_cross (dedupe_step digest st f) ((?ks @ [?ck]) ! i) = Some (int i)" if "i < Suc ?n" for i
    proof (cases "i = ?n")
      case False
      with that have "i < ?n" by simp
      moreover from this have "?ks ! i \<noteq> ?ck" using 3(2) nth_mem by metis
      ultimately show ?thesis using new by (simp add: step nth_append)
    qed (simp add: step nth_append)
    moreover have "ds_exact (dedupe_step digest st f) (s, k) = None \<or>
        ds_exact (dedupe_step digest st f) (s, k) = ds_cross (dedupe_step digest st f) k" for s k
      using ex [of s k] ex [of s ?ck] none [OF 3] by (auto simp: step exact_key_eq)
    moreover have "ds_cross (dedupe_step digest st f) k = Some (-1)" if "k \<in> ?old" for k
      using that old [OF that] 3(1) by (cases "k = ?ck") (simp_all add: step)
    moreover have "ds_cross (dedupe_step digest st f) k = None" if "k \<notin> ?old" "k \<notin> set (?ks @ [?ck])" for k
      using none [of k] that by (simp add: step)
    moreover have "ds_deduped (dedupe_step digest st f) =
        repeated_ids digest (map (cross_source_key digest) existing) (fs @ [f])"
      using 3(1) fresh ids by (simp add: repeated_ids_snoc step)
    ultimately show ?thesis
      unfolding dedupe_inv_def Let_def keys length_append_singleton by blast
  qed
qed

lemma dedupe_run_inv: "dedupe_inv digest existing fs (dedupe_run digest existing fs)"
  by (induction fs rule: rev_induct)
    (simp_all add: dedupe_run_def dedupe_start_inv dedupe_step_inv)

lemma fst_dedupe_findings:
  "fst (dedupe_findings digest existing findings) =
     map (\<lambda>k. survivor (group_of digest findings k)) (new_keys digest existing findings)"
  using dedupe_run_inv [of digest existing findings] by (simp add: dedupe_findings_def dedupe_inv_def Let_def)

text \<open>C30: Deduplication, whatever the order and the number of duplicates, keeps for every cross-source key
  (path, line, normalised title, evidence digest) that is not the key of an existing finding exactly one
  finding, at the place of the first occurrence: the one the preference rule (Semgrep before the rest,
  then the higher confidence) selects by a left-to-right run over the findings of that key; and it lists
  the identifiers of all findings whose key had been seen before, in order. The per-source table of exact
  keys never changes the outcome.\<close>

theorem dedupe_findings_keeps_one_per_key:
  "dedupe_findings digest existing findings =
     (map (\<lambda>k. survivor (group_of digest findings k)) (new_keys digest existing findings),
      repeated_ids digest (map (cross_source_key digest) existing) findings)"
  using dedupe_run_inv [of digest existing findings]
  by (simp add: dedupe_findings_def dedupe_inv_def Let_def)

section \<open>What the survivors inherit\<close>

lemma merge_evidence_fields [simp]:
  "rf_id (merge_evidence a b) = rf_id a" "rf_source (merge_evidence a b) = rf_source a"
  "rf_category (merge_evidence a b) = rf_category a" "rf_severity (merge_evidence a b) = rf_severity a"
  "rf_confidence (merge_evidence a b) = rf_confidence a" "rf_path (merge_evidence a b) = rf_path a"
  "rf_line_range (merge_evidence a b) = rf_line_range a" "rf_title (merge_evidence a b) = rf_title a"
  "rf_body (merge_evidence a b) = rf_body a" "rf_suggested_fix (merge_evidence a b) = rf_suggested_fix a"
  by (simp_all add: merge_evidence_def)

lemma set_collect_new:
  "set (foldl (\<lambda>ev item. if P item ev then ev else ev @ [item]) acc xs) \<subseteq> set acc \<union> set xs \<and>
   set acc \<subseteq> set (foldl (\<lambda>ev item. if P item ev then ev else ev @ [item]) acc xs)"
proof (induction xs arbitrary: acc)
  case (Cons x xs)
  from Cons.IH [of acc] Cons.IH [of "acc @ [x]"] show ?case by auto
qed simp

lemma merge_evidence_evidence:
  "set (rf_evidence (merge_evidence a b)) \<subseteq> set (rf_evidence a) \<union> set (rf_evidence b) \<and>
   set (rf_evidence a) \<subseteq> set (rf_evidence (merge_evidence a b))"
  using set_collect_new [of "\<lambda>item ev. evidence_sort_key item \<in> set (map evidence_sort_key ev)"]
  by (simp add: merge_evidence_def)

lemma survivor_pred:
  assumes "gs \<noteq> []" and "\<And>f. f \<in> set gs \<Longrightarrow> Q f" and "\<And>f g. Q f \<Longrightarrow> Q g \<Longrightarrow> Q (merge_evidence f g)"
  shows "Q (survivor gs)"
  using assms
proof (induction gs rule: rev_induct)
  case (snoc f gs)
  then show ?case by (cases "gs = []") (simp_all add: survivor_snoc, simp add: survivor_def)
qed simp

lemma dedupe_findings_pred:
  assumes "list_all Q fs" and "\<And>f g. Q f \<Longrightarrow> Q g \<Longrightarrow> Q (merge_evidence f g)"
  shows "list_all Q (fst (dedupe_findings digest ex fs))"
proof -
  have "Q (survivor (group_of digest fs k))" if "k \<in> set (new_keys digest ex fs)" for k
    by (rule survivor_pred [where Q = Q, OF group_of_not_Nil [OF that] _ assms(2)])
      (use assms(1) in \<open>auto simp: group_of_def list_all_iff\<close>)
  then show ?thesis by (auto simp: list_all_iff fst_dedupe_findings)
qed

lemma length_dedupe_findings:
  "length (fst (dedupe_findings digest ex fs)) + length (snd (dedupe_findings digest ex fs)) = length fs"
proof -
  have "length (ds_selected (foldl (dedupe_step digest) st fs)) + length (ds_deduped (foldl (dedupe_step digest) st fs)) =
      length (ds_selected st) + length (ds_deduped st) + length fs" for st
    by (induction fs arbitrary: st) (simp_all add: dedupe_step_def Let_def split: option.split)
  from this [of "dedupe_start digest ex"] show ?thesis
    by (simp add: dedupe_findings_def dedupe_run_def Let_def dedupe_start_eq)
qed

lemma should_replace_best:
  assumes "\<not> should_replace s g" "should_replace s f" "unit_interval (rf_confidence s)"
    "unit_interval (rf_confidence f)" "unit_interval (rf_confidence g)"
  shows "\<not> should_replace f g"
  using assms by (auto simp: should_replace_def unit_interval_iff split: if_splits)

lemma survivor_best:
  "gs \<noteq> [] \<Longrightarrow> \<forall>f \<in> set gs. unit_interval (rf_confidence f) \<Longrightarrow>
     unit_interval (rf_confidence (survivor gs)) \<and> (\<forall>f \<in> set gs. \<not> should_replace (survivor gs) f)"
proof (induction gs rule: rev_induct)
  case (snoc f gs)
  show ?case
  proof (cases "gs = []")
    case True
    with snoc.prems show ?thesis by (auto simp: survivor_def should_replace_def unit_interval_iff)
  next
    case False
    with snoc have IH: "unit_interval (rf_confidence (survivor gs))" "\<forall>g \<in> set gs. \<not> should_replace (survivor gs) g"
      and conf: "unit_interval (rf_confidence f)" "\<forall>g \<in> set gs. unit_interval (rf_confidence g)" by auto
    have same: "should_replace (merge_evidence f h) g = should_replace f g" for h g
      by (simp add: should_replace_def)
    have "\<not> should_replace f f" using conf(1) by (auto simp: should_replace_def unit_interval_iff)
    with False IH conf show ?thesis
      using should_replace_best [of "survivor gs" _ f] by (auto simp: survivor_snoc same)
  qed
qed simp

lemma split_candidates_eq:
  "split_candidates cl fs =
     (filter (\<lambda>f. is_changed_line_finding f cl) fs,
      map summary_version (filter (\<lambda>f. \<not> is_changed_line_finding f cl) fs),
      map rf_id (filter (\<lambda>f. \<not> is_changed_line_finding f cl) fs))"
  unfolding split_candidates_def by (induction fs rule: rev_induct) simp_all

definition on_changed_lines :: "DiffArtifact \<Rightarrow> ReviewFinding \<Rightarrow> bool" where
  \<comment> \<open>the finding names a file of the diff and a proper range of lines that the diff changed\<close>
  "on_changed_lines d f \<longleftrightarrow> (case (rf_path f, rf_line_range f) of
      (Some p, Some r) \<Rightarrow> lr_start_line r \<le> lr_end_line r \<and>
        {lr_start_line r..lr_end_line r} \<subseteq> (\<Union>file \<in> {file \<in> set (da_files d). cfa_path file = p}. set (cfa_changed_new_lines file))
    | _ \<Rightarrow> False)"

lemma changed_line_index_file:
  "changed_line_index d p = Some ls \<Longrightarrow> \<exists>file \<in> set (da_files d). cfa_path file = p \<and> cfa_changed_new_lines file = ls"
proof -
  have "foldl (\<lambda>m f. m(cfa_path f \<mapsto> cfa_changed_new_lines f)) Map.empty fs p = Some ls \<Longrightarrow>
      \<exists>file \<in> set fs. cfa_path file = p \<and> cfa_changed_new_lines file = ls" for fs
    by (induction fs rule: rev_induct) (auto split: if_splits)
  then show "changed_line_index d p = Some ls \<Longrightarrow> ?thesis" by (simp add: changed_line_index_def)
qed

lemma is_changed_line_finding_on:
  "is_changed_line_finding f (changed_line_index d) \<Longrightarrow> on_changed_lines d f"
  using changed_line_index_file [of d]
  by (fastforce simp: is_changed_line_finding_def on_changed_lines_def list_all_iff split: option.splits)

section \<open>Properties of the prepared output\<close>

lemma prepared_inline:
  "lro_inline_findings (vr_output (validate_and_prepare_review_output digest out d sg)) =
     fst (dedupe_findings digest [] (filter (\<lambda>f. is_changed_line_finding f (changed_line_index d))
       (map semgrep_to_review_finding (case sg of Some a \<Rightarrow> sga_findings a | None \<Rightarrow> []) @ lro_inline_findings out)))"
  by (simp add: validate_and_prepare_review_output_def Let_def split_candidates_eq case_prod_beta)

text \<open>C16: Every inline finding of the prepared output, from the model or from Semgrep, sits on changed
  lines: it has a path and a line range, the range is not reversed, and every line in it is a changed
  new line of a file of the diff with that path.\<close>

theorem prepared_inline_findings_on_changed_lines:
  "list_all (on_changed_lines d)
     (lro_inline_findings (vr_output (validate_and_prepare_review_output digest out d sg)))"
  unfolding prepared_inline
  by (rule dedupe_findings_pred)
    (auto simp: list_all_iff is_changed_line_finding_on, simp add: on_changed_lines_def)

text \<open>C9: No finding is lost or invented: the inline findings, the summary findings and the deduplicated
  identifiers of the result are together as many as the Semgrep findings and the model's inline and
  summary findings, and the downgraded identifiers are those of the candidates that are not on changed
  lines, in their order.\<close>

theorem prepared_output_accounts_for_every_finding:
  "let r = validate_and_prepare_review_output digest out d (Some sg) in
     length (lro_inline_findings (vr_output r)) + length (lro_summary_findings (vr_output r)) +
       length (vr_deduplicated_finding_ids r) =
     length (sga_findings sg) + length (lro_inline_findings out) + length (lro_summary_findings out) \<and>
     vr_downgraded_inline_finding_ids r = map rf_id
       (filter (\<lambda>f. \<not> is_changed_line_finding f (changed_line_index d))
         (map semgrep_to_review_finding (sga_findings sg) @ lro_inline_findings out))"
proof -
  let ?c = "map semgrep_to_review_finding (sga_findings sg) @ lro_inline_findings out"
  let ?P = "\<lambda>f. is_changed_line_finding f (changed_line_index d)"
  let ?inl = "dedupe_findings digest [] (filter ?P ?c)"
  let ?sum = "dedupe_findings digest (fst ?inl) (map summary_version (filter (\<lambda>f. \<not> ?P f) ?c) @ lro_summary_findings out)"
  have "length (fst ?inl) + length (snd ?inl) + (length (fst ?sum) + length (snd ?sum)) =
      length (filter ?P ?c) + length (filter (\<lambda>f. \<not> ?P f) ?c) + length (lro_summary_findings out)"
    unfolding length_dedupe_findings by simp
  with sum_length_filter_compl [of ?P ?c] show ?thesis
    by (simp add: validate_and_prepare_review_output_def Let_def split_candidates_eq case_prod_beta
        del: filter_append map_append)
qed

definition preferred_over :: "ReviewFinding \<Rightarrow> ReviewFinding \<Rightarrow> bool" where
  "preferred_over s f \<longleftrightarrow> (rf_source f = ''semgrep'' \<longrightarrow> rf_source s = ''semgrep'') \<and>
     ((rf_source f = ''semgrep'' \<longleftrightarrow> rf_source s = ''semgrep'') \<longrightarrow> \<not> float_gt (rf_confidence f) (rf_confidence s))"

lemma preferred_over_iff: "preferred_over s f \<longleftrightarrow> \<not> should_replace s f"
  by (auto simp: preferred_over_def should_replace_def)

text \<open>The survivor of a group of duplicates is its best member: it is a Semgrep finding when the group
  has one, and no other finding of its rank in the group is more confident.\<close>

theorem dedupe_survivor_is_preferred:
  assumes "\<forall>f \<in> set findings. unit_interval (rf_confidence f)"
    and "s \<in> set (fst (dedupe_findings digest existing findings))"
  shows "\<exists>k. s = survivor (group_of digest findings k) \<and> group_of digest findings k \<noteq> [] \<and>
     (\<forall>f \<in> set (group_of digest findings k). preferred_over s f)"
proof -
  from assms(2) obtain k where k: "k \<in> set (new_keys digest existing findings)"
    "s = survivor (group_of digest findings k)" by (auto simp: fst_dedupe_findings)
  from group_of_not_Nil [OF k(1)] have ne: "group_of digest findings k \<noteq> []" .
  have "\<forall>f \<in> set (group_of digest findings k). unit_interval (rf_confidence f)"
    using assms(1) by (simp add: group_of_def)
  from survivor_best [OF ne this] k ne show ?thesis unfolding preferred_over_iff by blast
qed

definition sample_duplicates :: "ReviewFinding list" where
  "sample_duplicates = [sample_finding, sample_finding\<lparr>rf_id := ''f2'', rf_confidence := Fin 1\<rparr>]"

theorem dedupe_survivor_is_preferred_witness:
  "\<exists>k. survivor sample_duplicates = survivor (group_of (\<lambda>t. t) sample_duplicates k) \<and>
     group_of (\<lambda>t. t) sample_duplicates k \<noteq> [] \<and>
     (\<forall>f \<in> set (group_of (\<lambda>t. t) sample_duplicates k). preferred_over (survivor sample_duplicates) f)"
proof (rule dedupe_survivor_is_preferred)
  show "\<forall>f \<in> set sample_duplicates. unit_interval (rf_confidence f)"
    by (simp add: sample_duplicates_def sample_finding_def unit_interval_def)
  let ?k = "cross_source_key (\<lambda>t. t) sample_finding"
  have "\<forall>f \<in> set sample_duplicates. cross_source_key (\<lambda>t. t) f = ?k"
    by (simp add: sample_duplicates_def cross_source_key_def finding_line_def)
  then have "group_of (\<lambda>t. t) sample_duplicates ?k = sample_duplicates"
    by (simp add: group_of_def filter_id_conv)
  moreover have "sample_finding \<in> set sample_duplicates" by (simp add: sample_duplicates_def)
  then have "?k \<in> set (new_keys (\<lambda>t. t) [] sample_duplicates)" by (simp add: set_new_keys)
  ultimately show "survivor sample_duplicates \<in> set (fst (dedupe_findings (\<lambda>t. t) [] sample_duplicates))"
    unfolding fst_dedupe_findings set_map by (metis image_eqI)
qed

section \<open>The repair protocol and the contract of the result\<close>

lemma repair_input_not_Nil: "repair_input raw es \<noteq> []"
  by (simp add: repair_input_def or_else_def)

lemma repair_once_Inr:
  "repair_once repair sent = Inr out \<Longrightarrow>
     \<exists>response. repair sent = Inr response \<and> LlmReviewOutput_from_mapping (sr_content response) = Inr out"
  by (auto simp: repair_once_def split: sum.splits llm_error.splits)

lemma repair_once_Inl:
  "repair_once repair sent = Inl e \<Longrightarrow> \<exists>m es. e = LlmReviewOutputValidationError m es \<and> es \<noteq> []"
  using LlmReviewOutput.rejected_reports
  by (fastforce simp: repair_once_def split: sum.splits llm_error.splits)

definition protocol_ok ::
  "(string \<Rightarrow> string) \<Rightarrow> (llm_error + LLMStructuredResponse) \<Rightarrow> (string \<Rightarrow> llm_error + LLMStructuredResponse) \<Rightarrow>
   DiffArtifact \<Rightarrow> SemgrepArtifact option \<Rightarrow> llm_error + ReviewOutputValidationResult \<Rightarrow> string list \<Rightarrow> bool" where
  "protocol_ok digest first repair d sg result sent \<longleftrightarrow>
     length sent \<le> 1 \<and> [] \<notin> set sent \<and>
     (case result of
        Inr r \<Rightarrow> (\<exists>response out. (if sent = [] then first else repair (hd sent)) = Inr response \<and>
            LlmReviewOutput_from_mapping (sr_content response) = Inr out \<and>
            r = (validate_and_prepare_review_output digest out d sg)\<lparr>vr_repaired := sent \<noteq> []\<rparr>)
      | Inl e \<Rightarrow> if sent = [] then first = Inl e \<and> (\<forall>m raw. e \<noteq> LLMInvalidJsonError m raw)
                 else \<exists>m es. e = LlmReviewOutputValidationError m es \<and> es \<noteq> [])"

lemma protocol_repaired:
  assumes "x \<noteq> []"
  shows "protocol_ok digest first repair d sg (case repair_once repair x of Inl e \<Rightarrow> Inl e
     | Inr output \<Rightarrow> Inr ((validate_and_prepare_review_output digest output d sg)\<lparr>vr_repaired := True\<rparr>)) [x]"
  using assms repair_once_Inr [of repair x] repair_once_Inl [of repair x]
  by (cases "repair_once repair x") (auto simp: protocol_ok_def)

text \<open>C31: The repair protocol: at most one repair request is sent, never an empty one; a result comes
  from the first response, or from the repair response when one was requested (and is then marked
  repaired), and that response passed the contract; an error without a repair request is the client's
  own error, unchanged and not an invalid-JSON error; an error after a repair request is always a
  validation error that carries at least one message.\<close>

theorem review_output_repaired_at_most_once:
  "case complete_validated_review_output digest first repair d sg of
     (result, sent) \<Rightarrow> protocol_ok digest first repair d sg result sent"
proof (cases first)
  case (Inl e)
  show ?thesis
  proof (cases "\<exists>m raw. e = LLMInvalidJsonError m raw")
    case True
    with Inl show ?thesis
      by (auto simp: complete_validated_review_output_def Let_def protocol_repaired repair_input_not_Nil)
  next
    case False
    with Inl show ?thesis
      by (cases e) (auto simp: complete_validated_review_output_def protocol_ok_def)
  qed
next
  case (Inr response)
  show ?thesis
  proof (cases "LlmReviewOutput_from_mapping (sr_content response)")
    case (Inl e)
    with Inr show ?thesis
      by (auto simp: complete_validated_review_output_def Let_def protocol_repaired repair_input_not_Nil)
  next
    case (Inr out)
    with \<open>first = Inr response\<close> show ?thesis
      by (auto simp: complete_validated_review_output_def protocol_ok_def)
  qed
qed

lemma semgrep_category_known: "semgrep_category m \<in> set FINDING_CATEGORIES"
  by (auto simp: semgrep_category_def FINDING_CATEGORIES_def split: json.split)

definition excerpt_visible :: "SemgrepFinding \<Rightarrow> bool" where
  \<comment> \<open>the matched lines are empty (the message stands in) or hold a visible character\<close>
  "excerpt_visible f \<longleftrightarrow> sgf_lines f = [] \<or> nonblank (sgf_lines f)"

lemma semgrep_to_review_finding_ok:
  "ok_semgrep_finding f \<Longrightarrow> excerpt_visible f \<Longrightarrow> ok_review_finding (semgrep_to_review_finding f)"
  using semgrep_category_known [of "sgf_metadata f"]
  by (auto simp: semgrep_to_review_finding_def Let_def ok_review_finding_def ok_finding_evidence_def
      ok_semgrep_finding_def ok_line_range_def ok_position_def FINDING_SOURCES_def semgrep_confidence_def
      unit_interval_def excerpt_visible_def or_else_def)

lemma merge_evidence_ok: "ok_review_finding f \<Longrightarrow> ok_review_finding g \<Longrightarrow> ok_review_finding (merge_evidence f g)"
  using merge_evidence_evidence [of f g]
  by (auto simp: ok_review_finding_def list_all_iff)

lemma summary_version_ok: "ok_review_finding f \<Longrightarrow> ok_review_finding (summary_version f)"
  by (simp add: ok_review_finding_def summary_version_def)

lemma prepared_output_ok:
  assumes out: "ok_LlmReviewOutput out"
    and sg: "\<And>a. sg = Some a \<Longrightarrow> list_all ok_semgrep_finding (sga_findings a) \<and> list_all excerpt_visible (sga_findings a)"
  shows "ok_LlmReviewOutput (vr_output (validate_and_prepare_review_output digest out d sg))"
proof -
  let ?c = "map semgrep_to_review_finding (case sg of Some a \<Rightarrow> sga_findings a | None \<Rightarrow> []) @ lro_inline_findings out"
  have c: "list_all ok_review_finding ?c"
    using sg out semgrep_to_review_finding_ok by (cases sg) (auto simp: list_all_iff ok_LlmReviewOutput_def)
  have "list_all ok_review_finding (fst (dedupe_findings digest ex fs))" if "list_all ok_review_finding fs" for ex fs
    using that merge_evidence_ok by (rule dedupe_findings_pred)
  moreover have "list_all ok_review_finding (filter P ?c)"
    "list_all ok_review_finding (map summary_version (filter P ?c) @ lro_summary_findings out)" for P
    using c out summary_version_ok by (auto simp: list_all_iff ok_LlmReviewOutput_def)
  ultimately show ?thesis
    using out by (simp add: validate_and_prepare_review_output_def Let_def split_candidates_eq case_prod_beta
        ok_LlmReviewOutput_def del: filter_append map_append list_all_append)
qed

text \<open>C32: What complete_validated_review_output returns satisfies the output contract again, after the
  Semgrep findings were added and duplicates were merged: it would be accepted, unchanged, by
  LlmReviewOutput.from_mapping. The Semgrep findings have to satisfy their own contract, and their
  matched lines must not consist of white space only.\<close>

theorem validated_output_satisfies_contract:
  assumes "complete_validated_review_output digest first repair d (Some a) = (Inr r, sent)"
    and "ok_SemgrepArtifact a" and "list_all excerpt_visible (sga_findings a)"
  shows "LlmReviewOutput_from_mapping (enc_LlmReviewOutput (vr_output r)) = Inr (vr_output r)"
proof -
  have "\<exists>out v. LlmReviewOutput_from_mapping v = Inr out \<and>
      vr_output r = vr_output (validate_and_prepare_review_output digest out d (Some a))"
    using assms(1) repair_once_Inr [of repair]
    by (fastforce simp: complete_validated_review_output_def Let_def split: sum.splits llm_error.splits)
  then obtain out v where "LlmReviewOutput_from_mapping v = Inr out"
    and r: "vr_output r = vr_output (validate_and_prepare_review_output digest out d (Some a))" by blast
  then have "ok_LlmReviewOutput out" by (blast dest: LlmReviewOutput.accepted_ok)
  with assms(2,3) show ?thesis
    unfolding r by (intro LlmReviewOutput.roundtrip prepared_output_ok) (auto simp: ok_SemgrepArtifact_def)
qed

definition sample_response :: LLMStructuredResponse where
  "sample_response = \<lparr> sr_content = enc_LlmReviewOutput sample_output, sr_raw_content = [], sr_model = ''m'',
     sr_usage = \<lparr> tu_input_tokens = 1, tu_output_tokens = 1, tu_total_tokens = 2 \<rparr>, sr_attempts = 1,
     sr_finish_reason = None \<rparr>"

definition sample_diff :: DiffArtifact where
  "sample_diff = \<lparr> da_schema_version = ''diff-artifact/v1'', da_review_run_id = ''r'', da_repository_full_name = ''o/n'',
     da_pull_request_number = 1, da_base_sha = ''b'', da_head_sha = ''h'',
     da_files = [\<lparr> cfa_path = ''a.py'', cfa_previous_path = None, cfa_status = ''modified'', cfa_additions = 2,
        cfa_deletions = 0, cfa_language = None, cfa_patch = None, cfa_head_content_sha256 = None,
        cfa_size_bytes = None, cfa_changed_new_lines = [3, 4], cfa_hunks = [] \<rparr>],
     da_skipped_files = [] \<rparr>"

definition sample_semgrep :: SemgrepArtifact where
  "sample_semgrep = \<lparr> sga_schema_version = SEMGREP_ARTIFACT_SCHEMA_VERSION, sga_review_run_id = ''r'',
     sga_tool_version = None, sga_exit_code = 0, sga_duration_ms = 1,
     sga_findings = [\<lparr> sgf_id = ''s1'', sgf_rule_id = ''rule'', sgf_path = ''a.py'',
        sgf_start = \<lparr> ps_line = 3, ps_column = 0, ps_offset = None \<rparr>,
        sgf_end = \<lparr> ps_line = 4, ps_column = 0, ps_offset = None \<rparr>, sgf_severity = ''high'',
        sgf_source_severity = ''ERROR'', sgf_message = ''msg'', sgf_fingerprint = None, sgf_lines = [],
        sgf_metadata = [], sgf_fix = None \<rparr>],
     sga_errors = [], sga_scanned_paths = [], sga_skipped_paths = [] \<rparr>"

lemma sample_semgrep_ok: "ok_SemgrepArtifact sample_semgrep"
proof -
  have texts: "nonblank ''s1''" "nonblank ''rule''" "nonblank ''a.py''" "nonblank ''ERROR''" "nonblank ''msg''"
    "nonblank ''r''" by code_simp+
  show ?thesis
    by (simp add: sample_semgrep_def ok_SemgrepArtifact_def ok_semgrep_finding_def ok_position_def SEVERITIES_def
        texts del: nonblank_Cons)
qed

theorem validated_output_satisfies_contract_witness:
  "\<exists>r sent. complete_validated_review_output (\<lambda>t. t) (Inr sample_response) (\<lambda>s. Inl (LLMTimeoutError ''t''))
       sample_diff (Some sample_semgrep) = (Inr r, sent) \<and>
     LlmReviewOutput_from_mapping (enc_LlmReviewOutput (vr_output r)) = Inr (vr_output r)"
proof -
  have "LlmReviewOutput_from_mapping (sr_content sample_response) = Inr sample_output"
    unfolding sample_response_def by (simp add: LlmReviewOutput.roundtrip sample_output_ok)
  then obtain r where run: "complete_validated_review_output (\<lambda>t. t) (Inr sample_response)
      (\<lambda>s. Inl (LLMTimeoutError ''t'')) sample_diff (Some sample_semgrep) = (Inr r, [])"
    by (simp add: complete_validated_review_output_def)
  have "list_all excerpt_visible (sga_findings sample_semgrep)"
    by (simp add: sample_semgrep_def excerpt_visible_def)
  from run validated_output_satisfies_contract [OF run sample_semgrep_ok this] show ?thesis by blast
qed

end
