(* ===== verification/Evaluation.thy ===== *)
theory Evaluation
  imports OutputValidation
begin

text \<open>
  review/evaluation.py: a frozen model response is validated, prepared and checked against the
  expectations of a fixture; every violated expectation is one message.
\<close>

definition repr_char :: "char \<Rightarrow> char \<Rightarrow> string" where
  \<comment> \<open>one character of \<open>repr(text)\<close>, given the quote\<close>
  "repr_char q c =
     (let n = (of_char c :: nat) in
      if c = q \<or> c = CHR 0x5C then [CHR 0x5C, c]
      else if n = 9 then [CHR 0x5C, CHR ''t''] else if n = 10 then [CHR 0x5C, CHR ''n'']
      else if n = 13 then [CHR 0x5C, CHR ''r'']
      else if n < 32 \<or> (127 \<le> n \<and> n < 161) \<or> n = 173
        then [CHR 0x5C, CHR ''x'', ''0123456789abcdef'' ! (n div 16), ''0123456789abcdef'' ! (n mod 16)]
      else [c])"

definition py_repr :: "string \<Rightarrow> string" where
  "py_repr s =
     (let q = (if CHR 0x27 \<in> set s \<and> CHR 0x22 \<notin> set s then CHR 0x22 else CHR 0x27)
      in [q] @ concat (map (repr_char q) s) @ [q])"

definition SEVERITY_RANK :: "string \<Rightarrow> nat option" where
  "SEVERITY_RANK = map_of [(''info'', 0), (''low'', 1), (''medium'', 2), (''high'', 3), (''critical'', 4)]"

record LlmEvaluationExpectations =
  ex_prompt_id :: string
  ex_prompt_version :: string
  ex_schema_version :: string
  ex_max_inline_comments :: int
  ex_max_severity :: string
  ex_required_semgrep_finding_ids :: "string list"

definition eval_read_str :: "obj \<Rightarrow> string \<Rightarrow> value_error + string" where
  "eval_read_str value key = (case obj_get value key of
      JStr s \<Rightarrow> if s \<noteq> [] then Inr s else Inl (ValueError (key @ '' must be a non-empty string''))
    | _ \<Rightarrow> Inl (ValueError (key @ '' must be a non-empty string'')))"

definition eval_read_int :: "obj \<Rightarrow> string \<Rightarrow> value_error + int" where
  "eval_read_int value key = (case obj_get value key of
      JInt i \<Rightarrow> if i \<ge> 0 then Inr i else Inl (ValueError (key @ '' must be a non-negative integer''))
    | _ \<Rightarrow> Inl (ValueError (key @ '' must be a non-negative integer'')))"

fun texts_of :: "json list \<Rightarrow> string list option" where
  \<comment> \<open>Some, when all items are texts\<close>
  "texts_of [] = Some []"
| "texts_of (j # js) = (case j of JStr s \<Rightarrow> map_option ((#) s) (texts_of js) | _ \<Rightarrow> None)"

definition LlmEvaluationExpectations_from_mapping :: "obj \<Rightarrow> value_error + LlmEvaluationExpectations" where
  "LlmEvaluationExpectations_from_mapping value =
     (let given = (case map_of value ''requiredSemgrepFindingIds'' of None \<Rightarrow> JList [] | Some j \<Rightarrow> j)
      in case (case given of JList js \<Rightarrow> texts_of js | _ \<Rightarrow> None) of
           None \<Rightarrow> Inl (ValueError ''requiredSemgrepFindingIds must be an array of strings'')
         | Some required_ids \<Rightarrow>
             bind_sum (eval_read_str value ''promptId'') (\<lambda>pid.
             bind_sum (eval_read_str value ''promptVersion'') (\<lambda>pv.
             bind_sum (eval_read_str value ''schemaVersion'') (\<lambda>sv.
             bind_sum (eval_read_int value ''maxInlineComments'') (\<lambda>n.
             bind_sum (eval_read_str value ''maxSeverity'') (\<lambda>sev.
               Inr \<lparr> ex_prompt_id = pid, ex_prompt_version = pv, ex_schema_version = sv,
                     ex_max_inline_comments = n, ex_max_severity = sev,
                     ex_required_semgrep_finding_ids = required_ids \<rparr>))))))"

section \<open>The checks\<close>

definition mismatch :: "string \<Rightarrow> string \<Rightarrow> string \<Rightarrow> string list" where
  "mismatch name actual expected = (if actual \<noteq> expected
     then [name @ '' '' @ py_repr actual @ '' does not match expected '' @ py_repr expected] else [])"

definition check_prompt_metadata :: "LlmReviewOutput \<Rightarrow> LlmEvaluationExpectations \<Rightarrow> string list" where
  "check_prompt_metadata out ex =
     mismatch ''promptId'' (lro_prompt_id out) (ex_prompt_id ex) @
     mismatch ''promptVersion'' (lro_prompt_version out) (ex_prompt_version ex) @
     mismatch ''schemaVersion'' (lro_schema_version out) (ex_schema_version ex)"

definition check_changed_line_inline_findings :: "ReviewOutputValidationResult \<Rightarrow> string list" where
  "check_changed_line_inline_findings r =
     (if vr_downgraded_inline_finding_ids r = [] then []
      else [''inline findings must target changed lines; downgraded: '' @ join '', '' (vr_downgraded_inline_finding_ids r)])"

definition check_comment_count :: "ReviewOutputValidationResult \<Rightarrow> LlmEvaluationExpectations \<Rightarrow> string list" where
  "check_comment_count r ex =
     (let actual = int (length (lro_inline_findings (vr_output r)))
      in if actual \<le> ex_max_inline_comments ex then []
         else [''inline comment count '' @ str_of_int actual @ '' exceeds max '' @ str_of_int (ex_max_inline_comments ex)])"

definition all_findings :: "ReviewOutputValidationResult \<Rightarrow> ReviewFinding list" where
  "all_findings r = lro_inline_findings (vr_output r) @ lro_summary_findings (vr_output r)"

definition check_severity_restraint :: "ReviewOutputValidationResult \<Rightarrow> LlmEvaluationExpectations \<Rightarrow> string list" where
  "check_severity_restraint r ex =
     (case SEVERITY_RANK (ex_max_severity ex) of
        None \<Rightarrow> [''unknown max severity '' @ py_repr (ex_max_severity ex)]
      | Some max_rank \<Rightarrow> concat (map (\<lambda>f. case SEVERITY_RANK (rf_severity f) of
            None \<Rightarrow> [rf_id f @ '' has unknown severity '' @ py_repr (rf_severity f)]
          | Some rank \<Rightarrow> if rank > max_rank
              then [rf_id f @ '' severity '' @ py_repr (rf_severity f) @ '' exceeds fixture max '' @ py_repr (ex_max_severity ex)]
              else []) (all_findings r)))"

fun check_evidence_from :: "nat \<Rightarrow> string \<Rightarrow> ReviewFinding list \<Rightarrow> string list" where
  "check_evidence_from i label [] = []"
| "check_evidence_from i label (f # fs) =
     (if rf_evidence f = [] then [label @ ''['' @ str_of_nat i @ ''] '' @ rf_id f @ '' has no evidence''] else []) @
     check_evidence_from (Suc i) label fs"

definition check_evidence :: "ReviewFinding list \<Rightarrow> string \<Rightarrow> string list" where
  "check_evidence findings label = check_evidence_from 0 label findings"

definition findings_by_id :: "ReviewOutputValidationResult \<Rightarrow> string \<Rightarrow> ReviewFinding option" where
  \<comment> \<open>a dictionary: the last finding of an identifier\<close>
  "findings_by_id r = foldl (\<lambda>m f. m(rf_id f \<mapsto> f)) Map.empty (all_findings r)"

definition required_ids :: "SemgrepArtifact option \<Rightarrow> LlmEvaluationExpectations \<Rightarrow> string list" where
  "required_ids sg ex = sort (remdups
     ((case sg of Some a \<Rightarrow> map sgf_id (sga_findings a) | None \<Rightarrow> []) @ ex_required_semgrep_finding_ids ex))"

definition check_semgrep_preservation ::
  "ReviewOutputValidationResult \<Rightarrow> LlmEvaluationExpectations \<Rightarrow> SemgrepArtifact option \<Rightarrow> string list" where
  "check_semgrep_preservation r ex sg = concat (map (\<lambda>i. case findings_by_id r i of
       None \<Rightarrow> [''Semgrep finding '' @ py_repr i @ '' was not preserved'']
     | Some f \<Rightarrow> if rf_source f \<noteq> ''semgrep''
         then [''Semgrep finding '' @ py_repr i @ '' was preserved with source '' @ py_repr (rf_source f)] else [])
     (required_ids sg ex))"

record LlmEvaluationResult =
  er_prepared_output :: ReviewOutputValidationResult
  er_errors :: "string list"

definition passed :: "LlmEvaluationResult \<Rightarrow> bool" where
  "passed r \<longleftrightarrow> er_errors r = []"

definition evaluate_frozen_llm_review ::
  "(string \<Rightarrow> string) \<Rightarrow> obj \<Rightarrow> DiffArtifact \<Rightarrow> LlmEvaluationExpectations \<Rightarrow> SemgrepArtifact option \<Rightarrow>
   contract_error + LlmEvaluationResult" where
  "evaluate_frozen_llm_review digest frozen d ex sg =
     bind_sum (LlmReviewOutput_from_mapping frozen) (\<lambda>out.
       let prepared = validate_and_prepare_review_output digest out d sg
       in Inr \<lparr> er_prepared_output = prepared,
                er_errors = check_prompt_metadata out ex @ check_changed_line_inline_findings prepared @
                  check_comment_count prepared ex @ check_severity_restraint prepared ex @
                  check_evidence (lro_inline_findings (vr_output prepared)) ''inlineFindings'' @
                  check_evidence (lro_summary_findings (vr_output prepared)) ''summaryFindings'' @
                  check_semgrep_preservation prepared ex sg \<rparr>)"

section \<open>When an evaluation passes\<close>

lemma check_evidence_from_Nil:
  "check_evidence_from i label fs = [] \<longleftrightarrow> (\<forall>f \<in> set fs. rf_evidence f \<noteq> [])"
  by (induction fs arbitrary: i) auto

lemma check_severity_Nil:
  "check_severity_restraint r ex = [] \<longleftrightarrow>
     (\<exists>m. SEVERITY_RANK (ex_max_severity ex) = Some m \<and>
        (\<forall>f \<in> set (all_findings r). \<exists>k \<le> m. SEVERITY_RANK (rf_severity f) = Some k))"
proof (cases "SEVERITY_RANK (ex_max_severity ex)")
  case None
  then show ?thesis by (simp add: check_severity_restraint_def)
next
  case (Some m)
  then show ?thesis
    by (simp add: check_severity_restraint_def, intro ball_cong refl) (auto split: option.splits)
qed

lemma set_required_ids:
  "set (required_ids sg ex) = (case sg of Some a \<Rightarrow> sgf_id ` set (sga_findings a) | None \<Rightarrow> {}) \<union>
     set (ex_required_semgrep_finding_ids ex)"
  by (simp add: required_ids_def split: option.split)

lemma check_semgrep_Nil:
  "check_semgrep_preservation r ex sg = [] \<longleftrightarrow>
     (\<forall>i \<in> set (required_ids sg ex). \<exists>f. findings_by_id r i = Some f \<and> rf_source f = ''semgrep'')"
  by (force simp: check_semgrep_preservation_def split: option.splits if_splits)

lemma findings_by_id_last:
  "findings_by_id r i = (case filter (\<lambda>f. rf_id f = i) (all_findings r) of [] \<Rightarrow> None | fs \<Rightarrow> Some (last fs))"
proof -
  have "foldl (\<lambda>m f. m(rf_id f \<mapsto> f)) Map.empty fs i =
      (case filter (\<lambda>f. rf_id f = i) fs of [] \<Rightarrow> None | gs \<Rightarrow> Some (last gs))" for fs
    by (induction fs rule: rev_induct) (auto split: list.splits)
  then show ?thesis by (simp add: findings_by_id_def)
qed

text \<open>A frozen response passes its evaluation exactly when it satisfies the output contract and: prompt
  identifier, prompt version and schema version are the expected ones; no inline finding, of the model or of
  Semgrep, lies off the changed lines; there are not more inline findings than allowed; the maximal severity
  is a known one and no finding exceeds it; every finding has evidence; and every Semgrep finding of the
  artifact and every required identifier is still there, the last finding of that identifier being Semgrep's.\<close>

theorem evaluation_passes_iff:
  "(\<exists>res. evaluate_frozen_llm_review digest frozen d ex sg = Inr res \<and> passed res) \<longleftrightarrow>
   (\<exists>out. LlmReviewOutput_from_mapping frozen = Inr out \<and>
     (let r = validate_and_prepare_review_output digest out d sg; fs = all_findings r in
      lro_prompt_id out = ex_prompt_id ex \<and> lro_prompt_version out = ex_prompt_version ex \<and>
      lro_schema_version out = ex_schema_version ex \<and>
      vr_downgraded_inline_finding_ids r = [] \<and>
      int (length (lro_inline_findings (vr_output r))) \<le> ex_max_inline_comments ex \<and>
      (\<exists>m. SEVERITY_RANK (ex_max_severity ex) = Some m \<and>
         (\<forall>f \<in> set fs. \<exists>k \<le> m. SEVERITY_RANK (rf_severity f) = Some k)) \<and>
      (\<forall>f \<in> set fs. rf_evidence f \<noteq> []) \<and>
      (\<forall>i \<in> (case sg of Some a \<Rightarrow> sgf_id ` set (sga_findings a) | None \<Rightarrow> {}) \<union> set (ex_required_semgrep_finding_ids ex).
         \<exists>f. filter (\<lambda>f. rf_id f = i) fs \<noteq> [] \<and> f = last (filter (\<lambda>f. rf_id f = i) fs) \<and> rf_source f = ''semgrep'')))"
proof (cases "LlmReviewOutput_from_mapping frozen")
  case (Inl e)
  then show ?thesis by (simp add: evaluate_frozen_llm_review_def)
next
  case (Inr out)
  let ?r = "validate_and_prepare_review_output digest out d sg"
  have last: "(\<exists>f. findings_by_id ?r i = Some f \<and> rf_source f = ''semgrep'') \<longleftrightarrow>
      (\<exists>f. filter (\<lambda>f. rf_id f = i) (all_findings ?r) \<noteq> [] \<and> f = last (filter (\<lambda>f. rf_id f = i) (all_findings ?r)) \<and>
         rf_source f = ''semgrep'')" for i
    by (auto simp: findings_by_id_last split: list.split)
  have meta: "check_prompt_metadata out ex = [] \<longleftrightarrow> lro_prompt_id out = ex_prompt_id ex \<and>
      lro_prompt_version out = ex_prompt_version ex \<and> lro_schema_version out = ex_schema_version ex"
    by (simp add: check_prompt_metadata_def mismatch_def)
  have changed: "check_changed_line_inline_findings ?r = [] \<longleftrightarrow> vr_downgraded_inline_finding_ids ?r = []"
    by (simp add: check_changed_line_inline_findings_def)
  have count: "check_comment_count ?r ex = [] \<longleftrightarrow>
      int (length (lro_inline_findings (vr_output ?r))) \<le> ex_max_inline_comments ex"
    by (simp add: check_comment_count_def Let_def)
  have evidence: "check_evidence (lro_inline_findings (vr_output ?r)) l = [] \<and>
      check_evidence (lro_summary_findings (vr_output ?r)) l' = [] \<longleftrightarrow>
      (\<forall>f \<in> set (all_findings ?r). rf_evidence f \<noteq> [])" for l l'
    by (auto simp: check_evidence_def check_evidence_from_Nil all_findings_def)
  have "(\<exists>res. evaluate_frozen_llm_review digest frozen d ex sg = Inr res \<and> passed res) \<longleftrightarrow>
      check_prompt_metadata out ex = [] \<and> check_changed_line_inline_findings ?r = [] \<and> check_comment_count ?r ex = [] \<and>
      check_severity_restraint ?r ex = [] \<and>
      (check_evidence (lro_inline_findings (vr_output ?r)) ''inlineFindings'' = [] \<and>
       check_evidence (lro_summary_findings (vr_output ?r)) ''summaryFindings'' = []) \<and>
      check_semgrep_preservation ?r ex sg = []"
    by (simp add: evaluate_frozen_llm_review_def Let_def passed_def Inr)
  then show ?thesis
    unfolding meta changed count evidence check_severity_Nil check_semgrep_Nil set_required_ids last Inr Let_def
    by simp
qed

theorem evaluation_passes_iff_witness:
  "\<not> (\<exists>res. evaluate_frozen_llm_review (\<lambda>t. t) [] sample_diff
       \<lparr> ex_prompt_id = ''p'', ex_prompt_version = ''v'', ex_schema_version = ''s'', ex_max_inline_comments = 1,
         ex_max_severity = ''low'', ex_required_semgrep_finding_ids = [] \<rparr> None = Inr res \<and> passed res)"
proof -
  have "\<exists>e. LlmReviewOutput_from_mapping [] = Inl e"
    by (simp add: LlmReviewOutput_from_mapping_def raise_if_errors_def LlmReviewOutput_reader_def run_reader
        primitive_readers case_prod_beta)
  then show ?thesis unfolding evaluation_passes_iff by auto
qed

end
