(* ===== verification/SemgrepNormalizer.thy ===== *)
theory SemgrepNormalizer
  imports ContractsSemgrep
begin

text \<open>
  semgrep/normalizer.py: raw Semgrep JSON, or the failure of the process, becomes the dictionary of the
  Semgrep artifact contract. \<open>digest\<close> is the hexadecimal SHA-256 of a text's UTF-8 encoding. The dictionary is
  built as the JSON object the code builds; that it passes the contract is the main theorem.
\<close>

section \<open>Reading loosely typed values\<close>

definition norm_read_list :: "json \<Rightarrow> json list" where
  "norm_read_list value = (case value of JList js \<Rightarrow> js | _ \<Rightarrow> [])"

definition norm_read_str :: "json \<Rightarrow> string \<Rightarrow> string" where
  "norm_read_str value dflt =
     (case value of JStr s \<Rightarrow> if nonblank s then s else dflt | _ \<Rightarrow> dflt)"

definition norm_read_optional_str :: "json \<Rightarrow> string option" where
  "norm_read_optional_str value =
     (case value of JStr s \<Rightarrow> if nonblank s then Some s else None | _ \<Rightarrow> None)"

definition norm_positive_int :: "json \<Rightarrow> int \<Rightarrow> int" where
  "norm_positive_int value dflt = (case value of JInt i \<Rightarrow> if i > 0 then i else dflt | _ \<Rightarrow> dflt)"

definition norm_non_negative_int :: "json \<Rightarrow> int \<Rightarrow> int" where
  "norm_non_negative_int value dflt = (case value of JInt i \<Rightarrow> if i \<ge> 0 then i else dflt | _ \<Rightarrow> dflt)"

definition norm_nullable_non_negative_int :: "json \<Rightarrow> int option" where
  "norm_nullable_non_negative_int value = (case value of JInt i \<Rightarrow> if i \<ge> 0 then Some i else None | _ \<Rightarrow> None)"

definition mapping_or_empty :: "json \<Rightarrow> obj" where
  \<comment> \<open>\<open>value if isinstance(value, Mapping) else {}\<close>\<close>
  "mapping_or_empty value = (case value of JObj v \<Rightarrow> v | _ \<Rightarrow> [])"

definition bounded_message :: "string \<Rightarrow> string" where
  \<comment> \<open>called with \<open>limit\<close> = 800 only\<close>
  "bounded_message value = take 800 (strip value)"

section \<open>Severities\<close>

definition SEMGREP_FINDING_EXIT_CODES :: "int list" where
  "SEMGREP_FINDING_EXIT_CODES = [0, 1]"

definition SEVERITY_MAP :: "string \<Rightarrow> string option" where
  "SEVERITY_MAP = map_of [(''CRITICAL'', ''critical''), (''HIGH'', ''high''), (''ERROR'', ''high''),
     (''MEDIUM'', ''medium''), (''WARNING'', ''medium''), (''LOW'', ''low''), (''INFO'', ''info''),
     (''EXPERIMENT'', ''info''), (''INVENTORY'', ''info'')]"

definition ERROR_SEVERITY_MAP :: "string \<Rightarrow> string option" where
  "ERROR_SEVERITY_MAP = map_of [(''error'', ''error''), (''warn'', ''warning''), (''warning'', ''warning''),
     (''info'', ''info'')]"

definition normalize_severity :: "string \<Rightarrow> string" where
  "normalize_severity value = (case SEVERITY_MAP (upper value) of Some s \<Rightarrow> s | None \<Rightarrow> ''info'')"

section \<open>Items\<close>

definition normalize_position :: "json \<Rightarrow> json" where
  "normalize_position value =
     (let item = mapping_or_empty value in JObj [
       (''line'', JInt (norm_positive_int (obj_get item ''line'') 1)),
       (''column'', JInt (norm_non_negative_int (obj_get item ''col'') 0)),
       (''offset'', opt_json JInt (norm_nullable_non_negative_int (obj_get item ''offset'')))])"

definition finding_identity :: "string \<Rightarrow> string \<Rightarrow> int \<Rightarrow> int \<Rightarrow> string \<Rightarrow> string option \<Rightarrow> string" where
  "finding_identity rule_id path start_line end_line lines fingerprint =
     rule_id @ [CHR 0x00] @ path @ [CHR 0x00] @ str_of_int start_line @ [CHR 0x00] @ str_of_int end_line @ [CHR 0x00] @
     (case fingerprint of Some f \<Rightarrow> or_else f lines | None \<Rightarrow> lines)"

definition finding_id ::
  "(string \<Rightarrow> string) \<Rightarrow> string \<Rightarrow> string \<Rightarrow> int \<Rightarrow> int \<Rightarrow> string \<Rightarrow> string option \<Rightarrow> string" where
  "finding_id digest rule_id path start_line end_line lines fingerprint =
     ''semgrep:'' @ rule_id @ '':'' @ path @ '':'' @ str_of_int start_line @ '':'' @
     take 12 (digest (finding_identity rule_id path start_line end_line lines fingerprint))"

definition position_line :: "json \<Rightarrow> int" where
  \<comment> \<open>\<open>start["line"]\<close> of a normalised position\<close>
  "position_line p = (case obj_get (mapping_or_empty p) ''line'' of JInt i \<Rightarrow> i)"

definition normalize_finding :: "(string \<Rightarrow> string) \<Rightarrow> json \<Rightarrow> json" where
  "normalize_finding digest value =
     (let item = mapping_or_empty value;
          extra = mapping_or_empty (obj_get item ''extra'');
          rule_id = norm_read_str (obj_get item ''check_id'') ''unknown_rule'';
          path = norm_read_str (obj_get item ''path'') ''unknown'';
          start = normalize_position (obj_get item ''start'');
          stop = normalize_position (obj_get item ''end'');
          lines = norm_read_str (obj_get extra ''lines'') [];
          fingerprint = norm_read_optional_str (obj_get extra ''fingerprint'')
      in JObj [
       (''id'', JStr (finding_id digest rule_id path (position_line start) (position_line stop) lines fingerprint)),
       (''ruleId'', JStr rule_id),
       (''path'', JStr path),
       (''start'', start),
       (''end'', stop),
       (''severity'', JStr (normalize_severity (norm_read_str (obj_get extra ''severity'') ''INFO''))),
       (''sourceSeverity'', JStr (norm_read_str (obj_get extra ''severity'') ''INFO'')),
       (''message'', JStr (norm_read_str (obj_get extra ''message'') ''Semgrep finding'')),
       (''fingerprint'', opt_json JStr fingerprint),
       (''lines'', JStr lines),
       (''metadata'', JObj (mapping_or_empty (obj_get extra ''metadata''))),
       (''fix'', opt_json JStr (norm_read_optional_str (obj_get extra ''fix'')))])"

fun first_some :: "'a option list \<Rightarrow> 'a \<Rightarrow> 'a" where
  \<comment> \<open>\<open>a or b or ... or dflt\<close> on values that are None or truthy\<close>
  "first_some [] d = d"
| "first_some (x # xs) d = (case x of Some a \<Rightarrow> a | None \<Rightarrow> first_some xs d)"

definition normalize_error :: "json \<Rightarrow> json" where
  "normalize_error value =
     (let item = mapping_or_empty value;
          error_type = norm_read_str (obj_get item ''type'') [];
          code = or_else error_type (norm_read_str (obj_get item ''code'') ''semgrep_error'');
          message = first_some (map (\<lambda>k. norm_read_optional_str (obj_get item k)) [''message'', ''long_msg'', ''short_msg''])
                      ''Semgrep reported an error.''
      in JObj [
       (''code'', JStr code),
       (''message'', JStr message),
       (''path'', opt_json JStr (norm_read_optional_str (obj_get item ''path''))),
       (''severity'', JStr (case ERROR_SEVERITY_MAP (lower (norm_read_str (obj_get item ''level'') ''error'')) of
           Some s \<Rightarrow> s | None \<Rightarrow> ''error''))])"

definition normalize_skipped_path :: "json \<Rightarrow> json" where
  "normalize_skipped_path value =
     (let item = mapping_or_empty value in JObj [
       (''path'', JStr (norm_read_str (obj_get item ''path'') ''unknown'')),
       (''reason'', JStr (norm_read_str (obj_get item ''reason'') ''unknown'')),
       (''detail'', opt_json JStr (norm_read_optional_str (obj_get item ''details'')))])"

definition normalize_paths :: "json \<Rightarrow> json" where
  "normalize_paths value =
     (let item = mapping_or_empty value in JObj [
       (''scanned'', JList (map (\<lambda>p. JStr (norm_read_str p ''unknown'')) (norm_read_list (obj_get item ''scanned'')))),
       (''skipped'', JList (map normalize_skipped_path (norm_read_list (obj_get item ''skipped''))))])"

section \<open>The artifact\<close>

definition process_error :: "string \<Rightarrow> string \<Rightarrow> json" where
  "process_error code message = JObj [(''code'', JStr code), (''message'', JStr message), (''path'', JNull),
     (''severity'', JStr ''error'')]"

definition normalize_semgrep_output ::
  "(string \<Rightarrow> string) \<Rightarrow> string \<Rightarrow> obj \<Rightarrow> int \<Rightarrow> int \<Rightarrow> string \<Rightarrow> obj" where
  "normalize_semgrep_output digest review_run_id semgrep_json exit_code duration_ms stderr =
     (let findings = map (normalize_finding digest) (norm_read_list (obj_get semgrep_json ''results''));
          errors0 = map normalize_error (norm_read_list (obj_get semgrep_json ''errors''));
          paths = normalize_paths (obj_get semgrep_json ''paths'');
          errors1 = (if exit_code \<notin> set SEMGREP_FINDING_EXIT_CODES \<and> errors0 = []
            then [process_error ''process_exit'' (or_else (bounded_message stderr)
                    (''Semgrep exited with status '' @ str_of_int exit_code @ ''.''))]
            else errors0)
      in [
       (''schemaVersion'', JStr SEMGREP_ARTIFACT_SCHEMA_VERSION),
       (''reviewRunId'', JStr review_run_id),
       (''toolVersion'', opt_json JStr (norm_read_optional_str (obj_get semgrep_json ''version''))),
       (''exitCode'', JInt exit_code),
       (''durationMs'', JInt (max duration_ms 0)),
       (''findings'', JList findings),
       (''errors'', JList errors1),
       (''paths'', paths)])"

definition normalize_semgrep_process_failure ::
  "string \<Rightarrow> int \<Rightarrow> int \<Rightarrow> string \<Rightarrow> string \<Rightarrow> string \<Rightarrow> obj" where
  "normalize_semgrep_process_failure review_run_id exit_code duration_ms code message stderr =
     (let detail = bounded_message stderr;
          normalized_message = (if detail \<noteq> [] then message @ '': '' @ detail else message)
      in [
       (''schemaVersion'', JStr SEMGREP_ARTIFACT_SCHEMA_VERSION),
       (''reviewRunId'', JStr review_run_id),
       (''toolVersion'', JNull),
       (''exitCode'', JInt exit_code),
       (''durationMs'', JInt (max duration_ms 0)),
       (''findings'', JList []),
       (''errors'', JList [process_error code normalized_message]),
       (''paths'', JObj [(''scanned'', JList []), (''skipped'', JList [])])])"

section \<open>The records the dictionaries stand for\<close>

text \<open>The normalised values as records of the contract; the dictionaries are exactly their encodings.\<close>

definition position_of :: "json \<Rightarrow> Position" where
  "position_of value = (let item = mapping_or_empty value in
     \<lparr> ps_line = norm_positive_int (obj_get item ''line'') 1,
        ps_column = norm_non_negative_int (obj_get item ''col'') 0,
        ps_offset = norm_nullable_non_negative_int (obj_get item ''offset'') \<rparr>)"

definition finding_of :: "(string \<Rightarrow> string) \<Rightarrow> json \<Rightarrow> SemgrepFinding" where
  "finding_of digest value =
     (let item = mapping_or_empty value;
          extra = mapping_or_empty (obj_get item ''extra'');
          rule_id = norm_read_str (obj_get item ''check_id'') ''unknown_rule'';
          path = norm_read_str (obj_get item ''path'') ''unknown'';
          start = position_of (obj_get item ''start'');
          stop = position_of (obj_get item ''end'');
          lines = norm_read_str (obj_get extra ''lines'') [];
          fingerprint = norm_read_optional_str (obj_get extra ''fingerprint'')
      in \<lparr> sgf_id = finding_id digest rule_id path (ps_line start) (ps_line stop) lines fingerprint,
           sgf_rule_id = rule_id, sgf_path = path, sgf_start = start, sgf_end = stop,
           sgf_severity = normalize_severity (norm_read_str (obj_get extra ''severity'') ''INFO''),
           sgf_source_severity = norm_read_str (obj_get extra ''severity'') ''INFO'',
           sgf_message = norm_read_str (obj_get extra ''message'') ''Semgrep finding'',
           sgf_fingerprint = fingerprint, sgf_lines = lines,
           sgf_metadata = mapping_or_empty (obj_get extra ''metadata''),
           sgf_fix = norm_read_optional_str (obj_get extra ''fix'') \<rparr>)"

definition error_of :: "json \<Rightarrow> SemgrepError" where
  "error_of value = (let item = mapping_or_empty value in
     \<lparr> sge_code = or_else (norm_read_str (obj_get item ''type'') []) (norm_read_str (obj_get item ''code'') ''semgrep_error''),
        sge_message = first_some (map (\<lambda>k. norm_read_optional_str (obj_get item k)) [''message'', ''long_msg'', ''short_msg''])
          ''Semgrep reported an error.'',
        sge_path = norm_read_optional_str (obj_get item ''path''),
        sge_severity = (case ERROR_SEVERITY_MAP (lower (norm_read_str (obj_get item ''level'') ''error'')) of
          Some s \<Rightarrow> s | None \<Rightarrow> ''error'') \<rparr>)"

definition skipped_of :: "json \<Rightarrow> SemgrepSkippedPath" where
  "skipped_of value = (let item = mapping_or_empty value in
     \<lparr> sgs_path = norm_read_str (obj_get item ''path'') ''unknown'',
        sgs_reason = norm_read_str (obj_get item ''reason'') ''unknown'',
        sgs_detail = norm_read_optional_str (obj_get item ''details'') \<rparr>)"

definition artifact_of :: "(string \<Rightarrow> string) \<Rightarrow> string \<Rightarrow> obj \<Rightarrow> int \<Rightarrow> int \<Rightarrow> string \<Rightarrow> SemgrepArtifact" where
  "artifact_of digest review_run_id j exit_code duration_ms stderr =
     (let reported = map error_of (norm_read_list (obj_get j ''errors''));
          paths = mapping_or_empty (obj_get j ''paths'')
      in \<lparr> sga_schema_version = SEMGREP_ARTIFACT_SCHEMA_VERSION, sga_review_run_id = review_run_id,
           sga_tool_version = norm_read_optional_str (obj_get j ''version''), sga_exit_code = exit_code,
           sga_duration_ms = max duration_ms 0,
           sga_findings = map (finding_of digest) (norm_read_list (obj_get j ''results'')),
           sga_errors = (if exit_code \<notin> {0, 1} \<and> reported = []
             then [\<lparr> sge_code = ''process_exit'', sge_message = or_else (bounded_message stderr)
                     (''Semgrep exited with status '' @ str_of_int exit_code @ ''.''), sge_path = None, sge_severity = ''error'' \<rparr>]
             else reported),
           sga_scanned_paths = map (\<lambda>p. norm_read_str p ''unknown'') (norm_read_list (obj_get paths ''scanned'')),
           sga_skipped_paths = map skipped_of (norm_read_list (obj_get paths ''skipped'')) \<rparr>)"

definition failure_artifact :: "string \<Rightarrow> int \<Rightarrow> int \<Rightarrow> string \<Rightarrow> string \<Rightarrow> string \<Rightarrow> SemgrepArtifact" where
  "failure_artifact review_run_id exit_code duration_ms code message stderr =
     \<lparr> sga_schema_version = SEMGREP_ARTIFACT_SCHEMA_VERSION, sga_review_run_id = review_run_id,
       sga_tool_version = None, sga_exit_code = exit_code, sga_duration_ms = max duration_ms 0, sga_findings = [],
       sga_errors = [\<lparr> sge_code = code,
         sge_message = (if bounded_message stderr \<noteq> [] then message @ '': '' @ bounded_message stderr else message),
         sge_path = None, sge_severity = ''error'' \<rparr>],
       sga_scanned_paths = [], sga_skipped_paths = [] \<rparr>"

lemma position_line_normalized: "position_line (normalize_position v) = ps_line (position_of v)"
  by (simp add: position_line_def normalize_position_def position_of_def Let_def mapping_or_empty_def)

lemma normalize_position_enc: "normalize_position v = enc_position (position_of v)"
  by (simp add: normalize_position_def enc_position_def position_of_def Let_def)

lemma normalize_finding_enc: "normalize_finding digest v = enc_semgrep_finding (finding_of digest v)"
  by (simp add: normalize_finding_def enc_semgrep_finding_def finding_of_def Let_def position_line_normalized
      normalize_position_enc [symmetric])

lemma normalize_error_enc: "normalize_error v = enc_semgrep_error (error_of v)"
  by (simp add: normalize_error_def enc_semgrep_error_def error_of_def Let_def)

lemma normalize_skipped_path_enc: "normalize_skipped_path v = enc_semgrep_skipped_path (skipped_of v)"
  by (simp add: normalize_skipped_path_def enc_semgrep_skipped_path_def skipped_of_def Let_def)

lemma normalize_semgrep_output_enc:
  "normalize_semgrep_output digest rid j ec dur err = enc_SemgrepArtifact (artifact_of digest rid j ec dur err)"
  by (simp add: normalize_semgrep_output_def enc_SemgrepArtifact_def artifact_of_def Let_def normalize_paths_def
      normalize_finding_enc normalize_error_enc normalize_skipped_path_enc process_error_def enc_semgrep_error_def
      SEMGREP_FINDING_EXIT_CODES_def comp_def opt_json_def)

lemma normalize_failure_enc:
  "normalize_semgrep_process_failure rid ec dur code msg err = enc_SemgrepArtifact (failure_artifact rid ec dur code msg err)"
  by (simp add: normalize_semgrep_process_failure_def enc_SemgrepArtifact_def failure_artifact_def Let_def
      process_error_def enc_semgrep_error_def opt_json_def)

section \<open>Normalised artifacts pass their contract\<close>

lemma nonblank_norm_read_str [nonblank_intro]: "nonblank d \<Longrightarrow> nonblank (norm_read_str v d)"
  by (simp add: norm_read_str_def split: json.split)

lemma norm_read_optional_ok: "pred_option nonblank (norm_read_optional_str v)"
  by (simp add: norm_read_optional_str_def split: json.split)

lemma position_of_ok: "ok_position (position_of v)"
  by (simp add: ok_position_def position_of_def Let_def norm_positive_int_def norm_non_negative_int_def
      norm_nullable_non_negative_int_def split: json.split)

lemma normalize_severity_known: "normalize_severity s \<in> set SEVERITIES"
  by (auto simp: normalize_severity_def SEVERITY_MAP_def SEVERITIES_def split: option.split if_splits)

lemma finding_of_ok: "ok_semgrep_finding (finding_of digest v)"
  by (simp add: finding_of_def Let_def ok_semgrep_finding_def finding_id_def is_space_def nonblank_norm_read_str
      norm_read_optional_ok position_of_ok normalize_severity_known)

lemma first_some_ok:
  "nonblank d \<Longrightarrow> list_all (pred_option nonblank) xs \<Longrightarrow> nonblank (first_some xs d)"
  by (induction xs) (auto split: option.split)

lemma error_of_ok: "ok_semgrep_error (error_of v)"
proof -
  have type: "norm_read_str t [] = [] \<or> nonblank (norm_read_str t [])" for t
    by (simp add: norm_read_str_def split: json.split)
  have "nonblank (sge_code (error_of v))"
    using type [of "obj_get (mapping_or_empty v) ''type''"]
    by (auto simp: error_of_def Let_def or_else_def is_space_def nonblank_norm_read_str)
  moreover have "nonblank (sge_message (error_of v))"
    unfolding error_of_def Let_def by (simp add: first_some_ok norm_read_optional_ok is_space_def del: first_some.simps)
  moreover have "sge_severity (error_of v) \<in> set [''info'', ''warning'', ''error'']"
    by (auto simp: error_of_def Let_def ERROR_SEVERITY_MAP_def split: option.split if_splits)
  ultimately show ?thesis
    by (simp add: ok_semgrep_error_def error_of_def Let_def norm_read_optional_ok)
qed

lemma skipped_of_ok: "ok_semgrep_skipped_path (skipped_of v)"
  by (simp add: skipped_of_def Let_def ok_semgrep_skipped_path_def nonblank_norm_read_str norm_read_optional_ok
      is_space_def)

lemma bounded_message_visible: "bounded_message s \<noteq> [] \<Longrightarrow> nonblank (bounded_message s)"
  using nonblank_take_strip [of 800 s] by (auto simp: bounded_message_def)

lemma process_exit_ok:
  "ok_semgrep_error \<lparr> sge_code = ''process_exit'', sge_message = or_else (bounded_message stderr)
     (''Semgrep exited with status '' @ t), sge_path = None, sge_severity = ''error'' \<rparr>"
  using bounded_message_visible [of stderr] by (simp add: ok_semgrep_error_def or_else_def is_space_def)

lemma artifact_of_ok: "nonblank rid \<Longrightarrow> ok_SemgrepArtifact (artifact_of digest rid j ec dur err)"
  using process_exit_ok [of err "str_of_int ec @ ''.''"]
  by (simp add: artifact_of_def Let_def ok_SemgrepArtifact_def list.pred_set finding_of_ok error_of_ok
      skipped_of_ok norm_read_optional_ok nonblank_norm_read_str is_space_def)

lemma failure_artifact_ok:
  "nonblank rid \<Longrightarrow> nonblank code \<Longrightarrow> nonblank msg \<Longrightarrow> ok_SemgrepArtifact (failure_artifact rid ec dur code msg err)"
  by (simp add: failure_artifact_def ok_SemgrepArtifact_def ok_semgrep_error_def)

text \<open>Whatever JSON object Semgrep printed, however malformed its results, errors and paths are, the
  normalised dictionary passes the Semgrep artifact contract, as long as the run has an identifier: the
  artifact it reads back as is given field by field, one finding per result and one error per reported
  error, and a run that ended with a status other than 0 and 1 always carries at least one error.\<close>

theorem normalized_output_passes_contract:
  assumes "nonblank review_run_id"
  shows "SemgrepArtifact_from_mapping (normalize_semgrep_output digest review_run_id j exit_code duration_ms stderr) =
       Inr (artifact_of digest review_run_id j exit_code duration_ms stderr) \<and>
     (exit_code \<in> {0, 1} \<or> sga_errors (artifact_of digest review_run_id j exit_code duration_ms stderr) \<noteq> [])"
  using SemgrepArtifact.roundtrip [OF artifact_of_ok [OF assms]]
  by (simp add: normalize_semgrep_output_enc artifact_of_def Let_def)

theorem normalized_output_passes_contract_witness:
  "SemgrepArtifact_from_mapping (normalize_semgrep_output (\<lambda>t. t) ''run-1''
       [(''results'', JList [JNull, JObj [(''path'', JInt 3)]]), (''errors'', JStr ''x'')] 2 (-5) []) =
     Inr (artifact_of (\<lambda>t. t) ''run-1''
       [(''results'', JList [JNull, JObj [(''path'', JInt 3)]]), (''errors'', JStr ''x'')] 2 (-5) [])"
proof -
  have "nonblank ''run-1''" by code_simp
  from normalized_output_passes_contract [OF this] show ?thesis by blast
qed

end
