(* ===== verification/PyPath.thy ===== *)
theory PyPath
  imports Prelude
begin

text \<open>
  The parts of Python's library the worker uses on texts that name numbers and files: \<open>int(text)\<close>,
  and \<open>PurePosixPath\<close> (parsing, joining, printing). Numbers longer than the 4300 digits at which
  \<open>int\<close> refuses to parse are not distinguished.
\<close>

section \<open>int(text)\<close>

definition decimal_digit :: "char \<Rightarrow> nat option" where
  "decimal_digit c = (let n = (of_char c :: nat) in if 48 \<le> n \<and> n \<le> 57 then Some (n - 48) else None)"

fun digits_value :: "bool \<Rightarrow> nat \<Rightarrow> string \<Rightarrow> nat option" where
  \<comment> \<open>digits, single underscores allowed between two of them; the flag says a digit was just read\<close>
  "digits_value after_digit acc [] = (if after_digit then Some acc else None)"
| "digits_value after_digit acc (c # cs) =
     (case decimal_digit c of
        Some d \<Rightarrow> digits_value True (acc * 10 + d) cs
      | None \<Rightarrow> if c = CHR ''_'' \<and> after_digit then digits_value False acc cs else None)"

definition py_int :: "string \<Rightarrow> int option" where
  \<comment> \<open>None is the \<open>ValueError\<close>\<close>
  "py_int s = (case strip s of
      [] \<Rightarrow> None
    | c # cs \<Rightarrow>
        if c = CHR ''-'' then map_option (\<lambda>n. - int n) (digits_value False 0 cs)
        else if c = CHR ''+'' then map_option int (digits_value False 0 cs)
        else map_option int (digits_value False 0 (c # cs)))"

section \<open>Posix paths\<close>

definition path_is_absolute :: "string \<Rightarrow> bool" where
  "path_is_absolute s \<longleftrightarrow> starts_with ''/'' s"

definition path_root :: "string \<Rightarrow> string" where
  \<comment> \<open>exactly two leading slashes are kept, any other number collapses to one\<close>
  "path_root s = (if starts_with ''//'' s \<and> \<not> starts_with ''///'' s then ''//''
     else if starts_with ''/'' s then ''/'' else [])"

definition path_parts :: "string \<Rightarrow> string list" where
  "path_parts s = filter (\<lambda>p. p \<noteq> [] \<and> p \<noteq> ''.'') (split_char (CHR ''/'') s)"

definition path_text :: "string \<Rightarrow> string list \<Rightarrow> string" where
  "path_text rt parts = (if rt = [] \<and> parts = [] then ''.'' else rt @ join ''/'' parts)"

definition path_str :: "string \<Rightarrow> string" where
  \<comment> \<open>\<open>str(Path(s))\<close>\<close>
  "path_str s = path_text (path_root s) (path_parts s)"

definition path_join :: "string \<Rightarrow> string \<Rightarrow> string" where
  \<comment> \<open>\<open>str(Path(a) / b)\<close>\<close>
  "path_join a b = (if path_is_absolute b then path_str b
     else path_text (path_root a) (path_parts a @ path_parts b))"

definition path_name :: "string \<Rightarrow> string" where
  "path_name s = (case path_parts s of [] \<Rightarrow> [] | p # ps \<Rightarrow> last (p # ps))"

definition path_suffix :: "string \<Rightarrow> string" where
  \<comment> \<open>\<open>Path(s).suffix\<close>: from the last dot, when it is neither the first nor the last character of the name\<close>
  "path_suffix s = (let name = path_name s; after = takeWhile (\<lambda>c. c \<noteq> CHR ''.'') (rev name)
     in if length after + 1 < length name \<and> after \<noteq> [] then ''.'' @ rev after else [])"

lemma split_char_first: "split_char c s = p # ps \<Longrightarrow> p \<noteq> [] \<Longrightarrow> s \<noteq> [] \<and> hd s \<noteq> c"
  by (cases s) (auto split: if_splits list.splits)

lemma path_str_plain:
  assumes "list_all (\<lambda>p. p \<noteq> [] \<and> p \<noteq> ''.'') (split_char (CHR ''/'') s)"
  shows "path_str s = s" and "\<not> path_is_absolute s"
proof -
  obtain p ps where ps: "split_char (CHR ''/'') s = p # ps" by (cases "split_char (CHR ''/'') s") auto
  with assms have "p \<noteq> []" by simp
  with split_char_first [OF ps] obtain c cs where s: "s = c # cs" "c \<noteq> CHR ''/''" by (cases s) auto
  then show "\<not> path_is_absolute s" by (simp add: path_is_absolute_def)
  have parts: "path_parts s = split_char (CHR ''/'') s"
    using assms by (simp add: path_parts_def filter_id_conv list_all_iff)
  from s have "path_root s = []" by (simp add: path_root_def)
  with parts ps show "path_str s = s"
    by (simp add: path_str_def path_text_def join_split_char [of "CHR ''/''" s, unfolded ps])
qed

end
