(* ===== verification/PyBytes.thy ===== *)
theory PyBytes
  imports Prelude "HOL-Library.Word"
begin

text \<open>
  The bytes the code reads: \<open>str.encode('ascii')\<close>, \<open>base64.b64decode\<close> as \<open>binascii.a2b_base64\<close> does it without strict
  mode, and the decoding of UTF-8, strict or with a replacement character for every maximal ill-formed part. Texts of the
  model have characters up to U+00FF; a function gives the character that stands for a code point beyond. Encoders are the
  reference the decoders are compared with.
\<close>

unbundle bit_operations_syntax

type_synonym byte = "8 word"

section \<open>ASCII\<close>

definition is_ascii :: "char \<Rightarrow> bool" where
  "is_ascii c \<longleftrightarrow> (of_char c :: nat) < 128"

definition hex_escape :: "char \<Rightarrow> string" where
  "hex_escape c = (let n = (of_char c :: nat)
     in [CHR 0x5C, CHR ''x'', ''0123456789abcdef'' ! (n div 16), ''0123456789abcdef'' ! (n mod 16)])"

definition ascii_error :: "string \<Rightarrow> string" where
  \<comment> \<open>\<open>str\<close> of the \<open>UnicodeEncodeError\<close> of a text with such a character: it names the first run of them\<close>
  "ascii_error s = (let i = length (takeWhile is_ascii s); bad = takeWhile (\<lambda>c. \<not> is_ascii c) (drop i s)
     in CHR 0x27 # ''ascii'' @ CHR 0x27 # '' codec can't encode character'' @
        (if length bad = 1 then '' '' @ CHR 0x27 # hex_escape (hd bad) @ CHR 0x27 # '' in position '' @ str_of_nat i
         else ''s in position '' @ str_of_nat i @ ''-'' @ str_of_nat (i + length bad - 1)) @ '': ordinal not in range(128)'')"

definition encode_ascii :: "string \<Rightarrow> string + string" where
  \<comment> \<open>the text as bytes, or the message of the error\<close>
  "encode_ascii s = (if list_all is_ascii s then Inr s else Inl (ascii_error s))"

section \<open>Base64\<close>

definition b64_index :: "char \<Rightarrow> nat option" where
  "b64_index c = (let n = of_char c
     in if 65 \<le> n \<and> n \<le> 90 then Some (n - 65)
        else if 97 \<le> n \<and> n \<le> 122 then Some (n - 71)
        else if 48 \<le> n \<and> n \<le> 57 then Some (n + 4)
        else if c = CHR ''+'' then Some 62
        else if c = CHR ''/'' then Some 63
        else None)"

definition b64_value :: "char \<Rightarrow> byte option" where
  "b64_value c = map_option of_nat (b64_index c)"

definition truncated_quad :: "nat \<Rightarrow> nat \<Rightarrow> string" where
  \<comment> \<open>the message for an input that ends within a group, from the position in the group and the bytes written\<close>
  "truncated_quad quad written =
     (if quad = 1 then ''Invalid base64-encoded string: number of data characters ('' @ str_of_nat (written div 3 * 4 + 1) @
        '') cannot be 1 more than a multiple of 4''
      else ''Incorrect padding'')"

fun a2b_base64 :: "nat \<Rightarrow> byte \<Rightarrow> nat \<Rightarrow> nat \<Rightarrow> string \<Rightarrow> string + byte list" where
  \<comment> \<open>the loop of \<open>binascii\<close>: position in the group of four, bits left over, pads seen, bytes written\<close>
  "a2b_base64 quad leftchar pads written [] = (if quad = 0 then Inr [] else Inl (truncated_quad quad written))"
| "a2b_base64 quad leftchar pads written (c # s) =
     (if c = CHR ''='' then
        if quad \<ge> 2 \<and> quad + pads + 1 \<ge> 4 then Inr []
        else a2b_base64 quad leftchar (if quad \<ge> 2 then pads + 1 else pads) written s
      else (case b64_value c of
          None \<Rightarrow> a2b_base64 quad leftchar pads written s
        | Some v \<Rightarrow>
            if quad = 0 then a2b_base64 1 v 0 written s
            else if quad = 1
              then map_sum id (Cons (push_bit 2 leftchar OR drop_bit 4 v)) (a2b_base64 2 (v AND 15) 0 (Suc written) s)
            else if quad = 2
              then map_sum id (Cons (push_bit 4 leftchar OR drop_bit 2 v)) (a2b_base64 3 (v AND 3) 0 (Suc written) s)
            else map_sum id (Cons (push_bit 6 leftchar OR v)) (a2b_base64 0 0 0 (Suc written) s)))"

definition b64decode :: "string \<Rightarrow> string + byte list" where
  "b64decode s = a2b_base64 0 0 0 0 s"

definition urlsafe_b64decode :: "string \<Rightarrow> string + byte list" where
  "urlsafe_b64decode s = b64decode (map (\<lambda>c. if c = CHR ''-'' then CHR ''+'' else if c = CHR ''_'' then CHR ''/'' else c) s)"

definition BASE64_ALPHABET :: string where
  "BASE64_ALPHABET = ''ABCDEFGHIJKLMNOPQRSTUVWXYZabcdefghijklmnopqrstuvwxyz0123456789+/''"

definition b64_char :: "byte \<Rightarrow> char" where
  "b64_char v = BASE64_ALPHABET ! unat v"

definition sextets :: "byte \<Rightarrow> byte \<Rightarrow> byte \<Rightarrow> byte list" where
  "sextets a b c = [drop_bit 2 a, push_bit 4 (a AND 3) OR drop_bit 4 b, push_bit 2 (b AND 15) OR drop_bit 6 c, c AND 63]"

fun b64_encode :: "byte list \<Rightarrow> string" where
  "b64_encode [] = []"
| "b64_encode [a] = map b64_char (take 2 (sextets a 0 0)) @ ''==''"
| "b64_encode [a, b] = map b64_char (take 3 (sextets a b 0)) @ ''=''"
| "b64_encode (a # b # c # s) = map b64_char (sextets a b c) @ b64_encode s"

definition b64_significant :: "string \<Rightarrow> string" where
  "b64_significant s = filter (\<lambda>c. c = CHR ''='' \<or> b64_value c \<noteq> None) s"

lemma a2b_significant: "a2b_base64 quad leftchar pads written (b64_significant s) = a2b_base64 quad leftchar pads written s"
  by (induction quad leftchar pads written s rule: a2b_base64.induct) (auto simp: b64_significant_def)

lemma b64_indices: "map b64_index BASE64_ALPHABET = map Some [0..<64]" and b64_no_pad: "CHR ''='' \<notin> set BASE64_ALPHABET"
  by code_simp+

lemma b64_value_char [simp]:
  assumes "v < 64"
  shows "b64_value (b64_char v) = Some v" and "b64_char v \<noteq> CHR ''=''"
proof -
  have len: "length BASE64_ALPHABET = 64" by (simp add: BASE64_ALPHABET_def)
  from assms have v: "unat v < 64" by (simp add: word_less_nat_alt)
  with b64_indices len have "b64_index (BASE64_ALPHABET ! unat v) = Some (unat v)"
    by (metis add_0 length_map nth_map nth_upt)
  then show "b64_value (b64_char v) = Some v" by (simp add: b64_char_def b64_value_def)
  from v len b64_no_pad show "b64_char v \<noteq> CHR ''=''" unfolding b64_char_def by (metis nth_mem)
qed

lemma below_64:
  assumes "take_bit 6 v = (v :: byte)"
  shows "v < 64"
proof -
  have "unat v = take_bit 6 (unat v)" using assms by (metis unsigned_take_bit_eq)
  then have "unat v < 2 ^ 6" by (metis take_bit_nat_less_exp)
  then show ?thesis by (simp add: word_less_nat_alt)
qed

lemma byte_eqI: "(\<forall>n \<in> {0, 1, 2, 3, 4, 5, 6, 7}. bit a n = bit b n) \<Longrightarrow> a = (b :: byte)"
  by (rule bit_word_eqI) (auto simp: less_Suc_eq numeral_eq_Suc)

lemma byte_overflow [simp]: "8 \<le> n \<Longrightarrow> \<not> bit (a :: byte) n"
  by (auto dest: bit_imp_le_length)

lemma sextets_below: "v \<in> set (sextets a b c) \<Longrightarrow> v < 64"
  by (rule below_64) (auto simp: sextets_def bit_simps intro!: byte_eqI)

lemma sextets_bytes:
  assumes "sextets a b c = [u, v, w, x]"
  shows "push_bit 2 u OR drop_bit 4 v = a" and "push_bit 4 (v AND 15) OR drop_bit 2 w = b" and "push_bit 6 (w AND 3) OR x = c"
  using assms by (auto simp: sextets_def bit_simps intro!: byte_eqI)

lemma a2b_group:
  assumes "sextets a b c = [u, v, w, x]"
  shows "a2b_base64 0 left pads written (map b64_char [u, v, w, x] @ s) =
      map_sum id (\<lambda>bs. a # b # c # bs) (a2b_base64 0 0 0 (Suc (Suc (Suc written))) s)"
    and "a2b_base64 0 left pads written (map b64_char [u, v, w] @ ''='') = Inr [a, b]"
    and "a2b_base64 0 left pads written (map b64_char [u, v] @ ''=='') = Inr [a]"
  using sextets_below [of _ a b c] sextets_bytes [OF assms] assms by (auto simp: sum.map_comp comp_def id_def)

lemma a2b_encode: "a2b_base64 0 left pads written (b64_encode bs) = Inr bs"
proof (induction bs arbitrary: left pads written rule: b64_encode.induct)
  case (2 a)
  obtain u v w x where eq: "sextets a 0 0 = [u, v, w, x]" by (simp add: sextets_def)
  from a2b_group(3) [OF eq] show ?case by (simp add: eq)
next
  case (3 a b)
  obtain u v w x where eq: "sextets a b 0 = [u, v, w, x]" by (simp add: sextets_def)
  from a2b_group(2) [OF eq] show ?case by (simp add: eq)
next
  case (4 a b c s)
  obtain u v w x where eq: "sextets a b c = [u, v, w, x]" by (simp add: sextets_def)
  from a2b_group(1) [OF eq] 4 show ?case by (simp only: b64_encode.simps eq) simp
qed simp

theorem b64decode_encode: "b64_significant s = b64_encode bs \<Longrightarrow> b64decode s = Inr bs"
  by (metis a2b_encode a2b_significant b64decode_def)

section \<open>UTF-8\<close>

definition utf8_lead :: "nat \<Rightarrow> (nat \<times> nat \<times> nat \<times> nat) option" where
  \<comment> \<open>of a byte that starts a sequence: bytes to follow, the bounds of the first of them, the leading bits\<close>
  "utf8_lead b =
     (if 194 \<le> b \<and> b \<le> 223 then Some (1, 128, 191, b - 192)
      else if b = 224 then Some (2, 160, 191, 0)
      else if b = 237 then Some (2, 128, 159, 13)
      else if 225 \<le> b \<and> b \<le> 239 then Some (2, 128, 191, b - 224)
      else if b = 240 then Some (3, 144, 191, 0)
      else if 241 \<le> b \<and> b \<le> 243 then Some (3, 128, 191, b - 240)
      else if b = 244 then Some (3, 128, 143, 4)
      else None)"

fun utf8_tail :: "nat \<Rightarrow> nat \<Rightarrow> nat \<Rightarrow> nat \<Rightarrow> nat list \<Rightarrow> nat option \<times> nat list" where
  "utf8_tail 0 lo hi bits bs = (Some bits, bs)"
| "utf8_tail (Suc n) lo hi bits [] = (None, [])"
| "utf8_tail (Suc n) lo hi bits (b # bs) =
     (if lo \<le> b \<and> b \<le> hi then utf8_tail n 128 191 (64 * bits + b mod 64) bs else (None, b # bs))"

lemma utf8_tail_length: "length (snd (utf8_tail n lo hi bits bs)) \<le> length bs"
  by (induction n lo hi bits bs rule: utf8_tail.induct) auto

function utf8_decode :: "nat list \<Rightarrow> nat option list" where
  \<comment> \<open>the code points; None for every maximal part that is ill-formed\<close>
  "utf8_decode [] = []"
| "utf8_decode (b # bs) =
     (if b < 128 then Some b # utf8_decode bs
      else (case utf8_lead b of
          None \<Rightarrow> None # utf8_decode bs
        | Some (n, lo, hi, bits) \<Rightarrow> fst (utf8_tail n lo hi bits bs) # utf8_decode (snd (utf8_tail n lo hi bits bs))))"
  by pat_completeness auto
termination
  by (relation "measure length") (auto simp: le_imp_less_Suc utf8_tail_length)

definition utf8_encode_point :: "nat \<Rightarrow> nat list" where
  "utf8_encode_point n =
     (if n < 128 then [n]
      else if n < 2048 then [192 + n div 64, 128 + n mod 64]
      else if n < 65536 then [224 + n div 64 div 64, 128 + n div 64 mod 64, 128 + n mod 64]
      else [240 + n div 64 div 64 div 64, 128 + n div 64 div 64 mod 64, 128 + n div 64 mod 64, 128 + n mod 64])"

definition utf8_encode :: "nat list \<Rightarrow> nat list" where
  "utf8_encode points = concat (map utf8_encode_point points)"

definition scalar_value :: "nat \<Rightarrow> bool" where
  "scalar_value n \<longleftrightarrow> n < 0xD800 \<or> 0xDFFF < n \<and> n < 0x110000"

definition text_char :: "(nat \<Rightarrow> char) \<Rightarrow> nat \<Rightarrow> char" where
  "text_char wide n = (if n < 256 then char_of n else wide n)"

definition decode_utf8 :: "(nat \<Rightarrow> char) \<Rightarrow> byte list \<Rightarrow> string option" where
  \<comment> \<open>\<open>bytes.decode('utf-8')\<close>; None: \<open>UnicodeDecodeError\<close>\<close>
  "decode_utf8 wide bytes = (let points = utf8_decode (map unat bytes)
     in if None \<in> set points then None else Some (map (\<lambda>p. text_char wide (the p)) points))"

definition decode_utf8_replace :: "(nat \<Rightarrow> char) \<Rightarrow> byte list \<Rightarrow> string" where
  \<comment> \<open>\<open>bytes.decode('utf-8', errors='replace')\<close>\<close>
  "decode_utf8_replace wide bytes = map (\<lambda>p. case p of Some n \<Rightarrow> text_char wide n | None \<Rightarrow> wide 0xFFFD) (utf8_decode (map unat bytes))"

lemma utf8_tail_numeral:
  "utf8_tail 1 lo hi bits (b # bs) = (if lo \<le> b \<and> b \<le> hi then (Some (64 * bits + b mod 64), bs) else (None, b # bs))"
  "utf8_tail 2 lo hi bits (b # bs) = (if lo \<le> b \<and> b \<le> hi then utf8_tail 1 128 191 (64 * bits + b mod 64) bs else (None, b # bs))"
  "utf8_tail 3 lo hi bits (b # bs) = (if lo \<le> b \<and> b \<le> hi then utf8_tail 2 128 191 (64 * bits + b mod 64) bs else (None, b # bs))"
  by (simp_all add: numeral_2_eq_2 numeral_3_eq_3)

lemma base_64:
  fixes n :: nat
  obtains p q where "n = 64 * p + q" "q < 64"
  by (rule that [OF mult_div_mod_eq [symmetric] mod_less_divisor]) simp

lemma digits_64:
  assumes "n = 64 * p + q" and "q < (64 :: nat)"
  shows "n div 64 = p" and "n mod 64 = q" and "(128 + q) mod 64 = q"
  using assms mod_mult_self1 [of q 2 64] by (simp_all add: add.commute)

lemma utf8_decode_point:
  assumes "scalar_value n"
  shows "utf8_decode (utf8_encode_point n @ bs) = Some n # utf8_decode bs"
proof -
  obtain p q where n: "n = 64 * p + q" "q < 64" by (rule base_64)
  obtain p1 q1 where p: "p = 64 * p1 + q1" "q1 < 64" by (rule base_64)
  obtain p2 q2 where p1: "p1 = 64 * p2 + q2" "q2 < 64" by (rule base_64)
  note digits = digits_64 [OF n] digits_64 [OF p] digits_64 [OF p1] utf8_tail_numeral
  consider "n < 128" | "128 \<le> n" "n < 2048" | "2048 \<le> n" "n < 65536" | "65536 \<le> n" "n < 0x110000"
    using assms unfolding scalar_value_def by linarith
  then show ?thesis
  proof cases
    case 1
    then show ?thesis by (simp add: utf8_encode_point_def)
  next
    case 2
    with n have "2 \<le> p" "p < 32" by simp_all
    with 2 n(2) show ?thesis by (simp add: utf8_encode_point_def utf8_lead_def digits) (simp add: n)
  next
    case 3
    with n p have "p1 < 16" "32 \<le> 64 * p1 + q1" by simp_all
    moreover have "p1 = 13 \<Longrightarrow> q1 < 32" using assms 3 n p unfolding scalar_value_def by simp
    ultimately show ?thesis using 3 n(2) p(2)
      by (auto simp: utf8_encode_point_def utf8_lead_def digits) (simp_all add: n p)
  next
    case 4
    with n p p1 have "p2 < 5" "p2 \<noteq> 0 \<or> 16 \<le> q2" "p2 = 4 \<longrightarrow> q2 < 16" by auto
    then show ?thesis using 4 n(2) p(2) p1(2)
      by (auto simp: utf8_encode_point_def utf8_lead_def digits) (simp_all add: n p p1)
  qed
qed

definition decode_base64_text :: "(nat \<Rightarrow> char) \<Rightarrow> string \<Rightarrow> (string \<times> string) + string \<times> nat" where
  \<comment> \<open>\<open>base64.b64decode(content.encode('ascii'), validate=False)\<close> and its text with replacements: the class and message of
      the exception, or the text and the number of bytes\<close>
  "decode_base64_text wide content = (case encode_ascii content of
      Inl message \<Rightarrow> Inl (''UnicodeEncodeError'', message)
    | Inr ascii \<Rightarrow> (case b64decode ascii of
        Inl message \<Rightarrow> Inl (''Error'', message)
      | Inr bytes \<Rightarrow> Inr (decode_utf8_replace wide bytes, length bytes)))"

lemma utf8_decode_encode: "list_all scalar_value points \<Longrightarrow> utf8_decode (utf8_encode points) = map Some points"
  by (induction points) (simp_all add: utf8_encode_def utf8_decode_point del: utf8_decode.simps(2))

lemma unat_bytes: "list_all (\<lambda>n. n < 256) bs \<Longrightarrow> map unat (map (word_of_nat :: nat \<Rightarrow> byte) bs) = bs"
  by (induction bs) (simp_all add: unat_of_nat)

lemma utf8_encode_bytes: "list_all scalar_value points \<Longrightarrow> list_all (\<lambda>n. n < 256) (utf8_encode points)"
  by (auto simp: list_all_iff utf8_encode_def utf8_encode_point_def scalar_value_def div_mult2_eq [symmetric])

lemma decode_base64_text_encode:
  assumes "list_all scalar_value points" and "list_all is_ascii s"
    and "b64_significant s = b64_encode (map word_of_nat (utf8_encode points))"
  shows "decode_base64_text wide s = Inr (map (text_char wide) points, length (utf8_encode points))"
proof -
  have "map unat (map (word_of_nat :: nat \<Rightarrow> byte) (utf8_encode points)) = utf8_encode points"
    by (rule unat_bytes [OF utf8_encode_bytes [OF assms(1)]])
  then have "decode_utf8_replace wide (map word_of_nat (utf8_encode points)) = map (text_char wide) points"
    unfolding decode_utf8_replace_def by (simp only: utf8_decode_encode [OF assms(1)]) simp
  then show ?thesis
    using assms(2) b64decode_encode [OF assms(3)] by (simp add: decode_base64_text_def encode_ascii_def)
qed

end
