(* ===== verification/SemgrepRunner.thy ===== *)
theory SemgrepRunner
  imports SemgrepNormalizer PyPath PyBytes
begin

text \<open>
  semgrep/runner.py: configuration from the environment, the command line, the file with the raw output, and the
  normalisation of what the process printed. The process with its clock, the file system, the installation's root and
  the current directory, the environment, \<open>json.loads\<close>, \<open>json.dumps\<close> and the digest are parameters. Those that can raise
  give the class and the text of the exception; what the process prints is bytes, read as UTF-8. The module catches a timeout,
  an \<open>OSError\<close> of the process and a \<open>JSONDecodeError\<close>, and every other exception leaves it.
\<close>

type_synonym py_error = "string \<times> string"     \<comment> \<open>class and text of an exception\<close>

section \<open>Configuration\<close>

definition DEFAULT_SEMGREP_TIMEOUT_MS :: int where "DEFAULT_SEMGREP_TIMEOUT_MS = 30000"

definition LOCAL_INFRA_SEMGREP_CONFIG :: string where "LOCAL_INFRA_SEMGREP_CONFIG = ''infra/semgrep/config.yml''"

definition LOCAL_INFRA_SEMGREP_CONFIG_ALIASES :: "string list" where
  "LOCAL_INFRA_SEMGREP_CONFIG_ALIASES = [''infra/semgrep'', ''infra/semgrep/'']"

definition DEFAULT_SEMGREP_CONFIGS :: "string list" where "DEFAULT_SEMGREP_CONFIGS = [LOCAL_INFRA_SEMGREP_CONFIG]"

record SemgrepScanConfig =
  ssc_configs :: "string list"
  ssc_timeout_ms :: int
  ssc_executable :: string

definition normalize_semgrep_config :: "string \<Rightarrow> string" where
  "normalize_semgrep_config config =
     (if config = ''auto'' \<or> config \<in> set LOCAL_INFRA_SEMGREP_CONFIG_ALIASES then LOCAL_INFRA_SEMGREP_CONFIG
      else config)"

definition read_semgrep_configs :: "string option \<Rightarrow> string list" where
  "read_semgrep_configs value = (case value of
      None \<Rightarrow> DEFAULT_SEMGREP_CONFIGS
    | Some v \<Rightarrow>
        (let raw_configs = filter (\<lambda>c. c \<noteq> []) (map strip (split_char (CHR '','') v))
         in if raw_configs = [''auto''] then DEFAULT_SEMGREP_CONFIGS
            else dedupe_keep_order (map normalize_semgrep_config raw_configs)))"

definition runner_read_positive_int :: "string option \<Rightarrow> int \<Rightarrow> int" where
  "runner_read_positive_int value dflt = (case value of
      None \<Rightarrow> dflt
    | Some v \<Rightarrow> (case py_int v of None \<Rightarrow> dflt | Some parsed \<Rightarrow> if parsed > 0 then parsed else dflt))"

definition SemgrepScanConfig_from_env :: "(string \<Rightarrow> string option) \<Rightarrow> SemgrepScanConfig" where
  "SemgrepScanConfig_from_env env =
     (let configs = read_semgrep_configs (env ''SEMGREP_CONFIGS'');
          executable = or_else (strip (case env ''SEMGREP_EXECUTABLE'' of Some e \<Rightarrow> e | None \<Rightarrow> ''semgrep'')) ''semgrep''
      in \<lparr> ssc_configs = (if configs = [] then DEFAULT_SEMGREP_CONFIGS else configs),
           ssc_timeout_ms = runner_read_positive_int (env ''SEMGREP_TIMEOUT_MS'') DEFAULT_SEMGREP_TIMEOUT_MS,
           ssc_executable = executable \<rparr>)"

section \<open>The command line\<close>

datatype semgrep_process_error =
    SemgrepProcessError string
  | OtherError py_error           \<comment> \<open>whatever else leaves the runner\<close>

definition config_roots :: "string \<Rightarrow> py_error + string \<Rightarrow> py_error + string list" where
  \<comment> \<open>the repository root of the installation and the current directory are parameters\<close>
  "config_roots repo_root cwd = bind_sum cwd (\<lambda>dir. Inr (dedupe_keep_order [repo_root, dir, ''/app'']))"

fun first_existing :: "(string \<Rightarrow> py_error + bool) \<Rightarrow> string list \<Rightarrow> py_error + string option" where
  \<comment> \<open>\<open>Path.exists\<close> raises when a directory cannot be read\<close>
  "first_existing exists [] = Inr None"
| "first_existing exists (p # ps) = bind_sum (exists p) (\<lambda>there. if there then Inr (Some p) else first_existing exists ps)"

definition resolve_config_reference ::
  "(string \<Rightarrow> py_error + bool) \<Rightarrow> py_error + string list \<Rightarrow> string \<Rightarrow> py_error + string" where
  "resolve_config_reference exists roots config =
     (if path_is_absolute config then Inr config
      else bind_sum roots (\<lambda>rs. bind_sum (first_existing exists (map (\<lambda>r. path_join r config) rs)) (\<lambda>found.
        Inr (case found of Some p \<Rightarrow> p | None \<Rightarrow> config))))"

fun config_options :: "(string \<Rightarrow> py_error + bool) \<Rightarrow> py_error + string list \<Rightarrow> string list \<Rightarrow> py_error + string list" where
  "config_options exists roots [] = Inr []"
| "config_options exists roots (c # cs) = bind_sum (resolve_config_reference exists roots c) (\<lambda>r.
     bind_sum (config_options exists roots cs) (\<lambda>options. Inr (''--config'' # r # options)))"

definition build_command ::
  "(string \<Rightarrow> py_error + bool) \<Rightarrow> py_error + string list \<Rightarrow> SemgrepScanConfig \<Rightarrow> string list \<Rightarrow>
   semgrep_process_error + string list" where
  "build_command exists roots scan_config targets =
     (if targets = [] then Inl (SemgrepProcessError ''Semgrep scan requires at least one target.'')
      else if ssc_timeout_ms scan_config \<le> 0 then Inl (SemgrepProcessError ''Semgrep timeout must be positive.'')
      else map_sum OtherError (\<lambda>options. [ssc_executable scan_config, ''scan'', ''--json'', ''--metrics=off''] @ options @ targets)
        (config_options exists roots (ssc_configs scan_config)))"

section \<open>Running and normalising\<close>

datatype process_outcome =
    Completed int "byte list" "byte list"                       \<comment> \<open>return code, stdout, stderr\<close>
  | TimeoutExpired "byte list option" "byte list option"        \<comment> \<open>what it had printed\<close>
  | OSErrorRaised string
  | OtherRaised py_error                                        \<comment> \<open>such as a ValueError for an argument with a NUL\<close>

record RawSemgrepOutput =
  raw_command :: "string list"
  raw_exit_code :: int
  raw_stdout :: string
  raw_stderr :: string
  raw_duration_ms :: int
  raw_timed_out :: bool

definition decode_process_output :: "(nat \<Rightarrow> char) \<Rightarrow> byte list option \<Rightarrow> string" where
  \<comment> \<open>on POSIX the exception of a timeout holds bytes, never text\<close>
  "decode_process_output wide value = (case value of None \<Rightarrow> [] | Some bytes \<Rightarrow> decode_utf8_replace wide bytes)"

definition universal_newlines :: "string \<Rightarrow> string" where
  "universal_newlines s = replace_str [CHR 0x0D] [CHR 0x0A] (replace_str [CHR 0x0D, CHR 0x0A] [CHR 0x0A] s)"

definition process_text :: "(nat \<Rightarrow> char) \<Rightarrow> (byte list \<Rightarrow> string) \<Rightarrow> byte list \<Rightarrow> py_error + string" where
  \<comment> \<open>\<open>text=True\<close>: strict decoding, then the line ends\<close>
  "process_text wide message bytes = (case decode_utf8 wide bytes of
      Some text \<Rightarrow> Inr (universal_newlines text) | None \<Rightarrow> Inl (''UnicodeDecodeError'', message bytes))"

definition run_command ::
  "(nat \<Rightarrow> char) \<Rightarrow> (byte list \<Rightarrow> string) \<Rightarrow> process_outcome \<Rightarrow> int \<Rightarrow> string list \<Rightarrow> py_error + RawSemgrepOutput" where
  \<comment> \<open>outcome of \<open>subprocess.run\<close>, elapsed milliseconds, command\<close>
  "run_command wide message outcome elapsed command = (case outcome of
      Completed rc out err \<Rightarrow> bind_sum (process_text wide message out) (\<lambda>stdout. bind_sum (process_text wide message err) (\<lambda>stderr.
        Inr \<lparr> raw_command = command, raw_exit_code = rc, raw_stdout = stdout, raw_stderr = stderr,
         raw_duration_ms = elapsed, raw_timed_out = False \<rparr>))
    | TimeoutExpired out err \<Rightarrow> Inr \<lparr> raw_command = command, raw_exit_code = -1, raw_stdout = decode_process_output wide out,
         raw_stderr = decode_process_output wide err, raw_duration_ms = elapsed, raw_timed_out = True \<rparr>
    | OSErrorRaised m \<Rightarrow> Inr \<lparr> raw_command = command, raw_exit_code = 127, raw_stdout = [], raw_stderr = m,
         raw_duration_ms = elapsed, raw_timed_out = False \<rparr>
    | OtherRaised e \<Rightarrow> Inl e)"

datatype json_failure =
    JSONDecodeError string        \<comment> \<open>its \<open>msg\<close>\<close>
  | JsonRaised py_error           \<comment> \<open>a RecursionError for deep nesting, a ValueError for an integer with too many digits\<close>

definition result_identity :: "json \<Rightarrow> string" where
  \<comment> \<open>the text of a finding that \<open>_finding_id\<close> encodes\<close>
  "result_identity value =
     (let item = mapping_or_empty value; extra = mapping_or_empty (obj_get item ''extra'')
      in finding_identity (norm_read_str (obj_get item ''check_id'') ''unknown_rule'') (norm_read_str (obj_get item ''path'') ''unknown'')
        (position_line (normalize_position (obj_get item ''start''))) (position_line (normalize_position (obj_get item ''end'')))
        (norm_read_str (obj_get extra ''lines'') []) (norm_read_optional_str (obj_get extra ''fingerprint'')))"

definition identity_error :: "(string \<Rightarrow> py_error option) \<Rightarrow> json list \<Rightarrow> py_error option" where
  \<comment> \<open>of the first finding whose identity cannot be encoded\<close>
  "identity_error encode_error results =
     (case List.map_filter (\<lambda>value. encode_error (result_identity value)) results of [] \<Rightarrow> None | e # _ \<Rightarrow> Some e)"

definition normalize_process_output ::
  "(string \<Rightarrow> string) \<Rightarrow> (string \<Rightarrow> py_error option) \<Rightarrow> (string \<Rightarrow> json_failure + json) \<Rightarrow> string \<Rightarrow> RawSemgrepOutput \<Rightarrow> py_error + obj" where
  "normalize_process_output digest encode_error json_loads review_run_id raw =
     (let failure = normalize_semgrep_process_failure review_run_id (raw_exit_code raw) (raw_duration_ms raw)
      in if raw_timed_out raw then
           Inr (failure ''timeout'' (''Semgrep timed out after '' @ str_of_int (raw_duration_ms raw) @ '' ms.'') (raw_stderr raw))
         else case (if strip (raw_stdout raw) \<noteq> [] then json_loads (raw_stdout raw) else Inr (JObj [])) of
             Inl (JSONDecodeError msg) \<Rightarrow>
               Inr (failure ''invalid_json'' (''Semgrep did not produce valid JSON: '' @ msg @ ''.'') (raw_stderr raw))
           | Inl (JsonRaised e) \<Rightarrow> Inl e
           | Inr parsed \<Rightarrow>
               (case parsed of
                  JObj v \<Rightarrow> (case identity_error encode_error (norm_read_list (obj_get v ''results'')) of
                      Some e \<Rightarrow> Inl e
                    | None \<Rightarrow> Inr (normalize_semgrep_output digest review_run_id v (raw_exit_code raw) (raw_duration_ms raw) (raw_stderr raw)))
                | _ \<Rightarrow> Inr (failure ''invalid_json'' ''Semgrep JSON output was not an object.'' (raw_stderr raw))))"

definition SEMGREP_RAW_ARTIFACT_SCHEMA_VERSION :: string where
  "SEMGREP_RAW_ARTIFACT_SCHEMA_VERSION = ''semgrep-raw-output/v1''"

record SemgrepRawArtifact =
  sra_schema_version :: string
  sra_review_run_id :: string
  sra_path :: string

record SemgrepScanResult =
  ssr_artifact :: obj
  ssr_raw_output :: RawSemgrepOutput
  ssr_raw_artifact :: "SemgrepRawArtifact option"

record runner_services =
  rns_env :: "string \<Rightarrow> string option"
  rns_exists :: "string \<Rightarrow> py_error + bool"
  rns_repo_root :: string
  rns_cwd :: "py_error + string"
  rns_run :: "string list \<Rightarrow> int \<Rightarrow> string option \<Rightarrow> process_outcome \<times> int"
    \<comment> \<open>command, timeout and directory to the outcome and the elapsed milliseconds\<close>
  rns_wide :: "nat \<Rightarrow> char"                            \<comment> \<open>for code points beyond U+00FF\<close>
  rns_decode_message :: "byte list \<Rightarrow> string"          \<comment> \<open>the text of a UnicodeDecodeError\<close>
  rns_write :: "string \<Rightarrow> string \<Rightarrow> py_error option"   \<comment> \<open>path and text of a file: why it cannot be written\<close>
  rns_json_loads :: "string \<Rightarrow> json_failure + json"
  rns_json_dumps :: "json \<Rightarrow> string"                 \<comment> \<open>with \<open>indent=2, sort_keys=True\<close>\<close>
  rns_encode_error :: "string \<Rightarrow> py_error option"     \<comment> \<open>of \<open>str.encode\<close>, which refuses a lone surrogate\<close>
  rns_digest :: "string \<Rightarrow> string"

definition raw_artifact_json :: "string \<Rightarrow> RawSemgrepOutput \<Rightarrow> json" where
  "raw_artifact_json review_run_id raw = JObj [
     (''schemaVersion'', JStr SEMGREP_RAW_ARTIFACT_SCHEMA_VERSION), (''reviewRunId'', JStr review_run_id),
     (''command'', JList (map JStr (raw_command raw))), (''exitCode'', JInt (raw_exit_code raw)),
     (''durationMs'', JInt (raw_duration_ms raw)), (''timedOut'', JBool (raw_timed_out raw)),
     (''stdout'', JStr (raw_stdout raw)), (''stderr'', JStr (raw_stderr raw))]"

definition write_raw_artifact ::
  "runner_services \<Rightarrow> string \<Rightarrow> RawSemgrepOutput \<Rightarrow> string option \<Rightarrow> semgrep_process_error + SemgrepRawArtifact option" where
  "write_raw_artifact rns review_run_id raw artifact_dir = (case artifact_dir of
      None \<Rightarrow> Inr None
    | Some dir \<Rightarrow>
        (let output_path = path_join dir (review_run_id @ ''.semgrep.raw.json'')
         in case rns_write rns output_path (rns_json_dumps rns (raw_artifact_json review_run_id raw) @ [CHR 0x0A]) of
              Some problem \<Rightarrow> Inl (OtherError problem)
            | None \<Rightarrow> Inr (Some \<lparr> sra_schema_version = SEMGREP_RAW_ARTIFACT_SCHEMA_VERSION,
                sra_review_run_id = review_run_id, sra_path = output_path \<rparr>)))"

definition used_scan_config :: "runner_services \<Rightarrow> SemgrepScanConfig option \<Rightarrow> SemgrepScanConfig" where
  "used_scan_config rns config = (case config of Some c \<Rightarrow> c | None \<Rightarrow> SemgrepScanConfig_from_env (rns_env rns))"

definition run_semgrep_scan ::
  "runner_services \<Rightarrow> string \<Rightarrow> string list \<Rightarrow> SemgrepScanConfig option \<Rightarrow> string option \<Rightarrow> string option \<Rightarrow>
   semgrep_process_error + SemgrepScanResult" where
  "run_semgrep_scan rns review_run_id targets config cwd artifact_dir =
     (let scan_config = used_scan_config rns config
      in bind_sum (build_command (rns_exists rns) (config_roots (rns_repo_root rns) (rns_cwd rns)) scan_config targets) (\<lambda>command.
           bind_sum (map_sum OtherError id (case rns_run rns command (ssc_timeout_ms scan_config) cwd of
               (outcome, elapsed) \<Rightarrow> run_command (rns_wide rns) (rns_decode_message rns) outcome elapsed command)) (\<lambda>raw_output.
             bind_sum (write_raw_artifact rns review_run_id raw_output artifact_dir) (\<lambda>raw_artifact.
               bind_sum (map_sum OtherError id
                   (normalize_process_output (rns_digest rns) (rns_encode_error rns) (rns_json_loads rns) review_run_id raw_output)) (\<lambda>normalized.
                 Inr \<lparr> ssr_artifact = normalized, ssr_raw_output = raw_output, ssr_raw_artifact = raw_artifact \<rparr>)))))"

section \<open>Properties\<close>

definition usable_config :: "SemgrepScanConfig \<Rightarrow> bool" where
  "usable_config c \<longleftrightarrow> ssc_configs c \<noteq> [] \<and> distinct (ssc_configs c) \<and>
     list_all (\<lambda>s. s \<noteq> [] \<and> s \<noteq> ''auto'' \<and> s \<notin> set LOCAL_INFRA_SEMGREP_CONFIG_ALIASES) (ssc_configs c) \<and>
     0 < ssc_timeout_ms c \<and> ssc_executable c \<noteq> []"

lemma normalize_semgrep_config_local:
  "s \<noteq> [] \<Longrightarrow> normalize_semgrep_config s \<noteq> [] \<and> normalize_semgrep_config s \<noteq> ''auto'' \<and>
     normalize_semgrep_config s \<notin> set LOCAL_INFRA_SEMGREP_CONFIG_ALIASES"
  by (simp add: normalize_semgrep_config_def LOCAL_INFRA_SEMGREP_CONFIG_ALIASES_def LOCAL_INFRA_SEMGREP_CONFIG_def)

lemma default_configs_local:
  "DEFAULT_SEMGREP_CONFIGS \<noteq> [] \<and> distinct DEFAULT_SEMGREP_CONFIGS \<and>
   list_all (\<lambda>s. s \<noteq> [] \<and> s \<noteq> ''auto'' \<and> s \<notin> set LOCAL_INFRA_SEMGREP_CONFIG_ALIASES) DEFAULT_SEMGREP_CONFIGS"
  by (simp add: DEFAULT_SEMGREP_CONFIGS_def LOCAL_INFRA_SEMGREP_CONFIG_ALIASES_def LOCAL_INFRA_SEMGREP_CONFIG_def)

lemma read_semgrep_configs_local:
  "distinct (read_semgrep_configs v) \<and>
   list_all (\<lambda>s. s \<noteq> [] \<and> s \<noteq> ''auto'' \<and> s \<notin> set LOCAL_INFRA_SEMGREP_CONFIG_ALIASES) (read_semgrep_configs v)"
  using default_configs_local normalize_semgrep_config_local
  by (auto simp: read_semgrep_configs_def Let_def list_all_iff split: option.split)

text \<open>Whatever the environment holds, the Semgrep configuration read from it is usable: at least one
  rule configuration, no duplicates, never the remote registry's auto configuration and never a bare
  alias of the local rule directory, a positive timeout and a non-empty executable.\<close>

theorem semgrep_config_from_env_is_usable:
  "usable_config (SemgrepScanConfig_from_env env)"
  using default_configs_local read_semgrep_configs_local [of "env ''SEMGREP_CONFIGS''"]
  by (auto simp: usable_config_def SemgrepScanConfig_from_env_def Let_def runner_read_positive_int_def
      DEFAULT_SEMGREP_TIMEOUT_MS_def or_else_def split: option.split)

definition process_failure_of :: "string \<Rightarrow> RawSemgrepOutput \<Rightarrow> obj \<Rightarrow> bool" where
  "process_failure_of rid raw artifact \<longleftrightarrow> (\<exists>code msg. nonblank code \<and> nonblank msg \<and>
     artifact = normalize_semgrep_process_failure rid (raw_exit_code raw) (raw_duration_ms raw) code msg (raw_stderr raw))"

lemma map_sum_Inl: "map_sum f g x = Inl e \<longleftrightarrow> (\<exists>d. x = Inl d \<and> e = f d)"
  and map_sum_Inr: "map_sum f g x = Inr b \<longleftrightarrow> (\<exists>a. x = Inr a \<and> b = g a)"
  by (cases x; auto)+

lemma no_results [simp]: "identity_error encode_error (norm_read_list JNull) = None"
  by (simp add: identity_error_def norm_read_list_def List.map_filter_def)

lemma process_output_cases:
  assumes "normalize_process_output digest encode_error json_loads rid raw = Inr artifact"
  shows "(\<exists>v. artifact = normalize_semgrep_output digest rid v (raw_exit_code raw) (raw_duration_ms raw) (raw_stderr raw)) \<or>
   process_failure_of rid raw artifact"
proof -
  have failure: "process_failure_of rid raw
      (normalize_semgrep_process_failure rid (raw_exit_code raw) (raw_duration_ms raw) code msg (raw_stderr raw))"
    if "nonblank code" "nonblank msg" for code msg
    using that by (auto simp: process_failure_of_def)
  have texts: "nonblank ''timeout''" "nonblank ''invalid_json''" "nonblank ''Semgrep timed out after ''"
    "nonblank ''Semgrep did not produce valid JSON: ''" "nonblank ''Semgrep JSON output was not an object.''"
    by code_simp+
  show ?thesis
    using assms unfolding normalize_process_output_def Let_def
    by (cases "raw_timed_out raw"; cases "strip (raw_stdout raw) \<noteq> []"; cases "json_loads (raw_stdout raw)")
      (use failure texts in \<open>auto simp del: nonblank_Cons append_Cons split: json.splits json_failure.splits option.splits\<close>)
qed

lemma process_output_artifact:
  assumes "nonblank review_run_id" and "normalize_process_output digest encode_error json_loads review_run_id raw = Inr artifact"
  shows "\<exists>a. artifact = enc_SemgrepArtifact a \<and> ok_SemgrepArtifact a \<and>
     sga_review_run_id a = review_run_id \<and> sga_exit_code a = raw_exit_code raw \<and> sga_duration_ms a = max (raw_duration_ms raw) 0 \<and>
     (sga_errors a \<noteq> [] \<or> raw_exit_code raw \<in> {0, 1})"
  using process_output_cases [OF assms(2)] unfolding process_failure_of_def
proof (elim disjE exE conjE)
  fix v
  let ?a = "artifact_of digest review_run_id v (raw_exit_code raw) (raw_duration_ms raw) (raw_stderr raw)"
  assume "artifact = normalize_semgrep_output digest review_run_id v (raw_exit_code raw) (raw_duration_ms raw) (raw_stderr raw)"
  then show ?thesis
    using artifact_of_ok [OF assms(1)] by (intro exI [of _ ?a]) (simp add: normalize_semgrep_output_enc, simp add: artifact_of_def Let_def)
next
  fix code msg
  let ?a = "failure_artifact review_run_id (raw_exit_code raw) (raw_duration_ms raw) code msg (raw_stderr raw)"
  assume "nonblank code" "nonblank msg"
    "artifact = normalize_semgrep_process_failure review_run_id (raw_exit_code raw) (raw_duration_ms raw) code msg (raw_stderr raw)"
  then show ?thesis
    using failure_artifact_ok [OF assms(1), of code msg]
    by (intro exI [of _ ?a]) (simp add: normalize_failure_enc, simp add: failure_artifact_def)
qed

section \<open>What leaves the runner\<close>

definition is_utf8 :: "byte list \<Rightarrow> bool" where
  "is_utf8 bytes \<longleftrightarrow> None \<notin> set (utf8_decode (map unat bytes))"

definition process_escape :: "process_outcome \<Rightarrow> py_error \<Rightarrow> bool" where
  \<comment> \<open>the process ends with an exception that is not caught\<close>
  "process_escape outcome problem = (case outcome of
      Completed rc out err \<Rightarrow> (\<not> is_utf8 out \<or> \<not> is_utf8 err) \<and> fst problem = ''UnicodeDecodeError''
    | OtherRaised e \<Rightarrow> problem = e | _ \<Rightarrow> False)"

definition output_escape :: "runner_services \<Rightarrow> process_outcome \<Rightarrow> py_error \<Rightarrow> bool" where
  \<comment> \<open>what it printed cannot be parsed, for another reason than its syntax, or has a finding that cannot be encoded\<close>
  "output_escape rns outcome problem = (case outcome of
      Completed rc out err \<Rightarrow> (\<exists>text. process_text (rns_wide rns) (rns_decode_message rns) out = Inr text \<and> strip text \<noteq> [] \<and>
        (rns_json_loads rns text = Inl (JsonRaised problem) \<or>
         (\<exists>v results. rns_json_loads rns text = Inr (JObj v) \<and> norm_read_list (obj_get v ''results'') = results \<and>
            identity_error (rns_encode_error rns) results = Some problem)))
    | _ \<Rightarrow> False)"

definition runner_escape :: "runner_services \<Rightarrow> int \<Rightarrow> string option \<Rightarrow> py_error \<Rightarrow> bool" where
  \<comment> \<open>the exceptions besides its own that leave the runner when it writes no file: of the current directory, of a look for a rule
      file, of the process and of the decoder\<close>
  "runner_escape rns timeout_ms cwd problem \<longleftrightarrow> rns_cwd rns = Inl problem \<or> (\<exists>path. rns_exists rns path = Inl problem) \<or>
     (\<exists>command. let outcome = fst (rns_run rns command timeout_ms cwd) in process_escape outcome problem \<or> output_escape rns outcome problem)"

lemma process_text_cases:
  "process_text wide message bytes = Inl e \<Longrightarrow> \<not> is_utf8 bytes \<and> fst e = ''UnicodeDecodeError''"
  "process_text wide message bytes = Inr t \<Longrightarrow> is_utf8 bytes"
  by (auto simp: process_text_def decode_utf8_def is_utf8_def Let_def split: if_splits)

lemma strip_empty: "strip [] = []"
  by (simp add: strip_def lstrip_def rstrip_def)

lemma run_command_cases:
  "run_command wide message outcome elapsed command = Inl e \<Longrightarrow> process_escape outcome e"
  "run_command wide message outcome elapsed command = Inr raw \<Longrightarrow> \<not> process_escape outcome e \<and> raw_command raw = command \<and>
     (raw_timed_out raw \<longrightarrow> raw_exit_code raw = -1)"
  by (auto simp: run_command_def process_escape_def bind_sum_eq_Inl bind_sum_eq_Inr dest: process_text_cases split: process_outcome.splits)

lemma normalize_raises:
  assumes "run_command (rns_wide rns) (rns_decode_message rns) outcome elapsed command = Inr raw"
    and "normalize_process_output digest (rns_encode_error rns) (rns_json_loads rns) rid raw = Inl e"
  shows "output_escape rns outcome e"
  using assms
  by (auto simp: strip_empty run_command_def output_escape_def normalize_process_output_def bind_sum_eq_Inr Let_def
      split: process_outcome.splits if_splits sum.splits json.splits json_failure.splits option.splits)

lemma normalize_returns:
  assumes "run_command (rns_wide rns) (rns_decode_message rns) outcome elapsed command = Inr raw"
    and "normalize_process_output digest (rns_encode_error rns) (rns_json_loads rns) rid raw = Inr artifact"
  shows "\<not> output_escape rns outcome e"
  using assms
  by (auto simp: run_command_def output_escape_def normalize_process_output_def bind_sum_eq_Inr Let_def
      split: process_outcome.splits if_splits)

lemma config_options_raise:
  "first_existing exists ps = Inl e \<Longrightarrow> \<exists>p. exists p = Inl e"
  "config_options exists (config_roots repo_root cwd) cs = Inl e \<Longrightarrow> cwd = Inl e \<or> (\<exists>p. exists p = Inl e)"
proof -
  show first: "first_existing exists ps = Inl e \<Longrightarrow> \<exists>p. exists p = Inl e" for ps
    by (induction ps) (auto simp: bind_sum_eq_Inl split: if_splits)
  show "config_options exists (config_roots repo_root cwd) cs = Inl e \<Longrightarrow> cwd = Inl e \<or> (\<exists>p. exists p = Inl e)"
    by (induction cs)
      (auto simp: bind_sum_eq_Inl resolve_config_reference_def config_roots_def split: if_splits dest: first)
qed


lemma scan_result_cases:
  assumes "run_semgrep_scan rns review_run_id targets config cwd artifact_dir = Inr result"
  shows "targets \<noteq> [] \<and> 0 < ssc_timeout_ms (used_scan_config rns config)"
    and "normalize_process_output (rns_digest rns) (rns_encode_error rns) (rns_json_loads rns) review_run_id (ssr_raw_output result) = Inr (ssr_artifact result)"
    and "raw_timed_out (ssr_raw_output result) \<longrightarrow> raw_exit_code (ssr_raw_output result) = -1"
    and "ssr_raw_artifact result = None \<longleftrightarrow> artifact_dir = None"
    and "let outcome = fst (rns_run rns (raw_command (ssr_raw_output result)) (ssc_timeout_ms (used_scan_config rns config)) cwd)
      in \<forall>problem. \<not> process_escape outcome problem \<and> \<not> output_escape rns outcome problem"
proof -
  let ?run = "\<lambda>command. rns_run rns command (ssc_timeout_ms (used_scan_config rns config)) cwd"
  from assms obtain command raw raw_artifact normalized where
    command: "build_command (rns_exists rns) (config_roots (rns_repo_root rns) (rns_cwd rns)) (used_scan_config rns config) targets = Inr command"
    and run: "run_command (rns_wide rns) (rns_decode_message rns) (fst (?run command)) (snd (?run command)) command = Inr raw"
    and written: "write_raw_artifact rns review_run_id raw artifact_dir = Inr raw_artifact"
    and normalized: "normalize_process_output (rns_digest rns) (rns_encode_error rns) (rns_json_loads rns) review_run_id raw = Inr normalized"
    and result: "result = \<lparr> ssr_artifact = normalized, ssr_raw_output = raw, ssr_raw_artifact = raw_artifact \<rparr>"
    by (auto simp: run_semgrep_scan_def Let_def bind_sum_eq_Inr map_sum_Inr case_prod_beta)
  from command show "targets \<noteq> [] \<and> 0 < ssc_timeout_ms (used_scan_config rns config)"
    by (auto simp: build_command_def split: if_splits)
  from normalized show "normalize_process_output (rns_digest rns) (rns_encode_error rns) (rns_json_loads rns) review_run_id (ssr_raw_output result) = Inr (ssr_artifact result)"
    by (simp add: result)
  from written show "ssr_raw_artifact result = None \<longleftrightarrow> artifact_dir = None"
    by (auto simp: result write_raw_artifact_def Let_def split: option.splits)
  from run_command_cases(2) [OF run] normalize_returns [OF run normalized]
  show "raw_timed_out (ssr_raw_output result) \<longrightarrow> raw_exit_code (ssr_raw_output result) = -1"
    and "let outcome = fst (rns_run rns (raw_command (ssr_raw_output result)) (ssc_timeout_ms (used_scan_config rns config)) cwd)
      in \<forall>problem. \<not> process_escape outcome problem \<and> \<not> output_escape rns outcome problem"
    by (auto simp: result)
qed

lemma scan_error_cases:
  assumes "run_semgrep_scan rns review_run_id targets config cwd artifact_dir = Inl e"
  shows "case e of SemgrepProcessError m \<Rightarrow> targets = [] \<or> ssc_timeout_ms (used_scan_config rns config) \<le> 0
    | OtherError problem \<Rightarrow> targets \<noteq> [] \<and> 0 < ssc_timeout_ms (used_scan_config rns config) \<and>
        (runner_escape rns (ssc_timeout_ms (used_scan_config rns config)) cwd problem \<or>
         artifact_dir \<noteq> None \<and> (\<exists>path text. rns_write rns path text = Some problem))"
proof -
  let ?config = "used_scan_config rns config"
  let ?command = "build_command (rns_exists rns) (config_roots (rns_repo_root rns) (rns_cwd rns)) ?config targets"
  let ?run = "\<lambda>command. rns_run rns command (ssc_timeout_ms ?config) cwd"
  let ?raw = "\<lambda>command. run_command (rns_wide rns) (rns_decode_message rns) (fst (?run command)) (snd (?run command)) command"
  have runner: "runner_escape rns (ssc_timeout_ms ?config) cwd problem"
    if "process_escape (fst (?run command)) problem \<or> output_escape rns (fst (?run command)) problem" for command problem
    using that unfolding runner_escape_def Let_def by blast
  have started: "targets \<noteq> [] \<and> 0 < ssc_timeout_ms ?config" if "?command = Inr command" for command
    using that by (auto simp: build_command_def split: if_splits)
  from assms consider "?command = Inl e"
    | (ran) command problem where "?command = Inr command" "?raw command = Inl problem" "e = OtherError problem"
    | (wrote) command raw where "?command = Inr command" "write_raw_artifact rns review_run_id raw artifact_dir = Inl e"
    | (parsed) command raw problem where "?command = Inr command" "?raw command = Inr raw"
      "normalize_process_output (rns_digest rns) (rns_encode_error rns) (rns_json_loads rns) review_run_id raw = Inl problem" "e = OtherError problem"
    by (auto simp: run_semgrep_scan_def Let_def bind_sum_eq_Inl map_sum_Inl map_sum_Inr case_prod_beta)
  then show ?thesis
  proof cases
    case 1
    then show ?thesis
      by (auto simp: build_command_def map_sum_Inl runner_escape_def split: if_splits dest!: config_options_raise(2))
  next
    case ran
    from runner [of command problem] run_command_cases(1) [OF ran(2)] started [OF ran(1)] ran(3) show ?thesis by simp
  next
    case wrote
    from started [OF wrote(1)] wrote(2) show ?thesis by (auto simp: write_raw_artifact_def Let_def split: option.splits)
  next
    case parsed
    from runner [of command problem] normalize_raises [OF parsed(2,3)] started [OF parsed(1)] parsed(4) show ?thesis by simp
  qed
qed

text \<open>C33: A Semgrep scan raises its own error exactly when there is no target or the timeout is not positive. Otherwise it either yields
  an artifact or lets an exception through: of the current directory or the look for a rule file, of the process if that is neither a
  timeout nor an \<open>OSError\<close>, a UnicodeDecodeError if the process printed bytes that are not UTF-8, of \<open>json.loads\<close> if that is not a
  JSONDecodeError, of a finding whose identity cannot be encoded, or of the file asked for with the raw output. Whenever the process or its output gives no such exception (it returns any
  status, any text, times out, or cannot be started), the artifact passes the Semgrep contract and records the process's status and
  non-negative duration, carries an error whenever the process timed out or ended with a status other than 0 and 1, and there is a raw
  artifact exactly if a directory for it was given.\<close>

theorem semgrep_scan_yields_artifact_or_escapes:
  assumes "nonblank review_run_id" and "config' = used_scan_config rns config"
  shows "case run_semgrep_scan rns review_run_id targets config cwd artifact_dir of
     Inl (SemgrepProcessError m) \<Rightarrow> targets = [] \<or> ssc_timeout_ms config' \<le> 0
   | Inl (OtherError problem) \<Rightarrow> targets \<noteq> [] \<and> 0 < ssc_timeout_ms config' \<and>
       (runner_escape rns (ssc_timeout_ms config') cwd problem \<or> artifact_dir \<noteq> None \<and> (\<exists>path text. rns_write rns path text = Some problem))
   | Inr result \<Rightarrow> targets \<noteq> [] \<and> 0 < ssc_timeout_ms config' \<and> (ssr_raw_artifact result = None \<longleftrightarrow> artifact_dir = None) \<and>
       (let outcome = fst (rns_run rns (raw_command (ssr_raw_output result)) (ssc_timeout_ms config') cwd)
        in \<forall>problem. \<not> process_escape outcome problem \<and> \<not> output_escape rns outcome problem) \<and>
       (\<exists>a. SemgrepArtifact_from_mapping (ssr_artifact result) = Inr a \<and> sga_review_run_id a = review_run_id \<and>
         sga_exit_code a = raw_exit_code (ssr_raw_output result) \<and> sga_duration_ms a = max (raw_duration_ms (ssr_raw_output result)) 0 \<and>
         (sga_errors a \<noteq> [] \<or> (\<not> raw_timed_out (ssr_raw_output result) \<and> raw_exit_code (ssr_raw_output result) \<in> {0, 1})))"
proof (cases "run_semgrep_scan rns review_run_id targets config cwd artifact_dir")
  case (Inl e)
  with scan_error_cases [OF Inl] show ?thesis by (cases e) (simp_all add: assms(2))
next
  case (Inr result)
  from process_output_artifact [OF assms(1) scan_result_cases(2) [OF Inr]]
  obtain a where "ssr_artifact result = enc_SemgrepArtifact a" "ok_SemgrepArtifact a" "sga_review_run_id a = review_run_id"
    "sga_exit_code a = raw_exit_code (ssr_raw_output result)" "sga_duration_ms a = max (raw_duration_ms (ssr_raw_output result)) 0"
    "sga_errors a \<noteq> [] \<or> raw_exit_code (ssr_raw_output result) \<in> {0, 1}"
    by auto
  with scan_result_cases [OF Inr] SemgrepArtifact.roundtrip [of a] show ?thesis by (auto simp: Inr assms(2))
qed

definition sample_runner :: runner_services where
  "sample_runner = \<lparr> rns_env = (\<lambda>k. None), rns_exists = (\<lambda>p. Inr False), rns_repo_root = ''/app'', rns_cwd = Inr ''/app'',
     rns_run = (\<lambda>command timeout cwd. (Completed 0 [0x7B] [], 7)), rns_wide = (\<lambda>n. CHR ''?''), rns_decode_message = (\<lambda>b. []),
     rns_write = (\<lambda>path text. None), rns_json_loads = (\<lambda>s. Inl (JSONDecodeError ''Expecting value'')), rns_json_dumps = (\<lambda>j. ''{}''),
     rns_encode_error = (\<lambda>t. None), rns_digest = (\<lambda>t. t) \<rparr>"

definition binary_runner :: runner_services where
  \<comment> \<open>the process prints a byte that no UTF-8 text has\<close>
  "binary_runner = sample_runner\<lparr>rns_run := \<lambda>command timeout cwd. (Completed 0 [0xFF] [], 7)\<rparr>"

theorem semgrep_scan_yields_artifact_or_escapes_witness:
  "(\<exists>result. run_semgrep_scan sample_runner ''run-1'' [''a.py''] None (Some ''/tmp/scan'') (Some ''/data'') = Inr result \<and>
     map_option sra_path (ssr_raw_artifact result) = Some ''/data/run-1.semgrep.raw.json'' \<and>
     (\<exists>a. SemgrepArtifact_from_mapping (ssr_artifact result) = Inr a \<and> sga_exit_code a = 0)) \<and>
   run_semgrep_scan binary_runner ''run-1'' [''a.py''] None (Some ''/tmp/scan'') None = Inl (OtherError (''UnicodeDecodeError'', []))"
proof
  let ?scan = "run_semgrep_scan sample_runner ''run-1'' [''a.py''] None (Some ''/tmp/scan'') (Some ''/data'')"
  have "nonblank ''run-1''" by code_simp
  note holds = semgrep_scan_yields_artifact_or_escapes [OF this refl, where rns = sample_runner and targets = "[''a.py'']" and config = None
      and cwd = "Some ''/tmp/scan''" and artifact_dir = "Some ''/data''"]
  have computed: "map_sum id (\<lambda>r. (map_option sra_path (ssr_raw_artifact r), raw_exit_code (ssr_raw_output r))) ?scan =
      Inr (Some ''/data/run-1.semgrep.raw.json'', 0)"
    by code_simp
  then obtain result where result: "?scan = Inr result" by (cases ?scan) auto
  from holds computed show "\<exists>result. ?scan = Inr result \<and> map_option sra_path (ssr_raw_artifact result) = Some ''/data/run-1.semgrep.raw.json'' \<and>
     (\<exists>a. SemgrepArtifact_from_mapping (ssr_artifact result) = Inr a \<and> sga_exit_code a = 0)"
    unfolding result by auto
qed code_simp

end
