(* ===== verification/SemgrepWorkspace.thy ===== *)
theory SemgrepWorkspace
  imports PyPath "HOL-Library.Sublist"
begin

text \<open>
  semgrep/workspace.py: the changed files are written into a fresh temporary directory. The directory
  is modelled by the list of files written so far; creating and removing it is not modelled. In a fresh
  directory without symbolic links a path whose segments are neither empty, dot nor dot-dot stays inside, so the
  second containment check (\<open>_assert_path_within\<close> on resolved paths) has no counterpart.
\<close>

definition SUPPORTED_SEMGREP_LANGUAGES :: "string list" where
  "SUPPORTED_SEMGREP_LANGUAGES = [''dockerfile'', ''go'', ''hcl'', ''java'', ''javascript'', ''json'', ''python'',
     ''terraform'', ''typescript'', ''yaml'']"

definition DELETED_FILE_STATUSES :: "string list" where
  "DELETED_FILE_STATUSES = [''deleted'', ''removed'']"

datatype workspace_error =
    SemgrepScanWorkspaceError string
  | WorkspaceOSError string     \<comment> \<open>a file stands where a directory is needed, or the reverse\<close>

record ChangedFileScanInput =
  csi_path :: string
  csi_content :: string
  csi_status :: string
  csi_language :: "string option"

record SemgrepWorkspaceSkippedFile =
  wsf_path :: string
  wsf_reason :: string
  wsf_detail :: string

record workspace_state =
  ws_targets :: "string list"
  ws_skipped :: "SemgrepWorkspaceSkippedFile list"
  ws_seen :: "string list"
  ws_files :: "(string \<times> string) list"    \<comment> \<open>what has been written, in order\<close>

definition skip_reason :: "ChangedFileScanInput \<Rightarrow> (string \<times> string) option" where
  "skip_reason f =
     (if lower (csi_status f) \<in> set DELETED_FILE_STATUSES
      then Some (''deleted'', ''Deleted files do not have head content to scan.'')
      else case csi_language f of
          None \<Rightarrow> Some (''unsupported'', ''File language is not enabled for Semgrep changed-file scans.'')
        | Some l \<Rightarrow> if lower l \<notin> set SUPPORTED_SEMGREP_LANGUAGES
            then Some (''unsupported'', ''File language is not enabled for Semgrep changed-file scans.'') else None)"

definition validate_repository_relative_path :: "string \<Rightarrow> workspace_error + string" where
  "validate_repository_relative_path path =
     (if CHR 0x00 \<in> set path then Inl (SemgrepScanWorkspaceError ''Changed-file path cannot contain NUL bytes.'')
      else if CHR 0x5C \<in> set path
        then Inl (SemgrepScanWorkspaceError ''Changed-file path must use repository-relative POSIX separators.'')
      else if strip path = [] \<or> path_is_absolute path
        then Inl (SemgrepScanWorkspaceError ''Changed-file path must be repository-relative.'')
      else if \<exists>part \<in> set (split_char (CHR ''/'') path). part \<in> set [[], ''.'', ''..'']
        then Inl (SemgrepScanWorkspaceError ''Changed-file path cannot contain empty, current, or parent segments.'')
      else Inr (path_str path))"

definition blocks :: "string \<Rightarrow> string \<Rightarrow> bool" where
  \<comment> \<open>one of the two paths would have to be both a file and a directory\<close>
  "blocks p q \<longleftrightarrow> strict_prefix (split_char (CHR ''/'') p) (split_char (CHR ''/'') q) \<or>
     strict_prefix (split_char (CHR ''/'') q) (split_char (CHR ''/'') p)"

definition add_skipped :: "string \<Rightarrow> string \<Rightarrow> string \<Rightarrow> workspace_state \<Rightarrow> workspace_state" where
  "add_skipped path reason detail st =
     st\<lparr>ws_skipped := ws_skipped st @ [\<lparr> wsf_path = path, wsf_reason = reason, wsf_detail = detail \<rparr>]\<rparr>"

definition populate_step :: "workspace_state \<Rightarrow> ChangedFileScanInput \<Rightarrow> workspace_error + workspace_state" where
  "populate_step st f =
     bind_sum (validate_repository_relative_path (csi_path f)) (\<lambda>repo_path.
       if repo_path \<in> set (ws_seen st) then
         Inr (add_skipped repo_path ''duplicate_path''
                ''Duplicate changed-file path was not copied into the scan workspace.'' st)
       else
         (let st' = st\<lparr>ws_seen := ws_seen st @ [repo_path]\<rparr>
          in case skip_reason f of
               Some (reason, detail) \<Rightarrow> Inr (add_skipped repo_path reason detail st')
             | None \<Rightarrow>
                 if \<exists>q \<in> fst ` set (ws_files st). blocks repo_path q then Inl (WorkspaceOSError repo_path)
                 else Inr (st'\<lparr>ws_files := ws_files st @ [(repo_path, csi_content f)],
                               ws_targets := ws_targets st @ [repo_path]\<rparr>)))"

fun populate_from :: "workspace_state \<Rightarrow> ChangedFileScanInput list \<Rightarrow> workspace_error + workspace_state" where
  "populate_from st [] = Inr st"
| "populate_from st (f # fs) = bind_sum (populate_step st f) (\<lambda>st'. populate_from st' fs)"

definition populate_workspace :: "ChangedFileScanInput list \<Rightarrow> workspace_error + workspace_state" where
  "populate_workspace changed_files =
     populate_from \<lparr> ws_targets = [], ws_skipped = [], ws_seen = [], ws_files = [] \<rparr> changed_files"

section \<open>Paths stay inside, files are written once\<close>

definition safe_path :: "string \<Rightarrow> bool" where
  "safe_path p \<longleftrightarrow> nonblank p \<and> CHR 0x00 \<notin> set p \<and> CHR 0x5C \<notin> set p \<and> \<not> path_is_absolute p \<and>
     (\<forall>part \<in> set (split_char (CHR ''/'') p). part \<noteq> [] \<and> part \<noteq> ''.'' \<and> part \<noteq> ''..'')"

lemma validate_Inr:
  "validate_repository_relative_path p = Inr q \<longleftrightarrow> q = p \<and> safe_path p"
  using path_str_plain(1) [of p]
  by (auto simp: validate_repository_relative_path_def safe_path_def nonblank_def list_all_iff)

fun first_by_path :: "string list \<Rightarrow> ChangedFileScanInput list \<Rightarrow> ChangedFileScanInput list" where
  \<comment> \<open>the reference: the first file of every path not in \<open>seen\<close>\<close>
  "first_by_path seen [] = []"
| "first_by_path seen (f # fs) =
     (if csi_path f \<in> set seen then first_by_path seen fs else f # first_by_path (csi_path f # seen) fs)"

lemma first_by_path_cong: "set seen = set seen' \<Longrightarrow> first_by_path seen fs = first_by_path seen' fs"
proof (induction fs arbitrary: seen seen')
  case (Cons f fs)
  have "set (csi_path f # seen) = set (csi_path f # seen')" using Cons.prems by simp
  from Cons.IH [OF this] Cons.IH [OF Cons.prems] Cons.prems show ?case
    unfolding first_by_path.simps by (metis)
qed simp

lemma paths_first_by_path:
  "distinct (map csi_path (first_by_path seen fs)) \<and> set (map csi_path (first_by_path seen fs)) \<inter> set seen = {}"
proof (induction fs arbitrary: seen)
  case (Cons f fs)
  from Cons.IH [of seen] Cons.IH [of "csi_path f # seen"] show ?case by auto
qed simp

lemma populate_from_spec:
  "populate_from st fs = Inr st' \<Longrightarrow>
     ws_files st' = ws_files st @ map (\<lambda>f. (csi_path f, csi_content f))
       (filter (\<lambda>f. skip_reason f = None) (first_by_path (ws_seen st) fs)) \<and>
     ws_targets st' = ws_targets st @ map csi_path
       (filter (\<lambda>f. skip_reason f = None) (first_by_path (ws_seen st) fs)) \<and>
     length (ws_targets st') + length (ws_skipped st') = length (ws_targets st) + length (ws_skipped st) + length fs \<and>
     (\<forall>f \<in> set fs. safe_path (csi_path f))"
proof (induction fs arbitrary: st)
  case (Cons f fs)
  from Cons.prems obtain st1 where step: "populate_step st f = Inr st1" and rest: "populate_from st1 fs = Inr st'"
    by (auto simp: bind_sum_eq_Inr)
  from step have safe: "safe_path (csi_path f)" and path: "validate_repository_relative_path (csi_path f) = Inr (csi_path f)"
    by (auto simp: populate_step_def bind_sum_eq_Inr validate_Inr)
  note IH = Cons.IH [OF rest]
  have seen: "first_by_path (ws_seen st @ [csi_path f]) fs = first_by_path (csi_path f # ws_seen st) fs"
    by (rule first_by_path_cong) auto
  from step path IH safe seen show ?case
    by (auto simp: populate_step_def add_skipped_def Let_def split: if_splits option.splits)
qed simp

text \<open>C34: When the scan workspace is populated, what was written is exactly the first file of every path,
  in order and with its content, as long as it is neither deleted nor in an unsupported language; the scan
  targets are those paths, without repetition; every changed file is a target or is listed as skipped; and
  no path that was accepted is blank, absolute, or has an empty, dot or dot-dot segment, a backslash or a NUL.\<close>

theorem scan_workspace_holds_first_safe_files:
  assumes "populate_workspace changed_files = Inr ws"
  shows "ws_files ws = map (\<lambda>f. (csi_path f, csi_content f))
       (filter (\<lambda>f. skip_reason f = None) (first_by_path [] changed_files)) \<and>
     ws_targets ws = map fst (ws_files ws) \<and> distinct (ws_targets ws) \<and>
     length (ws_targets ws) + length (ws_skipped ws) = length changed_files \<and>
     (\<forall>f \<in> set changed_files. safe_path (csi_path f))"
proof -
  have "distinct (map csi_path (filter P (first_by_path [] changed_files)))" for P
    using paths_first_by_path [of "[]" changed_files] by (auto simp: distinct_map_filter)
  moreover from populate_from_spec [OF assms [unfolded populate_workspace_def]]
  have "ws_targets ws = map fst (ws_files ws)" by (simp add: comp_def)
  ultimately show ?thesis
    using populate_from_spec [OF assms [unfolded populate_workspace_def]] by auto
qed

definition sample_changed_files :: "ChangedFileScanInput list" where
  "sample_changed_files = [
     \<lparr> csi_path = ''a/b.py'', csi_content = ''x'', csi_status = ''modified'', csi_language = Some ''Python'' \<rparr>,
     \<lparr> csi_path = ''a/b.py'', csi_content = ''y'', csi_status = ''modified'', csi_language = Some ''python'' \<rparr>,
     \<lparr> csi_path = ''c.txt'', csi_content = ''z'', csi_status = ''added'', csi_language = None \<rparr>]"

theorem scan_workspace_holds_first_safe_files_witness:
  "\<exists>ws. populate_workspace sample_changed_files = Inr ws \<and> ws_files ws = [(''a/b.py'', ''x'')] \<and>
     ws_targets ws = map fst (ws_files ws) \<and> length (ws_skipped ws) = 2"
proof -
  let ?ws = "\<lparr> ws_targets = [''a/b.py''],
     ws_skipped = [\<lparr> wsf_path = ''a/b.py'', wsf_reason = ''duplicate_path'',
          wsf_detail = ''Duplicate changed-file path was not copied into the scan workspace.'' \<rparr>,
        \<lparr> wsf_path = ''c.txt'', wsf_reason = ''unsupported'',
          wsf_detail = ''File language is not enabled for Semgrep changed-file scans.'' \<rparr>],
     ws_seen = [''a/b.py'', ''c.txt''], ws_files = [(''a/b.py'', ''x'')] \<rparr>"
  have ws: "populate_workspace sample_changed_files = Inr ?ws" by code_simp
  from scan_workspace_holds_first_safe_files [OF ws] have "ws_targets ?ws = map fst (ws_files ?ws)" by blast
  with ws show ?thesis by (intro exI [of _ ?ws]) simp
qed

end
