(* ===== verification/Chunker.thy ===== *)
theory Chunker
  imports ContractsTreeSitter "HOL-Library.Product_Lexorder"
begin

text \<open>
  context/chunker.py: for every changed hunk a piece of numbered source text around it, as large as the
  budget allows. The tree-sitter artifact is the typed record of the contract (a dictionary is read by the
  same keys), sets of line numbers are \<open>int set\<close>, the token counter is an optional function of the options.
\<close>

definition CONTEXT_CHUNK_ARTIFACT_SCHEMA_VERSION :: string where
  "CONTEXT_CHUNK_ARTIFACT_SCHEMA_VERSION = ''context-chunks/v1''"

datatype context_budget_error = ContextBudgetError string

record ChangedHunk =
  ch_new_start :: int
  ch_new_line_count :: int

definition ch_new_end :: "ChangedHunk \<Rightarrow> int" where
  "ch_new_end h = max (ch_new_start h) (ch_new_start h + ch_new_line_count h - 1)"

record SyntaxAwareSourceFile =
  sf_path :: string
  sf_content :: string
  sf_changed_lines :: "int list"
  sf_hunks :: "ChangedHunk list"
  sf_language :: "string option"

record SyntaxAwareChunkOptions =
  co_max_chars :: int
  co_max_tokens :: "int option"
  co_context_lines :: int
  co_token_counter :: "(string \<Rightarrow> int) option"

section \<open>Line ranges\<close>

definition line_count :: "LineRange \<Rightarrow> int" where
  "line_count r = max 0 (lr_end_line r - lr_start_line r + 1)"

abbreviation mk_range :: "int \<Rightarrow> int \<Rightarrow> LineRange" where
  "mk_range a b \<equiv> \<lparr> lr_start_line = a, lr_end_line = b \<rparr>"

definition range_lines :: "LineRange \<Rightarrow> int set" where
  \<comment> \<open>\<open>set(range(start, end + 1))\<close>\<close>
  "range_lines r = set [lr_start_line r..lr_end_line r]"

definition clamp_range :: "LineRange \<Rightarrow> int \<Rightarrow> LineRange" where
  "clamp_range r file_line_count =
     (if file_line_count \<le> 0 then mk_range 1 1
      else let start_line = min file_line_count (max 1 (lr_start_line r));
               end_line = min file_line_count (max start_line (lr_end_line r))
           in mk_range start_line end_line)"

definition ranges_intersect :: "LineRange \<Rightarrow> LineRange \<Rightarrow> bool" where
  "ranges_intersect a b \<longleftrightarrow> lr_start_line a \<le> lr_end_line b \<and> lr_start_line b \<le> lr_end_line a"

definition range_label :: "LineRange \<Rightarrow> string" where
  "range_label r = (if lr_start_line r = lr_end_line r then ''L'' @ str_of_int (lr_start_line r)
     else ''L'' @ str_of_int (lr_start_line r) @ ''-L'' @ str_of_int (lr_end_line r))"

definition selected_line_range :: "int set \<Rightarrow> LineRange" where
  "selected_line_range s = (if s = {} then mk_range 1 1 else mk_range (Min s) (Max s))"

section \<open>Symbols and imports\<close>

definition smallest_enclosing_symbol :: "TreeSitterFileArtifact option \<Rightarrow> LineRange \<Rightarrow> TreeSitterSymbol option" where
  "smallest_enclosing_symbol tree_file r =
     (let symbols = (case tree_file of Some f \<Rightarrow> tsf_symbols f | None \<Rightarrow> []);
          containing = filter (\<lambda>s. lr_start_line (tss_range s) \<le> lr_start_line r \<and> lr_end_line r \<le> lr_end_line (tss_range s)) symbols;
          chosen = (if containing = [] then filter (\<lambda>s. ranges_intersect (tss_range s) r) symbols else containing)
      in if chosen = [] then None
         else Some (arg_min_list (\<lambda>s. (line_count (tss_range s), lr_start_line (tss_range s))) chosen))"

definition chunk_imports :: "TreeSitterFileArtifact option \<Rightarrow> TreeSitterImport list" where
  "chunk_imports tree_file = (case tree_file of Some f \<Rightarrow> tsf_imports f | None \<Rightarrow> [])"

definition import_label :: "TreeSitterImport \<Rightarrow> string" where
  "import_label i = (if tsi_symbols i \<noteq> [] then tsi_source i @ '' ('' @ join '', '' (tsi_symbols i) @ '')'' else tsi_source i)"

definition tree_sitter_file_map :: "TreeSitterArtifact \<Rightarrow> string \<Rightarrow> TreeSitterFileArtifact option" where
  "tree_sitter_file_map a = foldl (\<lambda>m f. if tsf_path f \<noteq> [] then m(tsf_path f \<mapsto> f) else m) Map.empty (tsa_files a)"

section \<open>Rendering within the budget\<close>

record render_context =
  rx_path :: string
  rx_language :: "string option"
  rx_hunk_range :: LineRange
  rx_changed_lines :: "int set"
  rx_enclosing_symbol :: "TreeSitterSymbol option"
  rx_imports :: "TreeSitterImport list"
  rx_lines :: "string list"

record rendered_chunk =
  rc_selected_lines :: "int set"
  rc_text :: string
  rc_char_count :: int
  rc_token_count :: int

definition count_tokens :: "string \<Rightarrow> SyntaxAwareChunkOptions \<Rightarrow> int" where
  "count_tokens text options = (case co_token_counter options of
      Some f \<Rightarrow> f text
    | None \<Rightarrow> if text \<noteq> [] then max 1 ((int (length text) + 3) div 4) else 0)"

definition pad_left :: "nat \<Rightarrow> string \<Rightarrow> string" where
  "pad_left n s = replicate (n - length s) (CHR '' '') @ s"

definition numbered_line :: "render_context \<Rightarrow> int \<Rightarrow> string" where
  \<comment> \<open>\<open>marker\<close>, the number right-aligned in four columns, the source line\<close>
  "numbered_line ctx l = (if l \<in> rx_changed_lines ctx then ''*'' else '' '') @ pad_left 4 (str_of_int l) @ '' | '' @
     rx_lines ctx ! nat (l - 1)"

fun numbered_lines :: "render_context \<Rightarrow> int option \<Rightarrow> int list \<Rightarrow> string list" where
  \<comment> \<open>second argument: \<open>previous_line\<close>\<close>
  "numbered_lines ctx prev [] = []"
| "numbered_lines ctx prev (l # ls) =
     (case prev of Some p \<Rightarrow> if l > p + 1 then [''...''] else [] | None \<Rightarrow> []) @
     numbered_line ctx l # numbered_lines ctx (Some l) ls"

definition header_lines :: "render_context \<Rightarrow> int set \<Rightarrow> string list" where
  "header_lines ctx selected =
     (let included = filter (\<lambda>i. tsi_line i \<in> selected) (rx_imports ctx)
      in [''File: '' @ rx_path ctx, ''Hunk: '' @ range_label (rx_hunk_range ctx)] @
         (case rx_language ctx of Some l \<Rightarrow> if l \<noteq> [] then [''Language: '' @ l] else [] | None \<Rightarrow> []) @
         (case rx_enclosing_symbol ctx of None \<Rightarrow> []
          | Some s \<Rightarrow> [''Scope: '' @ or_else (tss_kind s) ''symbol'' @ '' '' @ tss_name s @ '' '' @ range_label (tss_range s)]) @
         (if included \<noteq> [] then [''Imports: '' @ join ''; '' (map import_label included)] else []))"

definition render_chunk :: "int set \<Rightarrow> render_context \<Rightarrow> SyntaxAwareChunkOptions \<Rightarrow> rendered_chunk" where
  "render_chunk selected ctx options =
     (let sorted_lines = filter (\<lambda>l. 0 < l \<and> l \<le> int (length (rx_lines ctx))) (sorted_list_of_set selected);
          text = join [CHR 0x0A] (header_lines ctx selected @ numbered_lines ctx None sorted_lines)
      in \<lparr> rc_selected_lines = set sorted_lines, rc_text = text, rc_char_count = int (length text),
           rc_token_count = count_tokens text options \<rparr>)"

definition within_budget :: "rendered_chunk \<Rightarrow> SyntaxAwareChunkOptions \<Rightarrow> bool" where
  "within_budget r options \<longleftrightarrow> \<not> rc_char_count r > co_max_chars options \<and>
     (case co_max_tokens options of Some m \<Rightarrow> \<not> rc_token_count r > m | None \<Rightarrow> True)"

definition expand_chunk :: "render_context \<Rightarrow> SyntaxAwareChunkOptions \<Rightarrow> rendered_chunk \<Rightarrow> LineRange \<Rightarrow> rendered_chunk" where
  \<comment> \<open>one round of the loop over \<open>candidate_ranges\<close>\<close>
  "expand_chunk ctx options rendered r =
     (let candidate = render_chunk (rc_selected_lines rendered \<union> range_lines r) ctx options
      in if within_budget candidate options then candidate else rendered)"

definition render_with_budget ::
  "int set \<Rightarrow> LineRange list \<Rightarrow> render_context \<Rightarrow> SyntaxAwareChunkOptions \<Rightarrow> context_budget_error + rendered_chunk" where
  "render_with_budget selected candidate_ranges ctx options =
     (let rendered = render_chunk selected ctx options
      in if \<not> within_budget rendered options
         then Inl (ContextBudgetError (''changed lines for '' @ rx_path ctx @ '' exceed context budget ('' @
                str_of_int (rc_char_count rendered) @ '' chars, '' @ str_of_int (rc_token_count rendered) @ '' tokens)''))
         else Inr (foldl (expand_chunk ctx options) rendered candidate_ranges))"

definition candidate_ranges ::
  "LineRange \<Rightarrow> TreeSitterSymbol option \<Rightarrow> TreeSitterImport list \<Rightarrow> int \<Rightarrow> int \<Rightarrow> LineRange list" where
  "candidate_ranges hunk_range symbol imps context_lines file_line_count =
     [hunk_range] @
     (case symbol of Some s \<Rightarrow> [mk_range (lr_start_line (tss_range s)) (lr_start_line (tss_range s))] | None \<Rightarrow> []) @
     map (\<lambda>l. mk_range l l) (filter (\<lambda>l. l > 0) (sort (remdups (map tsi_line imps)))) @
     [clamp_range (mk_range (lr_start_line hunk_range - context_lines) (lr_end_line hunk_range + context_lines)) file_line_count] @
     (case symbol of Some s \<Rightarrow> [clamp_range (tss_range s) file_line_count] | None \<Rightarrow> [])"

section \<open>Chunks and the artifact\<close>

definition all_relevant_lines_included :: "int set \<Rightarrow> LineRange \<Rightarrow> TreeSitterSymbol option \<Rightarrow> bool" where
  "all_relevant_lines_included selected hunk_range symbol \<longleftrightarrow>
     range_lines hunk_range \<subseteq> selected \<and>
     (case symbol of None \<Rightarrow> True | Some s \<Rightarrow> range_lines (tss_range s) \<subseteq> selected)"

record context_chunk =
  cc_id :: string
  cc_path :: string
  cc_language :: string
  cc_range :: LineRange
  cc_hunk_range :: LineRange
  cc_changed_lines :: "int list"
  cc_enclosing_symbol :: "TreeSitterSymbol option"
  cc_imports :: "TreeSitterImport list"
  cc_text :: string
  cc_char_count :: int
  cc_token_count :: int
  cc_truncated :: bool

definition hunk_range_of :: "SyntaxAwareSourceFile \<Rightarrow> ChangedHunk \<Rightarrow> LineRange" where
  "hunk_range_of file hunk =
     clamp_range (mk_range (ch_new_start hunk) (ch_new_end hunk)) (int (length (splitlines (sf_content file))))"

definition changed_lines_of :: "SyntaxAwareSourceFile \<Rightarrow> ChangedHunk \<Rightarrow> int list" where
  "changed_lines_of file hunk =
     (let n = int (length (splitlines (sf_content file))); r = hunk_range_of file hunk
      in filter (\<lambda>l. lr_start_line r \<le> l \<and> l \<le> lr_end_line r \<and> 1 \<le> l \<and> l \<le> n) (sort (remdups (sf_changed_lines file))))"

definition mandatory_lines :: "SyntaxAwareSourceFile \<Rightarrow> ChangedHunk \<Rightarrow> int set" where
  "mandatory_lines file hunk = (if changed_lines_of file hunk \<noteq> [] then set (changed_lines_of file hunk)
     else range_lines (hunk_range_of file hunk))"

definition context_of :: "SyntaxAwareSourceFile \<Rightarrow> ChangedHunk \<Rightarrow> TreeSitterFileArtifact option \<Rightarrow> render_context" where
  "context_of file hunk tree_file =
     \<lparr> rx_path = sf_path file,
       rx_language = (case tree_file of Some f \<Rightarrow> if tsf_language f \<noteq> [] then Some (tsf_language f) else sf_language file
                      | None \<Rightarrow> sf_language file),
       rx_hunk_range = hunk_range_of file hunk, rx_changed_lines = set (changed_lines_of file hunk),
       rx_enclosing_symbol = smallest_enclosing_symbol tree_file (hunk_range_of file hunk),
       rx_imports = chunk_imports tree_file, rx_lines = splitlines (sf_content file) \<rparr>"

definition build_chunk ::
  "SyntaxAwareSourceFile \<Rightarrow> ChangedHunk \<Rightarrow> TreeSitterFileArtifact option \<Rightarrow> SyntaxAwareChunkOptions \<Rightarrow>
   context_budget_error + context_chunk" where
  "build_chunk file hunk tree_file options =
     (let ctx = context_of file hunk tree_file; r = hunk_range_of file hunk; mandatory = mandatory_lines file hunk
      in bind_sum (render_with_budget mandatory
             (candidate_ranges r (rx_enclosing_symbol ctx) (rx_imports ctx) (co_context_lines options)
                (int (length (rx_lines ctx)))) ctx options) (\<lambda>rendered.
           Inr \<lparr> cc_id = sf_path file @ '':'' @ str_of_int (lr_start_line r) @ ''-'' @ str_of_int (lr_end_line r),
                 cc_path = sf_path file,
                 cc_language = (case rx_language ctx of Some l \<Rightarrow> or_else l ''unknown'' | None \<Rightarrow> ''unknown''),
                 cc_range = selected_line_range (rc_selected_lines rendered),
                 cc_hunk_range = r,
                 cc_changed_lines = (if changed_lines_of file hunk \<noteq> [] then changed_lines_of file hunk
                    else sorted_list_of_set mandatory),
                 cc_enclosing_symbol = rx_enclosing_symbol ctx,
                 cc_imports = filter (\<lambda>i. tsi_line i \<in> rc_selected_lines rendered) (rx_imports ctx),
                 cc_text = rc_text rendered, cc_char_count = rc_char_count rendered,
                 cc_token_count = rc_token_count rendered,
                 cc_truncated = (\<not> all_relevant_lines_included (rc_selected_lines rendered) r (rx_enclosing_symbol ctx)) \<rparr>))"

fun sequence_sum :: "('e + 'a) list \<Rightarrow> 'e + 'a list" where
  \<comment> \<open>a list comprehension whose items may raise\<close>
  "sequence_sum [] = Inr []"
| "sequence_sum (x # xs) = bind_sum x (\<lambda>a. bind_sum (sequence_sum xs) (\<lambda>as. Inr (a # as)))"

record context_artifact =
  ca_schema_version :: string
  ca_review_run_id :: string
  ca_max_chars :: int
  ca_max_tokens :: "int option"
  ca_context_lines :: int
  ca_chunks :: "context_chunk list"

definition build_syntax_aware_context_artifact ::
  "string \<Rightarrow> SyntaxAwareSourceFile list \<Rightarrow> TreeSitterArtifact \<Rightarrow> SyntaxAwareChunkOptions \<Rightarrow>
   context_budget_error + context_artifact" where
  "build_syntax_aware_context_artifact review_run_id files tree options =
     bind_sum (sequence_sum (concat (map (\<lambda>file. map (\<lambda>hunk.
         build_chunk file hunk (tree_sitter_file_map tree (sf_path file)) options) (sf_hunks file)) files)))
       (\<lambda>chunks. Inr \<lparr> ca_schema_version = CONTEXT_CHUNK_ARTIFACT_SCHEMA_VERSION, ca_review_run_id = review_run_id,
          ca_max_chars = co_max_chars options, ca_max_tokens = co_max_tokens options,
          ca_context_lines = co_context_lines options, ca_chunks = chunks \<rparr>)"

section \<open>The budget and the lines kept\<close>

lemma rc_selected_render:
  "finite s \<Longrightarrow> rc_selected_lines (render_chunk s ctx o') = {l \<in> s. 0 < l \<and> l \<le> int (length (rx_lines ctx))}"
  by (auto simp: render_chunk_def Let_def)

definition rendered_ok :: "render_context \<Rightarrow> SyntaxAwareChunkOptions \<Rightarrow> rendered_chunk \<Rightarrow> bool" where
  "rendered_ok ctx options r \<longleftrightarrow> within_budget r options \<and> finite (rc_selected_lines r) \<and>
     (\<exists>s. finite s \<and> r = render_chunk s ctx options)"

lemma rendered_ok_render:
  "finite s \<Longrightarrow> within_budget (render_chunk s ctx options) options \<Longrightarrow> rendered_ok ctx options (render_chunk s ctx options)"
  unfolding rendered_ok_def by (auto simp: rc_selected_render)

lemma finite_range_lines [simp]: "finite (range_lines r)"
  by (simp add: range_lines_def)

lemma expand_chunk_ok:
  assumes "rendered_ok ctx options r"
  shows "rendered_ok ctx options (expand_chunk ctx options r c) \<and>
    rc_selected_lines r \<subseteq> rc_selected_lines (expand_chunk ctx options r c) \<and>
    rc_selected_lines (expand_chunk ctx options r c) \<subseteq> rc_selected_lines r \<union> range_lines c"
proof -
  from assms obtain s where s: "finite s" "r = render_chunk s ctx options" and fin: "finite (rc_selected_lines r)"
    by (auto simp: rendered_ok_def)
  have sel: "rc_selected_lines (render_chunk (rc_selected_lines r \<union> range_lines c) ctx options) =
      {l \<in> rc_selected_lines r \<union> range_lines c. 0 < l \<and> l \<le> int (length (rx_lines ctx))}"
    using fin by (intro rc_selected_render) simp
  have "rc_selected_lines r \<subseteq> {l. 0 < l \<and> l \<le> int (length (rx_lines ctx))}"
    using s by (auto simp: rc_selected_render)
  with sel fin assms show ?thesis
    by (auto simp: expand_chunk_def Let_def intro: rendered_ok_render)
qed

lemma expand_all_ok:
  "rendered_ok ctx options r \<Longrightarrow> rendered_ok ctx options (foldl (expand_chunk ctx options) r cs) \<and>
     rc_selected_lines r \<subseteq> rc_selected_lines (foldl (expand_chunk ctx options) r cs) \<and>
     rc_selected_lines (foldl (expand_chunk ctx options) r cs) \<subseteq> rc_selected_lines r \<union> \<Union> (range_lines ` set cs)"
proof (induction cs arbitrary: r)
  case (Cons c cs)
  from expand_chunk_ok [OF Cons.prems, of c] Cons.IH [of "expand_chunk ctx options r c"]
  show ?case by auto
qed simp

lemma join_contains: "x \<in> set xs \<Longrightarrow> contains_str x (join sep xs)"
proof (induction sep xs rule: join.induct)
  case (2 sep y)
  then show ?case by (auto simp: contains_str_iff intro: exI [of _ "[]"])
next
  case (3 sep y z zs)
  then show ?case
  proof (cases "x = y")
    case True
    then have "join sep (y # z # zs) = [] @ x @ (sep @ join sep (z # zs))" by simp
    then show ?thesis unfolding contains_str_iff by blast
  next
    case False
    with 3 have "contains_str x (join sep (z # zs))" by auto
    then show ?thesis by (auto intro: contains_str_append_right)
  qed
qed simp

lemma numbered_lines_all: "l \<in> set ls \<Longrightarrow> numbered_line ctx l \<in> set (numbered_lines ctx prev ls)"
  by (induction ctx prev ls rule: numbered_lines.induct) auto

lemma render_chunk_shows:
  "l \<in> rc_selected_lines (render_chunk s ctx options) \<Longrightarrow> contains_str (numbered_line ctx l) (rc_text (render_chunk s ctx options))"
  by (auto simp: render_chunk_def Let_def intro!: join_contains numbered_lines_all)

definition chunk_ok :: "SyntaxAwareChunkOptions \<Rightarrow> SyntaxAwareSourceFile \<Rightarrow> ChangedHunk \<Rightarrow> TreeSitterFileArtifact option \<Rightarrow> context_chunk \<Rightarrow> bool" where
  "chunk_ok options file hunk tree_file c \<longleftrightarrow>
     cc_char_count c = int (length (cc_text c)) \<and> cc_char_count c \<le> co_max_chars options \<and>
     (\<forall>m. co_max_tokens options = Some m \<longrightarrow> cc_token_count c \<le> m) \<and>
     (\<forall>l \<in> mandatory_lines file hunk. 0 < l \<longrightarrow> l \<le> int (length (splitlines (sf_content file))) \<longrightarrow>
        contains_str (numbered_line (context_of file hunk tree_file) l) (cc_text c) \<and>
        lr_start_line (cc_range c) \<le> l \<and> l \<le> lr_end_line (cc_range c))"

lemma build_chunk_ok:
  assumes "build_chunk file hunk tree_file options = Inr c"
  shows "chunk_ok options file hunk tree_file c"
proof -
  let ?ctx = "context_of file hunk tree_file" and ?m = "mandatory_lines file hunk"
  from assms obtain r cs where within: "within_budget (render_chunk ?m ?ctx options) options"
    and r: "r = foldl (expand_chunk ?ctx options) (render_chunk ?m ?ctx options) cs"
    and c: "cc_text c = rc_text r" "cc_char_count c = rc_char_count r" "cc_token_count c = rc_token_count r"
      "cc_range c = selected_line_range (rc_selected_lines r)"
    by (auto simp: build_chunk_def Let_def bind_sum_eq_Inr render_with_budget_def split: if_splits)
  have fin: "finite ?m" by (simp add: mandatory_lines_def)
  from expand_all_ok [OF rendered_ok_render [OF fin within], of cs]
  have ok: "rendered_ok ?ctx options r" and sub: "rc_selected_lines (render_chunk ?m ?ctx options) \<subseteq> rc_selected_lines r"
    unfolding r by auto
  from ok obtain s where s: "finite s" "r = render_chunk s ?ctx options" and within': "within_budget r options"
    by (auto simp: rendered_ok_def)
  have "rc_char_count r = int (length (rc_text r))" by (simp add: s render_chunk_def Let_def)
  moreover have "contains_str (numbered_line ?ctx l) (rc_text r) \<and> l \<in> rc_selected_lines r"
    if "l \<in> ?m" "0 < l" "l \<le> int (length (splitlines (sf_content file)))" for l
  proof -
    from that fin have "l \<in> rc_selected_lines (render_chunk ?m ?ctx options)"
      by (simp add: rc_selected_render context_of_def)
    with sub have "l \<in> rc_selected_lines r" by blast
    with render_chunk_shows show ?thesis unfolding s by blast
  qed
  moreover have "finite (rc_selected_lines r)" using ok by (simp add: rendered_ok_def)
  ultimately show ?thesis
    using within' by (auto simp: chunk_ok_def c within_budget_def selected_line_range_def split: option.splits)
qed

lemma sequence_sum_Inr: "sequence_sum xs = Inr ys \<longleftrightarrow> xs = map Inr ys"
  by (induction xs arbitrary: ys) (auto simp: bind_sum_eq_Inr Cons_eq_map_conv)

lemma sequence_sum_Inl: "sequence_sum xs = Inl e \<Longrightarrow> Inl e \<in> set xs"
  by (induction xs) (auto simp: bind_sum_eq_Inl)

definition hunks_of :: "SyntaxAwareSourceFile list \<Rightarrow> (SyntaxAwareSourceFile \<times> ChangedHunk) list" where
  "hunks_of files = concat (map (\<lambda>file. map (Pair file) (sf_hunks file)) files)"

text \<open>C12: A context artifact holds one chunk per hunk, in the order of files and hunks, and every chunk
  keeps the budget and the change: its character count is the length of its text and is at most the maximum,
  its token count is at most the maximum when there is one, and every mandatory line of the hunk (the
  changed lines, or the whole hunk when none is listed) that exists in the file appears in the text as its
  numbered line and lies in the reported range.\<close>

theorem context_chunks_keep_budget_and_changes:
  assumes "build_syntax_aware_context_artifact review_run_id files tree options = Inr a"
  shows "list_all2 (\<lambda>(file, hunk) c. chunk_ok options file hunk (tree_sitter_file_map tree (sf_path file)) c \<and>
     cc_path c = sf_path file) (hunks_of files) (ca_chunks a)"
proof -
  let ?build = "\<lambda>(file, hunk). build_chunk file hunk (tree_sitter_file_map tree (sf_path file)) options"
  have "concat (map (\<lambda>file. map (\<lambda>hunk. build_chunk file hunk (tree_sitter_file_map tree (sf_path file)) options)
      (sf_hunks file)) files) = map ?build (hunks_of files)"
    by (simp add: hunks_of_def map_concat comp_def)
  with assms have "map ?build (hunks_of files) = map Inr (ca_chunks a)"
    by (auto simp: build_syntax_aware_context_artifact_def bind_sum_eq_Inr sequence_sum_Inr)
  then have built: "list_all2 (\<lambda>p c. ?build p = Inr c) (hunks_of files) (ca_chunks a)"
    by (simp add: list_all2_conv_all_nth list_eq_iff_nth_eq)
  have "cc_path c = sf_path sf" if "build_chunk sf hunk t options = Inr c" for sf hunk t c
    using that by (auto simp: build_chunk_def Let_def bind_sum_eq_Inr)
  with build_chunk_ok show ?thesis
    by (intro list_all2_mono [OF built]) auto
qed

text \<open>A context artifact is refused only when the mandatory lines of some hunk alone, with the header,
  do not fit the budget.\<close>

theorem context_refused_only_for_mandatory_lines:
  assumes "build_syntax_aware_context_artifact review_run_id files tree options = Inl e"
  shows "\<exists>(file, hunk) \<in> set (hunks_of files). \<not> within_budget (render_chunk (mandatory_lines file hunk)
     (context_of file hunk (tree_sitter_file_map tree (sf_path file))) options) options"
proof -
  let ?build = "\<lambda>(file, hunk). build_chunk file hunk (tree_sitter_file_map tree (sf_path file)) options"
  have "concat (map (\<lambda>file. map (\<lambda>hunk. build_chunk file hunk (tree_sitter_file_map tree (sf_path file)) options)
      (sf_hunks file)) files) = map ?build (hunks_of files)"
    by (simp add: hunks_of_def map_concat comp_def)
  with assms have "sequence_sum (map ?build (hunks_of files)) = Inl e"
    by (auto simp: build_syntax_aware_context_artifact_def bind_sum_eq_Inl)
  from sequence_sum_Inl [OF this] obtain sf hunk where "(sf, hunk) \<in> set (hunks_of files)"
    "build_chunk sf hunk (tree_sitter_file_map tree (sf_path sf)) options = Inl e" by force
  then show ?thesis
    by (auto simp: build_chunk_def Let_def bind_sum_eq_Inl render_with_budget_def split: if_splits intro!: bexI)
qed

definition sample_source_files :: "SyntaxAwareSourceFile list" where
  "sample_source_files = [\<lparr> sf_path = ''a.py'', sf_content = ''x'', sf_changed_lines = [1],
     sf_hunks = [\<lparr> ch_new_start = 1, ch_new_line_count = 1 \<rparr>], sf_language = None \<rparr>]"

definition sample_tree :: TreeSitterArtifact where
  "sample_tree = \<lparr> tsa_schema_version = ''tree-sitter-artifact/v1'', tsa_review_run_id = ''r'',
     tsa_parser_version = None, tsa_files = [] \<rparr>"

definition sample_chunk_options :: "int \<Rightarrow> SyntaxAwareChunkOptions" where
  "sample_chunk_options n = \<lparr> co_max_chars = n, co_max_tokens = None, co_context_lines = 2, co_token_counter = None \<rparr>"

theorem context_chunks_keep_budget_and_changes_witness:
  "\<exists>a. build_syntax_aware_context_artifact ''r'' sample_source_files sample_tree (sample_chunk_options 6000) = Inr a \<and>
     list_all2 (\<lambda>(file, hunk) c. chunk_ok (sample_chunk_options 6000) file hunk (tree_sitter_file_map sample_tree (sf_path file)) c \<and>
       cc_path c = sf_path file) (hunks_of sample_source_files) (ca_chunks a)"
proof -
  have "\<not> is_err (build_syntax_aware_context_artifact ''r'' sample_source_files sample_tree (sample_chunk_options 6000))"
    by code_simp
  then obtain a where a: "build_syntax_aware_context_artifact ''r'' sample_source_files sample_tree (sample_chunk_options 6000) = Inr a"
    by (auto simp: is_err_def split: sum.splits)
  from a context_chunks_keep_budget_and_changes [OF a] show ?thesis by blast
qed

theorem context_refused_only_for_mandatory_lines_witness:
  "\<exists>(file, hunk) \<in> set (hunks_of sample_source_files). \<not> within_budget (render_chunk (mandatory_lines file hunk)
     (context_of file hunk (tree_sitter_file_map sample_tree (sf_path file))) (sample_chunk_options 5)) (sample_chunk_options 5)"
proof -
  have "is_err (build_syntax_aware_context_artifact ''r'' sample_source_files sample_tree (sample_chunk_options 5))"
    by code_simp
  then obtain e where "build_syntax_aware_context_artifact ''r'' sample_source_files sample_tree (sample_chunk_options 5) = Inl e"
    by (auto simp: is_err_def split: sum.splits)
  then show ?thesis by (rule context_refused_only_for_mandatory_lines)
qed

end
