(* ===== verification/CiPatterns.thy ===== *)
theory CiPatterns
  imports PyRegex
begin

text \<open>
  ci/explanation.py: the regular expressions and the tables built from them. \<open>re.IGNORECASE\<close>
  patterns use \<open>ilit\<close>, the others \<open>lit\<close>.
\<close>

definition is_letter :: "char \<Rightarrow> bool" where
  "is_letter c \<longleftrightarrow> is_lower_ascii c \<or> is_upper_ascii c"

definition iword :: "string \<Rightarrow> re" where
  \<comment> \<open>\<open>\b...\b\<close>\<close>
  "iword s = seqs [WordB, ilit s, WordB]"

definition not_newline :: "char \<Rightarrow> bool" where
  "not_newline c \<longleftrightarrow> c \<noteq> CHR 0x0A"

definition ANSI_ESCAPE_RE :: re where
  \<comment> \<open>\<open>\x1b\[[0-9;]*[A-Za-z]\<close>\<close>
  "ANSI_ESCAPE_RE = seqs [lit [CHR 0x1B, CHR ''[''], Star (\<lambda>c. is_digit c \<or> c = CHR '';''), Cls is_letter]"

definition TIMESTAMP_PREFIX_RE :: re where
  \<comment> \<open>\<open>^\d{4}-\d\d-\d\dT\d\d:\d\d:\d\d(?:\.\d+)?Z\s+\<close>\<close>
  "TIMESTAMP_PREFIX_RE = seqs [BeginText, exactly 4 is_digit, lit ''-'', exactly 2 is_digit, lit ''-'', exactly 2 is_digit,
     lit ''T'', exactly 2 is_digit, lit '':'', exactly 2 is_digit, lit '':'', exactly 2 is_digit,
     opt (seqs [lit ''.'', plus is_digit]), lit ''Z'', plus is_space]"

definition STEP_GROUP_RE :: re where
  \<comment> \<open>\<open>^(?:##\[group\])?Run\s+(.+)$\<close>\<close>
  "STEP_GROUP_RE = seqs [BeginText, opt (lit ''##[group]''), lit ''Run'', plus is_space, Group 1 (plus not_newline), EndText]"

definition GENERIC_GROUP_RE :: re where
  \<comment> \<open>\<open>^##\[group\](.+)$\<close>\<close>
  "GENERIC_GROUP_RE = seqs [BeginText, lit ''##[group]'', Group 1 (plus not_newline), EndText]"

definition PROCESS_EXIT_RE :: re where
  "PROCESS_EXIT_RE = seqs [ilit ''Process completed with exit code '', plus is_digit, opt (lit ''.'')]"

definition TSC_ERROR_RE :: re where
  \<comment> \<open>\<open>\bTS\d{4}\b\<close>\<close>
  "TSC_ERROR_RE = seqs [WordB, lit ''TS'', exactly 4 is_digit, WordB]"

definition tests_failed_re :: re where
  "tests_failed_re = seqs [WordB, ilit ''Test'', opt (ilit ''s''), ilit '' failed'', WordB]"

definition timed_out_re :: re where
  "timed_out_re = seqs [WordB, ilit ''time'', opt (ilit ''d''), ilit '' out'', WordB]"

definition fail_re :: re where
  "fail_re = seqs [WordB, alts [ilit ''FAIL'', ilit ''FAILED''], WordB]"

definition make_error_re :: re where
  "make_error_re = seqs [WordB, ilit ''make: ***'']"

definition gateway_re :: re where
  \<comment> \<open>\<open>\b(?:502|503|504)\b\<close>\<close>
  "gateway_re = seqs [WordB, alts [lit ''502'', lit ''503'', lit ''504''], WordB]"

definition FAILURE_PATTERNS :: "re list" where
  "FAILURE_PATTERNS = [ilit ''##[error]'', iword ''AssertionError'', fail_re, tests_failed_re,
     seqs [WordB, ilit ''Error:''], iword ''Traceback'', iword ''TypeError'', iword ''ReferenceError'',
     iword ''ModuleNotFoundError'', iword ''ImportError'', iword ''Cannot find module'', seqs [WordB, ilit ''npm ERR!''],
     iword ''Command failed'', iword ''Process completed with exit code'', iword ''TimeoutError'', iword ''timeout'',
     timed_out_re, iword ''No such file or directory'', iword ''No space left on device'', iword ''Killed'', make_error_re]"

definition CATEGORY_PATTERNS :: "(string \<times> re list) list" where
  "CATEGORY_PATTERNS = [
     (''dependency_failure'', [iword ''Cannot find module'', iword ''ModuleNotFoundError'', iword ''ImportError'',
        iword ''No module named'', iword ''No matching distribution'', iword ''ERESOLVE'', iword ''lockfile'']),
     (''typecheck_failure'', [iword ''tsc'', TSC_ERROR_RE, iword ''mypy'', iword ''pyright'', iword ''type error'']),
     (''lint_failure'', [iword ''eslint'', iword ''ruff'', iword ''flake8'', iword ''prettier'', iword ''black'', iword ''lint'']),
     (''timeout'', [timed_out_re, iword ''timeout'', iword ''TimeoutError'', iword ''deadline exceeded'']),
     (''infrastructure'', [iword ''ECONNRESET'', iword ''EAI_AGAIN'', iword ''connection refused'',
        iword ''could not resolve host'', iword ''rate limit'', gateway_re, iword ''No space left on device'',
        iword ''out of memory'']),
     (''build_failure'', [iword ''build failed'', iword ''compilation failed'', iword ''webpack'', iword ''vite build'',
        iword ''next build'', iword ''docker build'', make_error_re]),
     (''test_failure'', [iword ''AssertionError'',
        seqs [WordB, ilit ''expected'', WordB, plus not_newline, WordB, ilit ''received'', WordB],
        fail_re, tests_failed_re, iword ''pytest'', iword ''jest'', iword ''vitest'', iword ''go test'',
        iword ''cargo test'', iword ''panicked at'']),
     (''cancellation'', [iword ''cancelled'', iword ''canceled''])]"

definition FLAKY_PATTERNS :: "(string \<times> rat \<times> re list) list" where
  \<comment> \<open>the confidences are the doubles nearest to 0.9, 0.74, 0.72, 0.68, 0.64\<close>
  "FLAKY_PATTERNS = [
     (''explicit_flaky'', 8106479329266893 / 9007199254740992,
       [seqs [WordB, ilit ''flak'', alts [ilit ''y'', ilit ''iness''], WordB], iword ''intermittent'',
        seqs [WordB, ilit ''non'', opt (Cls (\<lambda>c. c = CHR ''-'' \<or> c = CHR '' '')), ilit ''deterministic'', WordB]]),
     (''timeout'', 3332663724254167 / 4503599627370496,
       [timed_out_re, iword ''timeout'', iword ''TimeoutError'', iword ''deadline exceeded'',
        seqs [WordB, ilit ''waited '', plus is_digit]]),
     (''network_or_service'', 3242591731706757 / 4503599627370496,
       [iword ''ECONNRESET'', iword ''ETIMEDOUT'', iword ''EAI_AGAIN'', iword ''temporary failure'', gateway_re,
        iword ''rate limit'']),
     (''concurrency_or_order'', 6124895493223875 / 9007199254740992,
       [iword ''race condition'', iword ''deadlock'',
        seqs [WordB, ilit ''order'', Cls (\<lambda>c. c = CHR ''-'' \<or> c = CHR '' ''), ilit ''dependent'', WordB],
        iword ''random seed'', iword ''address already in use'', iword ''EADDRINUSE'']),
     (''runner_resource'', 5764607523034235 / 9007199254740992,
       [iword ''No space left on device'', iword ''out of memory'', iword ''OOM'', iword ''Killed'',
        iword ''resource temporarily unavailable''])]"

definition PRIORITY_PATTERNS :: "re list" where
  \<comment> \<open>\<open>priority_patterns\<close> of \<open>_best_error_line\<close>\<close>
  "PRIORITY_PATTERNS = [iword ''AssertionError'', iword ''TimeoutError'', iword ''Cannot find module'',
     iword ''ModuleNotFoundError'', iword ''ImportError'', TSC_ERROR_RE, seqs [WordB, ilit ''npm ERR!''],
     seqs [WordB, ilit ''Error:'']]"

end
