(* ===== verification/CiExplanation.thy ===== *)
theory CiExplanation
  imports CiPatterns ContractProperties "HOL-Library.Sublist"
begin

text \<open>
  ci/explanation.py: the failed parts of CI logs are cut into step segments, each becomes a failure group
  with an excerpt, a category, suspected flakiness, a summary and suggested fixes. \<open>digest\<close> is the hexadecimal
  SHA-256 of a text's UTF-8 encoding. The groups and the explanation are the records of the contract; the
  dictionary the code returns is their encoding.
\<close>

section \<open>Lines\<close>

definition bounded :: "string \<Rightarrow> nat \<Rightarrow> string" where
  "bounded value limit =
     (let normalized = strip value
      in if length normalized \<le> limit then normalized else rstrip (take (max 1 (limit - 3)) normalized) @ ''...'')"

definition clean_line :: "string \<Rightarrow> string" where
  "clean_line line = rstrip (re_sub ANSI_ESCAPE_RE (\<lambda>_. []) line)"

definition strip_log_prefix :: "string \<Rightarrow> string" where
  "strip_log_prefix line = strip (re_sub TIMESTAMP_PREFIX_RE (\<lambda>_. []) line)"

definition LF :: string where "LF = [CHR 0x0A]"

definition clean_lines :: "string list \<Rightarrow> string list" where
  \<comment> \<open>\<open>tuple(_clean_line(line) for line in ... if _clean_line(line))\<close>\<close>
  "clean_lines lines = filter (\<lambda>l. l \<noteq> []) (map clean_line lines)"

definition last_n :: "nat \<Rightarrow> 'a list \<Rightarrow> 'a list" where
  \<comment> \<open>\<open>lines[-n:]\<close>\<close>
  "last_n n xs = drop (length xs - n) xs"

definition group1 :: "match_state \<Rightarrow> string" where
  "group1 t = (case group t 1 of Some g \<Rightarrow> g | None \<Rightarrow> [])"

definition read_step_name :: "string \<Rightarrow> string option" where
  "read_step_name line =
     (let normalized = strip_log_prefix line
      in case re_match STEP_GROUP_RE normalized of
           Some t \<Rightarrow> Some (bounded (strip (group1 t)) 120)
         | None \<Rightarrow>
             (case re_match GENERIC_GROUP_RE normalized of
                Some t \<Rightarrow> (let value = strip (group1 t) in if value \<noteq> [] then Some (bounded value 120) else None)
              | None \<Rightarrow> None))"

section \<open>Segments\<close>

record step_segment =
  seg_name :: "string option"
  seg_lines :: "string list"

record split_state =
  sp_segments :: "step_segment list"
  sp_name :: "string option"
  sp_lines :: "string list"

definition flush_segment :: "split_state \<Rightarrow> step_segment list" where
  "flush_segment st = sp_segments st @
     (if sp_lines st \<noteq> [] then [\<lparr> seg_name = sp_name st, seg_lines = sp_lines st \<rparr>] else [])"

definition split_step :: "split_state \<Rightarrow> string \<Rightarrow> split_state" where
  "split_step st raw_line =
     (let line = clean_line raw_line
      in if line = [] then st
         else case read_step_name line of
             Some step_name \<Rightarrow> \<lparr> sp_segments = flush_segment st, sp_name = Some step_name, sp_lines = [line] \<rparr>
           | None \<Rightarrow> st\<lparr>sp_lines := sp_lines st @ [line]\<rparr>)"

definition split_step_segments :: "string \<Rightarrow> step_segment list" where
  "split_step_segments content =
     flush_segment (foldl split_step \<lparr> sp_segments = [], sp_name = None, sp_lines = [] \<rparr> (splitlines content))"

definition is_failure_line :: "string \<Rightarrow> bool" where
  "is_failure_line line = (let normalized = strip_log_prefix line
     in re_search TSC_ERROR_RE normalized \<or> list_ex (\<lambda>p. re_search p normalized) FAILURE_PATTERNS)"

definition failure_line_indexes :: "string list \<Rightarrow> nat list" where
  "failure_line_indexes lines = filter (\<lambda>i. is_failure_line (lines ! i)) [0..<length lines]"

definition failure_segments :: "string \<Rightarrow> step_segment list" where
  "failure_segments content =
     (let selected = filter (\<lambda>s. failure_line_indexes (seg_lines s) \<noteq> []) (split_step_segments content)
      in if selected \<noteq> [] then selected
         else let tail_lines = clean_lines (last_n 12 (splitlines content))
              in if tail_lines \<noteq> [] then [\<lparr> seg_name = None, seg_lines = tail_lines \<rparr>] else [])"

fun excerpt_lines :: "string list \<Rightarrow> nat option \<Rightarrow> nat list \<Rightarrow> string list" where
  \<comment> \<open>second argument: \<open>previous\<close>\<close>
  "excerpt_lines lines prev [] = []"
| "excerpt_lines lines prev (i # is) =
     (case prev of Some p \<Rightarrow> if i > p + 1 then [''...''] else [] | None \<Rightarrow> []) @
     strip_log_prefix (lines ! i) # excerpt_lines lines (Some i) is"

definition selected_indexes :: "string list \<Rightarrow> nat list" where
  \<comment> \<open>the failure lines and their neighbours, in order\<close>
  "selected_indexes lines =
     sort (remdups (filter (\<lambda>c. c < length lines)
       (concat (map (\<lambda>i. (if i > 0 then [i - 1] else []) @ [i, i + 1]) (failure_line_indexes lines)))))"

definition failure_excerpt :: "string list \<Rightarrow> string" where
  "failure_excerpt lines =
     (if failure_line_indexes lines = [] then bounded (join LF (last_n 8 lines)) 1200
      else bounded (join LF (take 12 (excerpt_lines lines None (selected_indexes lines)))) 1200)"

section \<open>Classification\<close>

fun first_matching_line :: "string list \<Rightarrow> re list \<Rightarrow> string option" where
  "first_matching_line [] patterns = None"
| "first_matching_line (l # ls) patterns =
     (let cleaned = strip_log_prefix l
      in if list_ex (\<lambda>p. re_search p cleaned) patterns then Some cleaned else first_matching_line ls patterns)"

definition classify_category :: "string \<Rightarrow> string \<Rightarrow> string option \<Rightarrow> string" where
  "classify_category conclusion text step_name =
     (let haystack = (case step_name of Some s \<Rightarrow> s | None \<Rightarrow> []) @ LF @ text
      in if conclusion \<in> set [''cancelled'', ''canceled'', ''stale''] then ''cancellation''
         else if conclusion \<in> set [''timed_out'', ''startup_failure''] then ''timeout''
         else case find (\<lambda>(c, ps). first_matching_line (splitlines haystack) ps \<noteq> None) CATEGORY_PATTERNS of
             Some (c, ps) \<Rightarrow> c | None \<Rightarrow> ''unknown'')"

definition signal_label :: "string \<Rightarrow> string" where
  "signal_label signal = replace_str ''_'' '' '' signal"

definition classify_flaky_signals :: "string \<Rightarrow> CiFlakySignal list" where
  \<comment> \<open>the signals of the table are distinct, so \<open>seen\<close> never holds the current one\<close>
  "classify_flaky_signals text =
     (let lines = map clean_line (splitlines text)
      in concat (map (\<lambda>(signal, confidence, patterns).
           case first_matching_line lines patterns of
             None \<Rightarrow> []
           | Some matched \<Rightarrow> [\<lparr> cfs_signal = signal, cfs_detail = signal_label signal @ '': '' @ bounded matched 180,
                               cfs_confidence = Fin confidence \<rparr>]) FLAKY_PATTERNS))"

definition best_error_line :: "string \<Rightarrow> string" where
  "best_error_line excerpt =
     (let lines = map strip_log_prefix (splitlines excerpt);
          cleaned = (\<lambda>l. strip (replace_str ''##[error]'' [] l))
      in case find (\<lambda>l. cleaned l \<noteq> [] \<and> list_ex (\<lambda>p. re_search p (cleaned l)) PRIORITY_PATTERNS) lines of
           Some l \<Rightarrow> bounded (cleaned l) 220
         | None \<Rightarrow>
             (case find (\<lambda>l. \<not> re_search PROCESS_EXIT_RE l \<and>
                  (re_search TSC_ERROR_RE l \<or> list_ex (\<lambda>p. re_search p l) FAILURE_PATTERNS) \<and>
                  cleaned l \<noteq> [] \<and> \<not> re_search PROCESS_EXIT_RE (cleaned l)) lines of
                Some l \<Rightarrow> bounded (cleaned l) 220
              | None \<Rightarrow> bounded (case find (\<lambda>l. strip l \<noteq> []) lines of Some l \<Rightarrow> l | None \<Rightarrow> []) 220))"

definition trim_sentence :: "string \<Rightarrow> string" where
  "trim_sentence value = rstrip_chars ''.'' value"

definition CATEGORY_LABEL :: "string \<Rightarrow> string option" where
  "CATEGORY_LABEL = map_of [(''test_failure'', ''test failure''), (''build_failure'', ''build failure''),
     (''dependency_failure'', ''dependency/setup failure''), (''lint_failure'', ''lint failure''),
     (''typecheck_failure'', ''typecheck failure''), (''timeout'', ''timeout''), (''cancellation'', ''cancellation''),
     (''infrastructure'', ''runner or external service failure''), (''unknown'', ''failure'')]"

definition root_cause_summary :: "string \<Rightarrow> string option \<Rightarrow> string \<Rightarrow> string \<Rightarrow> CiFlakySignal list \<Rightarrow> string" where
  "root_cause_summary job_name step_name category excerpt flaky_signals =
     (let step_label = (case step_name of Some s \<Rightarrow> if s \<noteq> [] then '' in step `'' @ s @ ''`'' else [] | None \<Rightarrow> []);
          detail = best_error_line excerpt;
          category_label = (case CATEGORY_LABEL category of Some l \<Rightarrow> l)
      in ''The '' @ job_name @ '' job failed'' @ step_label @ '' with a '' @ category_label @
         (if detail \<noteq> [] then '' because the log reports: '' @ trim_sentence detail @ ''.'' else ''.'') @
         (case flaky_signals of s # _ \<Rightarrow> '' This may be flaky because '' @ lower (cfs_detail s) @ ''.'' | [] \<Rightarrow> []))"

definition step_command :: "string option \<Rightarrow> string option" where
  "step_command step_name = (case step_name of
      None \<Rightarrow> None
    | Some s \<Rightarrow> (let command = strip s in if command \<noteq> [] then Some (bounded command 120) else None))"

definition category_fix :: "string \<Rightarrow> string" where
  "category_fix category =
     (if category = ''test_failure'' then ''Inspect the failing assertion and update either the changed behavior or the expected value.''
      else if category = ''dependency_failure'' then ''Restore the missing dependency, install step, or lockfile entry before rerunning CI.''
      else if category = ''lint_failure'' then ''Run the project lint command locally and fix the reported formatting or lint rule violations.''
      else if category = ''typecheck_failure'' then ''Run the typecheck locally and align the changed types with the reported compiler error.''
      else if category = ''timeout'' then ''Check for hung tests or long-running setup, then add deterministic waits, timeouts, or test isolation.''
      else if category = ''infrastructure'' then ''Check runner/network health and retry once before changing code if the service failure is external.''
      else if category = ''build_failure'' then ''Run the build locally and fix the first compiler or bundler error shown in the log.''
      else if category = ''cancellation'' then ''Confirm whether the run was superseded or manually cancelled before rerunning the failed job.''
      else ''Open the failed step log and fix the first actionable error before rerunning CI.'')"

definition suggested_fixes :: "string \<Rightarrow> string option \<Rightarrow> bool \<Rightarrow> string list" where
  "suggested_fixes category step_name flaky = dedupe_keep_order (
     (case step_command step_name of
        Some c \<Rightarrow> if c \<noteq> [] then [''Reproduce the failing command locally: `'' @ c @ ''`.''] else [] | None \<Rightarrow> []) @
     [category_fix category] @
     (if flaky then [''Rerun the failed job once; if it passes, harden or quarantine the unstable test instead of masking it.''] else []))"

section \<open>Groups and the explanation\<close>

definition not_slug :: "char \<Rightarrow> bool" where
  "not_slug c \<longleftrightarrow> \<not> (is_lower_ascii c \<or> is_digit c)"

definition strip_dashes :: "string \<Rightarrow> string" where
  \<comment> \<open>\<open>strip("-")\<close>\<close>
  "strip_dashes s = rstrip_chars ''-'' (dropWhile (\<lambda>c. c = CHR ''-'') s)"

definition ci_group_id :: "(string \<Rightarrow> string) \<Rightarrow> int \<Rightarrow> string \<Rightarrow> string \<Rightarrow> string" where
  "ci_group_id digest check_run_id step_name excerpt =
     (let d = take 12 (digest (str_of_int check_run_id @ [CHR 0x00] @ step_name @ [CHR 0x00] @ excerpt));
          slug = or_else (take 48 (strip_dashes (re_sub (plus not_slug) (\<lambda>_. ''-'') (casefold step_name)))) ''job''
      in ''ci:'' @ str_of_int check_run_id @ '':'' @ slug @ '':'' @ d)"

definition check_runs_by_id :: "CiLogArtifact \<Rightarrow> int \<Rightarrow> CiCheckRun option" where
  "check_runs_by_id a = foldl (\<lambda>m c. m(ccr_id c \<mapsto> c)) Map.empty (cla_check_runs a)"

definition job_name_of :: "CiLogArtifact \<Rightarrow> CiLogEntry \<Rightarrow> string" where
  "job_name_of a log' = (case check_runs_by_id a (cle_check_run_id log') of Some c \<Rightarrow> ccr_name c | None \<Rightarrow> cle_name log')"

definition conclusion_of :: "CiLogArtifact \<Rightarrow> CiLogEntry \<Rightarrow> string" where
  "conclusion_of a log' = (case check_runs_by_id a (cle_check_run_id log') of Some c \<Rightarrow> ccr_conclusion c | None \<Rightarrow> ''failure'')"

definition failure_group ::
  "(string \<Rightarrow> string) \<Rightarrow> CiLogArtifact \<Rightarrow> CiLogEntry \<Rightarrow> string option \<Rightarrow> string \<Rightarrow> CiFailureGroup" where
  \<comment> \<open>the dictionary of one group, for a step name and an excerpt\<close>
  "failure_group digest a log' step_name excerpt =
     (let job_name = job_name_of a log'; conclusion = conclusion_of a log';
          category = classify_category conclusion excerpt step_name;
          flaky_signals = classify_flaky_signals excerpt
      in \<lparr> cfg_id = ci_group_id digest (cle_check_run_id log')
               (case step_name of Some s \<Rightarrow> or_else s job_name | None \<Rightarrow> job_name) excerpt,
           cfg_job_name = job_name, cfg_check_run_id = cle_check_run_id log', cfg_conclusion = conclusion,
           cfg_step_name = step_name, cfg_category = category,
           cfg_root_cause_summary = root_cause_summary job_name step_name category excerpt flaky_signals,
           cfg_suggested_fixes = suggested_fixes category step_name (flaky_signals \<noteq> []),
           cfg_flaky = (flaky_signals \<noteq> []), cfg_flaky_signals = flaky_signals,
           cfg_evidence = [\<lparr> cfe_check_run_id = cle_check_run_id log', cfe_workflow_job_id = Some (cle_workflow_job_id log'),
              cfe_step_name = step_name, cfe_excerpt = excerpt \<rparr>] \<rparr>)"

definition fallback_groups_for_logs :: "(string \<Rightarrow> string) \<Rightarrow> CiLogArtifact \<Rightarrow> CiFailureGroup list" where
  "fallback_groups_for_logs digest a = map (\<lambda>l.
     failure_group digest a l None (failure_excerpt (clean_lines (splitlines (cle_content l))))) (cla_logs a)"

definition explanation_groups :: "(string \<Rightarrow> string) \<Rightarrow> CiLogArtifact \<Rightarrow> CiFailureGroup list" where
  "explanation_groups digest a =
     (let groups = concat (map (\<lambda>l. map (\<lambda>seg. failure_group digest a l (seg_name seg) (failure_excerpt (seg_lines seg)))
            (failure_segments (cle_content l))) (cla_logs a))
      in if groups = [] \<and> cla_logs a \<noteq> [] then fallback_groups_for_logs digest a else groups)"

definition explanation_summary :: "CiFailureGroup list \<Rightarrow> UnavailableCiLog list \<Rightarrow> string" where
  "explanation_summary gs unavailable = (case gs of
      g # _ \<Rightarrow>
        (let job_count = length (remdups (map cfg_check_run_id gs))
         in ''Found '' @ str_of_nat (length gs) @ '' CI failure '' @ (if length gs = 1 then ''group'' else ''groups'') @
            '' across '' @ str_of_nat job_count @ '' failed '' @ (if job_count = 1 then ''job'' else ''jobs'') @
            ''. Most likely: '' @ cfg_root_cause_summary g)
    | [] \<Rightarrow>
        if unavailable \<noteq> [] then ''CI failed, but '' @ str_of_nat (length unavailable) @ '' failed job '' @
          (if length unavailable = 1 then ''log was'' else ''logs were'') @ '' unavailable for analysis.''
        else ''No failed CI logs were available for analysis.'')"

definition explanation_of :: "(string \<Rightarrow> string) \<Rightarrow> CiLogArtifact \<Rightarrow> CiFailureExplanationArtifact" where
  "explanation_of digest a =
     (let gs = explanation_groups digest a in
      \<lparr> cfx_schema_version = CI_FAILURE_EXPLANATION_SCHEMA_VERSION, cfx_review_run_id = cla_review_run_id a,
        cfx_repository_full_name = cla_repository_full_name a, cfx_pull_request_number = cla_pull_request_number a,
        cfx_head_sha = cla_head_sha a, cfx_summary = explanation_summary gs (cla_unavailable_logs a), cfx_groups = gs,
        cfx_unavailable_log_notes = cla_unavailable_logs a \<rparr>)"

definition generate_ci_failure_explanation :: "(string \<Rightarrow> string) \<Rightarrow> obj \<Rightarrow> contract_error + obj" where
  \<comment> \<open>for a mapping; a \<open>CiLogArtifact\<close> object skips the first step\<close>
  "generate_ci_failure_explanation digest ci_log_artifact =
     bind_sum (CiLogArtifact_from_mapping ci_log_artifact) (\<lambda>a.
       Inr (enc_CiFailureExplanationArtifact (explanation_of digest a)))"

section \<open>The markdown rendering\<close>

definition single_line :: "string \<Rightarrow> string" where
  "single_line value = bounded (join '' | '' (filter (\<lambda>l. l \<noteq> []) (map strip (splitlines value)))) 220"

definition unavailable_label :: "string option \<Rightarrow> string \<Rightarrow> string" where
  "unavailable_label name reason = (case name of
      Some n \<Rightarrow> if n \<noteq> [] then ''`'' @ n @ ''` ('' @ reason @ '')'' else reason | None \<Rightarrow> reason)"

definition group_markdown :: "bool \<Rightarrow> CiFailureGroup \<Rightarrow> string list" where
  "group_markdown include_evidence g =
     [[], ''- `'' @ cfg_job_name g @ ''`'' @
        (case cfg_step_name g of Some s \<Rightarrow> if s \<noteq> [] then '' / `'' @ s @ ''`'' else [] | None \<Rightarrow> []) @ '': '' @ cfg_root_cause_summary g,
      ''  Suggested fix: '' @ hd (cfg_suggested_fixes g),
      ''  Flaky suspected: '' @ (if cfg_flaky g then ''yes'' else ''no'')] @
     (case cfg_flaky_signals g of s # _ \<Rightarrow> [''  Flaky signal: '' @ cfs_detail s] | [] \<Rightarrow> []) @
     (if include_evidence then (case cfg_evidence g of e # _ \<Rightarrow> [''  Evidence: `'' @ single_line (cfe_excerpt e) @ ''`''] | [] \<Rightarrow> [])
      else [])"

definition render_ci_failure_explanation_markdown ::
  "bool \<Rightarrow> obj \<Rightarrow> contract_error + string" where
  "render_ci_failure_explanation_markdown include_evidence explanation =
     bind_sum (CiFailureExplanationArtifact_from_mapping explanation) (\<lambda>a.
       let notes = cfx_unavailable_log_notes a
       in Inr (strip (join LF ([cfx_summary a] @ concat (map (group_markdown include_evidence) (cfx_groups a)) @
         (if notes \<noteq> [] then [[], ''Unavailable logs: '' @
            join '', '' (map (\<lambda>n. unavailable_label (ucl_name n) (ucl_reason n)) (take 3 notes)) @
            (if length notes \<le> 3 then [] else '', +'' @ str_of_nat (length notes - 3) @ '' more'') @ ''.''] else [])))))"

section \<open>Excerpts and names are visible\<close>

lemma rstrip_ends: "rstrip s \<noteq> [] \<Longrightarrow> \<not> is_space (last (rstrip s))"
proof -
  assume ne: "rstrip s \<noteq> []"
  then have "dropWhile is_space (rev s) \<noteq> []" by (simp add: rstrip_def)
  then have "\<not> is_space (hd (dropWhile is_space (rev s)))" by (rule hd_dropWhile)
  with ne show ?thesis by (simp add: rstrip_def last_rev)
qed

lemma ends_visible_nonblank: "s \<noteq> [] \<Longrightarrow> \<not> is_space (last s) \<Longrightarrow> nonblank s"
  unfolding nonblank_iff using last_in_set by blast

lemma strip_ends: "strip s \<noteq> [] \<Longrightarrow> \<not> is_space (last (strip s))"
  unfolding strip_def by (rule rstrip_ends)

lemma nonblank_strip: "nonblank s \<Longrightarrow> nonblank (strip s)"
  using strip_ends [of s] ends_visible_nonblank [of "strip s"] by (simp add: nonblank_def [of s])

lemma nonblank_bounded: "nonblank s \<Longrightarrow> nonblank (bounded s n)"
  using nonblank_strip [of s] by (simp add: bounded_def Let_def is_space_def [of "CHR ''.''"])

lemma nonblank_join: "x \<in> set xs \<Longrightarrow> nonblank x \<Longrightarrow> nonblank (join sep xs)"
  by (induction sep xs rule: join.induct) auto

definition clean_text :: "string \<Rightarrow> bool" where
  "clean_text l \<longleftrightarrow> l \<noteq> [] \<and> \<not> is_space (last l)"

lemma clean_line_clean: "clean_line l \<noteq> [] \<Longrightarrow> clean_text (clean_line l)"
  using rstrip_ends by (simp add: clean_line_def clean_text_def)

lemma clean_lines_clean: "list_all clean_text (clean_lines ls)"
  using clean_line_clean by (auto simp: clean_lines_def list_all_iff)

text \<open>What a match consumes, and the character before its end.\<close>

definition advanced :: "match_state \<Rightarrow> match_state \<Rightarrow> bool" where
  "advanced s t \<longleftrightarrow> (\<exists>u. ms_rest s = u @ ms_rest t \<and> ms_prev t = (if u = [] then ms_prev s else Some (last u)))"

lemma advanced_trans: "advanced s m \<Longrightarrow> advanced m t \<Longrightarrow> advanced s t"
proof -
  assume "advanced s m" "advanced m t"
  then obtain u v where "ms_rest s = u @ ms_rest m" "ms_prev m = (if u = [] then ms_prev s else Some (last u))"
    "ms_rest m = v @ ms_rest t" "ms_prev t = (if v = [] then ms_prev m else Some (last v))"
    unfolding advanced_def by blast
  then show ?thesis unfolding advanced_def by (intro exI [of _ "u @ v"]) auto
qed

lemma star_runs_consumed:
  "(pr, rest) \<in> set (star_runs p prev x) \<Longrightarrow> \<exists>u. x = u @ rest \<and> pr = (if u = [] then prev else Some (last u))"
proof (induction x arbitrary: prev)
  case (Cons c cs)
  show ?case
  proof (cases "p c \<and> (pr, rest) \<in> set (star_runs p (Some c) cs)")
    case True
    with Cons.IH obtain u where "cs = u @ rest" "pr = (if u = [] then Some c else Some (last u))" by blast
    then show ?thesis by (intro exI [of _ "c # u"]) auto
  next
    case False
    with Cons.prems show ?thesis by (auto split: if_splits)
  qed
qed simp

lemma star_advanced: "(pr, rest) \<in> set (star_runs p (ms_prev s) (ms_rest s)) \<Longrightarrow>
    advanced s (s\<lparr>ms_prev := pr, ms_rest := rest\<rparr>)"
  using star_runs_consumed [of pr rest p "ms_prev s" "ms_rest s"] by (simp add: advanced_def)

lemma run_re_advanced: "t \<in> set (run_re r s) \<Longrightarrow> advanced s t"
proof (induction r arbitrary: s t)
  case (Cls p)
  then obtain c cs where "ms_rest s = c # cs" by (cases "ms_rest s") auto
  with Cls show ?case unfolding advanced_def by (intro exI [of _ "[c]"]) (auto split: if_splits)
next
  case (Seq a b)
  then obtain m where "m \<in> set (run_re a s)" "t \<in> set (run_re b m)" by auto
  with Seq.IH show ?case by (blast intro: advanced_trans)
next
  case (Star p)
  then show ?case by (auto intro: star_advanced)
next
  case (LazyStar p)
  then show ?case by (auto intro: star_advanced)
next
  case (Group n r)
  then obtain u where "u \<in> set (run_re r s)"
    "t = u\<lparr>ms_caps := (n, take (length (ms_rest s) - length (ms_rest u)) (ms_rest s)) # ms_caps u\<rparr>" by auto
  with Group.IH [of u s] show ?case by (simp add: advanced_def)
qed (auto simp: advanced_def [of s s for s] split: if_splits)

lemma plus_ends:
  assumes "t \<in> set (run_re (plus p) s)"
  shows "\<exists>u. ms_rest s = u @ ms_rest t \<and> u \<noteq> [] \<and> p (last u)"
proof -
  from assms obtain m where m: "m \<in> set (run_re (Cls p) s)" and t: "t \<in> set (run_re (Star p) m)"
    by (simp only: plus_def run_re.simps(3) set_concat set_map) blast
  from m obtain c where c: "ms_rest s = c # ms_rest m" "p c" by (cases "ms_rest s") (auto split: if_splits)
  from t obtain u where "ms_rest m = u @ ms_rest t" "\<forall>x \<in> set u. p x" by (auto dest: star_runs_suffix)
  with c show ?thesis by (intro exI [of _ "c # u"]) auto
qed

lemma seqs_split:
  "t \<in> set (run_re (seqs (rs @ xs)) s) \<Longrightarrow> \<exists>m w. ms_rest s = w @ ms_rest m \<and> t \<in> set (run_re (seqs xs) m)"
proof (induction rs arbitrary: s)
  case Nil
  then show ?case by (intro exI [of _ s] exI [of _ "[]"]) simp
next
  case (Cons r rs)
  then obtain m where m: "m \<in> set (run_re r s)" "t \<in> set (run_re (seqs (rs @ xs)) m)" by (auto simp: seqs_def)
  from run_re_suffix [OF m(1)] obtain u where u: "ms_rest s = u @ ms_rest m" by blast
  from Cons.IH [OF m(2)] obtain m' w where "ms_rest m = w @ ms_rest m'" "t \<in> set (run_re (seqs xs) m')" by blast
  with u show ?case by (intro exI [of _ m'] exI [of _ "u @ w"]) simp
qed

lemma sub_from_anchored:
  assumes "\<And>c s. match_at r (Some c) s = None"
  shows "sub_from r f (Some c) s = (s, 0)"
  using assms by (induction s arbitrary: c) simp_all

lemma timestamp_anchored: "match_at TIMESTAMP_PREFIX_RE (Some c) s = None"
  by (simp add: match_at_def TIMESTAMP_PREFIX_RE_def seqs_def)

lemma timestamp_ends_in_space:
  assumes "match_at TIMESTAMP_PREFIX_RE p s = Some t"
  shows "\<exists>u. s = u @ ms_rest t \<and> u \<noteq> [] \<and> is_space (last u)"
proof -
  obtain pre where "TIMESTAMP_PREFIX_RE = seqs (pre @ [plus is_space])"
  proof -
    have "TIMESTAMP_PREFIX_RE = seqs ([BeginText, exactly 4 is_digit, lit ''-'', exactly 2 is_digit, lit ''-'',
       exactly 2 is_digit, lit ''T'', exactly 2 is_digit, lit '':'', exactly 2 is_digit, lit '':'', exactly 2 is_digit,
       opt (seqs [lit ''.'', plus is_digit]), lit ''Z''] @ [plus is_space])"
      by (simp only: TIMESTAMP_PREFIX_RE_def append.simps)
    then show thesis by (rule that)
  qed
  with match_at_run [OF assms] have "t \<in> set (run_re (seqs (pre @ [plus is_space])) \<lparr>ms_prev = p, ms_rest = s, ms_caps = []\<rparr>)"
    by (simp only:)
  from seqs_split [OF this] obtain m w where s: "s = w @ ms_rest m" and "t \<in> set (run_re (seqs [plus is_space]) m)"
    by auto
  then have "t \<in> set (run_re (plus is_space) m)" by (simp add: seqs_def)
  from plus_ends [OF this] obtain u where "ms_rest m = u @ ms_rest t" "u \<noteq> []" "is_space (last u)" by blast
  with s show ?thesis by (intro exI [of _ "w @ u"]) simp
qed

lemma strip_log_prefix_visible:
  assumes "clean_text l"
  shows "nonblank (strip_log_prefix l)"
proof -
  let ?sub = "re_sub TIMESTAMP_PREFIX_RE (\<lambda>_. []) l"
  from assms obtain c cs where l: "l = c # cs" by (cases l) (auto simp: clean_text_def)
  have "?sub \<noteq> [] \<and> last ?sub = last l"
  proof (cases "\<exists>t. match_at TIMESTAMP_PREFIX_RE None l = Some t \<and> length (ms_rest t) < length l")
    case True
    then obtain t where t: "match_at TIMESTAMP_PREFIX_RE None l = Some t" "length (ms_rest t) < length l" by blast
    from timestamp_ends_in_space [OF t(1)] obtain u where u: "l = u @ ms_rest t" "u \<noteq> []" "is_space (last u)" by blast
    with assms have rest: "ms_rest t \<noteq> []" by (auto simp: clean_text_def)
    from run_re_advanced [OF match_at_run [OF t(1)]] u obtain d where "ms_prev t = Some d"
      by (auto simp: advanced_def split: if_splits)
    then have "?sub = ms_rest t"
      using t l sub_from_anchored [OF timestamp_anchored]
      by (simp add: re_sub_def re_subn_def)
    with u rest show ?thesis by simp
  next
    case False
    then have "?sub = l"
      using l sub_from_anchored [OF timestamp_anchored]
      by (auto simp: re_sub_def re_subn_def split: option.split)
    with l show ?thesis by simp
  qed
  with assms have "nonblank ?sub" by (auto simp: clean_text_def intro: ends_visible_nonblank)
  then show ?thesis by (simp add: strip_log_prefix_def nonblank_strip)
qed

lemma group1_at_end:
  assumes "t \<in> set (run_re (Seq (Group 1 (plus p)) (Seq EndText Eps)) s)"
  shows "\<exists>g. group1 t = g \<and> g \<noteq> [] \<and> ms_rest s = g @ ms_rest t \<and> (ms_rest t = [] \<or> ms_rest t = [CHR 0x0A])"
proof -
  from assms obtain u where u: "u \<in> set (run_re (plus p) s)"
    and t: "t = u\<lparr>ms_caps := (1, take (length (ms_rest s) - length (ms_rest u)) (ms_rest s)) # ms_caps u\<rparr>"
    and e: "ms_rest u = [] \<or> ms_rest u = [CHR 0x0A]" by (auto split: if_splits)
  from plus_ends [OF u] obtain w where "ms_rest s = w @ ms_rest u" "w \<noteq> []" by blast
  with t e show ?thesis by (auto simp: group1_def group_def)
qed

lemma step_group_visible:
  assumes "re_match STEP_GROUP_RE (strip x) = Some t"
  shows "nonblank (group1 t)"
proof -
  have "STEP_GROUP_RE = seqs ([BeginText, opt (lit ''##[group]''), lit ''Run'', plus is_space] @
      [Group 1 (plus not_newline), EndText])"
    by (simp only: STEP_GROUP_RE_def append.simps)
  with match_at_run [OF assms [unfolded re_match_def]]
  have "t \<in> set (run_re (seqs ([BeginText, opt (lit ''##[group]''), lit ''Run'', plus is_space] @
      [Group 1 (plus not_newline), EndText])) \<lparr>ms_prev = None, ms_rest = strip x, ms_caps = []\<rparr>)" by (simp only:)
  from seqs_split [OF this] obtain m w where w: "strip x = w @ ms_rest m"
    and m': "t \<in> set (run_re (seqs [Group 1 (plus not_newline), EndText]) m)" by auto
  from m' have m: "t \<in> set (run_re (Seq (Group 1 (plus not_newline)) (Seq EndText Eps)) m)"
    by (simp only: seqs_def foldr.simps comp_apply id_apply)
  from group1_at_end [OF m] obtain g where g: "group1 t = g" "g \<noteq> []" "ms_rest m = g @ ms_rest t"
    "ms_rest t = [] \<or> ms_rest t = [CHR 0x0A]" by blast
  have "strip x \<noteq> []" using w g by simp
  from strip_ends [OF this] w g have "\<not> is_space (last (g @ ms_rest t))" by simp
  with g have "ms_rest t = [] \<and> \<not> is_space (last g)" by (auto simp: is_space_def)
  with g show ?thesis by (simp add: ends_visible_nonblank)
qed

lemma read_step_name_visible: "read_step_name line = Some n \<Longrightarrow> nonblank n"
proof -
  assume a: "read_step_name line = Some n"
  have stripped: "strip y \<noteq> [] \<Longrightarrow> nonblank (strip y)" for y
    using strip_ends ends_visible_nonblank by blast
  show ?thesis
  proof (cases "re_match STEP_GROUP_RE (strip_log_prefix line)")
    case None
    with a stripped show ?thesis
      by (auto simp: read_step_name_def Let_def intro!: nonblank_bounded split: option.splits if_splits)
  next
    case (Some t)
    then have "nonblank (group1 t)" using step_group_visible by (simp add: strip_log_prefix_def)
    with a Some show ?thesis
      by (auto simp: read_step_name_def Let_def intro!: nonblank_bounded nonblank_strip)
  qed
qed

section \<open>The explanation passes its contract\<close>

definition segment_ok :: "step_segment \<Rightarrow> bool" where
  "segment_ok s \<longleftrightarrow> pred_option nonblank (seg_name s) \<and> seg_lines s \<noteq> [] \<and> list_all clean_text (seg_lines s)"

definition split_state_ok :: "split_state \<Rightarrow> bool" where
  "split_state_ok st \<longleftrightarrow> list_all segment_ok (sp_segments st) \<and> pred_option nonblank (sp_name st) \<and>
     list_all clean_text (sp_lines st)"

lemma flush_segment_ok: "split_state_ok st \<Longrightarrow> list_all segment_ok (flush_segment st)"
  by (simp add: split_state_ok_def flush_segment_def segment_ok_def)

lemma split_step_ok: "split_state_ok st \<Longrightarrow> split_state_ok (split_step st raw)"
  using clean_line_clean [of raw] read_step_name_visible [of "clean_line raw"] flush_segment_ok [of st]
  by (auto simp: split_step_def Let_def split_state_ok_def split: option.split)

lemma split_step_segments_ok: "list_all segment_ok (split_step_segments content)"
proof -
  have "split_state_ok st \<Longrightarrow> split_state_ok (foldl split_step st ls)" for st ls
    by (induction ls arbitrary: st) (simp_all add: split_step_ok)
  then show ?thesis
    unfolding split_step_segments_def by (intro flush_segment_ok) (simp add: split_state_ok_def)
qed

lemma failure_segments_ok: "list_all segment_ok (failure_segments content)"
  using split_step_segments_ok [of content] clean_lines_clean [of "last_n 12 (splitlines content)"]
  by (auto simp: failure_segments_def Let_def list_all_iff segment_ok_def)

lemma selected_indexes_props:
  "set (selected_indexes lines) \<subseteq> {..<length lines}"
  "failure_line_indexes lines \<noteq> [] \<Longrightarrow> selected_indexes lines \<noteq> []"
proof -
  show "set (selected_indexes lines) \<subseteq> {..<length lines}" by (auto simp: selected_indexes_def)
  assume "failure_line_indexes lines \<noteq> []"
  then obtain i where "i \<in> set (failure_line_indexes lines)" by (cases "failure_line_indexes lines") auto
  then have "i \<in> set (selected_indexes lines)"
    by (auto simp: selected_indexes_def) (auto simp: failure_line_indexes_def)
  then show "selected_indexes lines \<noteq> []" by auto
qed

lemma last_n_in: "x \<in> set (last_n n xs) \<Longrightarrow> x \<in> set xs"
  by (auto simp: last_n_def dest: in_set_dropD)

lemma failure_excerpt_visible:
  assumes "lines \<noteq> []" and clean: "list_all clean_text lines"
  shows "nonblank (failure_excerpt lines)"
proof (cases "failure_line_indexes lines = []")
  case True
  have "last lines \<in> set (last_n 8 lines)"
    using assms(1) by (cases lines rule: rev_cases) (auto simp: last_n_def)
  moreover have "nonblank (last lines)"
    using assms by (auto simp: list_all_iff clean_text_def intro: ends_visible_nonblank)
  ultimately show ?thesis
    using True by (simp add: failure_excerpt_def nonblank_bounded nonblank_join)
next
  case False
  with selected_indexes_props obtain i rest where sel: "selected_indexes lines = i # rest"
    by (cases "selected_indexes lines") auto
  with selected_indexes_props(1) [of lines] have "i < length lines" by auto
  with clean have "nonblank (strip_log_prefix (lines ! i))"
    by (auto simp: list_all_length intro: strip_log_prefix_visible)
  moreover have "strip_log_prefix (lines ! i) \<in> set (take 12 (excerpt_lines lines None (selected_indexes lines)))"
    by (simp add: sel)
  ultimately show ?thesis
    using False by (simp add: failure_excerpt_def nonblank_bounded nonblank_join)
qed

lemma CATEGORY_names: "(c, ps) \<in> set CATEGORY_PATTERNS \<Longrightarrow> c \<in> set CI_FAILURE_CATEGORIES"
  by (auto simp: CATEGORY_PATTERNS_def CI_FAILURE_CATEGORIES_def)

lemma classify_category_known: "classify_category conclusion text step_name \<in> set CI_FAILURE_CATEGORIES"
proof -
  have "c \<in> set CI_FAILURE_CATEGORIES" if "find P CATEGORY_PATTERNS = Some (c, ps)" for P c ps
    using that CATEGORY_names by (metis find_Some_iff nth_mem)
  moreover have "{''cancellation'', ''timeout'', ''unknown''} \<subseteq> set CI_FAILURE_CATEGORIES"
    by (simp add: CI_FAILURE_CATEGORIES_def)
  ultimately show ?thesis by (auto simp: classify_category_def Let_def split: option.split)
qed

lemma flaky_signal_ok: "list_all ok_ci_flaky_signal (classify_flaky_signals text)"
proof -
  have "nonblank signal \<and> unit_interval (Fin confidence)" if "(signal, confidence, ps) \<in> set FLAKY_PATTERNS" for signal confidence ps
    using that by (auto simp: FLAKY_PATTERNS_def unit_interval_def is_space_def)
  then show ?thesis
    by (auto simp: classify_flaky_signals_def Let_def list_all_iff ok_ci_flaky_signal_def is_space_def split: option.splits)
qed

lemma suggested_fixes_ok: "list_all nonblank (suggested_fixes c s b) \<and> suggested_fixes c s b \<noteq> []"
proof -
  have "nonblank (category_fix c)" by (simp add: category_fix_def is_space_def)
  moreover have "dedupe_keep_order (xs @ [y] @ zs) \<noteq> []" for xs zs and y :: string
    using set_dedupe [of "xs @ [y] @ zs"] by (metis append_is_Nil_conv not_Cons_self2 set_empty)
  ultimately show ?thesis
    by (auto simp: suggested_fixes_def list_all_iff is_space_def split: option.splits)
qed

lemma check_runs_by_id_in: "check_runs_by_id a i = Some c \<Longrightarrow> c \<in> set (cla_check_runs a)"
proof -
  have "foldl (\<lambda>m c. m(ccr_id c \<mapsto> c)) Map.empty cs i = Some c \<Longrightarrow> c \<in> set cs" for cs
    by (induction cs rule: rev_induct) (auto split: if_splits)
  then show "check_runs_by_id a i = Some c \<Longrightarrow> ?thesis" by (simp add: check_runs_by_id_def)
qed

lemma failure_group_ok:
  assumes a: "ok_CiLogArtifact a" "l \<in> set (cla_logs a)"
    and name: "pred_option nonblank step_name" and excerpt: "nonblank excerpt"
  shows "ok_ci_failure_group (failure_group digest a l step_name excerpt)"
proof -
  from a have l: "ok_ci_log_entry l" by (simp add: ok_CiLogArtifact_def list_all_iff)
  have run: "ok_ci_check_run c" if "check_runs_by_id a i = Some c" for i c
    using check_runs_by_id_in [OF that] a by (simp add: ok_CiLogArtifact_def list_all_iff)
  have job: "nonblank (job_name_of a l)"
    using run l by (auto simp: job_name_of_def ok_ci_check_run_def ok_ci_log_entry_def split: option.split)
  have conclusion: "nonblank (conclusion_of a l)"
    using run by (auto simp: conclusion_of_def ok_ci_check_run_def is_space_def split: option.split)
  have "nonblank (ci_group_id digest i s e)" for i s e by (simp add: ci_group_id_def Let_def is_space_def)
  moreover have "nonblank (root_cause_summary j s c e f)" for j s c e f by (simp add: root_cause_summary_def Let_def is_space_def)
  ultimately show ?thesis
    using l job conclusion name excerpt
    by (simp add: failure_group_def Let_def ok_ci_failure_group_def ok_ci_failure_evidence_def ok_ci_log_entry_def
        classify_category_known flaky_signal_ok suggested_fixes_ok)
qed

definition log_visible :: "CiLogEntry \<Rightarrow> bool" where
  \<comment> \<open>some line of the log is not blank once colours are removed\<close>
  "log_visible l \<longleftrightarrow> clean_lines (splitlines (cle_content l)) \<noteq> []"

lemma explanation_groups_ok:
  assumes a: "ok_CiLogArtifact a" and visible: "list_all log_visible (cla_logs a)"
  shows "list_all ok_ci_failure_group (explanation_groups digest a)"
proof -
  have "ok_ci_failure_group (failure_group digest a l (seg_name seg) (failure_excerpt (seg_lines seg)))"
    if "l \<in> set (cla_logs a)" "seg \<in> set (failure_segments (cle_content l))" for l seg
    using that failure_segments_ok [of "cle_content l"] a
    by (auto simp: list_all_iff segment_ok_def intro!: failure_group_ok failure_excerpt_visible)
  moreover have "ok_ci_failure_group (failure_group digest a l None (failure_excerpt (clean_lines (splitlines (cle_content l)))))"
    if "l \<in> set (cla_logs a)" for l
    using that visible a clean_lines_clean
    by (auto simp: list_all_iff log_visible_def intro!: failure_group_ok failure_excerpt_visible)
  ultimately show ?thesis
    by (auto simp: explanation_groups_def fallback_groups_for_logs_def Let_def list_all_iff)
qed

lemma explanation_of_ok:
  assumes "ok_CiLogArtifact a" and "list_all log_visible (cla_logs a)"
  shows "ok_CiFailureExplanationArtifact (explanation_of digest a)"
proof -
  have "nonblank (explanation_summary gs u)" for gs u
    by (simp add: explanation_summary_def Let_def is_space_def split: list.split)
  with assms explanation_groups_ok [OF assms, of digest] show ?thesis
    by (simp add: explanation_of_def Let_def ok_CiFailureExplanationArtifact_def ok_CiLogArtifact_def)
qed

section \<open>Every log is described\<close>

definition describes :: "CiLogArtifact \<Rightarrow> CiLogEntry \<times> step_segment \<Rightarrow> CiFailureGroup \<Rightarrow> bool" where
  \<comment> \<open>the group tells of this part of this log\<close>
  "describes a = (\<lambda>(l, part) g. let excerpt = failure_excerpt (seg_lines part) in
     cfg_job_name g = job_name_of a l \<and> cfg_check_run_id g = cle_check_run_id l \<and> cfg_conclusion g = conclusion_of a l \<and>
     cfg_step_name g = seg_name part \<and> cfg_category g = classify_category (conclusion_of a l) excerpt (seg_name part) \<and>
     cfg_flaky_signals g = classify_flaky_signals excerpt \<and>
     cfg_evidence g = [\<lparr> cfe_check_run_id = cle_check_run_id l, cfe_workflow_job_id = Some (cle_workflow_job_id l),
       cfe_step_name = seg_name part, cfe_excerpt = excerpt \<rparr>])"

definition visible_lines :: "CiLogEntry \<Rightarrow> string list" where
  "visible_lines l = clean_lines (splitlines (cle_content l))"

definition covers_log :: "CiLogEntry \<Rightarrow> step_segment list \<Rightarrow> bool" where
  \<comment> \<open>the parts hold every failure line of the log once and in order, and nothing that is not a line of it; a log without one
      has a single part, or none if its last lines are blank\<close>
  "covers_log l parts \<longleftrightarrow> subseq (concat (map seg_lines parts)) (visible_lines l) \<and>
     filter is_failure_line (concat (map seg_lines parts)) = filter is_failure_line (visible_lines l) \<and>
     (if list_ex is_failure_line (visible_lines l) then list_all (\<lambda>p. list_ex is_failure_line (seg_lines p)) parts
      else (\<exists>lines. lines \<noteq> [] \<and> parts = [\<lparr> seg_name = None, seg_lines = lines \<rparr>]) \<or>
        parts = [] \<and> clean_lines (last_n 12 (splitlines (cle_content l))) = [])"

definition log_parts :: "'l list \<Rightarrow> 'p list list \<Rightarrow> ('l \<times> 'p) list" where
  \<comment> \<open>the parts of all logs, log after log\<close>
  "log_parts logs parts = concat (map2 (\<lambda>l ps. map (Pair l) ps) logs parts)"

lemma describes_failure_group: "describes a (l, part) (failure_group digest a l (seg_name part) (failure_excerpt (seg_lines part)))"
  by (simp add: describes_def failure_group_def Let_def)

lemma failure_indexes_Nil: "failure_line_indexes lines = [] \<longleftrightarrow> \<not> list_ex is_failure_line lines"
  by (force simp: failure_line_indexes_def filter_empty_conv list_ex_iff in_set_conv_nth)

lemma split_steps_lines:
  "concat (map seg_lines (flush_segment (foldl split_step st ls))) = concat (map seg_lines (sp_segments st)) @ sp_lines st @ clean_lines ls"
proof (induction ls arbitrary: st)
  case Nil
  then show ?case by (simp add: flush_segment_def clean_lines_def)
next
  case (Cons l ls)
  then show ?case by (simp add: split_step_def Let_def flush_segment_def clean_lines_def split: option.split)
qed

lemma step_segments_lines: "concat (map seg_lines (split_step_segments content)) = clean_lines (splitlines content)"
  by (simp add: split_step_segments_def split_steps_lines)

lemma kept_segments:
  assumes "list_ex is_failure_line (concat (map seg_lines segs))"
  shows "filter (\<lambda>s. list_ex is_failure_line (seg_lines s)) segs \<noteq> []"
  using assms by (auto simp: filter_empty_conv list_ex_iff)

lemma kept_segments_lines:
  "filter is_failure_line (concat (map seg_lines (filter (\<lambda>s. list_ex is_failure_line (seg_lines s)) segs))) =
     filter is_failure_line (concat (map seg_lines segs))"
  by (induction segs) (auto simp: list_ex_iff filter_empty_conv)

lemma kept_segments_subseq: "subseq (concat (map seg_lines (filter P segs))) (concat (map seg_lines segs))"
  by (induction segs) (auto intro: list_emb_append_mono subseq_append' list_emb_append2)

lemma last_lines_subseq: "subseq (clean_lines (last_n n ls)) (clean_lines ls)"
proof -
  have "clean_lines ls = clean_lines (take (length ls - n) ls) @ clean_lines (last_n n ls)"
    by (metis append_take_drop_id clean_lines_def filter_append last_n_def map_append)
  then show ?thesis by (metis list_emb_append2 subseq_order.order_refl)
qed

lemma failure_segments_cover: "covers_log l (failure_segments (cle_content l))"
proof -
  let ?failing = "filter (\<lambda>s. list_ex is_failure_line (seg_lines s)) (split_step_segments (cle_content l))"
  let ?tail = "clean_lines (last_n 12 (splitlines (cle_content l)))"
  have visible: "visible_lines l = concat (map seg_lines (split_step_segments (cle_content l)))"
    by (simp add: visible_lines_def step_segments_lines)
  have parts: "failure_segments (cle_content l) =
      (if ?failing \<noteq> [] then ?failing else if ?tail \<noteq> [] then [\<lparr> seg_name = None, seg_lines = ?tail \<rparr>] else [])"
    by (simp add: failure_segments_def Let_def failure_indexes_Nil)
  show ?thesis
  proof (cases "list_ex is_failure_line (visible_lines l)")
    case True
    with kept_segments [of "split_step_segments (cle_content l)"] have "failure_segments (cle_content l) = ?failing"
      by (simp add: parts visible)
    with True show ?thesis
      by (simp add: covers_log_def visible kept_segments_lines kept_segments_subseq list_all_iff)
  next
    case False
    then have none: "filter is_failure_line (visible_lines l) = []" "?failing = []"
      by (auto simp: visible filter_empty_conv list_ex_iff)
    have sub: "subseq ?tail (visible_lines l)" by (simp add: visible_lines_def last_lines_subseq)
    with none(1) have "filter is_failure_line ?tail = []"
      by (metis list_emb_Nil2 subseq_filter)
    with False none sub show ?thesis by (simp add: covers_log_def parts)
  qed
qed

lemma whole_log_covers:
  assumes "log_visible l" and "failure_segments (cle_content l) = []"
  shows "covers_log l [\<lparr> seg_name = None, seg_lines = visible_lines l \<rparr>]"
proof -
  from failure_segments_cover [of l] assms(2) have "filter is_failure_line (visible_lines l) = []" by (simp add: covers_log_def)
  with assms(1) show ?thesis by (auto simp: covers_log_def visible_lines_def log_visible_def filter_empty_conv list_ex_iff)
qed

definition groups_of_parts :: "(string \<Rightarrow> string) \<Rightarrow> CiLogArtifact \<Rightarrow> (CiLogEntry \<Rightarrow> step_segment list) \<Rightarrow> CiLogEntry list \<Rightarrow> CiFailureGroup list" where
  \<comment> \<open>one group for every part of every log\<close>
  "groups_of_parts digest a f logs = concat (map (\<lambda>l. map (\<lambda>seg. failure_group digest a l (seg_name seg) (failure_excerpt (seg_lines seg))) (f l)) logs)"

lemma groups_of_parts_describe: "list_all2 (describes a) (log_parts logs (map f logs)) (groups_of_parts digest a f logs)"
proof (induction logs)
  case Nil
  then show ?case by (simp add: log_parts_def groups_of_parts_def)
next
  case (Cons l logs)
  have "list_all2 (describes a) (map (Pair l) (f l)) (map (\<lambda>seg. failure_group digest a l (seg_name seg) (failure_excerpt (seg_lines seg))) (f l))"
    by (simp add: list_all2_map1 list_all2_map2 list_all2_same describes_failure_group)
  from list_all2_appendI [OF this Cons.IH] show ?case by (simp add: log_parts_def groups_of_parts_def)
qed

lemma groups_describe:
  assumes "list_all log_visible (cla_logs a)"
  shows "\<exists>parts. list_all2 covers_log (cla_logs a) parts \<and>
     list_all2 (describes a) (log_parts (cla_logs a) parts) (explanation_groups digest a)"
proof -
  let ?segments = "\<lambda>l. failure_segments (cle_content l)" and ?whole = "\<lambda>l. [\<lparr> seg_name = None, seg_lines = visible_lines l \<rparr>]"
  have covered: "\<exists>parts. list_all2 covers_log (cla_logs a) parts \<and> list_all2 (describes a) (log_parts (cla_logs a) parts) gs"
    if "\<forall>l \<in> set (cla_logs a). covers_log l (f l)" "gs = groups_of_parts digest a f (cla_logs a)" for f gs
    using that groups_of_parts_describe [of a "cla_logs a" f digest]
    by (intro exI [of _ "map f (cla_logs a)"]) (simp add: list_all2_map2 list_all2_same)
  have segments: "explanation_groups digest a = (if groups_of_parts digest a ?segments (cla_logs a) = [] \<and> cla_logs a \<noteq> []
      then groups_of_parts digest a ?whole (cla_logs a) else groups_of_parts digest a ?segments (cla_logs a))"
    by (simp add: explanation_groups_def fallback_groups_for_logs_def groups_of_parts_def Let_def visible_lines_def)
  show ?thesis
  proof (cases "groups_of_parts digest a ?segments (cla_logs a) = [] \<and> cla_logs a \<noteq> []")
    case True
    then have "\<forall>l \<in> set (cla_logs a). ?segments l = []" by (simp add: groups_of_parts_def)
    with assms have "\<forall>l \<in> set (cla_logs a). covers_log l (?whole l)" by (simp add: list_all_iff whole_log_covers)
    from covered [OF this refl] True show ?thesis by (simp add: segments)
  next
    case False
    have "\<forall>l \<in> set (cla_logs a). covers_log l (?segments l)" by (simp add: failure_segments_cover)
    from covered [OF this refl] False show ?thesis by (simp only: segments if_False)
  qed
qed

text \<open>C20: For every payload that satisfies the CI log contract, whose logs each have a visible line, the generated
  explanation satisfies the explanation contract, whatever the logs contain (colour codes, time stamps,
  failures or none), keeps the run, the repository, the head and all notes on unavailable logs, and describes exactly the logs: its groups
  are, log after log and in the order of the log, one for every part, with the job, conclusion, step, category, flaky signals and
  excerpt of that part; the parts of a log hold every line that reports a failure exactly once and only lines of the log, each has such a
  line, and a log that reports none has one part. Only such a log whose last twelve lines are blank may have no
  group, and never all of them. A payload that fails the log contract is rejected with that contract's messages.\<close>

theorem ci_explanation_passes_contract:
  assumes "\<forall>a. CiLogArtifact_from_mapping v = Inr a \<longrightarrow> list_all log_visible (cla_logs a)"
  shows "case generate_ci_failure_explanation digest v of
     Inl e \<Rightarrow> CiLogArtifact_from_mapping v = Inl e \<and> errors e \<noteq> []
   | Inr payload \<Rightarrow> (\<exists>a x. CiLogArtifact_from_mapping v = Inr a \<and> CiFailureExplanationArtifact_from_mapping payload = Inr x \<and>
       x = explanation_of digest a \<and> cfx_review_run_id x = cla_review_run_id a \<and> cfx_head_sha x = cla_head_sha a \<and>
       cfx_unavailable_log_notes x = cla_unavailable_logs a \<and> (cfx_groups x = [] \<longleftrightarrow> cla_logs a = []) \<and>
       (\<exists>parts. list_all2 covers_log (cla_logs a) parts \<and> list_all2 (describes a) (log_parts (cla_logs a) parts) (cfx_groups x)))"
proof (cases "CiLogArtifact_from_mapping v")
  case (Inl e)
  then show ?thesis using CiLogArtifact.rejected_reports by (simp add: generate_ci_failure_explanation_def)
next
  case (Inr a)
  with assms have visible: "list_all log_visible (cla_logs a)" by blast
  have groups: "explanation_groups digest a = [] \<longleftrightarrow> cla_logs a = []"
    by (auto simp: explanation_groups_def fallback_groups_for_logs_def Let_def)
  from CiFailureExplanationArtifact.roundtrip [OF explanation_of_ok [OF CiLogArtifact.accepted_ok [OF Inr] visible]] Inr groups
    groups_describe [OF visible, of digest]
  show ?thesis by (simp add: generate_ci_failure_explanation_def) (simp add: explanation_of_def Let_def)
qed

definition sample_ci_artifact :: "string \<Rightarrow> CiLogArtifact" where
  "sample_ci_artifact content = \<lparr> cla_schema_version = CI_LOG_ARTIFACT_SCHEMA_VERSION, cla_review_run_id = ''r'',
     cla_repository_full_name = ''o/n'', cla_pull_request_number = 1, cla_head_sha = ''h'', cla_check_runs = [],
     cla_logs = [\<lparr> cle_check_run_id = 7, cle_name = ''test'', cle_source = ''github_actions_job'',
        cle_workflow_run_id = None, cle_workflow_job_id = 9, cle_content = content, cle_original_bytes = 1,
        cle_redacted_bytes = 1, cle_stored_bytes = 1, cle_truncated = False, cle_redacted = False \<rparr>],
     cla_unavailable_logs = [] \<rparr>"

lemma sample_ci_artifact_ok: "ok_CiLogArtifact (sample_ci_artifact content)"
  by (simp add: sample_ci_artifact_def ok_CiLogArtifact_def ok_ci_log_entry_def is_space_def)

theorem ci_explanation_passes_contract_witness:
  "\<exists>payload x. generate_ci_failure_explanation (\<lambda>t. t) (enc_CiLogArtifact (sample_ci_artifact ''boom'')) = Inr payload \<and>
     CiFailureExplanationArtifact_from_mapping payload = Inr x \<and> cfx_head_sha x = ''h''"
proof -
  let ?v = "enc_CiLogArtifact (sample_ci_artifact ''boom'')"
  have read: "CiLogArtifact_from_mapping ?v = Inr (sample_ci_artifact ''boom'')"
    by (rule CiLogArtifact.roundtrip) (rule sample_ci_artifact_ok)
  have "clean_lines (splitlines ''boom'') \<noteq> []" by code_simp
  then have "\<forall>a. CiLogArtifact_from_mapping ?v = Inr a \<longrightarrow> list_all log_visible (cla_logs a)"
    by (auto simp: read log_visible_def) (simp add: sample_ci_artifact_def log_visible_def)
  from ci_explanation_passes_contract [OF this, of "\<lambda>t. t"] read show ?thesis
    by (cases "generate_ci_failure_explanation (\<lambda>t. t) ?v") (auto simp: sample_ci_artifact_def)
qed

text \<open>
  Without a visible line the fallback group has an empty excerpt, and the explanation is rejected by its
  own contract, so it cannot be rendered.
\<close>

lemma empty_excerpt_defect:
  assumes "ok_ci_failure_evidence (e\<lparr>cfe_excerpt := ''x''\<rparr>)"
  shows "defect_of read_ci_failure_evidence (enc_ci_failure_evidence (e\<lparr>cfe_excerpt := []\<rparr>))
     (\<lambda>p. p @ ''.excerpt must be a non-empty string'')"
  using assms unfolding defect_of_def
  by (simp add: read_ci_failure_evidence_def enc_ci_failure_evidence_def ok_ci_failure_evidence_def run_reader
      primitive_readers join_path_def)

lemma empty_excerpt_group_defect:
  assumes g: "ok_ci_failure_group (g\<lparr>cfg_evidence := [e\<lparr>cfe_excerpt := ''x''\<rparr>]\<rparr>)"
  shows "defect_of read_ci_failure_group (enc_ci_failure_group (g\<lparr>cfg_evidence := [e\<lparr>cfe_excerpt := []\<rparr>]\<rparr>))
     (\<lambda>p. p @ ''.evidence[0].excerpt must be a non-empty string'')"
  unfolding defect_of_def
proof
  fix p
  let ?e = "e\<lparr>cfe_excerpt := ''x''\<rparr>"
  from g have e: "ok_ci_failure_evidence ?e" by (simp add: ok_ci_failure_group_def)
  from defect_in_items [of "[?e]" read_ci_failure_evidence enc_ci_failure_evidence 0,
      OF _ _ empty_excerpt_defect [OF e], of "p @ ''.evidence''"] e
  obtain ys where len: "length ys = 1" and run: "\<And>es. run_state (read_items read_ci_failure_evidence (p @ ''.evidence'')
      [enc_ci_failure_evidence (e\<lparr>cfe_excerpt := []\<rparr>)]) es =
      (ys, es @ [p @ ''.evidence[0].excerpt must be a non-empty string''])"
    by (auto simp: ci_failure_evidence.item_run str_of_nat.simps digit_char_def)
  from len have "ys \<noteq> []" by auto
  note ys = this run
  show "\<exists>v. \<forall>es. run_state (read_ci_failure_group (enc_ci_failure_group (g\<lparr>cfg_evidence := [e\<lparr>cfe_excerpt := []\<rparr>]\<rparr>)) p) es =
      (v, es @ [p @ ''.evidence[0].excerpt must be a non-empty string''])"
    using g ys
    by (simp add: read_ci_failure_group_def enc_ci_failure_group_def ok_ci_failure_group_def run_reader
        primitive_readers ci_flaky_signal.items_run)
qed

text \<open>One empty log makes the explanation unusable: generation returns a payload for the sample artifact
  with empty log text, and rendering it raises with the one message that the excerpt of the group's evidence
  is empty.\<close>

lemma empty_log_explanation_rejected:
  "\<exists>payload. generate_ci_failure_explanation (\<lambda>t. t) (enc_CiLogArtifact (sample_ci_artifact [])) = Inr payload \<and>
     render_ci_failure_explanation_markdown True payload =
       Inl (ContractValidationError [''groups[0].evidence[0].excerpt must be a non-empty string''])"
proof -
  let ?a = "sample_ci_artifact []"
  let ?l = "hd (cla_logs ?a)" and ?d = "\<lambda>t. t :: string"
  let ?e = "\<lparr> cfe_check_run_id = 7, cfe_workflow_job_id = Some 9, cfe_step_name = None, cfe_excerpt = ''x'' \<rparr>"
  let ?g = "failure_group ?d ?a ?l None []"
  have read: "CiLogArtifact_from_mapping (enc_CiLogArtifact ?a) = Inr ?a"
    by (rule CiLogArtifact.roundtrip) (rule sample_ci_artifact_ok)
  have lines: "splitlines [] = []" by (simp add: splitlines_def)
  have "failure_segments [] = []"
    by (simp add: failure_segments_def split_step_segments_def lines flush_segment_def clean_lines_def last_n_def)
  moreover have "failure_excerpt [] = []"
    by (simp add: failure_excerpt_def failure_line_indexes_def last_n_def bounded_def strip_def lstrip_def rstrip_def)
  ultimately have groups: "explanation_groups ?d ?a = [?g]"
    by (simp add: explanation_groups_def fallback_groups_for_logs_def sample_ci_artifact_def lines clean_lines_def)
  have "?l \<in> set (cla_logs ?a)" by (simp add: sample_ci_artifact_def)
  from failure_group_ok [OF sample_ci_artifact_ok this, of None "''x''" ?d]
  have x: "ok_ci_failure_group (failure_group ?d ?a ?l None ''x'')" by (simp add: is_space_def)
  have g: "?g = ?g\<lparr>cfg_evidence := [?e\<lparr>cfe_excerpt := []\<rparr>]\<rparr>" and
    evidence: "cfg_evidence (failure_group ?d ?a ?l None ''x'') = [?e]"
    by (simp_all add: failure_group_def Let_def sample_ci_artifact_def)
  have "ok_ci_failure_group (?g\<lparr>cfg_evidence := [?e\<lparr>cfe_excerpt := ''x''\<rparr>]\<rparr>)"
    using x evidence by (simp add: ok_ci_failure_group_def) (simp add: failure_group_def Let_def
        classify_category_known flaky_signal_ok suggested_fixes_ok root_cause_summary_def ci_group_id_def is_space_def)
  from empty_excerpt_group_defect [OF this] g
  have "defect_of read_ci_failure_group (enc_ci_failure_group ?g) (\<lambda>p. p @ ''.evidence[0].excerpt must be a non-empty string'')"
    by simp
  from defect_in_items [of "[failure_group ?d ?a ?l None ''x'']" read_ci_failure_group enc_ci_failure_group 0,
      OF _ _ this, of "''groups''"] x
  obtain ys where "\<And>es. run_state (read_items read_ci_failure_group ''groups'' [enc_ci_failure_group ?g]) es =
      (ys, es @ [''groups[0].evidence[0].excerpt must be a non-empty string''])"
    by (auto simp: ci_failure_group.item_run str_of_nat.simps digit_char_def)
  moreover have "cla_review_run_id ?a = ''r''" "cla_repository_full_name ?a = ''o/n''" "cla_pull_request_number ?a = 1"
    "cla_head_sha ?a = ''h''" "cla_unavailable_logs ?a = []"
    by (simp_all add: sample_ci_artifact_def)
  moreover have "run_state (read_items rd q []) es = ([], es)" for rd :: "json \<Rightarrow> string \<Rightarrow> UnavailableCiLog reader" and q es
    by (simp add: read_items_def)
  ultimately have "CiFailureExplanationArtifact_from_mapping (enc_CiFailureExplanationArtifact (explanation_of ?d ?a)) =
      Inl (ContractValidationError [''groups[0].evidence[0].excerpt must be a non-empty string''])"
    by (simp add: CiFailureExplanationArtifact_from_mapping_def raise_if_errors_def CiFailureExplanationArtifact_reader_def
        enc_CiFailureExplanationArtifact_def explanation_of_def Let_def groups run_reader primitive_readers
        explanation_summary_def is_space_def)
  with read show ?thesis
    by (simp add: generate_ci_failure_explanation_def render_ci_failure_explanation_markdown_def)
qed

end
