(* ===== verification/PipelineHunks.thy ===== *)
theory PipelineHunks
  imports ContractsDiff PyRegex
begin

text \<open>
  pipeline.py, \<open>parse_patch_hunks\<close>: the unified diff text of a file as hunks of numbered lines. The hunk
  and line dictionaries have the keys of the contract and are its records. The dictionary \<open>current\<close>, which
  the code mutates after appending it to \<open>hunks\<close>, is kept apart from the finished hunks together with the
  two line counters, and appended at the end.
\<close>

section \<open>Parsing\<close>

definition any_but_newline :: "char \<Rightarrow> bool" where
  "any_but_newline c \<longleftrightarrow> c \<noteq> CHR 0x0A"

definition HUNK_HEADER_RE :: re where
  \<comment> \<open>\<open>^@@ -(\d+)(?:,(\d+))? \+(\d+)(?:,(\d+))? @@ ?(.*)$\<close>\<close>
  "HUNK_HEADER_RE = Seq BeginText (seqs
     [lit ''@@ -'', Group 1 (plus is_digit), opt (seqs [lit '','', Group 2 (plus is_digit)]),
      lit '' +'', Group 3 (plus is_digit), opt (seqs [lit '','', Group 4 (plus is_digit)]),
      lit '' @@'', opt (lit '' ''), Group 5 (Star any_but_newline), EndText])"

definition group_or :: "match_state \<Rightarrow> nat \<Rightarrow> string \<Rightarrow> string" where
  \<comment> \<open>\<open>match.group(n) or dflt\<close>\<close>
  "group_or t n dflt = (case group t n of Some g \<Rightarrow> or_else g dflt | None \<Rightarrow> dflt)"

definition int_of_digits :: "string \<Rightarrow> int" where
  \<comment> \<open>\<open>int(text)\<close> for a text of decimal digits\<close>
  "int_of_digits s = int (foldl (\<lambda>n c. 10 * n + (of_char c - 48)) 0 s)"

record hunk_state =
  hs_done :: "DiffHunk list"
  hs_current :: "(DiffHunk \<times> int \<times> int) option"   \<comment> \<open>\<open>current\<close>, \<open>old_line\<close>, \<open>new_line\<close>\<close>

definition current_hunk :: "hunk_state \<Rightarrow> DiffHunk list" where
  "current_hunk st = (case hs_current st of Some (h, _, _) \<Rightarrow> [h] | None \<Rightarrow> [])"

definition header_hunk :: "match_state \<Rightarrow> DiffHunk" where
  "header_hunk t = \<lparr> dh_old_start = int_of_digits (group_or t 1 []),
     dh_old_line_count = int_of_digits (group_or t 2 ''1''),
     dh_new_start = int_of_digits (group_or t 3 []),
     dh_new_line_count = int_of_digits (group_or t 4 ''1''),
     dh_section_header = group_or t 5 [], dh_lines = [] \<rparr>"

definition add_diff_line :: "DiffHunk \<Rightarrow> string \<Rightarrow> string \<Rightarrow> int option \<Rightarrow> int option \<Rightarrow> DiffHunk" where
  "add_diff_line h type' content old new = h\<lparr>dh_lines := dh_lines h @
     [\<lparr> dl_type = type', dl_content = content, dl_old_line_number = old, dl_new_line_number = new \<rparr>]\<rparr>"

definition patch_step :: "hunk_state \<Rightarrow> string \<Rightarrow> hunk_state" where
  "patch_step st raw_line =
     (case re_match HUNK_HEADER_RE raw_line of
        Some t \<Rightarrow> \<lparr> hs_done = hs_done st @ current_hunk st,
          hs_current = Some (header_hunk t, dh_old_start (header_hunk t), dh_new_start (header_hunk t)) \<rparr>
      | None \<Rightarrow>
          (case hs_current st of
             None \<Rightarrow> st
           | Some (h, old_line, new_line) \<Rightarrow>
               if starts_with [CHR 0x5C] raw_line then st
               else
                 (let prefix = take 1 raw_line;
                      content = (if prefix \<in> set ['' '', ''+'', ''-''] then drop 1 raw_line else raw_line)
                  in if prefix = ''+'' then st\<lparr>hs_current :=
                       Some (add_diff_line h ''addition'' content None (Some new_line), old_line, new_line + 1)\<rparr>
                     else if prefix = ''-'' then st\<lparr>hs_current :=
                       Some (add_diff_line h ''deletion'' content (Some old_line) None, old_line + 1, new_line)\<rparr>
                     else st\<lparr>hs_current := Some (add_diff_line h ''context'' content (Some old_line) (Some new_line),
                       old_line + 1, new_line + 1)\<rparr>)))"

definition patch_lines :: "string \<Rightarrow> string list" where
  "patch_lines patch = split_char (CHR 0x0A)
     (replace_str [CHR 0x0D] [CHR 0x0A] (replace_str [CHR 0x0D, CHR 0x0A] [CHR 0x0A] patch))"

definition parse_patch_hunks :: "string \<Rightarrow> DiffHunk list" where
  "parse_patch_hunks patch =
     (let st = foldl patch_step \<lparr> hs_done = [], hs_current = None \<rparr> (patch_lines patch) in hs_done st @ current_hunk st)"

section \<open>Well-formed hunks and their text\<close>

definition one_line :: "string \<Rightarrow> bool" where
  "one_line s \<longleftrightarrow> CHR 0x0A \<notin> set s \<and> CHR 0x0D \<notin> set s"

primrec counts_from :: "int \<Rightarrow> int list \<Rightarrow> bool" where
  "counts_from n [] = True"
| "counts_from n (i # is) = (i = n \<and> counts_from (n + 1) is)"

definition typed_line :: "DiffLine \<Rightarrow> bool" where
  "typed_line l \<longleftrightarrow> one_line (dl_content l) \<and> dl_type l \<in> set [''context'', ''addition'', ''deletion''] \<and>
     (dl_old_line_number l = None \<longleftrightarrow> dl_type l = ''addition'') \<and> (dl_new_line_number l = None \<longleftrightarrow> dl_type l = ''deletion'')"

definition well_formed_hunk :: "DiffHunk \<Rightarrow> bool" where
  "well_formed_hunk h \<longleftrightarrow> 0 \<le> dh_old_start h \<and> 0 \<le> dh_old_line_count h \<and> 0 \<le> dh_new_start h \<and> 0 \<le> dh_new_line_count h \<and>
     one_line (dh_section_header h) \<and> list_all typed_line (dh_lines h) \<and>
     counts_from (dh_old_start h) (List.map_filter dl_old_line_number (dh_lines h)) \<and>
     counts_from (dh_new_start h) (List.map_filter dl_new_line_number (dh_lines h))"

definition render_diff_line :: "DiffLine \<Rightarrow> string" where
  "render_diff_line l = (if dl_type l = ''addition'' then ''+'' else if dl_type l = ''deletion'' then ''-'' else '' '') @ dl_content l"

definition render_header :: "DiffHunk \<Rightarrow> string" where
  "render_header h = ''@@ -'' @ str_of_int (dh_old_start h) @ '','' @ str_of_int (dh_old_line_count h) @
     '' +'' @ str_of_int (dh_new_start h) @ '','' @ str_of_int (dh_new_line_count h) @ '' @@ '' @ dh_section_header h"

definition render_patch :: "DiffHunk list \<Rightarrow> string" where
  "render_patch hs = join [CHR 0x0A] (concat (map (\<lambda>h. render_header h # map render_diff_line (dh_lines h)) hs))"

section \<open>Digits\<close>

lemma int_of_digits_append: "int_of_digits (s @ [c]) = 10 * int_of_digits s + int (of_char c - 48)"
  by (simp add: int_of_digits_def)

lemma int_of_digits_nonneg [simp]: "0 \<le> int_of_digits s"
  by (simp add: int_of_digits_def)

lemma digit_char_value: "d < 10 \<Longrightarrow> (of_char (digit_char d) :: nat) = d + 48"
proof -
  have "\<forall>d \<in> {..<10}. (of_char (digit_char d) :: nat) = d + 48" by code_simp
  then show "d < 10 \<Longrightarrow> (of_char (digit_char d) :: nat) = d + 48" by simp
qed

lemma is_digit_digit_char: "d < 10 \<Longrightarrow> is_digit (digit_char d)"
proof -
  have "\<forall>d \<in> {..<10}. is_digit (digit_char d)" by code_simp
  then show "d < 10 \<Longrightarrow> is_digit (digit_char d)" by simp
qed

lemma str_of_nat_digits: "(\<forall>c \<in> set (str_of_nat n). is_digit c) \<and> str_of_nat n \<noteq> [] \<and> int_of_digits (str_of_nat n) = int n"
proof (induction n rule: str_of_nat.induct)
  case (1 n)
  show ?case
  proof (cases "n < 10")
    case True
    then show ?thesis
      using int_of_digits_append [of "[]" "digit_char n"]
      by (simp add: str_of_nat.simps [of n] is_digit_digit_char digit_char_value) (simp add: int_of_digits_def digit_char_value)
  next
    case False
    moreover have "10 * int (n div 10) + int (n mod 10) = int n" by presburger
    ultimately show ?thesis using 1
      by (simp add: str_of_nat.simps [of n] is_digit_digit_char digit_char_value int_of_digits_append)
  qed
qed

lemma str_of_int_digits:
  assumes "0 \<le> i"
  shows "\<forall>c \<in> set (str_of_int i). is_digit c" "str_of_int i \<noteq> []" "int_of_digits (str_of_int i) = i"
  using assms str_of_nat_digits [of "nat i"] by (simp_all add: str_of_int_def)

lemma is_digit_not: "\<not> is_digit (CHR '','')" "\<not> is_digit (CHR '' '')" "\<not> is_digit (CHR 0x0A)" "\<not> is_digit (CHR 0x0D)"
  by (simp_all add: is_digit_def)

section \<open>Lines of a patch\<close>

lemma split_char_chars: "p \<in> set (split_char c s) \<Longrightarrow> set p \<subseteq> set s"
  by (induction s arbitrary: p) (fastforce split: list.splits if_splits)+

lemma split_char_plain: "c \<notin> set s \<Longrightarrow> split_char c s = [s]"
  by (induction s) auto

lemma split_char_append: "c \<notin> set p \<Longrightarrow> split_char c (p @ c # s) = p # split_char c s"
  by (induction p) auto

lemma split_char_join: "\<forall>p \<in> set ps. c \<notin> set p \<Longrightarrow> ps \<noteq> [] \<Longrightarrow> split_char c (join [c] ps) = ps"
  by (induction "[c]" ps rule: join.induct) (auto simp: split_char_plain split_char_append)

lemma replace_str_absent: "old = a # x \<Longrightarrow> a \<notin> set s \<Longrightarrow> replace_str old new s = s"
  by (induction old new s rule: replace_str.induct) auto

lemma replace_char_gone: "a \<notin> set new \<Longrightarrow> a \<notin> set (replace_str [a] new s)"
  by (induction "[a]" new s rule: replace_str.induct) auto

lemma set_join: "set (join sep ps) \<subseteq> set sep \<union> \<Union> (set ` set ps)"
  by (induction sep ps rule: join.induct) auto

lemma patch_lines_one_line: "l \<in> set (patch_lines patch) \<Longrightarrow> one_line l"
  using split_char_no_sep [of l "CHR 0x0A"] split_char_chars [of l "CHR 0x0A"] replace_char_gone [of "CHR 0x0D" "[CHR 0x0A]"]
  by (fastforce simp: patch_lines_def one_line_def)

lemma patch_lines_join:
  assumes "\<forall>l \<in> set ls. one_line l" and "ls \<noteq> []"
  shows "patch_lines (join [CHR 0x0A] ls) = ls"
proof -
  have "CHR 0x0D \<notin> set (join [CHR 0x0A] ls)"
    using set_join [of "[CHR 0x0A]" ls] assms(1) by (auto simp: one_line_def)
  with assms show ?thesis
    by (simp add: patch_lines_def replace_str_absent split_char_join one_line_def)
qed

section \<open>Every parsed hunk is well formed\<close>

lemma counts_from_append: "counts_from n (is @ js) \<longleftrightarrow> counts_from n is \<and> counts_from (n + int (length is)) js"
  by (induction "is" arbitrary: n) (auto simp: algebra_simps)

lemma map_filter_append: "List.map_filter f (xs @ ys) = List.map_filter f xs @ List.map_filter f ys"
  by (simp add: List.map_filter_def)

definition hunk_open :: "DiffHunk \<times> int \<times> int \<Rightarrow> bool" where
  "hunk_open = (\<lambda>(h, old_line, new_line). well_formed_hunk h \<and>
     old_line = dh_old_start h + int (length (List.map_filter dl_old_line_number (dh_lines h))) \<and>
     new_line = dh_new_start h + int (length (List.map_filter dl_new_line_number (dh_lines h))))"

definition hunk_state_ok :: "hunk_state \<Rightarrow> bool" where
  "hunk_state_ok st \<longleftrightarrow> list_all well_formed_hunk (hs_done st) \<and> pred_option hunk_open (hs_current st)"

lemma one_line_subset: "one_line s \<Longrightarrow> set t \<subseteq> set s \<Longrightarrow> one_line t"
  by (auto simp: one_line_def)

lemma header_hunk_open:
  assumes "re_match HUNK_HEADER_RE raw_line = Some t" and "one_line raw_line"
  shows "hunk_open (header_hunk t, dh_old_start (header_hunk t), dh_new_start (header_hunk t))"
proof -
  have "t \<in> set (run_re HUNK_HEADER_RE \<lparr>ms_prev = None, ms_rest = raw_line, ms_caps = []\<rparr>)"
    using assms(1) by (simp add: re_match_def match_at_run)
  from run_re_caps_text [OF this] have caps: "set g \<subseteq> set raw_line" if "group t n = Some g" for n g
    using map_of_SomeD [of "ms_caps t" n g] that by (auto simp: group_def)
  have "one_line (group_or t 5 [])"
    using assms(2) caps [of 5] by (cases "group t 5") (auto simp: group_or_def or_else_def one_line_def)
  then show ?thesis
    by (simp add: hunk_open_def well_formed_hunk_def header_hunk_def List.map_filter_def)
qed

lemma add_diff_line_open:
  assumes "hunk_open (h, old_line, new_line)" and "one_line content"
  shows "hunk_open (add_diff_line h ''addition'' content None (Some new_line), old_line, new_line + 1)"
    "hunk_open (add_diff_line h ''deletion'' content (Some old_line) None, old_line + 1, new_line)"
    "hunk_open (add_diff_line h ''context'' content (Some old_line) (Some new_line), old_line + 1, new_line + 1)"
  using assms
  by (simp_all add: hunk_open_def well_formed_hunk_def add_diff_line_def typed_line_def map_filter_append
      counts_from_append List.map_filter_simps)

lemma patch_step_ok:
  assumes "hunk_state_ok st" and "one_line raw_line"
  shows "hunk_state_ok (patch_step st raw_line)"
proof (cases "re_match HUNK_HEADER_RE raw_line")
  case (Some t)
  with assms header_hunk_open [OF Some] show ?thesis
    by (auto simp: patch_step_def hunk_state_ok_def current_hunk_def hunk_open_def split: option.splits)
next
  case None
  have content: "one_line (drop 1 raw_line)" "one_line raw_line"
    using assms(2) by (auto intro: one_line_subset dest: in_set_dropD)
  show ?thesis
  proof (cases "hs_current st")
    case no: None
    with None assms show ?thesis by (simp add: patch_step_def)
  next
    case (Some c)
    obtain h o' n where c: "c = (h, o', n)" by (cases c)
    with assms Some have "hunk_open (h, o', n)" by (simp add: hunk_state_ok_def)
    with None Some c assms content show ?thesis
      by (simp add: patch_step_def hunk_state_ok_def Let_def add_diff_line_open)
  qed
qed

lemma patch_steps_ok:
  "hunk_state_ok st \<Longrightarrow> \<forall>l \<in> set ls. one_line l \<Longrightarrow> hunk_state_ok (foldl patch_step st ls)"
  by (induction ls arbitrary: st) (auto simp: patch_step_ok)

text \<open>Whatever text a patch is, every hunk parsed from it is well formed: its lines are additions,
  deletions or context lines of one line each, additions have no old number and deletions no new one, and
  the old numbers of the lines, in order, count up from the old start, the new numbers from the new start.\<close>

theorem parsed_hunks_are_well_formed: "list_all well_formed_hunk (parse_patch_hunks patch)"
proof -
  have "hunk_state_ok (foldl patch_step \<lparr> hs_done = [], hs_current = None \<rparr> (patch_lines patch))"
    by (rule patch_steps_ok) (auto simp: hunk_state_ok_def patch_lines_one_line)
  then show ?thesis
    by (auto simp: parse_patch_hunks_def Let_def hunk_state_ok_def current_hunk_def hunk_open_def split: option.splits)
qed

section \<open>Parsing reads back a rendered patch\<close>

lemma header_match:
  assumes "well_formed_hunk h"
  shows "\<exists>t. re_match HUNK_HEADER_RE (render_header h) = Some t \<and> header_hunk t = h\<lparr>dh_lines := []\<rparr>"
proof -
  let ?a = "str_of_int (dh_old_start h)" and ?b = "str_of_int (dh_old_line_count h)"
    and ?c = "str_of_int (dh_new_start h)" and ?d = "str_of_int (dh_new_line_count h)" and ?e = "dh_section_header h"
  from assms have pos: "0 \<le> dh_old_start h" "0 \<le> dh_old_line_count h" "0 \<le> dh_new_start h" "0 \<le> dh_new_line_count h"
    by (simp_all add: well_formed_hunk_def)
  have e: "\<forall>c \<in> set ?e. any_but_newline c"
    using assms by (auto simp: well_formed_hunk_def one_line_def any_but_newline_def)
  note digits = str_of_int_digits [OF pos(1)] str_of_int_digits [OF pos(2)] str_of_int_digits [OF pos(3)] str_of_int_digits [OF pos(4)]
  let ?r4 = "''@@ '' @ ?e"
  have "first_match (seqs
     [lit ''@@ -'', Group 1 (plus is_digit), opt (seqs [lit '','', Group 2 (plus is_digit)]),
      lit '' +'', Group 3 (plus is_digit), opt (seqs [lit '','', Group 4 (plus is_digit)]),
      lit '' @@'', opt (lit '' ''), Group 5 (Star any_but_newline), EndText])
     (''@@ -'' @ (?a @ ('','' @ (?b @ ('' +'' @ (?c @ ('','' @ (?d @ ('' @@'' @ ('' '' @ (?e @ []))))))))))) []
     [] [(5, ?e), (4, ?d), (3, ?c), (2, ?b), (1, ?a)]"
    by (rule first_match_intro digits e | simp add: is_digit_not)+
  then have "\<exists>prev. re_match HUNK_HEADER_RE (render_header h) =
      Some \<lparr>ms_prev = prev, ms_rest = [], ms_caps = [(5, ?e), (4, ?d), (3, ?c), (2, ?b), (1, ?a)]\<rparr>"
    unfolding HUNK_HEADER_RE_def render_header_def using re_match_first by fastforce
  then show ?thesis
    by (auto simp: header_hunk_def group_or_def group_def or_else_def digits)
qed

lemma no_header: "c \<noteq> CHR ''@'' \<Longrightarrow> re_match HUNK_HEADER_RE (c # s) = None"
  by (simp add: re_match_def match_at_def HUNK_HEADER_RE_def seqs_def lit_def)

lemma patch_step_header:
  assumes "well_formed_hunk h"
  shows "patch_step st (render_header h) = \<lparr> hs_done = hs_done st @ current_hunk st,
     hs_current = Some (h\<lparr>dh_lines := []\<rparr>, dh_old_start h, dh_new_start h) \<rparr>"
  using header_match [OF assms] by (auto simp: patch_step_def)

lemma patch_step_line:
  assumes "typed_line l" and "counts_from old_line (List.map_filter dl_old_line_number [l])"
    and "counts_from new_line (List.map_filter dl_new_line_number [l])"
  shows "patch_step \<lparr> hs_done = d, hs_current = Some (h, old_line, new_line) \<rparr> (render_diff_line l) =
     \<lparr> hs_done = d, hs_current = Some (h\<lparr>dh_lines := dh_lines h @ [l]\<rparr>,
        old_line + int (length (List.map_filter dl_old_line_number [l])),
        new_line + int (length (List.map_filter dl_new_line_number [l]))) \<rparr>"
  using assms
  by (cases l) (auto simp: patch_step_def render_diff_line_def typed_line_def no_header add_diff_line_def Let_def
      List.map_filter_simps split: option.splits)

lemma patch_steps_lines:
  "list_all typed_line ls \<Longrightarrow> counts_from old_line (List.map_filter dl_old_line_number ls) \<Longrightarrow>
   counts_from new_line (List.map_filter dl_new_line_number ls) \<Longrightarrow>
   \<exists>old' new'. foldl patch_step \<lparr> hs_done = d, hs_current = Some (h, old_line, new_line) \<rparr> (map render_diff_line ls) =
     \<lparr> hs_done = d, hs_current = Some (h\<lparr>dh_lines := dh_lines h @ ls\<rparr>, old', new') \<rparr>"
proof (induction ls arbitrary: h old_line new_line)
  case (Cons l ls)
  let ?n = "\<lambda>f. int (length (List.map_filter f [l]))"
  have split: "List.map_filter f (l # ls) = List.map_filter f [l] @ List.map_filter f ls" for f :: "DiffLine \<Rightarrow> int option"
    using map_filter_append [of f "[l]" ls] by simp
  from Cons.prems have l: "typed_line l" "counts_from old_line (List.map_filter dl_old_line_number [l])"
    "counts_from new_line (List.map_filter dl_new_line_number [l])"
    and ls: "list_all typed_line ls" "counts_from (old_line + ?n dl_old_line_number) (List.map_filter dl_old_line_number ls)"
    "counts_from (new_line + ?n dl_new_line_number) (List.map_filter dl_new_line_number ls)"
    unfolding split counts_from_append by auto
  from Cons.IH [OF ls, of "h\<lparr>dh_lines := dh_lines h @ [l]\<rparr>"] show ?case by (simp add: patch_step_line [OF l])
qed simp

lemma patch_steps_hunks:
  "list_all well_formed_hunk hs \<Longrightarrow>
   (let st' = foldl patch_step st (concat (map (\<lambda>h. render_header h # map render_diff_line (dh_lines h)) hs))
    in hs_done st' @ current_hunk st' = hs_done st @ current_hunk st @ hs)"
proof (induction hs arbitrary: st)
  case (Cons h hs)
  then have h: "well_formed_hunk h" by simp
  let ?st = "\<lparr> hs_done = hs_done st @ current_hunk st, hs_current = Some (h\<lparr>dh_lines := []\<rparr>, dh_old_start h, dh_new_start h) \<rparr>"
  from h obtain old' new' where "foldl patch_step ?st (map render_diff_line (dh_lines h)) =
      \<lparr> hs_done = hs_done st @ current_hunk st, hs_current = Some (h, old', new') \<rparr>"
    using patch_steps_lines [of "dh_lines h" "dh_old_start h" "dh_new_start h" "hs_done st @ current_hunk st" "h\<lparr>dh_lines := []\<rparr>"]
    by (auto simp: well_formed_hunk_def)
  with Cons.IH [of "\<lparr> hs_done = hs_done st @ current_hunk st, hs_current = Some (h, old', new') \<rparr>"] Cons.prems h
  show ?case by (simp add: patch_step_header Let_def current_hunk_def)
qed (simp add: Let_def)

lemma rendered_one_line:
  assumes "well_formed_hunk h" and "l = render_header h \<or> l \<in> render_diff_line ` set (dh_lines h)"
  shows "one_line l"
proof -
  have num: "one_line (str_of_int i)" if "0 \<le> i" for i
    using str_of_int_digits(1) [OF that] is_digit_not by (auto simp: one_line_def)
  with assms show ?thesis
    by (auto simp: well_formed_hunk_def render_header_def render_diff_line_def one_line_def typed_line_def list_all_iff)
qed

text \<open>C11: Parsing reads back every rendered patch: the text of well-formed hunks, headers with both counts
  and lines with their marker, parses to exactly these hunks, with their section headers, line types,
  contents and numbers.\<close>

theorem parse_rendered_patch:
  assumes "list_all well_formed_hunk hs"
  shows "parse_patch_hunks (render_patch hs) = hs"
proof (cases "hs = []")
  case True
  show ?thesis
    by (simp add: True parse_patch_hunks_def render_patch_def patch_lines_def current_hunk_def patch_step_def
        re_match_def match_at_def HUNK_HEADER_RE_def seqs_def lit_def)
next
  case False
  let ?ls = "concat (map (\<lambda>h. render_header h # map render_diff_line (dh_lines h)) hs)"
  have "patch_lines (render_patch hs) = ?ls"
    unfolding render_patch_def
    using assms False by (intro patch_lines_join) (auto simp: list_all_iff intro: rendered_one_line)
  with patch_steps_hunks [OF assms, of "\<lparr> hs_done = [], hs_current = None \<rparr>"] show ?thesis
    by (simp add: parse_patch_hunks_def Let_def current_hunk_def)
qed

definition sample_hunks :: "DiffHunk list" where
  "sample_hunks = [\<lparr> dh_old_start = 3, dh_old_line_count = 2, dh_new_start = 3, dh_new_line_count = 2, dh_section_header = ''def f'',
     dh_lines = [\<lparr> dl_type = ''context'', dl_content = ''a'', dl_old_line_number = Some 3, dl_new_line_number = Some 3 \<rparr>,
       \<lparr> dl_type = ''deletion'', dl_content = ''b'', dl_old_line_number = Some 4, dl_new_line_number = None \<rparr>,
       \<lparr> dl_type = ''addition'', dl_content = ''c'', dl_old_line_number = None, dl_new_line_number = Some 4 \<rparr>] \<rparr>]"

theorem parse_rendered_patch_witness: "parse_patch_hunks (render_patch sample_hunks) = sample_hunks"
proof (rule parse_rendered_patch)
  show "list_all well_formed_hunk sample_hunks" by code_simp
qed

end
