(* ===== verification/PipelineFiles.thy ===== *)
theory PipelineFiles
  imports PipelineHunks PyPath ContractProperties
begin

text \<open>
  pipeline.py: what the review pipeline takes from the GitHub file list. \<open>_prepare_changed_files\<close> sorts the
  files into those to analyse and those to skip, \<open>_build_diff_artifact\<close> records both. Fetching a file's
  content is a parameter; the environment is a function from names to values. Dictionaries with the keys of a
  contract are that contract's records.
\<close>

section \<open>Reading untrusted values\<close>

definition pv_object :: "json \<Rightarrow> obj" where
  "pv_object value = (case value of JObj v \<Rightarrow> v | _ \<Rightarrow> [])"

definition pv_list :: "json \<Rightarrow> json list" where
  "pv_list value = (case value of JList xs \<Rightarrow> xs | _ \<Rightarrow> [])"

definition pv_str :: "json \<Rightarrow> string \<Rightarrow> string" where
  "pv_str value dflt = (case value of JStr s \<Rightarrow> if s \<noteq> [] then s else dflt | _ \<Rightarrow> dflt)"

definition pv_optional_str :: "json \<Rightarrow> string option" where
  "pv_optional_str value = (case value of JStr s \<Rightarrow> if s \<noteq> [] then Some s else None | _ \<Rightarrow> None)"

definition pv_optional_int :: "json \<Rightarrow> int option" where
  \<comment> \<open>\<open>isinstance(value, int)\<close> also holds of the two booleans, which are the integers 0 and 1\<close>
  "pv_optional_int value = (case value of JInt i \<Rightarrow> Some i | JBool b \<Rightarrow> Some (if b then 1 else 0) | _ \<Rightarrow> None)"

definition pv_int :: "json \<Rightarrow> int \<Rightarrow> int" where
  "pv_int value dflt = (case pv_optional_int value of Some i \<Rightarrow> i | None \<Rightarrow> dflt)"

definition pv_optional_positive_int :: "json \<Rightarrow> int option" where
  "pv_optional_positive_int value = (case pv_optional_int value of Some i \<Rightarrow> if i > 0 then Some i else None | None \<Rightarrow> None)"

definition env_positive_int :: "string option \<Rightarrow> int \<Rightarrow> int" where
  "env_positive_int value dflt = (case value of
      None \<Rightarrow> dflt
    | Some v \<Rightarrow> (case py_int v of None \<Rightarrow> dflt | Some parsed \<Rightarrow> if parsed > 0 then parsed else dflt))"

section \<open>Files\<close>

record GitHubFile =
  gf_path :: string
  gf_previous_path :: "string option"
  gf_status :: string
  gf_additions :: int
  gf_deletions :: int
  gf_patch :: "string option"
  gf_size_bytes :: "int option"

record ChangedFile =
  cf_path :: string
  cf_previous_path :: "string option"
  cf_status :: string
  cf_additions :: int
  cf_deletions :: int
  cf_patch :: "string option"
  cf_language :: "string option"
  cf_content :: "string option"
  cf_size_bytes :: "int option"
  cf_changed_new_lines :: "int list"
  cf_hunks :: "DiffHunk list"

record SkippedFile =
  sk_path :: string
  sk_previous_path :: "string option"
  sk_status :: string
  sk_reason :: string
  sk_detail :: string
  sk_excluded_from_semgrep :: bool
  sk_excluded_from_tree_sitter :: bool
  sk_excluded_from_llm_context :: bool

record ReviewContext =
  rvc_repository_id :: string
  rvc_installation_id :: int
  rvc_repository_full_name :: string
  rvc_repository_owner :: string
  rvc_repository_name :: string
  rvc_pull_request_number :: int
  rvc_pull_request_title :: string
  rvc_base_sha :: string
  rvc_head_sha :: string
  rvc_current_head_sha :: string

definition read_github_file :: "json \<Rightarrow> GitHubFile" where
  "read_github_file value = (let item = pv_object value in
     \<lparr> gf_path = pv_str (obj_get item ''filename'') ''unknown'',
       gf_previous_path = pv_optional_str (obj_get item ''previous_filename''),
       gf_status = pv_str (obj_get item ''status'') ''unknown'',
       gf_additions = pv_int (obj_get item ''additions'') 0,
       gf_deletions = pv_int (obj_get item ''deletions'') 0,
       gf_patch = pv_optional_str (obj_get item ''patch''),
       gf_size_bytes = pv_optional_int (obj_get item ''size'') \<rparr>)"

definition DELETED_STATUSES :: "string list" where
  "DELETED_STATUSES = [''removed'', ''deleted'']"

definition normalize_file_status :: "string \<Rightarrow> string" where
  "normalize_file_status value = (let normalized = lower value
     in if normalized \<in> set DELETED_STATUSES then ''deleted''
        else if normalized \<in> set [''added'', ''modified'', ''renamed'', ''copied''] then normalized
        else ''unknown'')"

definition SUPPORTED_LANGUAGES_BY_EXTENSION :: "string \<Rightarrow> string option" where
  "SUPPORTED_LANGUAGES_BY_EXTENSION = map_of
     [(''.cjs'', ''javascript''), (''.go'', ''go''), (''.hcl'', ''hcl''), (''.java'', ''java''), (''.js'', ''javascript''),
      (''.json'', ''json''), (''.jsx'', ''javascript''), (''.mjs'', ''javascript''), (''.py'', ''python''),
      (''.tf'', ''terraform''), (''.ts'', ''typescript''), (''.tsx'', ''typescript''), (''.yaml'', ''yaml''), (''.yml'', ''yaml'')]"

definition SUPPORTED_SPECIAL_FILENAMES :: "string \<Rightarrow> string option" where
  "SUPPORTED_SPECIAL_FILENAMES = map_of [(''dockerfile'', ''dockerfile'')]"

definition BINARY_EXTENSIONS :: "string list" where
  "BINARY_EXTENSIONS = [''.7z'', ''.avif'', ''.bmp'', ''.class'', ''.dll'', ''.dmg'', ''.doc'', ''.docx'', ''.exe'', ''.gif'',
     ''.gz'', ''.ico'', ''.jar'', ''.jpeg'', ''.jpg'', ''.mov'', ''.mp3'', ''.mp4'', ''.pdf'', ''.png'', ''.so'', ''.tar'',
     ''.webp'', ''.xls'', ''.xlsx'', ''.zip'']"

definition language_for_path :: "string \<Rightarrow> string option" where
  "language_for_path path = (let name = lower (path_name path)
     in case SUPPORTED_SPECIAL_FILENAMES name of
          Some l \<Rightarrow> Some l
        | None \<Rightarrow> SUPPORTED_LANGUAGES_BY_EXTENSION (lower (path_suffix path)))"

definition skipped :: "GitHubFile \<Rightarrow> string \<Rightarrow> string \<Rightarrow> string \<Rightarrow> SkippedFile" where
  "skipped file status reason detail =
     \<lparr> sk_path = gf_path file, sk_previous_path = gf_previous_path file, sk_status = status, sk_reason = reason,
       sk_detail = detail, sk_excluded_from_semgrep = True, sk_excluded_from_tree_sitter = True,
       sk_excluded_from_llm_context = True \<rparr>"

section \<open>Selecting the files to analyse\<close>

datatype fetch_outcome =
    Fetched string "int option"      \<comment> \<open>content and size\<close>
  | ContentUnavailable string        \<comment> \<open>a \<open>ReviewPipelineError\<close> with this text\<close>
  | FetchCrashed string              \<comment> \<open>any other exception\<close>

definition changed_new_lines :: "DiffHunk list \<Rightarrow> int list" where
  "changed_new_lines hunk_data = List.map_filter dl_new_line_number
     (filter (\<lambda>l. dl_type l = ''addition'') (concat (map dh_lines hunk_data)))"

definition changed_file_of :: "GitHubFile \<Rightarrow> string \<Rightarrow> string option \<Rightarrow> string \<Rightarrow> int option \<Rightarrow> ChangedFile" where
  "changed_file_of file status language content size_bytes =
     (let hunk_data = parse_patch_hunks (case gf_patch file of Some p \<Rightarrow> p | None \<Rightarrow> [])
      in \<lparr> cf_path = gf_path file, cf_previous_path = gf_previous_path file, cf_status = status,
           cf_additions = gf_additions file, cf_deletions = gf_deletions file, cf_patch = gf_patch file,
           cf_language = language, cf_content = Some content, cf_size_bytes = size_bytes,
           cf_changed_new_lines = changed_new_lines hunk_data, cf_hunks = hunk_data \<rparr>)"

definition prepare_file :: "(string \<Rightarrow> fetch_outcome) \<Rightarrow> int \<Rightarrow> GitHubFile \<Rightarrow> string + (SkippedFile + ChangedFile)" where
  \<comment> \<open>one round of the loop over the first \<open>max_files\<close> files; Inl is an exception that leaves the loop\<close>
  "prepare_file fetch max_content_bytes file =
     (let status = normalize_file_status (gf_status file); language = language_for_path (gf_path file)
      in if status \<in> set [''deleted'', ''removed'']
           then Inr (Inl (skipped file status ''deleted'' ''Deleted files do not have head content.''))
         else if lower (path_suffix (gf_path file)) \<in> set BINARY_EXTENSIONS
           then Inr (Inl (skipped file status ''binary'' ''Binary files are not scanned.''))
         else if language = None
           then Inr (Inl (skipped file status ''unsupported'' ''File extension is not enabled yet.''))
         else (case fetch (gf_path file) of
             FetchCrashed e \<Rightarrow> Inl e
           | ContentUnavailable e \<Rightarrow> Inr (Inl (skipped file status ''content_unavailable'' e))
           | Fetched content size_bytes \<Rightarrow>
               if (case size_bytes of Some n \<Rightarrow> n > max_content_bytes | None \<Rightarrow> False)
               then Inr (Inl (skipped file status ''oversized'' ''File exceeds configured worker content limit.''))
               else Inr (Inr (changed_file_of file status language content size_bytes))))"

fun prepare_files :: "(string \<Rightarrow> fetch_outcome) \<Rightarrow> int \<Rightarrow> GitHubFile list \<Rightarrow> string + ChangedFile list \<times> SkippedFile list" where
  "prepare_files fetch max_content_bytes [] = Inr ([], [])"
| "prepare_files fetch max_content_bytes (f # fs) =
     bind_sum (prepare_file fetch max_content_bytes f) (\<lambda>r.
       bind_sum (prepare_files fetch max_content_bytes fs) (\<lambda>(changed, skips).
         (case r of Inl s \<Rightarrow> Inr (changed, s # skips) | Inr c \<Rightarrow> Inr (c # changed, skips))))"

definition prepare_changed_files ::
  "(string \<Rightarrow> string option) \<Rightarrow> (string \<Rightarrow> fetch_outcome) \<Rightarrow> GitHubFile list \<Rightarrow> string + ChangedFile list \<times> SkippedFile list" where
  "prepare_changed_files env fetch files =
     (let max_files = nat (env_positive_int (env ''REVIEW_MAX_FILES'') 50);
          max_content_bytes = env_positive_int (env ''TREESITTER_MAX_FILE_BYTES'') 500000
      in bind_sum (prepare_files fetch max_content_bytes (take max_files files)) (\<lambda>(changed, skips).
           Inr (changed, skips @ map (\<lambda>f. skipped f (normalize_file_status (gf_status f)) ''max_files''
             (''Review is capped at '' @ str_of_nat max_files @ '' changed files.'')) (drop max_files files))))"

section \<open>The diff artifact\<close>

definition diff_file :: "(string \<Rightarrow> string) \<Rightarrow> ChangedFile \<Rightarrow> ChangedFileArtifact" where
  "diff_file digest file =
     \<lparr> cfa_path = cf_path file, cfa_previous_path = cf_previous_path file, cfa_status = cf_status file,
       cfa_additions = cf_additions file, cfa_deletions = cf_deletions file, cfa_language = cf_language file,
       cfa_patch = cf_patch file,
       cfa_head_content_sha256 = (case cf_content file of Some c \<Rightarrow> if c \<noteq> [] then Some (digest c) else None | None \<Rightarrow> None),
       cfa_size_bytes = cf_size_bytes file, cfa_changed_new_lines = cf_changed_new_lines file, cfa_hunks = cf_hunks file \<rparr>"

definition diff_skipped :: "SkippedFile \<Rightarrow> SkippedFileArtifact" where
  "diff_skipped file =
     \<lparr> sfa_path = sk_path file, sfa_previous_path = sk_previous_path file, sfa_status = sk_status file,
       sfa_reason = sk_reason file, sfa_detail = sk_detail file,
       sfa_excluded_from_semgrep = sk_excluded_from_semgrep file,
       sfa_excluded_from_tree_sitter = sk_excluded_from_tree_sitter file,
       sfa_excluded_from_llm_context = sk_excluded_from_llm_context file \<rparr>"

definition build_diff_artifact ::
  "(string \<Rightarrow> string) \<Rightarrow> ReviewContext \<Rightarrow> string \<Rightarrow> ChangedFile list \<Rightarrow> SkippedFile list \<Rightarrow> DiffArtifact" where
  "build_diff_artifact digest context review_run_id changed_files skipped_files =
     \<lparr> da_schema_version = DIFF_ARTIFACT_SCHEMA_VERSION, da_review_run_id = review_run_id,
       da_repository_full_name = rvc_repository_full_name context,
       da_pull_request_number = rvc_pull_request_number context,
       da_base_sha = rvc_base_sha context, da_head_sha = rvc_head_sha context,
       da_files = map (diff_file digest) changed_files, da_skipped_files = map diff_skipped skipped_files \<rparr>"

section \<open>Which files are analysed\<close>

definition selectable :: "(string \<Rightarrow> fetch_outcome) \<Rightarrow> int \<Rightarrow> GitHubFile \<Rightarrow> bool" where
  "selectable fetch max_content_bytes f \<longleftrightarrow> lower (gf_status f) \<notin> set [''removed'', ''deleted''] \<and>
     lower (path_suffix (gf_path f)) \<notin> set BINARY_EXTENSIONS \<and> language_for_path (gf_path f) \<noteq> None \<and>
     (case fetch (gf_path f) of Fetched content size_bytes \<Rightarrow> pred_option (\<lambda>n. n \<le> max_content_bytes) size_bytes | _ \<Rightarrow> False)"

definition analysed_file_ok :: "(string \<Rightarrow> fetch_outcome) \<Rightarrow> ChangedFile \<Rightarrow> bool" where
  "analysed_file_ok fetch c \<longleftrightarrow> cf_language c = language_for_path (cf_path c) \<and>
     (case cf_content c of Some content \<Rightarrow> fetch (cf_path c) = Fetched content (cf_size_bytes c) | None \<Rightarrow> False) \<and>
     cf_hunks c = parse_patch_hunks (case cf_patch c of Some p \<Rightarrow> p | None \<Rightarrow> []) \<and>
     set (cf_changed_new_lines c) =
       {n. \<exists>h \<in> set (cf_hunks c). \<exists>l \<in> set (dh_lines h). dl_type l = ''addition'' \<and> dl_new_line_number l = Some n}"

definition skipped_file_excluded :: "SkippedFile \<Rightarrow> bool" where
  "skipped_file_excluded s \<longleftrightarrow> sk_excluded_from_semgrep s \<and> sk_excluded_from_tree_sitter s \<and> sk_excluded_from_llm_context s \<and>
     sk_reason s \<in> set [''deleted'', ''binary'', ''unsupported'', ''content_unavailable'', ''oversized'', ''max_files'']"

lemma normalize_file_status_deleted:
  "normalize_file_status v = ''deleted'' \<longleftrightarrow> lower v = ''removed'' \<or> lower v = ''deleted''"
  "normalize_file_status v \<noteq> ''removed''"
  by (auto simp: normalize_file_status_def DELETED_STATUSES_def Let_def)

lemma set_changed_new_lines:
  "set (changed_new_lines hs) =
     {n. \<exists>h \<in> set hs. \<exists>l \<in> set (dh_lines h). dl_type l = ''addition'' \<and> dl_new_line_number l = Some n}"
  by (force simp: changed_new_lines_def List.map_filter_def)

lemma prepare_file_cases:
  assumes "prepare_file fetch m f = Inr r"
  shows "case r of
      Inl s \<Rightarrow> \<not> selectable fetch m f \<and> sk_path s = gf_path f \<and> skipped_file_excluded s
    | Inr c \<Rightarrow> selectable fetch m f \<and> cf_path c = gf_path f \<and> analysed_file_ok fetch c"
  using assms
  by (auto simp: prepare_file_def Let_def normalize_file_status_deleted selectable_def skipped_def skipped_file_excluded_def
      analysed_file_ok_def changed_file_of_def set_changed_new_lines split: if_splits fetch_outcome.splits option.splits)

lemma prepare_files_result:
  "prepare_files fetch m files = Inr (changed, skips) \<Longrightarrow>
     map cf_path changed = map gf_path (filter (selectable fetch m) files) \<and>
     map sk_path skips = map gf_path (filter (\<lambda>f. \<not> selectable fetch m f) files) \<and>
     list_all (analysed_file_ok fetch) changed \<and> list_all skipped_file_excluded skips"
proof (induction files arbitrary: changed skips)
  case (Cons f fs)
  then obtain r where r: "prepare_file fetch m f = Inr r" by (auto simp: bind_sum_eq_Inr)
  with Cons.prems obtain ch sk where rest: "prepare_files fetch m fs = Inr (ch, sk)"
    and res: "case r of Inl s \<Rightarrow> changed = ch \<and> skips = s # sk | Inr c \<Rightarrow> changed = c # ch \<and> skips = sk"
    by (cases r) (auto simp: bind_sum_eq_Inr)
  from Cons.IH [OF rest] prepare_file_cases [OF r] res show ?case by (auto split: sum.splits)
qed simp

lemma prepared_files_analysed:
  "prepare_changed_files env fetch files = Inr (changed, skips) \<Longrightarrow> list_all (analysed_file_ok fetch) changed"
  using prepare_files_result by (fastforce simp: prepare_changed_files_def Let_def bind_sum_eq_Inr)

text \<open>C35: The files to analyse are the selectable ones among the first \<open>REVIEW_MAX_FILES\<close>, in order: not
  deleted, not binary, of a supported language, with content that could be fetched and is not over the size
  limit. Every other file is recorded once as skipped, excluded from all three stages, for one of six
  reasons. An analysed file carries the fetched content, its language, the hunks of its patch, and as changed
  lines the new numbers of exactly their additions.\<close>

theorem files_to_analyse:
  assumes "prepare_changed_files env fetch files = Inr (changed, skips)"
  shows "let m = nat (env_positive_int (env ''REVIEW_MAX_FILES'') 50);
             ok = selectable fetch (env_positive_int (env ''TREESITTER_MAX_FILE_BYTES'') 500000)
         in map cf_path changed = map gf_path (filter ok (take m files)) \<and>
            map sk_path skips = map gf_path (filter (\<lambda>f. \<not> ok f) (take m files) @ drop m files) \<and>
            list_all (analysed_file_ok fetch) changed \<and> list_all skipped_file_excluded skips"
proof -
  let ?m = "nat (env_positive_int (env ''REVIEW_MAX_FILES'') 50)"
  from assms obtain sk where "prepare_files fetch (env_positive_int (env ''TREESITTER_MAX_FILE_BYTES'') 500000) (take ?m files) =
      Inr (changed, sk)"
    and skips: "skips = sk @ map (\<lambda>f. skipped f (normalize_file_status (gf_status f)) ''max_files''
             (''Review is capped at '' @ str_of_nat ?m @ '' changed files.'')) (drop ?m files)"
    by (auto simp: prepare_changed_files_def Let_def bind_sum_eq_Inr)
  from prepare_files_result [OF this(1)] skips show ?thesis
    by (auto simp: Let_def skipped_def skipped_file_excluded_def list_all_iff)
qed

definition sample_github_file :: GitHubFile where
  "sample_github_file = \<lparr> gf_path = ''src/a.py'', gf_previous_path = None, gf_status = ''added'', gf_additions = 1,
     gf_deletions = 0, gf_patch = Some (''@@ -0,0 +1,1 @@'' @ [CHR 0x0A] @ ''+x''), gf_size_bytes = None \<rparr>"

definition sample_github_files :: "GitHubFile list" where
  "sample_github_files = [sample_github_file, sample_github_file\<lparr>gf_path := ''a.png''\<rparr>,
     sample_github_file\<lparr>gf_status := ''removed''\<rparr>]"

theorem files_to_analyse_witness:
  "\<exists>changed skips. prepare_changed_files (\<lambda>_. None) (\<lambda>_. Fetched ''x'' None) sample_github_files = Inr (changed, skips) \<and>
     (let m = nat (env_positive_int None 50); ok = selectable (\<lambda>_. Fetched ''x'' None) (env_positive_int None 500000)
      in map cf_path changed = map gf_path (filter ok (take m sample_github_files)) \<and>
         map sk_path skips = map gf_path (filter (\<lambda>f. \<not> ok f) (take m sample_github_files) @ drop m sample_github_files) \<and>
         list_all (analysed_file_ok (\<lambda>_. Fetched ''x'' None)) changed \<and> list_all skipped_file_excluded skips)"
proof -
  have "\<not> is_err (prepare_changed_files (\<lambda>_. None) (\<lambda>_. Fetched ''x'' None) sample_github_files)" by code_simp
  then obtain changed skips where "prepare_changed_files (\<lambda>_. None) (\<lambda>_. Fetched ''x'' None) sample_github_files = Inr (changed, skips)"
    by (auto simp: is_err_def split: sum.splits)
  with files_to_analyse [OF this] show ?thesis by blast
qed

section \<open>The contract of the diff artifact\<close>

definition github_file_ok :: "GitHubFile \<Rightarrow> bool" where
  \<comment> \<open>what GitHub documents of a file entry\<close>
  "github_file_ok f \<longleftrightarrow> nonblank (gf_path f) \<and> pred_option nonblank (gf_previous_path f) \<and>
     0 \<le> gf_additions f \<and> 0 \<le> gf_deletions f \<and> pred_option nonblank (gf_patch f)"

definition fetch_ok :: "(string \<Rightarrow> fetch_outcome) \<Rightarrow> bool" where
  "fetch_ok fetch \<longleftrightarrow> (\<forall>p. case fetch p of Fetched _ n \<Rightarrow> pred_option (\<lambda>n. 0 \<le> n) n | ContentUnavailable e \<Rightarrow> nonblank e
     | FetchCrashed _ \<Rightarrow> True)"

definition context_ok :: "ReviewContext \<Rightarrow> bool" where
  "context_ok c \<longleftrightarrow> nonblank (rvc_repository_full_name c) \<and> 0 < rvc_pull_request_number c \<and> nonblank (rvc_base_sha c) \<and>
     nonblank (rvc_head_sha c)"

lemma counts_from_ge: "counts_from n is \<Longrightarrow> i \<in> set is \<Longrightarrow> n \<le> i"
  by (induction "is" arbitrary: n) fastforce+

lemma set_map_filter: "i \<in> set (List.map_filter f xs) \<longleftrightarrow> (\<exists>x \<in> set xs. f x = Some i)"
  by (force simp: List.map_filter_def)

lemma well_formed_hunk_contract:
  assumes "well_formed_hunk h"
  shows "ok_diff_hunk h \<longleftrightarrow> 0 < dh_old_start h \<and> 0 < dh_new_start h"
proof -
  have "ok_diff_line l" if "0 < dh_old_start h" "0 < dh_new_start h" "l \<in> set (dh_lines h)" for l
  proof -
    have "typed_line l" using assms that(3) by (simp add: well_formed_hunk_def list_all_iff)
    moreover have "dh_old_start h \<le> i" if "dl_old_line_number l = Some i" for i
      using counts_from_ge [of "dh_old_start h" "List.map_filter dl_old_line_number (dh_lines h)" i] assms that
        \<open>l \<in> set (dh_lines h)\<close> by (auto simp: well_formed_hunk_def set_map_filter)
    moreover have "dh_new_start h \<le> i" if "dl_new_line_number l = Some i" for i
      using counts_from_ge [of "dh_new_start h" "List.map_filter dl_new_line_number (dh_lines h)" i] assms that
        \<open>l \<in> set (dh_lines h)\<close> by (auto simp: well_formed_hunk_def set_map_filter)
    ultimately show ?thesis using that(1,2)
      by (cases "dl_old_line_number l"; cases "dl_new_line_number l") (fastforce simp: ok_diff_line_def typed_line_def)+
  qed
  with assms show ?thesis by (auto simp: ok_diff_hunk_def well_formed_hunk_def list_all_iff)
qed

lemma normalize_file_status_known: "normalize_file_status v \<in> set FILE_STATUSES"
  by (auto simp: normalize_file_status_def FILE_STATUSES_def Let_def)

lemma map_of_values: "map_of ps k = Some v \<Longrightarrow> list_all (\<lambda>p. snd p \<in> set vs) ps \<Longrightarrow> v \<in> set vs"
  by (fastforce dest!: map_of_SomeD simp: list_all_iff)

lemma language_for_path_values:
  assumes "language_for_path p = Some l"
  shows "l \<in> set [''dockerfile'', ''go'', ''hcl'', ''java'', ''javascript'', ''json'', ''python'', ''terraform'', ''typescript'', ''yaml'']"
    (is "l \<in> set ?languages")
proof -
  have "l \<in> set ?languages" if "SUPPORTED_LANGUAGES_BY_EXTENSION e = Some l" for e
    by (rule map_of_values [OF that [unfolded SUPPORTED_LANGUAGES_BY_EXTENSION_def]]) code_simp
  moreover have "l \<in> set ?languages" if "SUPPORTED_SPECIAL_FILENAMES e = Some l" for e
    by (rule map_of_values [OF that [unfolded SUPPORTED_SPECIAL_FILENAMES_def]]) code_simp
  ultimately show ?thesis using assms unfolding language_for_path_def Let_def by (metis option.case_eq_if option.collapse)
qed

lemma language_for_path_nonblank:
  assumes "language_for_path p = Some l"
  shows "nonblank l"
proof -
  have "list_all nonblank [''dockerfile'', ''go'', ''hcl'', ''java'', ''javascript'', ''json'', ''python'', ''terraform'', ''typescript'', ''yaml'']"
    by code_simp
  with language_for_path_values [OF assms] show ?thesis by (auto simp only: list_all_iff)
qed

definition hunks_start_positive :: "ChangedFile \<Rightarrow> bool" where
  "hunks_start_positive c \<longleftrightarrow> list_all (\<lambda>h. 0 < dh_old_start h \<and> 0 < dh_new_start h) (cf_hunks c)"

lemma changed_lines_positive:
  assumes "list_all ok_diff_hunk hs"
  shows "list_all (\<lambda>i. 0 < i) (changed_new_lines hs)"
proof -
  have "0 < i" if "h \<in> set hs" "l \<in> set (dh_lines h)" "dl_new_line_number l = Some i" for h l i
  proof -
    from assms that have "ok_diff_line l" by (auto simp: list_all_iff ok_diff_hunk_def)
    with that(3) show ?thesis by (simp add: ok_diff_line_def)
  qed
  then show ?thesis by (auto simp: list_all_iff set_changed_new_lines)
qed

lemma changed_file_contract:
  assumes "prepare_file fetch m f = Inr (Inr c)" and f: "github_file_ok f" and "fetch_ok fetch" and digest: "\<forall>t. nonblank (digest t)"
  shows "ok_changed_file (diff_file digest c) \<longleftrightarrow> hunks_start_positive c"
proof -
  from assms(1) obtain content n l where c: "c = changed_file_of f (normalize_file_status (gf_status f)) (Some l) content n"
    and l: "language_for_path (gf_path f) = Some l" and fetched: "fetch (gf_path f) = Fetched content n"
    by (auto simp: prepare_file_def Let_def split: if_splits fetch_outcome.splits)
  have n: "pred_option (\<lambda>n. 0 \<le> n) n"
    using assms(3) fetched by (auto simp: fetch_ok_def dest: spec [of _ "gf_path f"])
  have hunks: "list_all well_formed_hunk (cf_hunks c)"
    by (simp add: c changed_file_of_def Let_def parsed_hunks_are_well_formed)
  then have "list_all ok_diff_hunk (cf_hunks c) \<longleftrightarrow> hunks_start_positive c"
    by (auto simp: hunks_start_positive_def list_all_iff well_formed_hunk_contract)
  moreover have "cf_changed_new_lines c = changed_new_lines (cf_hunks c)" by (simp add: c changed_file_of_def Let_def)
  ultimately show ?thesis
    using f n digest language_for_path_nonblank [OF l] changed_lines_positive [of "cf_hunks c"]
    by (auto simp: ok_changed_file_def diff_file_def github_file_ok_def normalize_file_status_known)
      (auto simp: c changed_file_of_def Let_def normalize_file_status_known)
qed

lemma skipped_file_contract:
  assumes "prepare_file fetch m f = Inr (Inl s)" and "github_file_ok f" and "fetch_ok fetch"
  shows "ok_skipped_file (diff_skipped s)"
proof -
  from assms(3) have "nonblank e" if "fetch (gf_path f) = ContentUnavailable e" for e
    using that by (auto simp: fetch_ok_def dest: spec [of _ "gf_path f"])
  with assms(1,2) show ?thesis
    using normalize_file_status_known [of "gf_status f"]
    by (auto simp: prepare_file_def Let_def skipped_def diff_skipped_def ok_skipped_file_def github_file_ok_def
        is_space_def split: if_splits fetch_outcome.splits)
qed

lemma prepare_files_from:
  "prepare_files fetch m files = Inr (changed, skips) \<Longrightarrow>
     (\<forall>c \<in> set changed. \<exists>f \<in> set files. prepare_file fetch m f = Inr (Inr c)) \<and>
     (\<forall>s \<in> set skips. \<exists>f \<in> set files. prepare_file fetch m f = Inr (Inl s))"
proof (induction files arbitrary: changed skips)
  case (Cons f fs)
  then obtain r where r: "prepare_file fetch m f = Inr r" by (auto simp: bind_sum_eq_Inr)
  with Cons.prems obtain ch sk where rest: "prepare_files fetch m fs = Inr (ch, sk)"
    and res: "case r of Inl s \<Rightarrow> changed = ch \<and> skips = s # sk | Inr c \<Rightarrow> changed = c # ch \<and> skips = sk"
    by (cases r) (auto simp: bind_sum_eq_Inr)
  from Cons.IH [OF rest] r res show ?case by (auto split: sum.splits)
qed simp

text \<open>C36: The diff artifact built from GitHub's file list passes its own contract, read back field by field,
  exactly when every hunk of every analysed file has positive start lines; all other fields always conform
  (given a complete context, non-blank digests, and file entries and fetch results as GitHub documents
  them). A file added by the pull request has old start 0 in its hunk header.\<close>

theorem diff_artifact_passes_contract_iff:
  assumes "prepare_changed_files env fetch files = Inr (changed, skips)"
    and "list_all github_file_ok files" and "fetch_ok fetch" and "context_ok context"
    and "nonblank review_run_id" and "\<forall>t. nonblank (digest t)"
  shows "DiffArtifact_from_mapping (enc_DiffArtifact (build_diff_artifact digest context review_run_id changed skips)) =
     Inr (build_diff_artifact digest context review_run_id changed skips) \<longleftrightarrow> list_all hunks_start_positive changed"
proof -
  let ?m = "nat (env_positive_int (env ''REVIEW_MAX_FILES'') 50)"
    and ?b = "env_positive_int (env ''TREESITTER_MAX_FILE_BYTES'') 500000"
  from assms(1) obtain sk where sk: "prepare_files fetch ?b (take ?m files) = Inr (changed, sk)"
    and skips: "skips = sk @ map (\<lambda>f. skipped f (normalize_file_status (gf_status f)) ''max_files''
             (''Review is capped at '' @ str_of_nat ?m @ '' changed files.'')) (drop ?m files)"
    by (auto simp: prepare_changed_files_def Let_def bind_sum_eq_Inr)
  note from' = prepare_files_from [OF sk]
  have files: "github_file_ok f" if "f \<in> set (take ?m files) \<or> f \<in> set (drop ?m files)" for f
    using assms(2) that by (auto simp: list_all_iff dest: in_set_takeD in_set_dropD)
  have "ok_changed_file (diff_file digest c) \<longleftrightarrow> hunks_start_positive c" if "c \<in> set changed" for c
    using from' that files changed_file_contract [OF _ _ assms(3,6)] by blast
  moreover have "ok_skipped_file (diff_skipped s)" if "s \<in> set sk" for s
    using from' that files skipped_file_contract [OF _ _ assms(3)] by blast
  moreover have "ok_skipped_file (diff_skipped (skipped f (normalize_file_status (gf_status f)) ''max_files''
      (''Review is capped at '' @ str_of_nat ?m @ '' changed files.'')))" if "f \<in> set (drop ?m files)" for f
    using files that by (auto simp: skipped_def diff_skipped_def ok_skipped_file_def github_file_ok_def
        normalize_file_status_known is_space_def)
  ultimately show ?thesis
    unfolding DiffArtifact.ok_iff_accepted [symmetric]
    using assms(4,5) by (auto simp: ok_DiffArtifact_def build_diff_artifact_def context_ok_def list_all_iff skips)
qed

definition sample_context :: ReviewContext where
  "sample_context = \<lparr> rvc_repository_id = ''1'', rvc_installation_id = 1, rvc_repository_full_name = ''o/n'',
     rvc_repository_owner = ''o'', rvc_repository_name = ''n'', rvc_pull_request_number = 1, rvc_pull_request_title = ''t'',
     rvc_base_sha = ''b'', rvc_head_sha = ''h'', rvc_current_head_sha = ''h'' \<rparr>"

definition sample_modified_file :: GitHubFile where
  "sample_modified_file = sample_github_file\<lparr>gf_status := ''modified'', gf_patch := Some (''@@ -1 +1,2 @@'' @ [CHR 0x0A] @ ''+x'')\<rparr>"

lemma samples_ok:
  "github_file_ok sample_github_file" "github_file_ok sample_modified_file" "fetch_ok (\<lambda>_. Fetched ''x'' None)" "context_ok sample_context"
  by (simp_all add: github_file_ok_def sample_github_file_def sample_modified_file_def fetch_ok_def context_ok_def
      sample_context_def is_space_def)

theorem diff_artifact_passes_contract_iff_witness:
  "\<exists>changed. prepare_changed_files (\<lambda>_. None) (\<lambda>_. Fetched ''x'' None) [sample_modified_file] = Inr (changed, []) \<and>
     DiffArtifact_from_mapping (enc_DiffArtifact (build_diff_artifact (\<lambda>_. ''d'') sample_context ''r'' changed [])) =
       Inr (build_diff_artifact (\<lambda>_. ''d'') sample_context ''r'' changed [])"
proof -
  let ?p = "prepare_changed_files (\<lambda>_. None) (\<lambda>_. Fetched ''x'' None) [sample_modified_file]"
  have "case ?p of Inr (changed, skips) \<Rightarrow> list_all hunks_start_positive changed \<and> skips = [] | _ \<Rightarrow> False" by code_simp
  then obtain changed where p: "?p = Inr (changed, [])" and pos: "list_all hunks_start_positive changed"
    by (auto split: sum.splits)
  from diff_artifact_passes_contract_iff [OF p _ _ samples_ok(4), of "''r''" "\<lambda>_. ''d''"] samples_ok pos p
  show ?thesis by (auto simp: is_space_def)
qed

lemma sample_hunk:
  "parse_patch_hunks (''@@ -0,0 +1,1 @@'' @ [CHR 0x0A] @ ''+x'') =
     [\<lparr> dh_old_start = 0, dh_old_line_count = 0, dh_new_start = 1, dh_new_line_count = 1, dh_section_header = [],
        dh_lines = [\<lparr> dl_type = ''addition'', dl_content = ''x'', dl_old_line_number = None, dl_new_line_number = Some 1 \<rparr>] \<rparr>]"
  by code_simp

lemma old_start_defect:
  assumes "ok_diff_hunk (h\<lparr>dh_old_start := 1\<rparr>)" and "dh_old_start h \<le> 0"
  shows "defect_of read_diff_hunk (enc_diff_hunk h) (\<lambda>p. p @ ''.oldStart must be a positive integer'')"
  using assms unfolding defect_of_def
  by (simp add: read_diff_hunk_def enc_diff_hunk_def ok_diff_hunk_def run_reader primitive_readers diff_line.items_run join_path_def)

lemma first_hunk_defect:
  assumes f: "ok_changed_file (f\<lparr>cfa_hunks := []\<rparr>)" and h: "cfa_hunks f = [h]"
    and "ok_diff_hunk (h\<lparr>dh_old_start := 1\<rparr>)" and "dh_old_start h \<le> 0"
  shows "defect_of read_changed_file (enc_changed_file f) (\<lambda>p. p @ ''.hunks[0].oldStart must be a positive integer'')"
  unfolding defect_of_def
proof
  fix p
  let ?m = "p @ ''.hunks[0].oldStart must be a positive integer''"
  obtain ys where "\<And>es. run_state (read_items read_diff_hunk (p @ ''.hunks'') [enc_diff_hunk h]) es = (ys, es @ [?m])"
    using defect_in_items [of "[h\<lparr>dh_old_start := 1\<rparr>]" read_diff_hunk enc_diff_hunk 0, OF _ _ old_start_defect [OF assms(3,4)],
      of "p @ ''.hunks''"] assms(3)
    by (auto simp: diff_hunk.item_run str_of_nat.simps digit_char_def)
  with f h show "\<exists>v. \<forall>es. run_state (read_changed_file (enc_changed_file f) p) es = (v, es @ [?m])"
    by (simp add: read_changed_file_def enc_changed_file_def ok_changed_file_def run_reader primitive_readers)
qed

text \<open>A file added by a pull request makes the diff artifact break its own contract: for the one added file
  with header \<open>@@ -0,0 +1,1 @@\<close> the pipeline selects the file and the artifact is rejected with the message
  that the old start must be positive.\<close>

theorem added_file_breaks_diff_contract:
  "\<exists>changed. prepare_changed_files (\<lambda>_. None) (\<lambda>_. Fetched ''x'' None) [sample_github_file] = Inr (changed, []) \<and>
     map cf_path changed = [''src/a.py''] \<and>
     DiffArtifact_from_mapping (enc_DiffArtifact (build_diff_artifact (\<lambda>_. ''d'') sample_context ''r'' changed [])) =
       Inl (ContractValidationError [''files[0].hunks[0].oldStart must be a positive integer''])"
proof -
  let ?c = "changed_file_of sample_github_file ''added'' (Some ''python'') ''x'' None"
  let ?f = "diff_file (\<lambda>_. ''d'') ?c"
  have hunk: "cfa_hunks ?f = [hd (cfa_hunks ?f)]" "dh_old_start (hd (cfa_hunks ?f)) \<le> 0"
    and ok: "ok_changed_file (?f\<lparr>cfa_hunks := []\<rparr>)" "ok_diff_hunk ((hd (cfa_hunks ?f))\<lparr>dh_old_start := 1\<rparr>)"
    and path: "cf_path ?c = ''src/a.py''"
    using sample_hunk
    by (simp_all add: diff_file_def changed_file_of_def sample_github_file_def Let_def ok_changed_file_def ok_diff_hunk_def
        ok_diff_line_def changed_new_lines_def List.map_filter_simps FILE_STATUSES_def is_space_def)
  obtain ys where "\<And>es. run_state (read_items read_changed_file ''files'' [enc_changed_file ?f]) es =
      (ys, es @ [''files[0].hunks[0].oldStart must be a positive integer''])"
    using defect_in_items [of "[?f\<lparr>cfa_hunks := []\<rparr>]" read_changed_file enc_changed_file 0, OF _ _
      first_hunk_defect [OF ok(1) hunk(1) ok(2) hunk(2)], of "''files''"] ok(1)
    by (auto simp: changed_file.item_run str_of_nat.simps digit_char_def)
  then have "DiffArtifact_from_mapping (enc_DiffArtifact (build_diff_artifact (\<lambda>_. ''d'') sample_context ''r'' [?c] [])) =
      Inl (ContractValidationError [''files[0].hunks[0].oldStart must be a positive integer''])"
    by (simp add: DiffArtifact_from_mapping_def DiffArtifact_reader_def enc_DiffArtifact_def build_diff_artifact_def
        sample_context_def run_reader primitive_readers is_space_def raise_if_errors_def read_items_def [of _ _ "[]"])
  moreover have "normalize_file_status ''added'' = ''added''" "language_for_path ''src/a.py'' = Some ''python''"
    "lower (path_suffix ''src/a.py'') \<notin> set BINARY_EXTENSIONS" by code_simp+
  then have "prepare_changed_files (\<lambda>_. None) (\<lambda>_. Fetched ''x'' None) [sample_github_file] = Inr ([?c], [])"
    by (simp add: prepare_changed_files_def prepare_file_def env_positive_int_def Let_def sample_github_file_def)
  ultimately show ?thesis using path by auto
qed

end
