(* ===== verification/PipelineComments.thy ===== *)
theory PipelineComments
  imports PipelineFiles "HOL-Library.AList" "HOL-Library.Multiset" "HOL-Library.Product_Lexorder" "HOL-Library.Sublist"
begin

text \<open>
  pipeline.py: which Semgrep findings become inline review comments (\<open>_build_semgrep_inline_review_comments\<close>),
  and how comments are matched with those GitHub already has (\<open>_partition_existing_inline_comments\<close>,
  \<open>_match_published_inline_comments\<close>). Findings and comments are JSON objects, as in the code. The Markdown
  body of a comment (\<open>_render_inline_semgrep_comment\<close>) and the digest of a finding without an id are
  parameters: nothing below depends on their text.
\<close>

datatype pipeline_error = ReviewPipelineError string string | PipelineException string
  \<comment> \<open>error code and message; any other exception\<close>

section \<open>Selecting the comments\<close>

definition severity_rank :: "string \<Rightarrow> int" where
  "severity_rank severity = (case map_of [(''critical'', 4), (''high'', 3), (''medium'', 2), (''low'', 1), (''info'', 0)] severity of
     Some r \<Rightarrow> r | None \<Rightarrow> 0)"

fun changed_file_line_excerpt :: "ChangedFile list \<Rightarrow> string \<Rightarrow> int \<Rightarrow> string option" where
  "changed_file_line_excerpt [] path line = None"
| "changed_file_line_excerpt (f # fs) path line =
     (if line \<le> 0 then None
      else case cf_content f of
          Some content \<Rightarrow>
            if cf_path f = path \<and> line \<le> int (length (splitlines content)) then Some (splitlines content ! nat (line - 1))
            else changed_file_line_excerpt fs path line
        | None \<Rightarrow> changed_file_line_excerpt fs path line)"

definition changed_lines_by_path :: "ChangedFile list \<Rightarrow> string \<Rightarrow> int list" where
  \<comment> \<open>a dictionary comprehension: of two files with one path the later counts; empty for an unknown path\<close>
  "changed_lines_by_path files path = (case map_of (rev (map (\<lambda>f. (cf_path f, cf_changed_new_lines f)) files)) path of
     Some ls \<Rightarrow> ls | None \<Rightarrow> [])"

record comment_candidate =
  ic_finding_id :: string
  ic_path :: string
  ic_line :: int
  ic_severity :: string
  ic_body :: string
  ic_rank :: int

definition comment_candidate_of ::
  "(obj \<Rightarrow> string) \<Rightarrow> (obj \<Rightarrow> string) \<Rightarrow> ChangedFile list \<Rightarrow> json \<Rightarrow> comment_candidate option" where
  \<comment> \<open>one round of the loop over the findings\<close>
  "comment_candidate_of render dedupe_hash files finding =
     (let item = pv_object finding; path = pv_str (obj_get item ''path'') [];
          start = pv_object (obj_get item ''start'')
      in case pv_optional_positive_int (obj_get start ''line'') of
          None \<Rightarrow> None
        | Some line \<Rightarrow>
            if path = [] \<or> line \<notin> set (changed_lines_by_path files path) then None
            else
              (let lines = pv_str (obj_get item ''lines'') [];
                   display_lines = (case changed_file_line_excerpt files path line of Some l \<Rightarrow> or_else l lines | None \<Rightarrow> lines);
                   severity = pv_str (obj_get item ''severity'') ''info''
               in Some \<lparr> ic_finding_id = pv_str (obj_get item ''id'') (dedupe_hash item), ic_path = path, ic_line = line,
                    ic_severity = severity, ic_body = render (AList.update ''displayLines'' (JStr display_lines) item),
                    ic_rank = severity_rank severity \<rparr>))"

definition candidate_sort_key :: "comment_candidate \<Rightarrow> int \<times> string \<times> int" where
  "candidate_sort_key c = (- ic_rank c, ic_path c, ic_line c)"

definition comment_payload :: "comment_candidate \<Rightarrow> obj" where
  "comment_payload c = [(''findingId'', JStr (ic_finding_id c)), (''path'', JStr (ic_path c)), (''line'', JInt (ic_line c)),
     (''severity'', JStr (ic_severity c)), (''body'', JStr (ic_body c))]"

definition comment_candidates :: "(obj \<Rightarrow> string) \<Rightarrow> (obj \<Rightarrow> string) \<Rightarrow> obj \<Rightarrow> ChangedFile list \<Rightarrow> comment_candidate list" where
  "comment_candidates render dedupe_hash semgrep_artifact files =
     List.map_filter (comment_candidate_of render dedupe_hash files) (pv_list (obj_get semgrep_artifact ''findings''))"

definition build_semgrep_inline_review_comments ::
  "(obj \<Rightarrow> string) \<Rightarrow> (obj \<Rightarrow> string) \<Rightarrow> obj \<Rightarrow> ChangedFile list \<Rightarrow> int \<Rightarrow> obj list" where
  "build_semgrep_inline_review_comments render dedupe_hash semgrep_artifact files max_comments =
     (if max_comments \<le> 0 then []
      else map comment_payload (take (nat max_comments)
        (sort_key candidate_sort_key (comment_candidates render dedupe_hash semgrep_artifact files))))"

section \<open>Matching with the comments on GitHub\<close>

record PublishedInlineComment =
  pc_finding_id :: string
  pc_github_review_id :: "int option"
  pc_github_comment_id :: "int option"
  pc_file_path :: string
  pc_line :: int
  pc_body :: string
  pc_dry_run :: bool

type_synonym comment_key = "string \<times> string \<times> int"

definition selected_key :: "obj \<Rightarrow> comment_key" where
  \<comment> \<open>\<open>selected_body\<close>, \<open>selected_path\<close>, \<open>selected_line\<close>\<close>
  "selected_key c = (pv_str (obj_get c ''body'') [], pv_str (obj_get c ''path'') [], pv_int (obj_get c ''line'') 1)"

definition comment_matches :: "comment_key \<Rightarrow> obj \<Rightarrow> bool" where
  "comment_matches k c \<longleftrightarrow> (pv_str (obj_get c ''body'') [], pv_str (obj_get c ''path'') [], pv_int (obj_get c ''line'') 0) = k \<and>
     pv_optional_int (obj_get c ''id'') \<noteq> None"

fun pop_match :: "comment_key \<Rightarrow> obj list \<Rightarrow> (obj \<times> obj list) option" where
  \<comment> \<open>\<open>next(index ...)\<close> and \<open>remaining.pop(index)\<close>: the first matching comment and the others\<close>
  "pop_match k [] = None"
| "pop_match k (c # cs) = (if comment_matches k c then Some (c, cs)
     else map_option (\<lambda>(m, rest). (m, c # rest)) (pop_match k cs))"

definition published_comment :: "int option \<Rightarrow> obj \<Rightarrow> obj \<Rightarrow> PublishedInlineComment" where
  "published_comment review_id selected match = (case selected_key selected of (body, path, line) \<Rightarrow>
     \<lparr> pc_finding_id = pv_str (obj_get selected ''findingId'') [], pc_github_review_id = review_id,
       pc_github_comment_id = pv_optional_int (obj_get match ''id''), pc_file_path = path, pc_line = line, pc_body = body,
       pc_dry_run = False \<rparr>)"

fun match_from :: "int \<Rightarrow> obj list \<Rightarrow> obj list \<Rightarrow> pipeline_error + PublishedInlineComment list" where
  \<comment> \<open>the loop over \<open>selected_comments\<close>, with the \<open>remaining\<close> comments\<close>
  "match_from review_id [] remaining = Inr []"
| "match_from review_id (s # ss) remaining =
     (case pop_match (selected_key s) remaining of
        None \<Rightarrow> Inl (ReviewPipelineError ''github_response_invalid''
          ''GitHub review comments response did not include every inline comment id.'')
      | Some (m, rest) \<Rightarrow> bind_sum (match_from review_id ss rest) (\<lambda>ps. Inr (published_comment (Some review_id) s m # ps)))"

definition match_published_inline_comments :: "int \<Rightarrow> obj list \<Rightarrow> json list \<Rightarrow> pipeline_error + PublishedInlineComment list" where
  "match_published_inline_comments review_id selected review_comments =
     match_from review_id selected (map pv_object review_comments)"

fun partition_from :: "obj list \<Rightarrow> obj list \<Rightarrow> PublishedInlineComment list \<times> obj list" where
  "partition_from [] remaining = ([], [])"
| "partition_from (s # ss) remaining =
     (case pop_match (selected_key s) remaining of
        None \<Rightarrow> (case partition_from ss remaining of (ps, ms) \<Rightarrow> (ps, s # ms))
      | Some (m, rest) \<Rightarrow> (case partition_from ss rest of (ps, ms) \<Rightarrow>
          (published_comment (pv_optional_int (obj_get m ''pull_request_review_id'')) s m # ps, ms)))"

definition partition_existing_inline_comments :: "obj list \<Rightarrow> json list \<Rightarrow> PublishedInlineComment list \<times> obj list" where
  "partition_existing_inline_comments selected review_comments = partition_from selected (map pv_object review_comments)"

section \<open>The comments are on added lines, the most severe first\<close>

lemma changed_lines_by_path_file:
  assumes "line \<in> set (changed_lines_by_path files path)"
  shows "\<exists>f \<in> set files. cf_path f = path \<and> line \<in> set (cf_changed_new_lines f)"
proof -
  obtain ls where "map_of (rev (map (\<lambda>f. (cf_path f, cf_changed_new_lines f)) files)) path = Some ls" "line \<in> set ls"
    using assms unfolding changed_lines_by_path_def
    by (cases "map_of (rev (map (\<lambda>f. (cf_path f, cf_changed_new_lines f)) files)) path") auto
  from map_of_SomeD [OF this(1)] this(2) show ?thesis by auto
qed

lemma comment_candidate_of_line:
  "comment_candidate_of render dedupe_hash files finding = Some c \<Longrightarrow> ic_line c \<in> set (changed_lines_by_path files (ic_path c))"
  by (auto simp: comment_candidate_of_def Let_def split: option.splits if_splits)

definition on_added_line :: "ChangedFile list \<Rightarrow> comment_candidate \<Rightarrow> bool" where
  \<comment> \<open>the patch of a file with the comment's path has an addition with the comment's line as new number\<close>
  "on_added_line files c \<longleftrightarrow> (\<exists>f \<in> set files. cf_path f = ic_path c \<and>
     (\<exists>h \<in> set (parse_patch_hunks (case cf_patch f of Some p \<Rightarrow> p | None \<Rightarrow> [])). \<exists>l \<in> set (dh_lines h).
        dl_type l = ''addition'' \<and> dl_new_line_number l = Some (ic_line c)))"

lemma candidate_on_added_line:
  assumes "list_all (analysed_file_ok fetch) files" and "c \<in> set (comment_candidates render dedupe_hash art files)"
  shows "on_added_line files c"
proof -
  from assms(2) obtain finding where "comment_candidate_of render dedupe_hash files finding = Some c"
    by (auto simp: comment_candidates_def set_map_filter)
  from changed_lines_by_path_file [OF comment_candidate_of_line [OF this]] obtain f
    where f: "f \<in> set files" "cf_path f = ic_path c" "ic_line c \<in> set (cf_changed_new_lines f)" by blast
  with assms(1) have "analysed_file_ok fetch f" by (simp add: list_all_iff)
  with f show ?thesis unfolding on_added_line_def analysed_file_ok_def by auto
qed

lemma sorted_append_le: "sorted (map f (xs @ ys)) \<Longrightarrow> x \<in> set xs \<Longrightarrow> y \<in> set ys \<Longrightarrow> f x \<le> f y" for f :: "'a \<Rightarrow> 'b::linorder"
  by (simp add: sorted_append)

text \<open>C21: The inline comments are chosen from the findings on lines the pull request adds: every comment is on a
  line that is an addition of a patch with its path, there are as many as the limit allows, they are in
  order of severity, path and line, and no finding left out is more severe than one commented on.\<close>

theorem inline_comments_are_most_severe_on_added_lines:
  assumes "prepare_changed_files env fetch github_files = Inr (files, skips)" and "0 < max_comments"
  shows "\<exists>chosen rest. build_semgrep_inline_review_comments render dedupe_hash art files max_comments = map comment_payload chosen \<and>
     mset (comment_candidates render dedupe_hash art files) = mset chosen + mset rest \<and>
     (rest \<noteq> [] \<longrightarrow> length chosen = nat max_comments) \<and> length chosen \<le> nat max_comments \<and>
     sorted (map candidate_sort_key chosen) \<and> list_all (on_added_line files) chosen \<and>
     (\<forall>c \<in> set chosen. \<forall>r \<in> set rest. ic_rank r \<le> ic_rank c)"
proof (intro exI conjI)
  let ?cands = "comment_candidates render dedupe_hash art files"
  let ?sorted = "sort_key candidate_sort_key ?cands"
  let ?chosen = "take (nat max_comments) ?sorted" and ?rest = "drop (nat max_comments) ?sorted"
  show "build_semgrep_inline_review_comments render dedupe_hash art files max_comments = map comment_payload ?chosen"
    using assms(2) by (simp add: build_semgrep_inline_review_comments_def)
  show "mset ?cands = mset ?chosen + mset ?rest" by (metis append_take_drop_id mset_append mset_sort)
  have sorted: "sorted (map candidate_sort_key ?sorted)" by simp
  then show "sorted (map candidate_sort_key ?chosen)" unfolding take_map [symmetric] by (rule sorted_wrt_take)
  show "list_all (on_added_line files) ?chosen"
    using candidate_on_added_line [OF prepared_files_analysed [OF assms(1)]]
    by (auto simp: list_all_iff dest: in_set_takeD)
  show "\<forall>c \<in> set ?chosen. \<forall>r \<in> set ?rest. ic_rank r \<le> ic_rank c"
    using sorted_append_le [of candidate_sort_key ?chosen ?rest] sorted
    by (fastforce simp: candidate_sort_key_def less_eq_prod_def)
qed auto

section \<open>Matching is a difference of multisets\<close>

text \<open>
  The specification: comments count by their text, path and line; a comment on GitHub counts when it has an
  id, and stands for one selected comment at most.
\<close>

definition existing_key :: "obj \<Rightarrow> comment_key" where
  "existing_key c = (pv_str (obj_get c ''body'') [], pv_str (obj_get c ''path'') [], pv_int (obj_get c ''line'') 0)"

definition has_id :: "obj \<Rightarrow> bool" where
  "has_id c \<longleftrightarrow> pv_optional_int (obj_get c ''id'') \<noteq> None"

definition existing_keys :: "obj list \<Rightarrow> comment_key multiset" where
  "existing_keys cs = mset (map existing_key (filter has_id cs))"

definition existing_ids :: "obj list \<Rightarrow> (comment_key \<times> int option) multiset" where
  "existing_ids cs = mset (map (\<lambda>c. (existing_key c, pv_optional_int (obj_get c ''id''))) (filter has_id cs))"

definition published_key :: "PublishedInlineComment \<Rightarrow> comment_key" where
  "published_key p = (pc_body p, pc_file_path p, pc_line p)"

definition published_ids :: "PublishedInlineComment list \<Rightarrow> (comment_key \<times> int option) multiset" where
  "published_ids ps = mset (map (\<lambda>p. (published_key p, pc_github_comment_id p)) ps)"

lemma comment_matches_iff: "comment_matches k c \<longleftrightarrow> existing_key c = k \<and> has_id c"
  by (simp add: comment_matches_def existing_key_def has_id_def)

lemma published_comment_key:
  "published_key (published_comment r s m) = selected_key s"
  "pc_github_comment_id (published_comment r s m) = pv_optional_int (obj_get m ''id'')"
  by (simp_all add: published_comment_def published_key_def split: prod.splits)

lemma pop_match_None: "pop_match k cs = None \<longleftrightarrow> k \<notin># existing_keys cs"
  by (induction cs) (auto simp: existing_keys_def comment_matches_iff)

lemma pop_match_Some:
  "pop_match k cs = Some (m, rest) \<Longrightarrow> existing_keys cs = add_mset k (existing_keys rest) \<and>
     existing_ids cs = add_mset (k, pv_optional_int (obj_get m ''id'')) (existing_ids rest)"
  by (induction cs arbitrary: rest)
    (auto simp: existing_keys_def existing_ids_def comment_matches_iff split: if_splits)

lemma partition_from_spec:
  "partition_from selected cs = (ps, ms) \<Longrightarrow>
     mset (map selected_key ms) = mset (map selected_key selected) - existing_keys cs \<and> subseq ms selected \<and>
     mset (map published_key ps) = mset (map selected_key selected) \<inter># existing_keys cs \<and>
     published_ids ps \<subseteq># existing_ids cs"
proof (induction selected cs arbitrary: ps ms rule: partition_from.induct)
  case (1 remaining)
  then show ?case by (simp add: published_ids_def)
next
  case (2 s ss remaining)
  show ?case
  proof (cases "pop_match (selected_key s) remaining")
    case None
    then obtain ms' where "partition_from ss remaining = (ps, ms')" "ms = s # ms'"
      using "2.prems" by (auto split: prod.splits)
    with "2.IH"(1) [OF None] None show ?thesis by (simp add: pop_match_None inter_add_left1 add_mset_diff_bothsides)
  next
    case (Some p)
    obtain m rest where p: "p = (m, rest)" by (cases p)
    with Some "2.prems" obtain ps' where ps: "partition_from ss rest = (ps', ms)"
      "ps = published_comment (pv_optional_int (obj_get m ''pull_request_review_id'')) s m # ps'"
      by (auto split: prod.splits)
    from "2.IH"(2) [OF Some p [symmetric] ps(1)] pop_match_Some [of _ remaining m rest] Some p ps(2)
    show ?thesis by (auto simp: published_comment_key published_ids_def)
  qed
qed

text \<open>Partitioning the selected comments against those on GitHub implements the difference of multisets of
  comments: what is missing, in the selected order, is the selected comments less the existing ones; what is
  reported as published is their intersection, and every GitHub comment is reported at most once, with the
  id of a comment of the same text, path and line.\<close>

theorem partition_is_multiset_difference:
  "let cs = map pv_object review_comments; (published, missing) = partition_existing_inline_comments selected review_comments
   in mset (map selected_key missing) = mset (map selected_key selected) - existing_keys cs \<and> subseq missing selected \<and>
      mset (map published_key published) = mset (map selected_key selected) \<inter># existing_keys cs \<and>
      published_ids published \<subseteq># existing_ids cs"
proof -
  obtain ps ms where "partition_from selected (map pv_object review_comments) = (ps, ms)" by fastforce
  with partition_from_spec [OF this] show ?thesis
    by (simp add: partition_existing_inline_comments_def Let_def)
qed

lemma match_from_spec:
  "case match_from review_id selected cs of
     Inl e \<Rightarrow> \<not> mset (map selected_key selected) \<subseteq># existing_keys cs \<and>
       e = ReviewPipelineError ''github_response_invalid''
         ''GitHub review comments response did not include every inline comment id.''
   | Inr ps \<Rightarrow> mset (map selected_key selected) \<subseteq># existing_keys cs \<and> map published_key ps = map selected_key selected \<and>
       list_all (\<lambda>p. pc_github_review_id p = Some review_id) ps \<and> published_ids ps \<subseteq># existing_ids cs"
proof (induction review_id selected cs rule: match_from.induct)
  case (1 review_id remaining)
  then show ?case by (simp add: published_ids_def)
next
  case (2 review_id s ss remaining)
  show ?case
  proof (cases "pop_match (selected_key s) remaining")
    case None
    then have "selected_key s \<notin># existing_keys remaining" by (simp add: pop_match_None)
    with None show ?thesis by (auto dest: mset_subset_eqD)
  next
    case (Some p)
    obtain m rest where p: "p = (m, rest)" by (cases p)
    from "2.IH" [OF Some p [symmetric]] pop_match_Some [of _ remaining m rest] Some p show ?thesis
      by (cases "match_from review_id ss rest")
        (auto simp: published_comment_key published_ids_def, simp add: published_comment_def split: prod.splits)
  qed
qed

text \<open>Matching the comments of a created review succeeds exactly when GitHub lists every selected comment, with
  its multiplicity; then each is reported in order under the review's id with the id of its own listing.
  Otherwise it fails with the one error that makes the caller look again.\<close>

theorem match_succeeds_iff_all_listed:
  "let cs = map pv_object review_comments
   in case match_published_inline_comments review_id selected review_comments of
        Inl e \<Rightarrow> \<not> mset (map selected_key selected) \<subseteq># existing_keys cs \<and>
          e = ReviewPipelineError ''github_response_invalid''
            ''GitHub review comments response did not include every inline comment id.''
      | Inr ps \<Rightarrow> mset (map selected_key selected) \<subseteq># existing_keys cs \<and> map published_key ps = map selected_key selected \<and>
          list_all (\<lambda>p. pc_github_review_id p = Some review_id) ps \<and> published_ids ps \<subseteq># existing_ids cs"
  unfolding Let_def match_published_inline_comments_def by (rule match_from_spec)

definition sample_semgrep_dict :: obj where
  "sample_semgrep_dict = [(''findings'', JList [JObj [(''path'', JStr ''src/a.py''), (''start'', JObj [(''line'', JInt 1)]),
     (''severity'', JStr ''high'')]])]"

theorem inline_comments_are_most_severe_on_added_lines_witness:
  "\<exists>files skips. prepare_changed_files (\<lambda>_. None) (\<lambda>_. Fetched ''x'' None) [sample_github_file] = Inr (files, skips) \<and>
     comment_candidates (\<lambda>_. ''b'') (\<lambda>_. ''d'') sample_semgrep_dict files \<noteq> [] \<and>
     (\<exists>chosen rest. build_semgrep_inline_review_comments (\<lambda>_. ''b'') (\<lambda>_. ''d'') sample_semgrep_dict files 10 = map comment_payload chosen \<and>
       mset (comment_candidates (\<lambda>_. ''b'') (\<lambda>_. ''d'') sample_semgrep_dict files) = mset chosen + mset rest \<and>
       (rest \<noteq> [] \<longrightarrow> length chosen = nat 10) \<and> length chosen \<le> nat 10 \<and>
       sorted (map candidate_sort_key chosen) \<and> list_all (on_added_line files) chosen \<and>
       (\<forall>c \<in> set chosen. \<forall>r \<in> set rest. ic_rank r \<le> ic_rank c))"
proof -
  let ?p = "prepare_changed_files (\<lambda>_. None) (\<lambda>_. Fetched ''x'' None) [sample_github_file]"
  have "case ?p of Inr (files, skips) \<Rightarrow> comment_candidates (\<lambda>_. ''b'') (\<lambda>_. ''d'') sample_semgrep_dict files \<noteq> [] | _ \<Rightarrow> False"
    by code_simp
  then obtain files skips where "?p = Inr (files, skips)" "comment_candidates (\<lambda>_. ''b'') (\<lambda>_. ''d'') sample_semgrep_dict files \<noteq> []"
    by (auto split: sum.splits)
  with inline_comments_are_most_severe_on_added_lines [OF this(1), of 10 "\<lambda>_. ''b''" "\<lambda>_. ''d''" sample_semgrep_dict]
  show ?thesis by auto
qed

end
