(* ===== verification/PyAction.thy ===== *)
theory PyAction
  imports Prelude
begin

text \<open>
  Operations on a state that may raise and may not return: an action maps a state to None (it never returns) or
  to what it raises (Inl) or returns (Inr), with the new state. A raise keeps the changes made before it.
\<close>

type_synonym ('s, 'e, 'a) action = "'s \<Rightarrow> (('e + 'a) \<times> 's) option"

definition act_return :: "'a \<Rightarrow> ('s, 'e, 'a) action" where
  "act_return a = (\<lambda>s. Some (Inr a, s))"

definition act_raise :: "'e \<Rightarrow> ('s, 'e, 'a) action" where
  "act_raise e = (\<lambda>s. Some (Inl e, s))"

definition act_bind :: "('s, 'e, 'a) action \<Rightarrow> ('a \<Rightarrow> ('s, 'e, 'b) action) \<Rightarrow> ('s, 'e, 'b) action" where
  "act_bind m f = (\<lambda>s. case m s of
      None \<Rightarrow> None
    | Some (Inl e, s') \<Rightarrow> Some (Inl e, s')
    | Some (Inr a, s') \<Rightarrow> f a s')"

definition act_of :: "'e + 'a \<Rightarrow> ('s, 'e, 'a) action" where
  "act_of r = (case r of Inl e \<Rightarrow> act_raise e | Inr a \<Rightarrow> act_return a)"

definition act_catch :: "('s, 'e, 'a) action \<Rightarrow> ('e \<Rightarrow> ('s, 'e, 'a) action) \<Rightarrow> ('s, 'e, 'a) action" where
  \<comment> \<open>\<open>try: m except Exception as e: handler\<close>\<close>
  "act_catch m handler = (\<lambda>s. case m s of
      None \<Rightarrow> None
    | Some (Inl e, s') \<Rightarrow> handler e s'
    | Some (Inr a, s') \<Rightarrow> Some (Inr a, s'))"

definition act_map_error :: "('e \<Rightarrow> 'f) \<Rightarrow> ('s, 'e, 'a) action \<Rightarrow> ('s, 'f, 'a) action" where
  "act_map_error f m = (\<lambda>s. map_option (map_prod (map_sum f id) id) (m s))"

definition act_zoom :: "('t \<Rightarrow> 's) \<Rightarrow> ('s \<Rightarrow> 't \<Rightarrow> 't) \<Rightarrow> ('s, 'e, 'a) action \<Rightarrow> ('t, 'e, 'a) action" where
  \<comment> \<open>an action on one field of a larger state\<close>
  "act_zoom get put m = (\<lambda>t. map_option (\<lambda>(r, s). (r, put s t)) (m (get t)))"

fun act_each :: "('a \<Rightarrow> ('s, 'e, unit) action) \<Rightarrow> 'a list \<Rightarrow> ('s, 'e, unit) action" where
  \<comment> \<open>\<open>for x in xs: f(x)\<close>\<close>
  "act_each f [] = act_return ()"
| "act_each f (x # xs) = act_bind (f x) (\<lambda>_. act_each f xs)"

section \<open>Rules\<close>

lemma act_bind_eq_Inr:
  "act_bind m f s = Some (Inr b, s') \<longleftrightarrow> (\<exists>a s1. m s = Some (Inr a, s1) \<and> f a s1 = Some (Inr b, s'))"
  by (auto simp: act_bind_def split: option.splits sum.splits)

lemma act_return_eq_Some: "act_return a s = Some (r, s') \<longleftrightarrow> r = Inr a \<and> s' = s"
  by (auto simp: act_return_def)

lemma act_raise_eq_Some: "act_raise e s = Some (r, s') \<longleftrightarrow> r = Inl e \<and> s' = s"
  by (auto simp: act_raise_def)

lemma act_of_eq_Some: "act_of r s = Some (r', s') \<longleftrightarrow> r = r' \<and> s' = s"
  by (auto simp: act_of_def act_raise_def act_return_def split: sum.splits)

lemmas act_eq_Some = act_bind_eq_Inr act_return_eq_Some act_raise_eq_Some act_of_eq_Some

lemma act_bind_return [simp]: "act_bind (act_return a) f = f a"
  by (simp add: act_bind_def act_return_def)

lemma act_bind_raise [simp]: "act_bind (act_raise e) f = act_raise e"
  by (simp add: act_bind_def act_raise_def)

section \<open>Relations every run of an action respects\<close>

definition act_respects :: "('s \<Rightarrow> 's \<Rightarrow> bool) \<Rightarrow> ('s, 'e, 'a) action \<Rightarrow> bool" where
  "act_respects R m \<longleftrightarrow> (\<forall>s r s'. m s = Some (r, s') \<longrightarrow> R s s')"

lemma act_respectsD: "act_respects R m \<Longrightarrow> m s = Some (r, s') \<Longrightarrow> R s s'"
  by (simp add: act_respects_def)

text \<open>A relation that allows no change and is closed under composition is respected by composed actions.\<close>

locale state_relation =
  fixes R :: "'s \<Rightarrow> 's \<Rightarrow> bool"
  assumes R_refl: "R s s"
    and R_trans: "R s1 s2 \<Longrightarrow> R s2 s3 \<Longrightarrow> R s1 s3"
begin

lemma return: "act_respects R (act_return a)"
  by (simp add: act_respects_def act_return_def R_refl)

lemma raise: "act_respects R (act_raise e)"
  by (simp add: act_respects_def act_raise_def R_refl)

lemma of_sum: "act_respects R (act_of r)"
  by (simp add: act_of_def return raise split: sum.split)

lemma bind: "act_respects R m \<Longrightarrow> (\<And>a. act_respects R (f a)) \<Longrightarrow> act_respects R (act_bind m f)"
  by (auto simp: act_respects_def act_bind_def split: option.splits sum.splits intro: R_refl R_trans) (blast intro: R_trans)

lemma catch: "act_respects R m \<Longrightarrow> (\<And>e. act_respects R (handler e)) \<Longrightarrow> act_respects R (act_catch m handler)"
  by (auto simp: act_respects_def act_catch_def split: option.splits sum.splits intro: R_refl R_trans) (blast intro: R_trans)

lemma each: "(\<And>x. x \<in> set xs \<Longrightarrow> act_respects R (f x)) \<Longrightarrow> act_respects R (act_each f xs)"
  by (induction xs) (auto intro: return bind)

lemma pair: "(\<And>a b. act_respects R (f a b)) \<Longrightarrow> act_respects R (case p of (a, b) \<Rightarrow> f a b)"
  by (cases p) simp

lemma cond: "act_respects R m \<Longrightarrow> act_respects R n \<Longrightarrow> act_respects R (if b then m else n)"
  by simp

lemmas composed = return raise of_sum bind catch each pair cond

end

section \<open>Actions that always return\<close>

definition act_total :: "('s, 'e, 'a) action \<Rightarrow> bool" where
  "act_total m \<longleftrightarrow> (\<forall>s. m s \<noteq> None)"

named_theorems total_intros

lemma act_total_return [total_intros]: "act_total (act_return a)"
  by (simp add: act_total_def act_return_def)

lemma act_total_raise [total_intros]: "act_total (act_raise e)"
  by (simp add: act_total_def act_raise_def)

lemma act_total_of [total_intros]: "act_total (act_of r)"
  by (simp add: act_of_def act_total_return act_total_raise split: sum.split)

lemma act_total_bind [total_intros]: "act_total m \<Longrightarrow> (\<And>a. act_total (f a)) \<Longrightarrow> act_total (act_bind m f)"
  by (auto simp: act_total_def act_bind_def split: option.split sum.split)

lemma act_total_catch [total_intros]: "act_total m \<Longrightarrow> (\<And>e. act_total (handler e)) \<Longrightarrow> act_total (act_catch m handler)"
  by (auto simp: act_total_def act_catch_def split: option.split sum.split)

lemma act_total_map_error [total_intros]: "act_total m \<Longrightarrow> act_total (act_map_error f m)"
  by (simp add: act_total_def act_map_error_def)

lemma act_total_zoom [total_intros]: "act_total m \<Longrightarrow> act_total (act_zoom get put m)"
  by (simp add: act_total_def act_zoom_def)

lemma act_total_cond [total_intros]: "act_total m \<Longrightarrow> act_total n \<Longrightarrow> act_total (if b then m else n)"
  by simp

lemma act_totalE:
  assumes "act_total m"
  obtains r s' where "m s = Some (r, s')"
proof -
  from assms have "m s \<noteq> None" by (simp add: act_total_def)
  with that show ?thesis by auto
qed

end
