(* ===== verification/PipelineGitHub.thy ===== *)
theory PipelineGitHub
  imports PipelineComments PyAction
begin

text \<open>
  pipeline.py, \<open>GitHubClient\<close>: the calls of the GitHub API. A call returns an error or a JSON value and changes the
  world outside; how (\<open>_request_json\<close> over HTTP), the pause between two attempts and the signed JWT are the
  parameters \<open>github_api\<close>. The client's own state is its cache of installation tokens. An operation returns None
  when it never returns: the two \<open>while True\<close> loops over pages end only when a page is short.
\<close>

section \<open>Operations with errors that may not return\<close>

record 'w github_api =
  ga_request :: "string \<Rightarrow> string \<Rightarrow> string \<Rightarrow> json option \<Rightarrow> 'w \<Rightarrow> (pipeline_error + json) \<times> 'w"
    \<comment> \<open>method, path, bearer token, body\<close>
  ga_sleep :: "int \<Rightarrow> 'w \<Rightarrow> 'w"
  ga_jwt :: "'w \<Rightarrow> string"

record 'w github_client =
  gc_tokens :: "int \<Rightarrow> string option"
  gc_world :: 'w

type_synonym ('w, 'e, 'a) github_action = "('w github_client, 'e, 'a) action"

type_synonym ('w, 'a) github_op = "('w, pipeline_error, 'a) github_action"

definition invalid_response :: "string \<Rightarrow> ('w, 'a) github_op" where
  "invalid_response message = act_raise (ReviewPipelineError ''github_response_invalid'' message)"

definition request_json :: "'w github_api \<Rightarrow> string \<Rightarrow> string \<Rightarrow> string \<Rightarrow> json option \<Rightarrow> ('w, json) github_op" where
  "request_json api meth path bearer body =
     (\<lambda>c. case ga_request api meth path bearer body (gc_world c) of (r, w) \<Rightarrow> Some (r, c\<lparr>gc_world := w\<rparr>))"

definition gh_sleep :: "'w github_api \<Rightarrow> int \<Rightarrow> ('w, unit) github_op" where
  "gh_sleep api seconds = (\<lambda>c. Some (Inr (), c\<lparr>gc_world := ga_sleep api seconds (gc_world c)\<rparr>))"

section \<open>Paths\<close>

definition percent_byte :: "nat \<Rightarrow> string" where
  "percent_byte n = [CHR ''%'', ''0123456789ABCDEF'' ! (n div 16), ''0123456789ABCDEF'' ! (n mod 16)]"

definition quote_char :: "char \<Rightarrow> string" where
  \<comment> \<open>\<open>urllib.parse.quote(text, safe='')\<close>: the UTF-8 bytes of every character that is not unreserved\<close>
  "quote_char c = (let n = (of_char c :: nat)
     in if is_lower_ascii c \<or> is_upper_ascii c \<or> is_digit c \<or> c \<in> set ''_.-~'' then [c]
        else if n < 128 then percent_byte n
        else percent_byte (192 + n div 64) @ percent_byte (128 + n mod 64))"

definition quote_text :: "string \<Rightarrow> string" where
  "quote_text s = concat (map quote_char s)"

definition split_repository_full_name :: "string \<Rightarrow> pipeline_error + string \<times> string" where
  "split_repository_full_name value =
     (if CHR ''/'' \<in> set value
      then Inr (quote_text (takeWhile (\<lambda>c. c \<noteq> CHR ''/'') value), quote_text (drop 1 (dropWhile (\<lambda>c. c \<noteq> CHR ''/'') value)))
      else Inl (PipelineException ''not enough values to unpack (expected 2, got 1)''))"

definition gh_split :: "string \<Rightarrow> ('w, string \<times> string) github_op" where
  "gh_split value = (case split_repository_full_name value of Inl e \<Rightarrow> act_raise e | Inr p \<Rightarrow> act_return p)"

definition repo_path :: "string \<times> string \<Rightarrow> string" where
  "repo_path r = ''/repos/'' @ fst r @ ''/'' @ snd r"

section \<open>Tokens and pages\<close>

definition installation_token :: "'w github_api \<Rightarrow> int \<Rightarrow> ('w, string) github_op" where
  "installation_token api installation_id = (\<lambda>c. case gc_tokens c installation_id of
      Some t \<Rightarrow> Some (Inr t, c)
    | None \<Rightarrow> act_bind (request_json api ''POST'' (''/app/installations/'' @ str_of_int installation_id @ ''/access_tokens'')
          (ga_jwt api (gc_world c)) None) (\<lambda>response.
        case response of
          JObj v \<Rightarrow> (case obj_get v ''token'' of
              JStr t \<Rightarrow> (\<lambda>c'. Some (Inr t, c'\<lparr>gc_tokens := (gc_tokens c')(installation_id \<mapsto> t)\<rparr>))
            | _ \<Rightarrow> act_raise (ReviewPipelineError ''github_token_unavailable''
                ''GitHub installation token response did not include a token.''))
        | _ \<Rightarrow> act_raise (ReviewPipelineError ''github_token_unavailable''
            ''GitHub installation token response did not include a token.'')) c)"

definition pull_files_path :: "string \<times> string \<Rightarrow> int \<Rightarrow> nat \<Rightarrow> string" where
  "pull_files_path r pull_number page = repo_path r @ ''/pulls/'' @ str_of_int pull_number @ ''/files?per_page=100&page='' @ str_of_nat page"

definition review_comments_path :: "string \<times> string \<Rightarrow> int \<Rightarrow> nat \<Rightarrow> string" where
  "review_comments_path r pull_number page = repo_path r @ ''/pulls/'' @ str_of_int pull_number @ ''/comments?per_page=100&page='' @ str_of_nat page"

definition reviews_path :: "string \<times> string \<Rightarrow> int \<Rightarrow> string" where
  "reviews_path r pull_number = repo_path r @ ''/pulls/'' @ str_of_int pull_number @ ''/reviews''"

definition created_comments_path :: "string \<times> string \<Rightarrow> int \<Rightarrow> int \<Rightarrow> string" where
  "created_comments_path r pull_number review_id =
     reviews_path r pull_number @ ''/'' @ str_of_int review_id @ ''/comments?per_page=100''"

definition issue_comments_path :: "string \<times> string \<Rightarrow> int \<Rightarrow> string" where
  "issue_comments_path r pull_number = repo_path r @ ''/issues/'' @ str_of_int pull_number @ ''/comments''"

partial_function (option) pull_files_pages ::
  "(nat \<Rightarrow> ('w, json) github_op) \<Rightarrow> nat \<Rightarrow> GitHubFile list \<Rightarrow> ('w, GitHubFile list) github_op" where
  "pull_files_pages get page files c = (case get page c of
      None \<Rightarrow> None
    | Some (Inl e, c') \<Rightarrow> Some (Inl e, c')
    | Some (Inr response, c') \<Rightarrow> (case response of
          JList items \<Rightarrow>
            if items = [] then Some (Inr files, c')
            else if length items < 100 then Some (Inr (files @ map read_github_file items), c')
            else pull_files_pages get (page + 1) (files @ map read_github_file items) c'
        | _ \<Rightarrow> invalid_response ''GitHub pull files response was not a list.'' c'))"

definition fetch_pull_request_files :: "'w github_api \<Rightarrow> int \<Rightarrow> string \<Rightarrow> int \<Rightarrow> ('w, GitHubFile list) github_op" where
  "fetch_pull_request_files api installation_id repository_full_name pull_number =
     act_bind (installation_token api installation_id) (\<lambda>token.
     act_bind (gh_split repository_full_name) (\<lambda>r.
       pull_files_pages (\<lambda>page. request_json api ''GET'' (pull_files_path r pull_number page) token None) 1 []))"

partial_function (option) review_comment_pages ::
  "(nat \<Rightarrow> ('w, json) github_op) \<Rightarrow> nat \<Rightarrow> json list \<Rightarrow> ('w, json list) github_op" where
  "review_comment_pages get page comments c = (case get page c of
      None \<Rightarrow> None
    | Some (Inl e, c') \<Rightarrow> Some (Inl e, c')
    | Some (Inr response, c') \<Rightarrow> (case response of
          JList items \<Rightarrow>
            if length items < 100 then Some (Inr (comments @ items), c')
            else review_comment_pages get (page + 1) (comments @ items) c'
        | _ \<Rightarrow> invalid_response ''GitHub pull review comments response was not a list.'' c'))"

definition fetch_pull_request_review_comments ::
  "'w github_api \<Rightarrow> string \<Rightarrow> string \<times> string \<Rightarrow> int \<Rightarrow> ('w, json list) github_op" where
  "fetch_pull_request_review_comments api token r pull_number =
     review_comment_pages (\<lambda>page. request_json api ''GET'' (review_comments_path r pull_number page) token None) 1 []"

section \<open>The two activity comments\<close>

definition FIRMCODEAI_SCANNING_COMMENT_MARKER :: string where
  "FIRMCODEAI_SCANNING_COMMENT_MARKER = ''<!-- firmcodeai:activity:scanning:v1 -->''"

definition FIRMCODEAI_SUMMARY_COMMENT_MARKER :: string where
  "FIRMCODEAI_SUMMARY_COMMENT_MARKER = ''<!-- firmcodeai:activity:summary:v1 -->''"

definition marked_comment_id :: "string \<Rightarrow> json \<Rightarrow> int option" where
  "marked_comment_id marker comment = (case comment of
      JObj v \<Rightarrow> (case obj_get v ''body'' of
          JStr b \<Rightarrow> if contains_str marker b then pv_optional_int (obj_get v ''id'') else None
        | _ \<Rightarrow> None)
    | _ \<Rightarrow> None)"

fun first_marked :: "string \<Rightarrow> json list \<Rightarrow> int option" where
  \<comment> \<open>the loop over the listed comments, up to its \<open>break\<close>\<close>
  "first_marked marker [] = None"
| "first_marked marker (c # cs) = (case marked_comment_id marker c of Some i \<Rightarrow> Some i | None \<Rightarrow> first_marked marker cs)"

definition created_id :: "string \<Rightarrow> json \<Rightarrow> ('w, int) github_op" where
  "created_id message created = (case created of
      JObj v \<Rightarrow> (case pv_optional_int (obj_get v ''id'') of Some i \<Rightarrow> act_return i | None \<Rightarrow> invalid_response message)
    | _ \<Rightarrow> invalid_response message)"

definition upsert_activity_comment ::
  "string \<Rightarrow> 'w github_api \<Rightarrow> bool \<Rightarrow> int \<Rightarrow> string \<Rightarrow> int \<Rightarrow> string \<Rightarrow> ('w, int option \<times> bool) github_op" where
  \<comment> \<open>the body of both methods, which differ in the marker only\<close>
  "upsert_activity_comment marker api dry_run installation_id repository_full_name pull_number body =
     (if dry_run then act_return (None, True)
      else act_bind (installation_token api installation_id) (\<lambda>token.
        act_bind (gh_split repository_full_name) (\<lambda>r.
        act_bind (request_json api ''GET'' (issue_comments_path r pull_number @ ''?per_page=100'') token None) (\<lambda>response.
          case response of
            JList comments \<Rightarrow> (case first_marked marker comments of
                Some existing_id \<Rightarrow>
                  act_bind (request_json api ''PATCH'' (repo_path r @ ''/issues/comments/'' @ str_of_int existing_id) token
                    (Some (JObj [(''body'', JStr body)]))) (\<lambda>_. act_return (Some existing_id, False))
              | None \<Rightarrow>
                  act_bind (request_json api ''POST'' (issue_comments_path r pull_number) token (Some (JObj [(''body'', JStr body)])))
                    (\<lambda>created. act_bind (created_id ''GitHub create comment response did not include an id.'' created)
                      (\<lambda>i. act_return (Some i, False))))
          | _ \<Rightarrow> invalid_response ''GitHub issue comments response was not a list.''))))"

definition publish_summary_comment ::
  "'w github_api \<Rightarrow> bool \<Rightarrow> int \<Rightarrow> string \<Rightarrow> int \<Rightarrow> string \<Rightarrow> ('w, int option \<times> bool) github_op" where
  "publish_summary_comment = upsert_activity_comment FIRMCODEAI_SUMMARY_COMMENT_MARKER"

definition publish_scanning_comment ::
  "'w github_api \<Rightarrow> bool \<Rightarrow> int \<Rightarrow> string \<Rightarrow> int \<Rightarrow> string \<Rightarrow> ('w, int option \<times> bool) github_op" where
  "publish_scanning_comment = upsert_activity_comment FIRMCODEAI_SCANNING_COMMENT_MARKER"

section \<open>Inline review comments\<close>

definition inline_review_body :: "obj list \<Rightarrow> string" where
  "inline_review_body comments = ''FirmcodeAI left '' @ str_of_nat (length comments) @ '' inline code review '' @
     (if length comments = 1 then ''comment'' else ''comments'') @ '' on changed code.''"

definition dry_run_comment :: "obj \<Rightarrow> PublishedInlineComment" where
  "dry_run_comment c = \<lparr> pc_finding_id = pv_str (obj_get c ''findingId'') [], pc_github_review_id = None,
     pc_github_comment_id = None, pc_file_path = pv_str (obj_get c ''path'') [], pc_line = pv_int (obj_get c ''line'') 1,
     pc_body = pv_str (obj_get c ''body'') [], pc_dry_run = True \<rparr>"

definition review_comment_payload :: "obj \<Rightarrow> obj" where
  "review_comment_payload c = [(''path'', JStr (pv_str (obj_get c ''path'') [])), (''line'', JInt (pv_int (obj_get c ''line'') 1)),
     (''side'', JStr ''RIGHT''), (''body'', JStr (pv_str (obj_get c ''body'') []))]"

definition review_payload :: "string \<Rightarrow> obj list \<Rightarrow> json" where
  "review_payload head_sha missing = JObj [(''commit_id'', JStr head_sha), (''event'', JStr ''COMMENT''),
     (''body'', JStr (inline_review_body missing)), (''comments'', JList (map (JObj \<circ> review_comment_payload) missing))]"

fun fetch_created_from ::
  "'w github_api \<Rightarrow> string \<Rightarrow> string \<times> string \<Rightarrow> int \<Rightarrow> int \<Rightarrow> obj list \<Rightarrow> nat \<Rightarrow> pipeline_error option \<Rightarrow>
   ('w, PublishedInlineComment list) github_op" where
  \<comment> \<open>the loop over the attempts; the number is that of the attempts left, the last argument is \<open>last_error\<close>\<close>
  "fetch_created_from api token r pull_number review_id selected 0 last_error =
     (case last_error of Some e \<Rightarrow> act_raise e | None \<Rightarrow> act_return [])"
| "fetch_created_from api token r pull_number review_id selected (Suc n) last_error =
     act_bind (request_json api ''GET'' (created_comments_path r pull_number review_id) token None) (\<lambda>response.
       case response of
         JList review_comments \<Rightarrow> (case match_published_inline_comments review_id selected review_comments of
             Inr published \<Rightarrow> act_return published
           | Inl e \<Rightarrow> act_bind (if n > 0 then gh_sleep api 1 else act_return ()) (\<lambda>_.
               fetch_created_from api token r pull_number review_id selected n (Some e)))
       | _ \<Rightarrow> invalid_response ''GitHub review comments response was not a list.'')"

definition fetch_created_review_comments ::
  "'w github_api \<Rightarrow> string \<Rightarrow> string \<times> string \<Rightarrow> int \<Rightarrow> int \<Rightarrow> obj list \<Rightarrow> ('w, PublishedInlineComment list) github_op" where
  "fetch_created_review_comments api token r pull_number review_id selected =
     fetch_created_from api token r pull_number review_id selected 5 None"

definition publish_inline_review_comments ::
  "'w github_api \<Rightarrow> bool \<Rightarrow> int \<Rightarrow> string \<Rightarrow> int \<Rightarrow> string \<Rightarrow> obj list \<Rightarrow>
   ('w, int option \<times> PublishedInlineComment list \<times> bool) github_op" where
  "publish_inline_review_comments api dry_run installation_id repository_full_name pull_number head_sha comments =
     (if comments = [] then act_return (None, [], dry_run)
      else if dry_run then act_return (None, map dry_run_comment comments, True)
      else act_bind (installation_token api installation_id) (\<lambda>token.
        act_bind (gh_split repository_full_name) (\<lambda>r.
        act_bind (fetch_pull_request_review_comments api token r pull_number) (\<lambda>listed.
          case partition_existing_inline_comments comments listed of (existing_published, missing) \<Rightarrow>
            if missing = [] then act_return (None, existing_published, False)
            else act_bind (request_json api ''POST'' (reviews_path r pull_number) token (Some (review_payload head_sha missing)))
              (\<lambda>created. act_bind (created_id ''GitHub create review response did not include an id.'' created) (\<lambda>review_id.
                act_bind (fetch_created_review_comments api token r pull_number review_id missing) (\<lambda>new_published.
                  act_return (Some review_id, existing_published @ new_published, False))))))))"

section \<open>Paged listings\<close>

lemma drop_page: "100 * k \<le> length items \<Longrightarrow> take (100 * k) items @ take 100 (drop (100 * k) items) = take (100 * Suc k) items"
  by (metis add.commute mult_Suc_right take_add)

lemma page_length:
  assumes "100 * k \<le> length items"
  shows "length (take 100 (drop (100 * k) items)) < 100 \<longleftrightarrow> length items div 100 = k"
  using assms by (auto simp: min_def)

lemma page_cases:
  assumes "100 * k \<le> length items"
  obtains (last_page) "length (take 100 (drop (100 * k) items)) < 100" "length items div 100 - k = 0"
      "take (100 * k) items @ take 100 (drop (100 * k) items) = items"
  | (full_page) n where "\<not> length (take 100 (drop (100 * k) items)) < 100" "take 100 (drop (100 * k) items) \<noteq> []"
      "length items div 100 - k = Suc n" "length items div 100 - Suc k = n" "100 * Suc k \<le> length items"
      "take (100 * k) items @ take 100 (drop (100 * k) items) = take (100 * Suc k) items"
proof (cases "length (take 100 (drop (100 * k) items)) < 100")
  case True
  have "length items div 100 = k" using True page_length [OF assms] by blast
  then have "length items div 100 - k = 0" by (rule ssubst) (rule diff_self_eq_0)
  moreover have "take (100 * k) items @ take 100 (drop (100 * k) items) = items"
    unfolding drop_page [OF assms] using True by simp
  ultimately show ?thesis by (rule last_page [OF True])
next
  case False
  then have le: "100 * Suc k \<le> length items" by simp
  from div_le_mono [OF this, of 100] have "Suc k \<le> length items div 100" by simp
  then have "length items div 100 - k = Suc (length items div 100 - Suc k)" by simp
  moreover have "take 100 (drop (100 * k) items) \<noteq> []" using False by force
  ultimately show ?thesis using full_page [OF False _ _ refl le drop_page [OF assms]] by blast
qed

lemma review_comment_pages_listing:
  assumes get: "\<And>p. get (Suc p) (s p) = Some (Inr (JList (take 100 (drop (100 * p) items))), s (Suc p))"
  shows "100 * k \<le> length items \<Longrightarrow>
     review_comment_pages get (Suc k) (take (100 * k) items) (s k) = Some (Inr items, s (Suc (length items div 100)))"
proof (induction "length items div 100 - k" arbitrary: k)
  case (0 k)
  from 0(2) show ?case
  proof (cases rule: page_cases)
    case last_page
    moreover from last_page(1) have "length items div 100 = k" using page_length [OF 0(2)] by blast
    ultimately show ?thesis
      by (subst review_comment_pages.simps) (simp only: get option.case prod.case sum.case json.case if_True)
  next
    case (full_page m)
    with 0(1) show ?thesis by simp
  qed
next
  case (Suc n k)
  from Suc(3) show ?case
  proof (cases rule: page_cases)
    case last_page
    with Suc(2) show ?thesis by simp
  next
    case (full_page m)
    have "review_comment_pages get (Suc k) (take (100 * k) items) (s k) =
        review_comment_pages get (Suc (Suc k)) (take (100 * Suc k) items) (s (Suc k))"
      by (subst review_comment_pages.simps)
        (simp only: get option.case prod.case sum.case json.case full_page(1,6) if_False Suc_eq_plus1 [symmetric])
    also have "\<dots> = Some (Inr items, s (Suc (length items div 100)))" using Suc(1) [of "Suc k"] Suc(2) full_page by simp
    finally show ?thesis .
  qed
qed

lemma pull_files_pages_listing:
  assumes get: "\<And>p. get (Suc p) (s p) = Some (Inr (JList (take 100 (drop (100 * p) items))), s (Suc p))"
  shows "100 * k \<le> length items \<Longrightarrow> pull_files_pages get (Suc k) (map read_github_file (take (100 * k) items)) (s k) =
     Some (Inr (map read_github_file items), s (Suc (length items div 100)))"
proof (induction "length items div 100 - k" arbitrary: k)
  case (0 k)
  from 0(2) show ?case
  proof (cases rule: page_cases)
    case last_page
    let ?page = "take 100 (drop (100 * k) items)"
    have "map read_github_file (take (100 * k) items) @ map read_github_file ?page = map read_github_file items"
      unfolding map_append [symmetric] last_page(3) ..
    moreover have "?page = [] \<Longrightarrow> take (100 * k) items = items" using last_page(3) by simp
    moreover from last_page(1) have "length items div 100 = k" using page_length [OF 0(2)] by blast
    ultimately show ?thesis using last_page(1)
      by (subst pull_files_pages.simps)
        (cases "?page = []", simp_all only: get option.case prod.case sum.case json.case if_True if_False, simp_all)
  next
    case (full_page m)
    with 0(1) show ?thesis by simp
  qed
next
  case (Suc n k)
  from Suc(3) show ?case
  proof (cases rule: page_cases)
    case last_page
    with Suc(2) show ?thesis by simp
  next
    case (full_page m)
    have "pull_files_pages get (Suc k) (map read_github_file (take (100 * k) items)) (s k) =
        pull_files_pages get (Suc (Suc k)) (map read_github_file (take (100 * Suc k) items)) (s (Suc k))"
      by (subst pull_files_pages.simps)
        (simp only: get option.case prod.case sum.case json.case full_page(1,2) map_append [symmetric] full_page(6) if_False
          Suc_eq_plus1 [symmetric])
    also have "\<dots> = Some (Inr (map read_github_file items), s (Suc (length items div 100)))"
      using Suc(1) [of "Suc k"] Suc(2) full_page by simp
    finally show ?thesis .
  qed
qed

text \<open>C22: The two loops over pages end: when the server cuts a finite list into pages of 100, both return the whole
  list, in order, after one request more than there are full pages (the states \<open>s\<close> are those between the
  requests).\<close>

theorem paged_listings_are_fetched_completely:
  assumes "\<forall>p. get (Suc p) (s p) = Some (Inr (JList (take 100 (drop (100 * p) items))), s (Suc p))"
  shows "review_comment_pages get 1 [] (s 0) = Some (Inr items, s (Suc (length items div 100))) \<and>
     pull_files_pages get 1 [] (s 0) = Some (Inr (map read_github_file items), s (Suc (length items div 100)))"
  using review_comment_pages_listing [of get s items 0] pull_files_pages_listing [of get s items 0] assms by simp

definition sample_pages :: "nat \<Rightarrow> (nat, json) github_op" where
  \<comment> \<open>a server of 250 items that counts its requests\<close>
  "sample_pages = (\<lambda>p c. Some (Inr (JList (take 100 (drop (100 * (p - 1)) (replicate 250 JNull)))), c\<lparr>gc_world := gc_world c + 1\<rparr>))"

definition sample_client :: "nat \<Rightarrow> nat github_client" where
  "sample_client n = \<lparr>gc_tokens = Map.empty, gc_world = n\<rparr>"

theorem paged_listings_are_fetched_completely_witness:
  "review_comment_pages sample_pages 1 [] (sample_client 0) =
     Some (Inr (replicate 250 JNull), sample_client (Suc (length (replicate 250 JNull) div 100))) \<and>
   pull_files_pages sample_pages 1 [] (sample_client 0) =
     Some (Inr (map read_github_file (replicate 250 JNull)), sample_client (Suc (length (replicate 250 JNull) div 100)))"
  by (rule paged_listings_are_fetched_completely)
    (simp add: sample_pages_def sample_client_def del: take_replicate drop_replicate)

section \<open>Publishing inline comments\<close>

text \<open>
  What GitHub documents of review comments, for one pull request: \<open>view\<close> is the list of its review comments.
  Listing pages reads it, creating a review appends the comments of the payload, each with an id, reading the
  comments of a review changes nothing, and neither does waiting.
\<close>

definition serves_reviews :: "'w github_api \<Rightarrow> ('w \<Rightarrow> json list) \<Rightarrow> string \<times> string \<Rightarrow> int \<Rightarrow> bool" where
  "serves_reviews api view r n \<longleftrightarrow>
     (\<forall>p token w. ga_request api ''GET'' (review_comments_path r n (Suc p)) token None w =
        (Inr (JList (take 100 (drop (100 * p) (view w)))), w)) \<and>
     (\<forall>token head_sha missing j w w'. ga_request api ''POST'' (reviews_path r n) token (Some (review_payload head_sha missing)) w = (Inr j, w') \<longrightarrow>
        (\<exists>new. view w' = view w @ new \<and> list_all (has_id \<circ> pv_object) new \<and>
           map (existing_key \<circ> pv_object) new = map (existing_key \<circ> review_comment_payload) missing)) \<and>
     (\<forall>token i res w w'. ga_request api ''GET'' (created_comments_path r n i) token None w = (res, w') \<longrightarrow> view w' = view w) \<and>
     (\<forall>k w. view (ga_sleep api k w) = view w)"

lemma review_comment_payload_key: "existing_key (review_comment_payload s) = selected_key s"
  by (simp add: existing_key_def selected_key_def review_comment_payload_def pv_str_def pv_int_def pv_optional_int_def split: json.splits)

lemma fetch_review_comments_served:
  assumes "serves_reviews api view r n"
  shows "fetch_pull_request_review_comments api token r n c = Some (Inr (view (gc_world c)), c)"
  unfolding fetch_pull_request_review_comments_def
  using review_comment_pages_listing [of "\<lambda>page. request_json api ''GET'' (review_comments_path r n page) token None" "\<lambda>_. c"
      "view (gc_world c)" 0] assms
  by (simp add: serves_reviews_def request_json_def)

lemma fetch_created_served:
  assumes "serves_reviews api view r n"
  shows "fetch_created_from api token r n i selected k err c = Some (Inr ps, c') \<Longrightarrow> 0 < k \<or> err \<noteq> None \<Longrightarrow>
     map published_key ps = map selected_key selected \<and> view (gc_world c') = view (gc_world c) \<and> gc_tokens c' = gc_tokens c"
proof (induction k arbitrary: err c)
  case 0
  then show ?case by (auto simp: act_raise_def)
next
  case (Suc k)
  obtain res w where req: "ga_request api ''GET'' (created_comments_path r n i) token None (gc_world c) = (res, w)" by fastforce
  then have view: "view w = view (gc_world c)" using assms unfolding serves_reviews_def by blast
  from Suc.prems(1) req obtain j where j: "res = Inr j" by (auto simp: act_bind_eq_Inr request_json_def)
  with Suc.prems(1) req obtain cs where res: "res = Inr (JList cs)"
    by (cases j) (auto simp: act_bind_eq_Inr request_json_def invalid_response_def act_raise_def)
  show ?case
  proof (cases "match_published_inline_comments i selected cs")
    case (Inr published)
    with Suc.prems(1) req res view match_from_spec [where review_id = i and selected = selected and cs = "map pv_object cs"] show ?thesis
      by (auto simp: act_bind_eq_Inr request_json_def act_return_def match_published_inline_comments_def)
  next
    case (Inl e)
    obtain c1 where "fetch_created_from api token r n i selected k (Some e) c1 = Some (Inr ps, c')"
      and "view (gc_world c1) = view w" "gc_tokens c1 = gc_tokens c"
      using Suc.prems(1) req res Inl assms
      by (auto simp: act_bind_eq_Inr request_json_def act_return_def gh_sleep_def serves_reviews_def split: if_splits)
    with Suc.IH [OF this(1)] view show ?thesis by simp
  qed
qed

text \<open>Publishing when the token is cached: read all comments, then post the missing ones, if any.\<close>

lemma publish_reads:
  assumes "serves_reviews api view r n" and "split_repository_full_name name = Inr r" and "comments \<noteq> []"
    and "gc_tokens d installation_id = Some token"
  shows "publish_inline_review_comments api False installation_id name n head_sha comments d =
     (case partition_existing_inline_comments comments (view (gc_world d)) of (existing, missing) \<Rightarrow>
        (if missing = [] then act_return (None, existing, False)
         else act_bind (request_json api ''POST'' (reviews_path r n) token (Some (review_payload head_sha missing)))
            (\<lambda>created. act_bind (created_id ''GitHub create review response did not include an id.'' created) (\<lambda>review_id.
              act_bind (fetch_created_review_comments api token r n review_id missing) (\<lambda>new_published.
                act_return (Some review_id, existing @ new_published, False))))) d)"
  using assms(2,3,4) fetch_review_comments_served [OF assms(1), of token d]
  by (simp add: publish_inline_review_comments_def act_bind_def installation_token_def gh_split_def act_return_def
      split: prod.splits)

lemma partition_multisets:
  assumes "partition_existing_inline_comments comments listed = (existing, missing)"
  shows "mset (map selected_key missing) = mset (map selected_key comments) - existing_keys (map pv_object listed)"
    "mset (map published_key existing) = mset (map selected_key comments) \<inter># existing_keys (map pv_object listed)"
  using partition_from_spec [OF assms [unfolded partition_existing_inline_comments_def]] by auto

lemma review_post_appends:
  assumes github: "serves_reviews api view r n"
    and post: "request_json api ''POST'' (reviews_path r n) token (Some (review_payload head_sha missing)) c = Some (Inr created, c1)"
  shows "gc_tokens c1 = gc_tokens c \<and> (\<exists>new. view (gc_world c1) = view (gc_world c) @ new \<and>
     existing_keys (map pv_object new) = mset (map selected_key missing))"
proof -
  from post have "ga_request api ''POST'' (reviews_path r n) token (Some (review_payload head_sha missing)) (gc_world c) =
      (Inr created, gc_world c1)" and tokens: "gc_tokens c1 = gc_tokens c"
    by (auto simp: request_json_def split: prod.splits)
  then obtain new where new: "view (gc_world c1) = view (gc_world c) @ new" "list_all (has_id \<circ> pv_object) new"
    "map (existing_key \<circ> pv_object) new = map (existing_key \<circ> review_comment_payload) missing"
    using github unfolding serves_reviews_def by blast
  have "existing_keys (map pv_object new) = mset (map (existing_key \<circ> pv_object) new)"
    using new(2) by (simp add: existing_keys_def filter_map list_all_iff comp_def filter_id_conv)
  also have "\<dots> = mset (map selected_key missing)"
    unfolding new(3) by (simp add: review_comment_payload_key comp_def)
  finally show ?thesis using new(1) tokens by blast
qed

lemma publication_posts_missing:
  assumes github: "serves_reviews api view r n" and repo: "split_repository_full_name name = Inr r" and "comments \<noteq> []"
    and token: "gc_tokens c installation_id = Some token"
    and run: "publish_inline_review_comments api False installation_id name n head_sha comments c = Some (Inr (rid, ps, dry), c')"
  defines "E \<equiv> existing_keys (map pv_object (view (gc_world c)))" and "S \<equiv> mset (map selected_key comments)"
  shows "(\<exists>new. view (gc_world c') = view (gc_world c) @ new \<and> existing_keys (map pv_object new) = S - E) \<and>
     mset (map published_key ps) = S \<and> gc_tokens c' = gc_tokens c"
proof -
  obtain existing missing where part: "partition_existing_inline_comments comments (view (gc_world c)) = (existing, missing)"
    by fastforce
  note mult = partition_multisets [OF part, folded E_def S_def]
  note read = run [unfolded publish_reads [OF assms(1-4)] part]
  show ?thesis
  proof (cases "missing = []")
    case True
    with read have "c' = c" "ps = existing" by (simp_all add: act_return_def)
    moreover from True mult(1) have "S - E = {#}" by simp
    ultimately show ?thesis using mult(2) by (simp add: existing_keys_def Diff_eq_empty_iff_mset subset_mset.inf.absorb1)
  next
    case False
    with read obtain created c1 c2 i news where
      post: "request_json api ''POST'' (reviews_path r n) token (Some (review_payload head_sha missing)) c = Some (Inr created, c1)"
      and id: "created_id ''GitHub create review response did not include an id.'' created c1 = Some (Inr i, c2)"
      and fetch: "fetch_created_review_comments api token r n i missing c2 = Some (Inr news, c')" and ps: "ps = existing @ news"
      by (auto simp: act_bind_eq_Inr act_return_def)
    from id have "c2 = c1"
      by (auto simp: created_id_def act_return_def invalid_response_def act_raise_def split: json.splits option.splits)
    with fetch_created_served [OF github fetch [unfolded fetch_created_review_comments_def]]
    have "map published_key news = map selected_key missing" "view (gc_world c') = view (gc_world c1)" "gc_tokens c' = gc_tokens c1"
      by simp_all
    moreover have "S \<inter># E + (S - E) = S" by (rule multiset_eqI) simp
    ultimately show ?thesis using review_post_appends [OF github post] ps mult by simp
  qed
qed

text \<open>C7: Publishing inline comments brings GitHub exactly to the selected comments, whatever it held before: when it
  succeeds, the comments appended to the pull request are the selected ones less those already there, every
  selected comment is reported, and publishing the same comments again only reads: it posts nothing, changes
  nothing and reports them all.\<close>

theorem inline_publication_is_idempotent:
  assumes github: "serves_reviews api view r n" and repo: "split_repository_full_name name = Inr r"
    and token: "gc_tokens c installation_id = Some token"
    and run: "publish_inline_review_comments api False installation_id name n head_sha comments c = Some (Inr (rid, ps, dry), c')"
  shows "(\<exists>new. view (gc_world c') = view (gc_world c) @ new \<and>
       existing_keys (map pv_object new) = mset (map selected_key comments) - existing_keys (map pv_object (view (gc_world c)))) \<and>
     mset (map published_key ps) = mset (map selected_key comments) \<and>
     (\<exists>ps'. publish_inline_review_comments api False installation_id name n head_sha comments c' = Some (Inr (None, ps', False), c') \<and>
        mset (map published_key ps') = mset (map selected_key comments))"
proof (cases "comments = []")
  case True
  with run show ?thesis by (simp add: publish_inline_review_comments_def act_return_def existing_keys_def)
next
  case False
  let ?E = "existing_keys (map pv_object (view (gc_world c)))" and ?S = "mset (map selected_key comments)"
  note posted = publication_posts_missing [OF github repo False token run]
  obtain existing missing where part: "partition_existing_inline_comments comments (view (gc_world c')) = (existing, missing)"
    by fastforce
  from posted have "existing_keys (map pv_object (view (gc_world c'))) = ?E + (?S - ?E)" by (auto simp: existing_keys_def)
  moreover have "?S \<subseteq># ?E + (?S - ?E)" unfolding subseteq_mset_def count_union count_diff by (intro allI) arith
  ultimately have "mset (map selected_key missing) = {#}" "mset (map published_key existing) = ?S"
    using partition_multisets [OF part] by (simp_all add: subset_mset.inf.absorb1 Diff_eq_empty_iff_mset)
  then have "publish_inline_review_comments api False installation_id name n head_sha comments c' = Some (Inr (None, existing, False), c')"
    "mset (map published_key existing) = ?S"
    using publish_reads [OF github repo False, of c'] posted token part by (auto simp: act_return_def)
  with posted show ?thesis by blast
qed

text \<open>A server that behaves so: it keeps the comments it is sent, each with id 1, and cuts them into pages.\<close>

definition sample_prefix :: "string \<times> string \<Rightarrow> int \<Rightarrow> string" where
  "sample_prefix r n = repo_path r @ ''/pulls/'' @ str_of_int n @ ''/comments?per_page=100&page=''"

lemma review_comments_path_prefix: "review_comments_path r n p = sample_prefix r n @ str_of_nat p"
  by (simp add: review_comments_path_def sample_prefix_def)

definition sample_reviews :: "string \<times> string \<Rightarrow> int \<Rightarrow> json list github_api" where
  "sample_reviews r n = \<lparr>
     ga_request = (\<lambda>meth path bearer body w.
       if meth = ''POST'' then
         (case body of
            Some (JObj v) \<Rightarrow> (Inr (JObj [(''id'', JInt 7)]),
              w @ map (\<lambda>c. JObj ((''id'', JInt 1) # pv_object c)) (pv_list (obj_get v ''comments'')))
          | _ \<Rightarrow> (Inr JNull, w))
       else
         (if take (length (sample_prefix r n)) path = sample_prefix r n
          then (Inr (JList (take 100 (drop (100 * (nat (int_of_digits (drop (length (sample_prefix r n)) path)) - 1)) w))), w)
          else (Inr (JList w), w))),
     ga_sleep = (\<lambda>_ w. w), ga_jwt = (\<lambda>_. ''jwt'') \<rparr>"

lemma sample_reviews_serves: "serves_reviews (sample_reviews r n) (\<lambda>w. w) r n"
  unfolding serves_reviews_def
proof (intro conjI allI impI)
  fix p token w
  show "ga_request (sample_reviews r n) ''GET'' (review_comments_path r n (Suc p)) token None w =
      (Inr (JList (take 100 (drop (100 * p) w))), w)"
    using str_of_nat_digits [of "Suc p"] nat_int [of "Suc p"]
    by (simp add: sample_reviews_def review_comments_path_prefix del: nat_int)
next
  fix token head_sha missing j w w'
  assume "ga_request (sample_reviews r n) ''POST'' (reviews_path r n) token (Some (review_payload head_sha missing)) w = (Inr j, w')"
  then have w': "w' = w @ map (\<lambda>c. JObj ((''id'', JInt 1) # review_comment_payload c)) missing"
    by (auto simp: sample_reviews_def review_payload_def pv_list_def pv_object_def)
  show "\<exists>new. w' = w @ new \<and> list_all (has_id \<circ> pv_object) new \<and>
      map (existing_key \<circ> pv_object) new = map (existing_key \<circ> review_comment_payload) missing"
    by (rule exI [of _ "map (\<lambda>c. JObj ((''id'', JInt 1) # review_comment_payload c)) missing"])
      (auto simp: w' has_id_def pv_object_def pv_optional_int_def existing_key_def list_all_iff)
qed (auto simp: sample_reviews_def split: if_splits)

definition sample_comment :: obj where
  "sample_comment = [(''findingId'', JStr ''f''), (''path'', JStr ''a''), (''line'', JInt 1), (''body'', JStr ''b'')]"

definition sample_review_client :: "json list github_client" where
  "sample_review_client = \<lparr>gc_tokens = [1 \<mapsto> ''t''], gc_world = []\<rparr>"

theorem inline_publication_is_idempotent_witness:
  "\<exists>rid ps dry c'. publish_inline_review_comments (sample_reviews (''o'', ''n'') 2) False 1 ''o/n'' 2 ''h'' [sample_comment] sample_review_client =
       Some (Inr (rid, ps, dry), c') \<and>
     (\<exists>new. gc_world c' = [] @ new \<and> existing_keys (map pv_object new) = {#(''b'', ''a'', 1)#})"
proof -
  let ?run = "publish_inline_review_comments (sample_reviews (''o'', ''n'') 2) False 1 ''o/n'' 2 ''h'' [sample_comment] sample_review_client"
  have repo: "split_repository_full_name ''o/n'' = Inr (''o'', ''n'')" by code_simp
  have token: "gc_tokens sample_review_client 1 = Some ''t''" by (simp add: sample_review_client_def)
  have part: "partition_existing_inline_comments [sample_comment] (gc_world sample_review_client) = ([], [sample_comment])"
    by (simp add: partition_existing_inline_comments_def sample_review_client_def)
  have path: "take (length (sample_prefix (''o'', ''n'') 2)) (created_comments_path (''o'', ''n'') 2 7) \<noteq> sample_prefix (''o'', ''n'') 2"
    by code_simp
  have "\<exists>rid ps dry c'. ?run = Some (Inr (rid, ps, dry), c')"
    unfolding publish_reads [OF sample_reviews_serves repo _ token, of "[sample_comment]", simplified] part
    by (simp add: act_bind_def request_json_def sample_reviews_def review_payload_def pv_list_def created_id_def act_return_def
        fetch_created_review_comments_def eval_nat_numeral path pv_optional_int_def pv_object_def review_comment_payload_def
        sample_comment_def match_published_inline_comments_def comment_matches_def selected_key_def pv_str_def pv_int_def
        sample_review_client_def) (rule exI [of _ False], simp)
  then obtain rid ps dry c' where run: "?run = Some (Inr (rid, ps, dry), c')" by blast
  have "mset (map selected_key [sample_comment]) - existing_keys (map pv_object (gc_world sample_review_client)) = {#(''b'', ''a'', 1)#}"
    by (simp add: sample_comment_def selected_key_def pv_str_def pv_int_def pv_optional_int_def sample_review_client_def existing_keys_def)
  with inline_publication_is_idempotent [OF sample_reviews_serves repo token run] run show ?thesis
    by (auto simp: sample_review_client_def)
qed

section \<open>Publishing the summary\<close>

text \<open>
  What GitHub documents of the comments of an issue or pull request: \<open>view\<close> lists ids and texts, oldest first;
  without a page number a listing holds the first 100, PATCH replaces a text, POST appends a comment with a new id.
\<close>

definition comment_json :: "int \<times> string \<Rightarrow> json" where
  "comment_json c = JObj [(''id'', JInt (fst c)), (''body'', JStr (snd c))]"

definition edit_comment :: "int \<Rightarrow> string \<Rightarrow> (int \<times> string) list \<Rightarrow> (int \<times> string) list" where
  "edit_comment i body = map (\<lambda>(k, t). (k, if k = i then body else t))"

definition serves_issue_comments :: "'w github_api \<Rightarrow> ('w \<Rightarrow> (int \<times> string) list) \<Rightarrow> string \<times> string \<Rightarrow> int \<Rightarrow> bool" where
  "serves_issue_comments api view r n \<longleftrightarrow>
     (\<forall>w. distinct (map fst (view w))) \<and>
     (\<forall>token w. ga_request api ''GET'' (issue_comments_path r n @ ''?per_page=100'') token None w =
        (Inr (JList (map comment_json (take 100 (view w)))), w)) \<and>
     (\<forall>token i body w. i \<in> fst ` set (view w) \<longrightarrow>
        (\<exists>j w'. ga_request api ''PATCH'' (repo_path r @ ''/issues/comments/'' @ str_of_int i) token (Some (JObj [(''body'', JStr body)])) w = (Inr j, w') \<and>
           view w' = edit_comment i body (view w))) \<and>
     (\<forall>token body w. \<exists>i w'. i \<notin> fst ` set (view w) \<and> view w' = view w @ [(i, body)] \<and>
        ga_request api ''POST'' (issue_comments_path r n) token (Some (JObj [(''body'', JStr body)])) w = (Inr (comment_json (i, body)), w'))"

lemma first_marked_find: "first_marked marker (map comment_json cs) = map_option fst (find (\<lambda>c. contains_str marker (snd c)) cs)"
  by (induction cs) (auto simp: marked_comment_id_def comment_json_def pv_optional_int_def)

lemma find_in: "find P xs = Some x \<Longrightarrow> x \<in> set xs \<and> P x"
  by (induction xs) (auto split: if_splits)

lemma find_none_append: "find P xs = None \<Longrightarrow> find P (xs @ ys) = find P ys"
  by (induction xs) (auto split: if_splits)

lemma find_edited:
  "distinct (map fst cs) \<Longrightarrow> find (\<lambda>c. P (snd c)) cs = Some (i, b) \<Longrightarrow> P body \<Longrightarrow>
     find (\<lambda>c. P (snd c)) (edit_comment i body cs) = Some (i, body)"
proof (induction cs)
  case (Cons a cs)
  show ?case
  proof (cases "P (snd a)")
    case True
    with Cons.prems show ?thesis by (simp add: edit_comment_def)
  next
    case False
    with Cons.prems have rest: "find (\<lambda>c. P (snd c)) cs = Some (i, b)" by simp
    from find_in [OF rest] have "i \<in> fst ` set cs" by force
    with Cons.prems(1) have "fst a \<noteq> i" by auto
    with Cons.IH rest Cons.prems False show ?thesis by (cases a) (simp add: edit_comment_def)
  qed
qed simp

lemma upsert_effect:
  assumes github: "serves_issue_comments api view r n" and "split_repository_full_name name = Inr r"
    and "gc_tokens c installation_id = Some token"
  shows "\<exists>i c'. upsert_activity_comment marker api False installation_id name n body c = Some (Inr (Some i, False), c') \<and>
     gc_tokens c' = gc_tokens c \<and>
     (case find (\<lambda>c. contains_str marker (snd c)) (take 100 (view (gc_world c))) of
        Some (j, _) \<Rightarrow> i = j \<and> view (gc_world c') = edit_comment i body (view (gc_world c))
      | None \<Rightarrow> i \<notin> fst ` set (view (gc_world c)) \<and> view (gc_world c') = view (gc_world c) @ [(i, body)])"
proof (cases "find (\<lambda>c. contains_str marker (snd c)) (take 100 (view (gc_world c)))")
  case None
  obtain i w' where "i \<notin> fst ` set (view (gc_world c))" "view w' = view (gc_world c) @ [(i, body)]"
    "ga_request api ''POST'' (issue_comments_path r n) token (Some (JObj [(''body'', JStr body)])) (gc_world c) = (Inr (comment_json (i, body)), w')"
    using github unfolding serves_issue_comments_def by metis
  with None assms show ?thesis
    by (auto simp: upsert_activity_comment_def act_bind_def installation_token_def gh_split_def act_return_def request_json_def
        serves_issue_comments_def first_marked_find created_id_def pv_optional_int_def comment_json_def)
next
  case (Some jb)
  obtain j b where jb: "jb = (j, b)" by (cases jb)
  with Some have "j \<in> fst ` set (view (gc_world c))"
    by (force dest: find_in in_set_takeD)
  then obtain resp w' where "view w' = edit_comment j body (view (gc_world c))"
    "ga_request api ''PATCH'' (repo_path r @ ''/issues/comments/'' @ str_of_int j) token (Some (JObj [(''body'', JStr body)])) (gc_world c) = (Inr resp, w')"
    using github unfolding serves_issue_comments_def by metis
  with Some jb assms show ?thesis
    by (auto simp: upsert_activity_comment_def act_bind_def installation_token_def gh_split_def act_return_def request_json_def
        serves_issue_comments_def first_marked_find)
qed

text \<open>The summary of a pull request with fewer than 100 comments is one comment: publishing two summaries in a row
  (each carries the marker) edits in the second publication the comment of the first, so no comment is added
  and its text is the second summary.\<close>

theorem summary_comment_is_edited_in_place:
  assumes github: "serves_issue_comments api view r n" and repo: "split_repository_full_name name = Inr r"
    and token: "gc_tokens c installation_id = Some token" and short: "length (view (gc_world c)) < 100"
    and marked: "contains_str FIRMCODEAI_SUMMARY_COMMENT_MARKER body1" "contains_str FIRMCODEAI_SUMMARY_COMMENT_MARKER body2"
  shows "\<exists>i c1 c2. publish_summary_comment api False installation_id name n body1 c = Some (Inr (Some i, False), c1) \<and>
     publish_summary_comment api False installation_id name n body2 c1 = Some (Inr (Some i, False), c2) \<and>
     view (gc_world c2) = edit_comment i body2 (view (gc_world c1)) \<and> (i, body2) \<in> set (view (gc_world c2))"
proof -
  let ?m = "FIRMCODEAI_SUMMARY_COMMENT_MARKER" let ?P = "\<lambda>c. contains_str ?m (snd c)"
  have all: "take 100 (view (gc_world c)) = view (gc_world c)" using short by simp
  have distinct: "distinct (map fst (view w))" for w using github by (simp add: serves_issue_comments_def)
  from upsert_effect [OF github repo token, of ?m body1] obtain i c1 where
    run: "publish_summary_comment api False installation_id name n body1 c = Some (Inr (Some i, False), c1)"
    and tokens: "gc_tokens c1 = gc_tokens c"
    and effect: "case find ?P (view (gc_world c)) of
        Some (j, _) \<Rightarrow> i = j \<and> view (gc_world c1) = edit_comment i body1 (view (gc_world c))
      | None \<Rightarrow> i \<notin> fst ` set (view (gc_world c)) \<and> view (gc_world c1) = view (gc_world c) @ [(i, body1)]"
    unfolding publish_summary_comment_def all by blast
  have found: "find ?P (view (gc_world c1)) = Some (i, body1) \<and> length (view (gc_world c1)) \<le> 100"
  proof (cases "find ?P (view (gc_world c))")
    case None
    then have "find ?P (view (gc_world c) @ [(i, body1)]) = Some (i, body1)"
      using marked(1) find_none_append [OF None, of "[(i, body1)]"] by simp
    with None effect short show ?thesis by simp
  next
    case (Some jb)
    with effect obtain b where "find ?P (view (gc_world c)) = Some (i, b)" by (cases jb) auto
    from find_edited [OF distinct this, of body1] marked(1) Some effect short show ?thesis
      by (auto simp: edit_comment_def)
  qed
  from upsert_effect [OF github repo, of c1 installation_id token ?m body2] tokens token found obtain c2 where
    "publish_summary_comment api False installation_id name n body2 c1 = Some (Inr (Some i, False), c2)"
    and c2: "view (gc_world c2) = edit_comment i body2 (view (gc_world c1))"
    unfolding publish_summary_comment_def by (auto split: prod.splits)
  moreover have "(i, body1) \<in> set (view (gc_world c1))" using found by (auto dest: find_in)
  then have "(i, body2) \<in> set (view (gc_world c2))" unfolding c2 edit_comment_def by force
  ultimately show ?thesis using run by blast
qed

text \<open>Beyond 100 comments the summary is posted again and again: when a pull request has at least 100 comments
  and none of the first 100 carries the marker, each of two publications in a row appends a new comment,
  whatever their texts.\<close>

theorem summary_comment_repeats_beyond_first_page:
  assumes github: "serves_issue_comments api view r n" and repo: "split_repository_full_name name = Inr r"
    and token: "gc_tokens c installation_id = Some token" and long: "100 \<le> length (view (gc_world c))"
    and unmarked: "\<forall>x \<in> set (take 100 (view (gc_world c))). \<not> contains_str FIRMCODEAI_SUMMARY_COMMENT_MARKER (snd x)"
  shows "\<exists>i j c1 c2. publish_summary_comment api False installation_id name n body1 c = Some (Inr (Some i, False), c1) \<and>
     publish_summary_comment api False installation_id name n body2 c1 = Some (Inr (Some j, False), c2) \<and>
     i \<noteq> j \<and> view (gc_world c2) = view (gc_world c) @ [(i, body1), (j, body2)]"
proof -
  let ?m = "FIRMCODEAI_SUMMARY_COMMENT_MARKER"
  have none: "find (\<lambda>c. contains_str ?m (snd c)) (take 100 (view (gc_world c))) = None"
    using unmarked by (auto simp: find_None_iff)
  with upsert_effect [OF github repo token, of ?m body1] obtain i c1 where
    run: "publish_summary_comment api False installation_id name n body1 c = Some (Inr (Some i, False), c1)"
    and tokens: "gc_tokens c1 = gc_tokens c" and c1: "view (gc_world c1) = view (gc_world c) @ [(i, body1)]"
    unfolding publish_summary_comment_def by auto
  from long c1 none have "find (\<lambda>c. contains_str ?m (snd c)) (take 100 (view (gc_world c1))) = None" by simp
  with upsert_effect [OF github repo, of c1 installation_id token ?m body2] tokens token obtain j c2 where
    "publish_summary_comment api False installation_id name n body2 c1 = Some (Inr (Some j, False), c2)"
    "j \<notin> fst ` set (view (gc_world c1))" "view (gc_world c2) = view (gc_world c1) @ [(j, body2)]"
    unfolding publish_summary_comment_def by auto
  with run c1 show ?thesis by auto
qed

text \<open>A server that behaves so: its comments are texts, numbered from 0.\<close>

definition numbered_texts :: "string list \<Rightarrow> (int \<times> string) list" where
  "numbered_texts w = map (\<lambda>k. (int k, w ! k)) [0..<length w]"

definition sample_issue :: "string \<times> string \<Rightarrow> string list github_api" where
  "sample_issue r = \<lparr>
     ga_request = (\<lambda>meth path bearer body w.
       let text = (case body of Some (JObj v) \<Rightarrow> pv_str (obj_get v ''body'') [] | _ \<Rightarrow> [])
       in if meth = ''POST'' then (Inr (comment_json (int (length w), text)), w @ [text])
          else if meth = ''PATCH'' then (Inr JNull, w[nat (int_of_digits (drop (length (repo_path r @ ''/issues/comments/'')) path)) := text])
          else (Inr (JList (map comment_json (take 100 (numbered_texts w)))), w)),
     ga_sleep = (\<lambda>_ w. w), ga_jwt = (\<lambda>_. ''jwt'') \<rparr>"

lemma numbered_texts_update: "k < length w \<Longrightarrow> numbered_texts (w[k := t]) = edit_comment (int k) t (numbered_texts w)"
  by (simp add: numbered_texts_def edit_comment_def nth_list_update)

lemma sample_issue_serves: "serves_issue_comments (sample_issue r) numbered_texts r n"
  unfolding serves_issue_comments_def
proof (intro conjI allI impI)
  fix w
  show "distinct (map fst (numbered_texts w))" by (simp add: numbered_texts_def distinct_map inj_on_def comp_def)
next
  fix token w
  show "ga_request (sample_issue r) ''GET'' (issue_comments_path r n @ ''?per_page=100'') token None w =
      (Inr (JList (map comment_json (take 100 (numbered_texts w)))), w)" by (simp add: sample_issue_def)
next
  fix token i body w
  assume "i \<in> fst ` set (numbered_texts w)"
  then obtain k where k: "i = int k" "k < length w" by (auto simp: numbered_texts_def)
  let ?t = "pv_str (JStr body) []"
  have "?t = body" by (simp add: pv_str_def)
  then show "\<exists>j w'. ga_request (sample_issue r) ''PATCH'' (repo_path r @ ''/issues/comments/'' @ str_of_int i) token
      (Some (JObj [(''body'', JStr body)])) w = (Inr j, w') \<and> numbered_texts w' = edit_comment i body (numbered_texts w)"
    using k str_of_int_digits(3) [of "int k"] by (simp add: sample_issue_def Let_def numbered_texts_update)
next
  fix token body w
  have "pv_str (JStr body) [] = body" by (simp add: pv_str_def)
  then show "\<exists>i w'. i \<notin> fst ` set (numbered_texts w) \<and> numbered_texts w' = numbered_texts w @ [(i, body)] \<and>
      ga_request (sample_issue r) ''POST'' (issue_comments_path r n) token (Some (JObj [(''body'', JStr body)])) w = (Inr (comment_json (i, body)), w')"
    by (intro exI [of _ "int (length w)"] exI [of _ "w @ [body]"]) (auto simp: sample_issue_def numbered_texts_def Let_def nth_append)
qed

definition sample_issue_client :: "string list \<Rightarrow> string list github_client" where
  "sample_issue_client w = \<lparr>gc_tokens = [1 \<mapsto> ''t''], gc_world = w\<rparr>"

lemma sample_issue_setup:
  "split_repository_full_name ''o/n'' = Inr (''o'', ''n'')" "gc_tokens (sample_issue_client w) 1 = Some ''t''"
  "gc_world (sample_issue_client w) = w"
  by code_simp (simp_all add: sample_issue_client_def)

theorem summary_comment_is_edited_in_place_witness:
  "\<exists>i c1 c2. publish_summary_comment (sample_issue (''o'', ''n'')) False 1 ''o/n'' 2 FIRMCODEAI_SUMMARY_COMMENT_MARKER (sample_issue_client []) =
       Some (Inr (Some i, False), c1) \<and>
     publish_summary_comment (sample_issue (''o'', ''n'')) False 1 ''o/n'' 2 (FIRMCODEAI_SUMMARY_COMMENT_MARKER @ ''2'') c1 =
       Some (Inr (Some i, False), c2) \<and>
     numbered_texts (gc_world c2) = edit_comment i (FIRMCODEAI_SUMMARY_COMMENT_MARKER @ ''2'') (numbered_texts (gc_world c1)) \<and>
     (i, FIRMCODEAI_SUMMARY_COMMENT_MARKER @ ''2'') \<in> set (numbered_texts (gc_world c2))"
  by (rule summary_comment_is_edited_in_place [OF sample_issue_serves sample_issue_setup(1,2)])
    (auto simp: sample_issue_setup(3) numbered_texts_def contains_str_iff intro: exI [of _ "[]"])

theorem summary_comment_repeats_beyond_first_page_witness:
  "\<exists>i j c1 c2. publish_summary_comment (sample_issue (''o'', ''n'')) False 1 ''o/n'' 2 ''x'' (sample_issue_client (replicate 100 [])) =
       Some (Inr (Some i, False), c1) \<and>
     publish_summary_comment (sample_issue (''o'', ''n'')) False 1 ''o/n'' 2 ''y'' c1 = Some (Inr (Some j, False), c2) \<and>
     i \<noteq> j \<and> numbered_texts (gc_world c2) = numbered_texts (gc_world (sample_issue_client (replicate 100 []))) @ [(i, ''x''), (j, ''y'')]"
  by (rule summary_comment_repeats_beyond_first_page [OF sample_issue_serves sample_issue_setup(1,2)])
    (auto simp: sample_issue_setup(3) numbered_texts_def contains_str_iff FIRMCODEAI_SUMMARY_COMMENT_MARKER_def
      dest!: in_set_takeD)

end
