(* ===== verification/PyFnmatch.thy ===== *)
theory PyFnmatch
  imports PyPath
begin

text \<open>
  \<open>fnmatch.fnmatchcase\<close>: shell patterns, where an asterisk stands for any text (slashes included), a question
  mark for any character and a bracket for a set of characters. A bracket whose empty ranges (high to
  low) precede an exclamation mark is not distinguished from one that starts with it.
\<close>

section \<open>Patterns\<close>

datatype class_item = OneChar char | CharRange char char

datatype glob_token =
    GlobStar
  | GlobAny
  | GlobLit char
  | GlobSet bool "class_item list"     \<comment> \<open>the flag says the set is complemented\<close>

fun class_items :: "string \<Rightarrow> class_item list" where
  "class_items [] = []"
| "class_items [a] = [OneChar a]"
| "class_items [a, b] = [OneChar a, OneChar b]"
| "class_items (a # b # c # cs) =
     (if b = CHR ''-'' then CharRange a c # class_items cs else OneChar a # class_items (b # c # cs))"

definition split_bracket :: "string \<Rightarrow> (string \<times> string) option" where
  \<comment> \<open>after an opening bracket: the text up to the closing one, and the rest. A bracket that closes at
      once, or right after an exclamation mark, belongs to the set\<close>
  "split_bracket s =
     (let skip = (case s of
            [] \<Rightarrow> 0
          | c # cs \<Rightarrow> if c = CHR ''!'' then (case cs of [] \<Rightarrow> 1 | d # _ \<Rightarrow> if d = CHR '']'' then 2 else 1)
                      else if c = CHR '']'' then 1 else 0);
          body = takeWhile (\<lambda>c. c \<noteq> CHR '']'') (drop skip s)
      in if skip + length body < length s
         then Some (take skip s @ body, drop (skip + length body + 1) s) else None)"

lemma split_bracket_shorter: "split_bracket s = Some (set_text, rest) \<Longrightarrow> length rest < length s"
  by (auto simp: split_bracket_def Let_def split: if_splits)

function glob_tokens :: "string \<Rightarrow> glob_token list" where
  "glob_tokens [] = []"
| "glob_tokens (c # cs) =
     (if c = CHR ''*'' then GlobStar # glob_tokens cs
      else if c = CHR ''?'' then GlobAny # glob_tokens cs
      else if c = CHR ''['' then
        (case split_bracket cs of
           None \<Rightarrow> GlobLit c # glob_tokens cs
         | Some (set_text, rest) \<Rightarrow>
             (if starts_with ''!'' set_text then GlobSet True (class_items (tl set_text))
              else GlobSet False (class_items set_text)) # glob_tokens rest)
      else GlobLit c # glob_tokens cs)"
  by pat_completeness auto
termination
  by (relation "measure length") (auto dest: split_bracket_shorter)

fun item_matches :: "char \<Rightarrow> class_item \<Rightarrow> bool" where
  "item_matches c (OneChar a) = (c = a)"
| "item_matches c (CharRange a b) = (a \<le> c \<and> c \<le> b)"

fun token_matches :: "glob_token \<Rightarrow> char \<Rightarrow> bool" where
  "token_matches GlobStar c = True"
| "token_matches GlobAny c = True"
| "token_matches (GlobLit a) c = (c = a)"
| "token_matches (GlobSet neg items) c = (list_ex (item_matches c) items \<noteq> neg)"

fun glob_match :: "glob_token list \<Rightarrow> string \<Rightarrow> bool" where
  "glob_match [] s = (s = [])"
| "glob_match (GlobStar # ts) [] = glob_match ts []"
| "glob_match (GlobStar # ts) (c # cs) = (glob_match ts (c # cs) \<or> glob_match (GlobStar # ts) cs)"
| "glob_match (t # ts) [] = False"
| "glob_match (t # ts) (c # cs) = (token_matches t c \<and> glob_match ts cs)"

definition fnmatchcase :: "string \<Rightarrow> string \<Rightarrow> bool" where
  "fnmatchcase name pat = glob_match (glob_tokens pat) name"

section \<open>What patterns of literals and asterisks match\<close>

lemma glob_match_Star: "glob_match (GlobStar # ts) s \<longleftrightarrow> (\<exists>u v. s = u @ v \<and> glob_match ts v)"
proof (induction s)
  case (Cons c cs)
  show ?case
  proof
    assume "glob_match (GlobStar # ts) (c # cs)"
    then consider "glob_match ts (c # cs)" | "glob_match (GlobStar # ts) cs" by auto
    then show "\<exists>u v. c # cs = u @ v \<and> glob_match ts v"
    proof cases
      case 1
      then show ?thesis by (metis append_Nil)
    next
      case 2
      then show ?thesis using Cons.IH by (metis append_Cons)
    qed
  next
    assume "\<exists>u v. c # cs = u @ v \<and> glob_match ts v"
    then obtain u v where uv: "c # cs = u @ v" "glob_match ts v" by blast
    then show "glob_match (GlobStar # ts) (c # cs)"
      using Cons.IH by (cases u) auto
  qed
qed simp

lemma glob_match_Star_end [simp]: "glob_match [GlobStar] s"
  by (simp add: glob_match_Star)

lemma glob_match_lits: "glob_match (map GlobLit p @ ts) s \<longleftrightarrow> (\<exists>v. s = p @ v \<and> glob_match ts v)"
proof (induction p arbitrary: s)
  case (Cons a p)
  then show ?case by (cases s) auto
qed simp

definition plain_text :: "string \<Rightarrow> bool" where
  \<comment> \<open>no character with a meaning in patterns\<close>
  "plain_text p \<longleftrightarrow> list_all (\<lambda>c. c \<notin> set ''*?['') p"

lemma glob_tokens_plain: "plain_text p \<Longrightarrow> glob_tokens (p @ q) = map GlobLit p @ glob_tokens q"
  by (induction p) (auto simp: plain_text_def)

lemma fnmatch_prefix: "plain_text p \<Longrightarrow> fnmatchcase s (p @ ''*'') \<longleftrightarrow> starts_with p s"
  by (auto simp: fnmatchcase_def glob_tokens_plain glob_match_lits starts_with_iff)

lemma fnmatch_infix: "plain_text p \<Longrightarrow> fnmatchcase s (CHR ''*'' # p @ ''*'') \<longleftrightarrow> contains_str p s"
  by (auto simp: fnmatchcase_def glob_tokens_plain glob_match_Star glob_match_lits contains_str_iff)

lemma fnmatch_suffix: "plain_text p \<Longrightarrow> fnmatchcase s (CHR ''*'' # p) \<longleftrightarrow> (\<exists>u. s = u @ p)"
  using glob_tokens_plain [of p "[]"] glob_match_lits [of p "[]"]
  by (auto simp: fnmatchcase_def glob_match_Star)

section \<open>Directory patterns\<close>

lemma split_char_append_sep: "split_char c (u @ c # v) = split_char c u @ split_char c v"
proof (induction u)
  case (Cons x u)
  obtain p ps where "split_char c u = p # ps" by (cases "split_char c u") auto
  with Cons.IH show ?case by simp
qed simp

lemma split_char_single: "c \<notin> set p \<Longrightarrow> split_char c p = [p]"
  by (induction p) auto

lemma join_append: "xs \<noteq> [] \<Longrightarrow> ys \<noteq> [] \<Longrightarrow> join sep (xs @ ys) = join sep xs @ sep @ join sep ys"
proof (induction sep xs rule: join.induct)
  case (2 sep x)
  then show ?case by (cases ys) auto
qed auto

lemma in_set_butlast_split: "d \<in> set (butlast xs) \<longleftrightarrow> (\<exists>as bs. xs = as @ d # bs \<and> bs \<noteq> [])"
proof
  assume "d \<in> set (butlast xs)"
  then obtain as bs where eq: "butlast xs = as @ d # bs" by (auto simp: in_set_conv_decomp)
  then have "xs \<noteq> []" by auto
  with eq have "xs = as @ d # (bs @ [last xs])" by (metis append.assoc append_Cons append_butlast_last_id)
  then show "\<exists>as bs. xs = as @ d # bs \<and> bs \<noteq> []" by blast
qed (auto simp: butlast_append)

text \<open>A name is that of a directory of the path exactly when the two patterns for it say so.\<close>

lemma path_directory_iff:
  assumes "c \<notin> set d"
  shows "d \<in> set (butlast (split_char c s)) \<longleftrightarrow> starts_with (d @ [c]) s \<or> contains_str (c # d @ [c]) s"
proof
  assume "d \<in> set (butlast (split_char c s))"
  then obtain as bs where parts: "split_char c s = as @ d # bs" and bs: "bs \<noteq> []"
    by (auto simp: in_set_butlast_split)
  then have rest: "join [c] (d # bs) = d @ c # join [c] bs" using join_append [of "[d]" bs "[c]"] by simp
  have s: "s = join [c] (as @ d # bs)" by (metis join_split_char parts)
  show "starts_with (d @ [c]) s \<or> contains_str (c # d @ [c]) s"
  proof (cases "as = []")
    case True
    with s rest show ?thesis by (simp add: starts_with_iff)
  next
    case False
    with s rest have "s = join [c] as @ (c # d @ [c]) @ join [c] bs" by (simp add: join_append)
    then show ?thesis by (metis contains_str_iff)
  qed
next
  assume "starts_with (d @ [c]) s \<or> contains_str (c # d @ [c]) s"
  then consider t where "s = d @ c # t" | u v where "s = u @ c # d @ c # v"
    by (auto simp: starts_with_iff contains_str_iff)
  then show "d \<in> set (butlast (split_char c s))"
    by cases (auto simp: split_char_append_sep split_char_single [OF assms] butlast_append)
qed

lemma fnmatch_directory:
  assumes "plain_text d" and "CHR ''/'' \<notin> set d"
  shows "fnmatchcase s (d @ ''/*'') \<or> fnmatchcase s (''*/'' @ d @ ''/*'') \<longleftrightarrow>
     d \<in> set (butlast (split_char (CHR ''/'') s))"
proof -
  from assms(1) have "plain_text (d @ ''/'')" "plain_text (''/'' @ d @ ''/'')" by (auto simp: plain_text_def)
  from fnmatch_prefix [OF this(1), of s] fnmatch_infix [OF this(2), of s] show ?thesis
    using path_directory_iff [OF assms(2), of s] by simp
qed

end
