(* ===== verification/ScanTables.thy ===== *)
theory ScanTables
  imports ContractsScan ContractsJobs
begin

text \<open>
  The tables of codebase scans: \<open>github_installations\<close>, \<open>repositories\<close>, \<open>codebase_scan_runs\<close> and
  \<open>codebase_scan_findings\<close>, as lists of rows with the constraints of the schema (the API's migration 008) and, for
  findings, whose lines and texts come from the repository that is scanned, the limits of the columns' types.
  A statement that would break one changes nothing and raises. Times are integers. The references of runs and findings to their
  repository and the server's own limits (the size of an index entry) are not modelled.
\<close>

section \<open>Exceptions\<close>

record worker_exception =
  we_class :: string
  we_text :: string                     \<comment> \<open>\<open>str(error)\<close>\<close>
  we_error_code :: "string option"      \<comment> \<open>the attribute, when it is a text\<close>

definition constraint_violation :: "string \<Rightarrow> worker_exception" where
  "constraint_violation message = \<lparr> we_class = ''IntegrityError'', we_text = message, we_error_code = None \<rparr>"

definition data_error :: "string \<Rightarrow> worker_exception" where
  \<comment> \<open>a value that its column cannot hold\<close>
  "data_error message = \<lparr> we_class = ''DataError'', we_text = message, we_error_code = None \<rparr>"

definition coalesce :: "'a option \<Rightarrow> 'a \<Rightarrow> 'a option" where
  "coalesce x d = Some (case x of Some a \<Rightarrow> a | None \<Rightarrow> d)"

section \<open>Rows\<close>

record installation_row =
  inst_id :: string
  inst_installation_id :: int

record repository_row =
  repo_id :: string
  repo_installation :: string           \<comment> \<open>the id of the installation's row\<close>
  repo_full_name :: string
  repo_owner :: string
  repo_name :: string
  repo_enabled :: bool

record scan_run =
  sr_id :: string
  sr_repository_id :: string
  sr_installation_row :: string
  sr_trigger :: string
  sr_default_branch :: string
  sr_commit_sha :: "string option"
  sr_status :: string
  sr_started_at :: "int option"
  sr_finished_at :: "int option"
  sr_error_json :: obj
  sr_metrics_json :: obj
  sr_artifacts_json :: "json list"
  sr_updated_at :: int

record scan_finding =
  sf_id :: string
  sf_scan_run_id :: string
  sf_repository_id :: string
  sf_source :: string
  sf_category :: string
  sf_severity :: string
  sf_confidence :: string
  sf_file_path :: "string option"
  sf_start_line :: "int option"
  sf_end_line :: "int option"
  sf_title :: string
  sf_body :: string
  sf_evidence_json :: json
  sf_recommendation :: "string option"
  sf_dedupe_key :: string
  sf_status :: string
  sf_first_seen_at :: int
  sf_last_seen_at :: int
  sf_resolved_at :: "int option"
  sf_updated_at :: int

record scan_db =
  db_installations :: "installation_row list"
  db_repositories :: "repository_row list"
  db_scan_runs :: "scan_run list"
  db_findings :: "scan_finding list"

section \<open>Constraints\<close>

definition active_status :: "string \<Rightarrow> bool" where
  "active_status s \<longleftrightarrow> s = ''queued'' \<or> s = ''running''"

definition scan_run_row_ok :: "scan_run \<Rightarrow> bool" where
  "scan_run_row_ok r \<longleftrightarrow> sr_trigger r \<in> set [''install'', ''scheduled'', ''manual'', ''push''] \<and>
     sr_status r \<in> set [''queued'', ''running'', ''succeeded'', ''failed'', ''cancelled'', ''superseded''] \<and>
     sr_commit_sha r \<noteq> Some [] \<and> sr_default_branch r \<noteq> []"

definition scan_runs_ok :: "scan_run list \<Rightarrow> bool" where
  \<comment> \<open>the CHECK constraints, the primary key and the three partial unique indexes\<close>
  "scan_runs_ok rs \<longleftrightarrow> list_all scan_run_row_ok rs \<and> distinct (map sr_id rs) \<and>
     distinct (map (\<lambda>r. (sr_repository_id r, sr_commit_sha r))
       (filter (\<lambda>r. sr_status r = ''succeeded'' \<and> sr_commit_sha r \<noteq> None) rs)) \<and>
     distinct (map (\<lambda>r. (sr_repository_id r, sr_commit_sha r))
       (filter (\<lambda>r. active_status (sr_status r) \<and> sr_commit_sha r \<noteq> None) rs)) \<and>
     distinct (map (\<lambda>r. (sr_repository_id r, sr_trigger r))
       (filter (\<lambda>r. active_status (sr_status r) \<and> sr_commit_sha r = None) rs))"

definition sql_integer :: "int \<Rightarrow> bool" where
  \<comment> \<open>the type \<open>integer\<close>: 32 bits\<close>
  "sql_integer i \<longleftrightarrow> - (2 ^ 31) \<le> i \<and> i < 2 ^ 31"

definition sql_text :: "string \<Rightarrow> bool" where
  \<comment> \<open>the type \<open>text\<close> refuses NUL\<close>
  "sql_text s \<longleftrightarrow> CHR 0x00 \<notin> set s"

fun sql_jsonb :: "json \<Rightarrow> bool" where
  \<comment> \<open>the type \<open>jsonb\<close> refuses NUL in keys and strings, and the numbers JSON does not know\<close>
  "sql_jsonb (JStr s) = sql_text s"
| "sql_jsonb (JFloat x) = (case x of Fin _ \<Rightarrow> True | _ \<Rightarrow> False)"
| "sql_jsonb (JList js) = list_all sql_jsonb js"
| "sql_jsonb (JObj kvs) = list_all (\<lambda>kv. sql_text (fst kv) \<and> sql_jsonb (snd kv)) kvs"
| "sql_jsonb j = True"

fun sql_null :: "('a \<Rightarrow> bool) \<Rightarrow> 'a option \<Rightarrow> bool" where
  \<comment> \<open>a column that may be NULL\<close>
  "sql_null ok None = True"
| "sql_null ok (Some x) = ok x"

definition finding_values_ok :: "scan_finding \<Rightarrow> bool" where
  \<comment> \<open>every value fits the type of its column\<close>
  "finding_values_ok f \<longleftrightarrow> list_all sql_text [sf_source f, sf_category f, sf_severity f, sf_confidence f, sf_title f, sf_body f,
       sf_dedupe_key f, sf_status f] \<and>
     sql_null sql_text (sf_file_path f) \<and> sql_null sql_text (sf_recommendation f) \<and>
     sql_null sql_integer (sf_start_line f) \<and> sql_null sql_integer (sf_end_line f) \<and> sql_jsonb (sf_evidence_json f)"

definition scan_finding_row_ok :: "scan_finding \<Rightarrow> bool" where
  "scan_finding_row_ok f \<longleftrightarrow> finding_values_ok f \<and> sf_source f \<in> set FINDING_SOURCES \<and> sf_category f \<in> set CODEBASE_SCAN_FINDING_CATEGORIES \<and>
     sf_severity f \<in> set SEVERITIES \<and> sf_confidence f \<in> set CODEBASE_SCAN_FINDING_CONFIDENCES \<and>
     sf_status f \<in> set CODEBASE_SCAN_FINDING_STATUSES \<and>
     (case (sf_start_line f, sf_end_line f) of
        (None, None) \<Rightarrow> True | (Some s, Some e) \<Rightarrow> 0 < s \<and> s \<le> e | _ \<Rightarrow> False)"

definition scan_findings_ok :: "scan_run list \<Rightarrow> scan_finding list \<Rightarrow> bool" where
  "scan_findings_ok runs fs \<longleftrightarrow> list_all scan_finding_row_ok fs \<and> distinct (map sf_id fs) \<and>
     distinct (map (\<lambda>f. (sf_repository_id f, sf_dedupe_key f)) fs) \<and>
     list_all (\<lambda>f. sf_scan_run_id f \<in> set (map sr_id runs)) fs"

definition scan_db_ok :: "scan_db \<Rightarrow> bool" where
  "scan_db_ok db \<longleftrightarrow> scan_runs_ok (db_scan_runs db) \<and> scan_findings_ok (db_scan_runs db) (db_findings db)"

section \<open>Statements\<close>

definition put_scan_runs :: "scan_run list \<Rightarrow> scan_db \<Rightarrow> scan_db \<times> (worker_exception + unit)" where
  "put_scan_runs rs db = (if scan_runs_ok rs then (db\<lparr>db_scan_runs := rs\<rparr>, Inr ())
     else (db, Inl (constraint_violation ''codebase_scan_runs'')))"

definition put_findings :: "scan_finding list \<Rightarrow> scan_db \<Rightarrow> scan_db \<times> (worker_exception + unit)" where
  "put_findings fs db = (if scan_findings_ok (db_scan_runs db) fs then (db\<lparr>db_findings := fs\<rparr>, Inr ())
     else (db, Inl (if list_all finding_values_ok fs then constraint_violation ''codebase_scan_findings''
       else data_error ''codebase_scan_findings'')))"

definition update_where :: "('r \<Rightarrow> bool) \<Rightarrow> ('r \<Rightarrow> 'r) \<Rightarrow> 'r list \<Rightarrow> 'r list" where
  \<comment> \<open>\<open>UPDATE ... SET ... WHERE ...\<close>\<close>
  "update_where P f rs = map (\<lambda>r. if P r then f r else r) rs"

definition upsert_on :: "('r \<Rightarrow> 'k option) \<Rightarrow> ('r \<Rightarrow> 'r \<Rightarrow> 'r) \<Rightarrow> 'r \<Rightarrow> 'r list \<Rightarrow> 'r list" where
  \<comment> \<open>\<open>INSERT ... ON CONFLICT (key) DO UPDATE\<close>; a row whose key is None conflicts with none. The merge takes the row that
      would have been inserted and the one that is there\<close>
  "upsert_on key merge new rows =
     (if key new \<noteq> None \<and> list_ex (\<lambda>r. key r = key new) rows then update_where (\<lambda>r. key r = key new) (merge new) rows
      else rows @ [new])"

definition repository_join :: "(repository_row \<Rightarrow> bool) \<Rightarrow> int \<Rightarrow> scan_db \<Rightarrow> repository_row option" where
  \<comment> \<open>\<open>FROM repositories r JOIN github_installations gi ON gi.id = r.installation_id WHERE ... AND gi.installation_id = %s\<close>;
      both ids are primary keys\<close>
  "repository_join P installation_id db =
     find (\<lambda>r. P r \<and> list_ex (\<lambda>i. inst_id i = repo_installation r \<and> inst_installation_id i = installation_id) (db_installations db))
       (db_repositories db)"

section \<open>Rules\<close>

lemma map_update_where:
  assumes "\<And>r. g (f r) = g r"
  shows "map g (update_where P f rs) = map g rs"
  using assms by (simp add: update_where_def)

lemma put_scan_runs_cases:
  obtains "scan_runs_ok rs" "put_scan_runs rs db = (db\<lparr>db_scan_runs := rs\<rparr>, Inr ())"
  | "\<not> scan_runs_ok rs" "put_scan_runs rs db = (db, Inl (constraint_violation ''codebase_scan_runs''))"
  by (auto simp: put_scan_runs_def)

lemma sql_text_simps [simp]: "sql_text []" "sql_text (c # s) \<longleftrightarrow> c \<noteq> CHR 0x00 \<and> sql_text s"
  "sql_text (s @ t) \<longleftrightarrow> sql_text s \<and> sql_text t"
  by (auto simp: sql_text_def)

lemma sql_text_take [intro]: "sql_text s \<Longrightarrow> sql_text (take n s)"
  by (auto simp: sql_text_def dest: in_set_takeD)

section \<open>Upserts keep rows apart by their keys\<close>

locale keyed_upsert =
  fixes key :: "'r \<Rightarrow> 'k option" and merge :: "'r \<Rightarrow> 'r \<Rightarrow> 'r"
  assumes key_merge: "key old = key new \<Longrightarrow> key (merge new old) = key new"
begin

abbreviation upsert :: "'r \<Rightarrow> 'r list \<Rightarrow> 'r list" where
  "upsert \<equiv> upsert_on key merge"

lemma merged_key: "key new = Some k \<Longrightarrow> key old = Some k \<Longrightarrow> key (merge new old) = Some k"
  using key_merge [of old new] by simp

lemma other_keys:
  assumes "key new = Some k"
  shows "filter (\<lambda>r. key r \<noteq> Some k) (upsert new rows) = filter (\<lambda>r. key r \<noteq> Some k) rows"
proof -
  have "filter (\<lambda>r. key r \<noteq> Some k) (update_where (\<lambda>r. key r = Some k) (merge new) rows) = filter (\<lambda>r. key r \<noteq> Some k) rows"
    by (induction rows) (auto simp: update_where_def merged_key [OF assms])
  with assms show ?thesis by (simp add: upsert_on_def)
qed

lemma in_upsert:
  "r \<in> set (upsert new rows) \<Longrightarrow> r = new \<or> r \<in> set rows \<or> (\<exists>old \<in> set rows. key old = key new \<and> key new \<noteq> None \<and> r = merge new old)"
  by (auto simp: upsert_on_def update_where_def split: if_splits)

lemma new_key_present: "key new = Some k \<Longrightarrow> \<exists>r \<in> set (upsert new rows). key r = Some k"
  using merged_key by (force simp: upsert_on_def update_where_def list_ex_iff)

lemma distinct_keys: "distinct (List.map_filter key rows) \<Longrightarrow> distinct (List.map_filter key (upsert new rows))"
proof -
  assume distinct: "distinct (List.map_filter key rows)"
  have "List.map_filter key (update_where (\<lambda>r. key r = key new) (merge new) rows) = List.map_filter key rows"
    by (induction rows) (auto simp: update_where_def List.map_filter_def key_merge)
  moreover have "x \<notin> set (List.map_filter key rows)" if "key new = Some x" "\<not> list_ex (\<lambda>r. key r = key new) rows" for x
    using that by (auto simp: List.map_filter_def list_ex_iff)
  ultimately show ?thesis using distinct
    by (auto simp: upsert_on_def List.map_filter_def)
qed

lemma upsert_same:
  assumes "key new = Some k" and "\<And>old. old \<in> set rows \<Longrightarrow> key old = Some k \<Longrightarrow> merge new old = old"
    and "\<exists>old \<in> set rows. key old = Some k"
  shows "upsert new rows = rows"
proof -
  have "update_where (\<lambda>r. key r = key new) (merge new) rows = rows"
    using assms(1,2) by (simp add: update_where_def map_idI)
  then show ?thesis using assms(1,3) by (simp add: upsert_on_def list_ex_iff)
qed

end

end
