(* ===== verification/ReviewQueue.thy ===== *)
theory ReviewQueue
  imports ScanTables
begin

text \<open>
  review_queue.py: the jobs of the two queues. The table \<open>review_runs\<close> is a map, those of scans are in
  ScanTables; each repository method is the effect of its SQL
  statement, with the clock as an argument. A pipeline is a function that may change the tables (other
  clients of the database act in the meantime) and may raise. The queue library, signals, connections and
  failures of the database itself are not modelled.
\<close>

section \<open>Exceptions\<close>

definition ReviewWorkerError :: "string \<Rightarrow> string \<Rightarrow> worker_exception" where
  "ReviewWorkerError code message = \<lparr> we_class = ''ReviewWorkerError'', we_text = message, we_error_code = Some code \<rparr>"

definition error_message :: "worker_exception \<Rightarrow> string" where
  "error_message e = (let message = strip (we_text e) in if message \<noteq> [] then take 1000 message else we_class e)"

definition error_code :: "worker_exception \<Rightarrow> string" where
  "error_code e = (case we_error_code e of
      Some c \<Rightarrow> if c \<noteq> [] then c else ''review_worker_error'' | None \<Rightarrow> ''review_worker_error'')"

section \<open>Review runs\<close>

datatype run_status = Queued | Running | Succeeded | RunFailed | Cancelled | Superseded

record review_run =
  rr_status :: run_status
  rr_started_at :: "int option"
  rr_finished_at :: "int option"
  rr_error_code :: "string option"
  rr_error_message :: "string option"
  rr_updated_at :: int

type_synonym runs = "string \<Rightarrow> review_run option"

definition update_run :: "(review_run \<Rightarrow> review_run) \<Rightarrow> string \<Rightarrow> runs \<Rightarrow> runs" where
  \<comment> \<open>\<open>UPDATE review_runs SET ... WHERE id = %s AND status <> 'superseded'\<close>\<close>
  "update_run f run_id db = (case db run_id of
      None \<Rightarrow> db
    | Some row \<Rightarrow> if rr_status row = Superseded then db else db(run_id \<mapsto> f row))"

definition mark_running :: "int \<Rightarrow> string \<Rightarrow> runs \<Rightarrow> runs" where
  "mark_running now = update_run (\<lambda>row. row\<lparr>rr_status := Running, rr_started_at := coalesce (rr_started_at row) now,
     rr_error_code := None, rr_error_message := None, rr_updated_at := now\<rparr>)"

definition mark_succeeded :: "int \<Rightarrow> string \<Rightarrow> runs \<Rightarrow> runs" where
  "mark_succeeded now = update_run (\<lambda>row. row\<lparr>rr_status := Succeeded, rr_finished_at := coalesce (rr_finished_at row) now,
     rr_error_code := None, rr_error_message := None, rr_updated_at := now\<rparr>)"

definition mark_failed :: "int \<Rightarrow> string \<Rightarrow> string \<Rightarrow> string \<Rightarrow> runs \<Rightarrow> runs" where
  "mark_failed now run_id code message = update_run (\<lambda>row. row\<lparr>rr_status := RunFailed,
     rr_finished_at := coalesce (rr_finished_at row) now, rr_error_code := Some code,
     rr_error_message := Some message, rr_updated_at := now\<rparr>) run_id"

definition process_review_pull_request_job ::
  "int \<Rightarrow> int \<Rightarrow> ReviewJobInput \<Rightarrow> (ReviewJobInput \<Rightarrow> runs \<Rightarrow> runs \<times> worker_exception option) \<Rightarrow> runs \<Rightarrow>
   runs \<times> worker_exception option" where
  \<comment> \<open>clock before and after the pipeline; second component: what is raised\<close>
  "process_review_pull_request_job t0 t1 payload pipeline db =
     (case pipeline payload (mark_running t0 (rj_review_run_id payload) db) of
        (db', None) \<Rightarrow> (mark_succeeded t1 (rj_review_run_id payload) db', None)
      | (db', Some e) \<Rightarrow> (mark_failed t1 (rj_review_run_id payload) (error_code e) (error_message e) db', Some e))"

definition REVIEW_PULL_REQUEST_JOB_NAME :: string where "REVIEW_PULL_REQUEST_JOB_NAME = ''review.pull_request''"

definition CODEBASE_SCAN_JOB_NAME :: string where "CODEBASE_SCAN_JOB_NAME = ''codebase.scan''"

definition review_job_payload_from_mapping :: "obj \<Rightarrow> worker_exception + ReviewJobInput" where
  "review_job_payload_from_mapping value = (case ReviewJobInput_from_mapping value of
      Inl e \<Rightarrow> Inl (ReviewWorkerError ''invalid_job_payload'' (contract_error_str e)) | Inr p \<Rightarrow> Inr p)"

definition review_process ::
  "int \<Rightarrow> int \<Rightarrow> (ReviewJobInput \<Rightarrow> runs \<Rightarrow> runs \<times> worker_exception option) \<Rightarrow> string \<Rightarrow> obj \<Rightarrow> runs \<Rightarrow>
   runs \<times> worker_exception option" where
  \<comment> \<open>the function \<open>process\<close> of the review queue: job name and data\<close>
  "review_process t0 t1 pipeline job_name data db =
     (if job_name \<noteq> REVIEW_PULL_REQUEST_JOB_NAME
      then (db, Some (ReviewWorkerError ''unsupported_job_name'' (''Unsupported review job name: '' @ job_name)))
      else case review_job_payload_from_mapping data of
          Inl e \<Rightarrow> (db, Some e)
        | Inr payload \<Rightarrow> process_review_pull_request_job t0 t1 payload pipeline db)"

section \<open>Codebase scan runs\<close>

definition queued_scan_run :: "string \<Rightarrow> int \<Rightarrow> CodebaseScanJobInput \<Rightarrow> string \<Rightarrow> scan_run" where
  \<comment> \<open>the inserted row, with the defaults of the schema\<close>
  "queued_scan_run uuid now payload inst =
     \<lparr> sr_id = uuid, sr_repository_id = cj_repository_id payload, sr_installation_row = inst,
       sr_trigger = cj_trigger payload, sr_default_branch = cj_default_branch payload,
       sr_commit_sha = cj_commit_sha payload, sr_status = ''queued'', sr_started_at = None, sr_finished_at = None,
       sr_error_json = [],
       sr_metrics_json = [(''enqueue'', JObj [(''correlationId'', JStr (cj_correlation_id payload)),
          (''repositoryFullName'', JStr (cj_repository_full_name payload)), (''trigger'', JStr (cj_trigger payload))])],
       sr_artifacts_json = [], sr_updated_at = now \<rparr>"

definition create_queued_scan_for_scheduled_job ::
  "string \<Rightarrow> int \<Rightarrow> CodebaseScanJobInput \<Rightarrow> scan_db \<Rightarrow> scan_db \<times> (worker_exception + string)" where
  \<comment> \<open>first argument: the new \<open>uuid4\<close>\<close>
  "create_queued_scan_for_scheduled_job uuid now payload db =
     (case repository_join (\<lambda>r. repo_id r = cj_repository_id payload) (cj_installation_id payload) db of
        Some repo \<Rightarrow>
          (case put_scan_runs (db_scan_runs db @ [queued_scan_run uuid now payload (repo_installation repo)]) db of
             (db', Inl e) \<Rightarrow> (db', Inl e) | (db', Inr _) \<Rightarrow> (db', Inr uuid))
      | None \<Rightarrow> (db, Inl (ReviewWorkerError ''codebase_scan_repository_not_found''
                 (''Repository '' @ cj_repository_id payload @ '' was not found''))))"

definition process_codebase_scan_job ::
  "string \<Rightarrow> int \<Rightarrow> CodebaseScanJobInput \<Rightarrow> scan_db \<Rightarrow> scan_db \<times> (worker_exception + string)" where
  "process_codebase_scan_job uuid now payload db = (case cj_scan_run_id payload of
      Some i \<Rightarrow> (db, Inr i)
    | None \<Rightarrow>
        if cj_trigger payload \<noteq> ''scheduled''
        then (db, Inl (ReviewWorkerError ''invalid_job_payload'' ''scanRunId may only be null for scheduled codebase scan jobs''))
        else create_queued_scan_for_scheduled_job uuid now payload db)"

definition process_codebase_scan_pipeline_job ::
  "string \<Rightarrow> int \<Rightarrow> (CodebaseScanJobInput \<Rightarrow> scan_db \<Rightarrow> scan_db \<times> worker_exception option) \<Rightarrow> CodebaseScanJobInput \<Rightarrow> scan_db \<Rightarrow>
   scan_db \<times> (worker_exception + string)" where
  "process_codebase_scan_pipeline_job uuid now pipeline payload db =
     (case process_codebase_scan_job uuid now payload db of
        (db1, Inl e) \<Rightarrow> (db1, Inl e)
      | (db1, Inr scan_run_id) \<Rightarrow>
          (case pipeline (payload\<lparr>cj_scan_run_id := Some scan_run_id\<rparr>) db1 of
             (db2, Some e) \<Rightarrow> (db2, Inl e)
           | (db2, None) \<Rightarrow> (db2, Inr scan_run_id)))"

definition codebase_scan_job_payload_from_mapping :: "obj \<Rightarrow> worker_exception + CodebaseScanJobInput" where
  "codebase_scan_job_payload_from_mapping value = (case CodebaseScanJobInput_from_mapping value of
      Inl e \<Rightarrow> Inl (ReviewWorkerError ''invalid_job_payload'' (contract_error_str e)) | Inr p \<Rightarrow> Inr p)"

definition codebase_scan_process ::
  "string \<Rightarrow> int \<Rightarrow> (CodebaseScanJobInput \<Rightarrow> scan_db \<Rightarrow> scan_db \<times> worker_exception option) \<Rightarrow> string \<Rightarrow> obj \<Rightarrow> scan_db \<Rightarrow>
   scan_db \<times> worker_exception option" where
  "codebase_scan_process uuid now pipeline job_name data db =
     (if job_name \<noteq> CODEBASE_SCAN_JOB_NAME
      then (db, Some (ReviewWorkerError ''unsupported_job_name'' (''Unsupported codebase scan job name: '' @ job_name)))
      else case codebase_scan_job_payload_from_mapping data of
          Inl e \<Rightarrow> (db, Some e)
        | Inr payload \<Rightarrow>
            (case process_codebase_scan_pipeline_job uuid now pipeline payload db of
               (db', Inl e) \<Rightarrow> (db', Some e) | (db', Inr i) \<Rightarrow> (db', None)))"

section \<open>The status machine of a review run\<close>

text \<open>Any interleaving of the updates of any number of workers, with other clients superseding runs.\<close>

inductive run_step :: "runs \<Rightarrow> runs \<Rightarrow> bool" where
  running: "run_step db (mark_running now i db)"
| succeeded: "run_step db (mark_succeeded now i db)"
| failed: "run_step db (mark_failed now i code message db)"
| supersede: "db i = Some row \<Longrightarrow> run_step db (db(i \<mapsto> row\<lparr>rr_status := Superseded, rr_updated_at := now\<rparr>))"

inductive_cases run_stepE: "run_step db db'"

definition later_row :: "review_run option \<Rightarrow> review_run option \<Rightarrow> bool" where
  \<comment> \<open>what no update undoes\<close>
  "later_row x y \<longleftrightarrow> (case (x, y) of
      (None, None) \<Rightarrow> True
    | (Some r, Some s) \<Rightarrow>
        (rr_status r = Superseded \<longrightarrow> rr_status s = Superseded \<and> rr_started_at s = rr_started_at r \<and>
           rr_finished_at s = rr_finished_at r \<and> rr_error_code s = rr_error_code r \<and> rr_error_message s = rr_error_message r) \<and>
        (rr_started_at r \<noteq> None \<longrightarrow> rr_started_at s = rr_started_at r) \<and>
        (rr_finished_at r \<noteq> None \<longrightarrow> rr_finished_at s = rr_finished_at r)
    | _ \<Rightarrow> False)"

lemma later_row_refl: "later_row x x"
  by (simp add: later_row_def split: option.split)

lemma later_row_trans: "later_row x y \<Longrightarrow> later_row y z \<Longrightarrow> later_row x z"
  by (cases x; cases y; cases z) (simp_all add: later_row_def)

lemma update_run_later:
  assumes "\<And>row. rr_status row \<noteq> Superseded \<Longrightarrow> later_row (Some row) (Some (f row))"
  shows "later_row (db i) (update_run f j db i)"
  using assms by (simp add: update_run_def later_row_refl split: option.split)

lemma run_step_later: "run_step db db' \<Longrightarrow> later_row (db i) (db' i)"
proof (induction rule: run_step.induct)
  case (supersede db j row now)
  then show ?case by (cases "i = j") (simp_all add: later_row_refl, simp add: later_row_def)
qed (simp_all add: mark_running_def mark_succeeded_def mark_failed_def, (rule update_run_later, simp add: later_row_def coalesce_def split: option.split)+)

text \<open>C14: Under any interleaving of worker updates and supersedings, no row of review_runs appears or
  disappears, a superseded run stays superseded with its times and errors untouched, and the start and
  finish times of a run never change once they are set.\<close>

theorem review_run_updates_are_monotone:
  assumes "run_step\<^sup>*\<^sup>* db db'"
  shows "later_row (db i) (db' i)"
  using assms
proof (induction rule: rtranclp_induct)
  case base
  show ?case by (rule later_row_refl)
next
  case (step y z)
  then show ?case using run_step_later later_row_trans by blast
qed

definition sample_run :: review_run where
  "sample_run = \<lparr> rr_status = Queued, rr_started_at = None, rr_finished_at = None, rr_error_code = None,
     rr_error_message = None, rr_updated_at = 0 \<rparr>"

theorem review_run_updates_are_monotone_witness:
  "later_row (Some (sample_run\<lparr>rr_status := Superseded\<rparr>))
     (mark_succeeded 9 ''r'' [''r'' \<mapsto> sample_run\<lparr>rr_status := Superseded\<rparr>] ''r'')"
proof -
  let ?db = "[''r'' \<mapsto> sample_run\<lparr>rr_status := Superseded\<rparr>]"
  have "run_step\<^sup>*\<^sup>* ?db (mark_succeeded 9 ''r'' ?db)" by (rule r_into_rtranclp) (rule run_step.succeeded)
  from review_run_updates_are_monotone [OF this, of "''r''"] show ?thesis by simp
qed

text \<open>The outcome of a review job whose run exists, is not superseded and is left alone by the pipeline:
  without an exception the run has succeeded and no error is stored; with one the run has failed, the
  exception is raised again, and the stored code is its own code or the generic one and the stored message is
  at most 1000 characters long and visible (the class name stands in for a blank message). In both cases the
  start time is set.\<close>

theorem review_job_records_outcome:
  assumes row: "db (rj_review_run_id payload) = Some row" "rr_status row \<noteq> Superseded"
    and pipe: "pipeline payload = (\<lambda>d. (d, raised))"
    and names: "\<forall>e. raised = Some e \<longrightarrow> nonblank (we_class e) \<and> length (we_class e) \<le> 1000"
  shows "\<exists>row'. process_review_pull_request_job t0 t1 payload pipeline db = (db(rj_review_run_id payload \<mapsto> row'), raised) \<and>
     rr_started_at row' \<noteq> None \<and> rr_finished_at row' \<noteq> None \<and>
     (case raised of
        None \<Rightarrow> rr_status row' = Succeeded \<and> rr_error_code row' = None \<and> rr_error_message row' = None
      | Some e \<Rightarrow> rr_status row' = RunFailed \<and>
          rr_error_code row' = Some (if we_error_code e \<in> {None, Some []} then ''review_worker_error'' else the (we_error_code e)) \<and>
          (\<exists>m. rr_error_message row' = Some m \<and> nonblank m \<and> length m \<le> 1000))"
proof (cases raised)
  case None
  with row pipe show ?thesis
    by (simp add: process_review_pull_request_job_def mark_running_def mark_succeeded_def update_run_def coalesce_def)
      (rule exI, rule conjI, rule refl, simp)
next
  case (Some e)
  have "nonblank (error_message e) \<and> length (error_message e) \<le> 1000"
    using names Some nonblank_take_strip [of 1000 "we_text e"] by (simp add: error_message_def Let_def)
  moreover have "error_code e = (if we_error_code e \<in> {None, Some []} then ''review_worker_error'' else the (we_error_code e))"
    by (auto simp: error_code_def split: option.split)
  ultimately show ?thesis
    using row pipe Some
    by (simp add: process_review_pull_request_job_def mark_running_def mark_failed_def update_run_def coalesce_def)
      (intro conjI impI; (rule exI, rule conjI, rule refl, simp))
qed

definition sample_job :: ReviewJobInput where
  "sample_job = \<lparr> rj_schema_version = ''review-job-input/v1'', rj_delivery_id = ''d'', rj_review_run_id = ''r'',
     rj_repository_id = ''p'', rj_pull_request_id = ''q'', rj_pull_request_number = 1, rj_head_sha = ''h'',
     rj_trigger_event = ''opened'' \<rparr>"

theorem review_job_records_outcome_witness:
  "\<exists>row'. process_review_pull_request_job 3 5 sample_job
       (\<lambda>p d. (d, Some \<lparr> we_class = ''ValueError'', we_text = '' '', we_error_code = None \<rparr>)) [''r'' \<mapsto> sample_run] =
       ([''r'' \<mapsto> row'], Some \<lparr> we_class = ''ValueError'', we_text = '' '', we_error_code = None \<rparr>) \<and>
     rr_status row' = RunFailed \<and> rr_error_code row' = Some ''review_worker_error''"
proof -
  have "nonblank ''ValueError''" by code_simp
  then show ?thesis
    using review_job_records_outcome [of "[''r'' \<mapsto> sample_run]" sample_job sample_run
        "\<lambda>p d. (d, Some \<lparr> we_class = ''ValueError'', we_text = '' '', we_error_code = None \<rparr>)"
        "Some \<lparr> we_class = ''ValueError'', we_text = '' '', we_error_code = None \<rparr>" 3 5]
    by (auto simp: sample_job_def sample_run_def simp del: nonblank_Cons)
qed

text \<open>A retried run keeps the finish time of its first failure, earlier than its own start: a job run at
  times 100 and 200 over a row that failed at time 5 succeeds with finish time 5, since mark_running does
  not clear the column and the update at the end coalesces to it.\<close>

lemma retried_run_keeps_first_finish_time:
  "process_review_pull_request_job 100 200 sample_job (\<lambda>p d. (d, None))
     [''r'' \<mapsto> sample_run\<lparr>rr_status := RunFailed, rr_started_at := Some 1, rr_finished_at := Some 5\<rparr>] =
   ([''r'' \<mapsto> sample_run\<lparr>rr_status := Succeeded, rr_started_at := Some 1, rr_finished_at := Some 5, rr_updated_at := 200\<rparr>], None)"
  by (simp add: process_review_pull_request_job_def sample_job_def mark_running_def mark_succeeded_def
      update_run_def coalesce_def sample_run_def)

section \<open>Scan jobs\<close>

definition scan_job_result_ok ::
  "string \<Rightarrow> int \<Rightarrow> (CodebaseScanJobInput \<Rightarrow> scan_db \<Rightarrow> scan_db \<times> worker_exception option) \<Rightarrow> CodebaseScanJobInput \<Rightarrow> scan_db \<Rightarrow>
   scan_db \<times> (worker_exception + string) \<Rightarrow> bool" where
  "scan_job_result_ok uuid now pipeline payload db res \<longleftrightarrow>
     (\<exists>i db1. (cj_scan_run_id payload = Some i \<and> db1 = db \<or>
         cj_scan_run_id payload = None \<and> cj_trigger payload = ''scheduled'' \<and> i = uuid \<and>
         (\<exists>repo \<in> set (db_repositories db). \<exists>inst \<in> set (db_installations db).
            repo_id repo = cj_repository_id payload \<and> inst_id inst = repo_installation repo \<and>
            inst_installation_id inst = cj_installation_id payload \<and>
            db1 = db\<lparr>db_scan_runs := db_scan_runs db @ [queued_scan_run uuid now payload (inst_id inst)]\<rparr> \<and>
            scan_runs_ok (db_scan_runs db1))) \<and>
        res = (case pipeline (payload\<lparr>cj_scan_run_id := Some i\<rparr>) db1 of
                 (db2, Some e) \<Rightarrow> (db2, Inl e) | (db2, None) \<Rightarrow> (db2, Inr i))) \<or>
     (\<exists>e. res = (db, Inl e) \<and> cj_scan_run_id payload = None \<and>
        (cj_trigger payload \<noteq> ''scheduled'' \<and> we_error_code e = Some ''invalid_job_payload'' \<or>
         cj_trigger payload = ''scheduled'' \<and> we_error_code e = Some ''codebase_scan_repository_not_found'' \<and>
           (\<forall>repo \<in> set (db_repositories db). \<forall>inst \<in> set (db_installations db).
              \<not> (repo_id repo = cj_repository_id payload \<and> inst_id inst = repo_installation repo \<and>
                 inst_installation_id inst = cj_installation_id payload)) \<or>
         cj_trigger payload = ''scheduled'' \<and> e = constraint_violation ''codebase_scan_runs''))"

lemma repository_join_cases:
  "case repository_join P n db of
     Some r \<Rightarrow> r \<in> set (db_repositories db) \<and> P r \<and>
       (\<exists>i \<in> set (db_installations db). inst_id i = repo_installation r \<and> inst_installation_id i = n)
   | None \<Rightarrow> (\<forall>r \<in> set (db_repositories db). \<forall>i \<in> set (db_installations db).
       \<not> (P r \<and> inst_id i = repo_installation r \<and> inst_installation_id i = n))"
  by (auto simp: repository_join_def find_Some_iff find_None_iff list_ex_iff split: option.split)

text \<open>A codebase scan job runs its pipeline at most once and always with a scan run identifier: the one
  of the payload, with the tables untouched, or, for a scheduled job without one whose repository belongs to
  the named installation, that of the single queued row it inserts. Otherwise nothing is written, the
  pipeline does not run, and the error is invalid_job_payload (not a scheduled job),
  codebase_scan_repository_not_found, or the violated constraint of the table (a scan of the same
  repository is already waiting).\<close>

theorem codebase_scan_job_runs_with_identifier:
  "scan_job_result_ok uuid now pipeline payload db (process_codebase_scan_pipeline_job uuid now pipeline payload db)"
proof -
  note defs = process_codebase_scan_pipeline_job_def process_codebase_scan_job_def create_queued_scan_for_scheduled_job_def
  let ?join = "repository_join (\<lambda>r. repo_id r = cj_repository_id payload) (cj_installation_id payload) db"
  note join = repository_join_cases [where P = "\<lambda>r. repo_id r = cj_repository_id payload" and n = "cj_installation_id payload" and db = db]
  consider (given) i where "cj_scan_run_id payload = Some i"
    | (manual) "cj_scan_run_id payload = None" "cj_trigger payload \<noteq> ''scheduled''"
    | (missing) "cj_scan_run_id payload = None" "cj_trigger payload = ''scheduled''" "?join = None"
    | (found) repo where "cj_scan_run_id payload = None" "cj_trigger payload = ''scheduled''" "?join = Some repo"
    by (cases "cj_scan_run_id payload"; cases "?join") auto
  then show ?thesis
  proof cases
    case given
    then show ?thesis by (auto simp: scan_job_result_ok_def defs)
  next
    case manual
    then show ?thesis by (simp add: scan_job_result_ok_def defs ReviewWorkerError_def)
  next
    case missing
    with join show ?thesis by (simp add: scan_job_result_ok_def defs ReviewWorkerError_def)
  next
    case found
    let ?runs = "db_scan_runs db @ [queued_scan_run uuid now payload (repo_installation repo)]"
    show ?thesis
    proof (cases rule: put_scan_runs_cases [where rs = ?runs and db = db])
      case 1
      with found join have "process_codebase_scan_pipeline_job uuid now pipeline payload db =
          (case pipeline (payload\<lparr>cj_scan_run_id := Some uuid\<rparr>) (db\<lparr>db_scan_runs := ?runs\<rparr>) of
             (db2, Some e) \<Rightarrow> (db2, Inl e) | (db2, None) \<Rightarrow> (db2, Inr uuid))"
        by (simp add: defs)
      moreover from found join obtain inst where "repo \<in> set (db_repositories db)" "inst \<in> set (db_installations db)"
        "repo_id repo = cj_repository_id payload" "inst_id inst = repo_installation repo"
        "inst_installation_id inst = cj_installation_id payload" by auto
      ultimately show ?thesis using 1 found
        unfolding scan_job_result_ok_def
        by (intro disjI1 exI [of _ uuid] exI [of _ "db\<lparr>db_scan_runs := ?runs\<rparr>"]) (auto intro!: bexI [of _ repo] bexI [of _ inst])
    next
      case 2
      with found show ?thesis by (simp add: scan_job_result_ok_def defs)
    qed
  qed
qed

end
