(* ===== verification/ScanPlanner.thy ===== *)
theory ScanPlanner
  imports PipelineGitHub PyFnmatch ReviewQueue PyBytes
begin

text \<open>
  codebase_scan.py, the front half: configuration, the repository listing and the blobs read through the GitHub
  client, and \<open>CodebaseScanWorkspacePlanner\<close>, which selects the files to scan under three budgets. The
  directory for temporary files is a parameter; an operation on GitHub is an
  action of the client (PipelineGitHub), whose errors here are exceptions with a class, a text and a code.
\<close>

section \<open>Configuration\<close>

definition CodebaseScanPipelineError :: "string \<Rightarrow> string \<Rightarrow> worker_exception" where
  "CodebaseScanPipelineError code message =
     \<lparr> we_class = ''CodebaseScanPipelineError'', we_text = message, we_error_code = Some code \<rparr>"

definition DEFAULT_CODEBASE_SCAN_MAX_FILES :: int where "DEFAULT_CODEBASE_SCAN_MAX_FILES = 500"

definition DEFAULT_CODEBASE_SCAN_MAX_TOTAL_BYTES :: int where "DEFAULT_CODEBASE_SCAN_MAX_TOTAL_BYTES = 10000000"

definition DEFAULT_CODEBASE_SCAN_MAX_FILE_BYTES :: int where "DEFAULT_CODEBASE_SCAN_MAX_FILE_BYTES = 500000"

definition DEFAULT_CODEBASE_SCAN_ARTIFACT_RETENTION_DAYS :: int where "DEFAULT_CODEBASE_SCAN_ARTIFACT_RETENTION_DAYS = 30"

definition DEFAULT_CODEBASE_SCAN_ARTIFACT_DIR :: string where "DEFAULT_CODEBASE_SCAN_ARTIFACT_DIR = ''firmcode-codebase-scans''"

record CodebaseScanConfig =
  scfg_max_files :: int
  scfg_max_total_bytes :: int
  scfg_max_file_bytes :: int
  scfg_ignored_paths :: "string list"
  scfg_severity_threshold :: string
  scfg_repository_allowlist :: "string list"
  scfg_artifact_dir :: string
  scfg_artifact_retention_days :: int
  scfg_llm_enabled :: bool
  scfg_llm_model :: string

definition read_csv :: "string option \<Rightarrow> string list" where
  "read_csv value = (case value of None \<Rightarrow> []
     | Some v \<Rightarrow> map strip (filter (\<lambda>item. strip item \<noteq> []) (split_char (CHR '','') v)))"

definition scan_artifact_dir :: "string \<Rightarrow> string option \<Rightarrow> string" where
  "scan_artifact_dir tempdir value = (let raw = strip (case value of Some v \<Rightarrow> v | None \<Rightarrow> [])
     in if raw \<noteq> [] then path_str raw else path_join tempdir DEFAULT_CODEBASE_SCAN_ARTIFACT_DIR)"

definition env_bool :: "string option \<Rightarrow> bool \<Rightarrow> bool" where
  "env_bool value dflt = (case value of None \<Rightarrow> dflt
     | Some v \<Rightarrow> lower (strip v) \<in> set [''1'', ''true'', ''yes'', ''on''])"

definition env_text :: "string option \<Rightarrow> string" where
  \<comment> \<open>\<open>value or ''\<close>\<close>
  "env_text value = (case value of Some v \<Rightarrow> v | None \<Rightarrow> [])"

definition CodebaseScanConfig_from_env :: "string \<Rightarrow> (string \<Rightarrow> string option) \<Rightarrow> CodebaseScanConfig" where
  "CodebaseScanConfig_from_env tempdir env =
     \<lparr> scfg_max_files = env_positive_int (env ''CODEBASE_SCAN_MAX_FILES'') DEFAULT_CODEBASE_SCAN_MAX_FILES,
       scfg_max_total_bytes = env_positive_int (env ''CODEBASE_SCAN_MAX_TOTAL_BYTES'') DEFAULT_CODEBASE_SCAN_MAX_TOTAL_BYTES,
       scfg_max_file_bytes = env_positive_int (env ''CODEBASE_SCAN_MAX_FILE_BYTES'') DEFAULT_CODEBASE_SCAN_MAX_FILE_BYTES,
       scfg_ignored_paths = read_csv (env ''CODEBASE_SCAN_IGNORED_PATHS''),
       scfg_severity_threshold =
         or_else (strip (or_else (env_text (env ''CODEBASE_SCAN_SEVERITY_THRESHOLD'')) ''info'')) ''info'',
       scfg_repository_allowlist = read_csv (env ''CODEBASE_SCAN_REPOSITORY_ALLOWLIST''),
       scfg_artifact_dir = scan_artifact_dir tempdir (env ''CODEBASE_SCAN_ARTIFACT_DIR''),
       scfg_artifact_retention_days =
         env_positive_int (env ''CODEBASE_SCAN_ARTIFACT_RETENTION_DAYS'') DEFAULT_CODEBASE_SCAN_ARTIFACT_RETENTION_DAYS,
       scfg_llm_enabled = env_bool (env ''CODEBASE_SCAN_LLM_ENABLED'') False,
       scfg_llm_model = strip (or_else (or_else (env_text (env ''CODEBASE_SCAN_LLM_MODEL''))
         (env_text (env ''LLM_REVIEW_MODEL''))) ''codebase-scan-model'') \<rparr>"

definition config_for_payload :: "CodebaseScanConfig \<Rightarrow> CodebaseScanJobInput \<Rightarrow> CodebaseScanConfig" where
  \<comment> \<open>the severity threshold of the job is not taken over\<close>
  "config_for_payload config payload = (case cj_scan_config payload of
      None \<Rightarrow> config
    | Some sc \<Rightarrow> config\<lparr>scfg_max_files := sc_max_files sc, scfg_max_total_bytes := sc_max_bytes sc,
        scfg_ignored_paths := sc_ignored_paths sc\<rparr>)"

section \<open>Reading the repository\<close>

record RepositoryTreeFile =
  rtf_path :: string
  rtf_sha :: string
  rtf_size_bytes :: "int option"

definition scan_error_of :: "pipeline_error \<Rightarrow> worker_exception" where
  \<comment> \<open>what the two kinds of errors of the GitHub client look like from outside; the class of an exception
      that is not a \<open>ReviewPipelineError\<close> is not distinguished\<close>
  "scan_error_of e = (case e of
      ReviewPipelineError code message \<Rightarrow>
        \<lparr> we_class = ''ReviewPipelineError'', we_text = message, we_error_code = Some code \<rparr>
    | PipelineException message \<Rightarrow> \<lparr> we_class = ''Exception'', we_text = message, we_error_code = None \<rparr>)"

definition read_branch_response :: "json \<Rightarrow> worker_exception + string" where
  "read_branch_response response = (case response of
      JObj v \<Rightarrow> (case obj_get v ''commit'' of
          JObj commit \<Rightarrow> (case obj_get commit ''sha'' of
              JStr sha \<Rightarrow> Inr sha
            | _ \<Rightarrow> Inl (CodebaseScanPipelineError ''github_response_invalid'' ''GitHub branch response did not include a commit SHA.''))
        | _ \<Rightarrow> Inl (CodebaseScanPipelineError ''github_response_invalid'' ''GitHub branch response did not include a commit SHA.''))
    | _ \<Rightarrow> Inl (CodebaseScanPipelineError ''github_response_invalid'' ''GitHub branch response was not an object.''))"

definition tree_file_of :: "json \<Rightarrow> RepositoryTreeFile option" where
  \<comment> \<open>one round of the loop over the entries of the tree\<close>
  "tree_file_of item =
     (let row = pv_object item; path = pv_str (obj_get row ''path'') []; sha = pv_str (obj_get row ''sha'') []
      in if obj_get row ''type'' \<noteq> JStr ''blob'' \<or> path = [] \<or> sha = [] then None
         else Some \<lparr> rtf_path = path, rtf_sha = sha, rtf_size_bytes = pv_optional_positive_int (obj_get row ''size'') \<rparr>)"

definition read_tree_response :: "json \<Rightarrow> worker_exception + RepositoryTreeFile list" where
  "read_tree_response response = (case response of
      JObj v \<Rightarrow>
        if obj_get v ''truncated'' = JBool True
        then Inl (CodebaseScanPipelineError ''github_tree_truncated'' ''GitHub tree response was truncated before scanning.'')
        else Inr (List.map_filter tree_file_of (pv_list (obj_get v ''tree'')))
    | _ \<Rightarrow> Inl (CodebaseScanPipelineError ''github_response_invalid'' ''GitHub tree response was not an object.''))"

definition decode_blob :: "(nat \<Rightarrow> char) \<Rightarrow> string \<Rightarrow> worker_exception + string \<times> int" where
  "decode_blob wide content = map_sum (\<lambda>(cls, message). \<lparr> we_class = cls, we_text = message, we_error_code = None \<rparr>)
     (\<lambda>(text, n). (text, int n)) (decode_base64_text wide content)"

definition read_blob_response :: "(nat \<Rightarrow> char) \<Rightarrow> json \<Rightarrow> worker_exception + string \<times> int" where
  "read_blob_response wide response = (case response of
      JObj v \<Rightarrow> (case obj_get v ''content'' of
          JStr content \<Rightarrow>
            if obj_get v ''encoding'' = JStr ''base64'' then decode_blob wide content
            else Inl (CodebaseScanPipelineError ''github_blob_unavailable'' ''GitHub blob response did not include base64 content.'')
        | _ \<Rightarrow> Inl (CodebaseScanPipelineError ''github_blob_unavailable'' ''GitHub blob response did not include base64 content.''))
    | _ \<Rightarrow> Inl (CodebaseScanPipelineError ''github_blob_unavailable'' ''GitHub blob response did not include base64 content.''))"

definition scan_request :: "'w github_api \<Rightarrow> int \<Rightarrow> string \<Rightarrow> string \<Rightarrow> ('w, worker_exception, json) github_action" where
  \<comment> \<open>the first three statements of each of the methods below: token, owner and name, request\<close>
  "scan_request api installation_id repository_full_name path =
     act_map_error scan_error_of (act_bind (installation_token api installation_id) (\<lambda>token.
       act_bind (gh_split repository_full_name) (\<lambda>r. request_json api ''GET'' (repo_path r @ path) token None)))"

definition fetch_default_branch_sha ::
  "'w github_api \<Rightarrow> int \<Rightarrow> string \<Rightarrow> string \<Rightarrow> ('w, worker_exception, string \<times> string) github_action" where
  "fetch_default_branch_sha api installation_id repository_full_name default_branch =
     act_bind (scan_request api installation_id repository_full_name (''/branches/'' @ default_branch)) (\<lambda>response.
       act_bind (act_of (read_branch_response response)) (\<lambda>sha. act_return (default_branch, sha)))"

definition fetch_repository_tree ::
  "'w github_api \<Rightarrow> int \<Rightarrow> string \<Rightarrow> string \<Rightarrow> ('w, worker_exception, RepositoryTreeFile list) github_action" where
  "fetch_repository_tree api installation_id repository_full_name commit_sha =
     act_bind (scan_request api installation_id repository_full_name (''/git/trees/'' @ commit_sha @ ''?recursive=1''))
       (\<lambda>response. act_of (read_tree_response response))"

definition fetch_blob_content ::
  "(nat \<Rightarrow> char) \<Rightarrow> 'w github_api \<Rightarrow> int \<Rightarrow> string \<Rightarrow> string \<Rightarrow>
   ('w, worker_exception, string \<times> int) github_action" where
  "fetch_blob_content wide api installation_id repository_full_name blob_sha =
     act_bind (scan_request api installation_id repository_full_name (''/git/blobs/'' @ blob_sha))
       (\<lambda>response. act_of (read_blob_response wide response))"

section \<open>Which files are looked at\<close>

record CodebaseScanFile =
  scf_path :: string
  scf_sha :: string
  scf_size_bytes :: int
  scf_language :: string
  scf_content :: string

record CodebaseSkippedPath =
  csp_path :: string
  csp_reason :: string
  csp_detail :: string
  csp_size_bytes :: "int option"
  csp_excluded_from_semgrep :: bool
  csp_excluded_from_tree_sitter :: bool
  csp_excluded_from_llm_context :: bool

record CodebaseWorkspaceSelection =
  sel_files :: "CodebaseScanFile list"
  sel_skipped_paths :: "CodebaseSkippedPath list"
  sel_metrics :: obj

definition scan_skip :: "string \<Rightarrow> string \<Rightarrow> string \<Rightarrow> int option \<Rightarrow> CodebaseSkippedPath" where
  "scan_skip path reason detail size_bytes =
     \<lparr> csp_path = path, csp_reason = reason, csp_detail = detail, csp_size_bytes = size_bytes,
       csp_excluded_from_semgrep = True, csp_excluded_from_tree_sitter = True, csp_excluded_from_llm_context = True \<rparr>"

definition VENDOR_PATTERNS :: "string list" where
  "VENDOR_PATTERNS = [''node_modules/*'', ''*/node_modules/*'', ''vendor/*'', ''*/vendor/*'', ''dist/*'', ''*/dist/*'',
     ''build/*'', ''*/build/*'', ''.next/*'', ''*/.next/*'', ''coverage/*'', ''*/coverage/*'']"

definition GENERATED_PATTERNS :: "string list" where
  "GENERATED_PATTERNS = [''__generated__/*'', ''*/__generated__/*'', ''generated/*'', ''*/generated/*'',
     ''openapi-client/*'', ''*/openapi-client/*'', ''openapi_server/*'', ''*/openapi_server/*'', ''*.generated.*'',
     ''*.graphql.js'', ''*.graphql.ts'', ''*.pb.go'', ''*_pb2.py'', ''*_grpc.py'', ''*_grpc.ts'', ''*_gen.go'',
     ''*generated.go'']"

definition MINIFIED_PATTERN :: string where "MINIFIED_PATTERN = ''*.min.*''"

definition matches_any :: "string \<Rightarrow> string list \<Rightarrow> bool" where
  "matches_any path patterns = list_ex (\<lambda>pat. fnmatchcase (lower path) (lower pat)) patterns"

definition normalize_repo_path :: "string \<Rightarrow> worker_exception + string" where
  "normalize_repo_path path =
     (if CHR 0x00 \<in> set path \<or> CHR 0x5C \<in> set path
      then Inl (CodebaseScanPipelineError ''invalid_repository_path'' ''Repository path contained invalid characters.'')
      else if strip path = [] \<or> path_is_absolute path \<or>
              (\<exists>part \<in> set (split_char (CHR ''/'') path). part \<in> set [[], ''.'', ''..''])
        then Inl (CodebaseScanPipelineError ''invalid_repository_path'' ''Repository path was not repository-relative.'')
      else Inr (path_str path))"

definition assert_repository_allowed :: "CodebaseScanConfig \<Rightarrow> string \<Rightarrow> worker_exception + unit" where
  "assert_repository_allowed config repository_full_name =
     (if scfg_repository_allowlist config = [] then Inr ()
      else if list_ex (fnmatchcase repository_full_name) (scfg_repository_allowlist config) then Inr ()
      else Inl (CodebaseScanPipelineError ''repository_not_allowed''
             ''Repository is not included in CODEBASE_SCAN_REPOSITORY_ALLOWLIST.''))"

definition skip_before_fetch ::
  "CodebaseScanConfig \<Rightarrow> string \<Rightarrow> RepositoryTreeFile \<Rightarrow> string option \<Rightarrow> CodebaseSkippedPath option" where
  "skip_before_fetch config path tree_file language =
     (let skip = (\<lambda>reason detail. Some (scan_skip path reason detail (rtf_size_bytes tree_file)))
      in if matches_any path (scfg_ignored_paths config)
           then skip ''ignored'' ''Path matched configured codebase scan ignored paths.''
         else if matches_any path VENDOR_PATTERNS
           then skip ''vendor'' ''Vendor or dependency directory is excluded from repository scans.''
         else if matches_any path GENERATED_PATTERNS
           then skip ''generated'' ''Generated files are excluded from repository scans.''
         else if fnmatchcase (lower (path_name path)) MINIFIED_PATTERN
           then skip ''minified'' ''Minified assets are excluded from repository scans.''
         else if lower (path_suffix path) \<in> set BINARY_EXTENSIONS
           then skip ''binary'' ''Binary files are not scanned.''
         else if (case rtf_size_bytes tree_file of Some n \<Rightarrow> n > scfg_max_file_bytes config | None \<Rightarrow> False)
           then skip ''oversized'' ''File exceeds configured codebase scan file limit.''
         else if language = None
           then skip ''unsupported'' ''File extension is not enabled for codebase scans.''
         else None)"

section \<open>The plan\<close>

record plan_state =
  pst_selected :: "CodebaseScanFile list"
  pst_skipped :: "CodebaseSkippedPath list"
  pst_total :: int

definition plan_skip :: "CodebaseSkippedPath \<Rightarrow> plan_state \<Rightarrow> plan_state" where
  "plan_skip s st = st\<lparr>pst_skipped := pst_skipped st @ [s]\<rparr>"

definition accept_content ::
  "CodebaseScanConfig \<Rightarrow> string \<Rightarrow> RepositoryTreeFile \<Rightarrow> string option \<Rightarrow> (string \<times> int) option \<Rightarrow> plan_state \<Rightarrow> plan_state" where
  \<comment> \<open>the rest of a round once the content is there; None: it could not be decoded\<close>
  "accept_content config path tree_file language fetched st =
     (case fetched of
        None \<Rightarrow> plan_skip (scan_skip path ''binary'' ''Blob content could not be decoded as UTF-8.'' (rtf_size_bytes tree_file)) st
      | Some (content, size_bytes) \<Rightarrow>
          if size_bytes > scfg_max_file_bytes config
          then plan_skip (scan_skip path ''oversized'' ''File exceeds configured codebase scan file limit.'' (Some size_bytes)) st
          else if pst_total st + size_bytes > scfg_max_total_bytes config
          then plan_skip (scan_skip path ''max_total_bytes''
                 ''File was skipped because the scan byte budget was exhausted.'' (Some size_bytes)) st
          else st\<lparr>pst_total := pst_total st + size_bytes,
                  pst_selected := pst_selected st @ [\<lparr> scf_path = path, scf_sha = rtf_sha tree_file, scf_size_bytes = size_bytes,
                    scf_language = (case language of Some l \<Rightarrow> or_else l ''unknown'' | None \<Rightarrow> ''unknown''), scf_content = content \<rparr>]\<rparr>)"

definition plan_step ::
  "CodebaseScanConfig \<Rightarrow> (RepositoryTreeFile \<Rightarrow> ('w, worker_exception, (string \<times> int) option) github_action) \<Rightarrow>
   RepositoryTreeFile \<Rightarrow> plan_state \<Rightarrow> ('w, worker_exception, plan_state) github_action" where
  "plan_step config fetch_content tree_file st =
     act_bind (act_of (normalize_repo_path (rtf_path tree_file))) (\<lambda>path.
       let language = language_for_path path
       in case skip_before_fetch config path tree_file language of
            Some s \<Rightarrow> act_return (plan_skip s st)
          | None \<Rightarrow>
              if int (length (pst_selected st)) \<ge> scfg_max_files config
              then act_return (plan_skip (scan_skip path ''max_files'' (''Codebase scan is capped at '' @
                     str_of_int (scfg_max_files config) @ '' files.'') (rtf_size_bytes tree_file)) st)
              else if (case rtf_size_bytes tree_file of
                         Some n \<Rightarrow> pst_total st + n > scfg_max_total_bytes config | None \<Rightarrow> False)
              then act_return (plan_skip (scan_skip path ''max_total_bytes''
                     ''File was not fetched because the scan byte budget was exhausted.'' (rtf_size_bytes tree_file)) st)
              else act_bind (fetch_content tree_file) (\<lambda>fetched.
                     act_return (accept_content config path tree_file language fetched st)))"

fun plan_files ::
  "CodebaseScanConfig \<Rightarrow> (RepositoryTreeFile \<Rightarrow> ('w, worker_exception, (string \<times> int) option) github_action) \<Rightarrow>
   RepositoryTreeFile list \<Rightarrow> plan_state \<Rightarrow> ('w, worker_exception, plan_state) github_action" where
  "plan_files config fetch_content [] st = act_return st"
| "plan_files config fetch_content (f # fs) st =
     act_bind (plan_step config fetch_content f st) (plan_files config fetch_content fs)"

definition skip_counter :: "CodebaseSkippedPath list \<Rightarrow> obj" where
  \<comment> \<open>\<open>dict(Counter(item.reason for item in skipped))\<close>\<close>
  "skip_counter skips = (let reasons = map csp_reason skips
     in map (\<lambda>r. (r, JInt (int (count_list reasons r)))) (dedupe_keep_order reasons))"

definition plan_metrics :: "CodebaseScanConfig \<Rightarrow> RepositoryTreeFile list \<Rightarrow> plan_state \<Rightarrow> obj" where
  "plan_metrics config tree_files st =
     [(''treeFileCount'', JInt (int (length tree_files))),
      (''selectedFileCount'', JInt (int (length (pst_selected st)))),
      (''skippedFileCount'', JInt (int (length (pst_skipped st)))),
      (''selectedBytes'', JInt (pst_total st)),
      (''skipReasons'', JObj (skip_counter (pst_skipped st))),
      (''limits'', JObj [(''maxFiles'', JInt (scfg_max_files config)), (''maxTotalBytes'', JInt (scfg_max_total_bytes config)),
         (''maxFileBytes'', JInt (scfg_max_file_bytes config))])]"

definition scan_plan ::
  "CodebaseScanConfig \<Rightarrow> (RepositoryTreeFile \<Rightarrow> ('w, worker_exception, (string \<times> int) option) github_action) \<Rightarrow>
   RepositoryTreeFile list \<Rightarrow> ('w, worker_exception, CodebaseWorkspaceSelection) github_action" where
  "scan_plan config fetch_content tree_files =
     act_bind (plan_files config fetch_content (sort_key rtf_path tree_files)
       \<lparr> pst_selected = [], pst_skipped = [], pst_total = 0 \<rparr>) (\<lambda>st.
     act_return \<lparr> sel_files = pst_selected st, sel_skipped_paths = pst_skipped st,
       sel_metrics = plan_metrics config tree_files st \<rparr>)"

section \<open>What a plan holds\<close>

definition repository_path :: "string \<Rightarrow> bool" where
  \<comment> \<open>relative, without empty, dot and dot-dot segments, backslashes and NUL bytes\<close>
  "repository_path p \<longleftrightarrow> nonblank p \<and> CHR 0x00 \<notin> set p \<and> CHR 0x5C \<notin> set p \<and>
     (\<forall>part \<in> set (split_char (CHR ''/'') p). part \<noteq> [] \<and> part \<noteq> ''.'' \<and> part \<noteq> ''..'')"

lemma normalize_repo_path_Inr: "normalize_repo_path p = Inr q \<longleftrightarrow> q = p \<and> repository_path p"
  using path_str_plain [of p]
  by (auto simp: normalize_repo_path_def repository_path_def nonblank_def list_all_iff)

definition eligible :: "CodebaseScanConfig \<Rightarrow> RepositoryTreeFile \<Rightarrow> bool" where
  "eligible config f \<longleftrightarrow> skip_before_fetch config (rtf_path f) f (language_for_path (rtf_path f)) = None"

definition plan_within :: "CodebaseScanConfig \<Rightarrow> plan_state \<Rightarrow> bool" where
  "plan_within config st \<longleftrightarrow>
     int (length (pst_selected st)) \<le> max 0 (scfg_max_files config) \<and>
     pst_total st = sum_list (map scf_size_bytes (pst_selected st)) \<and>
     pst_total st \<le> max 0 (scfg_max_total_bytes config) \<and>
     list_all (\<lambda>f. scf_size_bytes f \<le> scfg_max_file_bytes config) (pst_selected st)"

definition selected_from ::
  "CodebaseScanConfig \<Rightarrow> (RepositoryTreeFile \<Rightarrow> ('w, worker_exception, (string \<times> int) option) github_action) \<Rightarrow>
   RepositoryTreeFile list \<Rightarrow> CodebaseScanFile \<Rightarrow> bool" where
  \<comment> \<open>the file is an eligible one of the listing, with the content that was fetched for it\<close>
  "selected_from config fetch_content fs s \<longleftrightarrow> (\<exists>f \<in> set fs. eligible config f \<and> repository_path (rtf_path f) \<and>
     scf_path s = rtf_path f \<and> scf_sha s = rtf_sha f \<and> Some (scf_language s) = language_for_path (rtf_path f) \<and>
     (\<exists>c c'. fetch_content f c = Some (Inr (Some (scf_content s, scf_size_bytes s)), c')))"

lemma scan_skip_path [simp]: "csp_path (scan_skip path reason detail n) = path"
  by (simp add: scan_skip_def)

lemma skip_before_fetch_path: "skip_before_fetch config path f language = Some s \<Longrightarrow> csp_path s = path"
  by (auto simp: skip_before_fetch_def Let_def split: if_splits)

lemma eligible_language: "eligible config f \<Longrightarrow> \<exists>l. language_for_path (rtf_path f) = Some l \<and> l \<noteq> []"
  using language_for_path_nonblank [of "rtf_path f"]
  by (cases "language_for_path (rtf_path f)") (auto simp: eligible_def skip_before_fetch_def Let_def split: if_splits)

definition round_kept :: "plan_state \<Rightarrow> RepositoryTreeFile \<Rightarrow> plan_state \<Rightarrow> bool" where
  \<comment> \<open>one round adds its file to exactly one of the two lists\<close>
  "round_kept st f st' \<longleftrightarrow>
     (\<exists>s. csp_path s = rtf_path f \<and> st' = plan_skip s st) \<or>
     (\<exists>s. scf_path s = rtf_path f \<and> st' = st\<lparr>pst_total := pst_total st + scf_size_bytes s, pst_selected := pst_selected st @ [s]\<rparr>)"

lemma plan_within_skip: "plan_within config (plan_skip s st) \<longleftrightarrow> plan_within config st"
  by (simp add: plan_within_def plan_skip_def)

lemma pst_plan_skip [simp]: "pst_selected (plan_skip s st) = pst_selected st"
  "pst_skipped (plan_skip s st) = pst_skipped st @ [s]" "pst_total (plan_skip s st) = pst_total st"
  by (simp_all add: plan_skip_def)

lemma accept_content_result:
  assumes "plan_within config st" and "int (length (pst_selected st)) < scfg_max_files config"
    and "eligible config f" and "repository_path (rtf_path f)" and "fetch_content f c = Some (Inr fetched, c')"
    and "f \<in> set fs" and "list_all (selected_from config fetch_content fs) (pst_selected st)"
  shows "plan_within config (accept_content config (rtf_path f) f (language_for_path (rtf_path f)) fetched st) \<and>
     list_all (selected_from config fetch_content fs)
       (pst_selected (accept_content config (rtf_path f) f (language_for_path (rtf_path f)) fetched st)) \<and>
     round_kept st f (accept_content config (rtf_path f) f (language_for_path (rtf_path f)) fetched st)"
proof -
  obtain l where l: "language_for_path (rtf_path f) = Some l" "l \<noteq> []" using eligible_language [OF assms(3)] by blast
  show ?thesis
  proof (cases "\<exists>content n. fetched = Some (content, n) \<and> n \<le> scfg_max_file_bytes config \<and>
      pst_total st + n \<le> scfg_max_total_bytes config")
    case True
    then obtain content n where n: "fetched = Some (content, n)" "n \<le> scfg_max_file_bytes config"
      "pst_total st + n \<le> scfg_max_total_bytes config" by blast
    let ?s = "\<lparr> scf_path = rtf_path f, scf_sha = rtf_sha f, scf_size_bytes = n, scf_language = l, scf_content = content \<rparr>"
    have eq: "accept_content config (rtf_path f) f (language_for_path (rtf_path f)) fetched st =
        st\<lparr>pst_total := pst_total st + scf_size_bytes ?s, pst_selected := pst_selected st @ [?s]\<rparr>"
      using n l by (simp add: accept_content_def or_else_def)
    have "selected_from config fetch_content fs ?s"
      using assms(3-6) l n unfolding selected_from_def by (intro bexI [of _ f]) auto
    moreover have "round_kept st f (st\<lparr>pst_total := pst_total st + scf_size_bytes ?s, pst_selected := pst_selected st @ [?s]\<rparr>)"
      unfolding round_kept_def by (intro disjI2 exI [of _ ?s]) simp
    ultimately show ?thesis using assms(1,2,7) n unfolding eq by (simp add: plan_within_def)
  next
    case False
    then have "\<exists>reason detail n. accept_content config (rtf_path f) f (language_for_path (rtf_path f)) fetched st =
        plan_skip (scan_skip (rtf_path f) reason detail n) st"
      unfolding accept_content_def by (auto simp: not_le split: option.splits prod.splits if_splits)
    then obtain s where "csp_path s = rtf_path f"
      and eq: "accept_content config (rtf_path f) f (language_for_path (rtf_path f)) fetched st = plan_skip s st"
      by (metis scan_skip_path)
    then have "round_kept st f (plan_skip s st)" by (auto simp: round_kept_def)
    with assms(1,7) show ?thesis unfolding eq by (simp add: plan_within_skip)
  qed
qed

lemma plan_step_result:
  assumes "plan_step config fetch_content f st c = Some (Inr st', c')" and "plan_within config st" and "f \<in> set fs"
    and "list_all (selected_from config fetch_content fs) (pst_selected st)"
  shows "plan_within config st' \<and> list_all (selected_from config fetch_content fs) (pst_selected st') \<and> round_kept st f st'"
proof (cases "\<exists>s. csp_path s = rtf_path f \<and> st' = plan_skip s st")
  case True
  with assms(2,4) show ?thesis by (auto simp: plan_within_skip round_kept_def)
next
  case False
  from assms(1) have path: "normalize_repo_path (rtf_path f) = Inr (rtf_path f)" "repository_path (rtf_path f)"
    by (auto simp: plan_step_def act_eq_Some normalize_repo_path_Inr)
  show ?thesis
  proof (cases "eligible config f \<and> int (length (pst_selected st)) < scfg_max_files config")
    case True
    with assms(1) path False obtain c1 fetched where "fetch_content f c = Some (Inr fetched, c1)"
      and "st' = accept_content config (rtf_path f) f (language_for_path (rtf_path f)) fetched st"
      by (auto simp: plan_step_def act_eq_Some eligible_def Let_def split: if_splits)
    with accept_content_result [of config st f fetch_content c fetched c1 fs] assms True path show ?thesis by blast
  next
    case skip: False
    with assms(1) path have "\<exists>s. csp_path s = rtf_path f \<and> st' = plan_skip s st"
      by (fastforce simp: plan_step_def act_eq_Some eligible_def Let_def dest: skip_before_fetch_path split: option.splits if_splits)
    with False show ?thesis by blast
  qed
qed

lemma plan_files_result:
  "plan_files config fetch_content gs st c = Some (Inr st', c') \<Longrightarrow> plan_within config st \<Longrightarrow> set gs \<subseteq> set fs \<Longrightarrow>
     list_all (selected_from config fetch_content fs) (pst_selected st) \<Longrightarrow>
     plan_within config st' \<and> list_all (selected_from config fetch_content fs) (pst_selected st') \<and>
     (\<exists>ss ks. pst_selected st' = pst_selected st @ ss \<and> pst_skipped st' = pst_skipped st @ ks \<and>
        subseq (map scf_path ss) (map rtf_path gs) \<and>
        mset (map scf_path ss) + mset (map csp_path ks) = mset (map rtf_path gs))"
proof (induction gs arbitrary: st c)
  case Nil
  then show ?case by (simp add: act_eq_Some)
next
  case (Cons g gs)
  from Cons.prems(1) obtain st1 c1 where step: "plan_step config fetch_content g st c = Some (Inr st1, c1)"
    and rest: "plan_files config fetch_content gs st1 c1 = Some (Inr st', c')"
    by (auto simp: act_eq_Some)
  have g: "g \<in> set fs" using Cons.prems(3) by simp
  from plan_step_result [OF step Cons.prems(2) g Cons.prems(4)]
  have st1: "plan_within config st1" "list_all (selected_from config fetch_content fs) (pst_selected st1)" "round_kept st g st1"
    by auto
  from Cons.IH [OF rest st1(1) _ st1(2)] Cons.prems(3) st1(3) show ?case
    unfolding round_kept_def by (auto simp: plan_skip_def)
qed

lemma scan_plan_result:
  assumes "scan_plan config fetch_content files c = Some (Inr sel, c')"
  obtains st where "plan_within config st" and "list_all (selected_from config fetch_content files) (pst_selected st)"
    and "subseq (map scf_path (pst_selected st)) (map rtf_path (sort_key rtf_path files))"
    and "mset (map scf_path (pst_selected st)) + mset (map csp_path (pst_skipped st)) = mset (map rtf_path files)"
    and "sel = \<lparr> sel_files = pst_selected st, sel_skipped_paths = pst_skipped st, sel_metrics = plan_metrics config files st \<rparr>"
proof -
  let ?start = "\<lparr> pst_selected = [], pst_skipped = [], pst_total = 0 \<rparr>"
  from assms obtain st where run: "plan_files config fetch_content (sort_key rtf_path files) ?start c = Some (Inr st, c')"
    and sel: "sel = \<lparr> sel_files = pst_selected st, sel_skipped_paths = pst_skipped st, sel_metrics = plan_metrics config files st \<rparr>"
    by (auto simp: scan_plan_def act_eq_Some)
  have "plan_within config st" "list_all (selected_from config fetch_content files) (pst_selected st)"
    "subseq (map scf_path (pst_selected st)) (map rtf_path (sort_key rtf_path files))"
    "mset (map scf_path (pst_selected st)) + mset (map csp_path (pst_skipped st)) = mset (map rtf_path files)"
    using plan_files_result [OF run, of files] by (auto simp: plan_within_def)
  with sel that show thesis by blast
qed

text \<open>C15: Whatever the fetches return, the plan of a codebase scan stays within its budgets: at most
  \<open>max_files\<close> files, \<open>max_total_bytes\<close> bytes in all and \<open>max_file_bytes\<close> in each. Every file of the listing is
  either selected or skipped, once; the selected ones come in the order of their paths, each is one that no
  exclusion rule applies to, and holds the content that was fetched for it. The reported byte count is theirs.\<close>

theorem scan_plan_within_budgets:
  assumes "scan_plan config fetch_content files c = Some (Inr sel, c')"
  shows "int (length (sel_files sel)) \<le> max 0 (scfg_max_files config) \<and>
     sum_list (map scf_size_bytes (sel_files sel)) \<le> max 0 (scfg_max_total_bytes config) \<and>
     list_all (\<lambda>f. scf_size_bytes f \<le> scfg_max_file_bytes config) (sel_files sel) \<and>
     mset (map scf_path (sel_files sel)) + mset (map csp_path (sel_skipped_paths sel)) = mset (map rtf_path files) \<and>
     subseq (map scf_path (sel_files sel)) (map rtf_path (sort_key rtf_path files)) \<and>
     list_all (selected_from config fetch_content files) (sel_files sel) \<and>
     obj_get (sel_metrics sel) ''selectedBytes'' = JInt (sum_list (map scf_size_bytes (sel_files sel)))"
  by (rule scan_plan_result [OF assms]) (simp add: plan_within_def plan_metrics_def)

section \<open>What a plan selects when the budgets suffice\<close>

definition fetches :: "(RepositoryTreeFile \<Rightarrow> ('w, 'e, (string \<times> int) option) github_action) \<Rightarrow> (RepositoryTreeFile \<Rightarrow> string \<times> int) \<Rightarrow> bool" where
  \<comment> \<open>every fetch returns the blob, whose content is fixed\<close>
  "fetches fetch_content blob \<longleftrightarrow> (\<forall>f c. \<exists>c'. fetch_content f c = Some (Inr (Some (blob f)), c'))"

definition scanned_file :: "(RepositoryTreeFile \<Rightarrow> string \<times> int) \<Rightarrow> RepositoryTreeFile \<Rightarrow> CodebaseScanFile" where
  "scanned_file blob f = \<lparr> scf_path = rtf_path f, scf_sha = rtf_sha f, scf_size_bytes = snd (blob f),
     scf_language = (case language_for_path (rtf_path f) of Some l \<Rightarrow> l | None \<Rightarrow> ''unknown''), scf_content = fst (blob f) \<rparr>"

definition scannable :: "CodebaseScanConfig \<Rightarrow> (RepositoryTreeFile \<Rightarrow> string \<times> int) \<Rightarrow> RepositoryTreeFile \<Rightarrow> bool" where
  \<comment> \<open>the blob has the size of the listing, if that gives one, and is not over the limit\<close>
  "scannable config blob f \<longleftrightarrow> 0 \<le> snd (blob f) \<and> snd (blob f) \<le> scfg_max_file_bytes config \<and>
     (case rtf_size_bytes f of Some n \<Rightarrow> n = snd (blob f) | None \<Rightarrow> True)"

lemma plan_step_eligible:
  assumes "fetches fetch_content blob" and "repository_path (rtf_path f)" and "eligible config f" and "scannable config blob f"
    and "pst_total st + snd (blob f) \<le> scfg_max_total_bytes config"
    and "int (length (pst_selected st)) < scfg_max_files config"
  shows "\<exists>c'. plan_step config fetch_content f st c = Some (Inr (st\<lparr>pst_total := pst_total st + snd (blob f),
     pst_selected := pst_selected st @ [scanned_file blob f]\<rparr>), c')"
proof -
  obtain l where l: "language_for_path (rtf_path f) = Some l" "l \<noteq> []" using eligible_language [OF assms(3)] by blast
  obtain c' where "fetch_content f c = Some (Inr (Some (blob f)), c')" using assms(1) by (auto simp: fetches_def)
  moreover have "normalize_repo_path (rtf_path f) = Inr (rtf_path f)" using assms(2) by (simp add: normalize_repo_path_Inr)
  moreover obtain content n where "blob f = (content, n)" by force
  ultimately show ?thesis using assms(3-6) l
    by (auto simp: plan_step_def act_eq_Some eligible_def scannable_def accept_content_def scanned_file_def or_else_def
        split: option.splits)
qed

lemma plan_step_not_eligible:
  assumes "repository_path (rtf_path f)" and "\<not> eligible config f"
  shows "\<exists>s. plan_step config fetch_content f st c = Some (Inr (plan_skip s st), c)"
proof -
  have "normalize_repo_path (rtf_path f) = Inr (rtf_path f)" using assms(1) by (simp add: normalize_repo_path_Inr)
  with assms(2) show ?thesis by (auto simp: plan_step_def act_eq_Some eligible_def)
qed

lemma plan_files_eligible:
  assumes "fetches fetch_content blob"
  shows "list_all (\<lambda>f. repository_path (rtf_path f)) fs \<Longrightarrow> list_all (scannable config blob) (filter (eligible config) fs) \<Longrightarrow>
     pst_total st + sum_list (map (snd \<circ> blob) (filter (eligible config) fs)) \<le> scfg_max_total_bytes config \<Longrightarrow>
     int (length (pst_selected st)) + int (length (filter (eligible config) fs)) \<le> scfg_max_files config \<Longrightarrow>
     \<exists>st' c'. plan_files config fetch_content fs st c = Some (Inr st', c') \<and>
       pst_selected st' = pst_selected st @ map (scanned_file blob) (filter (eligible config) fs)"
proof (induction fs arbitrary: st c)
  case (Cons f fs)
  have nonneg: "0 \<le> sum_list (map (snd \<circ> blob) (filter (eligible config) fs))"
    using Cons.prems(2) by (intro sum_list_nonneg) (auto simp: list_all_iff scannable_def split: if_splits)
  then have sums: "0 \<le> (\<Sum>a\<leftarrow>filter (eligible config) fs. snd (blob a))" by (simp add: comp_def)
  show ?case
  proof (cases "eligible config f")
    case True
    let ?st1 = "st\<lparr>pst_total := pst_total st + snd (blob f), pst_selected := pst_selected st @ [scanned_file blob f]\<rparr>"
    have "\<exists>c1. plan_step config fetch_content f st c = Some (Inr ?st1, c1)"
      by (rule plan_step_eligible [OF assms]) (use Cons.prems True sums in auto)
    then obtain c1 where "plan_step config fetch_content f st c = Some (Inr ?st1, c1)" by blast
    moreover have "\<exists>st' c'. plan_files config fetch_content fs ?st1 c1 = Some (Inr st', c') \<and>
        pst_selected st' = pst_selected ?st1 @ map (scanned_file blob) (filter (eligible config) fs)"
      by (rule Cons.IH) (use Cons.prems True in auto)
    ultimately show ?thesis using True by (auto simp: act_eq_Some)
  next
    case False
    with Cons.prems obtain s where "plan_step config fetch_content f st c = Some (Inr (plan_skip s st), c)"
      using plan_step_not_eligible by fastforce
    moreover have "\<exists>st' c'. plan_files config fetch_content fs (plan_skip s st) c = Some (Inr st', c') \<and>
        pst_selected st' = pst_selected (plan_skip s st) @ map (scanned_file blob) (filter (eligible config) fs)"
      by (rule Cons.IH) (use Cons.prems False in auto)
    ultimately show ?thesis using False by (auto simp: act_eq_Some)
  qed
qed (simp add: act_eq_Some)

text \<open>C28: When the eligible files fit the budgets, the blobs can be fetched and have their listed sizes, and every
  path is a relative one, the plan comes to an end and selects all of the eligible files, in the order of their
  paths, with the content of their blobs: nothing is lost to a budget.\<close>

theorem scan_plan_selects_all_that_fit:
  assumes "fetches fetch_content blob" and "list_all (\<lambda>f. repository_path (rtf_path f)) files"
    and "list_all (scannable config blob) (filter (eligible config) files)"
    and "sum_list (map (snd \<circ> blob) (filter (eligible config) files)) \<le> scfg_max_total_bytes config"
    and "int (length (filter (eligible config) files)) \<le> scfg_max_files config"
  shows "\<exists>sel c'. scan_plan config fetch_content files c = Some (Inr sel, c') \<and>
     sel_files sel = map (scanned_file blob) (sort_key rtf_path (filter (eligible config) files))"
proof -
  let ?start = "\<lparr> pst_selected = [], pst_skipped = [], pst_total = 0 \<rparr>"
  have "sum_list (map (snd \<circ> blob) (sort_key rtf_path (filter (eligible config) files))) =
      sum_list (map (snd \<circ> blob) (filter (eligible config) files))"
    by (metis mset_map mset_sort sum_mset_sum_list)
  moreover have "length (sort_key rtf_path (filter (eligible config) files)) = length (filter (eligible config) files)" by simp
  ultimately have "\<exists>st c'. plan_files config fetch_content (sort_key rtf_path files) ?start c = Some (Inr st, c') \<and>
      pst_selected st = pst_selected ?start @ map (scanned_file blob) (filter (eligible config) (sort_key rtf_path files))"
    by (intro plan_files_eligible) (use assms in \<open>auto simp: list_all_iff filter_sort\<close>)
  then show ?thesis by (fastforce simp: scan_plan_def act_eq_Some filter_sort)
qed

definition sample_scan_config :: CodebaseScanConfig where
  "sample_scan_config = CodebaseScanConfig_from_env ''/tmp'' (\<lambda>_. None)"

definition sample_tree_file :: "string \<Rightarrow> RepositoryTreeFile" where
  "sample_tree_file path = \<lparr> rtf_path = path, rtf_sha = ''a1'', rtf_size_bytes = Some 3 \<rparr>"

definition sample_scan_tree :: "RepositoryTreeFile list" where
  "sample_scan_tree = map sample_tree_file [''src/main.py'', ''node_modules/x.js'', ''a.ts'', ''logo.png'', ''lib/x.min.js'']"

definition sample_fetch :: "RepositoryTreeFile \<Rightarrow> (unit, worker_exception, (string \<times> int) option) github_action" where
  "sample_fetch f = act_return (Some (''x=1'', 3))"

definition sample_scan_client :: "unit github_client" where
  "sample_scan_client = \<lparr> gc_tokens = (\<lambda>_. None), gc_world = () \<rparr>"

theorem scan_plan_selects_all_that_fit_witness:
  "\<exists>sel c'. scan_plan sample_scan_config sample_fetch sample_scan_tree sample_scan_client = Some (Inr sel, c') \<and>
     sel_files sel = map (scanned_file (\<lambda>_. (''x=1'', 3))) (sort_key rtf_path (filter (eligible sample_scan_config) sample_scan_tree))"
proof (rule scan_plan_selects_all_that_fit)
  show "fetches sample_fetch (\<lambda>_. (''x=1'', 3))" by (simp add: fetches_def sample_fetch_def act_return_def)
  show "list_all (\<lambda>f. repository_path (rtf_path f)) sample_scan_tree" by code_simp
  have eligible: "filter (eligible sample_scan_config) sample_scan_tree = [sample_tree_file ''src/main.py'', sample_tree_file ''a.ts'']"
    by code_simp
  have limits: "scfg_max_file_bytes sample_scan_config = 500000" "scfg_max_total_bytes sample_scan_config = 10000000"
    "scfg_max_files sample_scan_config = 500" by code_simp+
  show "list_all (scannable sample_scan_config (\<lambda>_. (''x=1'', 3))) (filter (eligible sample_scan_config) sample_scan_tree)"
    and "sum_list (map (snd \<circ> (\<lambda>_. (''x=1'', 3))) (filter (eligible sample_scan_config) sample_scan_tree))
      \<le> scfg_max_total_bytes sample_scan_config"
    and "int (length (filter (eligible sample_scan_config) sample_scan_tree)) \<le> scfg_max_files sample_scan_config"
    by (simp_all add: eligible limits scannable_def sample_tree_file_def)
qed

theorem scan_plan_within_budgets_witness:
  "\<exists>sel c'. scan_plan sample_scan_config sample_fetch sample_scan_tree sample_scan_client = Some (Inr sel, c') \<and>
     int (length (sel_files sel)) \<le> max 0 (scfg_max_files sample_scan_config) \<and>
     mset (map scf_path (sel_files sel)) + mset (map csp_path (sel_skipped_paths sel)) = mset (map rtf_path sample_scan_tree)"
proof -
  have "case scan_plan sample_scan_config sample_fetch sample_scan_tree sample_scan_client of
      Some (r, _) \<Rightarrow> \<not> is_err r | None \<Rightarrow> False" by code_simp
  then obtain sel c' where run: "scan_plan sample_scan_config sample_fetch sample_scan_tree sample_scan_client = Some (Inr sel, c')"
    by (auto simp: is_err_def split: option.splits sum.splits)
  with scan_plan_within_budgets [OF run] show ?thesis by blast
qed

section \<open>Order of the listing, vendor directories\<close>

text \<open>A plan does not depend on the order in which GitHub lists the files, as long as their paths differ.\<close>

theorem scan_plan_ignores_listing_order:
  assumes "mset files = mset files'" and "distinct (map rtf_path files)"
  shows "scan_plan config fetch_content files c = scan_plan config fetch_content files' c"
proof -
  have "inj_on rtf_path (set files)" using assms(2) by (simp add: distinct_map)
  moreover have "mset files = mset (sort_key rtf_path files')" using assms(1) by simp
  ultimately have "sort_key rtf_path files = sort_key rtf_path files'"
    by (intro sort_key_inj_key_eq) auto
  moreover have "length files = length files'" using assms(1) by (metis size_mset)
  ultimately show ?thesis by (simp add: scan_plan_def plan_metrics_def)
qed

theorem scan_plan_ignores_listing_order_witness:
  "scan_plan sample_scan_config sample_fetch sample_scan_tree sample_scan_client =
   scan_plan sample_scan_config sample_fetch (rev sample_scan_tree) sample_scan_client"
  by (rule scan_plan_ignores_listing_order) code_simp+

definition vendor_directories :: "string list" where
  "vendor_directories = [''node_modules'', ''vendor'', ''dist'', ''build'', ''.next'', ''coverage'']"

lemma vendor_patterns_pairs:
  "matches_any path VENDOR_PATTERNS \<longleftrightarrow>
     (\<exists>d \<in> set vendor_directories. fnmatchcase (lower path) (d @ ''/*'') \<or> fnmatchcase (lower path) (''*/'' @ d @ ''/*''))"
proof -
  have "map lower VENDOR_PATTERNS = concat (map (\<lambda>d. [d @ ''/*'', ''*/'' @ d @ ''/*'']) vendor_directories)" by code_simp
  then have "set (map lower VENDOR_PATTERNS) = (\<Union>d \<in> set vendor_directories. {d @ ''/*'', ''*/'' @ d @ ''/*''})" by simp
  then show ?thesis by (auto simp: matches_any_def list_ex_iff image_iff set_eq_iff) (metis, metis, metis)
qed

text \<open>The vendor patterns exclude exactly the paths one of whose directories (not the file name) is called
  node\_modules, vendor, dist, build, .next or coverage, in any case of its letters.\<close>

theorem vendor_patterns_exclude_vendor_directories:
  "matches_any path VENDOR_PATTERNS \<longleftrightarrow>
     (\<exists>d \<in> set (butlast (split_char (CHR ''/'') (lower path))). d \<in> set vendor_directories)"
proof -
  have "list_all (\<lambda>d. plain_text d \<and> CHR ''/'' \<notin> set d) vendor_directories" by code_simp
  then show ?thesis
    unfolding vendor_patterns_pairs by (auto simp: list_all_iff fnmatch_directory simp del: append.simps)
qed

end
