(* ===== verification/ScanStore.thy ===== *)
theory ScanStore
  imports ScanPlanner PyAction
begin

text \<open>
  codebase_scan.py, \<open>PostgresCodebaseScanStore\<close>: what each method's statements do to the tables of
  ScanTables. A method takes the time of its statement and, where a row is inserted, the new identifier, and
  returns the tables with what it returns or raises.
\<close>

section \<open>Findings\<close>

record codebase_finding =
  cbf_schema_version :: string
  cbf_scan_run_id :: string
  cbf_repository_id :: string
  cbf_repository_full_name :: string
  cbf_default_branch :: string
  cbf_commit_sha :: string
  cbf_source :: string
  cbf_category :: string
  cbf_severity :: string
  cbf_confidence :: string
  cbf_file_path :: "string option"
  cbf_start_line :: "int option"
  cbf_end_line :: "int option"
  cbf_title :: string
  cbf_body :: string
  cbf_evidence :: "obj list"
  cbf_recommendation :: string
  cbf_dedupe_key :: string
  cbf_status :: string

definition finding_obj :: "codebase_finding \<Rightarrow> obj" where
  \<comment> \<open>the dictionary the record stands for\<close>
  "finding_obj a = [
       (''schemaVersion'', JStr (cbf_schema_version a)),
       (''scanRunId'', JStr (cbf_scan_run_id a)),
       (''repositoryId'', JStr (cbf_repository_id a)),
       (''repositoryFullName'', JStr (cbf_repository_full_name a)),
       (''defaultBranch'', JStr (cbf_default_branch a)),
       (''commitSha'', JStr (cbf_commit_sha a)),
       (''source'', JStr (cbf_source a)),
       (''category'', JStr (cbf_category a)),
       (''severity'', JStr (cbf_severity a)),
       (''confidence'', JStr (cbf_confidence a)),
       (''filePath'', opt_json JStr (cbf_file_path a)),
       (''startLine'', opt_json JInt (cbf_start_line a)),
       (''endLine'', opt_json JInt (cbf_end_line a)),
       (''title'', JStr (cbf_title a)),
       (''body'', JStr (cbf_body a)),
       (''evidence'', JList (map JObj (cbf_evidence a))),
       (''recommendation'', JStr (cbf_recommendation a)),
       (''dedupeKey'', JStr (cbf_dedupe_key a)),
       (''status'', JStr (cbf_status a)),
       (''firstSeenAt'', JNull),
       (''lastSeenAt'', JNull),
       (''resolvedAt'', JNull)]"

section \<open>Runs\<close>

definition assert_repository_enabled :: "CodebaseScanJobInput \<Rightarrow> scan_db \<Rightarrow> scan_db \<times> (worker_exception + unit)" where
  "assert_repository_enabled payload db =
     (case repository_join (\<lambda>r. repo_id r = cj_repository_id payload \<and> repo_full_name r = cj_repository_full_name payload \<and>
             repo_enabled r) (cj_installation_id payload) db of
        Some _ \<Rightarrow> (db, Inr ())
      | None \<Rightarrow> (db, Inl (CodebaseScanPipelineError ''repository_not_enabled''
          ''Repository is not enabled or installation ownership could not be verified.'')))"

definition has_successful_scan :: "string \<Rightarrow> string \<Rightarrow> string \<Rightarrow> scan_db \<Rightarrow> bool" where
  "has_successful_scan repository_id commit_sha scan_run_id db =
     list_ex (\<lambda>r. sr_repository_id r = repository_id \<and> sr_commit_sha r = Some commit_sha \<and> sr_status r = ''succeeded'' \<and>
       sr_id r \<noteq> scan_run_id) (db_scan_runs db)"

definition update_scan_run :: "(scan_run \<Rightarrow> scan_run) \<Rightarrow> string \<Rightarrow> scan_db \<Rightarrow> scan_db \<times> (worker_exception + unit)" where
  "update_scan_run f scan_run_id db = put_scan_runs (update_where (\<lambda>r. sr_id r = scan_run_id) f (db_scan_runs db)) db"

definition scan_mark_running :: "int \<Rightarrow> string \<Rightarrow> string \<Rightarrow> string \<Rightarrow> obj \<Rightarrow> scan_db \<Rightarrow> scan_db \<times> (worker_exception + unit)" where
  "scan_mark_running now scan_run_id commit_sha default_branch metrics = update_scan_run (\<lambda>r. r\<lparr>sr_status := ''running'',
     sr_started_at := coalesce (sr_started_at r) now, sr_commit_sha := Some commit_sha, sr_default_branch := default_branch,
     sr_error_json := [], sr_metrics_json := metrics, sr_updated_at := now\<rparr>) scan_run_id"

definition scan_mark_succeeded :: "int \<Rightarrow> string \<Rightarrow> obj \<Rightarrow> json list \<Rightarrow> scan_db \<Rightarrow> scan_db \<times> (worker_exception + unit)" where
  "scan_mark_succeeded now scan_run_id metrics artifacts = update_scan_run (\<lambda>r. r\<lparr>sr_status := ''succeeded'',
     sr_finished_at := coalesce (sr_finished_at r) now, sr_error_json := [], sr_metrics_json := metrics,
     sr_artifacts_json := artifacts, sr_updated_at := now\<rparr>) scan_run_id"

definition scan_mark_failed :: "int \<Rightarrow> string \<Rightarrow> obj \<Rightarrow> obj \<Rightarrow> scan_db \<Rightarrow> scan_db \<times> (worker_exception + unit)" where
  "scan_mark_failed now scan_run_id error metrics = update_scan_run (\<lambda>r. r\<lparr>sr_status := ''failed'',
     sr_finished_at := coalesce (sr_finished_at r) now, sr_error_json := error, sr_metrics_json := metrics,
     sr_updated_at := now\<rparr>) scan_run_id"

definition scan_mark_superseded :: "int \<Rightarrow> string \<Rightarrow> string \<Rightarrow> obj \<Rightarrow> scan_db \<Rightarrow> scan_db \<times> (worker_exception + unit)" where
  "scan_mark_superseded now scan_run_id commit_sha metrics = update_scan_run (\<lambda>r. r\<lparr>sr_status := ''superseded'',
     sr_commit_sha := Some commit_sha, sr_finished_at := coalesce (sr_finished_at r) now, sr_metrics_json := metrics,
     sr_updated_at := now\<rparr>) scan_run_id"

section \<open>Storing findings\<close>

definition dismissed :: "scan_finding \<Rightarrow> bool" where
  "dismissed f \<longleftrightarrow> sf_status f \<in> set [''suppressed'', ''false_positive'']"

definition new_finding_row :: "string \<Rightarrow> int \<Rightarrow> string \<Rightarrow> codebase_finding \<Rightarrow> scan_finding" where
  "new_finding_row uuid now repository_id finding =
     \<lparr> sf_id = uuid, sf_scan_run_id = cbf_scan_run_id finding, sf_repository_id = repository_id,
       sf_source = cbf_source finding, sf_category = cbf_category finding, sf_severity = cbf_severity finding,
       sf_confidence = cbf_confidence finding, sf_file_path = cbf_file_path finding, sf_start_line = cbf_start_line finding,
       sf_end_line = cbf_end_line finding, sf_title = cbf_title finding, sf_body = cbf_body finding,
       sf_evidence_json = JList (map JObj (cbf_evidence finding)), sf_recommendation = Some (cbf_recommendation finding),
       sf_dedupe_key = cbf_dedupe_key finding, sf_status = ''open'', sf_first_seen_at = now, sf_last_seen_at = now,
       sf_resolved_at = None, sf_updated_at = now \<rparr>"

definition refreshed_finding_row :: "scan_finding \<Rightarrow> scan_finding \<Rightarrow> scan_finding" where
  \<comment> \<open>\<open>ON CONFLICT ... DO UPDATE\<close>: first the row that would have been inserted, then the one that is there\<close>
  "refreshed_finding_row new old =
     new\<lparr>sf_id := sf_id old, sf_first_seen_at := sf_first_seen_at old,
         sf_status := if dismissed old then sf_status old else ''open'',
         sf_resolved_at := if dismissed old then sf_resolved_at old else None\<rparr>"

definition same_finding :: "scan_finding \<Rightarrow> scan_finding \<Rightarrow> bool" where
  "same_finding f g \<longleftrightarrow> sf_repository_id f = sf_repository_id g \<and> sf_dedupe_key f = sf_dedupe_key g"

definition upsert_row :: "scan_finding \<Rightarrow> scan_finding list \<Rightarrow> scan_finding list" where
  "upsert_row = upsert_on (\<lambda>f. Some (sf_repository_id f, sf_dedupe_key f)) refreshed_finding_row"

definition upsert_finding :: "string \<Rightarrow> int \<Rightarrow> string \<Rightarrow> codebase_finding \<Rightarrow> scan_db \<Rightarrow> scan_db \<times> (worker_exception + unit)" where
  "upsert_finding uuid now repository_id finding db =
     put_findings (upsert_row (new_finding_row uuid now repository_id finding) (db_findings db)) db"

definition stale_finding :: "string \<Rightarrow> string list \<Rightarrow> scan_finding \<Rightarrow> bool" where
  "stale_finding repository_id observed f \<longleftrightarrow> sf_repository_id f = repository_id \<and> sf_status f = ''open'' \<and>
     sf_dedupe_key f \<notin> set observed"

definition resolve_finding :: "int \<Rightarrow> scan_finding \<Rightarrow> scan_finding" where
  "resolve_finding now f = f\<lparr>sf_status := ''resolved'', sf_resolved_at := Some now, sf_updated_at := now\<rparr>"

definition resolve_stale_findings :: "int \<Rightarrow> string \<Rightarrow> string \<Rightarrow> string list \<Rightarrow> scan_db \<Rightarrow> scan_db \<times> (worker_exception + int)" where
  "resolve_stale_findings now scan_run_id repository_id observed db =
     (case find (\<lambda>r. sr_id r = scan_run_id \<and> sr_repository_id r = repository_id) (db_scan_runs db) of
        None \<Rightarrow> (db, Inr 0)
      | Some r \<Rightarrow>
          if sr_status r \<noteq> ''succeeded'' then (db, Inr 0)
          else (case put_findings (update_where (stale_finding repository_id observed) (resolve_finding now) (db_findings db)) db of
              (db', Inl e) \<Rightarrow> (db', Inl e)
            | (db', Inr _) \<Rightarrow> (db', Inr (int (length (filter (stale_finding repository_id observed) (db_findings db)))))))"

lemma upsert_row_cases:
  "upsert_row new fs = (if list_ex (same_finding new) fs then update_where (same_finding new) (refreshed_finding_row new) fs
     else fs @ [new])"
proof -
  have "(\<lambda>f. Some (sf_repository_id f, sf_dedupe_key f) = Some (sf_repository_id new, sf_dedupe_key new)) = same_finding new"
    by (auto simp: same_finding_def fun_eq_iff)
  then show ?thesis by (simp add: upsert_row_def upsert_on_def)
qed

section \<open>Constraints are kept\<close>

lemma put_keeps_ok:
  "scan_db_ok db \<Longrightarrow> map sr_id rs = map sr_id (db_scan_runs db) \<Longrightarrow> scan_db_ok (fst (put_scan_runs rs db))"
  "scan_db_ok db \<Longrightarrow> scan_db_ok (fst (put_findings fs db))"
  by (auto simp: put_scan_runs_def put_findings_def scan_db_ok_def scan_findings_ok_def simp flip: set_map)

lemma update_scan_run_ok:
  assumes "scan_db_ok db" and "\<And>r. sr_id (f r) = sr_id r"
  shows "scan_db_ok (fst (update_scan_run f i db))"
  using assms by (simp add: update_scan_run_def put_keeps_ok(1) map_update_where)

lemma upsert_finding_ok: "scan_db_ok db \<Longrightarrow> scan_db_ok (fst (upsert_finding uuid now r f db))"
  by (simp add: upsert_finding_def put_keeps_ok(2))

lemma resolve_stale_findings_ok: "scan_db_ok db \<Longrightarrow> scan_db_ok (fst (resolve_stale_findings now i r ks db))"
  using put_keeps_ok(2) [of db "update_where (stale_finding r ks) (resolve_finding now) (db_findings db)"]
  by (auto simp: resolve_stale_findings_def split: option.splits prod.splits sum.splits)

section \<open>The status of every finding\<close>

text \<open>What the table says of a repository's finding, and the abstract effect of the two statements on it.\<close>

definition finding_status :: "scan_finding list \<Rightarrow> string \<times> string \<Rightarrow> string option" where
  "finding_status fs = map_of (map (\<lambda>f. ((sf_repository_id f, sf_dedupe_key f), sf_status f)) fs)"

definition seen_status :: "string option \<Rightarrow> string" where
  \<comment> \<open>of a finding that was seen again\<close>
  "seen_status old = (case old of Some s \<Rightarrow> if s \<in> set [''suppressed'', ''false_positive''] then s else ''open'' | None \<Rightarrow> ''open'')"

lemma finding_status_update_where:
  assumes "\<And>f. sf_repository_id (g f) = sf_repository_id f \<and> sf_dedupe_key (g f) = sf_dedupe_key f"
    and "\<And>f. f \<in> set fs \<Longrightarrow> sf_status (if P f then g f else f) = h (sf_repository_id f, sf_dedupe_key f) (sf_status f)"
  shows "finding_status (update_where P g fs) k = map_option (h k) (finding_status fs k)"
  using assms(2)
proof (induction fs)
  case (Cons f fs)
  then show ?case using assms(1) by (auto simp: finding_status_def update_where_def)
qed (simp add: finding_status_def update_where_def)

lemma finding_status_append_new:
  assumes "\<not> list_ex (same_finding new) fs"
  shows "finding_status (fs @ [new]) = (finding_status fs)((sf_repository_id new, sf_dedupe_key new) \<mapsto> sf_status new)"
  using assms
proof (induction fs)
  case (Cons f fs)
  then show ?case by (auto simp: finding_status_def same_finding_def fun_eq_iff)
qed (simp add: finding_status_def)

lemma finding_status_None: "finding_status fs (r, k) = None \<longleftrightarrow> (\<forall>f \<in> set fs. sf_repository_id f = r \<longrightarrow> sf_dedupe_key f \<noteq> k)"
  by (auto simp: finding_status_def map_of_eq_None_iff image_iff)

lemma same_finding_iff: "same_finding new f \<longleftrightarrow> (sf_repository_id f, sf_dedupe_key f) = (sf_repository_id new, sf_dedupe_key new)"
  by (auto simp: same_finding_def)

lemma refreshed_keys: "sf_repository_id (refreshed_finding_row new old) = sf_repository_id new"
  "sf_dedupe_key (refreshed_finding_row new old) = sf_dedupe_key new"
  by (simp_all add: refreshed_finding_row_def)

lemma refreshed_status: "sf_status (refreshed_finding_row new old) = seen_status (Some (sf_status old))"
  by (simp add: refreshed_finding_row_def seen_status_def dismissed_def)

lemma upsert_row_status:
  assumes "sf_status new = ''open''"
  shows "finding_status (upsert_row new fs) = (finding_status fs)((sf_repository_id new, sf_dedupe_key new) \<mapsto>
     seen_status (finding_status fs (sf_repository_id new, sf_dedupe_key new)))"
proof -
  let ?key = "(sf_repository_id new, sf_dedupe_key new)"
  show ?thesis
  proof (cases "list_ex (same_finding new) fs")
    case False
    then have "finding_status fs ?key = None" by (simp add: finding_status_None list_ex_iff same_finding_def) metis
    with False assms show ?thesis
      by (simp add: upsert_row_cases finding_status_append_new seen_status_def del: fun_upd_apply)
  next
    case True
    then obtain f where "f \<in> set fs" "sf_repository_id f = sf_repository_id new" "sf_dedupe_key f = sf_dedupe_key new"
      by (auto simp: list_ex_iff same_finding_def)
    then have "finding_status fs ?key \<noteq> None" by (auto simp: finding_status_None)
    then obtain old where old: "finding_status fs ?key = Some old" by blast
    have "finding_status (update_where (same_finding new) (\<lambda>f. if same_finding new f then refreshed_finding_row new f else f) fs) k =
        map_option (\<lambda>s. if k = ?key then seen_status (Some s) else s) (finding_status fs k)" for k
      by (rule finding_status_update_where)
        (auto simp: same_finding_iff refreshed_status refreshed_keys)
    moreover have "update_where (same_finding new) (\<lambda>f. if same_finding new f then refreshed_finding_row new f else f) fs =
        update_where (same_finding new) (refreshed_finding_row new) fs" by (simp add: update_where_def)
    ultimately show ?thesis using True old by (auto simp: upsert_row_cases fun_eq_iff option.map_ident)
  qed
qed

lemma resolve_stale_status:
  "finding_status (update_where (stale_finding r observed) (resolve_finding now) fs) =
     (\<lambda>k. map_option (\<lambda>s. if fst k = r \<and> s = ''open'' \<and> snd k \<notin> set observed then ''resolved'' else s) (finding_status fs k))"
  by (rule ext, rule finding_status_update_where) (auto simp: resolve_finding_def stale_finding_def)

section \<open>What a user dismissed stays dismissed\<close>

text \<open>Any sequence of the store's methods, of any number of scans.\<close>

inductive store_step :: "scan_db \<Rightarrow> scan_db \<Rightarrow> bool" where
  running: "store_step db (fst (scan_mark_running now i sha branch metrics db))"
| succeeded: "store_step db (fst (scan_mark_succeeded now i metrics artifacts db))"
| failed: "store_step db (fst (scan_mark_failed now i error metrics db))"
| superseded: "store_step db (fst (scan_mark_superseded now i sha metrics db))"
| upsert: "store_step db (fst (upsert_finding uuid now r finding db))"
| resolve: "store_step db (fst (resolve_stale_findings now i r observed db))"

lemma update_scan_run_findings [simp]: "db_findings (fst (update_scan_run f i db)) = db_findings db"
  by (simp add: update_scan_run_def put_scan_runs_def)

lemmas scan_mark_defs = scan_mark_running_def scan_mark_succeeded_def scan_mark_failed_def scan_mark_superseded_def

definition kept_row :: "scan_finding \<Rightarrow> scan_finding \<Rightarrow> bool" where
  "kept_row f f' \<longleftrightarrow> same_finding f f' \<and> sf_id f' = sf_id f \<and> sf_status f' = sf_status f \<and>
     sf_resolved_at f' = sf_resolved_at f \<and> sf_first_seen_at f' = sf_first_seen_at f"

lemma kept_row_refl: "kept_row f f"
  by (simp add: kept_row_def same_finding_def)

lemma kept_row_trans: "kept_row f g \<Longrightarrow> kept_row g h \<Longrightarrow> kept_row f h"
  by (auto simp: kept_row_def same_finding_def)

lemma update_where_keeps_dismissed:
  assumes "f \<in> set fs" and "P f \<Longrightarrow> kept_row f (g f)"
  shows "\<exists>f' \<in> set (update_where P g fs). kept_row f f'"
  using assms kept_row_refl [of f] by (cases "P f") (force simp: update_where_def)+

lemma put_findings_keeps:
  assumes "f \<in> set (db_findings db)" and "\<exists>f' \<in> set fs. kept_row f f'"
  shows "\<exists>f' \<in> set (db_findings (fst (put_findings fs db))). kept_row f f'"
  using assms kept_row_refl [of f] by (auto simp: put_findings_def)

lemma store_step_keeps_dismissed:
  assumes "store_step db db'" and f: "f \<in> set (db_findings db)" and "dismissed f"
  shows "\<exists>f' \<in> set (db_findings db'). kept_row f f'"
  using assms(1)
proof (cases rule: store_step.cases)
  case (upsert uuid now r finding)
  let ?new = "new_finding_row uuid now r finding"
  have "kept_row f (refreshed_finding_row ?new f)" if "same_finding ?new f"
    using that \<open>dismissed f\<close> by (auto simp: kept_row_def refreshed_finding_row_def same_finding_def)
  then have "\<exists>f' \<in> set (upsert_row ?new (db_findings db)). kept_row f f'"
    using update_where_keeps_dismissed [OF f, of "same_finding ?new"] f kept_row_refl [of f]
    by (auto simp: upsert_row_cases)
  with put_findings_keeps [OF f] show ?thesis unfolding upsert upsert_finding_def by blast
next
  case (resolve now i r observed)
  have "\<not> stale_finding r observed f" using \<open>dismissed f\<close> by (auto simp: dismissed_def stale_finding_def)
  then have "\<exists>f' \<in> set (update_where (stale_finding r observed) (resolve_finding now) (db_findings db)). kept_row f f'"
    using update_where_keeps_dismissed [OF f] by blast
  from put_findings_keeps [OF f this] show ?thesis using f kept_row_refl [of f]
    unfolding resolve by (auto simp: resolve_stale_findings_def split: option.splits prod.splits sum.splits)
qed (use f kept_row_refl [of f] in \<open>auto simp: scan_mark_defs\<close>)

text \<open>C18: A finding that was suppressed or marked as a false positive keeps that status, its resolution time and
  the time it was first seen through any sequence of the store's statements: no later scan opens it again,
  and none resolves it.\<close>

theorem dismissed_findings_stay_dismissed:
  assumes "store_step\<^sup>*\<^sup>* db db'" and "f \<in> set (db_findings db)" and "dismissed f"
  shows "\<exists>f' \<in> set (db_findings db'). kept_row f f'"
  using assms(1)
proof (induction rule: rtranclp_induct)
  case base
  with assms(2) kept_row_refl [of f] show ?case by blast
next
  case (step db1 db2)
  then obtain f1 where f1: "f1 \<in> set (db_findings db1)" "kept_row f f1" by blast
  with assms(3) have "dismissed f1" by (auto simp: kept_row_def dismissed_def)
  with store_step_keeps_dismissed [OF step.hyps(2) f1(1)] f1(2) show ?case by (blast intro: kept_row_trans)
qed

definition sample_codebase_finding :: codebase_finding where
  "sample_codebase_finding = \<lparr> cbf_schema_version = CODEBASE_SCAN_FINDING_SCHEMA_VERSION, cbf_scan_run_id = ''s'',
     cbf_repository_id = ''r'', cbf_repository_full_name = ''o/n'', cbf_default_branch = ''main'', cbf_commit_sha = ''c0'',
     cbf_source = ''semgrep'', cbf_category = ''bug'', cbf_severity = ''high'', cbf_confidence = ''high'',
     cbf_file_path = Some ''a.py'', cbf_start_line = Some 3, cbf_end_line = Some 4, cbf_title = ''t'', cbf_body = ''b'',
     cbf_evidence = [[]], cbf_recommendation = ''fix'', cbf_dedupe_key = ''k'', cbf_status = ''open'' \<rparr>"

definition sample_run_row :: scan_run where
  "sample_run_row = \<lparr> sr_id = ''s'', sr_repository_id = ''r'', sr_installation_row = ''i'', sr_trigger = ''manual'',
     sr_default_branch = ''main'', sr_commit_sha = None, sr_status = ''queued'', sr_started_at = None, sr_finished_at = None,
     sr_error_json = [], sr_metrics_json = [], sr_artifacts_json = [], sr_updated_at = 0 \<rparr>"

definition sample_suppressed_row :: scan_finding where
  "sample_suppressed_row = (new_finding_row ''f0'' 1 ''r'' sample_codebase_finding)\<lparr>sf_status := ''suppressed''\<rparr>"

definition sample_scan_db :: scan_db where
  "sample_scan_db = \<lparr> db_installations = [\<lparr> inst_id = ''i'', inst_installation_id = 7 \<rparr>],
     db_repositories = [\<lparr> repo_id = ''r'', repo_installation = ''i'', repo_full_name = ''o/n'', repo_owner = ''o'', repo_name = ''n'', repo_enabled = True \<rparr>],
     db_scan_runs = [sample_run_row], db_findings = [sample_suppressed_row] \<rparr>"

theorem dismissed_findings_stay_dismissed_witness:
  "\<exists>f' \<in> set (db_findings (fst (resolve_stale_findings 7 ''s'' ''r'' [] (fst (upsert_finding ''u'' 5 ''r'' sample_codebase_finding
      (fst (scan_mark_succeeded 4 ''s'' [] [] sample_scan_db))))))). kept_row sample_suppressed_row f'"
proof (rule dismissed_findings_stay_dismissed)
  show "store_step\<^sup>*\<^sup>* sample_scan_db (fst (resolve_stale_findings 7 ''s'' ''r'' [] (fst (upsert_finding ''u'' 5 ''r'' sample_codebase_finding
      (fst (scan_mark_succeeded 4 ''s'' [] [] sample_scan_db))))))"
    by (rule converse_rtranclp_into_rtranclp, rule store_step.succeeded, rule converse_rtranclp_into_rtranclp,
        rule store_step.upsert, rule converse_rtranclp_into_rtranclp, rule store_step.resolve, rule rtranclp.rtrancl_refl)
qed (simp_all add: sample_scan_db_def sample_suppressed_row_def dismissed_def)

end
