(* ===== verification/ScanRun.thy ===== *)
theory ScanRun
  imports ScanFindings SemgrepWorkspace
begin

text \<open>
  codebase_scan.py, \<open>CodebaseScanPipeline.run\<close>: the whole of a scan, as an action on the GitHub client, the
  tables and the metrics collected so far. Services outside the worker are parameters: the GitHub API, the
  Semgrep process, the tree-sitter extraction, the language model, writing an artifact file, clocks, new
  identifiers, SHA-256 and \<open>json.dumps\<close>. The n-th statement of a run gets the n-th time and identifier.
\<close>

section \<open>State and services\<close>

record 'w scan_state =
  sst_client :: "'w github_client"
  sst_db :: scan_db
  sst_tick :: nat
  sst_metrics :: obj

record 'w scan_services =
  svc_api :: "'w github_api"
  svc_wide :: "nat \<Rightarrow> char"                                 \<comment> \<open>for code points beyond U+00FF\<close>
  svc_semgrep :: "string \<Rightarrow> workspace_state \<Rightarrow> worker_exception + obj"
  svc_tree_sitter :: "string \<Rightarrow> (string \<times> string) list \<Rightarrow> worker_exception + obj"
  svc_llm :: "scan_llm_client option"
  svc_write :: "string \<Rightarrow> string \<Rightarrow> worker_exception option"     \<comment> \<open>path and text of a file\<close>
  svc_retention :: "int \<Rightarrow> string"                           \<comment> \<open>the date after so many days\<close>
  svc_sha256 :: "string \<Rightarrow> string"
  svc_dumps :: "json \<Rightarrow> string"
  svc_uuid :: "nat \<Rightarrow> string"
  svc_clock :: "nat \<Rightarrow> int"
  svc_elapsed_ms :: "nat \<Rightarrow> int"

type_synonym ('w, 'a) scan_op = "('w scan_state, worker_exception, 'a) action"

definition scan_github :: "('w, worker_exception, 'a) github_action \<Rightarrow> ('w, 'a) scan_op" where
  "scan_github m = act_zoom sst_client (\<lambda>c s. s\<lparr>sst_client := c\<rparr>) m"

definition scan_sql :: "'w scan_services \<Rightarrow> (string \<Rightarrow> int \<Rightarrow> scan_db \<Rightarrow> scan_db \<times> (worker_exception + 'a)) \<Rightarrow> ('w, 'a) scan_op" where
  "scan_sql svc f = (\<lambda>s. case f (svc_uuid svc (sst_tick s)) (svc_clock svc (sst_tick s)) (sst_db s) of
      (db, r) \<Rightarrow> Some (r, s\<lparr>sst_db := db, sst_tick := Suc (sst_tick s)\<rparr>))"

definition scan_metric :: "string \<Rightarrow> json \<Rightarrow> ('w, unit) scan_op" where
  \<comment> \<open>\<open>metrics[key] = value\<close>\<close>
  "scan_metric key value = (\<lambda>s. Some (Inr (), s\<lparr>sst_metrics := AList.update key value (sst_metrics s)\<rparr>))"

definition scan_duration :: "'w scan_services \<Rightarrow> ('w, unit) scan_op" where
  "scan_duration svc = (\<lambda>s. scan_metric ''durationMs'' (JInt (max (svc_elapsed_ms svc (sst_tick s)) 0)) s)"

definition with_metrics :: "(obj \<Rightarrow> ('w, 'a) scan_op) \<Rightarrow> ('w, 'a) scan_op" where
  "with_metrics f = (\<lambda>s. f (sst_metrics s) s)"

section \<open>Semgrep and tree-sitter\<close>

definition skipped_to_artifact :: "CodebaseSkippedPath \<Rightarrow> json" where
  "skipped_to_artifact item = JObj [(''path'', JStr (csp_path item)), (''reason'', JStr (csp_reason item)),
     (''detail'', JStr (csp_detail item)), (''sizeBytes'', opt_json JInt (csp_size_bytes item)),
     (''excludedFromSemgrep'', JBool (csp_excluded_from_semgrep item)),
     (''excludedFromTreeSitter'', JBool (csp_excluded_from_tree_sitter item)),
     (''excludedFromLlmContext'', JBool (csp_excluded_from_llm_context item))]"

definition empty_semgrep_artifact :: "CodebaseScanContext \<Rightarrow> CodebaseSkippedPath list \<Rightarrow> obj" where
  "empty_semgrep_artifact context skipped_paths =
     [(''schemaVersion'', JStr ''semgrep-artifact/v1''), (''reviewRunId'', JStr (ctx_scan_run_id context)),
      (''toolVersion'', JNull), (''exitCode'', JInt 0), (''durationMs'', JInt 0), (''findings'', JList []), (''errors'', JList []),
      (''paths'', JObj [(''scanned'', JList []), (''skipped'', JList (map skipped_to_artifact skipped_paths))])]"

definition scan_input :: "CodebaseScanFile \<Rightarrow> ChangedFileScanInput" where
  "scan_input f = \<lparr> csi_path = scf_path f, csi_content = scf_content f, csi_status = ''modified'',
     csi_language = Some (scf_language f) \<rparr>"

definition workspace_exception :: "workspace_error \<Rightarrow> worker_exception" where
  "workspace_exception e = (case e of
      SemgrepScanWorkspaceError m \<Rightarrow> \<lparr> we_class = ''SemgrepScanWorkspaceError'', we_text = m, we_error_code = None \<rparr>
    | WorkspaceOSError m \<Rightarrow> \<lparr> we_class = ''OSError'', we_text = m, we_error_code = None \<rparr>)"

definition add_skipped_paths :: "CodebaseSkippedPath list \<Rightarrow> obj \<Rightarrow> obj" where
  "add_skipped_paths skips artifact = (let paths = pv_object (obj_get artifact ''paths'')
     in AList.update ''paths'' (JObj (AList.update ''skipped''
          (JList (pv_list (obj_get paths ''skipped'') @ map skipped_to_artifact skips)) paths)) artifact)"

definition scan_run_semgrep :: "'w scan_services \<Rightarrow> CodebaseScanContext \<Rightarrow> CodebaseWorkspaceSelection \<Rightarrow> worker_exception + obj" where
  "scan_run_semgrep svc context selection =
     (if sel_files selection = [] then Inr (empty_semgrep_artifact context (sel_skipped_paths selection))
      else bind_sum (map_sum workspace_exception id (populate_workspace (map scan_input (sel_files selection)))) (\<lambda>ws.
        if ws_targets ws = [] then Inr (empty_semgrep_artifact context (sel_skipped_paths selection))
        else (case svc_semgrep svc (ctx_scan_run_id context) ws of
            Inl e \<Rightarrow> Inl (if we_class e = ''SemgrepProcessError''
              then CodebaseScanPipelineError ''semgrep_process_error'' (we_text e) else e)
          | Inr result \<Rightarrow> Inr (add_skipped_paths (sel_skipped_paths selection) (pv_object (fst (redact_value (JObj result))))))))"

definition scan_run_tree_sitter :: "'w scan_services \<Rightarrow> CodebaseScanContext \<Rightarrow> CodebaseScanFile list \<Rightarrow> obj" where
  "scan_run_tree_sitter svc context files =
     (let empty = [(''schemaVersion'', JStr TREE_SITTER_ARTIFACT_SCHEMA_VERSION), (''reviewRunId'', JStr (ctx_scan_run_id context)),
            (''parserVersion'', JNull), (''files'', JList [])]
      in if files = [] then empty
         else pv_object (fst (redact_value (JObj
           (case svc_tree_sitter svc (ctx_scan_run_id context) (map (\<lambda>f. (scf_path f, scf_content f)) files) of
              Inr artifact \<Rightarrow> artifact
            | Inl e \<Rightarrow> empty @ [(''errors'', JList [JObj [(''code'', JStr ''tree_sitter_failed''),
                (''message'', JStr (take 500 (redact_secret_like_text (we_text e))))]])])))))"

section \<open>Artifacts\<close>

definition build_scan_summary_artifact ::
  "(string \<Rightarrow> string) \<Rightarrow> CodebaseScanContext \<Rightarrow> CodebaseWorkspaceSelection \<Rightarrow> codebase_finding list \<Rightarrow> obj" where
  "build_scan_summary_artifact sha256 context selection findings =
     [(''schemaVersion'', JStr ''codebase-scan-summary/v1''), (''scanRunId'', JStr (ctx_scan_run_id context)),
      (''repositoryId'', JStr (ctx_repository_id context)), (''repositoryFullName'', JStr (ctx_repository_full_name context)),
      (''defaultBranch'', JStr (ctx_default_branch context)), (''commitSha'', JStr (ctx_commit_sha context)),
      (''selectedFiles'', JList (map (\<lambda>f. JObj [(''path'', JStr (scf_path f)), (''language'', JStr (scf_language f)),
         (''sizeBytes'', JInt (scf_size_bytes f)), (''sha256'', JStr (sha256 (scf_content f)))]) (sel_files selection))),
      (''skippedPaths'', JList (map skipped_to_artifact (sel_skipped_paths selection))),
      (''findingDedupeKeys'', JList (map (\<lambda>f. JStr (cbf_dedupe_key f)) findings))]"

definition write_artifact ::
  "'w scan_services \<Rightarrow> CodebaseScanConfig \<Rightarrow> CodebaseScanContext \<Rightarrow> string \<Rightarrow> obj \<Rightarrow> obj \<Rightarrow>
   worker_exception + CodebaseScanArtifactMetadataItem" where
  \<comment> \<open>\<open>json.dumps\<close> yields ASCII, so a text has as many bytes as characters\<close>
  "write_artifact svc config context artifact_type payload metadata =
     (let encoded = svc_dumps svc (JObj payload);
          output_path = path_join (path_join (scfg_artifact_dir config) (ctx_scan_run_id context)) (artifact_type @ ''.json'')
      in case svc_write svc output_path (encoded @ [CHR 0x0A]) of
           Some e \<Rightarrow> Inl e
         | None \<Rightarrow> Inr \<lparr> smi_artifact_type = artifact_type, smi_storage_key = output_path,
             smi_size_bytes = int (length encoded), smi_sha256 = svc_sha256 svc encoded, smi_redacted = True,
             smi_retention_expires_at = svc_retention svc (scfg_artifact_retention_days config), smi_metadata = metadata \<rparr>)"

definition scan_artifact_metadata :: "CodebaseScanContext \<Rightarrow> CodebaseScanArtifactMetadataItem list \<Rightarrow> CodebaseScanArtifactMetadata" where
  "scan_artifact_metadata context artifacts =
     \<lparr> sam_schema_version = CODEBASE_SCAN_ARTIFACT_METADATA_SCHEMA_VERSION, sam_scan_run_id = ctx_scan_run_id context,
       sam_repository_id = ctx_repository_id context, sam_repository_full_name = ctx_repository_full_name context,
       sam_default_branch = ctx_default_branch context, sam_commit_sha = ctx_commit_sha context, sam_artifacts = artifacts \<rparr>"

definition write_scan_artifacts ::
  "'w scan_services \<Rightarrow> CodebaseScanConfig \<Rightarrow> CodebaseScanContext \<Rightarrow> CodebaseWorkspaceSelection \<Rightarrow> codebase_finding list \<Rightarrow>
   obj \<Rightarrow> obj \<Rightarrow> worker_exception + CodebaseScanArtifactMetadataItem list" where
  "write_scan_artifacts svc config context selection findings semgrep_artifact tree_sitter_artifact =
     bind_sum (write_artifact svc config context ''semgrep'' semgrep_artifact
         [(''findingCount'', JInt (int (length (pv_list (obj_get semgrep_artifact ''findings''))))),
          (''errorCount'', JInt (int (length (pv_list (obj_get semgrep_artifact ''errors''))))),
          (''toolVersion'', obj_get semgrep_artifact ''toolVersion'')]) (\<lambda>a1.
     bind_sum (write_artifact svc config context ''tree_sitter'' tree_sitter_artifact
         [(''fileCount'', JInt (int (length (pv_list (obj_get tree_sitter_artifact ''files''))))),
          (''parsedFileCount'', JInt (int (length (filter (\<lambda>item. obj_get (pv_object item) ''parseStatus'' = JStr ''parsed'')
             (pv_list (obj_get tree_sitter_artifact ''files''))))))]) (\<lambda>a2.
     bind_sum (write_artifact svc config context ''scan_summary''
         (build_scan_summary_artifact (svc_sha256 svc) context selection findings)
         [(''selectedFileCount'', JInt (int (length (sel_files selection)))),
          (''skippedFileCount'', JInt (int (length (sel_skipped_paths selection)))),
          (''findingCount'', JInt (int (length findings)))]) (\<lambda>a3. Inr [a1, a2, a3])))"

section \<open>The run\<close>

record CodebaseScanResult =
  csr_status :: string
  csr_commit_sha :: string
  csr_metrics :: obj
  csr_artifacts :: "json list"
  csr_observed_dedupe_keys :: "string list"

definition scan_context :: "CodebaseScanJobInput \<Rightarrow> string \<Rightarrow> string \<Rightarrow> string \<Rightarrow> CodebaseScanContext" where
  "scan_context payload scan_run_id default_branch commit_sha =
     \<lparr> ctx_scan_run_id = scan_run_id, ctx_repository_id = cj_repository_id payload,
       ctx_installation_id = cj_installation_id payload, ctx_repository_full_name = cj_repository_full_name payload,
       ctx_default_branch = default_branch, ctx_commit_sha = commit_sha, ctx_trigger = cj_trigger payload,
       ctx_correlation_id = cj_correlation_id payload \<rparr>"

definition superseded_result :: "'w scan_services \<Rightarrow> string \<Rightarrow> string \<Rightarrow> ('w, CodebaseScanResult) scan_op" where
  "superseded_result svc scan_run_id commit_sha =
     act_bind (scan_duration svc) (\<lambda>_.
     act_bind (scan_metric ''skippedReason'' (JStr ''successful_scan_exists'')) (\<lambda>_.
     with_metrics (\<lambda>metrics.
       act_bind (scan_sql svc (\<lambda>uuid now. scan_mark_superseded now scan_run_id commit_sha metrics)) (\<lambda>_.
       act_return \<lparr> csr_status = ''superseded'', csr_commit_sha = commit_sha, csr_metrics = metrics, csr_artifacts = [],
         csr_observed_dedupe_keys = [] \<rparr>))))"

definition analyse_repository ::
  "'w scan_services \<Rightarrow> CodebaseScanConfig \<Rightarrow> CodebaseScanConfig \<Rightarrow> CodebaseScanJobInput \<Rightarrow> CodebaseScanContext \<Rightarrow>
   ('w, CodebaseWorkspaceSelection \<times> obj \<times> obj \<times> codebase_finding list) scan_op" where
  \<comment> \<open>\<open>run\<close> from \<open>fetch_repository_tree\<close> to the enriched findings; the two configurations are \<open>self.config\<close> and the job's\<close>
  "analyse_repository svc self_config config payload context =
     act_bind (scan_github (fetch_repository_tree (svc_api svc) (cj_installation_id payload) (cj_repository_full_name payload)
         (ctx_commit_sha context))) (\<lambda>tree_files.
     act_bind (scan_github (scan_plan config (\<lambda>item. act_bind (fetch_blob_content (svc_wide svc) (svc_api svc)
         (cj_installation_id payload) (cj_repository_full_name payload) (rtf_sha item)) (\<lambda>r. act_return (Some r))) tree_files)) (\<lambda>selection.
     act_bind (scan_metric ''workspace'' (JObj (sel_metrics selection))) (\<lambda>_.
     act_bind (act_of (scan_run_semgrep svc context selection)) (\<lambda>semgrep_artifact.
       let tree_sitter_artifact = scan_run_tree_sitter svc context (sel_files selection);
           found = findings_at_threshold (scfg_severity_threshold config)
             (semgrep_findings_to_codebase_findings (svc_sha256 svc) context semgrep_artifact tree_sitter_artifact)
       in act_bind (act_of (maybe_enrich_with_llm (svc_dumps svc) (svc_llm svc) self_config context found)) (\<lambda>(llm_metrics, findings).
          act_bind (scan_metric ''llm'' (JObj llm_metrics)) (\<lambda>_.
          act_return (selection, semgrep_artifact, tree_sitter_artifact, findings)))))))"

definition store_findings :: "'w scan_services \<Rightarrow> string \<Rightarrow> codebase_finding list \<Rightarrow> ('w, unit) scan_op" where
  "store_findings svc repository_id = act_each (\<lambda>f. scan_sql svc (\<lambda>uuid now. upsert_finding uuid now repository_id f))"

definition finish_run ::
  "'w scan_services \<Rightarrow> CodebaseScanJobInput \<Rightarrow> CodebaseScanContext \<Rightarrow> codebase_finding list \<Rightarrow>
   CodebaseScanArtifactMetadataItem list \<Rightarrow> ('w, CodebaseScanResult) scan_op" where
  "finish_run svc payload context findings items =
     (let artifacts = map enc_codebase_scan_artifact_metadata_item (sam_artifacts (scan_artifact_metadata context items));
          observed = map cbf_dedupe_key findings;
          scan_run_id = ctx_scan_run_id context
      in act_bind (scan_metric ''findingCount'' (JInt (int (length findings)))) (\<lambda>_.
         act_bind (scan_metric ''artifactCount'' (JInt (int (length items)))) (\<lambda>_.
         act_bind (scan_duration svc) (\<lambda>_.
         act_bind (with_metrics (\<lambda>metrics. scan_sql svc (\<lambda>uuid now. scan_mark_succeeded now scan_run_id metrics artifacts))) (\<lambda>_.
         act_bind (scan_sql svc (\<lambda>uuid now. resolve_stale_findings now scan_run_id (cj_repository_id payload) observed)) (\<lambda>resolved_count.
         act_bind (scan_metric ''resolvedStaleFindingCount'' (JInt resolved_count)) (\<lambda>_.
         with_metrics (\<lambda>metrics.
           act_bind (scan_sql svc (\<lambda>uuid now. scan_mark_succeeded now scan_run_id metrics artifacts)) (\<lambda>_.
           act_return \<lparr> csr_status = ''succeeded'', csr_commit_sha = ctx_commit_sha context, csr_metrics = metrics,
             csr_artifacts = artifacts, csr_observed_dedupe_keys = observed \<rparr>)))))))))"

definition scan_to_completion ::
  "'w scan_services \<Rightarrow> CodebaseScanConfig \<Rightarrow> CodebaseScanConfig \<Rightarrow> CodebaseScanJobInput \<Rightarrow> CodebaseScanContext \<Rightarrow>
   ('w, CodebaseScanResult) scan_op" where
  "scan_to_completion svc self_config config payload context =
     act_bind (with_metrics (\<lambda>metrics. scan_sql svc (\<lambda>uuid now. scan_mark_running now (ctx_scan_run_id context)
         (ctx_commit_sha context) (ctx_default_branch context) metrics))) (\<lambda>_.
     act_bind (analyse_repository svc self_config config payload context) (\<lambda>(selection, semgrep_artifact, tree_sitter_artifact, findings).
     act_bind (store_findings svc (cj_repository_id payload) findings) (\<lambda>_.
     act_bind (act_of (write_scan_artifacts svc self_config context selection findings semgrep_artifact tree_sitter_artifact)) (\<lambda>items.
     finish_run svc payload context findings items))))"

definition scan_body :: "'w scan_services \<Rightarrow> CodebaseScanConfig \<Rightarrow> CodebaseScanJobInput \<Rightarrow> string \<Rightarrow> ('w, CodebaseScanResult) scan_op" where
  \<comment> \<open>the \<open>try\<close> block\<close>
  "scan_body svc self_config payload scan_run_id =
     act_bind (scan_sql svc (\<lambda>uuid now. assert_repository_enabled payload)) (\<lambda>_.
       let config = config_for_payload self_config payload
       in act_bind (act_of (assert_repository_allowed config (cj_repository_full_name payload))) (\<lambda>_.
          act_bind (scan_github (fetch_default_branch_sha (svc_api svc) (cj_installation_id payload)
              (cj_repository_full_name payload) (cj_default_branch payload))) (\<lambda>(default_branch, commit_sha).
            let context = scan_context payload scan_run_id default_branch commit_sha
            in act_bind (scan_metric ''resolvedDefaultBranch'' (JStr default_branch)) (\<lambda>_.
               act_bind (scan_metric ''commitSha'' (JStr commit_sha)) (\<lambda>_.
               act_bind (scan_sql svc (\<lambda>uuid now db. (db, Inr (has_successful_scan (cj_repository_id payload) commit_sha scan_run_id db)))) (\<lambda>scanned.
                 if scanned then superseded_result svc scan_run_id commit_sha
                 else scan_to_completion svc self_config config payload context))))))"

definition scan_pipeline_run :: "'w scan_services \<Rightarrow> CodebaseScanConfig \<Rightarrow> CodebaseScanJobInput \<Rightarrow> ('w, CodebaseScanResult) scan_op" where
  "scan_pipeline_run svc self_config payload =
     (case cj_scan_run_id payload of
        None \<Rightarrow> act_raise (CodebaseScanPipelineError ''invalid_job_payload'' ''Codebase scan pipeline requires a scanRunId.'')
      | Some scan_run_id \<Rightarrow>
          (\<lambda>s. act_catch (scan_body svc self_config payload scan_run_id)
             (\<lambda>e. act_bind (scan_duration svc) (\<lambda>_.
                act_bind (with_metrics (\<lambda>metrics. scan_sql svc (\<lambda>uuid now. scan_mark_failed now scan_run_id (safe_error e) metrics))) (\<lambda>_.
                act_raise e)))
             (s\<lparr>sst_metrics := [(''correlationId'', JStr (cj_correlation_id payload)), (''trigger'', JStr (cj_trigger payload)),
                (''repositoryFullName'', JStr (cj_repository_full_name payload))]\<rparr>)))"

end
