(* ===== verification/ScanOutcome.thy ===== *)
theory ScanOutcome
  imports ScanRun
begin

text \<open>
  What a codebase scan leaves behind: which rows a run may touch, how it records a failure, and the status of the
  repository's findings after a scan that succeeded.
\<close>

section \<open>What a run may change\<close>

definition scan_progress :: "string \<Rightarrow> 'w scan_state \<Rightarrow> 'w scan_state \<Rightarrow> bool" where
  \<comment> \<open>constraints kept; no run added, removed or moved to another repository; no other run changed\<close>
  "scan_progress i s s' \<longleftrightarrow> (scan_db_ok (sst_db s) \<longrightarrow> scan_db_ok (sst_db s')) \<and>
     map (\<lambda>r. (sr_id r, sr_repository_id r)) (db_scan_runs (sst_db s')) = map (\<lambda>r. (sr_id r, sr_repository_id r)) (db_scan_runs (sst_db s)) \<and>
     filter (\<lambda>r. sr_id r \<noteq> i) (db_scan_runs (sst_db s')) = filter (\<lambda>r. sr_id r \<noteq> i) (db_scan_runs (sst_db s)) \<and>
     db_repositories (sst_db s') = db_repositories (sst_db s) \<and> db_installations (sst_db s') = db_installations (sst_db s)"

definition same_tables :: "'w scan_state \<Rightarrow> 'w scan_state \<Rightarrow> bool" where
  "same_tables s s' \<longleftrightarrow> sst_db s' = sst_db s"

interpretation progress: state_relation "scan_progress i"
  by unfold_locales (auto simp: scan_progress_def)

interpretation tables: state_relation same_tables
  by unfold_locales (auto simp: same_tables_def)

lemma same_tables_progress: "act_respects same_tables m \<Longrightarrow> act_respects (scan_progress i) m"
  by (auto simp: act_respects_def same_tables_def scan_progress_def)

lemma tables_github: "act_respects same_tables (scan_github m)"
  by (auto simp: act_respects_def same_tables_def scan_github_def act_zoom_def)

lemma tables_metric: "act_respects same_tables (scan_metric k v)"
  by (simp add: act_respects_def same_tables_def scan_metric_def)

lemma tables_duration: "act_respects same_tables (scan_duration svc)"
  by (simp add: act_respects_def same_tables_def scan_metric_def scan_duration_def)

lemma with_metrics_respects: "(\<And>m. act_respects R (f m)) \<Longrightarrow> act_respects R (with_metrics f)"
  by (auto simp: act_respects_def with_metrics_def)

lemma scan_sql_respects:
  assumes "\<And>s u n t. R s (s\<lparr>sst_db := fst (f u n (sst_db s)), sst_tick := t\<rparr>)"
  shows "act_respects R (scan_sql svc f)"
proof -
  have "R s s'" if "scan_sql svc f s = Some (r, s')" for s r s'
    using that assms [where s = s and u = "svc_uuid svc (sst_tick s)" and n = "svc_clock svc (sst_tick s)" and t = "Suc (sst_tick s)"]
    by (auto simp: scan_sql_def split: prod.splits)
  then show ?thesis by (simp add: act_respects_def)
qed

lemma scan_sql_same_tables: "(\<And>u n db. fst (f u n db) = db) \<Longrightarrow> act_respects same_tables (scan_sql svc f)"
  by (rule scan_sql_respects) (simp add: same_tables_def)

lemma put_scan_runs_other: "db_repositories (fst (put_scan_runs rs db)) = db_repositories db"
  "db_installations (fst (put_scan_runs rs db)) = db_installations db" "db_findings (fst (put_scan_runs rs db)) = db_findings db"
  "db_repositories (fst (put_findings fs db)) = db_repositories db"
  "db_installations (fst (put_findings fs db)) = db_installations db" "db_scan_runs (fst (put_findings fs db)) = db_scan_runs db"
  by (simp_all add: put_scan_runs_def put_findings_def)

lemma filter_update_where: "(\<And>r. P (f r) = P r) \<Longrightarrow> (\<And>r. Q r \<Longrightarrow> \<not> P r) \<Longrightarrow> filter P (update_where Q f rs) = filter P rs"
  by (induction rs) (auto simp: update_where_def)

lemma scan_sql_run_progress:
  assumes "\<And>n r. sr_id (f n r) = sr_id r" and "\<And>n r. sr_repository_id (f n r) = sr_repository_id r"
  shows "act_respects (scan_progress i) (scan_sql svc (\<lambda>uuid now. update_scan_run (f now) i))"
proof -
  have "map (\<lambda>r. (sr_id r, sr_repository_id r)) (update_where Q (f n) rs) = map (\<lambda>r. (sr_id r, sr_repository_id r)) rs" for Q n rs
    by (rule map_update_where) (simp add: assms)
  moreover have "filter (\<lambda>r. sr_id r \<noteq> i) (update_where (\<lambda>r. sr_id r = i) (f n) rs) = filter (\<lambda>r. sr_id r \<noteq> i) rs" for n rs
    by (rule filter_update_where) (simp_all add: assms)
  ultimately have "scan_progress i s (s\<lparr>sst_db := fst (update_scan_run (f n) i (sst_db s)), sst_tick := t\<rparr>)"
    for s :: "'b scan_state" and n t
    using update_scan_run_ok [of "sst_db s" "f n" i] assms(1)
    by (simp add: scan_progress_def) (simp add: update_scan_run_def put_scan_runs_def)
  then show ?thesis by (intro scan_sql_respects)
qed

lemma scan_sql_findings_progress:
  "act_respects (scan_progress i) (scan_sql svc (\<lambda>uuid now. upsert_finding uuid now r f))"
  "act_respects (scan_progress i) (scan_sql svc (\<lambda>uuid now. resolve_stale_findings now i r observed))"
proof -
  have "scan_progress i s (s\<lparr>sst_db := fst (upsert_finding u n r f (sst_db s)), sst_tick := t\<rparr>)" for s :: "'b scan_state" and u n t
    using upsert_finding_ok [of "sst_db s" u n r f] by (simp add: scan_progress_def upsert_finding_def put_scan_runs_other)
  then show "act_respects (scan_progress i) (scan_sql svc (\<lambda>uuid now. upsert_finding uuid now r f))"
    by (intro scan_sql_respects)
  have "db_scan_runs (fst (resolve_stale_findings n i r observed db)) = db_scan_runs db \<and>
      db_repositories (fst (resolve_stale_findings n i r observed db)) = db_repositories db \<and>
      db_installations (fst (resolve_stale_findings n i r observed db)) = db_installations db" for n db
    using put_scan_runs_other(4-6) [of "update_where (stale_finding r observed) (resolve_finding n) (db_findings db)" db]
    by (auto simp: resolve_stale_findings_def split: option.splits prod.splits sum.splits)
  then have "scan_progress i s (s\<lparr>sst_db := fst (resolve_stale_findings n i r observed (sst_db s)), sst_tick := t\<rparr>)" for s :: "'b scan_state" and n t
    using resolve_stale_findings_ok [of "sst_db s" n i r observed] by (simp add: scan_progress_def)
  then show "act_respects (scan_progress i) (scan_sql svc (\<lambda>uuid now. resolve_stale_findings now i r observed))"
    by (intro scan_sql_respects)
qed

lemma scan_marks_progress:
  "act_respects (scan_progress i) (scan_sql svc (\<lambda>uuid now. scan_mark_running now i sha branch metrics))"
  "act_respects (scan_progress i) (scan_sql svc (\<lambda>uuid now. scan_mark_succeeded now i metrics artifacts))"
  "act_respects (scan_progress i) (scan_sql svc (\<lambda>uuid now. scan_mark_failed now i error metrics))"
  "act_respects (scan_progress i) (scan_sql svc (\<lambda>uuid now. scan_mark_superseded now i sha metrics))"
  unfolding scan_mark_defs by (rule scan_sql_run_progress; simp)+

lemma analyse_repository_tables: "act_respects same_tables (analyse_repository svc self_config config payload context)"
  unfolding analyse_repository_def Let_def
  by (intro tables.composed tables_github tables_metric)

lemmas run_progress = progress.composed scan_marks_progress scan_sql_findings_progress with_metrics_respects
  same_tables_progress [OF tables_github] same_tables_progress [OF tables_metric] same_tables_progress [OF tables_duration]
  same_tables_progress [OF analyse_repository_tables] same_tables_progress [OF scan_sql_same_tables]

lemma scan_to_completion_progress:
  assumes "ctx_scan_run_id context = i"
  shows "act_respects (scan_progress i) (scan_to_completion svc self_config config payload context)"
  unfolding scan_to_completion_def store_findings_def finish_run_def Let_def assms by (intro run_progress)

lemma superseded_result_progress: "act_respects (scan_progress i) (superseded_result svc i sha)"
  unfolding superseded_result_def by (intro run_progress)

lemma assert_repository_enabled_same: "fst (assert_repository_enabled payload db) = db"
  by (simp add: assert_repository_enabled_def split: option.split)

lemma scan_body_progress: "act_respects (scan_progress i) (scan_body svc self_config payload i)"
  unfolding scan_body_def Let_def
  by (intro run_progress scan_to_completion_progress superseded_result_progress)
    (simp_all add: scan_context_def assert_repository_enabled_same)

section \<open>Failures are recorded\<close>

lemma list_all_update_where:
  "(\<And>r. Q r \<Longrightarrow> P (f r)) \<Longrightarrow> (\<And>r. \<not> Q r \<Longrightarrow> P r) \<Longrightarrow> list_all P (update_where Q f rs)"
  by (auto simp: list_all_iff update_where_def)

lemma distinct_map_filter_update_where:
  assumes "distinct (map k (filter P rs))" and "\<And>r. \<not> P (f r)"
  shows "distinct (map k (filter P (update_where Q f rs)))"
proof -
  have "filter P (update_where Q f rs) = filter (\<lambda>r. \<not> Q r) (filter P rs)"
    using assms(2) by (induction rs) (auto simp: update_where_def)
  with distinct_map_filter [OF assms(1), of "\<lambda>r. \<not> Q r"] show ?thesis by simp
qed

lemma scan_mark_failed_returns:
  assumes "scan_db_ok db"
  shows "\<exists>db'. scan_mark_failed now i error metrics db = (db', Inr ()) \<and>
     db_scan_runs db' = update_where (\<lambda>r. sr_id r = i) (\<lambda>r. r\<lparr>sr_status := ''failed'',
       sr_finished_at := coalesce (sr_finished_at r) now, sr_error_json := error, sr_metrics_json := metrics,
       sr_updated_at := now\<rparr>) (db_scan_runs db)"
proof -
  let ?f = "\<lambda>r. r\<lparr>sr_status := ''failed'', sr_finished_at := coalesce (sr_finished_at r) now, sr_error_json := error,
     sr_metrics_json := metrics, sr_updated_at := now\<rparr>"
  have ok: "scan_runs_ok (db_scan_runs db)" using assms by (simp add: scan_db_ok_def)
  have "scan_runs_ok (update_where (\<lambda>r. sr_id r = i) ?f (db_scan_runs db))"
    unfolding scan_runs_ok_def
  proof (intro conjI)
    show "list_all scan_run_row_ok (update_where (\<lambda>r. sr_id r = i) ?f (db_scan_runs db))"
      using ok by (auto simp: scan_runs_ok_def list_all_iff update_where_def scan_run_row_ok_def)
    show "distinct (map sr_id (update_where (\<lambda>r. sr_id r = i) ?f (db_scan_runs db)))"
      using ok by (simp add: map_update_where scan_runs_ok_def)
  qed (rule distinct_map_filter_update_where, use ok in \<open>simp_all add: scan_runs_ok_def active_status_def\<close>)+
  then show ?thesis by (simp add: scan_mark_failed_def update_scan_run_def put_scan_runs_def)
qed

lemma update_scan_run_Inr:
  "update_scan_run f i db = (db', Inr ()) \<Longrightarrow> db' = db\<lparr>db_scan_runs := update_where (\<lambda>r. sr_id r = i) f (db_scan_runs db)\<rparr>"
  by (auto simp: update_scan_run_def put_scan_runs_def split: if_splits)

lemma update_scan_run_sets:
  assumes "update_scan_run f i db = (db', Inr ())" and "\<And>r. P (f r)"
  shows "list_all (\<lambda>r. sr_id r = i \<longrightarrow> P r) (db_scan_runs db')"
  using update_scan_run_Inr [OF assms(1)] assms(2)
  by (simp add: list_all_update_where [of "\<lambda>r. sr_id r = i" "\<lambda>r. sr_id r = i \<longrightarrow> P r"])

definition scan_start :: "CodebaseScanJobInput \<Rightarrow> 'w scan_state \<Rightarrow> 'w scan_state" where
  \<comment> \<open>the state with the first metrics\<close>
  "scan_start payload s = s\<lparr>sst_metrics := [(''correlationId'', JStr (cj_correlation_id payload)), (''trigger'', JStr (cj_trigger payload)),
     (''repositoryFullName'', JStr (cj_repository_full_name payload))]\<rparr>"

lemma scan_start_progress: "scan_progress i s (scan_start payload s)"
  by (simp add: scan_progress_def scan_start_def)

lemma sst_db_scan_start [simp]: "sst_db (scan_start payload s) = sst_db s"
  by (simp add: scan_start_def)

lemma raising_body_is_recorded:
  assumes body: "scan_body svc config payload i (scan_start payload s) = Some (Inl e, s1)" and "cj_scan_run_id payload = Some i"
    and "scan_db_ok (sst_db s)"
  shows "\<exists>s'. scan_pipeline_run svc config payload s = Some (Inl e, s') \<and> scan_progress i s s' \<and>
     list_all (\<lambda>r. sr_id r = i \<longrightarrow> sr_status r = ''failed'' \<and> sr_error_json r = safe_error e) (db_scan_runs (sst_db s'))"
proof -
  let ?handler = "act_bind (scan_duration svc) (\<lambda>_. act_bind (with_metrics (\<lambda>metrics. scan_sql svc (\<lambda>uuid now.
      scan_mark_failed now i (safe_error e) metrics))) (\<lambda>_. act_raise e)) :: ('a, CodebaseScanResult) scan_op"
  let ?now = "svc_clock svc (sst_tick s1)"
  let ?metrics = "AList.update ''durationMs'' (JInt (max (svc_elapsed_ms svc (sst_tick s1)) 0)) (sst_metrics s1)"
  from act_respectsD [OF scan_body_progress body] scan_start_progress have p1: "scan_progress i s s1"
    by (blast intro: progress.R_trans)
  then have "scan_db_ok (sst_db s1)" using assms(3) by (simp add: scan_progress_def)
  from scan_mark_failed_returns [OF this, of ?now i "safe_error e" ?metrics]
  obtain db' where failed: "scan_mark_failed ?now i (safe_error e) ?metrics (sst_db s1) = (db', Inr ())" by blast
  have handled: "?handler s1 = Some (Inl e, s1\<lparr>sst_metrics := ?metrics, sst_db := db', sst_tick := Suc (sst_tick s1)\<rparr>)"
    by (simp add: act_bind_def scan_duration_def scan_metric_def with_metrics_def scan_sql_def act_raise_def failed)
  have "act_respects (scan_progress i) ?handler" by (intro run_progress)
  from act_respectsD [OF this handled] p1
  have "scan_progress i s (s1\<lparr>sst_metrics := ?metrics, sst_db := db', sst_tick := Suc (sst_tick s1)\<rparr>)"
    by (blast intro: progress.R_trans)
  moreover have "list_all (\<lambda>r. sr_id r = i \<longrightarrow> sr_status r = ''failed'' \<and> sr_error_json r = safe_error e) (db_scan_runs db')"
    by (rule update_scan_run_sets [OF failed [unfolded scan_mark_failed_def]]) simp
  ultimately show ?thesis
    using assms(2) body handled by (simp add: scan_pipeline_run_def act_catch_def scan_start_def)
qed

lemma scan_raises:
  assumes "scan_pipeline_run svc config payload s = Some (Inl e, s')" and "cj_scan_run_id payload = Some i"
    and "scan_db_ok (sst_db s)"
  shows "list_all (\<lambda>r. sr_id r = i \<longrightarrow> sr_status r = ''failed'' \<and> sr_error_json r = safe_error e) (db_scan_runs (sst_db s')) \<and>
     scan_progress i s s'"
proof -
  from assms(1,2) obtain e1 s1 where "scan_body svc config payload i (scan_start payload s) = Some (Inl e1, s1)"
    by (auto simp: scan_pipeline_run_def act_catch_def scan_start_def split: option.splits sum.splits)
  from raising_body_is_recorded [OF this assms(2,3)] assms(1) show ?thesis by auto
qed

text \<open>A scan that raises an error has recorded it: its run is failed, with the error's code and its message
  without secrets, and the error reaches the caller unchanged. No other run was touched, none was added or
  removed, and the constraints of the tables still hold.\<close>

theorem failed_scan_is_recorded:
  assumes "scan_pipeline_run svc config payload s = Some (Inl e, s')" and "cj_scan_run_id payload = Some i"
    and "scan_db_ok (sst_db s)"
  shows "list_all (\<lambda>r. sr_id r = i \<longrightarrow> sr_status r = ''failed'' \<and> sr_error_json r = safe_error e) (db_scan_runs (sst_db s')) \<and>
     scan_progress i s s'"
  by (rule scan_raises [OF assms])

section \<open>The findings after a scan\<close>

definition scanned_status :: "string \<Rightarrow> string list \<Rightarrow> (string \<times> string \<Rightarrow> string option) \<Rightarrow> string \<times> string \<Rightarrow> string option" where
  \<comment> \<open>the specification: what a scan of a repository that observed these keys makes of the status of a finding\<close>
  "scanned_status repository_id observed st k =
     (if fst k \<noteq> repository_id then st k
      else if snd k \<in> set observed then Some (seen_status (st k))
      else map_option (\<lambda>s. if s = ''open'' then ''resolved'' else s) (st k))"

lemma seen_status_idem: "seen_status (Some (seen_status x)) = seen_status x"
  by (simp add: seen_status_def split: option.split)

lemma scan_sql_eq_Inr:
  "scan_sql svc f s = Some (Inr a, s') \<longleftrightarrow>
     (\<exists>db. f (svc_uuid svc (sst_tick s)) (svc_clock svc (sst_tick s)) (sst_db s) = (db, Inr a) \<and>
        s' = s\<lparr>sst_db := db, sst_tick := Suc (sst_tick s)\<rparr>)"
  by (auto simp: scan_sql_def split: prod.splits)

lemma scan_metric_eq: "scan_metric k v s = Some (r, s') \<longleftrightarrow> r = Inr () \<and> s' = s\<lparr>sst_metrics := AList.update k v (sst_metrics s)\<rparr>"
  by (auto simp: scan_metric_def)

lemma upsert_finding_status:
  assumes "upsert_finding uuid now repository_id f db = (db', Inr ())"
  shows "finding_status (db_findings db') = (finding_status (db_findings db))((repository_id, cbf_dedupe_key f) \<mapsto>
     seen_status (finding_status (db_findings db) (repository_id, cbf_dedupe_key f)))"
proof -
  let ?new = "new_finding_row uuid now repository_id f"
  from assms have "db_findings db' = upsert_row ?new (db_findings db)"
    by (auto simp: upsert_finding_def put_findings_def split: if_splits)
  with upsert_row_status [of ?new "db_findings db"] show ?thesis by (simp add: new_finding_row_def)
qed

lemma store_findings_status:
  "store_findings svc repository_id fs s = Some (Inr (), s') \<Longrightarrow> finding_status (db_findings (sst_db s')) k =
     (if fst k = repository_id \<and> snd k \<in> set (map cbf_dedupe_key fs)
      then Some (seen_status (finding_status (db_findings (sst_db s)) k)) else finding_status (db_findings (sst_db s)) k)"
proof (induction fs arbitrary: s)
  case (Cons f fs)
  from Cons.prems obtain s1 db where up: "upsert_finding (svc_uuid svc (sst_tick s)) (svc_clock svc (sst_tick s)) repository_id f
      (sst_db s) = (db, Inr ())" and s1: "s1 = s\<lparr>sst_db := db, sst_tick := Suc (sst_tick s)\<rparr>"
    and rest: "store_findings svc repository_id fs s1 = Some (Inr (), s')"
    by (auto simp: store_findings_def act_bind_eq_Inr scan_sql_eq_Inr)
  from Cons.IH [OF rest] upsert_finding_status [OF up] show ?case
    by (cases k) (auto simp: s1 seen_status_idem)
qed (simp add: store_findings_def act_return_eq_Some)

lemma scan_mark_succeeded_eq:
  assumes "scan_mark_succeeded now i metrics artifacts db = (db', Inr ())"
  shows "db_findings db' = db_findings db \<and>
     map (\<lambda>r. (sr_id r, sr_repository_id r)) (db_scan_runs db') = map (\<lambda>r. (sr_id r, sr_repository_id r)) (db_scan_runs db) \<and>
     list_all (\<lambda>r. sr_id r = i \<longrightarrow> sr_status r = ''succeeded'') (db_scan_runs db')"
proof -
  let ?f = "\<lambda>r. r\<lparr>sr_status := ''succeeded'', sr_finished_at := coalesce (sr_finished_at r) now, sr_error_json := [],
     sr_metrics_json := metrics, sr_artifacts_json := artifacts, sr_updated_at := now\<rparr>"
  from assms have "db' = db\<lparr>db_scan_runs := update_where (\<lambda>r. sr_id r = i) ?f (db_scan_runs db)\<rparr>"
    by (auto simp: scan_mark_succeeded_def update_scan_run_def put_scan_runs_def split: if_splits)
  moreover have "list_all (\<lambda>r. sr_id r = i \<longrightarrow> sr_status r = ''succeeded'') (update_where (\<lambda>r. sr_id r = i) ?f (db_scan_runs db))"
    by (intro list_all_update_where) simp_all
  ultimately show ?thesis by (simp add: map_update_where)
qed

lemma resolve_stale_findings_eq:
  assumes "resolve_stale_findings now i repository_id observed db = (db', Inr n)"
    and "(i, repository_id) \<in> set (map (\<lambda>r. (sr_id r, sr_repository_id r)) (db_scan_runs db))"
    and "list_all (\<lambda>r. sr_id r = i \<longrightarrow> sr_status r = ''succeeded'') (db_scan_runs db)"
  shows "db_scan_runs db' = db_scan_runs db \<and> finding_status (db_findings db') =
     (\<lambda>k. map_option (\<lambda>s. if fst k = repository_id \<and> s = ''open'' \<and> snd k \<notin> set observed then ''resolved'' else s)
        (finding_status (db_findings db) k))"
proof -
  from assms(2) obtain r where r: "find (\<lambda>r. sr_id r = i \<and> sr_repository_id r = repository_id) (db_scan_runs db) = Some r"
    by (cases "find (\<lambda>r. sr_id r = i \<and> sr_repository_id r = repository_id) (db_scan_runs db)") (auto simp: find_None_iff)
  then have "r \<in> set (db_scan_runs db)" "sr_id r = i" by (auto simp: find_Some_iff)
  with assms(3) have "sr_status r = ''succeeded''" by (auto simp: list_all_iff)
  with assms(1) r have "db' = db\<lparr>db_findings := update_where (stale_finding repository_id observed) (resolve_finding now) (db_findings db)\<rparr>"
    by (auto simp: resolve_stale_findings_def put_findings_def split: if_splits)
  then show ?thesis by (simp add: resolve_stale_status)
qed

lemma finish_run_status:
  assumes "finish_run svc payload context findings items s = Some (Inr res, s')"
    and "(ctx_scan_run_id context, cj_repository_id payload) \<in> set (map (\<lambda>r. (sr_id r, sr_repository_id r)) (db_scan_runs (sst_db s)))"
  shows "csr_status res = ''succeeded'' \<and> csr_observed_dedupe_keys res = map cbf_dedupe_key findings \<and>
     list_all (\<lambda>r. sr_id r = ctx_scan_run_id context \<longrightarrow> sr_status r = ''succeeded'') (db_scan_runs (sst_db s')) \<and>
     finding_status (db_findings (sst_db s')) = (\<lambda>k. map_option (\<lambda>st. if fst k = cj_repository_id payload \<and> st = ''open'' \<and>
        snd k \<notin> set (map cbf_dedupe_key findings) then ''resolved'' else st) (finding_status (db_findings (sst_db s)) k))"
proof -
  from assms(1) obtain t1 m1 a1 db1 t2 db2 n t3 m3 a3 db3 where
      done1: "scan_mark_succeeded t1 (ctx_scan_run_id context) m1 a1 (sst_db s) = (db1, Inr ())"
    and resolved: "resolve_stale_findings t2 (ctx_scan_run_id context) (cj_repository_id payload) (map cbf_dedupe_key findings) db1 = (db2, Inr n)"
    and done3: "scan_mark_succeeded t3 (ctx_scan_run_id context) m3 a3 db2 = (db3, Inr ())"
    and "sst_db s' = db3" "csr_status res = ''succeeded''" "csr_observed_dedupe_keys res = map cbf_dedupe_key findings"
    by (auto simp: finish_run_def Let_def act_bind_eq_Inr scan_sql_eq_Inr scan_metric_eq with_metrics_def scan_duration_def
        act_return_eq_Some)
  moreover note d1 = scan_mark_succeeded_eq [OF done1] and d3 = scan_mark_succeeded_eq [OF done3]
  moreover have "db_scan_runs db2 = db_scan_runs db1 \<and> finding_status (db_findings db2) =
     (\<lambda>k. map_option (\<lambda>s. if fst k = cj_repository_id payload \<and> s = ''open'' \<and> snd k \<notin> set (map cbf_dedupe_key findings)
        then ''resolved'' else s) (finding_status (db_findings db1) k))"
    by (rule resolve_stale_findings_eq [OF resolved]) (use d1 assms(2) in auto)
  ultimately show ?thesis by simp
qed

definition run_of_repository :: "string \<Rightarrow> string \<Rightarrow> 'w scan_state \<Rightarrow> bool" where
  "run_of_repository i repository_id s \<longleftrightarrow>
     (i, repository_id) \<in> set (map (\<lambda>r. (sr_id r, sr_repository_id r)) (db_scan_runs (sst_db s)))"

lemma run_of_repository_progress: "scan_progress i s s' \<Longrightarrow> run_of_repository i r s \<Longrightarrow> run_of_repository i r s'"
  by (simp add: run_of_repository_def scan_progress_def)

lemma store_findings_progress: "act_respects (scan_progress i) (store_findings svc r fs)"
  unfolding store_findings_def by (intro run_progress)

lemma scan_to_completion_status:
  assumes "scan_to_completion svc self_config config payload context s = Some (Inr res, s')"
    and "run_of_repository (ctx_scan_run_id context) (cj_repository_id payload) s"
  shows "csr_status res = ''succeeded'' \<and>
     list_all (\<lambda>r. sr_id r = ctx_scan_run_id context \<longrightarrow> sr_status r = ''succeeded'') (db_scan_runs (sst_db s')) \<and>
     finding_status (db_findings (sst_db s')) =
       scanned_status (cj_repository_id payload) (csr_observed_dedupe_keys res) (finding_status (db_findings (sst_db s)))"
proof -
  let ?i = "ctx_scan_run_id context" and ?r = "cj_repository_id payload"
  from assms(1) obtain s1 selection sg ts findings s2 s3 items where
      running: "with_metrics (\<lambda>metrics. scan_sql svc (\<lambda>uuid now. scan_mark_running now ?i (ctx_commit_sha context)
        (ctx_default_branch context) metrics)) s = Some (Inr (), s1)"
    and analysed: "analyse_repository svc self_config config payload context s1 = Some (Inr (selection, sg, ts, findings), s2)"
    and stored: "store_findings svc ?r findings s2 = Some (Inr (), s3)"
    and finished: "finish_run svc payload context findings items s3 = Some (Inr res, s')"
    by (auto simp: scan_to_completion_def act_bind_eq_Inr act_of_eq_Some split: prod.splits)
  have same: "sst_db s2 = sst_db s1"
    using act_respectsD [OF analyse_repository_tables analysed] by (simp add: same_tables_def)
  have findings1: "db_findings (sst_db s1) = db_findings (sst_db s)"
    using running by (auto simp: with_metrics_def scan_sql_eq_Inr scan_mark_running_def dest: update_scan_run_Inr)
  have "act_respects (scan_progress ?i) (with_metrics (\<lambda>metrics. scan_sql svc (\<lambda>uuid now. scan_mark_running now ?i
      (ctx_commit_sha context) (ctx_default_branch context) metrics)))" by (intro run_progress)
  from act_respectsD [OF this running] have "run_of_repository ?i ?r s1"
    using assms(2) by (rule run_of_repository_progress)
  then have "run_of_repository ?i ?r s2" by (simp add: run_of_repository_def same)
  then have "run_of_repository ?i ?r s3"
    by (rule run_of_repository_progress [OF act_respectsD [OF store_findings_progress stored]])
  from finish_run_status [OF finished this [unfolded run_of_repository_def]]
  show ?thesis
    unfolding scanned_status_def store_findings_status [OF stored] same findings1
    by (auto simp: fun_eq_iff seen_status_def option.map_ident split: option.splits)
qed

lemma scan_body_returns:
  assumes "scan_body svc config payload i s = Some (Inr res, s')"
  obtains s1 branch sha where "sst_db s1 = sst_db s"
    "(if has_successful_scan (cj_repository_id payload) sha i (sst_db s1) then superseded_result svc i sha
      else scan_to_completion svc config (config_for_payload config payload) payload (scan_context payload i branch sha)) s1 =
      Some (Inr res, s')"
proof -
  let ?fetch = "scan_github (fetch_default_branch_sha (svc_api svc) (cj_installation_id payload) (cj_repository_full_name payload)
     (cj_default_branch payload))"
  from assms obtain sa branch sha sb sc scanned sd where
      a: "scan_sql svc (\<lambda>uuid now. assert_repository_enabled payload) s = Some (Inr (), sa)"
    and b: "?fetch sa = Some (Inr (branch, sha), sb)"
    and d: "scan_sql svc (\<lambda>uuid now db. (db, Inr (has_successful_scan (cj_repository_id payload) sha i db))) sc = Some (Inr scanned, sd)"
    and c: "sst_db sc = sst_db sb"
    and e: "(if scanned then superseded_result svc i sha
      else scan_to_completion svc config (config_for_payload config payload) payload (scan_context payload i branch sha)) sd =
      Some (Inr res, s')"
    by (auto simp: scan_body_def Let_def act_bind_eq_Inr act_of_eq_Some scan_metric_eq split: prod.splits)
  have "sst_db sa = sst_db s"
    using a assert_repository_enabled_same [of payload "sst_db s"] by (auto simp: scan_sql_eq_Inr)
  moreover have "sst_db sb = sst_db sa"
    using act_respectsD [OF tables_github b] by (simp add: same_tables_def)
  moreover have "sst_db sd = sst_db sc" "scanned \<longleftrightarrow> has_successful_scan (cj_repository_id payload) sha i (sst_db sd)"
    using d by (auto simp: scan_sql_eq_Inr)
  ultimately show ?thesis using that [of sd sha branch] c e by simp
qed

lemma superseded_result_returns:
  assumes "superseded_result svc i sha s = Some (Inr res, s')"
  shows "csr_status res = ''superseded'' \<and> csr_commit_sha res = sha \<and> db_findings (sst_db s') = db_findings (sst_db s) \<and>
     list_all (\<lambda>r. sr_id r = i \<longrightarrow> sr_status r = ''superseded'') (db_scan_runs (sst_db s'))"
proof -
  from assms obtain now m db where marked: "scan_mark_superseded now i sha m (sst_db s) = (db, Inr ())"
    and res: "sst_db s' = db" "csr_status res = ''superseded''" "csr_commit_sha res = sha"
    by (auto simp: superseded_result_def act_bind_eq_Inr scan_sql_eq_Inr scan_metric_eq with_metrics_def scan_duration_def
        act_return_eq_Some)
  have "list_all (\<lambda>r. sr_id r = i \<longrightarrow> sr_status r = ''superseded'') (db_scan_runs db)"
    by (rule update_scan_run_sets [OF marked [unfolded scan_mark_superseded_def]]) simp
  moreover have "db_findings db = db_findings (sst_db s)"
    using update_scan_run_Inr [OF marked [unfolded scan_mark_superseded_def]] by simp
  ultimately show ?thesis by (simp add: res)
qed

lemma scan_returns:
  assumes "scan_pipeline_run svc config payload s = Some (Inr res, s')" and "cj_scan_run_id payload = Some i"
    and "run_of_repository i (cj_repository_id payload) s"
  shows "csr_status res = ''superseded'' \<and> db_findings (sst_db s') = db_findings (sst_db s) \<and>
       list_all (\<lambda>r. sr_id r = i \<longrightarrow> sr_status r = ''superseded'') (db_scan_runs (sst_db s')) \<and>
       has_successful_scan (cj_repository_id payload) (csr_commit_sha res) i (sst_db s) \<or>
     csr_status res = ''succeeded'' \<and>
       list_all (\<lambda>r. sr_id r = i \<longrightarrow> sr_status r = ''succeeded'') (db_scan_runs (sst_db s')) \<and>
       finding_status (db_findings (sst_db s')) = scanned_status (cj_repository_id payload) (csr_observed_dedupe_keys res)
         (finding_status (db_findings (sst_db s)))"
proof -
  from assms(1,2) have "scan_body svc config payload i (scan_start payload s) = Some (Inr res, s')"
    by (auto simp: scan_pipeline_run_def act_catch_def act_bind_def act_raise_def scan_start_def split: option.splits sum.splits)
  then obtain s1 branch sha where db1: "sst_db s1 = sst_db s"
    and rest: "(if has_successful_scan (cj_repository_id payload) sha i (sst_db s1) then superseded_result svc i sha
      else scan_to_completion svc config (config_for_payload config payload) payload (scan_context payload i branch sha)) s1 =
      Some (Inr res, s')"
    by (rule scan_body_returns) simp
  show ?thesis
  proof (cases "has_successful_scan (cj_repository_id payload) sha i (sst_db s1)")
    case True
    with rest have "superseded_result svc i sha s1 = Some (Inr res, s')" by simp
    from superseded_result_returns [OF this] True db1 show ?thesis by simp
  next
    case False
    with rest have "scan_to_completion svc config (config_for_payload config payload) payload (scan_context payload i branch sha) s1 =
        Some (Inr res, s')" by simp
    from scan_to_completion_status [OF this] assms(3) show ?thesis
      by (simp add: scan_context_def run_of_repository_def db1)
  qed
qed

text \<open>C1: A scan that returns has one of two outcomes. Either the commit had a successful scan already: then the run is
  superseded and every finding is as before. Or the run succeeded, and the repository's findings are what the
  specification says: those observed are open, unless dismissed; open ones that were not observed are
  resolved; all others, and those of other repositories, have the status they had.\<close>

theorem completed_scan_updates_findings:
  assumes "scan_pipeline_run svc config payload s = Some (Inr res, s')" and "cj_scan_run_id payload = Some i"
    and "run_of_repository i (cj_repository_id payload) s"
  shows "csr_status res = ''superseded'' \<and> db_findings (sst_db s') = db_findings (sst_db s) \<and>
       list_all (\<lambda>r. sr_id r = i \<longrightarrow> sr_status r = ''superseded'') (db_scan_runs (sst_db s')) \<and>
       has_successful_scan (cj_repository_id payload) (csr_commit_sha res) i (sst_db s) \<or>
     csr_status res = ''succeeded'' \<and>
       list_all (\<lambda>r. sr_id r = i \<longrightarrow> sr_status r = ''succeeded'') (db_scan_runs (sst_db s')) \<and>
       finding_status (db_findings (sst_db s')) = scanned_status (cj_repository_id payload) (csr_observed_dedupe_keys res)
         (finding_status (db_findings (sst_db s)))"
  by (rule scan_returns [OF assms])

section \<open>A run on a small repository\<close>

definition sample_github_response :: json where
  \<comment> \<open>an object that answers each of the requests\<close>
  "sample_github_response = JObj [(''token'', JStr ''t''), (''commit'', JObj [(''sha'', JStr ''c1'')]),
     (''tree'', JList [JObj [(''type'', JStr ''blob''), (''path'', JStr ''a.py''), (''sha'', JStr ''b1''), (''size'', JInt 3)]]),
     (''encoding'', JStr ''base64''), (''content'', JStr ''eD0x'')]"

definition sample_services :: "unit scan_services" where
  "sample_services = \<lparr>
     svc_api = \<lparr> ga_request = (\<lambda>_ _ _ _ w. (Inr sample_github_response, w)), ga_sleep = (\<lambda>_ w. w), ga_jwt = (\<lambda>_. ''jwt'') \<rparr>,
     svc_wide = (\<lambda>_. CHR ''?''),
     svc_semgrep = (\<lambda>i ws. Inr []),
     svc_tree_sitter = (\<lambda>i fs. Inr []), svc_llm = None, svc_write = (\<lambda>_ _. None), svc_retention = (\<lambda>_. ''later''),
     svc_sha256 = (\<lambda>t. ''0123456789abcdef''), svc_dumps = (\<lambda>_. ''{}''),
     svc_uuid = (\<lambda>n. ''u'' @ str_of_nat n), svc_clock = (\<lambda>n. int n), svc_elapsed_ms = (\<lambda>n. int n) \<rparr>"

definition sample_scan_job :: CodebaseScanJobInput where
  "sample_scan_job = \<lparr> cj_schema_version = CODEBASE_SCAN_JOB_INPUT_SCHEMA_VERSION, cj_scan_run_id = Some ''s'',
     cj_repository_id = ''r'', cj_installation_id = 7, cj_repository_full_name = ''o/n'', cj_default_branch = ''main'',
     cj_commit_sha = None, cj_trigger = ''manual'', cj_correlation_id = ''c'', cj_requested_by_user_id = None,
     cj_scan_config = None \<rparr>"

definition sample_scan_state :: "unit scan_state" where
  \<comment> \<open>with one open finding\<close>
  "sample_scan_state = \<lparr> sst_client = sample_scan_client,
     sst_db = (sample_scan_db\<lparr>db_findings := [sample_suppressed_row\<lparr>sf_status := ''open''\<rparr>]\<rparr>),
     sst_tick = 0, sst_metrics = [] \<rparr>"

theorem completed_scan_updates_findings_witness:
  "\<exists>res s'. scan_pipeline_run sample_services sample_scan_config sample_scan_job sample_scan_state = Some (Inr res, s') \<and>
     csr_status res = ''succeeded'' \<and>
     finding_status (db_findings (sst_db s')) (''r'', ''k'') = Some ''resolved''"
proof -
  have "case scan_pipeline_run sample_services sample_scan_config sample_scan_job sample_scan_state of
      Some (Inr res, s') \<Rightarrow> csr_status res = ''succeeded'' \<and> ''k'' \<notin> set (csr_observed_dedupe_keys res) | _ \<Rightarrow> False" by code_simp
  then obtain res s' where run: "scan_pipeline_run sample_services sample_scan_config sample_scan_job sample_scan_state = Some (Inr res, s')"
    and res: "csr_status res = ''succeeded''" "''k'' \<notin> set (csr_observed_dedupe_keys res)"
    by (auto split: option.splits sum.splits)
  have "run_of_repository ''s'' (cj_repository_id sample_scan_job) sample_scan_state" by code_simp
  moreover have "cj_scan_run_id sample_scan_job = Some ''s''" "cj_repository_id sample_scan_job = ''r''" by (simp_all add: sample_scan_job_def)
  moreover have "finding_status (db_findings (sst_db sample_scan_state)) (''r'', ''k'') = Some ''open''" by code_simp
  ultimately show ?thesis using completed_scan_updates_findings [OF run, of "''s''"] run res
    by (auto simp: scanned_status_def)
qed

theorem failed_scan_is_recorded_witness:
  "\<exists>e s'. scan_pipeline_run sample_services sample_scan_config (sample_scan_job\<lparr>cj_repository_full_name := ''x/y''\<rparr>) sample_scan_state =
       Some (Inl e, s') \<and>
     list_all (\<lambda>r. sr_id r = ''s'' \<longrightarrow> sr_status r = ''failed'' \<and> sr_error_json r = safe_error e) (db_scan_runs (sst_db s'))"
proof -
  let ?job = "sample_scan_job\<lparr>cj_repository_full_name := ''x/y''\<rparr>"
  have ok: "scan_db_ok (sst_db sample_scan_state)" by code_simp
  have id: "cj_scan_run_id ?job = Some ''s''" by (simp add: sample_scan_job_def)
  have "is_err (snd (assert_repository_enabled ?job (sst_db sample_scan_state)))" by code_simp
  then obtain db e where "assert_repository_enabled ?job (sst_db sample_scan_state) = (db, Inl e)"
    by (cases "assert_repository_enabled ?job (sst_db sample_scan_state)") (auto simp: is_err_def split: sum.splits)
  then have "\<exists>s1. scan_body sample_services sample_scan_config ?job ''s'' (scan_start ?job sample_scan_state) = Some (Inl e, s1)"
    by (simp add: scan_body_def act_bind_def scan_sql_def)
  then obtain s1 where "scan_body sample_services sample_scan_config ?job ''s'' (scan_start ?job sample_scan_state) = Some (Inl e, s1)" ..
  from raising_body_is_recorded [OF this id ok]
  obtain s' where run: "scan_pipeline_run sample_services sample_scan_config ?job sample_scan_state = Some (Inl e, s')" by blast
  from failed_scan_is_recorded [OF run id ok] run show ?thesis by blast
qed

end
