(* ===== verification/PyRegexWords.thy ===== *)
theory PyRegexWords
  imports PyRegex
begin

text \<open>
  Which texts a pattern without groups matches (\<open>reaches\<close>), and what a substitution by a fixed marker does to
  the words of a text: the maximal runs of word characters. A substitution whose matches neither start nor
  end inside a word makes no new words apart from those of the marker, and removes those its pattern matches.
\<close>

section \<open>Matched texts\<close>

type_synonym re_pos = "char option \<times> string"     \<comment> \<open>the character before, the text ahead\<close>

definition at_pos :: "re_pos \<Rightarrow> match_state" where
  "at_pos x = \<lparr> ms_prev = fst x, ms_rest = snd x, ms_caps = [] \<rparr>"

definition reaches :: "re \<Rightarrow> re_pos \<Rightarrow> re_pos \<Rightarrow> bool" where
  "reaches r x y \<longleftrightarrow> at_pos y \<in> set (run_re r (at_pos x))"

definition last_char :: "char option \<Rightarrow> string \<Rightarrow> char option" where
  "last_char pr u = (if u = [] then pr else Some (last u))"

lemma last_char_simps [simp]: "last_char pr [] = pr" "last_char pr (c # u) = last_char (Some c) u"
  "last_char pr (u @ v) = last_char (last_char pr u) v"
  by (auto simp: last_char_def)

lemma no_groups_caps:
  assumes "groups r = {}" and "t \<in> set (run_re r s)"
  shows "ms_caps t = ms_caps s"
  using run_re_caps [OF assms(2)] assms(1) by auto

lemma no_groups_at_pos: "groups r = {} \<Longrightarrow> t \<in> set (run_re r (at_pos x)) \<Longrightarrow> t = at_pos (ms_prev t, ms_rest t)"
  by (drule (1) no_groups_caps) (simp add: at_pos_def)

lemma star_runs_iff: "(pr', r) \<in> set (star_runs p pr s) \<longleftrightarrow> (\<exists>u. s = u @ r \<and> list_all p u \<and> pr' = last_char pr u)"
proof (induction s arbitrary: pr)
  case (Cons c cs)
  show ?case
  proof
    assume "(pr', r) \<in> set (star_runs p pr (c # cs))"
    then consider "p c" "(pr', r) \<in> set (star_runs p (Some c) cs)" | "pr' = pr" "r = c # cs" by (auto split: if_splits)
    then show "\<exists>u. c # cs = u @ r \<and> list_all p u \<and> pr' = last_char pr u"
    proof cases
      case 1
      with Cons.IH obtain u where "cs = u @ r" "list_all p u" "pr' = last_char (Some c) u" by blast
      with 1 show ?thesis by (intro exI [of _ "c # u"]) simp
    qed auto
  next
    assume "\<exists>u. c # cs = u @ r \<and> list_all p u \<and> pr' = last_char pr u"
    then obtain u where u: "c # cs = u @ r" "list_all p u" "pr' = last_char pr u" by blast
    then show "(pr', r) \<in> set (star_runs p pr (c # cs))" using Cons.IH by (cases u) auto
  qed
qed auto

lemma at_pos_inject [simp]: "at_pos x = at_pos y \<longleftrightarrow> x = y"
  by (simp add: at_pos_def prod_eq_iff)

lemma at_pos_update [simp]: "(at_pos x)\<lparr>ms_prev := pr, ms_rest := s\<rparr> = at_pos (pr, s)"
  by (simp add: at_pos_def)

lemma at_pos_sel [simp]: "ms_prev (at_pos x) = fst x" "ms_rest (at_pos x) = snd x"
  by (simp_all add: at_pos_def)

lemma reaches_Eps: "reaches Eps x y \<longleftrightarrow> y = x"
  by (simp add: reaches_def)

lemma reaches_Cls: "reaches (Cls p) x y \<longleftrightarrow> (\<exists>c. snd x = c # snd y \<and> p c \<and> fst y = Some c)"
  by (cases "snd x") (auto simp: reaches_def prod_eq_iff)

lemma reaches_Alt: "reaches (Alt a b) x y \<longleftrightarrow> reaches a x y \<or> reaches b x y"
  by (simp add: reaches_def)

lemma reaches_Star:
  "reaches (Star p) x y \<longleftrightarrow> (\<exists>u. snd x = u @ snd y \<and> list_all p u \<and> fst y = last_char (fst x) u)"
  "reaches (LazyStar p) x y \<longleftrightarrow> (\<exists>u. snd x = u @ snd y \<and> list_all p u \<and> fst y = last_char (fst x) u)"
  using star_runs_iff [of "fst y" "snd y" p "fst x" "snd x"] by (simp_all add: reaches_def image_iff)

lemma reaches_WordB: "reaches WordB x y \<longleftrightarrow> y = x \<and> word_at (fst x) \<noteq> word_at (first_char (snd x))"
  by (simp add: reaches_def)

lemmas reaches_simps = reaches_Eps reaches_Cls reaches_Alt reaches_Star reaches_WordB

lemma reaches_Seq:
  assumes "groups a = {}"
  shows "reaches (Seq a b) x z \<longleftrightarrow> (\<exists>y. reaches a x y \<and> reaches b y z)"
proof
  assume "reaches (Seq a b) x z"
  then obtain t where t: "t \<in> set (run_re a (at_pos x))" "at_pos z \<in> set (run_re b t)" by (auto simp: reaches_def)
  from t(2) have "reaches b (ms_prev t, ms_rest t) z"
    unfolding reaches_def by (subst (asm) no_groups_at_pos [OF assms t(1)])
  moreover from t(1) have "reaches a x (ms_prev t, ms_rest t)"
    unfolding reaches_def by (subst (asm) no_groups_at_pos [OF assms t(1)])
  ultimately show "\<exists>y. reaches a x y \<and> reaches b y z" by blast
next
  assume "\<exists>y. reaches a x y \<and> reaches b y z"
  then show "reaches (Seq a b) x z" by (auto simp: reaches_def)
qed

lemma reaches_lit: "reaches (lit p) x y \<longleftrightarrow> snd x = p @ snd y \<and> fst y = last_char (fst x) p"
proof (induction p arbitrary: x)
  case (Cons c p)
  have "reaches (lit (c # p)) x y \<longleftrightarrow> (\<exists>z. reaches (Cls (\<lambda>d. d = c)) x z \<and> reaches (lit p) z y)"
    by (simp add: lit_def reaches_Seq)
  with Cons.IH show ?case by (auto simp: reaches_simps)
qed (auto simp: lit_def reaches_simps prod_eq_iff)

lemma reaches_exactly: "reaches (exactly n p) x y \<longleftrightarrow> (\<exists>u. snd x = u @ snd y \<and> length u = n \<and> list_all p u \<and> fst y = last_char (fst x) u)"
proof (induction n arbitrary: x)
  case (Suc n)
  have "reaches (exactly (Suc n) p) x y \<longleftrightarrow> (\<exists>z. reaches (Cls p) x z \<and> reaches (exactly n p) z y)"
    by (simp add: exactly_def seqs_def reaches_Seq)
  also have "\<dots> \<longleftrightarrow> (\<exists>c u. snd x = c # u @ snd y \<and> p c \<and> length u = n \<and> list_all p u \<and> fst y = last_char (Some c) u)"
    by (auto simp: reaches_simps Suc.IH)
  also have "\<dots> \<longleftrightarrow> (\<exists>u. snd x = u @ snd y \<and> length u = Suc n \<and> list_all p u \<and> fst y = last_char (fst x) u)"
    by (auto simp: length_Suc_conv)
  finally show ?case .
qed (auto simp: exactly_def seqs_def reaches_simps prod_eq_iff)

lemma reaches_at_least: "reaches (at_least n p) x y \<longleftrightarrow> (\<exists>u. snd x = u @ snd y \<and> n \<le> length u \<and> list_all p u \<and> fst y = last_char (fst x) u)"
proof -
  have "groups (exactly n p) = {}" by (simp add: exactly_def)
  then have "reaches (at_least n p) x y \<longleftrightarrow> (\<exists>z. reaches (exactly n p) x z \<and> reaches (Star p) z y)"
    using reaches_Seq [of "exactly n p"] by (simp add: at_least_def exactly_def)
  also have "\<dots> \<longleftrightarrow> (\<exists>u v. snd x = u @ v @ snd y \<and> length u = n \<and> list_all p u \<and> list_all p v \<and> fst y = last_char (last_char (fst x) u) v)"
    by (auto simp: reaches_simps reaches_exactly)
  also have "\<dots> \<longleftrightarrow> (\<exists>u. snd x = u @ snd y \<and> n \<le> length u \<and> list_all p u \<and> fst y = last_char (fst x) u)"
  proof
    assume "\<exists>u v. snd x = u @ v @ snd y \<and> length u = n \<and> list_all p u \<and> list_all p v \<and> fst y = last_char (last_char (fst x) u) v"
    then obtain u v where "snd x = (u @ v) @ snd y" "length u = n" "list_all p (u @ v)" "fst y = last_char (fst x) (u @ v)" by auto
    then show "\<exists>u. snd x = u @ snd y \<and> n \<le> length u \<and> list_all p u \<and> fst y = last_char (fst x) u"
      by (intro exI [of _ "u @ v"]) simp
  next
    assume "\<exists>u. snd x = u @ snd y \<and> n \<le> length u \<and> list_all p u \<and> fst y = last_char (fst x) u"
    then obtain u where u: "snd x = u @ snd y" "n \<le> length u" "list_all p u" "fst y = last_char (fst x) u" by blast
    have split: "snd x = take n u @ drop n u @ snd y" "length (take n u) = n" "list_all p (take n u)" "list_all p (drop n u)"
      using u by (auto simp: list_all_iff dest: in_set_takeD in_set_dropD)
    moreover have "fst y = last_char (last_char (fst x) (take n u)) (drop n u)"
      unfolding u(4) last_char_simps(3) [symmetric] by simp
    ultimately show "\<exists>u v. snd x = u @ v @ snd y \<and> length u = n \<and> list_all p u \<and> list_all p v \<and> fst y = last_char (last_char (fst x) u) v"
      by blast
  qed
  finally show ?thesis .
qed

lemma reaches_seqs:
  "reaches (seqs []) x y \<longleftrightarrow> y = x"
  "groups r = {} \<Longrightarrow> reaches (seqs (r # rs)) x z \<longleftrightarrow> (\<exists>y. reaches r x y \<and> reaches (seqs rs) y z)"
  by (simp_all add: seqs_def reaches_simps reaches_Seq)

lemma reaches_prefix:
  assumes "groups r = {}"
  shows "reaches r x y \<Longrightarrow> \<exists>u. snd x = u @ snd y \<and> fst y = last_char (fst x) u"
  using assms
proof (induction r arbitrary: x y)
  case (Cls p)
  then obtain c where "snd x = [c] @ snd y" "fst y = last_char (fst x) [c]" by (auto simp: reaches_simps)
  then show ?case by blast
next
  case (Seq a b)
  then obtain z where "reaches a x z" "reaches b z y" by (auto simp: reaches_Seq)
  moreover from this(1) Seq.IH(1) [of x z] Seq.prems(2) obtain u where "snd x = u @ snd z" "fst z = last_char (fst x) u" by auto
  moreover from calculation(2) Seq.IH(2) [of z y] Seq.prems(2) obtain v where "snd z = v @ snd y" "fst y = last_char (fst z) v" by auto
  ultimately have "snd x = (u @ v) @ snd y \<and> fst y = last_char (fst x) (u @ v)" by simp
  then show ?case by blast
qed (auto simp: reaches_simps, auto simp: reaches_def split: if_splits)

lemma match_at_reaches:
  assumes "groups r = {}"
  shows "match_at r pr s \<noteq> None \<longleftrightarrow> (\<exists>y. reaches r (pr, s) y)"
    and "match_at r pr s = Some t \<Longrightarrow> reaches r (pr, s) (ms_prev t, ms_rest t)"
proof -
  have at: "\<lparr> ms_prev = pr, ms_rest = s, ms_caps = [] \<rparr> = at_pos (pr, s)" by (simp add: at_pos_def)
  have "t = at_pos (ms_prev t, ms_rest t)" if "t \<in> set (run_re r (at_pos (pr, s)))" for t
    using no_groups_at_pos [OF assms that] .
  then show "match_at r pr s \<noteq> None \<longleftrightarrow> (\<exists>y. reaches r (pr, s) y)"
    by (auto simp: match_at_def at reaches_def split: list.splits) (metis list.set_intros(1))
  show "match_at r pr s = Some t \<Longrightarrow> reaches r (pr, s) (ms_prev t, ms_rest t)"
    using match_at_run [of r pr s t] no_groups_at_pos [OF assms, of t "(pr, s)"] by (simp add: reaches_def at)
qed

section \<open>Words and substitutions\<close>

definition word_run :: "string \<Rightarrow> string" where
  "word_run s = takeWhile is_word s"

fun has_word :: "(string \<Rightarrow> bool) \<Rightarrow> char option \<Rightarrow> string \<Rightarrow> bool" where
  \<comment> \<open>some word, read from its first character to its last, satisfies the predicate\<close>
  "has_word bad pr [] = False"
| "has_word bad pr (c # cs) = (\<not> word_at pr \<and> bad (word_run (c # cs)) \<or> has_word bad (Some c) cs)"

definition ascii_word :: "char \<Rightarrow> bool" where
  "ascii_word c \<longleftrightarrow> is_lower_ascii c \<or> is_upper_ascii c \<or> is_digit c \<or> c = CHR ''_''"

definition clean_match :: "re \<Rightarrow> bool" where
  \<comment> \<open>no match is empty, starts inside a word, or ends before an ASCII character of the same word\<close>
  "clean_match r \<longleftrightarrow> (\<forall>pr s t. match_at r pr s = Some t \<longrightarrow> length (ms_rest t) < length s \<and>
     \<not> (word_at pr \<and> word_at (first_char s)) \<and>
     (word_at (ms_prev t) \<longrightarrow> (case ms_rest t of [] \<Rightarrow> True | c # _ \<Rightarrow> \<not> ascii_word c)))"

fun finds_words :: "re \<Rightarrow> (string \<Rightarrow> bool) \<Rightarrow> char option \<Rightarrow> string \<Rightarrow> bool" where
  \<comment> \<open>the pattern matches wherever such a word starts\<close>
  "finds_words r bad pr [] = True"
| "finds_words r bad pr (c # cs) =
     ((\<not> word_at pr \<and> bad (word_run (c # cs)) \<longrightarrow> match_at r pr (c # cs) \<noteq> None) \<and> finds_words r bad (Some c) cs)"

lemma finds_words_suffix: "finds_words r bad pr (u @ v) \<Longrightarrow> finds_words r bad (last_char pr u) v"
  by (induction u arbitrary: pr) auto

lemma no_word_finds: "\<not> has_word bad pr s \<Longrightarrow> finds_words r bad pr s"
  by (induction s arbitrary: pr) auto

lemma matching_finds:
  "(\<And>pr s. \<not> word_at pr \<Longrightarrow> bad (word_run s) \<Longrightarrow> match_at r pr s \<noteq> None) \<Longrightarrow> finds_words r bad pr s"
  by (induction s arbitrary: pr) auto

lemma ascii_word_is_word: "ascii_word c \<Longrightarrow> is_word c"
  by (auto simp: ascii_word_def is_word_def)

lemma not_word_brackets [simp]: "\<not> is_word (CHR ''['')" "\<not> is_word (CHR '']'')"
  by (simp_all add: is_word_def is_digit_def is_lower_ascii_def is_upper_ascii_def)

lemma word_run_simps [simp]: "word_run [] = []" "word_run (c # cs) = (if is_word c then c # word_run cs else [])"
  by (simp_all add: word_run_def)

lemma word_at_simps [simp]: "word_at (Some c) = is_word c" "\<not> word_at None"
  by (simp_all add: word_at_def)

lemma match_at_last:
  assumes "groups r = {}" and "match_at r pr s = Some t"
  shows "\<exists>u. s = u @ ms_rest t \<and> ms_prev t = last_char pr u"
  using reaches_prefix [OF assms(1) match_at_reaches(2) [OF assms]] by simp

definition bracketed :: "string \<Rightarrow> string" where
  "bracketed m = CHR ''['' # m @ [CHR '']'']"

lemma clean_matchD:
  assumes "clean_match r" and "match_at r pr s = Some t"
  shows "length (ms_rest t) < length s" and "word_at pr \<Longrightarrow> \<not> word_at (first_char s)"
    and "word_at (ms_prev t) \<Longrightarrow> ms_rest t = c # cs \<Longrightarrow> \<not> ascii_word c"
  using assms by (fastforce simp: clean_match_def)+

lemma sub_from_word_run:
  "clean_match r \<Longrightarrow> word_at pr \<Longrightarrow> word_run (fst (sub_from r (\<lambda>_. bracketed m) pr s)) = word_run s"
proof (induction r "\<lambda>_ :: match_state. bracketed m" pr s rule: sub_from.induct)
  case (2 r pr c cs)
  show ?case
  proof (cases "match_at r pr (c # cs)")
    case None
    with "2.hyps" "2.prems" show ?thesis by (auto split: prod.splits)
  next
    case (Some t)
    from clean_matchD [OF "2.prems"(1) Some] "2.prems"(2)
    have "length (ms_rest t) < length (c # cs)" "\<not> is_word c" by (auto simp: first_char_def)
    with Some show ?thesis by (auto simp: bracketed_def split: prod.splits)
  qed
qed simp

definition ascii_bad :: "(string \<Rightarrow> bool) \<Rightarrow> bool" where
  \<comment> \<open>the words looked for are not empty and start with an ASCII character\<close>
  "ascii_bad bad \<longleftrightarrow> \<not> bad [] \<and> (\<forall>c cs. bad (c # cs) \<longrightarrow> ascii_word c)"

lemma has_word_context:
  assumes "ascii_bad bad" and "\<not> has_word bad pr s" and "word_at pr \<Longrightarrow> \<not> bad (word_run s)"
  shows "\<not> has_word bad pr' s"
  using assms by (cases s) auto

lemma has_word_inside: "list_all is_word u \<Longrightarrow> word_at pr \<Longrightarrow> has_word bad pr (u @ v) \<longleftrightarrow> has_word bad (last_char pr u) v"
  by (induction u arbitrary: pr) auto

lemma has_word_bracketed:
  assumes "ascii_bad bad" and "list_all is_word m" and "m \<noteq> []"
  shows "has_word bad pr (bracketed m @ s) \<longleftrightarrow> bad m \<or> has_word bad (Some (CHR '']'')) s"
proof -
  obtain a m' where m: "m = a # m'" using assms(3) by (cases m) auto
  have "word_run (m @ CHR '']'' # s) = m" using assms(2)
    by (induction m) auto
  moreover have "has_word bad (Some a) (m' @ CHR '']'' # s) \<longleftrightarrow> has_word bad (last_char (Some a) m') (CHR '']'' # s)"
    using assms(2) m by (intro has_word_inside) auto
  ultimately show ?thesis using assms(1,2) m by (auto simp: bracketed_def ascii_bad_def)
qed

lemma sub_from_no_word:
  assumes "ascii_bad bad" and "list_all is_word m" and "m \<noteq> []" and "\<not> bad m" and "groups r = {}"
  shows "clean_match r \<Longrightarrow> finds_words r bad pr s \<Longrightarrow> \<not> has_word bad pr (fst (sub_from r (\<lambda>_. bracketed m) pr s))"
  using assms(5)
proof (induction r "\<lambda>_ :: match_state. bracketed m" pr s rule: sub_from.induct)
  case (2 r pr c cs)
  show ?case
  proof (cases "match_at r pr (c # cs)")
    case None
    let ?out = "fst (sub_from r (\<lambda>_. bracketed m) (Some c) cs)"
    have "\<not> has_word bad (Some c) ?out" using None "2.hyps" "2.prems" by simp
    moreover have "\<not> bad (word_run (c # ?out))" if "\<not> word_at pr"
    proof (cases "is_word c")
      case True
      then have "word_run (c # ?out) = word_run (c # cs)" using sub_from_word_run [OF "2.prems"(1)] by simp
      with that None "2.prems"(2) show ?thesis by auto
    qed (use assms(1) in \<open>simp add: ascii_bad_def\<close>)
    ultimately show ?thesis using None by (auto split: prod.splits)
  next
    case (Some t)
    note clean = clean_matchD [OF "2.prems"(1) Some]
    obtain u where u: "c # cs = u @ ms_rest t" "ms_prev t = last_char pr u"
      using match_at_last [OF "2.prems"(3) Some] by blast
    let ?out = "fst (sub_from r (\<lambda>_. bracketed m) (ms_prev t) (ms_rest t))"
    have "finds_words r bad (ms_prev t) (ms_rest t)"
      using "2.prems"(2) unfolding u by (rule finds_words_suffix)
    then have out: "\<not> has_word bad (ms_prev t) ?out" using Some clean(1) "2.hyps" "2.prems" by simp
    have "\<not> bad (word_run ?out)" if "word_at (ms_prev t)"
      unfolding sub_from_word_run [OF "2.prems"(1) that]
      using clean(3) [OF that] assms(1) by (cases "ms_rest t") (auto simp: ascii_bad_def)
    from has_word_context [OF assms(1) out this] have "\<not> has_word bad (Some (CHR '']'')) ?out" .
    moreover have "fst (sub_from r (\<lambda>_. bracketed m) pr (c # cs)) = bracketed m @ ?out"
      using Some clean(1) by (auto split: prod.splits)
    ultimately show ?thesis using has_word_bracketed [OF assms(1-3)] assms(4) by simp
  qed
qed simp

text \<open>What a substitution leaves, and what it does not bring.\<close>

lemma sub_keeps_free:
  assumes "clean_match r" and "groups r = {}" and "ascii_bad bad" and "list_all is_word m" and "m \<noteq> []" and "\<not> bad m"
    and "\<not> has_word bad None s"
  shows "\<not> has_word bad None (re_sub r (\<lambda>_. bracketed m) s)"
  unfolding re_sub_def re_subn_def by (rule sub_from_no_word) (use assms no_word_finds in auto)

lemma sub_frees:
  assumes "clean_match r" and "groups r = {}" and "ascii_bad bad" and "list_all is_word m" and "m \<noteq> []" and "\<not> bad m"
    and "\<And>pr s. \<not> word_at pr \<Longrightarrow> bad (word_run s) \<Longrightarrow> match_at r pr s \<noteq> None"
  shows "\<not> has_word bad None (re_sub r (\<lambda>_. bracketed m) s)"
  unfolding re_sub_def re_subn_def by (rule sub_from_no_word) (use assms matching_finds in auto)

lemma search_has_word:
  assumes "\<And>pr s. match_at r pr s \<noteq> None \<longleftrightarrow> \<not> word_at pr \<and> bad (word_run s)" and "\<not> bad []"
  shows "re_search r s \<longleftrightarrow> has_word bad None s"
proof -
  have "search_from r pr s \<longleftrightarrow> has_word bad pr s" for pr
    by (induction s arbitrary: pr) (use assms in \<open>auto simp del: word_run_simps(2)\<close>)
  then show ?thesis by (simp add: re_search_def)
qed

end
