(* ===== verification/SecretRedaction.thy ===== *)
theory SecretRedaction
  imports ScanFindings PyRegexWords
begin

text \<open>
  What \<open>redact_secret_like_text\<close> guarantees: no AWS access key and no GitHub token is left in a redacted text.
  The passes interact: each replaces what its pattern matches by a marker, and a later pass, which cuts other
  pieces out of the text, could join or cut words; that it does not make a key out of a longer word
  rests on how the patterns begin and end.
\<close>

section \<open>Keys and tokens are words\<close>

definition aws_word :: "string \<Rightarrow> bool" where
  "aws_word w \<longleftrightarrow> take 4 w = ''AKIA'' \<and> length w = 20 \<and> list_all (\<lambda>c. is_digit c \<or> is_upper_ascii c) (drop 4 w)"

definition GITHUB_TOKEN_PREFIXES :: "string list" where
  "GITHUB_TOKEN_PREFIXES = [''ghp_'', ''gho_'', ''ghu_'', ''ghs_'', ''github_pat_'']"

definition github_word :: "string \<Rightarrow> bool" where
  "github_word w \<longleftrightarrow> list_ex (\<lambda>p. starts_with p w \<and> length p + 20 \<le> length w) GITHUB_TOKEN_PREFIXES \<and> list_all ascii_word w"

lemma aws_word_iff: "aws_word w \<longleftrightarrow> (\<exists>u. w = ''AKIA'' @ u \<and> length u = 16 \<and> list_all (\<lambda>c. is_digit c \<or> is_upper_ascii c) u)"
proof
  assume aws: "aws_word w"
  then have "w = ''AKIA'' @ drop 4 w" by (metis append_take_drop_id aws_word_def)
  moreover have "length (drop 4 w) = 16" using aws by (simp add: aws_word_def)
  ultimately show "\<exists>u. w = ''AKIA'' @ u \<and> length u = 16 \<and> list_all (\<lambda>c. is_digit c \<or> is_upper_ascii c) u"
    using aws unfolding aws_word_def by blast
qed (auto simp: aws_word_def)

lemma github_word_iff:
  "github_word w \<longleftrightarrow> (\<exists>p \<in> set GITHUB_TOKEN_PREFIXES. \<exists>u. w = p @ u \<and> 20 \<le> length u \<and> list_all ascii_word (p @ u))"
proof -
  have "starts_with p w \<and> length p + 20 \<le> length w \<and> list_all ascii_word w \<longleftrightarrow>
      (\<exists>u. w = p @ u \<and> 20 \<le> length u \<and> list_all ascii_word (p @ u))" for p
    by (auto simp: starts_with_iff)
  then show ?thesis unfolding github_word_def list_ex_iff by blast
qed

lemma word_runI: "s = w @ v \<Longrightarrow> list_all is_word w \<Longrightarrow> \<not> word_at (first_char v) \<Longrightarrow> word_run s = w"
proof (induction w arbitrary: s)
  case Nil
  then show ?case by (cases v) (auto simp: first_char_def)
qed auto

lemma word_run_split: "\<exists>v. s = word_run s @ v \<and> list_all is_word (word_run s) \<and> \<not> word_at (first_char v)"
proof (induction s)
  case (Cons c s)
  then show ?case by (cases "is_word c") (auto simp: first_char_def)
qed (simp add: first_char_def)

lemma groups_exactly [simp]: "groups (exactly n p) = {}"
  by (simp add: exactly_def)

lemma upper_digit_is_word: "is_digit c \<or> is_upper_ascii c \<Longrightarrow> is_word c"
  by (auto simp: is_word_def)

lemma list_all_words: "list_all (\<lambda>c. is_digit c \<or> is_upper_ascii c) u \<Longrightarrow> list_all is_word u" "list_all ascii_word u \<Longrightarrow> list_all is_word u"
  by (auto simp: list_all_iff upper_digit_is_word ascii_word_is_word)

lemma last_char_word: "list_all is_word u \<Longrightarrow> u \<noteq> [] \<Longrightarrow> word_at (last_char pr u)"
  by (simp add: last_char_def list_all_iff)

text \<open>A pattern between two word boundaries whose texts are words matches exactly at the words it knows.\<close>

definition matches_words :: "re \<Rightarrow> (string \<Rightarrow> bool) \<Rightarrow> bool" where
  "matches_words r bad \<longleftrightarrow> groups r = {} \<and> (\<forall>w. bad w \<longrightarrow> w \<noteq> [] \<and> list_all is_word w) \<and>
     (\<forall>pr s y. reaches r (pr, s) y \<longleftrightarrow> \<not> word_at pr \<and>
        (\<exists>w. bad w \<and> s = w @ snd y \<and> fst y = last_char pr w \<and> \<not> word_at (first_char (snd y))))"

lemma matches_words_reaches:
  "matches_words r bad \<Longrightarrow> reaches r (pr, s) y \<longleftrightarrow> \<not> word_at pr \<and>
     (\<exists>w. bad w \<and> s = w @ snd y \<and> fst y = last_char pr w \<and> \<not> word_at (first_char (snd y)))"
  unfolding matches_words_def by blast

lemma matches_words_match:
  assumes "matches_words r bad"
  shows "match_at r pr s \<noteq> None \<longleftrightarrow> \<not> word_at pr \<and> bad (word_run s)"
proof -
  have g: "groups r = {}" and words: "\<And>w. bad w \<Longrightarrow> list_all is_word w" using assms by (auto simp: matches_words_def)
  note reach = matches_words_reaches [OF assms, of pr s]
  show ?thesis
  proof
    assume "match_at r pr s \<noteq> None"
    then obtain y where "reaches r (pr, s) y" using match_at_reaches(1) [OF g] by blast
    then obtain w where "\<not> word_at pr" "bad w" "s = w @ snd y" "\<not> word_at (first_char (snd y))" unfolding reach by blast
    with words show "\<not> word_at pr \<and> bad (word_run s)" by (metis word_runI)
  next
    assume bad: "\<not> word_at pr \<and> bad (word_run s)"
    obtain v where "s = word_run s @ v" "\<not> word_at (first_char v)" using word_run_split by blast
    with bad have "reaches r (pr, s) (last_char pr (word_run s), v)" unfolding reach by auto
    then show "match_at r pr s \<noteq> None" using match_at_reaches(1) [OF g] by blast
  qed
qed

lemma matches_words_clean:
  assumes "matches_words r bad"
  shows "clean_match r"
  unfolding clean_match_def
proof (intro allI impI)
  fix pr s t assume m: "match_at r pr s = Some t"
  have g: "groups r = {}" using assms by (simp add: matches_words_def)
  from match_at_reaches(2) [OF g m] obtain w where w: "\<not> word_at pr" "bad w" "s = w @ ms_rest t" "\<not> word_at (first_char (ms_rest t))"
    unfolding matches_words_reaches [OF assms] by auto
  moreover from w(2) assms have "w \<noteq> []" by (auto simp: matches_words_def)
  ultimately show "length (ms_rest t) < length s \<and> \<not> (word_at pr \<and> word_at (first_char s)) \<and>
      (word_at (ms_prev t) \<longrightarrow> (case ms_rest t of [] \<Rightarrow> True | c # _ \<Rightarrow> \<not> ascii_word c))"
    by (auto simp: first_char_def dest: ascii_word_is_word split: list.splits)
qed

lemma between_boundaries:
  assumes r: "groups r = {}" and texts: "\<And>pr s y. reaches r (pr, s) y \<longleftrightarrow>
       (\<exists>w z. bad w \<and> s = w @ snd z \<and> fst z = last_char pr w \<and> reaches (Seq WordB Eps) z y)"
    and words: "\<And>w. bad w \<Longrightarrow> w \<noteq> [] \<and> list_all is_word w"
  shows "matches_words (Seq WordB r) bad"
proof -
  have bounds: "word_at (first_char (w @ v)) \<and> word_at (last_char pr w)" if "bad w" for w v pr
    using words [OF that] by (cases w) (auto simp: first_char_def last_char_def list_all_iff)
  have end_bound: "reaches (Seq WordB Eps) z y \<longleftrightarrow> y = z \<and> word_at (fst z) \<noteq> word_at (first_char (snd z))" for z y
    by (auto simp: reaches_Seq reaches_simps)
  have start_bound: "reaches (Seq WordB r) (pr, s) y \<longleftrightarrow> word_at pr \<noteq> word_at (first_char s) \<and> reaches r (pr, s) y" for pr s y
    by (auto simp: reaches_Seq reaches_simps)
  have "reaches (Seq WordB r) (pr, s) y \<longleftrightarrow> \<not> word_at pr \<and>
        (\<exists>w. bad w \<and> s = w @ snd y \<and> fst y = last_char pr w \<and> \<not> word_at (first_char (snd y)))" for pr s y
    unfolding start_bound texts end_bound using bounds by metis
  with r words show ?thesis unfolding matches_words_def by simp
qed

lemma aws_key_matches: "matches_words aws_key_re aws_word"
proof -
  let ?tail = "seqs [lit ''AKIA'', exactly 16 (\<lambda>c. is_digit c \<or> is_upper_ascii c), WordB]"
  have "matches_words (Seq WordB ?tail) aws_word"
  proof (rule between_boundaries)
    fix pr s y
    have "reaches ?tail (pr, s) y \<longleftrightarrow> (\<exists>u z. length u = 16 \<and> list_all (\<lambda>c. is_digit c \<or> is_upper_ascii c) u \<and> s = ''AKIA'' @ u @ snd z \<and>
        fst z = last_char pr (''AKIA'' @ u) \<and> reaches (Seq WordB Eps) z y)"
      by (simp only: reaches_seqs groups_lit groups_exactly reaches_lit reaches_exactly) (auto simp: seqs_def)
    then show "reaches ?tail (pr, s) y \<longleftrightarrow>
        (\<exists>w z. aws_word w \<and> s = w @ snd z \<and> fst z = last_char pr w \<and> reaches (Seq WordB Eps) z y)"
      unfolding aws_word_iff by (auto; metis append.assoc)
  next
    fix w assume "aws_word w"
    moreover have "list_all is_word ''AKIA''" by code_simp
    ultimately show "w \<noteq> [] \<and> list_all is_word w" unfolding aws_word_iff using list_all_words(1) by auto
  qed simp
  then show ?thesis by (simp add: aws_key_re_def seqs_def)
qed

lemma github_token_matches: "matches_words github_token_re github_word"
proof -
  let ?kind = "alts [lit ''ghp'', lit ''gho'', lit ''ghu'', lit ''ghs'', lit ''github_pat'']"
  let ?tail = "seqs [?kind, lit ''_'', at_least 20 ascii_word, WordB]"
  have groups: "groups ?kind = {}" by simp
  have last_bound: "seqs [WordB] = Seq WordB Eps" by (simp add: seqs_def)
  have ascii: "list_all ascii_word p" if "p \<in> set GITHUB_TOKEN_PREFIXES" for p
  proof -
    have "list_all (list_all ascii_word) GITHUB_TOKEN_PREFIXES" by code_simp
    with that show ?thesis by (auto simp: list_all_iff)
  qed
  have kind: "(\<exists>z. reaches ?kind (pr, s) z \<and> reaches (lit ''_'') z z') \<longleftrightarrow>
      (\<exists>p \<in> set GITHUB_TOKEN_PREFIXES. s = p @ snd z' \<and> fst z' = last_char pr p)" for pr s z'
    by (auto simp: reaches_simps reaches_lit GITHUB_TOKEN_PREFIXES_def)
  have "matches_words (Seq WordB ?tail) github_word"
  proof (rule between_boundaries)
    fix pr s y
    have "reaches ?tail (pr, s) y \<longleftrightarrow> (\<exists>z' z. (\<exists>x. reaches ?kind (pr, s) x \<and> reaches (lit ''_'') x z') \<and>
        reaches (at_least 20 ascii_word) z' z \<and> reaches (Seq WordB Eps) z y)"
      unfolding reaches_seqs(2) [OF groups] reaches_seqs(2) [OF groups_lit(1)] reaches_seqs(2) [OF groups_builders(4)] last_bound
      by blast
    also have "\<dots> \<longleftrightarrow> (\<exists>p \<in> set GITHUB_TOKEN_PREFIXES. \<exists>u z. s = p @ u @ snd z \<and> 20 \<le> length u \<and> list_all ascii_word u \<and>
        fst z = last_char pr (p @ u) \<and> reaches (Seq WordB Eps) z y)"
      unfolding kind reaches_at_least
    proof
      assume "\<exists>p \<in> set GITHUB_TOKEN_PREFIXES. \<exists>u z. s = p @ u @ snd z \<and> 20 \<le> length u \<and> list_all ascii_word u \<and>
        fst z = last_char pr (p @ u) \<and> reaches (Seq WordB Eps) z y"
      then obtain p u z where "p \<in> set GITHUB_TOKEN_PREFIXES" "s = p @ u @ snd z" "20 \<le> length u" "list_all ascii_word u"
        "fst z = last_char pr (p @ u)" "reaches (Seq WordB Eps) z y" by blast
      then show "\<exists>z' z. (\<exists>p \<in> set GITHUB_TOKEN_PREFIXES. s = p @ snd z' \<and> fst z' = last_char pr p) \<and>
        (\<exists>u. snd z' = u @ snd z \<and> 20 \<le> length u \<and> list_all ascii_word u \<and> fst z = last_char (fst z') u) \<and>
        reaches (Seq WordB Eps) z y"
        by (intro exI [of _ "(last_char pr p, u @ snd z)"] exI [of _ z]) auto
    qed auto
    also have "\<dots> \<longleftrightarrow> (\<exists>w z. github_word w \<and> s = w @ snd z \<and> fst z = last_char pr w \<and> reaches (Seq WordB Eps) z y)"
    proof
      assume "\<exists>p \<in> set GITHUB_TOKEN_PREFIXES. \<exists>u z. s = p @ u @ snd z \<and> 20 \<le> length u \<and> list_all ascii_word u \<and>
        fst z = last_char pr (p @ u) \<and> reaches (Seq WordB Eps) z y"
      then obtain p u z where p: "p \<in> set GITHUB_TOKEN_PREFIXES" "20 \<le> length u" "list_all ascii_word u"
        and z: "s = (p @ u) @ snd z" "fst z = last_char pr (p @ u)" "reaches (Seq WordB Eps) z y" by auto
      from p ascii have "github_word (p @ u)" unfolding github_word_iff list_all_append by blast
      with z show "\<exists>w z. github_word w \<and> s = w @ snd z \<and> fst z = last_char pr w \<and> reaches (Seq WordB Eps) z y" by blast
    next
      assume "\<exists>w z. github_word w \<and> s = w @ snd z \<and> fst z = last_char pr w \<and> reaches (Seq WordB Eps) z y"
      then obtain w z where w: "github_word w" and z: "s = w @ snd z" "fst z = last_char pr w" "reaches (Seq WordB Eps) z y" by blast
      from w obtain p u where "p \<in> set GITHUB_TOKEN_PREFIXES" "w = p @ u" "20 \<le> length u" "list_all ascii_word (p @ u)"
        unfolding github_word_iff by blast
      with z show "\<exists>p \<in> set GITHUB_TOKEN_PREFIXES. \<exists>u z. s = p @ u @ snd z \<and> 20 \<le> length u \<and> list_all ascii_word u \<and>
        fst z = last_char pr (p @ u) \<and> reaches (Seq WordB Eps) z y" by (intro bexI exI conjI) auto
    qed
    finally show "reaches ?tail (pr, s) y \<longleftrightarrow>
        (\<exists>w z. github_word w \<and> s = w @ snd z \<and> fst z = last_char pr w \<and> reaches (Seq WordB Eps) z y)" .
  next
    fix w assume "github_word w"
    moreover have "[] \<notin> set GITHUB_TOKEN_PREFIXES" by (simp add: GITHUB_TOKEN_PREFIXES_def)
    ultimately show "w \<noteq> [] \<and> list_all is_word w" unfolding github_word_iff using list_all_words(2) by fastforce
  qed simp
  moreover have "ascii_word = (\<lambda>c. is_lower_ascii c \<or> is_upper_ascii c \<or> is_digit c \<or> c = CHR ''_'')"
    by (simp add: fun_eq_iff ascii_word_def)
  ultimately show ?thesis by (simp add: github_token_re_def seqs_def)
qed

section \<open>How the other patterns begin and end\<close>

lemma concat_head: "concat (map f xs) = t # ts \<Longrightarrow> \<exists>x \<in> set xs. \<exists>ts'. f x = t # ts'"
  by (induction xs) (auto simp: append_eq_Cons_conv)

lemma run_tail:
  "run_re (seqs (rs @ tail)) s = t # ts \<Longrightarrow> \<exists>s' ts'. run_re (seqs tail) s' = t # ts'"
proof (induction rs arbitrary: s ts)
  case (Cons r rs)
  then have "concat (map (run_re (seqs (rs @ tail))) (run_re r s)) = t # ts" by (simp add: seqs_def)
  from concat_head [OF this] Cons.IH show ?case by blast
qed auto

lemma match_at_tail:
  assumes "match_at (seqs (rs @ tail)) pr s = Some t"
  shows "\<exists>s' ts'. run_re (seqs tail) s' = t # ts'"
  using assms run_tail by (auto simp: match_at_def split: list.splits)

lemma star_runs_head: "\<exists>ts. star_runs p pr s = (last_char pr (takeWhile p s), dropWhile p s) # ts"
proof (induction s arbitrary: pr)
  case (Cons c s)
  from Cons.IH [of "Some c"] show ?case by (cases "p c") auto
qed simp

lemma run_plus_head:
  assumes "run_re (seqs (plus p # rs)) s = t # ts" and "\<And>x. run_re (seqs rs) x \<noteq> []"
  shows "\<exists>x ts'. run_re (seqs rs) x = t # ts' \<and> (ms_rest x = [] \<or> \<not> p (hd (ms_rest x)))"
proof -
  let ?state = "\<lambda>(pr, r). s\<lparr>ms_prev := pr, ms_rest := r\<rparr>"
  from assms(1) obtain c cs where c: "ms_rest s = c # cs" "p c" by (cases "ms_rest s") (auto simp: seqs_def plus_def split: if_splits)
  obtain more where more: "star_runs p (Some c) cs = (last_char (Some c) (takeWhile p cs), dropWhile p cs) # more"
    using star_runs_head by blast
  let ?x = "?state (last_char (Some c) (takeWhile p cs), dropWhile p cs)"
  have "run_re (seqs (plus p # rs)) s = run_re (seqs rs) ?x @ concat (map (run_re (seqs rs)) (map ?state more))"
    using c more by (simp add: seqs_def plus_def)
  with assms(1) assms(2) [of ?x] have "\<exists>ts'. run_re (seqs rs) ?x = t # ts'" by (auto simp: append_eq_Cons_conv)
  moreover have "ms_rest ?x = [] \<or> \<not> p (hd (ms_rest ?x))"
    using hd_dropWhile [of p cs] by (cases "dropWhile p cs") auto
  ultimately show ?thesis by blast
qed

lemma reaches_shorter: "groups r = {} \<Longrightarrow> reaches r x y \<Longrightarrow> length (snd y) \<le> length (snd x)"
  using reaches_prefix by fastforce

lemma groups_seqs: "groups (seqs rs) = {} \<longleftrightarrow> (\<forall>r \<in> set rs. groups r = {})"
  by auto

lemma reaches_seqs_append:
  "groups (seqs rs) = {} \<Longrightarrow> reaches (seqs (rs @ rs')) x z \<longleftrightarrow> (\<exists>y. reaches (seqs rs) x y \<and> reaches (seqs rs') y z)"
proof (induction rs arbitrary: x)
  case (Cons r rs)
  then have "groups r = {}" "groups (seqs rs) = {}" by simp_all
  with Cons.IH show ?case by (simp del: groups_builders(1) add: reaches_seqs) blast
qed (simp add: reaches_seqs)

lemma plus_consumes:
  assumes "groups (seqs (rs @ plus p # rs')) = {}" and "reaches (seqs (rs @ plus p # rs')) x y"
  shows "length (snd y) < length (snd x)"
proof -
  from assms obtain z z' where z: "reaches (seqs rs) x z" "reaches (plus p) z z'" "reaches (seqs rs') z' y"
    by (auto simp: reaches_seqs_append reaches_seqs)
  then have "length (snd z') < length (snd z)" by (auto simp: plus_def reaches_Seq reaches_simps)
  with reaches_shorter [OF _ z(1)] reaches_shorter [OF _ z(3)] assms(1) show ?thesis by simp
qed

lemma starts_at_boundary:
  "reaches (seqs (WordB # rs)) (pr, s) y \<Longrightarrow> \<not> (word_at pr \<and> word_at (first_char s))"
  by (auto simp: reaches_seqs reaches_simps)

lemma clean_pattern:
  assumes r: "r = seqs (WordB # rs @ plus p # rs')" and g: "groups r = {}"
    and ends: "\<And>x t ts. run_re (seqs (plus p # rs')) x = t # ts \<Longrightarrow> word_at (ms_prev t) \<Longrightarrow>
      (case ms_rest t of [] \<Rightarrow> True | c # _ \<Rightarrow> \<not> ascii_word c)"
  shows "clean_match r"
  unfolding clean_match_def
proof (intro allI impI)
  fix pr s t assume m: "match_at r pr s = Some t"
  note reach = match_at_reaches(2) [OF g m]
  have "r = seqs ((WordB # rs) @ plus p # rs')" using r by simp
  with plus_consumes [of "WordB # rs" p rs'] g reach have "length (ms_rest t) < length s" by fastforce
  moreover from m [unfolded \<open>r = seqs ((WordB # rs) @ plus p # rs')\<close>]
  have "word_at (ms_prev t) \<longrightarrow> (case ms_rest t of [] \<Rightarrow> True | c # _ \<Rightarrow> \<not> ascii_word c)"
    using match_at_tail ends by blast
  moreover have "\<not> (word_at pr \<and> word_at (first_char s))" using reach r starts_at_boundary by blast
  ultimately show "length (ms_rest t) < length s \<and> \<not> (word_at pr \<and> word_at (first_char s)) \<and>
      (word_at (ms_prev t) \<longrightarrow> (case ms_rest t of [] \<Rightarrow> True | c # _ \<Rightarrow> \<not> ascii_word c))" by blast
qed

lemma bearer_clean: "clean_match bearer_re"
proof (rule clean_pattern)
  let ?p = "\<lambda>c. is_lower_ascii c \<or> is_upper_ascii c \<or> is_digit c \<or> c \<in> set ''._~+/=-''"
  show "bearer_re = seqs (WordB # [ilit ''authorization:'', Star is_space, ilit ''bearer'', plus is_space] @ plus ?p # [])"
    by (simp add: bearer_re_def)
  show "groups bearer_re = {}" by (simp add: bearer_re_def)
  fix x t ts assume "run_re (seqs [plus ?p]) x = t # ts"
  from run_plus_head [OF this] have "ms_rest t = [] \<or> \<not> ?p (hd (ms_rest t))" by (auto simp: seqs_def)
  then show "case ms_rest t of [] \<Rightarrow> True | c # _ \<Rightarrow> \<not> ascii_word c" by (auto simp: ascii_word_def split: list.splits)
qed

lemma space_not_word: "is_space c \<Longrightarrow> \<not> ascii_word c" "is_quote c \<Longrightarrow> \<not> is_word c"
  by (auto simp: is_space_def is_quote_def ascii_word_def is_word_def is_digit_def is_lower_ascii_def is_upper_ascii_def)

lemma secret_assignment_clean: "clean_match secret_assignment_re"
proof (rule clean_pattern)
  let ?p = "\<lambda>c. \<not> is_quote c \<and> \<not> is_space c"
  let ?names = "alts [seqs [ilit ''api'', dash_or_underscore, ilit ''key''], seqs [ilit ''access'', dash_or_underscore, ilit ''token''],
       seqs [ilit ''auth'', dash_or_underscore, ilit ''token''], seqs [ilit ''client'', dash_or_underscore, ilit ''secret''],
       seqs [ilit ''database'', dash_or_underscore, ilit ''url''], ilit ''password'', ilit ''passwd'',
       seqs [ilit ''private'', dash_or_underscore, ilit ''key''], ilit ''secret'']"
  show "secret_assignment_re = seqs (WordB # [?names, WordB, Star is_space, Cls (\<lambda>c. c = CHR '':'' \<or> c = CHR ''=''), Star is_space,
      opt (Cls is_quote)] @ plus ?p # [opt (Cls is_quote)])"
    by (simp add: secret_assignment_re_def)
  show "groups secret_assignment_re = {}" by (simp add: secret_assignment_re_def dash_or_underscore_def)
  fix x t ts assume run: "run_re (seqs [plus ?p, opt (Cls is_quote)]) x = t # ts" and word: "word_at (ms_prev t)"
  from run_plus_head [OF run] obtain y ts' where y: "run_re (seqs [opt (Cls is_quote)]) y = t # ts'"
    and stop: "ms_rest y = [] \<or> \<not> ?p (hd (ms_rest y))" by (auto simp: seqs_def opt_def)
  show "case ms_rest t of [] \<Rightarrow> True | c # _ \<Rightarrow> \<not> ascii_word c"
  proof (cases "ms_rest y")
    case Nil
    with y show ?thesis by (auto simp: seqs_def opt_def)
  next
    case (Cons c cs)
    with y stop word show ?thesis
      using space_not_word [of c] by (auto simp: seqs_def opt_def split: if_splits)
  qed
qed

section \<open>No key and no token is left\<close>

abbreviation redaction_pass :: "re \<Rightarrow> string \<Rightarrow> string" where
  "redaction_pass r \<equiv> re_sub r (\<lambda>_. bracketed ''REDACTED_SECRET'')"

lemma redact_passes:
  "redact_secret_like_text s = redaction_pass bearer_re (redaction_pass secret_assignment_re (redaction_pass aws_key_re
     (redaction_pass github_token_re (redaction_pass private_key_re s))))"
  by (simp add: redact_secret_like_text_def redact_secret_like_text_with_flag_def SECRET_PATTERNS_def re_sub_def
      SECRET_REPLACEMENT_def bracketed_def split: prod.splits)

lemma secret_words_ascii: "ascii_bad aws_word" "ascii_bad github_word"
proof -
  have "ascii_word (CHR ''A'')" by code_simp
  then show "ascii_bad aws_word" by (auto simp: ascii_bad_def aws_word_iff)
  have "[] \<notin> set GITHUB_TOKEN_PREFIXES" by code_simp
  then show "ascii_bad github_word" by (fastforce simp: ascii_bad_def github_word_def list_ex_iff)
qed

lemma marker_word: "list_all is_word ''REDACTED_SECRET''" "\<not> aws_word ''REDACTED_SECRET''" "\<not> github_word ''REDACTED_SECRET''"
  by code_simp+

lemma pattern_groups: "groups aws_key_re = {}" "groups github_token_re = {}" "groups bearer_re = {}"
  "groups secret_assignment_re = {}" "groups private_key_re = {}"
  by (simp_all add: aws_key_re_def github_token_re_def bearer_re_def secret_assignment_re_def dash_or_underscore_def
      private_key_re_def key_kind_re_def)

lemmas pattern_clean = matches_words_clean [OF aws_key_matches] matches_words_clean [OF github_token_matches]
  bearer_clean secret_assignment_clean

lemma pass_keeps_free:
  assumes "r \<in> {aws_key_re, github_token_re, bearer_re, secret_assignment_re}"
    and "ascii_bad bad" and "\<not> bad ''REDACTED_SECRET''" and "\<not> has_word bad None s"
  shows "\<not> has_word bad None (redaction_pass r s)"
  by (rule sub_keeps_free) (use assms pattern_clean pattern_groups marker_word in auto)

lemma pass_frees:
  assumes "matches_words r bad" and "ascii_bad bad" and "\<not> bad ''REDACTED_SECRET''"
  shows "\<not> has_word bad None (redaction_pass r s)"
proof (rule sub_frees)
  show "groups r = {}" using assms(1) by (simp add: matches_words_def)
  show "match_at r pr t \<noteq> None" if "\<not> word_at pr" "bad (word_run t)" for pr t
    using that matches_words_match [OF assms(1)] by blast
qed (use assms matches_words_clean marker_word(1) in auto)

lemma search_secret_words: "matches_words r bad \<Longrightarrow> re_search r s \<longleftrightarrow> has_word bad None s"
  by (rule search_has_word [OF matches_words_match]) (auto simp: matches_words_def)

lemma redacted_text_clean:
  "\<not> re_search aws_key_re (redact_secret_like_text s) \<and> \<not> re_search github_token_re (redact_secret_like_text s)"
proof -
  note keeps = pass_keeps_free [rotated 1, OF secret_words_ascii(1) marker_word(2)]
    pass_keeps_free [rotated 1, OF secret_words_ascii(2) marker_word(3)]
  have "\<not> has_word aws_word None (redact_secret_like_text s)"
    unfolding redact_passes
    by (rule keeps(1), rule keeps(1), rule pass_frees [OF aws_key_matches secret_words_ascii(1) marker_word(2)]) simp_all
  moreover have "\<not> has_word github_word None (redact_secret_like_text s)"
    unfolding redact_passes
    by (rule keeps(2), rule keeps(2), rule keeps(2), rule pass_frees [OF github_token_matches secret_words_ascii(2) marker_word(3)]) simp_all
  ultimately show ?thesis
    unfolding search_secret_words [OF aws_key_matches] search_secret_words [OF github_token_matches] by simp
qed

text \<open>C10: No text that \<open>redact_secret_like_text\<close> returns contains an AWS access key or a GitHub token, as their two patterns
  find them: the pass of each pattern removes all its matches, and no later pass puts one together again.\<close>

theorem redacted_text_has_no_key_or_token:
  "\<not> re_search aws_key_re (redact_secret_like_text s) \<and> \<not> re_search github_token_re (redact_secret_like_text s)"
  by (rule redacted_text_clean)

end
