(* ===== verification/ReviewTables.thy ===== *)
theory ReviewTables
  imports PipelineComments ReviewQueue PyAction
begin

text \<open>
  The tables of reviews: \<open>pull_requests\<close>, \<open>review_runs\<close>, \<open>changed_files\<close>, \<open>analysis_artifacts\<close>, \<open>findings\<close> and
  \<open>published_comments\<close>, beside those of codebase scans, with the constraints of the schema (the API's migrations 001, 002
  and 007). A statement is an action on the tables; a transaction that raises leaves them as they were.
\<close>

section \<open>Rows\<close>

record pull_request_row =
  prw_id :: string
  prw_number :: int
  prw_title :: string
  prw_base_sha :: string
  prw_head_sha :: string

record review_run_row = review_run +
  rn_id :: string
  rn_repository_id :: string
  rn_pull_request_id :: string
  rn_head_sha :: string

record changed_file_row =
  cfr_id :: string
  cfr_review_run_id :: string
  cfr_path :: string
  cfr_status :: string
  cfr_additions :: int
  cfr_deletions :: int
  cfr_patch :: "string option"
  cfr_language :: "string option"
  cfr_is_infrastructure :: bool
  cfr_is_supported :: bool
  cfr_risk_flags_json :: json

record artifact_row =
  arr_id :: string
  arr_review_run_id :: string
  arr_artifact_type :: string
  arr_storage_key :: string
  arr_metadata_json :: obj

record finding_row =
  fdr_id :: string
  fdr_review_run_id :: string
  fdr_source :: string
  fdr_category :: string
  fdr_severity :: string
  fdr_confidence :: string
  fdr_file_path :: "string option"
  fdr_start_line :: "int option"
  fdr_end_line :: "int option"
  fdr_title :: string
  fdr_body :: string
  fdr_evidence_json :: "json list"
  fdr_suggestion :: "string option"
  fdr_dedupe_key :: string
  fdr_post_as_inline :: bool

record comment_row =
  cmr_id :: string
  cmr_review_run_id :: string
  cmr_finding_id :: "string option"
  cmr_github_comment_id :: "int option"
  cmr_github_review_id :: "int option"
  cmr_comment_type :: string
  cmr_file_path :: "string option"
  cmr_line :: "int option"
  cmr_body :: "string option"
  cmr_body_hash :: string
  cmr_dry_run :: bool

record review_db =
  rdb_scan :: scan_db
  rdb_pull_requests :: "pull_request_row list"
  rdb_runs :: "review_run_row list"
  rdb_changed_files :: "changed_file_row list"
  rdb_artifacts :: "artifact_row list"
  rdb_findings :: "finding_row list"
  rdb_comments :: "comment_row list"

section \<open>Constraints\<close>

definition run_ids :: "review_db \<Rightarrow> string set" where
  "run_ids db = rn_id ` set (rdb_runs db)"

definition changed_file_row_ok :: "changed_file_row \<Rightarrow> bool" where
  "changed_file_row_ok r \<longleftrightarrow> 0 \<le> cfr_additions r \<and> 0 \<le> cfr_deletions r"

definition changed_files_ok :: "string set \<Rightarrow> changed_file_row list \<Rightarrow> bool" where
  "changed_files_ok runs rs \<longleftrightarrow> list_all changed_file_row_ok rs \<and> distinct (map cfr_id rs) \<and>
     distinct (map (\<lambda>r. (cfr_review_run_id r, cfr_path r)) rs) \<and> list_all (\<lambda>r. cfr_review_run_id r \<in> runs) rs"

definition ARTIFACT_TYPES :: "string list" where
  "ARTIFACT_TYPES = [''diff'', ''treesitter'', ''semgrep'', ''context_pack'', ''llm_raw'', ''ci_log'', ''ci_failure_explanation'']"

definition artifacts_ok :: "string set \<Rightarrow> artifact_row list \<Rightarrow> bool" where
  "artifacts_ok runs rs \<longleftrightarrow> list_all (\<lambda>r. arr_artifact_type r \<in> set ARTIFACT_TYPES) rs \<and> distinct (map arr_id rs) \<and>
     distinct (map (\<lambda>r. (arr_review_run_id r, arr_artifact_type r, arr_storage_key r)) rs) \<and>
     list_all (\<lambda>r. arr_review_run_id r \<in> runs) rs"

definition finding_row_ok :: "finding_row \<Rightarrow> bool" where
  "finding_row_ok f \<longleftrightarrow> fdr_source f \<in> set [''semgrep'', ''llm'', ''ci'', ''policy''] \<and>
     fdr_category f \<in> set [''bug'', ''security'', ''performance'', ''maintainability'', ''test'', ''infra'', ''ci''] \<and>
     fdr_severity f \<in> set [''info'', ''low'', ''medium'', ''high'', ''critical''] \<and>
     fdr_confidence f \<in> set [''low'', ''medium'', ''high''] \<and>
     (case (fdr_start_line f, fdr_end_line f) of
        (None, None) \<Rightarrow> True | (Some s, Some e) \<Rightarrow> 0 < s \<and> s \<le> e | _ \<Rightarrow> False)"

definition review_findings_ok :: "string set \<Rightarrow> finding_row list \<Rightarrow> bool" where
  "review_findings_ok runs fs \<longleftrightarrow> list_all finding_row_ok fs \<and> distinct (map fdr_id fs) \<and>
     distinct (map (\<lambda>f. (fdr_review_run_id f, fdr_dedupe_key f)) fs) \<and> list_all (\<lambda>f. fdr_review_run_id f \<in> runs) fs"

definition comment_row_ok :: "comment_row \<Rightarrow> bool" where
  "comment_row_ok c \<longleftrightarrow> cmr_comment_type c \<in> set [''summary'', ''inline'', ''review''] \<and>
     (case cmr_line c of None \<Rightarrow> True | Some n \<Rightarrow> 0 < n)"

definition comment_content_key :: "comment_row \<Rightarrow> string \<times> string \<times> string" where
  "comment_content_key c = (cmr_review_run_id c, cmr_comment_type c, cmr_body_hash c)"

definition published_comments_ok :: "string set \<Rightarrow> comment_row list \<Rightarrow> bool" where
  "published_comments_ok runs cs \<longleftrightarrow> list_all comment_row_ok cs \<and> distinct (map cmr_id cs) \<and>
     distinct (map comment_content_key cs) \<and> distinct (List.map_filter cmr_github_comment_id cs) \<and>
     distinct (List.map_filter (\<lambda>c. map_option (\<lambda>f. (f, cmr_comment_type c)) (cmr_finding_id c)) cs) \<and>
     list_all (\<lambda>c. cmr_review_run_id c \<in> runs) cs"

section \<open>Statements and transactions\<close>

type_synonym 'a review_sql = "(review_db, worker_exception, 'a) action"

definition sql_put :: "(review_db \<Rightarrow> bool) \<Rightarrow> string \<Rightarrow> (review_db \<Rightarrow> review_db) \<Rightarrow> unit review_sql" where
  \<comment> \<open>a statement with its effect and the constraints it is checked against\<close>
  "sql_put ok table f = (\<lambda>db. if ok (f db) then Some (Inr (), f db) else Some (Inl (constraint_violation table), db))"

definition transaction :: "'a review_sql \<Rightarrow> 'a review_sql" where
  \<comment> \<open>\<open>async with await AsyncConnection.connect(...)\<close>: committed at the end, rolled back when the block raises\<close>
  "transaction m = (\<lambda>db. case m db of None \<Rightarrow> None | Some (Inl e, _) \<Rightarrow> Some (Inl e, db) | Some (Inr a, db') \<Rightarrow> Some (Inr a, db'))"

lemma sql_put_eq_Inr: "sql_put ok table f db = Some (Inr u, db') \<longleftrightarrow> ok (f db) \<and> db' = f db"
  by (auto simp: sql_put_def)

lemma transaction_eq_Inr: "transaction m db = Some (Inr a, db') \<longleftrightarrow> m db = Some (Inr a, db')"
  by (auto simp: transaction_def split: option.splits sum.splits)

lemma transaction_raises: "transaction m db = Some (Inl e, db') \<Longrightarrow> db' = db"
  by (auto simp: transaction_def split: option.splits sum.splits)

lemma each_sql_put_returns: "\<exists>r db'. act_each (\<lambda>x. sql_put (ok x) t (f x)) xs db = Some (r, db')"
  by (induction xs arbitrary: db) (auto simp: act_return_def act_bind_def sql_put_def)

end
