(* ===== verification/ReviewStore.thy ===== *)
theory ReviewStore
  imports ReviewTables
begin

text \<open>
  pipeline.py, \<open>PostgresReviewPipelineStore\<close>: reading the context of a review, storing its changed files, artifacts, findings and
  comments, the check before publication, and the findings of earlier codebase scans near the changed files.
  Arguments stand for SHA-256, the digest of a finding without an id, new identifiers (one for each statement), the clock
  and the text of a time. Text is ordered by code points, and rows that tie keep their order.
\<close>

section \<open>Context and changed files\<close>

definition review_context_row :: "string \<Rightarrow> review_db \<Rightarrow> ReviewContext option" where
  \<comment> \<open>the joins of the query\<close>
  "review_context_row review_run_id db =
     Option.bind (find (\<lambda>rr. rn_id rr = review_run_id) (rdb_runs db)) (\<lambda>rr.
     Option.bind (find (\<lambda>r. repo_id r = rn_repository_id rr) (db_repositories (rdb_scan db))) (\<lambda>r.
     Option.bind (find (\<lambda>gi. inst_id gi = repo_installation r) (db_installations (rdb_scan db))) (\<lambda>gi.
     map_option (\<lambda>pr. \<lparr> rvc_repository_id = repo_id r, rvc_installation_id = inst_installation_id gi,
         rvc_repository_full_name = repo_full_name r, rvc_repository_owner = repo_owner r, rvc_repository_name = repo_name r,
         rvc_pull_request_number = prw_number pr, rvc_pull_request_title = prw_title pr, rvc_base_sha = prw_base_sha pr,
         rvc_head_sha = rn_head_sha rr, rvc_current_head_sha = prw_head_sha pr \<rparr>)
       (find (\<lambda>pr. prw_id pr = rn_pull_request_id rr) (rdb_pull_requests db)))))"

definition load_context :: "string \<Rightarrow> ReviewContext review_sql" where
  "load_context review_run_id = (\<lambda>db. case review_context_row review_run_id db of
      Some review \<Rightarrow> Some (Inr review, db)
    | None \<Rightarrow> Some (Inl \<lparr> we_class = ''ReviewPipelineError'', we_text = ''Review run '' @ review_run_id @ '' was not found.'',
        we_error_code = Some ''review_context_not_found'' \<rparr>, db))"

definition is_infrastructure_path :: "string \<Rightarrow> bool" where
  "is_infrastructure_path path \<longleftrightarrow> list_ex (\<lambda>p. starts_with p (lower path)) [''.github/'', ''infra/'', ''deploy/'', ''terraform/''] \<or>
     path_name (lower path) \<in> set [''dockerfile'', ''docker-compose.yml'', ''docker-compose.prod.yml'']"

definition changed_file_row_of :: "string \<Rightarrow> string \<Rightarrow> ChangedFile \<Rightarrow> changed_file_row" where
  "changed_file_row_of uuid review_run_id f =
     \<lparr> cfr_id = uuid, cfr_review_run_id = review_run_id, cfr_path = cf_path f, cfr_status = cf_status f,
       cfr_additions = cf_additions f, cfr_deletions = cf_deletions f, cfr_patch = cf_patch f, cfr_language = cf_language f,
       cfr_is_infrastructure = is_infrastructure_path (cf_path f), cfr_is_supported = cf_language f \<noteq> None,
       cfr_risk_flags_json = JList [] \<rparr>"

definition changed_file_key :: "changed_file_row \<Rightarrow> (string \<times> string) option" where
  "changed_file_key r = Some (cfr_review_run_id r, cfr_path r)"

definition updated_changed_file :: "changed_file_row \<Rightarrow> changed_file_row \<Rightarrow> changed_file_row" where
  "updated_changed_file new old = old\<lparr>cfr_status := cfr_status new, cfr_additions := cfr_additions new,
     cfr_deletions := cfr_deletions new, cfr_patch := cfr_patch new, cfr_language := cfr_language new,
     cfr_is_infrastructure := cfr_is_infrastructure new, cfr_is_supported := cfr_is_supported new,
     cfr_risk_flags_json := cfr_risk_flags_json new\<rparr>"

definition save_changed_files :: "(nat \<Rightarrow> string) \<Rightarrow> string \<Rightarrow> ChangedFile list \<Rightarrow> unit review_sql" where
  "save_changed_files uuids review_run_id files = transaction (act_each (\<lambda>(n, f).
     sql_put (\<lambda>db. changed_files_ok (run_ids db) (rdb_changed_files db)) ''changed_files''
       (\<lambda>db. db\<lparr>rdb_changed_files := upsert_on changed_file_key updated_changed_file
          (changed_file_row_of (uuids n) review_run_id f) (rdb_changed_files db)\<rparr>))
     (enumerate 0 files))"

section \<open>Artifacts and findings\<close>

definition artifact_key :: "artifact_row \<Rightarrow> (string \<times> string \<times> string) option" where
  "artifact_key r = Some (arr_review_run_id r, arr_artifact_type r, arr_storage_key r)"

definition save_artifact :: "string \<Rightarrow> string \<Rightarrow> string \<Rightarrow> string \<Rightarrow> obj \<Rightarrow> unit review_sql" where
  "save_artifact uuid review_run_id artifact_type storage_key artifact =
     sql_put (\<lambda>db. artifacts_ok (run_ids db) (rdb_artifacts db)) ''analysis_artifacts''
       (\<lambda>db. db\<lparr>rdb_artifacts := upsert_on artifact_key (\<lambda>new old. old\<lparr>arr_metadata_json := arr_metadata_json new\<rparr>)
          \<lparr> arr_id = uuid, arr_review_run_id = review_run_id, arr_artifact_type = artifact_type, arr_storage_key = storage_key,
            arr_metadata_json = [(''artifact'', JObj artifact)] \<rparr> (rdb_artifacts db)\<rparr>)"

definition pipeline_semgrep_category :: "obj \<Rightarrow> string" where
  "pipeline_semgrep_category finding =
     (let rule_id = lower (pv_str (obj_get finding ''ruleId'') []); metadata = pv_object (obj_get finding ''metadata'')
      in if contains_str ''security'' rule_id \<or> json_truthy (obj_get metadata ''cwe'') \<or> json_truthy (obj_get metadata ''owasp'')
           then ''security''
         else if contains_str ''performance'' rule_id then ''performance''
         else if contains_str ''test'' rule_id then ''test''
         else ''bug'')"

definition pipeline_semgrep_evidence :: "obj \<Rightarrow> json" where
  "pipeline_semgrep_evidence finding =
     (let start = pv_object (obj_get finding ''start''); end_position = pv_object (obj_get finding ''end'')
      in JObj [(''source'', JStr ''semgrep''),
           (''artifactId'', JStr (pv_str (obj_get finding ''ruleId'') ''semgrep'')),
           (''path'', JStr (pv_str (obj_get finding ''path'') [])),
           (''lineRange'', JObj [(''startLine'', JInt (pv_int (obj_get start ''line'') 1)),
              (''endLine'', JInt (pv_int (obj_get end_position ''line'') (pv_int (obj_get start ''line'') 1)))]),
           (''excerpt'', JStr (take 1000 (pv_str (obj_get finding ''lines'') [])))])"

definition finding_row_of :: "(obj \<Rightarrow> string) \<Rightarrow> string \<Rightarrow> string \<Rightarrow> obj \<Rightarrow> finding_row" where
  "finding_row_of dedupe_hash uuid review_run_id finding =
     \<lparr> fdr_id = uuid, fdr_review_run_id = review_run_id, fdr_source = ''semgrep'', fdr_category = pipeline_semgrep_category finding,
       fdr_severity = pv_str (obj_get finding ''severity'') ''info'', fdr_confidence = ''high'',
       fdr_file_path = Some (pv_str (obj_get finding ''path'') []),
       fdr_start_line = pv_optional_positive_int (obj_get (pv_object (obj_get finding ''start'')) ''line''),
       fdr_end_line = pv_optional_positive_int (obj_get (pv_object (obj_get finding ''end'')) ''line''),
       fdr_title = pv_str (obj_get finding ''ruleId'') ''Semgrep finding'',
       fdr_body = pv_str (obj_get finding ''message'') ''Semgrep finding'',
       fdr_evidence_json = [pipeline_semgrep_evidence finding], fdr_suggestion = pv_optional_str (obj_get finding ''fix''),
       fdr_dedupe_key = pv_str (obj_get finding ''id'') (dedupe_hash finding), fdr_post_as_inline = True \<rparr>"

definition finding_key :: "finding_row \<Rightarrow> (string \<times> string) option" where
  "finding_key f = Some (fdr_review_run_id f, fdr_dedupe_key f)"

definition updated_finding :: "finding_row \<Rightarrow> finding_row \<Rightarrow> finding_row" where
  "updated_finding new old = old\<lparr>fdr_severity := fdr_severity new, fdr_body := fdr_body new,
     fdr_evidence_json := fdr_evidence_json new, fdr_suggestion := fdr_suggestion new\<rparr>"

definition save_semgrep_finding :: "(obj \<Rightarrow> string) \<Rightarrow> string \<Rightarrow> string \<Rightarrow> json \<Rightarrow> unit review_sql" where
  \<comment> \<open>one round of the loop; a value without \<open>get\<close> raises\<close>
  "save_semgrep_finding dedupe_hash uuid review_run_id finding = (case finding of
      JObj item \<Rightarrow> sql_put (\<lambda>db. review_findings_ok (run_ids db) (rdb_findings db)) ''findings''
        (\<lambda>db. db\<lparr>rdb_findings := upsert_on finding_key updated_finding
           (finding_row_of dedupe_hash uuid review_run_id item) (rdb_findings db)\<rparr>)
    | _ \<Rightarrow> act_raise \<lparr> we_class = ''AttributeError'', we_text = ''finding has no attribute get'', we_error_code = None \<rparr>)"

definition save_semgrep_findings :: "(obj \<Rightarrow> string) \<Rightarrow> (nat \<Rightarrow> string) \<Rightarrow> string \<Rightarrow> json list \<Rightarrow> unit review_sql" where
  "save_semgrep_findings dedupe_hash uuids review_run_id findings = transaction (act_each (\<lambda>(n, finding).
     save_semgrep_finding dedupe_hash (uuids n) review_run_id finding) (enumerate 0 findings))"

section \<open>Findings of codebase scans near the changed files\<close>

record CodebaseFinding =
  cdf_finding_id :: string
  cdf_dedupe_key :: string
  cdf_source :: string
  cdf_category :: string
  cdf_severity :: string
  cdf_confidence :: string
  cdf_file_path :: "string option"
  cdf_start_line :: "int option"
  cdf_end_line :: "int option"
  cdf_title :: string
  cdf_evidence :: "obj list"
  cdf_recommendation :: "string option"
  cdf_first_seen_at :: string
  cdf_last_seen_at :: string

record CodebaseReviewEnrichment =
  cre_review_run_id :: string
  cre_repository_id :: string
  cre_repository_full_name :: string
  cre_pull_request_number :: int
  cre_head_sha :: string
  cre_touched_file_paths :: "string list"
  cre_findings :: "CodebaseFinding list"

definition component_prefix :: "string \<Rightarrow> string" where
  "component_prefix path = (let parts = filter (\<lambda>part. part \<noteq> []) (split_char (CHR ''/'') path)
     in if parts = [] then [] else if length parts > 1 then join ''/'' (take 2 parts) else hd parts)"

definition touched_component_prefixes :: "ChangedFile list \<Rightarrow> string list" where
  "touched_component_prefixes files =
     dedupe_keep_order (filter (\<lambda>p. p \<noteq> []) (map (\<lambda>f. component_prefix (cf_path f)) files))"

definition touched_file_paths :: "ChangedFile list \<Rightarrow> string list" where
  "touched_file_paths files = sorted_list_of_set (set (filter (\<lambda>p. p \<noteq> []) (map cf_path files)))"

definition empty_codebase_review_enrichment :: "ReviewContext \<Rightarrow> string \<Rightarrow> ChangedFile list \<Rightarrow> CodebaseReviewEnrichment" where
  "empty_codebase_review_enrichment review review_run_id files =
     \<lparr> cre_review_run_id = review_run_id, cre_repository_id = rvc_repository_id review,
       cre_repository_full_name = rvc_repository_full_name review, cre_pull_request_number = rvc_pull_request_number review,
       cre_head_sha = rvc_head_sha review, cre_touched_file_paths = touched_file_paths files, cre_findings = [] \<rparr>"

function sql_like :: "string \<Rightarrow> string \<Rightarrow> bool" where
  \<comment> \<open>\<open>text LIKE pattern\<close> (pattern first), with the backslash as escape, which does not end a pattern here\<close>
  "sql_like [] s = (s = [])"
| "sql_like (c # p) s =
     (if c = CHR ''%'' then sql_like p s \<or> (case s of [] \<Rightarrow> False | x # t \<Rightarrow> sql_like (c # p) t)
      else if c = CHR 0x5C
        then (case p of [] \<Rightarrow> s = [] | d # q \<Rightarrow> (case s of [] \<Rightarrow> False | x # t \<Rightarrow> x = d \<and> sql_like q t))
      else (case s of [] \<Rightarrow> False | x # t \<Rightarrow> (c = CHR ''_'' \<or> x = c) \<and> sql_like p t))"
  by pat_completeness auto
termination by (relation "measure (\<lambda>(p, s). length p + length s)") auto

definition in_component :: "string \<Rightarrow> string \<Rightarrow> bool" where
  "in_component file_path component \<longleftrightarrow> file_path = component \<or> sql_like (component @ ''/%'') file_path"

definition direct_file_match :: "string list \<Rightarrow> scan_finding \<Rightarrow> bool" where
  "direct_file_match paths f \<longleftrightarrow> (case sf_file_path f of None \<Rightarrow> False | Some p \<Rightarrow> p \<in> set paths)"

definition enrichment_relevant :: "string \<Rightarrow> string list \<Rightarrow> string list \<Rightarrow> scan_finding \<Rightarrow> bool" where
  \<comment> \<open>the WHERE clause\<close>
  "enrichment_relevant repository_id paths components f \<longleftrightarrow> sf_repository_id f = repository_id \<and> sf_status f = ''open'' \<and>
     (direct_file_match paths f \<or>
      sf_severity f \<in> set [''critical'', ''high''] \<and>
        (case sf_file_path f of None \<Rightarrow> False | Some p \<Rightarrow> list_ex (in_component p) components))"

definition enrichment_rank :: "string \<Rightarrow> int" where
  "enrichment_rank severity = (if severity = ''critical'' then 0 else if severity = ''high'' then 1
     else if severity = ''medium'' then 2 else if severity = ''low'' then 3 else 4)"

definition enrichment_sort_key :: "string list \<Rightarrow> scan_finding \<Rightarrow> int \<times> bool \<times> int \<times> string" where
  "enrichment_sort_key paths f = (enrichment_rank (sf_severity f), \<not> direct_file_match paths f, - sf_last_seen_at f,
     (case sf_file_path f of Some p \<Rightarrow> p | None \<Rightarrow> []))"

definition row_to_codebase_finding :: "(int \<Rightarrow> string) \<Rightarrow> scan_finding \<Rightarrow> CodebaseFinding" where
  "row_to_codebase_finding isoformat f =
     \<lparr> cdf_finding_id = sf_id f, cdf_dedupe_key = sf_dedupe_key f, cdf_source = sf_source f, cdf_category = sf_category f,
       cdf_severity = sf_severity f, cdf_confidence = sf_confidence f,
       cdf_file_path = (case sf_file_path f of Some p \<Rightarrow> if p \<noteq> [] then Some p else None | None \<Rightarrow> None),
       cdf_start_line = sf_start_line f, cdf_end_line = sf_end_line f, cdf_title = sf_title f,
       cdf_evidence = map pv_object (pv_list (sf_evidence_json f)),
       cdf_recommendation = (case sf_recommendation f of Some r \<Rightarrow> if r \<noteq> [] then Some r else None | None \<Rightarrow> None),
       cdf_first_seen_at = isoformat (sf_first_seen_at f), cdf_last_seen_at = isoformat (sf_last_seen_at f) \<rparr>"

definition load_codebase_review_enrichment ::
  "(int \<Rightarrow> string) \<Rightarrow> ReviewContext \<Rightarrow> string \<Rightarrow> ChangedFile list \<Rightarrow> int \<Rightarrow> CodebaseReviewEnrichment review_sql" where
  "load_codebase_review_enrichment isoformat review review_run_id files limit = (\<lambda>db.
     let paths = touched_file_paths files; components = touched_component_prefixes files;
         nothing = empty_codebase_review_enrichment review review_run_id files;
         rows = take (nat (max 0 limit)) (sort_key (enrichment_sort_key paths)
           (filter (enrichment_relevant (rvc_repository_id review) paths components) (db_findings (rdb_scan db))))
     in if paths = [] \<and> components = [] then Some (Inr nothing, db)
        else Some (Inr (nothing\<lparr>cre_findings := map (row_to_codebase_finding isoformat) rows\<rparr>), db))"

section \<open>The check before publication\<close>

record ReviewPublishCheck =
  rpk_publishable :: bool
  rpk_reason :: "string option"

definition superseded_run_row :: "int \<Rightarrow> string \<Rightarrow> review_run_row \<Rightarrow> review_run_row" where
  "superseded_run_row now current_head_sha rr = rr\<lparr>rr_status := Superseded, rr_finished_at := coalesce (rr_finished_at rr) now,
     rr_error_code := Some ''current_head_sha_changed'',
     rr_error_message := Some (''Skipped publishing because current PR head is '' @ current_head_sha), rr_updated_at := now\<rparr>"

definition run_with_pull_request :: "string \<Rightarrow> review_db \<Rightarrow> (review_run_row \<times> pull_request_row) option" where
  "run_with_pull_request review_run_id db = Option.bind (find (\<lambda>rr. rn_id rr = review_run_id) (rdb_runs db)) (\<lambda>rr.
     map_option (Pair rr) (find (\<lambda>pr. prw_id pr = rn_pull_request_id rr) (rdb_pull_requests db)))"

definition verify_publishable :: "int \<Rightarrow> string \<Rightarrow> ReviewPublishCheck review_sql" where
  "verify_publishable now review_run_id = (\<lambda>db.
     let refuse = (\<lambda>reason. Inr \<lparr> rpk_publishable = False, rpk_reason = Some reason \<rparr>)
     in case run_with_pull_request review_run_id db of
          None \<Rightarrow> Some (refuse ''review_run_not_found'', db)
        | Some (rr, pr) \<Rightarrow>
            if rr_status rr = Superseded then Some (refuse ''review_run_superseded'', db)
            else if rn_head_sha rr \<noteq> prw_head_sha pr then Some (refuse ''head_sha_changed'',
              db\<lparr>rdb_runs := update_where (\<lambda>r. rn_id r = review_run_id) (superseded_run_row now (prw_head_sha pr)) (rdb_runs db)\<rparr>)
            else Some (Inr \<lparr> rpk_publishable = True, rpk_reason = None \<rparr>, db))"

section \<open>Comments\<close>

definition body_hash :: "(string \<Rightarrow> string) \<Rightarrow> string \<Rightarrow> string \<Rightarrow> string" where
  "body_hash sha256 review_run_id body = sha256 (review_run_id @ [CHR 0x00] @ body)"

definition comment_github_key :: "comment_row \<Rightarrow> int option" where
  "comment_github_key = cmr_github_comment_id"

definition republished_comment :: "comment_row \<Rightarrow> comment_row \<Rightarrow> comment_row" where
  \<comment> \<open>\<open>ON CONFLICT (github_comment_id)\<close>, for an inline comment\<close>
  "republished_comment new old = new\<lparr>cmr_id := cmr_id old, cmr_finding_id := cmr_finding_id old\<rparr>"

definition republished_summary :: "comment_row \<Rightarrow> comment_row \<Rightarrow> comment_row" where
  \<comment> \<open>the same for a summary, which has no review, file and line\<close>
  "republished_summary new old = old\<lparr>cmr_review_run_id := cmr_review_run_id new, cmr_comment_type := cmr_comment_type new,
     cmr_body := cmr_body new, cmr_body_hash := cmr_body_hash new, cmr_dry_run := cmr_dry_run new\<rparr>"

definition same_content_comment :: "comment_row \<Rightarrow> comment_row \<Rightarrow> comment_row" where
  \<comment> \<open>\<open>ON CONFLICT (review_run_id, comment_type, body_hash)\<close>\<close>
  "same_content_comment new old = new\<lparr>cmr_id := cmr_id old, cmr_finding_id := cmr_finding_id old\<rparr>"

definition same_content_summary :: "comment_row \<Rightarrow> comment_row \<Rightarrow> comment_row" where
  "same_content_summary new old = old\<lparr>cmr_github_comment_id := cmr_github_comment_id new, cmr_body := cmr_body new,
     cmr_dry_run := cmr_dry_run new\<rparr>"

definition put_comments :: "(comment_row list \<Rightarrow> comment_row list) \<Rightarrow> unit review_sql" where
  "put_comments f = sql_put (\<lambda>db. published_comments_ok (run_ids db) (rdb_comments db)) ''published_comments''
     (\<lambda>db. db\<lparr>rdb_comments := f (rdb_comments db)\<rparr>)"

definition summary_row_of :: "(string \<Rightarrow> string) \<Rightarrow> string \<Rightarrow> string \<Rightarrow> int option \<Rightarrow> string \<Rightarrow> bool \<Rightarrow> comment_row" where
  "summary_row_of sha256 uuid review_run_id github_comment_id body dry_run =
     \<lparr> cmr_id = uuid, cmr_review_run_id = review_run_id, cmr_finding_id = None, cmr_github_comment_id = github_comment_id,
       cmr_github_review_id = None, cmr_comment_type = ''summary'', cmr_file_path = None, cmr_line = None, cmr_body = Some body,
       cmr_body_hash = body_hash sha256 review_run_id body, cmr_dry_run = dry_run \<rparr>"

definition record_summary_comment :: "(string \<Rightarrow> string) \<Rightarrow> string \<Rightarrow> string \<Rightarrow> int option \<Rightarrow> string \<Rightarrow> bool \<Rightarrow> unit review_sql" where
  "record_summary_comment sha256 uuid review_run_id github_comment_id body dry_run =
     (let new = summary_row_of sha256 uuid review_run_id github_comment_id body dry_run
      in if github_comment_id \<noteq> None then put_comments (upsert_on comment_github_key republished_summary new)
         else put_comments (upsert_on (\<lambda>c. Some (comment_content_key c)) same_content_summary new))"

definition inline_comment_text :: "PublishedInlineComment \<Rightarrow> string" where
  "inline_comment_text c = pc_finding_id c @ [CHR 0x00] @ pc_file_path c @ [CHR 0x00] @ str_of_int (pc_line c) @ [CHR 0x00] @ pc_body c"

definition inline_row_of :: "(string \<Rightarrow> string) \<Rightarrow> string \<Rightarrow> string \<Rightarrow> PublishedInlineComment \<Rightarrow> comment_row" where
  "inline_row_of sha256 uuid review_run_id c =
     \<lparr> cmr_id = uuid, cmr_review_run_id = review_run_id, cmr_finding_id = None, cmr_github_comment_id = pc_github_comment_id c,
       cmr_github_review_id = pc_github_review_id c, cmr_comment_type = ''inline'', cmr_file_path = Some (pc_file_path c),
       cmr_line = Some (pc_line c), cmr_body = Some (pc_body c),
       cmr_body_hash = body_hash sha256 review_run_id (inline_comment_text c), cmr_dry_run = pc_dry_run c \<rparr>"

definition record_inline_comment :: "(string \<Rightarrow> string) \<Rightarrow> string \<Rightarrow> string \<Rightarrow> PublishedInlineComment \<Rightarrow> unit review_sql" where
  \<comment> \<open>one round of the loop\<close>
  "record_inline_comment sha256 uuid review_run_id c =
     (let new = inline_row_of sha256 uuid review_run_id c
      in if pc_github_comment_id c \<noteq> None then put_comments (upsert_on comment_github_key republished_comment new)
         else put_comments (upsert_on (\<lambda>c. Some (comment_content_key c)) same_content_comment new))"

definition record_inline_comments :: "(string \<Rightarrow> string) \<Rightarrow> (nat \<Rightarrow> string) \<Rightarrow> string \<Rightarrow> PublishedInlineComment list \<Rightarrow> unit review_sql" where
  "record_inline_comments sha256 uuids review_run_id comments = transaction (act_each (\<lambda>(n, c).
     record_inline_comment sha256 (uuids n) review_run_id c) (enumerate 0 comments))"

end
