(* ===== verification/PipelineDedupe.thy ===== *)
theory PipelineDedupe
  imports ReviewStore
begin

text \<open>
  pipeline.py, \<open>_dedupe_codebase_findings\<close>: which findings of earlier codebase scans are shown beside those of the pull
  request. Two findings count as one when they agree in their deduplication key or in path, line, title and
  evidence. SHA-256 is an argument; line numbers that are booleans are read as integers.
\<close>

type_synonym shown_key = "string \<times> string \<times> int option \<times> string \<times> string"

type_synonym shown_cross_key = "string \<times> int option \<times> string \<times> string"

type_synonym evidence_part = "string \<times> string \<times> int option \<times> int option \<times> string"

definition normalized_finding_text :: "string \<Rightarrow> string" where
  "normalized_finding_text value = join '' '' (split_words (casefold value))"

definition int_or_zero :: "int option \<Rightarrow> int" where
  "int_or_zero n = (case n of Some i \<Rightarrow> i | None \<Rightarrow> 0)"

definition int_or_empty :: "int option \<Rightarrow> string" where
  \<comment> \<open>\<open>str(n or '')\<close>\<close>
  "int_or_empty n = (if int_or_zero n = 0 then [] else str_of_int (int_or_zero n))"

definition evidence_part_key :: "evidence_part \<Rightarrow> string \<times> string \<times> int \<times> int \<times> string" where
  "evidence_part_key p = (case p of (source, path, start_line, end_line, excerpt) \<Rightarrow>
     (source, path, int_or_zero start_line, int_or_zero end_line, normalized_finding_text excerpt))"

definition evidence_part_text :: "evidence_part \<Rightarrow> string" where
  "evidence_part_text p = (case p of (source, path, start_line, end_line, excerpt) \<Rightarrow>
     source @ [CHR 0x00] @ path @ [CHR 0x00] @ int_or_empty start_line @ '':'' @ int_or_empty end_line @ [CHR 0x00] @
     normalized_finding_text excerpt @ [CHR 0x00])"

definition evidence_hash_parts :: "(string \<Rightarrow> string) \<Rightarrow> evidence_part list \<Rightarrow> string" where
  \<comment> \<open>the updates of the hasher, one after the other\<close>
  "evidence_hash_parts sha256 parts = sha256 (concat (map evidence_part_text (sort_key evidence_part_key parts)))"

definition semgrep_finding_evidence_hash :: "(string \<Rightarrow> string) \<Rightarrow> obj \<Rightarrow> string" where
  "semgrep_finding_evidence_hash sha256 finding =
     (let start = pv_object (obj_get finding ''start''); end_position = pv_object (obj_get finding ''end'')
      in evidence_hash_parts sha256 [(''semgrep'', pv_str (obj_get finding ''path'') [], pv_optional_int (obj_get start ''line''),
           pv_optional_int (obj_get end_position ''line''),
           or_else (pv_str (obj_get finding ''lines'') []) (pv_str (obj_get finding ''message'') []))])"

definition codebase_evidence_part :: "CodebaseFinding \<Rightarrow> obj \<Rightarrow> evidence_part" where
  "codebase_evidence_part finding evidence = (let line_range = pv_object (obj_get evidence ''lineRange'')
     in (pv_str (obj_get evidence ''source'') (cdf_source finding),
         (case pv_optional_str (obj_get evidence ''path'') of
            Some p \<Rightarrow> p | None \<Rightarrow> (case cdf_file_path finding of Some p \<Rightarrow> p | None \<Rightarrow> [])),
         pv_optional_int (obj_get line_range ''startLine''), pv_optional_int (obj_get line_range ''endLine''),
         pv_str (obj_get evidence ''excerpt'') []))"

definition codebase_finding_evidence_hash :: "(string \<Rightarrow> string) \<Rightarrow> CodebaseFinding \<Rightarrow> string" where
  "codebase_finding_evidence_hash sha256 finding = evidence_hash_parts sha256
     (if cdf_evidence finding = []
      then [(cdf_source finding, (case cdf_file_path finding of Some p \<Rightarrow> p | None \<Rightarrow> []), cdf_start_line finding, cdf_end_line finding,
             cdf_title finding)]
      else map (codebase_evidence_part finding) (cdf_evidence finding))"

definition current_finding_exact_key :: "(string \<Rightarrow> string) \<Rightarrow> obj \<Rightarrow> shown_key" where
  "current_finding_exact_key sha256 finding =
     (pv_str (obj_get finding ''source'') ''semgrep'', pv_str (obj_get finding ''path'') [],
      pv_optional_int (obj_get (pv_object (obj_get finding ''start'')) ''line''),
      normalized_finding_text (pv_str (obj_get finding ''message'') []), semgrep_finding_evidence_hash sha256 finding)"

definition codebase_finding_exact_key :: "(string \<Rightarrow> string) \<Rightarrow> CodebaseFinding \<Rightarrow> shown_key" where
  "codebase_finding_exact_key sha256 finding =
     (cdf_source finding, (case cdf_file_path finding of Some p \<Rightarrow> p | None \<Rightarrow> []), cdf_start_line finding,
      normalized_finding_text (cdf_title finding), codebase_finding_evidence_hash sha256 finding)"

definition finding_cross_source_key :: "shown_key \<Rightarrow> shown_cross_key" where
  "finding_cross_source_key key = (case key of (source, path, line, title, evidence_hash) \<Rightarrow> (path, line, title, evidence_hash))"

fun select_codebase_findings ::
  "(string \<Rightarrow> string) \<Rightarrow> string list \<Rightarrow> shown_key list \<Rightarrow> shown_cross_key list \<Rightarrow> CodebaseFinding list \<Rightarrow> CodebaseFinding list" where
  \<comment> \<open>the second loop; the sets of current and of seen keys are only ever asked together, so each pair is one list\<close>
  "select_codebase_findings sha256 dedupe_keys exact_keys cross_keys [] = []"
| "select_codebase_findings sha256 dedupe_keys exact_keys cross_keys (f # fs) =
     (let exact_key = codebase_finding_exact_key sha256 f; cross_key = finding_cross_source_key exact_key
      in if cdf_dedupe_key f \<in> set dedupe_keys \<or> exact_key \<in> set exact_keys \<or> cross_key \<in> set cross_keys
         then select_codebase_findings sha256 dedupe_keys exact_keys cross_keys fs
         else f # select_codebase_findings sha256 (cdf_dedupe_key f # dedupe_keys) (exact_key # exact_keys)
                (cross_key # cross_keys) fs)"

definition dedupe_codebase_findings :: "(string \<Rightarrow> string) \<Rightarrow> json list \<Rightarrow> CodebaseFinding list \<Rightarrow> CodebaseFinding list" where
  "dedupe_codebase_findings sha256 current_findings codebase_findings =
     (let items = map pv_object current_findings; exact_keys = map (current_finding_exact_key sha256) items
      in select_codebase_findings sha256 (filter (\<lambda>k. k \<noteq> []) (map (\<lambda>item. pv_str (obj_get item ''id'') []) items))
           exact_keys (map finding_cross_source_key exact_keys) codebase_findings)"

section \<open>What is shown\<close>

definition same_codebase_finding :: "(string \<Rightarrow> string) \<Rightarrow> CodebaseFinding \<Rightarrow> CodebaseFinding \<Rightarrow> bool" where
  "same_codebase_finding sha256 f g \<longleftrightarrow> cdf_dedupe_key f = cdf_dedupe_key g \<or>
     finding_cross_source_key (codebase_finding_exact_key sha256 f) = finding_cross_source_key (codebase_finding_exact_key sha256 g)"

definition in_current_findings :: "(string \<Rightarrow> string) \<Rightarrow> json list \<Rightarrow> CodebaseFinding \<Rightarrow> bool" where
  "in_current_findings sha256 current f \<longleftrightarrow> (\<exists>item \<in> pv_object ` set current.
     pv_str (obj_get item ''id'') [] \<noteq> [] \<and> pv_str (obj_get item ''id'') [] = cdf_dedupe_key f \<or>
     finding_cross_source_key (current_finding_exact_key sha256 item) = finding_cross_source_key (codebase_finding_exact_key sha256 f))"

fun first_of_each :: "('a \<Rightarrow> 'a \<Rightarrow> bool) \<Rightarrow> 'a list \<Rightarrow> 'a list \<Rightarrow> 'a list" where
  \<comment> \<open>the reference: those that are not the same as one kept before\<close>
  "first_of_each same kept [] = kept"
| "first_of_each same kept (x # xs) = first_of_each same (if list_ex (\<lambda>y. same y x) kept then kept else kept @ [x]) xs"

lemma select_codebase_findings_reference:
  assumes "\<And>f. f \<in> set fs \<Longrightarrow> (cdf_dedupe_key f \<in> set dks \<or> codebase_finding_exact_key sha256 f \<in> set eks \<or>
       finding_cross_source_key (codebase_finding_exact_key sha256 f) \<in> set cks) \<longleftrightarrow>
     Q f \<or> list_ex (\<lambda>y. same_codebase_finding sha256 y f) kept"
    and "finding_cross_source_key ` set eks \<subseteq> set cks"
  shows "kept @ select_codebase_findings sha256 dks eks cks fs = first_of_each (same_codebase_finding sha256) kept (filter (\<lambda>f. \<not> Q f) fs)"
  using assms
proof (induction fs arbitrary: kept dks eks cks)
  case (Cons f fs)
  let ?exact = "codebase_finding_exact_key sha256 f"
  have blocked: "(cdf_dedupe_key f \<in> set dks \<or> ?exact \<in> set eks \<or> finding_cross_source_key ?exact \<in> set cks) \<longleftrightarrow>
      Q f \<or> list_ex (\<lambda>y. same_codebase_finding sha256 y f) kept" using Cons.prems(1) [of f] by simp
  show ?case
  proof (cases "Q f \<or> list_ex (\<lambda>y. same_codebase_finding sha256 y f) kept")
    case True
    moreover have "kept @ select_codebase_findings sha256 dks eks cks fs =
        first_of_each (same_codebase_finding sha256) kept (filter (\<lambda>f. \<not> Q f) fs)"
      by (rule Cons.IH) (use Cons.prems in auto)
    ultimately show ?thesis using blocked by (auto simp: Let_def)
  next
    case False
    have "(kept @ [f]) @ select_codebase_findings sha256 (cdf_dedupe_key f # dks) (?exact # eks) (finding_cross_source_key ?exact # cks) fs =
        first_of_each (same_codebase_finding sha256) (kept @ [f]) (filter (\<lambda>f. \<not> Q f) fs)"
    proof (rule Cons.IH)
      fix g assume "g \<in> set fs"
      with Cons.prems(1) [of g] show "(cdf_dedupe_key g \<in> set (cdf_dedupe_key f # dks) \<or> codebase_finding_exact_key sha256 g \<in> set (?exact # eks) \<or>
          finding_cross_source_key (codebase_finding_exact_key sha256 g) \<in> set (finding_cross_source_key ?exact # cks)) \<longleftrightarrow>
          Q g \<or> list_ex (\<lambda>y. same_codebase_finding sha256 y g) (kept @ [f])"
        by (auto simp: same_codebase_finding_def)
    qed (use Cons.prems(2) in auto)
    with False blocked show ?thesis by (simp add: Let_def)
  qed
qed simp

text \<open>C38: The codebase findings shown beside those of a pull request are those not among the latter, each once: of
  findings that agree in their key, or in path, line, title and evidence, the first is shown, whatever
  analyser reported them. The third pair of sets the code keeps, of keys with the source, decides nothing.\<close>

theorem codebase_findings_shown_once:
  "dedupe_codebase_findings sha256 current findings =
     first_of_each (same_codebase_finding sha256) [] (filter (\<lambda>f. \<not> in_current_findings sha256 current f) findings)"
proof -
  let ?items = "map pv_object current"
  let ?eks = "map (current_finding_exact_key sha256) ?items"
  have "[] @ select_codebase_findings sha256 (filter (\<lambda>k. k \<noteq> []) (map (\<lambda>item. pv_str (obj_get item ''id'') []) ?items)) ?eks
      (map finding_cross_source_key ?eks) findings =
      first_of_each (same_codebase_finding sha256) [] (filter (\<lambda>f. \<not> in_current_findings sha256 current f) findings)"
  proof (rule select_codebase_findings_reference)
    fix f
    show "(cdf_dedupe_key f \<in> set (filter (\<lambda>k. k \<noteq> []) (map (\<lambda>item. pv_str (obj_get item ''id'') []) ?items)) \<or>
        codebase_finding_exact_key sha256 f \<in> set ?eks \<or>
        finding_cross_source_key (codebase_finding_exact_key sha256 f) \<in> set (map finding_cross_source_key ?eks)) \<longleftrightarrow>
        in_current_findings sha256 current f \<or> list_ex (\<lambda>y. same_codebase_finding sha256 y f) []"
      unfolding in_current_findings_def by (simp add: image_iff bex_Un) (metis (no_types, lifting))
  qed auto
  then show ?thesis unfolding dedupe_codebase_findings_def Let_def append_Nil .
qed

end
