(* ===== verification/ScanFindingProperties.thy ===== *)
theory ScanFindingProperties
  imports ScanFindings ContractsSemgrep
begin

text \<open>
  Semgrep findings as rows of \<open>codebase_scan_findings\<close>: which of them the table accepts, and what their
  deduplication key identifies.
\<close>

section \<open>What the table accepts\<close>

lemma row_ok_refreshed:
  assumes "scan_finding_row_ok old" and "sf_status new = ''open''"
  shows "scan_finding_row_ok (refreshed_finding_row new old) \<longleftrightarrow> scan_finding_row_ok new"
  using assms by (auto simp: scan_finding_row_ok_def finding_values_ok_def refreshed_finding_row_def CODEBASE_SCAN_FINDING_STATUSES_def)

lemma update_where_same_keys:
  "map (\<lambda>f. (sf_repository_id f, sf_dedupe_key f)) (update_where (same_finding new) (refreshed_finding_row new) fs) =
     map (\<lambda>f. (sf_repository_id f, sf_dedupe_key f)) fs"
  by (auto simp: update_where_def refreshed_keys same_finding_def)

lemma update_where_same_ids:
  "map sf_id (update_where (same_finding new) (refreshed_finding_row new) fs) = map sf_id fs"
  by (rule map_update_where) (simp add: refreshed_finding_row_def)

lemma upsert_row_accepted:
  assumes ok: "scan_findings_ok runs fs" and "sf_status new = ''open''" and "sf_scan_run_id new \<in> set (map sr_id runs)"
    and "sf_id new \<notin> set (map sf_id fs)"
  shows "scan_findings_ok runs (upsert_row new fs) \<longleftrightarrow> scan_finding_row_ok new"
proof (cases "list_ex (same_finding new) fs")
  case False
  then have "(sf_repository_id new, sf_dedupe_key new) \<notin> set (map (\<lambda>f. (sf_repository_id f, sf_dedupe_key f)) fs)"
    by (auto simp: list_ex_iff same_finding_def)
  with False assms show ?thesis by (auto simp: upsert_row_cases scan_findings_ok_def)
next
  case True
  then obtain old where old: "old \<in> set fs" "same_finding new old" by (auto simp: list_ex_iff)
  let ?fs = "update_where (same_finding new) (refreshed_finding_row new) fs"
  have runs: "list_all (\<lambda>f. sf_scan_run_id f \<in> set (map sr_id runs)) ?fs"
    using ok assms(3) by (auto simp: scan_findings_ok_def list_all_iff update_where_def refreshed_finding_row_def)
  have "list_all scan_finding_row_ok ?fs \<longleftrightarrow> scan_finding_row_ok new"
  proof
    assume "list_all scan_finding_row_ok ?fs"
    moreover have "refreshed_finding_row new old \<in> set ?fs" using old by (force simp: update_where_def)
    ultimately have "scan_finding_row_ok (refreshed_finding_row new old)" by (simp add: list_all_iff)
    moreover have "scan_finding_row_ok old" using ok old(1) by (simp add: scan_findings_ok_def list_all_iff)
    ultimately show "scan_finding_row_ok new" using row_ok_refreshed assms(2) by blast
  next
    assume "scan_finding_row_ok new"
    with ok show "list_all scan_finding_row_ok ?fs"
      using row_ok_refreshed [OF _ assms(2)] by (auto simp: scan_findings_ok_def list_all_iff update_where_def)
  qed
  with True ok runs show ?thesis
    by (simp add: upsert_row_cases scan_findings_ok_def update_where_same_keys update_where_same_ids)
qed

lemma codebase_category_known: "codebase_category item \<in> set CODEBASE_SCAN_FINDING_CATEGORIES"
  by (simp add: codebase_category_def Let_def CODEBASE_SCAN_FINDING_CATEGORIES_def)

lemma pv_simps: "pv_object (JObj v) = v" "s \<noteq> [] \<Longrightarrow> pv_str (JStr s) d = s"
  "0 < i \<Longrightarrow> pv_optional_positive_int (JInt i) = Some i"
  by (simp_all add: pv_object_def pv_str_def pv_optional_positive_int_def pv_optional_int_def)

lemma codebase_finding_of_semgrep:
  assumes "ok_semgrep_finding a"
  shows "cbf_start_line (codebase_finding_of sha256 context scopes (enc_semgrep_finding a)) = Some (ps_line (sgf_start a))"
    and "cbf_end_line (codebase_finding_of sha256 context scopes (enc_semgrep_finding a)) = Some (ps_line (sgf_end a))"
    and "cbf_severity (codebase_finding_of sha256 context scopes (enc_semgrep_finding a)) = sgf_severity a"
    and "cbf_file_path (codebase_finding_of sha256 context scopes (enc_semgrep_finding a)) = Some (sgf_path a)"
    and "cbf_dedupe_key (codebase_finding_of sha256 context scopes (enc_semgrep_finding a)) =
      codebase_dedupe_key sha256 (sgf_rule_id a) (sgf_path a) (Some (ps_line (sgf_start a)))
        (case sgf_fingerprint a of Some t \<Rightarrow> t | None \<Rightarrow> [])"
proof -
  from assms have "sgf_severity a \<noteq> []" "sgf_path a \<noteq> []" "sgf_rule_id a \<noteq> []" "0 < ps_line (sgf_start a)" "0 < ps_line (sgf_end a)"
    and fingerprint: "pred_option nonblank (sgf_fingerprint a)"
    by (auto simp: ok_semgrep_finding_def ok_position_def SEVERITIES_def dest: nonblank_not_Nil)
  moreover have "pv_str (opt_json JStr (sgf_fingerprint a)) [] = (case sgf_fingerprint a of Some t \<Rightarrow> t | None \<Rightarrow> [])"
    using fingerprint by (cases "sgf_fingerprint a") (auto simp: pv_str_def)
  ultimately show "cbf_start_line (codebase_finding_of sha256 context scopes (enc_semgrep_finding a)) = Some (ps_line (sgf_start a))"
    and "cbf_end_line (codebase_finding_of sha256 context scopes (enc_semgrep_finding a)) = Some (ps_line (sgf_end a))"
    and "cbf_severity (codebase_finding_of sha256 context scopes (enc_semgrep_finding a)) = sgf_severity a"
    and "cbf_file_path (codebase_finding_of sha256 context scopes (enc_semgrep_finding a)) = Some (sgf_path a)"
    and "cbf_dedupe_key (codebase_finding_of sha256 context scopes (enc_semgrep_finding a)) =
      codebase_dedupe_key sha256 (sgf_rule_id a) (sgf_path a) (Some (ps_line (sgf_start a)))
        (case sgf_fingerprint a of Some t \<Rightarrow> t | None \<Rightarrow> [])"
    by (simp_all add: codebase_finding_of_def Let_def enc_semgrep_finding_def enc_position_def pv_simps split: prod.split)
qed

lemma str_of_int_inject:
  assumes "0 < m" and "0 < n" and "str_of_int m = str_of_int n"
  shows "m = n"
proof -
  have "str_of_nat (nat m) = str_of_nat (nat n)" using assms by (simp add: str_of_int_def)
  then have "int (nat m) = int (nat n)" using str_of_nat_digits by metis
  with assms show ?thesis by simp
qed

lemma str_of_int_no_nul: "0 < n \<Longrightarrow> CHR 0x00 \<notin> set (str_of_int n)"
proof -
  assume "0 < n"
  then have "str_of_int n = str_of_nat (nat n)" by (simp add: str_of_int_def)
  moreover have "\<not> is_digit (CHR 0x00)" by (simp add: is_digit_def)
  ultimately show ?thesis using str_of_nat_digits [of "nat n"] by metis
qed

lemma codebase_finding_of_constants:
  "cbf_source (codebase_finding_of sha256 context scopes j) = ''semgrep''"
  "cbf_confidence (codebase_finding_of sha256 context scopes j) = ''high''"
  "cbf_scan_run_id (codebase_finding_of sha256 context scopes j) = ctx_scan_run_id context"
  "cbf_category (codebase_finding_of sha256 context scopes j) \<in> set CODEBASE_SCAN_FINDING_CATEGORIES"
  by (simp_all add: codebase_finding_of_def Let_def codebase_category_known split: prod.split)

lemma redaction_keeps_sql_text:
  assumes "sql_text s"
  shows "sql_text (redact_secret_like_text s)"
proof -
  have marker: "sql_text SECRET_REPLACEMENT" by (simp add: SECRET_REPLACEMENT_def)
  have pass: "sql_text t \<Longrightarrow> sql_text (fst (sub_from r (\<lambda>_. SECRET_REPLACEMENT) prev t))" for r prev t
  proof (induction r "\<lambda>_ :: match_state. SECRET_REPLACEMENT" prev t rule: sub_from.induct)
    case (2 r prev c cs)
    have "sql_text (ms_rest t)" if "match_at r prev (c # cs) = Some t" for t
      using match_at_suffix [OF that] "2.prems" by (metis sql_text_simps(3))
    with 2 marker show ?case by (auto split: option.split prod.split)
  qed simp
  have "sql_text t \<Longrightarrow> sql_text (fst (foldl (\<lambda>(result, redacted) pat. case re_subn pat (\<lambda>_. SECRET_REPLACEMENT) result of
      (result', n) \<Rightarrow> (result', redacted \<or> n > 0)) (t, b) pats))" for t b pats
  proof (induction pats arbitrary: t b)
    case (Cons r pats)
    then show ?case using pass [of t r None] by (simp add: re_subn_def case_prod_beta)
  qed simp
  with assms show ?thesis by (simp add: redact_secret_like_text_def redact_secret_like_text_with_flag_def)
qed

definition storable_finding :: "codebase_finding \<Rightarrow> bool" where
  \<comment> \<open>its texts and its evidence hold nothing PostgreSQL refuses\<close>
  "storable_finding f \<longleftrightarrow> list_all sql_text [cbf_title f, cbf_body f, cbf_recommendation f, cbf_dedupe_key f] \<and>
     sql_null sql_text (cbf_file_path f) \<and> list_all (\<lambda>e. sql_jsonb (JObj e)) (cbf_evidence f)"

definition nul_free_finding :: "SemgrepFinding \<Rightarrow> bool" where
  "nul_free_finding a \<longleftrightarrow> list_all sql_text [sgf_rule_id a, sgf_path a, sgf_message a, sgf_lines a,
     pv_str (obj_get (sgf_metadata a) ''remediation'') []] \<and> sql_null sql_text (sgf_fix a)"

lemma finding_constants_storable:
  assumes "ok_semgrep_finding a" and "f = codebase_finding_of sha256 context scopes (enc_semgrep_finding a)"
  shows "list_all sql_text [cbf_source f, cbf_category f, cbf_severity f, cbf_confidence f]"
proof -
  have "list_all sql_text (''semgrep'' # ''high'' # SEVERITIES @ CODEBASE_SCAN_FINDING_CATEGORIES)"
    by (simp add: SEVERITIES_def CODEBASE_SCAN_FINDING_CATEGORIES_def)
  then show ?thesis
    using assms codebase_finding_of_constants [of sha256 "context" scopes "enc_semgrep_finding a"] codebase_finding_of_semgrep(3) [OF assms(1)]
    by (auto simp: list_all_iff ok_semgrep_finding_def)
qed

lemma codebase_finding_of_texts:
  assumes "ok_semgrep_finding a" and f: "f = codebase_finding_of sha256 context scopes (enc_semgrep_finding a)"
  shows "cbf_title f = take 240 (sgf_message a)" and "cbf_body f = take 1000 (redact_secret_like_text (sgf_message a))"
    and "cbf_recommendation f = take 1000 (redact_secret_like_text (or_else (or_else (pv_str (obj_get (sgf_metadata a) ''remediation'') [])
      (pv_str (opt_json JStr (sgf_fix a)) [])) default_recommendation))"
    and "\<exists>redacted. cbf_evidence f = [finding_evidence (sgf_path a) (Some (ps_line (sgf_start a))) (Some (ps_line (sgf_end a)))
      (redact_secret_like_text (sgf_lines a)) redacted (scope_for_line (scopes (sgf_path a)) (Some (ps_line (sgf_start a))))]"
proof -
  from assms(1) have a: "sgf_path a \<noteq> []" "sgf_message a \<noteq> []" "0 < ps_line (sgf_start a)" "0 < ps_line (sgf_end a)"
    by (auto simp: ok_semgrep_finding_def ok_position_def dest: nonblank_not_Nil)
  have lines: "pv_str (JStr s) [] = s" for s by (simp add: pv_str_def)
  note unfold = f codebase_finding_of_def Let_def enc_semgrep_finding_def enc_position_def pv_simps lines redact_secret_like_text_def
  show "cbf_title f = take 240 (sgf_message a)" "cbf_body f = take 1000 (redact_secret_like_text (sgf_message a))"
    "cbf_recommendation f = take 1000 (redact_secret_like_text (or_else (or_else (pv_str (obj_get (sgf_metadata a) ''remediation'') [])
      (pv_str (opt_json JStr (sgf_fix a)) [])) default_recommendation))"
    "\<exists>redacted. cbf_evidence f = [finding_evidence (sgf_path a) (Some (ps_line (sgf_start a))) (Some (ps_line (sgf_end a)))
      (redact_secret_like_text (sgf_lines a)) redacted (scope_for_line (scopes (sgf_path a)) (Some (ps_line (sgf_start a))))]"
    using a by (auto simp: unfold split: prod.split)
qed

lemma scope_for_line_in: "scope_for_line symbols line = Some s \<Longrightarrow> s \<in> set symbols"
proof -
  assume "scope_for_line symbols line = Some s"
  then obtain l xs where "sort_key (\<lambda>item. pv_str (obj_get item ''name'') []) (filter (covers_line l) symbols) = s # xs"
    by (auto simp: scope_for_line_def split: option.splits list.splits)
  then have "s \<in> set (sort_key (\<lambda>item. pv_str (obj_get item ''name'') []) (filter (covers_line l) symbols))" by simp
  then show ?thesis by simp
qed

lemma finding_texts_storable:
  assumes "ok_semgrep_finding a" and "f = codebase_finding_of sha256 context scopes (enc_semgrep_finding a)"
  shows "nul_free_finding a \<and> (\<forall>t. sql_text (sha256 t)) \<and> (\<forall>scope \<in> set (scopes (sgf_path a)). sql_jsonb (JObj scope)) \<longrightarrow> storable_finding f"
    and "\<not> sql_text (sgf_rule_id a) \<or> \<not> sql_text (sgf_path a) \<or> \<not> sql_text (take 240 (sgf_message a)) \<longrightarrow> \<not> storable_finding f"
proof -
  note texts = codebase_finding_of_texts [OF assms] codebase_finding_of_semgrep(4,5) [OF assms(1), of sha256 "context" scopes, folded assms(2)]
  obtain redacted where evidence: "cbf_evidence f = [finding_evidence (sgf_path a) (Some (ps_line (sgf_start a))) (Some (ps_line (sgf_end a)))
      (redact_secret_like_text (sgf_lines a)) redacted (scope_for_line (scopes (sgf_path a)) (Some (ps_line (sgf_start a))))]"
    using texts(4) by blast
  have line: "sql_text (str_of_int (ps_line (sgf_start a)))"
    using assms(1) str_of_int_no_nul by (simp add: sql_text_def ok_semgrep_finding_def ok_position_def)
  show "\<not> sql_text (sgf_rule_id a) \<or> \<not> sql_text (sgf_path a) \<or> \<not> sql_text (take 240 (sgf_message a)) \<longrightarrow> \<not> storable_finding f"
    by (auto simp: storable_finding_def texts codebase_dedupe_key_def)
  have default: "sql_text default_recommendation" by (simp add: default_recommendation_def)
  have fix': "sql_text (pv_str (opt_json JStr (sgf_fix a)) [])" if "sql_null sql_text (sgf_fix a)"
    using that by (cases "sgf_fix a") (auto simp: pv_str_def)
  show "nul_free_finding a \<and> (\<forall>t. sql_text (sha256 t)) \<and> (\<forall>scope \<in> set (scopes (sgf_path a)). sql_jsonb (JObj scope)) \<longrightarrow> storable_finding f"
  proof (intro impI, elim conjE)
    assume a: "nul_free_finding a" "\<forall>t. sql_text (sha256 t)" "\<forall>scope \<in> set (scopes (sgf_path a)). sql_jsonb (JObj scope)"
    have "sql_jsonb (JObj (finding_evidence (sgf_path a) (Some (ps_line (sgf_start a))) (Some (ps_line (sgf_end a)))
      (redact_secret_like_text (sgf_lines a)) redacted (scope_for_line (scopes (sgf_path a)) (Some (ps_line (sgf_start a))))))"
      using a(1,3) scope_for_line_in
      by (auto simp: finding_evidence_def nul_free_finding_def intro: redaction_keeps_sql_text split: option.split)
    with a(1,2) default fix' line show "storable_finding f"
      by (auto simp: storable_finding_def texts(1-3,5,6) evidence nul_free_finding_def codebase_dedupe_key_def or_else_def
          intro: redaction_keeps_sql_text)
  qed
qed

text \<open>C37: A Semgrep finding that satisfies its contract, converted into a codebase finding of an existing run, is
  accepted by the table, whether it is new or seen before, except in three cases, in which the insertion raises: it ends on a line before
  the one it starts on, its last line does not fit a 32-bit integer, or a text of the row holds a NUL (or its scope a number that JSON does
  not know). The contract allows all three. None of them arises from a finding without NUL in its texts, whose lines are in order and
  below \<open>2 ^ 31\<close> and whose scopes can be stored; a NUL in the rule, the path or the start of the message always does it.\<close>

theorem semgrep_finding_is_stored_iff_it_fits:
  assumes "scan_db_ok db" and "ok_semgrep_finding a" and "ctx_scan_run_id context \<in> set (map sr_id (db_scan_runs db))"
    and "uuid \<notin> set (map sf_id (db_findings db))" and f: "f = codebase_finding_of sha256 context scopes (enc_semgrep_finding a)"
  shows "(is_err (snd (upsert_finding uuid now repository_id f db)) \<longleftrightarrow>
       ps_line (sgf_end a) < ps_line (sgf_start a) \<or> 2 ^ 31 \<le> ps_line (sgf_end a) \<or> \<not> storable_finding f) \<and>
     (nul_free_finding a \<and> (\<forall>t. sql_text (sha256 t)) \<and> (\<forall>scope \<in> set (scopes (sgf_path a)). sql_jsonb (JObj scope)) \<longrightarrow> storable_finding f) \<and>
     (\<not> sql_text (sgf_rule_id a) \<or> \<not> sql_text (sgf_path a) \<or> \<not> sql_text (take 240 (sgf_message a)) \<longrightarrow> \<not> storable_finding f)"
proof (intro conjI)
  let ?new = "new_finding_row uuid now repository_id f"
  have "finding_values_ok ?new \<longleftrightarrow> storable_finding f \<and> sql_integer (ps_line (sgf_start a)) \<and> sql_integer (ps_line (sgf_end a))"
    using finding_constants_storable [OF assms(2) f]
    by (auto simp: finding_values_ok_def storable_finding_def new_finding_row_def codebase_finding_of_semgrep(1,2) [OF assms(2), of sha256 "context" scopes, folded f] list.pred_map comp_def)
  moreover have "scan_finding_row_ok ?new \<longleftrightarrow> finding_values_ok ?new \<and> ps_line (sgf_start a) \<le> ps_line (sgf_end a)"
    using assms(2) codebase_finding_of_constants(4) [of sha256 "context" scopes "enc_semgrep_finding a"]
    by (auto simp: scan_finding_row_ok_def new_finding_row_def f codebase_finding_of_semgrep [OF assms(2)]
        codebase_finding_of_constants(1-3) ok_semgrep_finding_def ok_position_def FINDING_SOURCES_def
        CODEBASE_SCAN_FINDING_CONFIDENCES_def CODEBASE_SCAN_FINDING_STATUSES_def)
  moreover have "scan_findings_ok (db_scan_runs db) (upsert_row ?new (db_findings db)) \<longleftrightarrow> scan_finding_row_ok ?new"
    by (rule upsert_row_accepted)
      (use assms in \<open>auto simp: scan_db_ok_def new_finding_row_def codebase_finding_of_constants\<close>)
  moreover have "0 < ps_line (sgf_start a)" "0 < ps_line (sgf_end a)" using assms(2) by (auto simp: ok_semgrep_finding_def ok_position_def)
  ultimately show "is_err (snd (upsert_finding uuid now repository_id f db)) \<longleftrightarrow>
       ps_line (sgf_end a) < ps_line (sgf_start a) \<or> 2 ^ 31 \<le> ps_line (sgf_end a) \<or> \<not> storable_finding f"
    by (auto simp: upsert_finding_def put_findings_def is_err_def sql_integer_def)
qed (use finding_texts_storable [OF assms(2) f] in blast)+

definition sample_semgrep_finding :: SemgrepFinding where
  "sample_semgrep_finding = \<lparr> sgf_id = ''f1'', sgf_rule_id = ''r1'', sgf_path = ''a.py'',
     sgf_start = \<lparr> ps_line = 3, ps_column = 1, ps_offset = None \<rparr>, sgf_end = \<lparr> ps_line = 2, ps_column = 1, ps_offset = None \<rparr>,
     sgf_severity = ''high'', sgf_source_severity = ''ERROR'', sgf_message = ''m'', sgf_fingerprint = None, sgf_lines = ''x'',
     sgf_metadata = [], sgf_fix = None \<rparr>"

definition sample_scan_context :: CodebaseScanContext where
  "sample_scan_context = \<lparr> ctx_scan_run_id = ''s'', ctx_repository_id = ''r'', ctx_installation_id = 7,
     ctx_repository_full_name = ''o/n'', ctx_default_branch = ''main'', ctx_commit_sha = ''c1'', ctx_trigger = ''manual'',
     ctx_correlation_id = ''c'' \<rparr>"

theorem semgrep_finding_is_stored_iff_it_fits_witness:
  "is_err (snd (upsert_finding ''u'' 5 ''r'' (codebase_finding_of (\<lambda>t. t) sample_scan_context (\<lambda>_. [])
     (enc_semgrep_finding sample_semgrep_finding)) sample_scan_db))"
proof -
  have "scan_db_ok sample_scan_db" by code_simp
  moreover have "ok_semgrep_finding sample_semgrep_finding"
    by (simp add: sample_semgrep_finding_def ok_semgrep_finding_def ok_position_def SEVERITIES_def is_space_def)
  moreover have "ctx_scan_run_id sample_scan_context \<in> set (map sr_id (db_scan_runs sample_scan_db))" by code_simp
  moreover have "''u'' \<notin> set (map sf_id (db_findings sample_scan_db))" by code_simp
  ultimately show ?thesis
    using semgrep_finding_is_stored_iff_it_fits [OF _ _ _ _ refl, of sample_scan_db sample_semgrep_finding sample_scan_context "''u''"]
    by (simp add: sample_semgrep_finding_def)
qed

section \<open>Deduplication keys\<close>

lemma join_nul_inject:
  assumes "CHR 0x00 \<notin> set a" and "CHR 0x00 \<notin> set b" and "a @ CHR 0x00 # x = b @ CHR 0x00 # y"
  shows "a = b \<and> x = y"
proof -
  have "takeWhile (\<lambda>c. c \<noteq> CHR 0x00) (a @ CHR 0x00 # x) = a" "takeWhile (\<lambda>c. c \<noteq> CHR 0x00) (b @ CHR 0x00 # y) = b"
    using assms(1,2) by (auto simp: takeWhile_append2 takeWhile_tail intro!: takeWhile_append2 [THEN trans])
  with assms(3) show ?thesis by (metis append_same_eq same_append_eq list.inject)
qed

lemma dedupe_identity_inject:
  assumes "CHR 0x00 \<notin> set rule" "CHR 0x00 \<notin> set rule'" "CHR 0x00 \<notin> set path" "CHR 0x00 \<notin> set path'"
    and "0 < line" "0 < line'"
    and "dedupe_identity rule path (Some line) fp = dedupe_identity rule' path' (Some line') fp'"
  shows "rule = rule' \<and> path = path' \<and> line = line' \<and> fp = fp'"
proof -
  from assms(5-7) have "rule @ CHR 0x00 # path @ CHR 0x00 # str_of_int line @ CHR 0x00 # fp =
      rule' @ CHR 0x00 # path' @ CHR 0x00 # str_of_int line' @ CHR 0x00 # fp'" by (simp add: dedupe_identity_def)
  from join_nul_inject [OF assms(1,2) this] have rule: "rule = rule'"
    and rest: "path @ CHR 0x00 # str_of_int line @ CHR 0x00 # fp = path' @ CHR 0x00 # str_of_int line' @ CHR 0x00 # fp'" by auto
  from join_nul_inject [OF assms(3,4) rest] have path: "path = path'"
    and rest: "str_of_int line @ CHR 0x00 # fp = str_of_int line' @ CHR 0x00 # fp'" by auto
  from join_nul_inject [OF str_of_int_no_nul str_of_int_no_nul rest] assms(5,6) rule path show ?thesis
    by (auto dest: str_of_int_inject)
qed

lemma same_length_suffix: "length u = length v \<Longrightarrow> x @ u = y @ v \<Longrightarrow> u = v"
  by simp

text \<open>Unless the shortened SHA-256 digests of two texts collide, two Semgrep findings get the same deduplication key
  exactly when they agree in rule, path, line and fingerprint: one row of the table never stands for two of
  them, although the readable part of the key, with its colons, does not tell them apart by itself.\<close>

theorem dedupe_key_identifies_finding:
  assumes collision_free: "take 16 (sha256 (dedupe_identity rule path (Some line) fp)) =
       take 16 (sha256 (dedupe_identity rule' path' (Some line') fp')) \<longrightarrow>
     dedupe_identity rule path (Some line) fp = dedupe_identity rule' path' (Some line') fp'"
    and "\<forall>t. length (sha256 t) = 64" and "0 < line" and "0 < line'"
    and "list_all (\<lambda>t. CHR 0x00 \<notin> set t) [rule, rule', path, path']"
  shows "codebase_dedupe_key sha256 rule path (Some line) fp = codebase_dedupe_key sha256 rule' path' (Some line') fp' \<longleftrightarrow>
     (rule, path, line, fp) = (rule', path', line', fp')"
proof
  let ?d = "\<lambda>r p l f. take 16 (sha256 (dedupe_identity r p (Some l) f))"
  assume "codebase_dedupe_key sha256 rule path (Some line) fp = codebase_dedupe_key sha256 rule' path' (Some line') fp'"
  then have eq: "(''semgrep:'' @ rule @ '':'' @ path @ '':'' @ str_of_int line @ '':'') @ ?d rule path line fp =
      (''semgrep:'' @ rule' @ '':'' @ path' @ '':'' @ str_of_int line' @ '':'') @ ?d rule' path' line' fp'"
    by (simp add: codebase_dedupe_key_def)
  have "length (?d rule path line fp) = length (?d rule' path' line' fp')" using assms(2) by simp
  from same_length_suffix [OF this eq] have "?d rule path line fp = ?d rule' path' line' fp'" .
  with collision_free have "dedupe_identity rule path (Some line) fp = dedupe_identity rule' path' (Some line') fp'" by blast
  from dedupe_identity_inject [OF _ _ _ _ assms(3,4) this] assms(5) show "(rule, path, line, fp) = (rule', path', line', fp')" by simp
qed simp

definition sample_digest :: "string \<Rightarrow> string" where
  "sample_digest t = take 64 (t @ replicate 64 (CHR ''0''))"

theorem dedupe_key_identifies_finding_witness:
  "codebase_dedupe_key sample_digest ''r'' ''a'' (Some 1) [] \<noteq> codebase_dedupe_key sample_digest ''r'' ''b'' (Some 1) []"
proof -
  have "take 16 (sample_digest (dedupe_identity ''r'' ''a'' (Some 1) [])) \<noteq> take 16 (sample_digest (dedupe_identity ''r'' ''b'' (Some 1) []))"
    by code_simp
  moreover have "\<forall>t. length (sample_digest t) = 64" by (auto simp: sample_digest_def min_def)
  ultimately show ?thesis
    using dedupe_key_identifies_finding [of sample_digest "''r''" "''a''" 1 "[]" "''r''" "''b''" 1 "[]"] by simp
qed

end
