(* ===== verification/ReviewScanFindings.thy ===== *)
theory ReviewScanFindings
  imports PipelineDedupe ScanFindingProperties
begin

text \<open>
  Where the two pipelines meet: a codebase scan stores a finding, a later review reads it back and compares it
  with its own. What the one writes (codebase_scan.py) and the other compares (pipeline.py) has to agree.
\<close>

lemma selected_not_in_cross_keys:
  "f \<in> set (select_codebase_findings sha256 dks eks cks fs) \<Longrightarrow>
     finding_cross_source_key (codebase_finding_exact_key sha256 f) \<notin> set cks"
proof (induction fs arbitrary: dks eks cks)
  case (Cons g fs)
  then show ?case by (auto simp: Let_def split: if_splits dest: Cons.IH)
qed simp

lemma stored_row_read_back:
  assumes "ok_semgrep_finding a" and "row = new_finding_row uuid now r f \<or> row = refreshed_finding_row (new_finding_row uuid now r f) old"
    and "f = codebase_finding_of sha256 context scopes (enc_semgrep_finding a)"
  shows "cdf_file_path (row_to_codebase_finding isoformat row) = Some (sgf_path a)"
    and "cdf_start_line (row_to_codebase_finding isoformat row) = Some (ps_line (sgf_start a))"
    and "cdf_title (row_to_codebase_finding isoformat row) = take 240 (sgf_message a)"
    and "\<exists>redacted scope. cdf_evidence (row_to_codebase_finding isoformat row) = [finding_evidence (sgf_path a) (Some (ps_line (sgf_start a)))
       (Some (ps_line (sgf_end a))) (redact_secret_like_text (sgf_lines a)) redacted scope]"
proof -
  from assms(1) have a: "sgf_path a \<noteq> []" "sgf_message a \<noteq> []" "0 < ps_line (sgf_start a)" "0 < ps_line (sgf_end a)"
    by (auto simp: ok_semgrep_finding_def ok_position_def dest: nonblank_not_Nil)
  have lines: "pv_str (JStr s) [] = s" for s by (simp add: pv_str_def)
  note f = codebase_finding_of_semgrep [OF assms(1), of sha256 "context" scopes]
  have title: "cbf_title f = take 240 (sgf_message a)"
    using a assms(3) by (simp add: codebase_finding_of_def Let_def enc_semgrep_finding_def pv_simps split: prod.split)
  have evidence: "\<exists>redacted scope. cbf_evidence f = [finding_evidence (sgf_path a) (Some (ps_line (sgf_start a)))
      (Some (ps_line (sgf_end a))) (redact_secret_like_text (sgf_lines a)) redacted scope]"
    using a assms(3)
    by (auto simp: codebase_finding_of_def Let_def enc_semgrep_finding_def enc_position_def pv_simps lines redact_secret_like_text_def
        split: prod.split)
  from assms(2) have row: "sf_file_path row = cbf_file_path f" "sf_start_line row = cbf_start_line f" "sf_title row = cbf_title f"
    "sf_evidence_json row = JList (map JObj (cbf_evidence f))" "sf_source row = cbf_source f"
    by (auto simp: new_finding_row_def refreshed_finding_row_def)
  show "cdf_file_path (row_to_codebase_finding isoformat row) = Some (sgf_path a)"
    and "cdf_start_line (row_to_codebase_finding isoformat row) = Some (ps_line (sgf_start a))"
    and "cdf_title (row_to_codebase_finding isoformat row) = take 240 (sgf_message a)"
    using a(1) f title unfolding assms(3) [symmetric] by (simp_all add: row_to_codebase_finding_def row)
  from evidence obtain redacted scope where "cbf_evidence f = [finding_evidence (sgf_path a) (Some (ps_line (sgf_start a)))
      (Some (ps_line (sgf_end a))) (redact_secret_like_text (sgf_lines a)) redacted scope]" by blast
  then show "\<exists>redacted scope. cdf_evidence (row_to_codebase_finding isoformat row) = [finding_evidence (sgf_path a)
      (Some (ps_line (sgf_start a))) (Some (ps_line (sgf_end a))) (redact_secret_like_text (sgf_lines a)) redacted scope]"
    by (intro exI) (simp add: row_to_codebase_finding_def row pv_list_def pv_object_def)
qed

text \<open>C39: What a codebase scan stored for a Semgrep finding is recognised when a review reports the same finding: it is not
  shown a second time as an existing one. This needs a message of at most 240 characters and code that is not
  empty, has at most 1000 characters and nothing that is redacted; the scan shortens and redacts what it stores, the
  review compares the whole.\<close>

theorem scanned_finding_is_not_shown_again:
  assumes "ok_semgrep_finding a" and "length (sgf_message a) \<le> 240" and "sgf_lines a \<noteq> []" and "length (sgf_lines a) \<le> 1000"
    and "redact_secret_like_text (sgf_lines a) = sgf_lines a" and "enc_semgrep_finding a \<in> set current"
    and "row = new_finding_row uuid now r f \<or> row = refreshed_finding_row (new_finding_row uuid now r f) old"
    and "f = codebase_finding_of sha256 context scopes (enc_semgrep_finding a)"
  shows "row_to_codebase_finding isoformat row \<notin> set (dedupe_codebase_findings sha256 current findings)"
proof -
  let ?g = "row_to_codebase_finding isoformat row"
  let ?parts = "[(''semgrep'', sgf_path a, Some (ps_line (sgf_start a)), Some (ps_line (sgf_end a)), sgf_lines a)]"
  note read = stored_row_read_back [OF assms(1,7,8), of isoformat]
  from assms(1) have a: "sgf_path a \<noteq> []" "sgf_message a \<noteq> []" by (auto simp: ok_semgrep_finding_def dest: nonblank_not_Nil)
  obtain redacted scope where evidence: "cdf_evidence ?g = [finding_evidence (sgf_path a) (Some (ps_line (sgf_start a)))
      (Some (ps_line (sgf_end a))) (sgf_lines a) redacted scope]" using read(4) unfolding assms(5) by blast
  have "codebase_evidence_part ?g (finding_evidence (sgf_path a) (Some (ps_line (sgf_start a))) (Some (ps_line (sgf_end a)))
      (sgf_lines a) redacted scope) = hd ?parts"
    using a assms(3,4) by (simp add: codebase_evidence_part_def finding_evidence_def Let_def pv_str_def pv_object_def
        pv_optional_str_def pv_optional_int_def)
  then have "codebase_finding_evidence_hash sha256 ?g = evidence_hash_parts sha256 ?parts"
    by (simp add: codebase_finding_evidence_hash_def evidence)
  then have codebase: "finding_cross_source_key (codebase_finding_exact_key sha256 ?g) = (sgf_path a, Some (ps_line (sgf_start a)),
      normalized_finding_text (sgf_message a), evidence_hash_parts sha256 ?parts)"
    using assms(2) by (simp add: codebase_finding_exact_key_def finding_cross_source_key_def read(1-3))
  have "finding_cross_source_key (current_finding_exact_key sha256 (pv_object (enc_semgrep_finding a))) =
      (sgf_path a, Some (ps_line (sgf_start a)), normalized_finding_text (sgf_message a), evidence_hash_parts sha256 ?parts)"
    using a assms(3) by (simp add: current_finding_exact_key_def semgrep_finding_evidence_hash_def finding_cross_source_key_def
        enc_semgrep_finding_def enc_position_def pv_object_def pv_str_def pv_optional_int_def or_else_def Let_def)
  with assms(6) codebase have "finding_cross_source_key (codebase_finding_exact_key sha256 ?g) \<in>
      set (map finding_cross_source_key (map (current_finding_exact_key sha256) (map pv_object current)))" by force
  then show ?thesis unfolding dedupe_codebase_findings_def Let_def using selected_not_in_cross_keys by blast
qed

definition sample_stored_finding :: CodebaseFinding where
  "sample_stored_finding = row_to_codebase_finding (\<lambda>_. []) (new_finding_row ''u'' 5 ''r''
     (codebase_finding_of (\<lambda>t. t) sample_scan_context (\<lambda>_. []) (enc_semgrep_finding sample_semgrep_finding)))"

theorem scanned_finding_is_not_shown_again_witness:
  "sample_stored_finding \<notin> set (dedupe_codebase_findings (\<lambda>t. t) [enc_semgrep_finding sample_semgrep_finding] [sample_stored_finding])"
  unfolding sample_stored_finding_def
proof (rule scanned_finding_is_not_shown_again [OF _ _ _ _ _ _ disjI1 [OF refl] refl])
  show "ok_semgrep_finding sample_semgrep_finding"
    by (simp add: sample_semgrep_finding_def ok_semgrep_finding_def ok_position_def SEVERITIES_def is_space_def)
  show "redact_secret_like_text (sgf_lines sample_semgrep_finding) = sgf_lines sample_semgrep_finding" by code_simp
qed (simp_all add: sample_semgrep_finding_def)

end
