(* ===== verification/TreeSitterRegistry.thy ===== *)
theory TreeSitterRegistry
  imports PyPath
begin

text \<open>
  tree_sitter/registry.py: which grammar a path or a language name stands for, and the cache of loaded parsers. Importing
  a grammar and building a parser is a parameter: it gives a parser or the text of an exception.
\<close>

section \<open>Languages\<close>

record TreeSitterLanguageDefinition =
  tld_language :: string
  tld_parser_package :: string
  tld_parser_name :: string
  tld_language_symbol :: string
  tld_extensions :: "string list"
  tld_filenames :: "string list"
  tld_language_aliases :: "string list"

record TreeSitterLanguageResolution =
  tlr_path :: "string option"
  tlr_language :: "string option"
  tlr_parser_package :: "string option"
  tlr_parser_name :: "string option"
  tlr_language_symbol :: "string option"
  tlr_status :: string
  tlr_reason :: "string option"

definition PARSER_LOAD_STATUS_AVAILABLE :: string where "PARSER_LOAD_STATUS_AVAILABLE = ''available''"

definition PARSER_LOAD_STATUS_FAILED :: string where "PARSER_LOAD_STATUS_FAILED = ''failed''"

definition PARSER_LOAD_STATUS_UNSUPPORTED :: string where "PARSER_LOAD_STATUS_UNSUPPORTED = ''unsupported''"

definition grammar :: "string \<Rightarrow> string \<Rightarrow> string \<Rightarrow> string \<Rightarrow> string list \<Rightarrow> string list \<Rightarrow> string list \<Rightarrow> TreeSitterLanguageDefinition" where
  \<comment> \<open>the constructor, with its fields in order\<close>
  "grammar language package parser symbol extensions filenames aliases =
     \<lparr> tld_language = language, tld_parser_package = package, tld_parser_name = parser, tld_language_symbol = symbol,
       tld_extensions = extensions, tld_filenames = filenames, tld_language_aliases = aliases \<rparr>"

definition DEFAULT_LANGUAGE_DEFINITIONS :: "TreeSitterLanguageDefinition list" where
  "DEFAULT_LANGUAGE_DEFINITIONS =
     [grammar ''javascript'' ''tree_sitter_javascript'' ''tree-sitter-javascript'' ''language'' [''.js'', ''.jsx'', ''.mjs'', ''.cjs''] []
        [''js'', ''node'', ''javascriptreact''],
      grammar ''typescript'' ''tree_sitter_typescript'' ''tree-sitter-typescript'' ''language_typescript'' [''.ts'', ''.mts'', ''.cts''] [] [''ts''],
      grammar ''typescript'' ''tree_sitter_typescript'' ''tree-sitter-typescript'' ''language_tsx'' [''.tsx''] [] [''tsx'', ''typescriptreact''],
      grammar ''python'' ''tree_sitter_python'' ''tree-sitter-python'' ''language'' [''.py'', ''.pyi''] [] [''py''],
      grammar ''go'' ''tree_sitter_go'' ''tree-sitter-go'' ''language'' [''.go''] [] [''golang''],
      grammar ''java'' ''tree_sitter_java'' ''tree-sitter-java'' ''language'' [''.java''] [] [],
      grammar ''yaml'' ''tree_sitter_yaml'' ''tree-sitter-yaml'' ''language'' [''.yaml'', ''.yml''] [] [''yml''],
      grammar ''json'' ''tree_sitter_json'' ''tree-sitter-json'' ''language'' [''.json'', ''.jsonc''] [] [],
      grammar ''dockerfile'' ''tree_sitter_dockerfile'' ''tree-sitter-dockerfile'' ''language'' [''.dockerfile''] [''dockerfile'', ''containerfile''] [],
      grammar ''terraform'' ''tree_sitter_hcl'' ''tree-sitter-hcl'' ''language'' [''.tf'', ''.tfvars''] [] [''tf''],
      grammar ''hcl'' ''tree_sitter_hcl'' ''tree-sitter-hcl'' ''language'' [''.hcl''] [] []]"

definition build_extension_map :: "TreeSitterLanguageDefinition list \<Rightarrow> string \<Rightarrow> TreeSitterLanguageDefinition option" where
  \<comment> \<open>a dictionary comprehension: of two definitions the later counts\<close>
  "build_extension_map definitions = map_of (rev (concat (map (\<lambda>d. map (\<lambda>e. (lower e, d)) (tld_extensions d)) definitions)))"

definition build_filename_map :: "TreeSitterLanguageDefinition list \<Rightarrow> string \<Rightarrow> TreeSitterLanguageDefinition option" where
  "build_filename_map definitions = map_of (rev (concat (map (\<lambda>d. map (\<lambda>f. (lower f, d)) (tld_filenames d)) definitions)))"

definition add_language_aliases ::
  "(string \<Rightarrow> TreeSitterLanguageDefinition option) \<Rightarrow> TreeSitterLanguageDefinition \<Rightarrow> string \<Rightarrow> TreeSitterLanguageDefinition option" where
  \<comment> \<open>one round of the loop: \<open>setdefault\<close> for the language, assignment for its aliases\<close>
  "add_language_aliases aliases d =
     foldl (\<lambda>m alias. m(lower alias \<mapsto> d))
       (if aliases (lower (tld_language d)) = None then aliases(lower (tld_language d) \<mapsto> d) else aliases) (tld_language_aliases d)"

definition build_language_alias_map :: "TreeSitterLanguageDefinition list \<Rightarrow> string \<Rightarrow> TreeSitterLanguageDefinition option" where
  "build_language_alias_map definitions = foldl add_language_aliases (\<lambda>_. None) definitions"

definition normalize_repository_path :: "string \<Rightarrow> string option" where
  "normalize_repository_path path =
     (let raw_path = strip path
      in if CHR 0x00 \<in> set path \<or> CHR 0x5C \<in> set path then None
         else if raw_path = [] \<or> path_is_absolute raw_path then None
         else if \<exists>part \<in> set (split_char (CHR ''/'') raw_path). part \<in> set [[], ''.'', ''..''] then None
         else Some (path_str raw_path))"

definition normalize_language :: "string option \<Rightarrow> string option" where
  "normalize_language language = (case language of
      None \<Rightarrow> None
    | Some l \<Rightarrow> (let normalized = map (\<lambda>c. if c = CHR ''-'' \<or> c = CHR '' '' then CHR ''_'' else c) (lower (strip l))
        in if normalized = [] then None else Some normalized))"

definition unsupported_resolution :: "string option \<Rightarrow> string \<Rightarrow> TreeSitterLanguageResolution" where
  "unsupported_resolution path reason = \<lparr> tlr_path = path, tlr_language = None, tlr_parser_package = None, tlr_parser_name = None,
     tlr_language_symbol = None, tlr_status = PARSER_LOAD_STATUS_UNSUPPORTED, tlr_reason = Some reason \<rparr>"

definition resolution :: "string option \<Rightarrow> TreeSitterLanguageDefinition \<Rightarrow> TreeSitterLanguageResolution" where
  "resolution path d = \<lparr> tlr_path = path, tlr_language = Some (tld_language d), tlr_parser_package = Some (tld_parser_package d),
     tlr_parser_name = Some (tld_parser_name d), tlr_language_symbol = Some (tld_language_symbol d),
     tlr_status = PARSER_LOAD_STATUS_AVAILABLE, tlr_reason = None \<rparr>"

definition path_definition :: "TreeSitterLanguageDefinition list \<Rightarrow> string \<Rightarrow> TreeSitterLanguageDefinition option" where
  \<comment> \<open>the lookups of \<open>resolve_path\<close>, for a normalized path\<close>
  "path_definition definitions normalized_path =
     (let filename = lower (path_name normalized_path);
          by_alias = (if starts_with ''dockerfile.'' filename then build_language_alias_map definitions ''dockerfile'' else None)
      in case build_filename_map definitions filename of
           Some d \<Rightarrow> Some d
         | None \<Rightarrow> (case by_alias of
             Some d \<Rightarrow> Some d
           | None \<Rightarrow> build_extension_map definitions (lower (path_suffix normalized_path))))"

definition resolve_path :: "TreeSitterLanguageDefinition list \<Rightarrow> string \<Rightarrow> TreeSitterLanguageResolution" where
  "resolve_path definitions path = (case normalize_repository_path path of
      None \<Rightarrow> unsupported_resolution (Some path) ''invalid_path''
    | Some normalized_path \<Rightarrow> (case path_definition definitions normalized_path of
        None \<Rightarrow> unsupported_resolution (Some normalized_path) ''unsupported_extension''
      | Some d \<Rightarrow> resolution (Some normalized_path) d))"

definition resolve_language :: "TreeSitterLanguageDefinition list \<Rightarrow> string option \<Rightarrow> TreeSitterLanguageResolution" where
  "resolve_language definitions language = (case normalize_language language of
      None \<Rightarrow> unsupported_resolution None ''missing_language''
    | Some l \<Rightarrow> (case build_language_alias_map definitions l of
        None \<Rightarrow> unsupported_resolution None ''unsupported_language''
      | Some d \<Rightarrow> resolution None d))"

section \<open>Parsers\<close>

record 'p TreeSitterParserLoadResult =
  tpl_language :: "string option"
  tpl_parser_package :: "string option"
  tpl_parser_name :: "string option"
  tpl_language_symbol :: "string option"
  tpl_status :: string
  tpl_parser :: "'p option"
  tpl_error :: "string option"

type_synonym parser_key = "string \<times> string \<times> string"

type_synonym 'p parser_cache = "parser_key \<Rightarrow> 'p TreeSitterParserLoadResult option"

definition load_result :: "TreeSitterLanguageResolution \<Rightarrow> string \<Rightarrow> 'p option \<Rightarrow> string option \<Rightarrow> 'p TreeSitterParserLoadResult" where
  "load_result r status parser error = \<lparr> tpl_language = tlr_language r, tpl_parser_package = tlr_parser_package r,
     tpl_parser_name = tlr_parser_name r, tpl_language_symbol = tlr_language_symbol r, tpl_status = status,
     tpl_parser = parser, tpl_error = error \<rparr>"

definition load_parser ::
  "(string option \<Rightarrow> string option \<Rightarrow> string + 'p) \<Rightarrow> TreeSitterLanguageResolution \<Rightarrow> 'p TreeSitterParserLoadResult" where
  \<comment> \<open>the loader gets the package and the symbol of the grammar\<close>
  "load_parser load r = (case load (tlr_parser_package r) (tlr_language_symbol r) of
      Inr parser \<Rightarrow> load_result r PARSER_LOAD_STATUS_AVAILABLE (Some parser) None
    | Inl error \<Rightarrow> load_result r PARSER_LOAD_STATUS_FAILED None (Some error))"

definition resolution_key :: "TreeSitterLanguageResolution \<Rightarrow> parser_key" where
  "resolution_key r = (case tlr_language r of Some s \<Rightarrow> s | None \<Rightarrow> [], case tlr_parser_package r of Some s \<Rightarrow> s | None \<Rightarrow> [],
     case tlr_language_symbol r of Some s \<Rightarrow> s | None \<Rightarrow> [])"

definition load_for_resolution ::
  "(string option \<Rightarrow> string option \<Rightarrow> string + 'p) \<Rightarrow> TreeSitterLanguageResolution \<Rightarrow> 'p parser_cache \<Rightarrow>
   'p TreeSitterParserLoadResult \<times> 'p parser_cache" where
  "load_for_resolution load r cache =
     (if tlr_status r = PARSER_LOAD_STATUS_UNSUPPORTED
      then (load_result r PARSER_LOAD_STATUS_UNSUPPORTED None (tlr_reason r), cache)
      else case cache (resolution_key r) of
          Some cached \<Rightarrow> (cached, cache)
        | None \<Rightarrow> (load_parser load r, cache(resolution_key r \<mapsto> load_parser load r)))"

definition load_for_path ::
  "TreeSitterLanguageDefinition list \<Rightarrow> (string option \<Rightarrow> string option \<Rightarrow> string + 'p) \<Rightarrow> string \<Rightarrow> 'p parser_cache \<Rightarrow>
   'p TreeSitterParserLoadResult \<times> 'p parser_cache" where
  "load_for_path definitions load path = load_for_resolution load (resolve_path definitions path)"

definition load_for_language ::
  "TreeSitterLanguageDefinition list \<Rightarrow> (string option \<Rightarrow> string option \<Rightarrow> string + 'p) \<Rightarrow> string option \<Rightarrow> 'p parser_cache \<Rightarrow>
   'p TreeSitterParserLoadResult \<times> 'p parser_cache" where
  "load_for_language definitions load language = load_for_resolution load (resolve_language definitions language)"

end
