(* ===== verification/TreeSitterExtractor.thy ===== *)
theory TreeSitterExtractor
  imports TreeSitterRegistry ContractsTreeSitter Chunker "HOL-Library.Product_Lexorder"
begin

text \<open>
  tree_sitter/extractor.py: symbols, imports and hunk scopes of a file from its syntax tree. The tree is what the
  tree-sitter binding returns, with the attributes and children the code reads; the code's fallbacks for other bindings
  (tuples for points, methods for attributes, a mapping of fields) are left out. Two accesses to a node give two objects, so the
  comparison of a node with the \<open>source\<close> field by identity holds of no two nodes.
\<close>

section \<open>Syntax trees\<close>

datatype syntax_node = SyntaxNode
  (sn_type: string)
  (sn_text: string)
  (sn_field: "string option")        \<comment> \<open>the field of the parent it stands for\<close>
  (sn_is_named: bool)
  (sn_is_missing: bool)
  (sn_has_error: bool)
  (sn_start_point: "nat \<times> nat")
  (sn_end_point: "nat \<times> nat")
  (sn_start_byte: nat)
  (sn_end_byte: nat)
  (sn_children: "syntax_node list")

record SemanticExtractionFile =
  sef_path :: string
  sef_content :: string
  sef_changed_lines :: "int list"
  sef_hunks :: "ChangedHunk list"

definition visited_children :: "bool \<Rightarrow> syntax_node \<Rightarrow> syntax_node list" where
  "visited_children named_only n = (if named_only then filter sn_is_named (sn_children n) else sn_children n)"

definition named_children :: "syntax_node \<Rightarrow> syntax_node list" where
  "named_children n = visited_children True n"

lemma child_smaller: "c \<in> set (sn_children n) \<Longrightarrow> size c < size n"
  by (cases n) (auto dest: size_list_estimation' [of _ _ "size c" size, OF _ order_refl])

lemma sum_children_smaller: "sum_list (map size (visited_children b n)) < size n"
proof -
  have filtered: "sum_list (map size (filter P cs)) \<le> sum_list (map size cs)" for P and cs :: "syntax_node list"
    by (induction cs) auto
  have all: "sum_list (map size cs) \<le> size_list size cs" for cs :: "syntax_node list"
    by (induction cs) auto
  have "sum_list (map size (visited_children b n)) \<le> size_list size (sn_children n)"
    unfolding visited_children_def using filtered [of sn_is_named "sn_children n"] all [of "sn_children n"] by (auto intro: order_trans)
  also have "\<dots> < size n" by (cases n) simp
  finally show ?thesis .
qed

function walk_from :: "bool \<Rightarrow> (string list \<times> syntax_node) list \<Rightarrow> (string list \<times> syntax_node) list" where
  \<comment> \<open>the loop of \<open>_walk_named\<close> and \<open>_walk_all\<close>, with the types of the ancestors of each node; the head of the stack comes first\<close>
  "walk_from named_only [] = []"
| "walk_from named_only ((ancestors, n) # stack) =
     (ancestors, n) # walk_from named_only (map (Pair (sn_type n # ancestors)) (visited_children named_only n) @ stack)"
  by pat_completeness auto
termination
proof (relation "measure (\<lambda>(b, stack). sum_list (map (size \<circ> snd) stack))")
  fix b :: bool and ancestors :: "string list" and n :: syntax_node and stack :: "(string list \<times> syntax_node) list"
  have "map (size \<circ> snd) (map (Pair (sn_type n # ancestors)) (visited_children b n)) = map size (visited_children b n)" by simp
  then show "((b, map (Pair (sn_type n # ancestors)) (visited_children b n) @ stack), (b, (ancestors, n) # stack))
      \<in> measure (\<lambda>(b, stack). sum_list (map (size \<circ> snd) stack))"
    using sum_children_smaller [of b n] by (simp only: in_measure prod.case map_append sum_list_append) simp
qed auto

definition walk_named :: "syntax_node \<Rightarrow> (string list \<times> syntax_node) list" where
  "walk_named tree = walk_from True [([], tree)]"

definition walk_all :: "syntax_node \<Rightarrow> syntax_node list" where
  "walk_all tree = map snd (walk_from False [([], tree)])"

definition child_by_field_name :: "syntax_node \<Rightarrow> string \<Rightarrow> syntax_node option" where
  "child_by_field_name n field_name = find (\<lambda>c. sn_field c = Some field_name) (sn_children n)"

definition node_text :: "syntax_node option \<Rightarrow> string" where
  "node_text n = (case n of None \<Rightarrow> [] | Some m \<Rightarrow> sn_text m)"

definition node_start_line :: "syntax_node \<Rightarrow> int" where
  "node_start_line n = int (fst (sn_start_point n)) + 1"

definition node_end_line :: "syntax_node \<Rightarrow> int" where
  "node_end_line n = (case sn_end_point n of (row, column) \<Rightarrow>
     if column = 0 \<and> sn_end_byte n > sn_start_byte n then max (int row) 1 else int row + 1)"

section \<open>Texts\<close>

definition strip_quotes :: "string \<Rightarrow> string" where
  "strip_quotes value = (let stripped = strip value
     in if length stripped \<ge> 2 \<and> hd stripped = last stripped \<and> hd stripped \<in> {CHR 0x22, CHR 0x27}
        then butlast (tl stripped) else stripped)"

definition clean_scalar :: "string \<Rightarrow> string" where
  "clean_scalar value = strip_quotes (rstrip_chars '':'' (strip value))"

definition dedupe_strings :: "string list \<Rightarrow> string list" where
  "dedupe_strings values = dedupe_keep_order (filter (\<lambda>s. s \<noteq> []) (map (\<lambda>v. strip (strip_quotes v)) values))"

function replace_first :: "string \<Rightarrow> string \<Rightarrow> string \<Rightarrow> string" where
  \<comment> \<open>\<open>text.replace(old, new, 1)\<close>\<close>
  "replace_first old new [] = []"
| "replace_first old new (c # cs) = (if starts_with old (c # cs) then new @ drop (length old) (c # cs) else c # replace_first old new cs)"
  by pat_completeness auto
termination by (relation "measure (\<lambda>(old, new, s). length s)") auto

section \<open>Symbols\<close>

record extracted_symbol =
  xs_name :: string
  xs_kind :: string
  xs_node :: syntax_node

definition named_symbol :: "syntax_node \<Rightarrow> string \<Rightarrow> extracted_symbol option" where
  "named_symbol n kind = (let name = node_text (child_by_field_name n ''name'')
     in if name \<noteq> [] then Some \<lparr> xs_name = name, xs_kind = kind, xs_node = n \<rparr> else None)"

fun typescript_variable_function_symbol :: "syntax_node list \<Rightarrow> extracted_symbol option" where
  \<comment> \<open>the loop over the named children\<close>
  "typescript_variable_function_symbol [] = None"
| "typescript_variable_function_symbol (child # rest) =
     (let name = node_text (child_by_field_name child ''name'')
      in if sn_type child = ''variable_declarator'' \<and>
           (case child_by_field_name child ''value'' of None \<Rightarrow> False | Some v \<Rightarrow> sn_type v \<in> set [''arrow_function'', ''function'']) \<and> name \<noteq> []
         then Some \<lparr> xs_name = name, xs_kind = ''function'', xs_node = child \<rparr>
         else typescript_variable_function_symbol rest)"

definition typescript_symbol :: "syntax_node \<Rightarrow> extracted_symbol option" where
  "typescript_symbol n =
     (if sn_type n \<in> set [''class_declaration'', ''abstract_class_declaration''] then named_symbol n ''class''
      else if sn_type n \<in> set [''function_declaration'', ''generator_function_declaration''] then named_symbol n ''function''
      else if sn_type n \<in> set [''method_definition'', ''method_signature'', ''abstract_method_signature''] then named_symbol n ''method''
      else if sn_type n \<in> set [''lexical_declaration'', ''variable_declaration''] then typescript_variable_function_symbol (named_children n)
      else None)"

definition python_symbol :: "string list \<Rightarrow> syntax_node \<Rightarrow> extracted_symbol option" where
  "python_symbol ancestors n =
     (if sn_type n = ''class_definition'' then named_symbol n ''class''
      else if sn_type n = ''function_definition'' then named_symbol n (if ''class_definition'' \<in> set ancestors then ''method'' else ''function'')
      else None)"

definition go_symbol :: "syntax_node \<Rightarrow> extracted_symbol option" where
  "go_symbol n =
     (if sn_type n = ''function_declaration'' then named_symbol n ''function''
      else if sn_type n = ''method_declaration'' then named_symbol n ''method''
      else if sn_type n = ''type_spec'' \<and> list_ex (\<lambda>c. sn_type c \<in> set [''struct_type'', ''interface_type'']) (named_children n)
        then named_symbol n ''class''
      else None)"

definition yaml_symbol :: "syntax_node \<Rightarrow> extracted_symbol option" where
  "yaml_symbol n =
     (if sn_type n \<notin> set [''block_mapping_pair'', ''flow_pair''] then None
      else let key = (case child_by_field_name n ''key'' of Some k \<Rightarrow> Some k
               | None \<Rightarrow> (case named_children n of c # _ \<Rightarrow> Some c | [] \<Rightarrow> None));
             name = clean_scalar (node_text key)
           in if name \<noteq> [] then Some \<lparr> xs_name = name, xs_kind = ''mapping'', xs_node = n \<rparr> else None)"

definition symbol_of :: "string \<Rightarrow> string list \<times> syntax_node \<Rightarrow> extracted_symbol option" where
  "symbol_of language = (\<lambda>(ancestors, n).
     if language \<in> set [''typescript'', ''javascript''] then typescript_symbol n
     else if language = ''python'' then python_symbol ancestors n
     else if language = ''go'' then go_symbol n
     else if language = ''yaml'' then yaml_symbol n
     else None)"

definition symbol_key :: "extracted_symbol \<Rightarrow> string \<times> string \<times> int \<times> int" where
  "symbol_key s = (xs_kind s, xs_name s, node_start_line (xs_node s), node_end_line (xs_node s))"

fun first_by_key :: "('a \<Rightarrow> 'k) \<Rightarrow> 'k list \<Rightarrow> 'a list \<Rightarrow> 'a list" where
  \<comment> \<open>\<open>setdefault\<close> and \<open>values()\<close>: the first element of each key, in order\<close>
  "first_by_key key seen [] = []"
| "first_by_key key seen (x # xs) = (if key x \<in> set seen then first_by_key key seen xs else x # first_by_key key (key x # seen) xs)"

definition symbol_sort_key :: "extracted_symbol \<Rightarrow> int \<times> int \<times> string \<times> string" where
  "symbol_sort_key s = (node_start_line (xs_node s), node_end_line (xs_node s), xs_kind s, xs_name s)"

definition dedupe_symbols :: "extracted_symbol list \<Rightarrow> extracted_symbol list" where
  "dedupe_symbols symbols = sort_key symbol_sort_key (first_by_key symbol_key [] symbols)"

definition extract_symbols :: "string \<Rightarrow> syntax_node \<Rightarrow> extracted_symbol list" where
  "extract_symbols language tree = dedupe_symbols (List.map_filter (symbol_of language) (walk_named tree))"

definition symbol_to_artifact :: "int list \<Rightarrow> extracted_symbol \<Rightarrow> TreeSitterSymbol" where
  "symbol_to_artifact changed_lines s =
     (let start_line = node_start_line (xs_node s); end_line = node_end_line (xs_node s)
      in \<lparr> tss_name = xs_name s, tss_kind = xs_kind s, tss_range = \<lparr> lr_start_line = start_line, lr_end_line = end_line \<rparr>,
           tss_start_byte = int (sn_start_byte (xs_node s)), tss_end_byte = int (sn_end_byte (xs_node s)),
           tss_changed = list_ex (\<lambda>l. start_line \<le> l \<and> l < end_line + 1) changed_lines \<rparr>)"

section \<open>Imports\<close>

definition typescript_import :: "syntax_node \<Rightarrow> TreeSitterImport" where
  "typescript_import n =
     (let source = strip_quotes (node_text (child_by_field_name n ''source''));
          symbols = map sn_text (filter (\<lambda>c. sn_type c \<in> set [''identifier'', ''property_identifier'']) (map snd (walk_named n)))
      in \<lparr> tsi_source = or_else source (sn_text n), tsi_symbols = dedupe_strings symbols, tsi_line = node_start_line n \<rparr>)"

definition python_import :: "syntax_node \<Rightarrow> TreeSitterImport" where
  "python_import n =
     (let named = map sn_text (filter (\<lambda>c. sn_type c \<in> set [''identifier'', ''dotted_name'']) (map snd (walk_named n)));
          module_node = (case child_by_field_name n ''module_name'' of Some c \<Rightarrow> Some c | None \<Rightarrow> child_by_field_name n ''module'');
          from_import = (sn_type n = ''import_from_statement'');
          source = (if from_import then node_text module_node
            else if named \<noteq> [] then hd named
            else strip (hd (split_char (CHR '','') (strip (replace_first ''import'' [] (sn_text n))))));
          symbols = (if from_import then filter (\<lambda>t. t \<noteq> source) named else named)
      in \<lparr> tsi_source = or_else source (sn_text n), tsi_symbols = dedupe_strings symbols, tsi_line = node_start_line n \<rparr>)"

definition go_import :: "syntax_node \<Rightarrow> TreeSitterImport" where
  "go_import n =
     (let source = or_else (strip_quotes (node_text (child_by_field_name n ''path''))) (strip_quotes (sn_text n));
          name = node_text (child_by_field_name n ''name'')
      in \<lparr> tsi_source = source, tsi_symbols = (if name \<noteq> [] \<and> name \<notin> set [''.'', ''_''] then [name] else []),
           tsi_line = node_start_line n \<rparr>)"

definition import_of :: "string \<Rightarrow> syntax_node \<Rightarrow> TreeSitterImport option" where
  "import_of language n =
     (if language \<in> set [''typescript'', ''javascript''] \<and> sn_type n = ''import_statement'' then Some (typescript_import n)
      else if language = ''python'' \<and> sn_type n \<in> set [''import_statement'', ''import_from_statement''] then Some (python_import n)
      else if language = ''go'' \<and> sn_type n = ''import_spec'' then Some (go_import n)
      else None)"

definition extract_imports :: "string \<Rightarrow> syntax_node \<Rightarrow> TreeSitterImport list" where
  "extract_imports language tree =
     filter (\<lambda>i. tsi_source i \<noteq> []) (List.map_filter (import_of language) (map snd (walk_named tree)))"

section \<open>Hunk scopes\<close>

definition symbol_lines :: "TreeSitterSymbol \<Rightarrow> int" where
  "symbol_lines s = lr_end_line (tss_range s) - lr_start_line (tss_range s)"

fun smallest_symbol :: "TreeSitterSymbol list \<Rightarrow> TreeSitterSymbol option" where
  \<comment> \<open>\<open>min\<close>: the first of the smallest\<close>
  "smallest_symbol [] = None"
| "smallest_symbol (s # ss) = (case smallest_symbol ss of
     None \<Rightarrow> Some s | Some t \<Rightarrow> if symbol_lines t < symbol_lines s then Some t else Some s)"

definition fully_contains :: "ChangedHunk \<Rightarrow> TreeSitterSymbol \<Rightarrow> bool" where
  "fully_contains h s \<longleftrightarrow> lr_start_line (tss_range s) \<le> ch_new_start h \<and> ch_new_end h \<le> lr_end_line (tss_range s)"

definition touches_hunk :: "ChangedHunk \<Rightarrow> TreeSitterSymbol \<Rightarrow> bool" where
  "touches_hunk h s \<longleftrightarrow> (lr_start_line (tss_range s) \<le> ch_new_start h \<and> ch_new_start h \<le> lr_end_line (tss_range s)) \<or>
     (lr_start_line (tss_range s) \<le> ch_new_end h \<and> ch_new_end h \<le> lr_end_line (tss_range s))"

definition enclosing_symbol :: "ChangedHunk \<Rightarrow> TreeSitterSymbol list \<Rightarrow> string option" where
  "enclosing_symbol h symbols = (case smallest_symbol (filter (fully_contains h) symbols) of
      Some s \<Rightarrow> Some (tss_name s)
    | None \<Rightarrow> map_option tss_name (smallest_symbol (filter (touches_hunk h) symbols)))"

definition hunk_scopes :: "string \<Rightarrow> ChangedHunk list \<Rightarrow> TreeSitterSymbol list \<Rightarrow> TreeSitterHunkScope list" where
  "hunk_scopes path hunks symbols = map (\<lambda>h. \<lparr> tsh_path = path, tsh_hunk_new_start = ch_new_start h, tsh_hunk_new_end = ch_new_end h,
     tsh_enclosing_symbol = enclosing_symbol h symbols \<rparr>) hunks"

section \<open>Files\<close>

definition unparsed_file_artifact ::
  "SemanticExtractionFile \<Rightarrow> 'p TreeSitterParserLoadResult \<Rightarrow> string \<Rightarrow> string list \<Rightarrow> TreeSitterFileArtifact" where
  "unparsed_file_artifact f loaded parse_status details =
     (let detail = (if details \<noteq> [] then details else case tpl_error loaded of Some e \<Rightarrow> [e] | None \<Rightarrow> [])
      in \<lparr> tsf_path = sef_path f, tsf_language = or_else (case tpl_language loaded of Some l \<Rightarrow> l | None \<Rightarrow> []) ''unknown'',
           tsf_parser = or_else (case tpl_parser_name loaded of Some p \<Rightarrow> p | None \<Rightarrow> []) ''unknown'', tsf_parse_status = parse_status,
           tsf_has_error = (parse_status \<noteq> ''unsupported''), tsf_missing_node_count = 0, tsf_error_node_count = 0, tsf_symbols = [],
           tsf_imports = [], tsf_hunk_scopes = hunk_scopes (sef_path f) (sef_hunks f) [], tsf_errors = filter (\<lambda>e. e \<noteq> []) detail \<rparr>)"

definition parsed_file_artifact ::
  "SemanticExtractionFile \<Rightarrow> 'p TreeSitterParserLoadResult \<Rightarrow> syntax_node \<Rightarrow> TreeSitterFileArtifact" where
  \<comment> \<open>\<open>extract_file_semantics\<close> from the tree on\<close>
  "parsed_file_artifact f loaded tree =
     (let language = (case tpl_language loaded of Some l \<Rightarrow> l | None \<Rightarrow> []);
          symbols = map (symbol_to_artifact (sef_changed_lines f)) (extract_symbols language tree);
          error_node_count = length (filter (\<lambda>n. sn_type n = ''ERROR'') (walk_all tree));
          missing_node_count = length (filter sn_is_missing (walk_all tree));
          has_error = (sn_has_error tree \<or> error_node_count > 0 \<or> missing_node_count > 0)
      in \<lparr> tsf_path = sef_path f, tsf_language = or_else language ''unknown'',
           tsf_parser = or_else (case tpl_parser_name loaded of Some p \<Rightarrow> p | None \<Rightarrow> []) ''unknown'',
           tsf_parse_status = (if has_error then ''partial'' else ''parsed''), tsf_has_error = has_error,
           tsf_missing_node_count = int missing_node_count, tsf_error_node_count = int error_node_count,
           tsf_symbols = symbols, tsf_imports = extract_imports language tree,
           tsf_hunk_scopes = hunk_scopes (sef_path f) (sef_hunks f) symbols,
           tsf_errors = (if has_error \<and> error_node_count = 0 \<and> missing_node_count = 0 then [''parse_error''] else []) @
             (if error_node_count > 0 then [''parse_error_nodes:'' @ str_of_nat error_node_count] else []) @
             (if missing_node_count > 0 then [''missing_nodes:'' @ str_of_nat missing_node_count] else []) \<rparr>)"

definition file_semantics ::
  "('p \<Rightarrow> string \<Rightarrow> string + syntax_node) \<Rightarrow> SemanticExtractionFile \<Rightarrow> 'p TreeSitterParserLoadResult \<Rightarrow> TreeSitterFileArtifact" where
  \<comment> \<open>\<open>extract_file_semantics\<close> with the loaded parser; parsing gives a tree or the class and text of an exception\<close>
  "file_semantics parse f loaded =
     (if tpl_status loaded = PARSER_LOAD_STATUS_UNSUPPORTED then unparsed_file_artifact f loaded ''unsupported'' []
      else case tpl_parser loaded of
          None \<Rightarrow> unparsed_file_artifact f loaded ''failed'' []
        | Some parser \<Rightarrow>
            if tpl_status loaded = PARSER_LOAD_STATUS_FAILED then unparsed_file_artifact f loaded ''failed'' []
            else (case parse parser (sef_content f) of
                Inl error \<Rightarrow> unparsed_file_artifact f loaded ''failed'' [error]
              | Inr tree \<Rightarrow> parsed_file_artifact f loaded tree))"

fun extract_files ::
  "TreeSitterLanguageDefinition list \<Rightarrow> (string option \<Rightarrow> string option \<Rightarrow> string + 'p) \<Rightarrow> ('p \<Rightarrow> string \<Rightarrow> string + syntax_node) \<Rightarrow>
   SemanticExtractionFile list \<Rightarrow> 'p parser_cache \<Rightarrow> TreeSitterFileArtifact list \<times> 'p parser_cache" where
  "extract_files definitions load parse [] cache = ([], cache)"
| "extract_files definitions load parse (f # fs) cache =
     (case load_for_path definitions load (sef_path f) cache of (loaded, cache1) \<Rightarrow>
      case extract_files definitions load parse fs cache1 of (artifacts, cache2) \<Rightarrow> (file_semantics parse f loaded # artifacts, cache2))"

definition extract_tree_sitter_artifact ::
  "(string option \<Rightarrow> string option \<Rightarrow> string + 'p) \<Rightarrow> ('p \<Rightarrow> string \<Rightarrow> string + syntax_node) \<Rightarrow> string option \<Rightarrow> string \<Rightarrow>
   SemanticExtractionFile list \<Rightarrow> TreeSitterArtifact" where
  \<comment> \<open>with the default registry; the version of the installed package is an argument\<close>
  "extract_tree_sitter_artifact load parse parser_version review_run_id files =
     \<lparr> tsa_schema_version = TREE_SITTER_ARTIFACT_SCHEMA_VERSION, tsa_review_run_id = review_run_id, tsa_parser_version = parser_version,
       tsa_files = fst (extract_files DEFAULT_LANGUAGE_DEFINITIONS load parse files (\<lambda>_. None)) \<rparr>"

end
