(* ===== verification/TreeSitterProperties.thy ===== *)
theory TreeSitterProperties
  imports TreeSitterExtractor PipelineFiles
begin

text \<open>
  Properties of the tree-sitter part: the traversal, when an artifact passes the contract of its reader, the cache of
  parsers, and how the registry agrees with the file selection of pipeline.py.
\<close>

section \<open>The traversal\<close>

inductive_set nodes_of :: "syntax_node \<Rightarrow> syntax_node set" for t where
  self: "t \<in> nodes_of t"
| child: "n \<in> nodes_of t \<Longrightarrow> c \<in> set (sn_children n) \<Longrightarrow> c \<in> nodes_of t"

lemma nodes_of_trans: "n \<in> nodes_of m \<Longrightarrow> m \<in> nodes_of t \<Longrightarrow> n \<in> nodes_of t"
  by (induction rule: nodes_of.induct) (auto intro: nodes_of.child)

lemma nodes_of_cases: "n \<in> nodes_of t \<Longrightarrow> n = t \<or> (\<exists>c \<in> set (sn_children t). n \<in> nodes_of c)"
  by (induction rule: nodes_of.induct) (auto intro: nodes_of.intros)

lemma walk_from_append: "walk_from b (xs @ ys) = walk_from b xs @ walk_from b ys"
  by (induction b xs rule: walk_from.induct) simp_all

lemma walk_from_nodes: "(a, n) \<in> set (walk_from b stack) \<Longrightarrow> \<exists>(a', t) \<in> set stack. n \<in> nodes_of t"
proof (induction b stack rule: walk_from.induct)
  case (2 b ancestors m stack)
  then consider "n = m" | "\<exists>(a', t) \<in> set (map (Pair (sn_type m # ancestors)) (visited_children b m) @ stack). n \<in> nodes_of t"
    by auto
  then show ?case
  proof cases
    case 2
    then consider t where "t \<in> set (sn_children m)" "n \<in> nodes_of t" | "\<exists>(a', t) \<in> set stack. n \<in> nodes_of t"
      by (auto simp: visited_children_def split: if_splits)
    then show ?thesis by cases (auto intro: nodes_of_trans [OF _ nodes_of.child [OF nodes_of.self]])
  qed (auto intro: nodes_of.self)
qed simp

lemma walk_all_visits: "n \<in> nodes_of t \<Longrightarrow> n \<in> snd ` set (walk_from False [(a, t)])"
proof (induction t arbitrary: a n)
  case (SyntaxNode ty tx fl nm ms er sp ep sb eb cs)
  let ?t = "SyntaxNode ty tx fl nm ms er sp ep sb eb cs"
  from nodes_of_cases [OF SyntaxNode.prems] consider "n = ?t" | c where "c \<in> set cs" "n \<in> nodes_of c" by auto
  then show ?case
  proof cases
    case 2
    then obtain xs ys where "cs = xs @ c # ys" by (metis split_list)
    then have stack: "map (Pair (ty # a)) cs = map (Pair (ty # a)) xs @ [(ty # a, c)] @ map (Pair (ty # a)) ys" by simp
    have "walk_from False [(a, ?t)] = (a, ?t) # walk_from False (map (Pair (ty # a)) cs)"
      by (simp add: visited_children_def)
    then have "set (walk_from False [(ty # a, c)]) \<subseteq> set (walk_from False [(a, ?t)])"
      unfolding stack walk_from_append by auto
    with SyntaxNode.IH [OF 2, of "ty # a"] show ?thesis by blast
  qed simp
qed

lemma set_walk_all: "set (walk_all t) = nodes_of t"
  using walk_all_visits [of _ t "[]"] walk_from_nodes [of _ _ False "[([], t)]"] by (fastforce simp: walk_all_def)

lemma walk_named_nodes: "(a, n) \<in> set (walk_named t) \<Longrightarrow> n \<in> nodes_of t"
  using walk_from_nodes [of a n True "[([], t)]"] by (simp add: walk_named_def)

section \<open>Artifacts and their contract\<close>

definition well_positioned :: "syntax_node \<Rightarrow> bool" where
  \<comment> \<open>what tree-sitter guarantees of the positions of a node\<close>
  "well_positioned n \<longleftrightarrow> sn_start_point n \<le> sn_end_point n \<and> (sn_start_byte n < sn_end_byte n \<longrightarrow> sn_start_point n < sn_end_point n)"

definition well_positioned_tree :: "syntax_node \<Rightarrow> bool" where
  "well_positioned_tree t \<longleftrightarrow> list_all well_positioned (walk_all t)"

lemma well_positioned_lines:
  assumes "well_positioned n"
  shows "0 < node_start_line n" and "node_start_line n \<le> node_end_line n"
  using assms by (auto simp: well_positioned_def node_start_line_def node_end_line_def less_eq_prod_def less_prod_def
      split: prod.splits)

lemma named_symbol_node: "named_symbol n k = Some s \<Longrightarrow> xs_node s = n \<and> xs_kind s = k"
  by (auto simp: named_symbol_def Let_def split: if_splits)

lemma typescript_variable_node:
  "typescript_variable_function_symbol cs = Some s \<Longrightarrow> xs_node s \<in> set cs \<and> xs_kind s = ''function''"
  by (induction cs) (auto simp: Let_def split: if_splits option.splits)

lemma symbol_of_node:
  assumes "symbol_of language (a, n) = Some s"
  shows "xs_node s \<in> nodes_of n" and "nonblank (xs_kind s)"
  using assms
  by (auto simp: symbol_of_def typescript_symbol_def python_symbol_def go_symbol_def yaml_symbol_def Let_def named_children_def
      visited_children_def is_space_def dest!: named_symbol_node typescript_variable_node intro: nodes_of.intros split: if_splits)

lemma set_first_by_key: "set (first_by_key key seen xs) \<subseteq> set xs"
proof (induction xs arbitrary: seen)
  case (Cons x xs)
  from Cons.IH [of seen] Cons.IH [of "key x # seen"] show ?case by auto
qed simp

lemma extracted_symbol_ok:
  assumes "s \<in> set (map (symbol_to_artifact lines) (extract_symbols language t))" and "well_positioned_tree t"
  shows "ok_tree_sitter_symbol s \<longleftrightarrow> nonblank (tss_name s)"
proof -
  from assms(1) obtain x where x: "x \<in> set (extract_symbols language t)" "s = symbol_to_artifact lines x" by auto
  then have "x \<in> set (List.map_filter (symbol_of language) (walk_named t))"
    using set_first_by_key by (fastforce simp: extract_symbols_def dedupe_symbols_def)
  then obtain a n where n: "(a, n) \<in> set (walk_named t)" "symbol_of language (a, n) = Some x" by (auto simp: set_map_filter)
  from symbol_of_node [OF n(2)] walk_named_nodes [OF n(1)] have "xs_node x \<in> nodes_of t" "nonblank (xs_kind x)"
    by (auto intro: nodes_of_trans)
  moreover from this have "well_positioned (xs_node x)"
    using assms(2) by (simp add: well_positioned_tree_def list_all_iff set_walk_all)
  ultimately show ?thesis using well_positioned_lines [of "xs_node x"]
    by (simp add: x(2) symbol_to_artifact_def Let_def ok_tree_sitter_symbol_def ok_line_range_def)
qed

lemma extracted_import_line:
  assumes "i \<in> set (extract_imports language t)"
  shows "0 < tsi_line i"
proof -
  from assms obtain n where "import_of language n = Some i" by (auto simp: extract_imports_def set_map_filter)
  then show ?thesis
    by (auto simp: import_of_def typescript_import_def python_import_def go_import_def Let_def node_start_line_def split: if_splits)
qed

lemma smallest_symbol_in: "smallest_symbol ss = Some s \<Longrightarrow> s \<in> set ss"
  by (induction ss arbitrary: s) (auto split: option.splits if_splits)

lemma enclosing_symbol_nonblank: "\<forall>s \<in> set ss. nonblank (tss_name s) \<Longrightarrow> pred_option nonblank (enclosing_symbol h ss)"
  by (auto simp: enclosing_symbol_def option.pred_set split: option.split dest!: smallest_symbol_in)

definition visible_names :: "TreeSitterFileArtifact \<Rightarrow> bool" where
  "visible_names a \<longleftrightarrow> list_all (\<lambda>s. nonblank (tss_name s)) (tsf_symbols a) \<and>
     list_all (\<lambda>i. nonblank (tsi_source i) \<and> list_all nonblank (tsi_symbols i)) (tsf_imports a)"

definition hunks_in_file :: "SemanticExtractionFile \<Rightarrow> bool" where
  "hunks_in_file f \<longleftrightarrow> list_all (\<lambda>h. 0 < ch_new_start h) (sef_hunks f)"

lemma hunk_scopes_ok:
  assumes "nonblank path" and "\<forall>s \<in> set ss. nonblank (tss_name s)"
  shows "list_all ok_tree_sitter_hunk_scope (hunk_scopes path hs ss) \<longleftrightarrow> list_all (\<lambda>h. 0 < ch_new_start h) hs"
  using assms enclosing_symbol_nonblank [OF assms(2)]
  by (auto simp: hunk_scopes_def ok_tree_sitter_hunk_scope_def list_all_iff ch_new_end_def)

lemma parsed_file_ok:
  assumes "well_positioned_tree t" and "nonblank (sef_path f)" and "pred_option nonblank (tpl_language loaded)"
    and "pred_option nonblank (tpl_parser_name loaded)"
  shows "ok_tree_sitter_file (parsed_file_artifact f loaded t) \<longleftrightarrow> visible_names (parsed_file_artifact f loaded t) \<and> hunks_in_file f"
proof -
  let ?a = "parsed_file_artifact f loaded t"
  have symbols: "list_all ok_tree_sitter_symbol (tsf_symbols ?a) \<longleftrightarrow> list_all (\<lambda>s. nonblank (tss_name s)) (tsf_symbols ?a)"
    using extracted_symbol_ok [OF _ assms(1)] by (auto simp: list_all_iff parsed_file_artifact_def Let_def)
  have imps: "list_all ok_tree_sitter_import (tsf_imports ?a) \<longleftrightarrow>
      list_all (\<lambda>i. nonblank (tsi_source i) \<and> list_all nonblank (tsi_symbols i)) (tsf_imports ?a)"
    using extracted_import_line by (auto simp: list_all_iff parsed_file_artifact_def Let_def ok_tree_sitter_import_def)
  have scopes: "list_all ok_tree_sitter_hunk_scope (tsf_hunk_scopes ?a) \<longleftrightarrow> hunks_in_file f"
    if "list_all (\<lambda>s. nonblank (tss_name s)) (tsf_symbols ?a)"
    using hunk_scopes_ok [OF assms(2), of "tsf_symbols ?a" "sef_hunks f"] that
    by (simp add: list_all_iff hunks_in_file_def parsed_file_artifact_def Let_def)
  have "ok_tree_sitter_file ?a \<longleftrightarrow> list_all ok_tree_sitter_symbol (tsf_symbols ?a) \<and> list_all ok_tree_sitter_import (tsf_imports ?a) \<and>
      list_all ok_tree_sitter_hunk_scope (tsf_hunk_scopes ?a)"
    using assms(2-4) by (auto simp: ok_tree_sitter_file_def parsed_file_artifact_def Let_def or_else_def is_space_def split: option.splits)
  with symbols imps scopes show ?thesis by (auto simp: visible_names_def)
qed

lemma unparsed_file_ok:
  assumes "nonblank (sef_path f)" and "pred_option nonblank (tpl_language loaded)" and "pred_option nonblank (tpl_parser_name loaded)"
    and "pred_option nonblank (tpl_error loaded)" and "list_all nonblank details" and "status \<in> set [''failed'', ''unsupported'']"
  shows "ok_tree_sitter_file (unparsed_file_artifact f loaded status details) \<longleftrightarrow> hunks_in_file f"
  using assms hunk_scopes_ok [OF assms(1), of "[]" "sef_hunks f"]
  by (cases "tpl_language loaded"; cases "tpl_parser_name loaded"; cases "tpl_error loaded")
    (auto simp: ok_tree_sitter_file_def unparsed_file_artifact_def Let_def or_else_def is_space_def hunks_in_file_def list.pred_set)

section \<open>The registry\<close>

lemma alias_map_in: "foldl add_language_aliases m ds k = Some d \<Longrightarrow> m k = Some d \<or> d \<in> set ds"
proof (induction ds arbitrary: m)
  case (Cons e ds)
  have aliases: "foldl (\<lambda>m alias. m(lower alias \<mapsto> e)) m' as k = Some d \<Longrightarrow> m' k = Some d \<or> d = e" for m' as
    by (induction as arbitrary: m') (force split: if_splits)+
  from Cons.prems have "add_language_aliases m e k = Some d \<or> d \<in> set ds" using Cons.IH by simp
  moreover have "m k = Some d \<or> d = e" if "add_language_aliases m e k = Some d"
    using aliases [OF that [unfolded add_language_aliases_def]] by (auto split: if_splits)
  ultimately show ?case by auto
qed simp

lemma path_definition_in:
  assumes "path_definition D p = Some d"
  shows "d \<in> set D"
  using assms alias_map_in [of "\<lambda>_. None" D "''dockerfile''" d]
  by (auto simp: path_definition_def Let_def build_filename_map_def build_extension_map_def build_language_alias_map_def
      split: option.splits if_splits dest!: map_of_SomeD)

definition grammar_named :: "TreeSitterLanguageDefinition \<Rightarrow> bool" where
  "grammar_named d \<longleftrightarrow> nonblank (tld_language d) \<and> nonblank (tld_parser_name d)"

definition load_reported :: "'p TreeSitterParserLoadResult \<Rightarrow> bool" where
  \<comment> \<open>what a load result holds is visible\<close>
  "load_reported r \<longleftrightarrow> pred_option nonblank (tpl_language r) \<and> pred_option nonblank (tpl_parser_name r) \<and> pred_option nonblank (tpl_error r)"

lemma default_grammars_named: "d \<in> set DEFAULT_LANGUAGE_DEFINITIONS \<Longrightarrow> grammar_named d"
proof -
  have "list_all grammar_named DEFAULT_LANGUAGE_DEFINITIONS" by code_simp
  then show "d \<in> set DEFAULT_LANGUAGE_DEFINITIONS \<Longrightarrow> grammar_named d" by (simp add: list_all_iff)
qed

lemma resolve_path_cases:
  obtains reason q where "resolve_path D p = unsupported_resolution (Some q) reason" "nonblank reason"
  | q d where "resolve_path D p = resolution (Some q) d" "d \<in> set D"
proof -
  show ?thesis
  proof (cases "normalize_repository_path p")
    case None
    with that(1) [of p "''invalid_path''"] show ?thesis by (simp add: resolve_path_def is_space_def)
  next
    case (Some q)
    show ?thesis
    proof (cases "path_definition D q")
      case None
      with Some that(1) [of q "''unsupported_extension''"] show ?thesis by (simp add: resolve_path_def is_space_def)
    next
      case (Some d)
      with \<open>normalize_repository_path p = Some q\<close> that(2) [of q d] path_definition_in [OF Some] show ?thesis by (simp add: resolve_path_def)
    qed
  qed
qed

lemma load_for_path_reported:
  assumes "load_for_path DEFAULT_LANGUAGE_DEFINITIONS load p cache = (r, cache')" and "\<forall>k r. cache k = Some r \<longrightarrow> load_reported r"
    and "\<forall>package symbol e. load package symbol = Inl e \<longrightarrow> nonblank e"
  shows "load_reported r" and "\<forall>k r. cache' k = Some r \<longrightarrow> load_reported r"
proof -
  let ?res = "resolve_path DEFAULT_LANGUAGE_DEFINITIONS p"
  have "load_reported (load_parser load ?res) \<and> (tlr_status ?res = PARSER_LOAD_STATUS_UNSUPPORTED \<longrightarrow>
      load_reported (load_result ?res PARSER_LOAD_STATUS_UNSUPPORTED None (tlr_reason ?res)))"
    using assms(3) default_grammars_named
    by (cases rule: resolve_path_cases [of DEFAULT_LANGUAGE_DEFINITIONS p])
      (auto simp: load_reported_def load_parser_def load_result_def unsupported_resolution_def resolution_def grammar_named_def
        split: sum.splits)
  then have "load_reported r \<and> (\<forall>k r. cache' k = Some r \<longrightarrow> load_reported r)"
    using assms(1,2) unfolding load_for_path_def load_for_resolution_def
    by (cases "cache (resolution_key ?res)") (auto split: if_splits simp del: split_paired_All)
  then show "load_reported r" and "\<forall>k r. cache' k = Some r \<longrightarrow> load_reported r" by auto
qed

definition parse_reported :: "('p \<Rightarrow> string \<Rightarrow> string + syntax_node) \<Rightarrow> bool" where
  \<comment> \<open>an exception has a class, a tree has the positions tree-sitter guarantees\<close>
  "parse_reported parse \<longleftrightarrow> (\<forall>p s. case parse p s of Inl e \<Rightarrow> nonblank e | Inr t \<Rightarrow> well_positioned_tree t)"

lemma file_semantics_ok:
  assumes "nonblank (sef_path f)" and "load_reported loaded" and "parse_reported parse"
  shows "ok_tree_sitter_file (file_semantics parse f loaded) \<longleftrightarrow> visible_names (file_semantics parse f loaded) \<and> hunks_in_file f"
proof -
  have unparsed: "visible_names (unparsed_file_artifact f loaded status details)" for status details
    by (simp add: visible_names_def unparsed_file_artifact_def Let_def)
  from assms(3) have "list_all nonblank [e]" if "parse p s = Inl e" for p s e
    using that unfolding parse_reported_def by (metis list.pred_inject sum.simps(5))
  moreover from assms(3) have "well_positioned_tree t" if "parse p s = Inr t" for p s t
    using that unfolding parse_reported_def by (metis sum.simps(6))
  moreover have "load_reported loaded \<Longrightarrow> pred_option nonblank (tpl_language loaded) \<and> pred_option nonblank (tpl_parser_name loaded) \<and>
      pred_option nonblank (tpl_error loaded)" by (simp add: load_reported_def)
  ultimately show ?thesis
    using assms(1,2) unparsed unparsed_file_ok [OF assms(1), of loaded] parsed_file_ok [OF _ assms(1), of _ loaded]
    by (simp add: file_semantics_def split: option.split sum.split)
qed

lemma extract_files_ok:
  "extract_files DEFAULT_LANGUAGE_DEFINITIONS load parse files cache = (artifacts, final) \<Longrightarrow>
     \<forall>k r. cache k = Some r \<longrightarrow> load_reported r \<Longrightarrow> \<forall>package symbol e. load package symbol = Inl e \<longrightarrow> nonblank e \<Longrightarrow>
     parse_reported parse \<Longrightarrow> list_all (\<lambda>f. nonblank (sef_path f)) files \<Longrightarrow>
     list_all ok_tree_sitter_file artifacts \<longleftrightarrow> list_all hunks_in_file files \<and> list_all visible_names artifacts"
proof (induction files arbitrary: cache artifacts final)
  case (Cons f fs)
  obtain loaded cache1 where load1: "load_for_path DEFAULT_LANGUAGE_DEFINITIONS load (sef_path f) cache = (loaded, cache1)" by fastforce
  obtain rest cache2 where rest: "extract_files DEFAULT_LANGUAGE_DEFINITIONS load parse fs cache1 = (rest, cache2)" by fastforce
  note reported = load_for_path_reported [OF load1 Cons.prems(2,3)]
  from Cons.prems(1) load1 rest have "artifacts = file_semantics parse f loaded # rest" by simp
  with Cons.IH [OF rest reported(2) Cons.prems(3,4)] Cons.prems(5) file_semantics_ok [OF _ reported(1) Cons.prems(4), of f]
  show ?case by auto
qed simp

text \<open>C25: The tree-sitter artifact of any files passes its own contract, read back field by field, exactly when every hunk
  starts at a positive line and no symbol or import has a blank name: positions, counts, languages, statuses and errors always
  conform. Both conditions can fail: the hunk of a file that a pull request empties starts at line 0 (\<open>+0,0\<close>), and a YAML key
  that is a quoted blank becomes a symbol with a blank name.\<close>

theorem tree_sitter_artifact_passes_contract_iff:
  assumes "nonblank review_run_id" and "pred_option nonblank parser_version" and "list_all (\<lambda>f. nonblank (sef_path f)) files"
    and "\<forall>package symbol e. load package symbol = Inl e \<longrightarrow> nonblank e" and "parse_reported parse"
    and "a = extract_tree_sitter_artifact load parse parser_version review_run_id files"
  shows "TreeSitterArtifact_from_mapping (enc_TreeSitterArtifact a) = Inr a \<longleftrightarrow>
     list_all hunks_in_file files \<and> list_all visible_names (tsa_files a)"
proof -
  obtain artifacts cache where run: "extract_files DEFAULT_LANGUAGE_DEFINITIONS load parse files (\<lambda>_. None) = (artifacts, cache)" by fastforce
  then have "tsa_files a = artifacts" by (simp add: assms(6) extract_tree_sitter_artifact_def)
  with extract_files_ok [OF run _ assms(4,5,3)] assms(1,2) show ?thesis
    unfolding TreeSitterArtifact.ok_iff_accepted [symmetric]
    by (auto simp: ok_TreeSitterArtifact_def assms(6) extract_tree_sitter_artifact_def)
qed

definition sample_name_node :: syntax_node where
  "sample_name_node = SyntaxNode ''identifier'' ''f'' (Some ''name'') True False False (0, 4) (0, 5) 4 5 []"

definition sample_syntax_tree :: syntax_node where
  "sample_syntax_tree = SyntaxNode ''module'' ''def f(): pass'' None True False False (0, 0) (0, 13) 0 13
     [SyntaxNode ''function_definition'' ''def f(): pass'' None True False False (0, 0) (0, 13) 0 13 [sample_name_node]]"

definition sample_extraction_file :: SemanticExtractionFile where
  "sample_extraction_file = \<lparr> sef_path = ''a.py'', sef_content = ''def f(): pass'', sef_changed_lines = [1],
     sef_hunks = [\<lparr> ch_new_start = 1, ch_new_line_count = 1 \<rparr>] \<rparr>"

theorem tree_sitter_artifact_passes_contract_iff_witness:
  "\<exists>a. TreeSitterArtifact_from_mapping (enc_TreeSitterArtifact a) = Inr a \<and>
     a = extract_tree_sitter_artifact (\<lambda>_ _. Inr ()) (\<lambda>_ _. Inr sample_syntax_tree) None ''r'' [sample_extraction_file]"
proof -
  let ?a = "extract_tree_sitter_artifact (\<lambda>_ _. Inr ()) (\<lambda>_ _. Inr sample_syntax_tree) None ''r'' [sample_extraction_file]"
  have "list_all visible_names (tsa_files ?a)" by code_simp
  moreover have "well_positioned_tree sample_syntax_tree" by code_simp
  moreover have "list_all hunks_in_file [sample_extraction_file]" by code_simp
  moreover have "list_all (\<lambda>f. nonblank (sef_path f)) [sample_extraction_file]" by code_simp
  ultimately show ?thesis
    using tree_sitter_artifact_passes_contract_iff [of "''r''" None "[sample_extraction_file]" "\<lambda>_ _. Inr ()" "\<lambda>_ _. Inr sample_syntax_tree" ?a]
    by (simp add: parse_reported_def is_space_def)
qed

section \<open>The registry and the file selection\<close>

lemma lower_char_dot [simp]: "lower_char (CHR ''.'') = CHR ''.''"
  by (simp add: lower_char_def)

lemma no_dot_no_suffix: "CHR ''.'' \<notin> set (lower (path_name p)) \<Longrightarrow> path_suffix p = []"
proof -
  assume "CHR ''.'' \<notin> set (lower (path_name p))"
  then have "CHR ''.'' \<notin> set (path_name p)" by (force simp: lower_def)
  then have all: "takeWhile (\<lambda>c. c \<noteq> CHR ''.'') (rev (path_name p)) = rev (path_name p)" by (subst takeWhile_eq_all_conv) auto
  show ?thesis unfolding path_suffix_def Let_def all by simp
qed

lemma extension_grammars:
  assumes "SUPPORTED_LANGUAGES_BY_EXTENSION e = Some l"
  shows "map_option tld_language (build_extension_map DEFAULT_LANGUAGE_DEFINITIONS e) = Some l"
proof -
  have "list_all (\<lambda>(e, l). map_option tld_language (build_extension_map DEFAULT_LANGUAGE_DEFINITIONS e) = Some l)
      [(''.cjs'', ''javascript''), (''.go'', ''go''), (''.hcl'', ''hcl''), (''.java'', ''java''), (''.js'', ''javascript''),
      (''.json'', ''json''), (''.jsx'', ''javascript''), (''.mjs'', ''javascript''), (''.py'', ''python''),
      (''.tf'', ''terraform''), (''.ts'', ''typescript''), (''.tsx'', ''typescript''), (''.yaml'', ''yaml''), (''.yml'', ''yaml'')]"
    by code_simp
  from bspec [OF this [unfolded list_all_iff] map_of_SomeD [OF assms [unfolded SUPPORTED_LANGUAGES_BY_EXTENSION_def]]]
  show ?thesis by (simp only: prod.case)
qed

lemma filename_grammars: "build_filename_map DEFAULT_LANGUAGE_DEFINITIONS f = Some d \<Longrightarrow> f = ''dockerfile'' \<or> f = ''containerfile''"
proof -
  have "list_all (\<lambda>(f, d). f = ''dockerfile'' \<or> f = ''containerfile'')
      (rev (concat (map (\<lambda>d. map (\<lambda>f. (lower f, d)) (tld_filenames d)) DEFAULT_LANGUAGE_DEFINITIONS)))" by code_simp
  then show "build_filename_map DEFAULT_LANGUAGE_DEFINITIONS f = Some d \<Longrightarrow> f = ''dockerfile'' \<or> f = ''containerfile''"
    unfolding build_filename_map_def list_all_iff by (blast dest: map_of_SomeD)
qed

text \<open>Every file that pipeline.py selects is resolved to a grammar of the language the file was selected for, with one
  exception: a name that starts with \<open>dockerfile.\<close>, such as \<open>Dockerfile.ts\<close>, is selected by its extension and parsed as a Dockerfile.\<close>

theorem selected_files_have_their_grammar:
  assumes "language_for_path p = Some l" and "normalize_repository_path p = Some p"
  shows "tlr_language (resolve_path DEFAULT_LANGUAGE_DEFINITIONS p) =
     Some (if starts_with ''dockerfile.'' (lower (path_name p)) then ''dockerfile'' else l)"
proof -
  let ?name = "lower (path_name p)" and ?D = DEFAULT_LANGUAGE_DEFINITIONS
  have docker: "map_option tld_language (build_filename_map ?D ''dockerfile'') = Some ''dockerfile''"
    "map_option tld_language (build_language_alias_map ?D ''dockerfile'') = Some ''dockerfile''" by code_simp+
  have special: "SUPPORTED_SPECIAL_FILENAMES n = (if n = ''dockerfile'' then Some ''dockerfile'' else None)" for n
    by (simp add: SUPPORTED_SPECIAL_FILENAMES_def)
  have "map_option tld_language (path_definition ?D p) = Some (if starts_with ''dockerfile.'' ?name then ''dockerfile'' else l)"
  proof (cases "?name = ''dockerfile''")
    case True
    with assms(1) special have "l = ''dockerfile''" by (simp add: language_for_path_def)
    with True docker(1) show ?thesis by (auto simp: path_definition_def)
  next
    case False
    with assms(1) special have ext: "SUPPORTED_LANGUAGES_BY_EXTENSION (lower (path_suffix p)) = Some l" by (simp add: language_for_path_def)
    have "?name \<noteq> ''containerfile''"
    proof
      assume "?name = ''containerfile''"
      then have "path_suffix p = []" by (intro no_dot_no_suffix) simp
      with ext show False by (simp add: SUPPORTED_LANGUAGES_BY_EXTENSION_def lower_def)
    qed
    with False filename_grammars [of ?name] have "build_filename_map ?D ?name = None" by (cases "build_filename_map ?D ?name") auto
    with docker(2) extension_grammars [OF ext] show ?thesis by (auto simp: path_definition_def Let_def)
  qed
  then obtain d where "path_definition ?D p = Some d"
    "tld_language d = (if starts_with ''dockerfile.'' ?name then ''dockerfile'' else l)" by auto
  with assms(2) show ?thesis by (simp add: resolve_path_def resolution_def)
qed

theorem selected_files_have_their_grammar_witness:
  "tlr_language (resolve_path DEFAULT_LANGUAGE_DEFINITIONS ''a/Dockerfile.ts'') = Some ''dockerfile'' \<and>
   language_for_path ''a/Dockerfile.ts'' = Some ''typescript''"
proof -
  have "language_for_path ''a/Dockerfile.ts'' = Some ''typescript''" "normalize_repository_path ''a/Dockerfile.ts'' = Some ''a/Dockerfile.ts''"
    "starts_with ''dockerfile.'' (lower (path_name ''a/Dockerfile.ts''))" by code_simp+
  with selected_files_have_their_grammar [of "''a/Dockerfile.ts''" "''typescript''"] show ?thesis by simp
qed

section \<open>The cache of parsers\<close>

definition keys_determine_grammars :: "TreeSitterLanguageDefinition list \<Rightarrow> bool" where
  \<comment> \<open>\<open>cache_key\<close> leaves out the name of the parser\<close>
  "keys_determine_grammars D \<longleftrightarrow> list_all (\<lambda>d. list_all (\<lambda>e. (tld_language d, tld_parser_package d, tld_language_symbol d) =
     (tld_language e, tld_parser_package e, tld_language_symbol e) \<longrightarrow> tld_parser_name d = tld_parser_name e) D) D"

definition cache_of :: "TreeSitterLanguageDefinition list \<Rightarrow> (string option \<Rightarrow> string option \<Rightarrow> string + 'p) \<Rightarrow> 'p parser_cache \<Rightarrow> bool" where
  "cache_of D load cache \<longleftrightarrow> (\<forall>k r. cache k = Some r \<longrightarrow>
     (\<exists>d \<in> set D. k = resolution_key (resolution None d) \<and> r = load_parser load (resolution None d)))"

lemma load_for_path_cached:
  assumes "keys_determine_grammars D" and "cache_of D load cache" and "load_for_path D load p cache = (r, cache')"
  shows "r = fst (load_for_path D load p (\<lambda>_. None))" and "cache_of D load cache'"
proof -
  have load_path: "load_parser load (resolution q d) = load_parser load (resolution None d)" for q d
    by (simp add: load_parser_def load_result_def resolution_def cong: sum.case_cong)
  have key_path: "resolution_key (resolution q d) = resolution_key (resolution None d)" for q d
    by (simp add: resolution_key_def resolution_def)
  have same: "load_parser load (resolution None d) = load_parser load (resolution None e)"
    if "d \<in> set D" "e \<in> set D" "resolution_key (resolution None d) = resolution_key (resolution None e)" for d e
  proof -
    from that(3) have key: "(tld_language d, tld_parser_package d, tld_language_symbol d) = (tld_language e, tld_parser_package e, tld_language_symbol e)"
      by (simp add: resolution_key_def resolution_def)
    with that(1,2) assms(1) have "tld_parser_name d = tld_parser_name e" unfolding keys_determine_grammars_def list_all_iff by blast
    with key have "resolution None d = resolution None e" by (simp add: resolution_def)
    then show ?thesis by (rule arg_cong)
  qed
  show "r = fst (load_for_path D load p (\<lambda>_. None))" and "cache_of D load cache'"
  proof (atomize (full), cases rule: resolve_path_cases [of D p])
    case (1 q reason)
    with assms(2,3) show "r = fst (load_for_path D load p (\<lambda>_. None)) \<and> cache_of D load cache'"
      by (simp add: load_for_path_def load_for_resolution_def unsupported_resolution_def)
  next
    case (2 q d)
    let ?k = "resolution_key (resolution None d)" and ?r = "load_parser load (resolution None d)"
    have available: "tlr_status (resolution (Some q) d) \<noteq> PARSER_LOAD_STATUS_UNSUPPORTED"
      by (simp add: resolution_def PARSER_LOAD_STATUS_AVAILABLE_def PARSER_LOAD_STATUS_UNSUPPORTED_def)
    have path: "load_for_path D load p c = (case c ?k of Some x \<Rightarrow> (x, c) | None \<Rightarrow> (?r, c(?k \<mapsto> ?r)))" for c
      using load_path [of "Some q" d] key_path [of "Some q" d]
      by (cases "c ?k") (simp_all add: load_for_path_def load_for_resolution_def 2(1) available)
    show "r = fst (load_for_path D load p (\<lambda>_. None)) \<and> cache_of D load cache'"
    proof (cases "cache ?k")
      case None
      with assms(3) path have "r = ?r" "cache' = cache(?k \<mapsto> ?r)" by auto
      with assms(2) 2(2) path show ?thesis by (auto simp: cache_of_def simp del: split_paired_All)
    next
      case (Some x)
      with assms(3) path have "r = x" "cache' = cache" by auto
      moreover from assms(2) Some obtain e where "e \<in> set D" "?k = resolution_key (resolution None e)" "x = load_parser load (resolution None e)"
        unfolding cache_of_def by blast
      ultimately show ?thesis using same [OF 2(2)] assms(2) path by auto
    qed
  qed
qed

text \<open>The cache changes nothing: every file is analysed with the result of loading its grammar anew, also a failed one, in
  whatever order the files come.\<close>

theorem parser_cache_is_transparent:
  "tsa_files (extract_tree_sitter_artifact load parse parser_version review_run_id files) =
     map (\<lambda>f. file_semantics parse f (fst (load_for_path DEFAULT_LANGUAGE_DEFINITIONS load (sef_path f) (\<lambda>_. None)))) files"
proof -
  have keys: "keys_determine_grammars DEFAULT_LANGUAGE_DEFINITIONS" by code_simp
  have "cache_of DEFAULT_LANGUAGE_DEFINITIONS load cache \<Longrightarrow> fst (extract_files DEFAULT_LANGUAGE_DEFINITIONS load parse files cache) =
      map (\<lambda>f. file_semantics parse f (fst (load_for_path DEFAULT_LANGUAGE_DEFINITIONS load (sef_path f) (\<lambda>_. None)))) files" for cache
  proof (induction files arbitrary: cache)
    case (Cons f fs)
    obtain loaded cache1 where load1: "load_for_path DEFAULT_LANGUAGE_DEFINITIONS load (sef_path f) cache = (loaded, cache1)" by fastforce
    from load_for_path_cached [OF keys Cons.prems load1] have loaded: "loaded = fst (load_for_path DEFAULT_LANGUAGE_DEFINITIONS load (sef_path f) (\<lambda>_. None))"
      and cache1: "cache_of DEFAULT_LANGUAGE_DEFINITIONS load cache1" .
    have "fst (extract_files DEFAULT_LANGUAGE_DEFINITIONS load parse (f # fs) cache) =
        file_semantics parse f loaded # fst (extract_files DEFAULT_LANGUAGE_DEFINITIONS load parse fs cache1)"
      by (simp add: load1 split: prod.split)
    with Cons.IH [OF cache1] show ?case by (simp add: loaded)
  qed simp
  then show ?thesis by (simp add: extract_tree_sitter_artifact_def cache_of_def)
qed

end
