(* ===== verification/ReviewText.thy ===== *)
theory ReviewText
  imports ReviewStore PyRegex
begin

text \<open>
  pipeline.py: the pieces of Markdown from which comments are made: messages without the names of the tools,
  code excerpts as diffs, the points of a remediation, and the report on one finding. The symbols of a comment
  beyond U+00FF are given by a function from their names.
\<close>

section \<open>Messages\<close>

definition semgrep_name_re :: re where
  "semgrep_name_re = seqs [WordB, ilit ''Semgrep'', WordB]"

definition tree_sitter_name_re :: re where
  "tree_sitter_name_re = seqs [WordB, ilit ''Tree'', Cls (\<lambda>c. c = CHR ''-'' \<or> c = CHR '' ''), ilit ''sitter'', WordB]"

definition public_message :: "string \<Rightarrow> string" where
  "public_message value =
     (let sanitized = re_sub semgrep_name_re (\<lambda>_. ''automated check'') value;
          sanitized = re_sub tree_sitter_name_re (\<lambda>_. ''code context parser'') sanitized;
          sanitized = re_sub (seqs [WordB, lit ''semgrep'', WordB]) (\<lambda>_. ''automated-check'') sanitized
      in re_sub (seqs [WordB, lit ''tree_sitter'', WordB]) (\<lambda>_. ''code_context'') sanitized)"

definition newline_to_space :: "char \<Rightarrow> char" where
  "newline_to_space c = (if c = CHR 0x0D \<or> c = CHR 0x0A then CHR '' '' else c)"

definition one_line_text :: "string \<Rightarrow> string" where
  "one_line_text value = join '' '' (split_words (map newline_to_space value))"

definition capitalize :: "string \<Rightarrow> string" where
  \<comment> \<open>\<open>str.capitalize\<close>: the first character in title case, the others in lower case\<close>
  "capitalize s = (case s of [] \<Rightarrow> [] | c # cs \<Rightarrow> (if (of_char c :: nat) = 223 then ''Ss'' else upper_char c) @ lower cs)"

definition plural :: "string \<Rightarrow> nat \<Rightarrow> string" where
  \<comment> \<open>\<open>{'s' if n != 1 else ''}\<close> after a noun\<close>
  "plural noun n = (if n \<noteq> 1 then noun @ ''s'' else noun)"

definition code_span :: "string \<Rightarrow> string" where
  "code_span s = ''`'' @ s @ ''`''"

section \<open>Code excerpts as diffs\<close>

definition blank :: "string \<Rightarrow> bool" where
  "blank line \<longleftrightarrow> strip line = []"

definition trim_code_excerpt :: "string \<Rightarrow> string" where
  "trim_code_excerpt value =
     take 1200 (join [CHR 0x0A] (rev (dropWhile blank (rev (dropWhile blank (splitlines value))))))"

fun first_non_empty_line_of :: "string list \<Rightarrow> string" where
  "first_non_empty_line_of [] = []"
| "first_non_empty_line_of (line # rest) = (if blank line then first_non_empty_line_of rest else take 160 (strip line))"

definition first_non_empty_line :: "string \<Rightarrow> string" where
  "first_non_empty_line value = first_non_empty_line_of (splitlines value)"

definition strip_newlines :: "string \<Rightarrow> string" where
  \<comment> \<open>\<open>value.strip(''\n'')\<close>\<close>
  "strip_newlines s = rstrip_chars [CHR 0x0A] (dropWhile (\<lambda>c. c = CHR 0x0A) s)"

definition code_lines :: "string \<Rightarrow> string list" where
  "code_lines value = filter (\<lambda>line. \<not> blank line) (splitlines value)"

definition render_affected_code_diff :: "string \<Rightarrow> string" where
  "render_affected_code_diff value =
     join [CHR 0x0A] (map (\<lambda>line. ''- '' @ line) (take 12 (code_lines (strip_newlines value))))"

definition render_semgrep_fix_diff :: "string \<Rightarrow> string \<Rightarrow> string" where
  "render_semgrep_fix_diff original fix_text =
     (let diff_lines = ''@@ Suggested replacement @@'' # map (\<lambda>line. ''- '' @ line) (take 12 (code_lines (strip original))) @
            map (\<lambda>line. ''+ '' @ line) (take 12 (code_lines (strip fix_text)))
      in if length diff_lines > 1 then join [CHR 0x0A] diff_lines
         else ''@@ Suggested replacement @@'' @ [CHR 0x0A] @ ''+ '' @ take 1200 (strip fix_text))"

section \<open>The points of a remediation\<close>

definition normalize_resolution_point :: "string \<Rightarrow> string" where
  "normalize_resolution_point value = (case rstrip_chars ''.'' (strip value) of
      [] \<Rightarrow> [] | c # point \<Rightarrow> upper_char c @ point @ ''.'')"

definition after_sentence :: "char option \<Rightarrow> string \<Rightarrow> match_state option" where
  \<comment> \<open>\<open>(?<=[.!?])\s+\<close>\<close>
  "after_sentence prev s = (case prev of
      Some c \<Rightarrow> if c \<in> set ''.!?'' then match_at (plus is_space) prev s else None
    | None \<Rightarrow> None)"

definition comma_and_re :: re where
  \<comment> \<open>\<open>,\s+and\s+\<close>\<close>
  "comma_and_re = seqs [lit '','', plus is_space, lit ''and'', plus is_space]"

definition stripped_parts :: "string list \<Rightarrow> string list" where
  "stripped_parts parts = filter (\<lambda>p. p \<noteq> []) (map strip parts)"

definition explicit_points :: "string \<Rightarrow> string list" where
  \<comment> \<open>the bullet U+2022 is no text of the model\<close>
  "explicit_points value = map (\<lambda>line. strip (dropWhile (\<lambda>c. c \<in> set ''-*'') (strip line)))
     (filter (\<lambda>line. \<not> blank line) (split_char (CHR 0x0A) (map (\<lambda>c. if c = CHR 0x0D then CHR 0x0A else c) value)))"

definition resolution_points :: "string \<Rightarrow> string list" where
  "resolution_points value =
     (let normalized = one_line_text value; explicit = explicit_points value
      in if normalized = [] then []
         else if length explicit > 1 then map normalize_resolution_point (filter (\<lambda>p. p \<noteq> []) explicit)
         else
           (let sentence_parts = stripped_parts (re_split after_sentence normalized);
                points = concat (map (\<lambda>part. stripped_parts (re_split (match_at comma_and_re) part))
                  (if sentence_parts = [] then [normalized] else sentence_parts))
            in map normalize_resolution_point (filter (\<lambda>p. p \<noteq> []) points)))"

definition render_resolution_bullets :: "string \<Rightarrow> string list" where
  "render_resolution_bullets value = (let points = resolution_points value
     in if points \<noteq> [] then map (\<lambda>point. ''- '' @ point) points else [''- Review this changed line and update it before merging.''])"

section \<open>The report on a finding\<close>

datatype report_symbol = WarningSign | HighVoltage | HammerAndWrench | RedCircle | OrangeCircle | YellowCircle | BlueCircle | WhiteCircle

definition inline_severity_label :: "(report_symbol \<Rightarrow> string) \<Rightarrow> string \<Rightarrow> string" where
  "inline_severity_label glyph severity = (case map_of [(''critical'', glyph RedCircle @ '' Critical''), (''high'', glyph OrangeCircle @ '' Major''),
       (''medium'', glyph YellowCircle @ '' Medium''), (''low'', glyph BlueCircle @ '' Minor''), (''info'', glyph WhiteCircle @ '' Info'')] severity of
     Some label \<Rightarrow> label | None \<Rightarrow> glyph WhiteCircle @ '' Info'')"

definition metadata_values :: "json \<Rightarrow> string list" where
  "metadata_values value = (case value of
      JStr s \<Rightarrow> if s \<noteq> [] then [s] else []
    | JList items \<Rightarrow> List.map_filter pv_optional_str items
    | _ \<Rightarrow> [])"

definition summary_remediation :: "obj \<Rightarrow> string" where
  "summary_remediation finding = (case pv_optional_str (obj_get (pv_object (obj_get finding ''metadata'')) ''remediation'') of
      Some r \<Rightarrow> r
    | None \<Rightarrow> (case pv_optional_str (obj_get finding ''fix'') of
        Some f \<Rightarrow> f | None \<Rightarrow> ''Review this changed code and update it before merging.''))"

definition finding_analysis_lines :: "obj \<Rightarrow> string \<Rightarrow> int \<Rightarrow> string \<Rightarrow> string \<Rightarrow> bool \<Rightarrow> string list" where
  "finding_analysis_lines finding path line severity lines inline =
     (let metadata = pv_object (obj_get finding ''metadata''); rule_id = pv_str (obj_get finding ''ruleId'') [];
          excerpt = first_non_empty_line (trim_code_excerpt lines);
          category = pv_optional_str (obj_get metadata ''category''); technology = metadata_values (obj_get metadata ''technology'');
          standards = metadata_values (obj_get metadata ''cwe'') @ metadata_values (obj_get metadata ''owasp'')
      in [''- Evidence: changed line '' @ code_span (path @ '':'' @ str_of_int line) @
            (if excerpt \<noteq> [] then '' contains '' @ code_span excerpt @ ''.'' else ''.'')] @
         [if rule_id \<noteq> [] then ''- Check: '' @ code_span rule_id @ '' reported '' @ code_span severity @ '' severity.''
          else ''- Severity: '' @ code_span severity @ ''.''] @
         (if category \<noteq> None \<or> technology \<noteq> []
          then [''- Context: '' @ join ''; '' ((case category of Some c \<Rightarrow> [''category '' @ code_span c] | None \<Rightarrow> []) @
             (if technology \<noteq> [] then [''technology '' @ join '', '' (map code_span technology)] else [])) @ ''.'']
          else []) @
         (if standards \<noteq> [] then [''- Reference: '' @ join '', '' (map code_span (take 4 standards)) @ ''.''] else []) @
         [''- Scope: '' @ (if inline then ''This inline comment is anchored to a line added or modified in this PR.''
            else ''This finding is included because it maps to code changed in this PR.'')])"

definition render_finding_report ::
  "(report_symbol \<Rightarrow> string) \<Rightarrow> string \<Rightarrow> string \<Rightarrow> string \<Rightarrow> string \<Rightarrow> string option \<Rightarrow> string option \<Rightarrow> string list \<Rightarrow> string" where
  \<comment> \<open>severity, message, lines, remediation, fix, \<open>location_label\<close> and \<open>analysis_lines\<close>; the path is not used\<close>
  "render_finding_report glyph severity message lines remediation fix_text location_label analysis_lines =
     (let alert = (if severity \<in> set [''critical'', ''high''] then ''CAUTION'' else if severity = ''medium'' then ''WARNING'' else ''NOTE'');
          code_excerpt = trim_code_excerpt lines
      in join [CHR 0x0A]
        ([glyph WarningSign @ '' Potential issue | '' @ inline_severity_label glyph severity @ '' | '' @ glyph HighVoltage @ '' Quick win'',
          [], ''> [!'' @ alert @ '']'', ''> **'' @ message @ ''**''] @
         (case location_label of Some l \<Rightarrow> if l \<noteq> [] then [[], l] else [] | None \<Rightarrow> []) @
         [[], ''<details>'', ''<summary>Analysis chain</summary>'', []] @ analysis_lines @ [[], ''</details>'', [], message] @
         (if code_excerpt \<noteq> []
          then [[], ''**Flagged code:**'', [], ''```diff'', render_affected_code_diff code_excerpt, ''```''] else []) @
         (case fix_text of
            Some f \<Rightarrow> [[], ''<details>'', ''<summary>'' @ glyph HammerAndWrench @ '' Suggested patch</summary>'', [], ''```diff'',
              render_semgrep_fix_diff lines f, ''```'', [], ''</details>'']
          | None \<Rightarrow> [[], ''<details>'', ''<summary>'' @ glyph HammerAndWrench @ '' Suggested resolution</summary>'', []] @
              render_resolution_bullets (or_else remediation ''Review this changed line and update it before merging.'') @
              [[], ''</details>''])))"

definition render_summary_semgrep_finding :: "(report_symbol \<Rightarrow> string) \<Rightarrow> ChangedFile list \<Rightarrow> json \<Rightarrow> string" where
  "render_summary_semgrep_finding glyph changed_files value =
     (let finding = pv_object value; start = pv_object (obj_get finding ''start''); path = pv_str (obj_get finding ''path'') ''unknown'';
          line = pv_int (obj_get start ''line'') 1; severity = pv_str (obj_get finding ''severity'') ''info'';
          message = public_message (pv_str (obj_get finding ''message'') ''Automated finding'');
          stored_lines = pv_str (obj_get finding ''lines'') [];
          display_lines = (case changed_file_line_excerpt changed_files path line of Some l \<Rightarrow> or_else l stored_lines | None \<Rightarrow> stored_lines)
      in render_finding_report glyph severity message display_lines (public_message (summary_remediation finding))
           (pv_optional_str (obj_get finding ''fix'')) (Some (code_span (path @ '':'' @ str_of_int line)))
           (finding_analysis_lines finding path line severity display_lines False))"

definition render_inline_semgrep_comment :: "(report_symbol \<Rightarrow> string) \<Rightarrow> obj \<Rightarrow> string" where
  "render_inline_semgrep_comment glyph finding =
     (let severity = pv_str (obj_get finding ''severity'') ''info'';
          message = public_message (pv_str (obj_get finding ''message'') ''Automated finding'');
          lines = or_else (pv_str (obj_get finding ''displayLines'') []) (pv_str (obj_get finding ''lines'') []);
          metadata = pv_object (obj_get finding ''metadata''); fix_text = pv_optional_str (obj_get finding ''fix'');
          path = pv_str (obj_get finding ''path'') []; line = pv_int (obj_get (pv_object (obj_get finding ''start'')) ''line'') 1;
          remediation = (case pv_optional_str (obj_get metadata ''remediation'') of Some r \<Rightarrow> r
            | None \<Rightarrow> (case fix_text of Some f \<Rightarrow> f | None \<Rightarrow> ''Review this changed line and update it before merging.''))
      in render_finding_report glyph severity message lines (public_message remediation) fix_text None
           (finding_analysis_lines finding path line severity lines True))"

end
