(* ===== verification/ReviewReport.thy ===== *)
theory ReviewReport
  imports ReviewText PipelineDedupe PipelineGitHub
begin

text \<open>
  pipeline.py: the two comments of a review, \<open>render_summary_comment\<close> and \<open>render_scanning_progress_comment\<close>, with
  the sections of the summary.
\<close>

section \<open>Sections\<close>

definition report_section :: "string \<Rightarrow> string list \<Rightarrow> string list" where
  "report_section title lines = [''### '' @ title, []] @ (if lines = [] then [''- No details available.''] else lines) @ [[]]"

definition finding_summary_location :: "obj \<Rightarrow> string" where
  "finding_summary_location finding =
     (let path = pv_str (obj_get finding ''path'') []; line = pv_int (obj_get (pv_object (obj_get finding ''start'')) ''line'') 0
      in if path = [] then [] else if line > 0 then '' at '' @ code_span (path @ '':'' @ str_of_int line) else '' in '' @ code_span path)"

definition actionable_issue_summary_line :: "obj \<Rightarrow> string" where
  "actionable_issue_summary_line finding =
     (let severity = lower (pv_str (obj_get finding ''severity'') ''info'');
          message = take 220 (public_message (one_line_text (pv_str (obj_get finding ''message'') ''Automated finding'')));
          remediation = summary_remediation finding;
          suffix = (if remediation \<noteq> [] then '' Suggested action: '' @ take 220 (public_message (one_line_text remediation)) else [])
      in capitalize severity @ '': '' @ message @ finding_summary_location finding @ ''.'' @ suffix)"

definition code_review_summary_lines :: "json list \<Rightarrow> json list \<Rightarrow> CodebaseFinding list \<Rightarrow> string list" where
  "code_review_summary_lines findings problems codebase_findings =
     (let finding_count = length findings; hidden_count = finding_count - 5
      in if codebase_findings \<noteq> [] \<and> findings = []
           then [''FirmcodeAI did not find new changed-line issues in this PR, but recent repository scans found pre-existing issues in the touched codebase area.'']
         else if findings \<noteq> []
           then (''FirmcodeAI generated this actionable-issue summary from '' @ str_of_nat finding_count @ '' '' @
                plural ''grounded finding'' finding_count @ '':'') #
              map (\<lambda>finding. ''- '' @ actionable_issue_summary_line (pv_object finding)) (take 5 findings) @
              (if hidden_count > 0 then [''- ...and '' @ str_of_nat hidden_count @ '' more '' @ plural ''grounded finding'' hidden_count @ ''.'']
               else [])
         else if problems \<noteq> []
           then [''FirmcodeAI could not generate a complete actionable-issue summary because some automated checks reported errors. Review the risk and suggested tests below before merging.'']
         else [''FirmcodeAI did not generate actionable issue summaries because the current evidence set did not contain grounded findings.''])"

definition line_range_text :: "int \<Rightarrow> int option \<Rightarrow> string" where
  "line_range_text start end_line = (case end_line of
      Some e \<Rightarrow> if e \<noteq> 0 \<and> e > start then str_of_int start @ ''-'' @ str_of_int e else str_of_int start
    | None \<Rightarrow> str_of_int start)"

definition codebase_finding_location :: "CodebaseFinding \<Rightarrow> string" where
  "codebase_finding_location finding = (case cdf_file_path finding of
      None \<Rightarrow> []
    | Some path \<Rightarrow> if path = [] then []
        else (case cdf_start_line finding of
            Some start \<Rightarrow> if start > 0 then '' at '' @ code_span (path @ '':'' @ line_range_text start (cdf_end_line finding))
              else '' in '' @ code_span path
          | None \<Rightarrow> '' in '' @ code_span path))"

definition evidence_summary :: "CodebaseFinding \<Rightarrow> obj \<Rightarrow> string option" where
  \<comment> \<open>one round of the loop over the evidence\<close>
  "evidence_summary finding evidence =
     (let excerpt = public_message (one_line_text (pv_str (obj_get evidence ''excerpt'') []));
          path = (case pv_optional_str (obj_get evidence ''path'') of Some p \<Rightarrow> p
            | None \<Rightarrow> (case cdf_file_path finding of Some p \<Rightarrow> p | None \<Rightarrow> []));
          line_range = pv_object (obj_get evidence ''lineRange'');
          start_line = pv_optional_int (obj_get line_range ''startLine''); end_line = pv_optional_int (obj_get line_range ''endLine'')
      in if excerpt = [] then None
         else Some (if path \<noteq> [] \<and> start_line \<notin> {None, Some 0}
             then code_span (path @ '':'' @ line_range_text (the start_line) end_line) @ '' shows '' @ take 180 excerpt
           else if path \<noteq> [] then code_span path @ '' shows '' @ take 180 excerpt
           else take 180 excerpt))"

definition codebase_evidence_summary :: "CodebaseFinding \<Rightarrow> string" where
  "codebase_evidence_summary finding = (case List.map_filter (evidence_summary finding) (cdf_evidence finding) of
      s # _ \<Rightarrow> s | [] \<Rightarrow> ''recent repository scan evidence'')"

definition render_codebase_finding_summary :: "CodebaseFinding \<Rightarrow> string" where
  "render_codebase_finding_summary finding =
     (let recommendation = public_message (one_line_text (case cdf_recommendation finding of
            Some r \<Rightarrow> or_else r ''Review the existing issue before expanding this component.''
          | None \<Rightarrow> ''Review the existing issue before expanding this component.''));
          title = take 220 (public_message (one_line_text (cdf_title finding)))
      in ''- '' @ capitalize (cdf_severity finding) @ '': '' @ title @ codebase_finding_location finding @ ''. Evidence: '' @
         codebase_evidence_summary finding @ ''. Recommendation: '' @ take 220 recommendation)"

definition risk_level :: "json list \<Rightarrow> json list \<Rightarrow> string" where
  "risk_level findings problems =
     (let severities = map (\<lambda>finding. pv_str (obj_get (pv_object finding) ''severity'') ''info'') findings
      in if list_ex (\<lambda>s. s \<in> set [''critical'', ''high'']) severities then ''high''
         else if ''medium'' \<in> set severities \<or> problems \<noteq> [] then ''medium''
         else ''low'')"

definition changed_component :: "ChangedFile \<Rightarrow> string" where
  "changed_component file = (let parts = split_char (CHR ''/'') (cf_path file) in if length parts > 1 then join ''/'' (take 2 parts) else hd parts)"

definition component_counts :: "ChangedFile list \<Rightarrow> (string \<times> nat) list" where
  \<comment> \<open>\<open>Counter.most_common(8)\<close>: the largest counts first, equal ones in the order of their first file\<close>
  "component_counts files = (let names = map changed_component files
     in take 8 (sort_key (\<lambda>(name, n). - int n) (map (\<lambda>name. (name, count_list names name)) (dedupe_keep_order names))))"

definition changed_components :: "ChangedFile list \<Rightarrow> string list" where
  "changed_components files = map (\<lambda>(name, n). code_span name @ '' ('' @ str_of_nat n @ '' '' @ plural ''file'' n @ '')'') (component_counts files)"

fun patch_preview :: "nat \<Rightarrow> string list \<Rightarrow> string list" where
  \<comment> \<open>the loop, with \<open>content_line_count\<close>\<close>
  "patch_preview n [] = []"
| "patch_preview n (raw # rest) =
     (if starts_with ''@@'' raw then take 200 raw # patch_preview n rest
      else if starts_with [CHR 0x5C] raw then patch_preview n rest
      else
        (let shown = (if starts_with ''-'' raw then ''- '' @ take 199 (drop 1 raw)
               else if starts_with ''+'' raw then ''+ '' @ take 199 (drop 1 raw)
               else if starts_with '' '' raw then ''  '' @ take 199 (drop 1 raw)
               else take 200 raw)
         in if Suc n \<ge> 20 then [shown, ''...''] else shown # patch_preview (Suc n) rest))"

definition render_changed_component_patch :: "string \<Rightarrow> string" where
  "render_changed_component_patch patch = join [CHR 0x0A] (take 24 (patch_preview 0 (splitlines
     (replace_str [CHR 0x0D] [CHR 0x0A] (replace_str [CHR 0x0D, CHR 0x0A] [CHR 0x0A] patch)))))"

definition changed_patch_lines :: "ChangedFile \<Rightarrow> string list" where
  \<comment> \<open>one round of the loop over the first six files with a patch\<close>
  "changed_patch_lines file = (let rendered_patch = render_changed_component_patch (case cf_patch file of Some p \<Rightarrow> p | None \<Rightarrow> [])
     in if rendered_patch = [] then []
        else [''**'' @ code_span (cf_path file) @ ''** (+'' @ str_of_int (cf_additions file) @ ''/-'' @ str_of_int (cf_deletions file) @ '')'',
          [], ''```diff'', rendered_patch, ''```'', []])"

definition changed_component_lines :: "ChangedFile list \<Rightarrow> string list" where
  "changed_component_lines files =
     (let components = changed_components files; lines = map (\<lambda>c. ''- '' @ c) components;
          files_with_patches = filter (\<lambda>f. cf_patch f \<notin> {None, Some []}) files; hidden_count = length files_with_patches - 6
      in if components = [] then [''- No supported changed files were selected.'']
         else if files_with_patches = [] then lines
         else lines @ [[], ''**Changed code**'', []] @ concat (map changed_patch_lines (take 6 files_with_patches)) @
           (if hidden_count > 0 then [''- ...and '' @ str_of_nat hidden_count @ '' more changed '' @ plural ''file'' hidden_count @ ''.''] else []))"

definition test_suggestions :: "ChangedFile list \<Rightarrow> json list \<Rightarrow> string list" where
  "test_suggestions files findings =
     (let languages = map cf_language files;
          suggestions =
            (if Some ''typescript'' \<in> set languages \<or> Some ''javascript'' \<in> set languages
             then [''Run the affected TypeScript/JavaScript unit tests and type checks.''] else []) @
            (if Some ''python'' \<in> set languages then [''Run the affected Python tests with pytest.''] else []) @
            (if list_ex (\<lambda>f. is_infrastructure_path (cf_path f)) files
             then [''Run deployment or compose validation for the changed infrastructure files.''] else []) @
            (if findings \<noteq> [] then [''Add or update tests that exercise each automated finding before merging.''] else [])
      in if suggestions = [] then [''Run the project test suite that owns the changed files.''] else suggestions)"

section \<open>The comments\<close>

definition FIRMCODEAI_BANNER :: string where
  "FIRMCODEAI_BANNER = join [CHR 0x0A] [''```text'', ''|----------------------|'', ''|      FIRMCODEAI      |'',
     ''|----------------------|'', ''```'']"

definition existing_findings_lines :: "CodebaseFinding list \<Rightarrow> string list" where
  "existing_findings_lines codebase_findings = (let hidden_count = length codebase_findings - 6
     in if codebase_findings = [] then []
        else [[], ''**Existing codebase findings**'', []] @ map render_codebase_finding_summary (take 6 codebase_findings) @
          (if hidden_count > 0 then [''- ...and '' @ str_of_nat hidden_count @ '' more relevant existing codebase '' @ plural ''issue'' hidden_count @ ''.'']
           else []))"

definition summary_lead :: "nat \<Rightarrow> nat \<Rightarrow> string" where
  "summary_lead finding_count codebase_count =
     (if codebase_count > 0
      then ''FirmcodeAI reviewed this PR and found '' @ str_of_nat finding_count @ '' current PR actionable issue(s), plus '' @
        str_of_nat codebase_count @ '' relevant pre-existing codebase issue(s).''
      else ''FirmcodeAI reviewed this PR and found '' @ str_of_nat finding_count @ '' actionable issue(s).'')"

definition render_summary_comment ::
  "(report_symbol \<Rightarrow> string) \<Rightarrow> (string \<Rightarrow> string) \<Rightarrow> ChangedFile list \<Rightarrow> obj \<Rightarrow> CodebaseFinding list \<Rightarrow> string" where
  \<comment> \<open>the last argument are the findings of the enrichment; the other arguments of the function are not used by it\<close>
  "render_summary_comment glyph sha256 changed_files semgrep_artifact enrichment_findings =
     (let semgrep_findings = pv_list (obj_get semgrep_artifact ''findings''); semgrep_errors = pv_list (obj_get semgrep_artifact ''errors'');
          codebase_findings = dedupe_codebase_findings sha256 semgrep_findings enrichment_findings;
          review_blocks = map (render_summary_semgrep_finding glyph changed_files) (take 8 semgrep_findings);
          code_review_lines = code_review_summary_lines semgrep_findings semgrep_errors codebase_findings @
            (if review_blocks \<noteq> []
             then [[], if codebase_findings \<noteq> [] then ''**Current PR findings**'' else ''**Actionable findings**'', []] @ review_blocks
             else []) @
            existing_findings_lines codebase_findings
      in join [CHR 0x0A]
        ([FIRMCODEAI_SUMMARY_COMMENT_MARKER, FIRMCODEAI_BANNER, ''## FirmcodeAI Summary'', [],
          summary_lead (length semgrep_findings) (length codebase_findings), [], ''### Code Review'', []] @ code_review_lines @ [[]] @
         report_section ''Risk'' [''- Level: '' @ risk_level semgrep_findings semgrep_errors] @
         report_section ''Changed Components'' (changed_component_lines changed_files) @
         report_section ''Suggested Tests'' (map (\<lambda>suggestion. ''- '' @ suggestion) (test_suggestions changed_files semgrep_findings)) @
         [''<sub>FirmcodeAI grounds this summary in changed files and automated review evidence.</sub>'']))"

definition render_scanning_progress_comment :: "string \<Rightarrow> string option \<Rightarrow> string" where
  \<comment> \<open>status and \<open>error_message\<close>; the phase and the counts are not shown\<close>
  "render_scanning_progress_comment status failure =
     (let status_message = (case map_of [(''running'', ''FirmcodeAI is actively analyzing this PR.''),
            (''completed'', ''FirmcodeAI finished analysis for this PR.''), (''failed'', ''FirmcodeAI could not finish analysis for this PR.'')] status of
          Some m \<Rightarrow> m | None \<Rightarrow> ''FirmcodeAI is processing this PR.'');
          progress_lines = (''- Status: '' @ code_span status) #
            (if status = ''failed'' \<and> failure \<notin> {None, Some []}
             then [''- Result: Analysis could not finish. Please retry after checking the service logs.''] else [])
      in join [CHR 0x0A]
        ([FIRMCODEAI_SCANNING_COMMENT_MARKER, FIRMCODEAI_BANNER, ''## FirmcodeAI Analysis Progress'', [],
          ''> [!'' @ (if status = ''failed'' then ''CAUTION'' else ''NOTE'') @ '']'', ''> '' @ status_message, [], ''### Progress'', []] @
         progress_lines @ [[], ''<sub>This comment is updated by the worker as analysis progresses.</sub>'']))"

section \<open>Helpers no comment uses\<close>

definition semgrep_scanned_paths :: "obj \<Rightarrow> string list" where
  "semgrep_scanned_paths semgrep_artifact = filter (\<lambda>p. p \<noteq> [])
     (map (\<lambda>path. pv_str path []) (pv_list (obj_get (pv_object (obj_get semgrep_artifact ''paths'')) ''scanned'')))"

definition semgrep_skipped_paths :: "obj \<Rightarrow> json list" where
  "semgrep_skipped_paths semgrep_artifact = pv_list (obj_get (pv_object (obj_get semgrep_artifact ''paths'')) ''skipped'')"

definition tree_sitter_parsed_count :: "obj \<Rightarrow> nat" where
  "tree_sitter_parsed_count tree_sitter_artifact = length (filter (\<lambda>file. pv_str (obj_get (pv_object file) ''parseStatus'') [] = ''parsed'')
     (pv_list (obj_get tree_sitter_artifact ''files'')))"

definition render_scan_path_block :: "string \<Rightarrow> string list \<Rightarrow> string list" where
  "render_scan_path_block title values =
     (let visible_values = take 12 (filter (\<lambda>v. v \<noteq> []) values); hidden_count = length values - length visible_values
      in [[], ''<details>'', ''<summary>'' @ title @ ''</summary>'', []] @ map (\<lambda>v. ''- '' @ code_span v) visible_values @
         (if hidden_count > 0 then [''- ...and '' @ str_of_nat hidden_count @ '' more''] else []) @ [[], ''</details>''])"

definition format_semgrep_skipped_paths :: "json list \<Rightarrow> string list" where
  "format_semgrep_skipped_paths values = List.map_filter (\<lambda>value. let item = pv_object value; path = pv_str (obj_get item ''path'') []
     in if path = [] then None else Some (path @ '' - '' @ pv_str (obj_get item ''reason'') ''skipped'')) values"

definition render_semgrep_error_block :: "json list \<Rightarrow> string list" where
  "render_semgrep_error_block problems = (let hidden_count = length problems - 5
     in [[], ''<details>'', ''<summary>Check errors</summary>'', []] @
        map (\<lambda>problem. let item = pv_object problem
          in ''- '' @ code_span (pv_str (obj_get item ''code'') ''error'') @ '': '' @
             take 500 (public_message (one_line_text (pv_str (obj_get item ''message'') ''Automated check failed'')))) (take 5 problems) @
        (if hidden_count > 0 then [''- ...and '' @ str_of_nat hidden_count @ '' more''] else []) @ [[], ''</details>''])"

end
