(* ===== verification/ReviewRun.thy ===== *)
theory ReviewRun
  imports ReviewReport SemgrepWorkspace TreeSitterExtractor PyBytes
begin

text \<open>
  pipeline.py, \<open>DeterministicReviewPipeline.run\<close>: a review from its job to the published summary, as an action on
  the GitHub client and the tables. Parameters stand for the GitHub API, the Semgrep runner the pipeline is given, the
  extraction of syntax trees, SHA-256, clocks and new identifiers, and for what other clients do to the
  database: they act before every transaction. The n-th transaction of a run gets the n-th clock and identifiers. Log lines
  are left out.
\<close>

section \<open>State and services\<close>

record 'w review_state =
  rvs_client :: "'w github_client"
  rvs_db :: review_db
  rvs_tick :: nat

record 'w review_services =
  rsv_api :: "'w github_api"
  rsv_dry_run :: bool
  rsv_env :: "string \<Rightarrow> string option"
  rsv_wide :: "nat \<Rightarrow> char"
  rsv_semgrep :: "string \<Rightarrow> workspace_state \<Rightarrow> worker_exception + obj"
  rsv_tree_sitter :: "string \<Rightarrow> SemanticExtractionFile list \<Rightarrow> worker_exception + obj"
  rsv_sha256 :: "string \<Rightarrow> string"
  rsv_dedupe_hash :: "obj \<Rightarrow> string"
  rsv_symbol :: "report_symbol \<Rightarrow> string"
  rsv_isoformat :: "int \<Rightarrow> string"
  rsv_clock :: "nat \<Rightarrow> int"
  rsv_uuid :: "nat \<Rightarrow> nat \<Rightarrow> string"
  rsv_meanwhile :: "nat \<Rightarrow> review_db \<Rightarrow> review_db"

type_synonym ('w, 'a) review_op = "('w review_state, worker_exception, 'a) action"

definition review_error_of :: "pipeline_error \<Rightarrow> worker_exception" where
  \<comment> \<open>the class of an exception that is not a \<open>ReviewPipelineError\<close> is not distinguished\<close>
  "review_error_of e = (case e of
      ReviewPipelineError code message \<Rightarrow> \<lparr> we_class = ''ReviewPipelineError'', we_text = message, we_error_code = Some code \<rparr>
    | PipelineException message \<Rightarrow> \<lparr> we_class = ''Exception'', we_text = message, we_error_code = None \<rparr>)"

definition review_github :: "('w, 'a) github_op \<Rightarrow> ('w, 'a) review_op" where
  "review_github m = act_zoom rvs_client (\<lambda>c s. s\<lparr>rvs_client := c\<rparr>) (act_map_error review_error_of m)"

definition review_statement :: "'w review_services \<Rightarrow> (nat \<Rightarrow> 'a review_sql) \<Rightarrow> ('w, 'a) review_op" where
  \<comment> \<open>one method of the store\<close>
  "review_statement svc f = (\<lambda>s. map_option (\<lambda>(r, db). (r, s\<lparr>rvs_db := db, rvs_tick := Suc (rvs_tick s)\<rparr>))
     (f (rvs_tick s) (rsv_meanwhile svc (rvs_tick s) (rvs_db s))))"

section \<open>Contents of files\<close>

definition content_path :: "string \<times> string \<Rightarrow> string \<Rightarrow> string \<Rightarrow> string" where
  "content_path r path ref = repo_path r @ ''/contents/'' @ join ''/'' (map quote_text (split_char (CHR ''/'') path)) @ ''?ref='' @ quote_text ref"

definition decode_content :: "(nat \<Rightarrow> char) \<Rightarrow> string \<Rightarrow> pipeline_error + string" where
  "decode_content wide content = map_sum (\<lambda>(cls, message). PipelineException message) fst (decode_base64_text wide content)"

definition read_content_response :: "(nat \<Rightarrow> char) \<Rightarrow> string \<Rightarrow> json \<Rightarrow> pipeline_error + string \<times> int option" where
  "read_content_response wide path response = (case response of
      JObj v \<Rightarrow>
        if obj_get v ''type'' \<noteq> JStr ''file''
        then Inl (ReviewPipelineError ''github_content_unavailable'' (''GitHub content for '' @ path @ '' was not a file.''))
        else (case (obj_get v ''encoding'', obj_get v ''content'') of
            (JStr encoding, JStr content) \<Rightarrow>
              if encoding = ''base64'' then bind_sum (decode_content wide content) (\<lambda>text. Inr (text, pv_optional_int (obj_get v ''size'')))
              else Inl (ReviewPipelineError ''github_content_unavailable'' (''GitHub content for '' @ path @ '' was not base64 text.''))
          | _ \<Rightarrow> Inl (ReviewPipelineError ''github_content_unavailable'' (''GitHub content for '' @ path @ '' was not base64 text.'')))
    | _ \<Rightarrow> Inl (ReviewPipelineError ''github_content_unavailable'' (''GitHub content for '' @ path @ '' was not a file.'')))"

definition fetch_file_content ::
  "(nat \<Rightarrow> char) \<Rightarrow> 'w github_api \<Rightarrow> int \<Rightarrow> string \<Rightarrow> string \<Rightarrow> string \<Rightarrow> ('w, string \<times> int option) github_op" where
  "fetch_file_content wide api installation_id repository_full_name path ref =
     act_bind (installation_token api installation_id) (\<lambda>token.
     act_bind (gh_split repository_full_name) (\<lambda>r.
     act_bind (request_json api ''GET'' (content_path r path ref) token None) (\<lambda>response.
     act_of (read_content_response wide path response))))"

definition content_outcome :: "('w, string \<times> int option) github_op \<Rightarrow> ('w, fetch_outcome) github_op" where
  \<comment> \<open>the \<open>try\<close> around the fetch, which catches \<open>ReviewPipelineError\<close> only\<close>
  "content_outcome m = act_catch (act_bind m (\<lambda>(content, size_bytes). act_return (Fetched content size_bytes)))
     (\<lambda>e. case e of ReviewPipelineError _ message \<Rightarrow> act_return (ContentUnavailable message) | PipelineException _ \<Rightarrow> act_raise e)"

definition needs_content :: "GitHubFile \<Rightarrow> bool" where
  \<comment> \<open>the rounds of the loop that reach the fetch\<close>
  "needs_content file \<longleftrightarrow> normalize_file_status (gf_status file) \<notin> set [''deleted'', ''removed''] \<and>
     lower (path_suffix (gf_path file)) \<notin> set BINARY_EXTENSIONS \<and> language_for_path (gf_path file) \<noteq> None"

definition prepare_review_file :: "(string \<Rightarrow> ('w, fetch_outcome) github_op) \<Rightarrow> int \<Rightarrow> GitHubFile \<Rightarrow> ('w, SkippedFile + ChangedFile) github_op" where
  "prepare_review_file fetch max_content_bytes file =
     act_bind (if needs_content file then fetch (gf_path file) else act_return (ContentUnavailable [])) (\<lambda>outcome.
     act_of (map_sum PipelineException id (prepare_file (\<lambda>_. outcome) max_content_bytes file)))"

fun prepare_review_files ::
  "(string \<Rightarrow> ('w, fetch_outcome) github_op) \<Rightarrow> int \<Rightarrow> GitHubFile list \<Rightarrow> ('w, ChangedFile list \<times> SkippedFile list) github_op" where
  "prepare_review_files fetch max_content_bytes [] = act_return ([], [])"
| "prepare_review_files fetch max_content_bytes (f # fs) =
     act_bind (prepare_review_file fetch max_content_bytes f) (\<lambda>r.
     act_bind (prepare_review_files fetch max_content_bytes fs) (\<lambda>(changed, skips).
       act_return (case r of Inl s \<Rightarrow> (changed, s # skips) | Inr c \<Rightarrow> (c # changed, skips))))"

definition prepare_review ::
  "'w review_services \<Rightarrow> ReviewContext \<Rightarrow> GitHubFile list \<Rightarrow> ('w, ChangedFile list \<times> SkippedFile list) github_op" where
  "prepare_review svc review github_files =
     (let max_files = nat (env_positive_int (rsv_env svc ''REVIEW_MAX_FILES'') 50);
          max_content_bytes = env_positive_int (rsv_env svc ''TREESITTER_MAX_FILE_BYTES'') 500000;
          fetch = (\<lambda>path. content_outcome (fetch_file_content (rsv_wide svc) (rsv_api svc) (rvc_installation_id review)
            (rvc_repository_full_name review) path (rvc_head_sha review)))
      in act_bind (prepare_review_files fetch max_content_bytes (take max_files github_files)) (\<lambda>(changed, skips).
         act_return (changed, skips @ map (\<lambda>f. skipped f (normalize_file_status (gf_status f)) ''max_files''
           (''Review is capped at '' @ str_of_nat max_files @ '' changed files.'')) (drop max_files github_files))))"

section \<open>The analysers\<close>

definition skipped_to_semgrep_path :: "SkippedFile \<Rightarrow> json" where
  "skipped_to_semgrep_path file = JObj [(''path'', JStr (sk_path file)), (''reason'', JStr (sk_reason file)), (''detail'', JStr (sk_detail file))]"

definition review_empty_semgrep_artifact :: "string \<Rightarrow> SkippedFile list \<Rightarrow> obj" where
  "review_empty_semgrep_artifact review_run_id skipped_files =
     [(''schemaVersion'', JStr ''semgrep-artifact/v1''), (''reviewRunId'', JStr review_run_id), (''toolVersion'', JNull),
      (''exitCode'', JInt 0), (''durationMs'', JInt 0), (''findings'', JList []), (''errors'', JList []),
      (''paths'', JObj [(''scanned'', JList []), (''skipped'', JList (map skipped_to_semgrep_path skipped_files))])]"

definition semgrep_failure_artifact :: "string \<Rightarrow> string \<Rightarrow> string \<Rightarrow> obj" where
  "semgrep_failure_artifact review_run_id code message =
     [(''schemaVersion'', JStr ''semgrep-artifact/v1''), (''reviewRunId'', JStr review_run_id), (''toolVersion'', JNull),
      (''exitCode'', JInt 127), (''durationMs'', JInt 0), (''findings'', JList []),
      (''errors'', JList [JObj [(''code'', JStr code), (''message'', JStr message), (''path'', JNull), (''severity'', JStr ''error'')]]),
      (''paths'', JObj [(''scanned'', JList []), (''skipped'', JList [])])]"

definition merge_skipped_files :: "SkippedFile list \<Rightarrow> obj \<Rightarrow> obj" where
  "merge_skipped_files skipped_files artifact = (let paths = pv_object (obj_get artifact ''paths'')
     in AList.update ''paths'' (JObj (AList.update ''skipped''
          (JList (pv_list (obj_get paths ''skipped'') @ map skipped_to_semgrep_path skipped_files)) paths)) artifact)"

definition review_scan_input :: "ChangedFile \<Rightarrow> ChangedFileScanInput option" where
  "review_scan_input file = map_option (\<lambda>content. \<lparr> csi_path = cf_path file, csi_content = content, csi_status = cf_status file,
     csi_language = cf_language file \<rparr>) (cf_content file)"

definition review_workspace_exception :: "workspace_error \<Rightarrow> worker_exception" where
  "review_workspace_exception e = (case e of
      SemgrepScanWorkspaceError m \<Rightarrow> \<lparr> we_class = ''SemgrepScanWorkspaceError'', we_text = m, we_error_code = None \<rparr>
    | WorkspaceOSError m \<Rightarrow> \<lparr> we_class = ''OSError'', we_text = m, we_error_code = None \<rparr>)"

definition run_review_semgrep ::
  "(string \<Rightarrow> workspace_state \<Rightarrow> worker_exception + obj) \<Rightarrow> string \<Rightarrow> ChangedFile list \<Rightarrow> SkippedFile list \<Rightarrow> worker_exception + obj" where
  "run_review_semgrep semgrep_runner review_run_id changed_files skipped_files =
     (let scan_inputs = List.map_filter review_scan_input changed_files
      in if scan_inputs = [] then Inr (review_empty_semgrep_artifact review_run_id skipped_files)
         else bind_sum (map_sum review_workspace_exception id (populate_workspace scan_inputs)) (\<lambda>workspace.
           if ws_targets workspace = [] then Inr (review_empty_semgrep_artifact review_run_id skipped_files)
           else (case semgrep_runner review_run_id workspace of
               Inl e \<Rightarrow> if we_class e = ''SemgrepProcessError''
                 then Inr (semgrep_failure_artifact review_run_id ''semgrep_process_error'' (we_text e)) else Inl e
             | Inr artifact \<Rightarrow> Inr (merge_skipped_files skipped_files artifact))))"

definition extraction_file :: "ChangedFile \<Rightarrow> SemanticExtractionFile option" where
  "extraction_file file = map_option (\<lambda>content. \<lparr> sef_path = cf_path file, sef_content = content,
     sef_changed_lines = cf_changed_new_lines file,
     sef_hunks = map (\<lambda>h. \<lparr> ch_new_start = dh_new_start h, ch_new_line_count = dh_new_line_count h \<rparr>) (cf_hunks file) \<rparr>) (cf_content file)"

definition run_review_tree_sitter ::
  "(string \<Rightarrow> SemanticExtractionFile list \<Rightarrow> worker_exception + obj) \<Rightarrow> string \<Rightarrow> ChangedFile list \<Rightarrow> worker_exception + obj" where
  "run_review_tree_sitter extract review_run_id changed_files =
     (let files = List.map_filter extraction_file changed_files
      in if files = [] then Inr [(''schemaVersion'', JStr TREE_SITTER_ARTIFACT_SCHEMA_VERSION), (''reviewRunId'', JStr review_run_id),
           (''parserVersion'', JNull), (''files'', JList [])]
         else extract review_run_id files)"

section \<open>The run\<close>

definition publish_progress :: "'w review_services \<Rightarrow> ReviewContext \<Rightarrow> string \<Rightarrow> string option \<Rightarrow> ('w, unit) review_op" where
  "publish_progress svc review status failure =
     act_catch (act_bind (review_github (publish_scanning_comment (rsv_api svc) (rsv_dry_run svc) (rvc_installation_id review)
         (rvc_repository_full_name review) (rvc_pull_request_number review) (render_scanning_progress_comment status failure)))
       (\<lambda>_. act_return ())) (\<lambda>_. act_return ())"

definition analyse_pull_request ::
  "'w review_services \<Rightarrow> string \<Rightarrow> ReviewContext \<Rightarrow> ('w, ChangedFile list \<times> obj) review_op" where
  \<comment> \<open>the \<open>try\<close> block before the check; the tree-sitter artifact is stored and not used again\<close>
  "analyse_pull_request svc review_run_id review =
     act_bind (publish_progress svc review ''running'' None) (\<lambda>_.
     act_bind (review_github (fetch_pull_request_files (rsv_api svc) (rvc_installation_id review) (rvc_repository_full_name review)
         (rvc_pull_request_number review))) (\<lambda>github_files.
     act_bind (review_github (prepare_review svc review github_files)) (\<lambda>(changed_files, skipped_files).
     act_bind (publish_progress svc review ''running'' None) (\<lambda>_.
     act_bind (review_statement svc (\<lambda>n. save_changed_files (rsv_uuid svc n) review_run_id changed_files)) (\<lambda>_.
     act_bind (review_statement svc (\<lambda>n. save_artifact (rsv_uuid svc n 0) review_run_id ''diff'' ''diff-artifact/v1''
         (enc_DiffArtifact (build_diff_artifact (rsv_sha256 svc) review review_run_id changed_files skipped_files)))) (\<lambda>_.
     act_bind (publish_progress svc review ''running'' None) (\<lambda>_.
     act_bind (act_of (run_review_semgrep (rsv_semgrep svc) review_run_id changed_files skipped_files)) (\<lambda>semgrep_artifact.
     act_bind (review_statement svc (\<lambda>n. save_artifact (rsv_uuid svc n 0) review_run_id ''semgrep'' ''semgrep-artifact/v1'' semgrep_artifact)) (\<lambda>_.
     act_bind (review_statement svc (\<lambda>n. save_semgrep_findings (rsv_dedupe_hash svc) (rsv_uuid svc n) review_run_id
         (pv_list (obj_get semgrep_artifact ''findings'')))) (\<lambda>_.
     act_bind (publish_progress svc review ''running'' None) (\<lambda>_.
     act_bind (act_of (run_review_tree_sitter (rsv_tree_sitter svc) review_run_id changed_files)) (\<lambda>tree_sitter_artifact.
     act_bind (review_statement svc (\<lambda>n. save_artifact (rsv_uuid svc n 0) review_run_id ''treesitter'' ''tree-sitter-artifact/v1'' tree_sitter_artifact)) (\<lambda>_.
     act_return (changed_files, semgrep_artifact))))))))))))))"

definition load_review_enrichment :: "'w review_services \<Rightarrow> string \<Rightarrow> ReviewContext \<Rightarrow> ChangedFile list \<Rightarrow> ('w, CodebaseReviewEnrichment) review_op" where
  "load_review_enrichment svc review_run_id review changed_files =
     act_catch (review_statement svc (\<lambda>n. load_codebase_review_enrichment (rsv_isoformat svc) review review_run_id changed_files
         (env_positive_int (rsv_env svc ''REVIEW_MAX_CODEBASE_FINDINGS'') 12)))
       (\<lambda>_. act_return (empty_codebase_review_enrichment review review_run_id changed_files))"

definition publish_inline_comments ::
  "'w review_services \<Rightarrow> string \<Rightarrow> ReviewContext \<Rightarrow> obj list \<Rightarrow> ('w, unit) review_op" where
  "publish_inline_comments svc review_run_id review inline_comments =
     (if inline_comments = [] then act_return ()
      else act_bind (publish_progress svc review ''running'' None) (\<lambda>_.
        act_bind (review_github (publish_inline_review_comments (rsv_api svc) (rsv_dry_run svc) (rvc_installation_id review)
          (rvc_repository_full_name review) (rvc_pull_request_number review) (rvc_head_sha review) inline_comments))
          (\<lambda>(review_id, published_inline_comments, inline_dry_run).
        review_statement svc (\<lambda>n. record_inline_comments (rsv_sha256 svc) (rsv_uuid svc n) review_run_id published_inline_comments))))"

definition publish_review :: "'w review_services \<Rightarrow> string \<Rightarrow> ReviewContext \<Rightarrow> ChangedFile list \<Rightarrow> obj \<Rightarrow> ('w, unit) review_op" where
  \<comment> \<open>the \<open>try\<close> block after the check\<close>
  "publish_review svc review_run_id review changed_files semgrep_artifact =
     act_bind (load_review_enrichment svc review_run_id review changed_files) (\<lambda>codebase_enrichment.
     act_bind (publish_inline_comments svc review_run_id review
         (build_semgrep_inline_review_comments (render_inline_semgrep_comment (rsv_symbol svc)) (rsv_dedupe_hash svc) semgrep_artifact
            changed_files (env_positive_int (rsv_env svc ''REVIEW_MAX_INLINE_COMMENTS'') 10))) (\<lambda>_.
     let summary = render_summary_comment (rsv_symbol svc) (rsv_sha256 svc) changed_files semgrep_artifact (cre_findings codebase_enrichment)
     in act_bind (review_github (publish_summary_comment (rsv_api svc) (rsv_dry_run svc) (rvc_installation_id review)
            (rvc_repository_full_name review) (rvc_pull_request_number review) summary)) (\<lambda>(github_comment_id, dry_run).
        act_bind (review_statement svc (\<lambda>n. record_summary_comment (rsv_sha256 svc) (rsv_uuid svc n 0) review_run_id github_comment_id
            summary dry_run)) (\<lambda>_.
        publish_progress svc review ''completed'' None))))"

definition review_body :: "'w review_services \<Rightarrow> string \<Rightarrow> ReviewContext \<Rightarrow> ('w, unit) review_op" where
  \<comment> \<open>the \<open>try\<close> block\<close>
  "review_body svc review_run_id review =
     act_bind (analyse_pull_request svc review_run_id review) (\<lambda>(changed_files, semgrep_artifact).
     act_bind (review_statement svc (\<lambda>n. verify_publishable (rsv_clock svc n) review_run_id)) (\<lambda>publish_check.
       if \<not> rpk_publishable publish_check then act_return ()
       else publish_review svc review_run_id review changed_files semgrep_artifact))"

definition review_pipeline_run :: "'w review_services \<Rightarrow> ReviewJobInput \<Rightarrow> ('w, unit) review_op" where
  "review_pipeline_run svc payload =
     act_bind (review_statement svc (\<lambda>n. load_context (rj_review_run_id payload))) (\<lambda>review.
     act_catch (review_body svc (rj_review_run_id payload) review) (\<lambda>e.
       act_bind (publish_progress svc review ''failed'' (Some (we_text e))) (\<lambda>_. act_raise e)))"

end
