(* ===== verification/ReviewQuiet.thy ===== *)
theory ReviewQuiet
  imports ReviewRun
begin

text \<open>
  Which parts of a review publish nothing: requests that read, have no content or carry the progress comment, and every stage of
  the run before its check that only sends such requests and records no comment.
\<close>

section \<open>Requests that publish nothing\<close>

definition progress_body :: "json option \<Rightarrow> bool" where
  "progress_body body \<longleftrightarrow> (case body of
      Some (JObj v) \<Rightarrow> (case obj_get v ''body'' of JStr t \<Rightarrow> starts_with FIRMCODEAI_SCANNING_COMMENT_MARKER t | _ \<Rightarrow> False)
    | _ \<Rightarrow> False)"

definition quiet_request :: "string \<Rightarrow> json option \<Rightarrow> bool" where
  \<comment> \<open>it reads, has no content, or is the progress comment\<close>
  "quiet_request meth body \<longleftrightarrow> meth = ''GET'' \<or> body = None \<or> progress_body body"

definition quiet_api :: "'w github_api \<Rightarrow> ('w \<Rightarrow> 'w \<Rightarrow> bool) \<Rightarrow> bool" where
  \<comment> \<open>a relation between states of GitHub that no such request leaves\<close>
  "quiet_api api R \<longleftrightarrow> (\<forall>w. R w w) \<and> (\<forall>u v w. R u v \<longrightarrow> R v w \<longrightarrow> R u w) \<and>
     (\<forall>meth path bearer body w. quiet_request meth body \<longrightarrow> R w (snd (ga_request api meth path bearer body w)))"

definition world_change :: "('w \<Rightarrow> 'w \<Rightarrow> bool) \<Rightarrow> 'w github_client \<Rightarrow> 'w github_client \<Rightarrow> bool" where
  "world_change R c c' \<longleftrightarrow> R (gc_world c) (gc_world c')"

lemma world_change_relation: "quiet_api api R \<Longrightarrow> state_relation (world_change R)"
  by unfold_locales (auto simp: quiet_api_def world_change_def)

lemma quiet_request_respects:
  assumes "quiet_api api R" and "quiet_request meth body"
  shows "act_respects (world_change R) (request_json api meth path bearer body)"
proof -
  have "R w w'" if "ga_request api meth path bearer body w = (r, w')" for r w w'
    using assms that unfolding quiet_api_def by (metis snd_conv)
  then show ?thesis by (auto simp: act_respects_def request_json_def world_change_def split: prod.splits)
qed

lemma installation_token_quiet:
  assumes "quiet_api api R"
  shows "act_respects (world_change R) (installation_token api i)"
proof -
  have "act_respects (world_change R) (request_json api ''POST'' (''/app/installations/'' @ str_of_int i @ ''/access_tokens'') bearer None)" for bearer
    by (rule quiet_request_respects [OF assms]) (simp add: quiet_request_def)
  moreover have "R w w" for w using assms by (simp add: quiet_api_def)
  ultimately show ?thesis
    by (auto simp: act_respects_def installation_token_def act_bind_def act_raise_def world_change_def split: option.splits sum.splits json.splits)
qed

lemma gh_split_quiet: "quiet_api api R \<Longrightarrow> act_respects (world_change R) (gh_split value)"
  unfolding gh_split_def by (frule world_change_relation) (auto split: sum.split intro: state_relation.raise state_relation.return)

lemma invalid_response_quiet: "quiet_api api R \<Longrightarrow> act_respects (world_change R) (invalid_response m)"
  unfolding invalid_response_def by (rule state_relation.raise [OF world_change_relation])

lemma created_id_quiet: "quiet_api api R \<Longrightarrow> act_respects (world_change R) (created_id m j)"
  unfolding created_id_def
  by (frule world_change_relation) (auto split: json.split option.split intro: invalid_response_quiet state_relation.return)

lemma scanning_comment_quiet:
  assumes "quiet_api api R" and "starts_with FIRMCODEAI_SCANNING_COMMENT_MARKER body"
  shows "act_respects (world_change R) (publish_scanning_comment api dry_run inst name number body)"
proof -
  note rel = world_change_relation [OF assms(1)]
  note composed = state_relation.bind [OF rel] state_relation.return [OF rel]
  have "progress_body (Some (JObj [(''body'', JStr body)]))" using assms(2) by (simp add: progress_body_def)
  then have requests: "act_respects (world_change R) (request_json api meth path bearer (Some (JObj [(''body'', JStr body)])))"
      "act_respects (world_change R) (request_json api ''GET'' path bearer None)" for meth path bearer
    by (auto intro!: quiet_request_respects [OF assms(1)] simp: quiet_request_def)
  show ?thesis
    unfolding publish_scanning_comment_def upsert_activity_comment_def
    by (auto intro!: composed installation_token_quiet [OF assms(1)] gh_split_quiet [OF assms(1)] requests
        created_id_quiet [OF assms(1)] invalid_response_quiet [OF assms(1)] split: json.split option.split)
qed

lemma progress_comment_marked: "starts_with FIRMCODEAI_SCANNING_COMMENT_MARKER (render_scanning_progress_comment status failure)"
  by (simp add: render_scanning_progress_comment_def Let_def starts_with_iff)

section \<open>Fetching is quiet\<close>

lemma pull_files_pages_quiet:
  assumes "quiet_api api R" and "\<And>p. act_respects (world_change R) (get p)"
  shows "act_respects (world_change R) (pull_files_pages get page files)"
proof -
  note rel = world_change_relation [OF assms(1)]
  have "(\<forall>p. act_respects (world_change R) (get p)) \<longrightarrow> world_change R c (snd y)" if "pull_files_pages get page files c = Some y" for c y
  proof (rule pull_files_pages.raw_induct [OF _ that])
    fix f get page files and c :: "'a github_client" and y
    assume IH: "\<And>get page files c y. f get page files c = Some y \<Longrightarrow>
        (\<forall>p. act_respects (world_change R) (get p)) \<longrightarrow> world_change R c (snd y)"
      and step: "(case get page c of None \<Rightarrow> None | Some (Inl e, c') \<Rightarrow> Some (Inl e, c')
        | Some (Inr response, c') \<Rightarrow> (case response of
            JList items \<Rightarrow>
              if items = [] then Some (Inr files, c')
              else if length items < 100 then Some (Inr (files @ map read_github_file items), c')
              else f get (page + 1) (files @ map read_github_file items) c'
          | _ \<Rightarrow> invalid_response ''GitHub pull files response was not a list.'' c')) = Some y"
    show "(\<forall>p. act_respects (world_change R) (get p)) \<longrightarrow> world_change R c (snd y)"
    proof
      assume get: "\<forall>p. act_respects (world_change R) (get p)"
      from step obtain r c' where r: "get page c = Some (r, c')" by (auto split: option.splits)
      with get have first: "world_change R c c'" by (auto simp: act_respects_def)
      from step r IH get have "snd y = c' \<or> world_change R c' (snd y)"
        by (auto simp: invalid_response_def act_raise_def split: sum.splits json.splits if_splits)
      with first show "world_change R c (snd y)" by (auto intro: state_relation.R_trans [OF rel])
    qed
  qed
  with assms(2) show ?thesis by (fastforce simp: act_respects_def)
qed

lemma fetch_pull_request_files_quiet:
  assumes "quiet_api api R"
  shows "act_respects (world_change R) (fetch_pull_request_files api inst name number)"
  unfolding fetch_pull_request_files_def
  by (intro state_relation.bind [OF world_change_relation [OF assms]] installation_token_quiet [OF assms] gh_split_quiet [OF assms]
      pull_files_pages_quiet [OF assms] quiet_request_respects [OF assms]) (simp add: quiet_request_def)

lemma content_outcome_quiet:
  assumes "quiet_api api R"
  shows "act_respects (world_change R) (content_outcome (fetch_file_content decode api inst name path ref))"
proof -
  note rel = world_change_relation [OF assms]
  have "act_respects (world_change R) (fetch_file_content decode api inst name path ref)"
    unfolding fetch_file_content_def
    by (intro state_relation.bind [OF rel] installation_token_quiet [OF assms] gh_split_quiet [OF assms]
        quiet_request_respects [OF assms] state_relation.of_sum [OF rel]) (simp add: quiet_request_def)
  then show ?thesis
    unfolding content_outcome_def
    by (intro state_relation.catch [OF rel] state_relation.bind [OF rel])
      (auto split: pipeline_error.split prod.split intro: state_relation.return [OF rel] state_relation.raise [OF rel])
qed

lemma prepare_review_files_quiet:
  assumes "state_relation R" and "\<And>path. act_respects R (fetch path)"
  shows "act_respects R (prepare_review_files fetch m files)"
proof (induction files)
  case (Cons f fs)
  have "act_respects R (prepare_review_file fetch m f)"
    unfolding prepare_review_file_def
    by (intro state_relation.bind [OF assms(1)] state_relation.cond [OF assms(1)] state_relation.return [OF assms(1)]
        state_relation.of_sum [OF assms(1)] assms(2))
  with Cons show ?case
    by (auto split: prod.split intro!: state_relation.bind [OF assms(1)] state_relation.return [OF assms(1)])
qed (simp add: state_relation.return [OF assms(1)])

lemma prepare_review_quiet:
  assumes "quiet_api (rsv_api svc) R"
  shows "act_respects (world_change R) (prepare_review svc review files)"
  unfolding prepare_review_def Let_def
  by (auto split: prod.split intro!: state_relation.bind [OF world_change_relation [OF assms]]
      state_relation.return [OF world_change_relation [OF assms]]
      prepare_review_files_quiet [OF world_change_relation [OF assms]] content_outcome_quiet [OF assms])

section \<open>The stages of a review\<close>

definition run_comments :: "string \<Rightarrow> review_db \<Rightarrow> comment_row list" where
  "run_comments i db = filter (\<lambda>c. cmr_review_run_id c = i) (rdb_comments db)"

definition quiet_change :: "('w \<Rightarrow> 'w \<Rightarrow> bool) \<Rightarrow> string \<Rightarrow> 'w review_state \<Rightarrow> 'w review_state \<Rightarrow> bool" where
  \<comment> \<open>GitHub is as before up to the relation, and no comment of the run has been recorded\<close>
  "quiet_change R i s s' \<longleftrightarrow> world_change R (rvs_client s) (rvs_client s') \<and> run_comments i (rvs_db s') = run_comments i (rvs_db s)"

lemma quiet_change_relation: "quiet_api api R \<Longrightarrow> state_relation (quiet_change R i)"
  by unfold_locales (auto simp: quiet_api_def quiet_change_def world_change_def)

lemma review_github_quiet: "act_respects (world_change R) m \<Longrightarrow> act_respects (quiet_change R i) (review_github m)"
  by (auto simp: act_respects_def review_github_def act_zoom_def act_map_error_def quiet_change_def)

interpretation same_comments: state_relation "\<lambda>db db'. rdb_comments db' = rdb_comments db"
  by unfold_locales auto

lemma sql_put_comments:
  "(\<And>db. rdb_comments (f db) = rdb_comments db) \<Longrightarrow> act_respects (\<lambda>db db'. rdb_comments db' = rdb_comments db) (sql_put ok table f)"
  by (auto simp: act_respects_def sql_put_def)

lemma transaction_comments:
  "act_respects (\<lambda>db db'. rdb_comments db' = rdb_comments db) m \<Longrightarrow>
   act_respects (\<lambda>db db'. rdb_comments db' = rdb_comments db) (transaction m)"
  by (auto simp: act_respects_def transaction_def split: option.splits sum.splits)

lemma read_statements_keep_comments:
  "act_respects (\<lambda>db db'. rdb_comments db' = rdb_comments db) (load_context i)"
  "act_respects (\<lambda>db db'. rdb_comments db' = rdb_comments db) (verify_publishable now i)"
  by (auto simp: act_respects_def load_context_def verify_publishable_def Let_def split: option.splits if_splits)

lemma save_statements_keep_comments:
  "act_respects (\<lambda>db db'. rdb_comments db' = rdb_comments db) (save_changed_files uuids i files)"
  "act_respects (\<lambda>db db'. rdb_comments db' = rdb_comments db) (save_artifact uuid i t key artifact)"
  "act_respects (\<lambda>db db'. rdb_comments db' = rdb_comments db) (save_semgrep_findings hash uuids i findings)"
  unfolding save_changed_files_def save_artifact_def save_semgrep_findings_def save_semgrep_finding_def
  by (auto split: prod.split json.split intro!: transaction_comments same_comments.each same_comments.raise sql_put_comments)

lemma review_statement_quiet:
  assumes "quiet_api api R" and "\<And>n. act_respects (\<lambda>db db'. rdb_comments db' = rdb_comments db) (f n)"
    and "\<forall>n db. run_comments i (rsv_meanwhile svc n db) = run_comments i db"
  shows "act_respects (quiet_change R i) (review_statement svc f)"
proof -
  have "R w w" for w using assms(1) by (simp add: quiet_api_def)
  moreover have "run_comments i db' = run_comments i db" if "f n (rsv_meanwhile svc n db) = Some (r, db')" for n r db db'
    using act_respectsD [OF assms(2) that] assms(3) by (simp add: run_comments_def)
  ultimately show ?thesis
    by (auto simp: act_respects_def review_statement_def quiet_change_def world_change_def)
qed

lemma publish_progress_quiet:
  assumes "quiet_api (rsv_api svc) R"
  shows "act_respects (quiet_change R i) (publish_progress svc review status failure)"
  unfolding publish_progress_def
  by (intro state_relation.catch [OF quiet_change_relation [OF assms]] state_relation.bind [OF quiet_change_relation [OF assms]]
      state_relation.return [OF quiet_change_relation [OF assms]] review_github_quiet scanning_comment_quiet [OF assms] progress_comment_marked)

lemma analysis_quiet:
  assumes "quiet_api (rsv_api svc) R" and "\<forall>n db. run_comments i (rsv_meanwhile svc n db) = run_comments i db"
  shows "act_respects (quiet_change R i) (analyse_pull_request svc i review)"
proof -
  note rel = quiet_change_relation [OF assms(1), of i]
  show ?thesis
    unfolding analyse_pull_request_def
    by (auto split: prod.split intro!: state_relation.bind [OF rel] state_relation.return [OF rel] state_relation.of_sum [OF rel]
        publish_progress_quiet [OF assms(1)] review_github_quiet fetch_pull_request_files_quiet [OF assms(1)]
        prepare_review_quiet [OF assms(1)] review_statement_quiet [OF assms(1) _ assms(2)] save_statements_keep_comments)
qed

end
