(* ===== verification/ReviewStoreProperties.thy ===== *)
theory ReviewStoreProperties
  imports ReviewStore
begin

text \<open>
  Properties of \<open>PostgresReviewPipelineStore\<close>: its upserts are upserts by a key, and what recording the published comments
  leaves in the table.
\<close>

section \<open>The upserts of the store\<close>

interpretation changed_file_rows: keyed_upsert changed_file_key updated_changed_file
  by unfold_locales (simp add: changed_file_key_def updated_changed_file_def)

interpretation artifact_rows: keyed_upsert artifact_key "\<lambda>new old. old\<lparr>arr_metadata_json := arr_metadata_json new\<rparr>"
  by unfold_locales (simp add: artifact_key_def)

interpretation finding_rows: keyed_upsert finding_key updated_finding
  by unfold_locales (simp add: finding_key_def updated_finding_def)

interpretation published_rows: keyed_upsert comment_github_key republished_comment
  by unfold_locales (simp add: comment_github_key_def republished_comment_def)

interpretation published_summaries: keyed_upsert comment_github_key republished_summary
  by unfold_locales (simp add: comment_github_key_def republished_summary_def)

interpretation dry_run_rows: keyed_upsert "\<lambda>c. Some (comment_content_key c)" same_content_comment
  by unfold_locales (simp add: comment_content_key_def same_content_comment_def)

interpretation dry_run_summaries: keyed_upsert "\<lambda>c. Some (comment_content_key c)" same_content_summary
  by unfold_locales (simp add: comment_content_key_def same_content_summary_def)

section \<open>Recording inline comments\<close>

definition recorded_as :: "(string \<Rightarrow> string) \<Rightarrow> string \<Rightarrow> PublishedInlineComment \<Rightarrow> comment_row \<Rightarrow> bool" where
  \<comment> \<open>the row holds what was published, for this run\<close>
  "recorded_as sha256 review_run_id c r \<longleftrightarrow>
     inline_row_of sha256 (cmr_id r) review_run_id c = r\<lparr>cmr_finding_id := None\<rparr>"

definition on_github :: "PublishedInlineComment list \<Rightarrow> bool" where
  \<comment> \<open>every comment has the id GitHub gave it, and ids are not shared\<close>
  "on_github comments \<longleftrightarrow> list_all (\<lambda>c. pc_github_comment_id c \<noteq> None) comments \<and> distinct (map pc_github_comment_id comments)"

definition record_row :: "(string \<Rightarrow> string) \<Rightarrow> (nat \<Rightarrow> string) \<Rightarrow> string \<Rightarrow> nat \<times> PublishedInlineComment \<Rightarrow> comment_row list \<Rightarrow> comment_row list" where
  "record_row sha256 uuids review_run_id = (\<lambda>(n, c). upsert_on comment_github_key republished_comment
     (inline_row_of sha256 (uuids n) review_run_id c))"

lemma record_comment_on_github:
  "pc_github_comment_id c \<noteq> None \<Longrightarrow> record_inline_comment sha256 uuid review_run_id c =
     put_comments (upsert_on comment_github_key republished_comment (inline_row_of sha256 uuid review_run_id c))"
  by (simp add: record_inline_comment_def Let_def)

lemma put_comments_eq_Inr: "put_comments f db = Some (Inr u, db') \<longleftrightarrow>
    published_comments_ok (run_ids db) (f (rdb_comments db)) \<and> db' = db\<lparr>rdb_comments := f (rdb_comments db)\<rparr>"
  by (auto simp: put_comments_def sql_put_def run_ids_def)

lemma record_each_rows:
  "act_each (\<lambda>(n, c). record_inline_comment sha256 (uuids n) i c) xs db = Some (Inr u, db') \<Longrightarrow>
     list_all (\<lambda>(n, c). pc_github_comment_id c \<noteq> None) xs \<Longrightarrow>
     db' = db\<lparr>rdb_comments := foldl (\<lambda>rows x. record_row sha256 uuids i x rows) (rdb_comments db) xs\<rparr> \<and>
     (xs \<noteq> [] \<longrightarrow> published_comments_ok (run_ids db) (rdb_comments db'))"
proof (induction xs arbitrary: db)
  case (Cons x xs)
  obtain n c where x: "x = (n, c)" by fastforce
  let ?db = "db\<lparr>rdb_comments := record_row sha256 uuids i x (rdb_comments db)\<rparr>"
  from Cons.prems have step: "act_each (\<lambda>(n, c). record_inline_comment sha256 (uuids n) i c) xs ?db = Some (Inr u, db')"
      "published_comments_ok (run_ids db) (rdb_comments ?db)" "list_all (\<lambda>(n, c). pc_github_comment_id c \<noteq> None) xs"
    by (auto simp: x act_bind_eq_Inr record_comment_on_github put_comments_eq_Inr record_row_def)
  have rest: "db' = ?db\<lparr>rdb_comments := foldl (\<lambda>rows x. record_row sha256 uuids i x rows) (rdb_comments ?db) xs\<rparr> \<and>
     (xs \<noteq> [] \<longrightarrow> published_comments_ok (run_ids ?db) (rdb_comments db'))"
    by (rule Cons.IH [OF step(1,3)])
  show ?case
  proof (cases "xs = []")
    case True
    with rest step(2) show ?thesis by simp
  next
    case False
    with rest show ?thesis by (auto simp: run_ids_def)
  qed
qed (simp add: act_return_eq_Some)

lemma recorded_row_key: "recorded_as sha256 i c r \<Longrightarrow> comment_github_key r = pc_github_comment_id c"
  by (drule arg_cong [of _ _ cmr_github_comment_id, OF recorded_as_def [THEN iffD1]]) (simp add: inline_row_of_def comment_github_key_def)

lemma inline_row_key [simp]: "comment_github_key (inline_row_of sha256 uuid i c) = pc_github_comment_id c"
  by (simp add: inline_row_of_def comment_github_key_def)

lemma republished_recorded: "recorded_as sha256 i c (republished_comment (inline_row_of sha256 uuid i c) old)"
  by (simp add: recorded_as_def republished_comment_def inline_row_of_def)

lemma new_row_recorded: "recorded_as sha256 i c (inline_row_of sha256 uuid i c)"
  by (simp add: recorded_as_def inline_row_of_def)

lemma recorded_again: "recorded_as sha256 i c old \<Longrightarrow> republished_comment (inline_row_of sha256 uuid i c) old = old"
  by (cases old) (simp add: recorded_as_def republished_comment_def inline_row_of_def)

lemma record_row_records:
  assumes "pc_github_comment_id c = Some k"
  shows "\<exists>r \<in> set (record_row sha256 uuids i (n, c) rows). comment_github_key r = Some k"
    and "r \<in> set (record_row sha256 uuids i (n, c) rows) \<Longrightarrow> comment_github_key r = Some k \<Longrightarrow> recorded_as sha256 i c r"
    and "filter (\<lambda>r. comment_github_key r \<noteq> Some k) (record_row sha256 uuids i (n, c) rows) = filter (\<lambda>r. comment_github_key r \<noteq> Some k) rows"
  using assms published_rows.new_key_present [of "inline_row_of sha256 (uuids n) i c" k rows]
    published_rows.other_keys [of "inline_row_of sha256 (uuids n) i c" k rows] new_row_recorded republished_recorded
  by (auto simp: record_row_def upsert_on_def update_where_def list_ex_iff split: if_splits)

lemma kept_by_key:
  assumes "filter (\<lambda>r. key r \<noteq> Some k) rows' = filter (\<lambda>r. key r \<noteq> Some k) rows" and "key r \<noteq> Some k"
  shows "r \<in> set rows' \<longleftrightarrow> r \<in> set rows"
  using arg_cong [OF assms(1), of set] assms(2) by auto

lemma record_rows_record:
  assumes "distinct (map (pc_github_comment_id \<circ> snd) xs)" and "list_all (\<lambda>(n, c). pc_github_comment_id c \<noteq> None) xs"
    and "(n, c) \<in> set xs"
  shows "(\<exists>r \<in> set (foldl (\<lambda>rows x. record_row sha256 uuids i x rows) rows xs). comment_github_key r = pc_github_comment_id c) \<and>
     (\<forall>r \<in> set (foldl (\<lambda>rows x. record_row sha256 uuids i x rows) rows xs). comment_github_key r = pc_github_comment_id c \<longrightarrow>
       recorded_as sha256 i c r)"
  using assms
proof (induction xs arbitrary: rows rule: rev_induct)
  case (snoc x xs)
  obtain m d where x: "x = (m, d)" by fastforce
  let ?rows = "foldl (\<lambda>rows x. record_row sha256 uuids i x rows) rows xs"
  from snoc.prems obtain k where k: "pc_github_comment_id d = Some k" by (auto simp: x)
  have last_row: "foldl (\<lambda>rows x. record_row sha256 uuids i x rows) rows (xs @ [x]) = record_row sha256 uuids i (m, d) ?rows"
    by (simp add: x)
  show ?case
  proof (cases "(n, c) = x")
    case True
    with k x show ?thesis unfolding last_row using record_row_records(1,2) [OF k] by auto
  next
    case False
    with snoc.prems x k have c: "(n, c) \<in> set xs" "pc_github_comment_id c \<noteq> Some k" by force+
    from snoc.prems c(1) have "(\<exists>r \<in> set ?rows. comment_github_key r = pc_github_comment_id c) \<and>
        (\<forall>r \<in> set ?rows. comment_github_key r = pc_github_comment_id c \<longrightarrow> recorded_as sha256 i c r)"
      by (intro snoc.IH) auto
    with kept_by_key [OF record_row_records(3) [OF k, of sha256 uuids i m ?rows]] c(2) show ?thesis unfolding last_row by metis
  qed
qed simp

lemma record_rows_keep_others:
  "list_all (\<lambda>(n, c). pc_github_comment_id c \<in> Some ` K) xs \<Longrightarrow>
     filter (\<lambda>r. comment_github_key r \<notin> Some ` K) (foldl (\<lambda>rows x. record_row sha256 uuids i x rows) rows xs) =
     filter (\<lambda>r. comment_github_key r \<notin> Some ` K) rows"
proof (induction xs arbitrary: rows)
  case (Cons x xs)
  obtain n c where x: "x = (n, c)" by fastforce
  with Cons.prems obtain k where k: "pc_github_comment_id c = Some k" "k \<in> K" by auto
  have narrow: "filter (\<lambda>r. comment_github_key r \<notin> Some ` K) rs =
      filter (\<lambda>r. comment_github_key r \<notin> Some ` K) (filter (\<lambda>r. comment_github_key r \<noteq> Some k) rs)" for rs
    using k(2) by (auto intro!: filter_cong)
  have "filter (\<lambda>r. comment_github_key r \<notin> Some ` K) (record_row sha256 uuids i x rows) = filter (\<lambda>r. comment_github_key r \<notin> Some ` K) rows"
    unfolding x narrow [of "record_row sha256 uuids i (n, c) rows"] narrow [of rows] record_row_records(3) [OF k(1)] ..
  with Cons show ?case by simp
qed simp

lemma record_rows_again:
  "list_all (\<lambda>(n, c). pc_github_comment_id c \<noteq> None \<and> (\<exists>r \<in> set rows. comment_github_key r = pc_github_comment_id c) \<and>
     (\<forall>r \<in> set rows. comment_github_key r = pc_github_comment_id c \<longrightarrow> recorded_as sha256 i c r)) xs \<Longrightarrow>
   foldl (\<lambda>rows x. record_row sha256 uuids i x rows) rows xs = rows"
proof (induction xs)
  case (Cons x xs)
  obtain n c where x: "x = (n, c)" by fastforce
  with Cons.prems obtain k where k: "pc_github_comment_id c = Some k" by auto
  have "record_row sha256 uuids i x rows = rows"
    using Cons.prems k recorded_again unfolding x record_row_def prod.case
    by (intro published_rows.upsert_same [of _ k]) auto
  with Cons show ?case by simp
qed simp

lemma record_each_again:
  fixes uuids :: "nat \<Rightarrow> string"
  assumes "published_comments_ok (run_ids db) (rdb_comments db)"
  shows "list_all (\<lambda>(n, c). pc_github_comment_id c \<noteq> None \<and> (\<exists>r \<in> set (rdb_comments db). comment_github_key r = pc_github_comment_id c) \<and>
     (\<forall>r \<in> set (rdb_comments db). comment_github_key r = pc_github_comment_id c \<longrightarrow> recorded_as sha256 i c r)) xs \<Longrightarrow>
   act_each (\<lambda>(n, c). record_inline_comment sha256 (uuids n) i c) xs db = Some (Inr (), db)"
proof (induction xs)
  case (Cons x xs)
  obtain n c where x: "x = (n, c)" by fastforce
  with Cons.prems have c: "pc_github_comment_id c \<noteq> None" by simp
  from Cons.prems have "record_row sha256 uuids i x (rdb_comments db) = rdb_comments db"
    using record_rows_again [of "rdb_comments db" sha256 i "[x]"] by simp
  then have "record_inline_comment sha256 (uuids n) i c db = Some (Inr (), db)"
    using assms unfolding record_comment_on_github [OF c] x by (simp add: put_comments_eq_Inr record_row_def)
  with Cons x show ?case by (simp add: act_bind_def)
qed (simp add: act_return_def)

lemma distinct_key_filter:
  "distinct (List.map_filter g rows) \<Longrightarrow> r \<in> set rows \<Longrightarrow> g r = Some k \<Longrightarrow> filter (\<lambda>r. g r = Some k) rows = [r]"
proof (induction rows)
  case (Cons x rows)
  have found: "k' \<in> set (List.map_filter g rows)" if "y \<in> set rows" "g y = Some k'" for y k'
    using that by (force simp: List.map_filter_def)
  show ?case
  proof (cases "g x = Some k")
    case True
    with Cons.prems(1) have fresh: "k \<notin> set (List.map_filter g rows)" by (simp add: List.map_filter_def)
    with found have "g y \<noteq> Some k" if "y \<in> set rows" for y using that by blast
    then have "filter (\<lambda>r. g r = Some k) rows = []" by (simp add: filter_empty_conv)
    moreover from fresh found Cons.prems(2,3) have "r = x" by auto
    ultimately show ?thesis using True by simp
  next
    case False
    with Cons.prems(2,3) have "r \<in> set rows" by auto
    moreover from Cons.prems(1) have "distinct (List.map_filter g rows)" by (simp add: List.map_filter_def split: if_splits)
    ultimately show ?thesis using Cons.IH Cons.prems(3) False by simp
  qed
qed simp

lemma on_github_enumerated:
  assumes "on_github comments"
  shows "distinct (map (pc_github_comment_id \<circ> snd) (enumerate 0 comments))"
    and "list_all (\<lambda>(n, c). pc_github_comment_id c \<noteq> None) (enumerate 0 comments)"
    and "c \<in> set comments \<Longrightarrow> \<exists>n. (n, c) \<in> set (enumerate 0 comments)"
proof -
  have comments: "map snd (enumerate 0 comments) = comments" by simp
  show "distinct (map (pc_github_comment_id \<circ> snd) (enumerate 0 comments))"
    using assms unfolding map_map [symmetric] comments by (simp add: on_github_def)
  have members: "snd x \<in> set comments" if "x \<in> set (enumerate 0 comments)" for x
    using imageI [OF that, of snd] unfolding set_map [symmetric] comments .
  with assms show "list_all (\<lambda>(n, c). pc_github_comment_id c \<noteq> None) (enumerate 0 comments)"
    by (fastforce simp: on_github_def list_all_iff)
  show "\<exists>n. (n, c) \<in> set (enumerate 0 comments)" if "c \<in> set comments"
  proof -
    from that obtain n where "n < length comments" "comments ! n = c" by (auto simp: in_set_conv_nth)
    then show ?thesis by (intro exI [of _ n]) (simp add: in_set_enumerate_eq)
  qed
qed

lemma recorded_comments:
  assumes "on_github comments" and "record_inline_comments sha256 uuids i comments db = Some (Inr (), db')" and "comments \<noteq> []"
  shows "published_comments_ok (run_ids db) (rdb_comments db')"
    and "db' = db\<lparr>rdb_comments := rdb_comments db'\<rparr>"
    and "rdb_comments db' = foldl (\<lambda>rows x. record_row sha256 uuids i x rows) (rdb_comments db) (enumerate 0 comments)"
proof -
  have "enumerate 0 comments \<noteq> []" using assms(3) by (cases comments) auto
  with record_each_rows [of sha256 uuids i "enumerate 0 comments" db "()" db'] on_github_enumerated(2) [OF assms(1)] assms(2)
  show "published_comments_ok (run_ids db) (rdb_comments db')" and "db' = db\<lparr>rdb_comments := rdb_comments db'\<rparr>"
    and "rdb_comments db' = foldl (\<lambda>rows x. record_row sha256 uuids i x rows) (rdb_comments db) (enumerate 0 comments)"
    by (auto simp: record_inline_comments_def transaction_eq_Inr)
qed

lemma record_each_returns: "\<exists>r db'. act_each (\<lambda>(n, c). record_inline_comment sha256 (uuids n) i c) xs db = Some (r, db')"
proof (induction xs arbitrary: db)
  case (Cons x xs)
  have put: "\<exists>r db1. put_comments f db = Some (r, db1)" for f by (simp add: put_comments_def sql_put_def)
  obtain n c where x: "x = (n, c)" by fastforce
  obtain r db1 where "record_inline_comment sha256 (uuids n) i c db = Some (r, db1)"
    using put by (cases "pc_github_comment_id c = None") (fastforce simp: record_inline_comment_def Let_def)+
  then have "(case x of (n, c) \<Rightarrow> record_inline_comment sha256 (uuids n) i c) db = Some (r, db1)" by (simp add: x)
  with Cons show ?case by (cases r) (auto simp: act_bind_def)
qed (simp add: act_return_def)

text \<open>C23: When the published comments are recorded, each has exactly one row, which holds its run, place, text and ids; rows of other
  comments and all other tables are unchanged; and recording them again, as a retried job does, changes nothing.\<close>

theorem published_comments_are_recorded_once:
  assumes "on_github comments" and "record_inline_comments sha256 uuids i comments db = Some (Inr (), db')"
  shows "(\<forall>c \<in> set comments. \<exists>r. filter (\<lambda>r. cmr_github_comment_id r = pc_github_comment_id c) (rdb_comments db') = [r] \<and> recorded_as sha256 i c r) \<and>
     filter (\<lambda>r. cmr_github_comment_id r \<notin> pc_github_comment_id ` set comments) (rdb_comments db') =
       filter (\<lambda>r. cmr_github_comment_id r \<notin> pc_github_comment_id ` set comments) (rdb_comments db) \<and>
     db' = db\<lparr>rdb_comments := rdb_comments db'\<rparr> \<and>
     record_inline_comments sha256 uuids' i comments db' = Some (Inr (), db')"
proof (cases "comments = []")
  case True
  with assms(2) show ?thesis by (simp add: record_inline_comments_def transaction_def act_return_def)
next
  case False
  note recorded = recorded_comments [OF assms False] and listed = on_github_enumerated [OF assms(1)]
  have rows: "(\<exists>r \<in> set (rdb_comments db'). comment_github_key r = pc_github_comment_id c) \<and>
      (\<forall>r \<in> set (rdb_comments db'). comment_github_key r = pc_github_comment_id c \<longrightarrow> recorded_as sha256 i c r)"
    if "(n, c) \<in> set (enumerate 0 comments)" for n c
    unfolding recorded(3) by (rule record_rows_record [OF listed(1,2) that])
  have "distinct (List.map_filter cmr_github_comment_id (rdb_comments db'))" using recorded(1) by (simp add: published_comments_ok_def)
  from distinct_key_filter [OF this] rows listed(2,3)
  have "\<exists>r. filter (\<lambda>r. cmr_github_comment_id r = pc_github_comment_id c) (rdb_comments db') = [r] \<and> recorded_as sha256 i c r"
    if "c \<in> set comments" for c using that unfolding comment_github_key_def list_all_iff by fastforce
  moreover have "pc_github_comment_id ` set comments = Some ` (the ` pc_github_comment_id ` set comments)"
    using assms(1) by (force simp: on_github_def list_all_iff)
  with record_rows_keep_others [of "the ` pc_github_comment_id ` set comments" "enumerate 0 comments" sha256 uuids i "rdb_comments db"]
  have "filter (\<lambda>r. cmr_github_comment_id r \<notin> pc_github_comment_id ` set comments) (rdb_comments db') =
       filter (\<lambda>r. cmr_github_comment_id r \<notin> pc_github_comment_id ` set comments) (rdb_comments db)"
    unfolding recorded(3) comment_github_key_def by (force simp: list_all_iff enumerate_eq_zip dest: set_zip_rightD)
  moreover have "run_ids db' = run_ids db" by (subst recorded(2)) (simp add: run_ids_def)
  with record_each_again [of db' sha256 i "enumerate 0 comments" uuids'] rows listed(2) recorded(1)
  have "record_inline_comments sha256 uuids' i comments db' = Some (Inr (), db')"
    by (fastforce simp: record_inline_comments_def transaction_def list_all_iff)
  ultimately show ?thesis using recorded(2) by blast
qed

text \<open>Comments with different GitHub ids but the same finding, place and text cannot be recorded: the second violates the
  constraint on run, type and digest, which is not the one the statement updates on. The statement raises and the transaction
  is rolled back, although GitHub has both comments. Two matches of one Semgrep rule on one line have one finding id when Semgrep
  reports no distinct fingerprint, and the same text.\<close>

theorem repeated_comments_are_not_recorded:
  assumes "on_github comments" and "c \<in> set comments" and "d \<in> set comments" and "c \<noteq> d"
    and "inline_comment_text c = inline_comment_text d"
  shows "\<exists>e. record_inline_comments sha256 uuids i comments db = Some (Inl e, db)"
proof -
  have no_return: "record_inline_comments sha256 uuids i comments db \<noteq> Some (Inr (), db')" for db'
  proof
    assume run: "record_inline_comments sha256 uuids i comments db = Some (Inr (), db')"
    from assms(2) have "comments \<noteq> []" by auto
    note recorded = recorded_comments [OF assms(1) run this] and listed = on_github_enumerated [OF assms(1)]
    have row: "\<exists>r \<in> set (rdb_comments db'). comment_github_key r = pc_github_comment_id x \<and> recorded_as sha256 i x r" if "x \<in> set comments" for x
    proof -
      from listed(3) [OF that] obtain n where "(n, x) \<in> set (enumerate 0 comments)" by blast
      from record_rows_record [OF listed(1,2) this] show ?thesis unfolding recorded(3) by blast
    qed
    from row [OF assms(2)] row [OF assms(3)] obtain r s where r: "r \<in> set (rdb_comments db')" "comment_github_key r = pc_github_comment_id c"
        "recorded_as sha256 i c r" and s: "s \<in> set (rdb_comments db')" "comment_github_key s = pc_github_comment_id d" "recorded_as sha256 i d s" by blast
    from assms(1-4) have "pc_github_comment_id c \<noteq> pc_github_comment_id d"
      unfolding on_github_def distinct_map by (metis inj_onD)
    with r(2) s(2) have "r \<noteq> s" by auto
    moreover have "comment_content_key r = (i, ''inline'', body_hash sha256 i (inline_comment_text c))"
      using arg_cong [OF r(3) [unfolded recorded_as_def], of comment_content_key] by (auto simp: comment_content_key_def inline_row_of_def)
    moreover have "comment_content_key s = (i, ''inline'', body_hash sha256 i (inline_comment_text d))"
      using arg_cong [OF s(3) [unfolded recorded_as_def], of comment_content_key] by (auto simp: comment_content_key_def inline_row_of_def)
    moreover have "inj_on comment_content_key (set (rdb_comments db'))"
      using recorded(1) by (simp add: published_comments_ok_def distinct_map)
    ultimately show False using r(1) s(1) assms(5) by (metis inj_onD)
  qed
  obtain r db1 where run: "act_each (\<lambda>(n, c). record_inline_comment sha256 (uuids n) i c) (enumerate 0 comments) db = Some (r, db1)"
    using record_each_returns by metis
  show ?thesis
  proof (cases r)
    case (Inl e)
    with run show ?thesis by (simp add: record_inline_comments_def transaction_def)
  next
    case (Inr u)
    with run have "record_inline_comments sha256 uuids i comments db = Some (Inr (), db1)" by (simp add: record_inline_comments_def transaction_def)
    with no_return show ?thesis by blast
  qed
qed

section \<open>Instances\<close>

definition sample_review_run_row :: review_run_row where
  "sample_review_run_row = \<lparr> rr_status = Running, rr_started_at = Some 1, rr_finished_at = None, rr_error_code = None,
     rr_error_message = None, rr_updated_at = 1, rn_id = ''r'', rn_repository_id = ''p'', rn_pull_request_id = ''q'', rn_head_sha = ''h'' \<rparr>"

definition sample_review_db :: review_db where
  "sample_review_db = \<lparr> rdb_scan = \<lparr> db_installations = [], db_repositories = [], db_scan_runs = [], db_findings = [] \<rparr>,
     rdb_pull_requests = [], rdb_runs = [sample_review_run_row], rdb_changed_files = [], rdb_artifacts = [], rdb_findings = [],
     rdb_comments = [] \<rparr>"

definition sample_published_comment :: PublishedInlineComment where
  "sample_published_comment = \<lparr> pc_finding_id = ''f'', pc_github_review_id = Some 5, pc_github_comment_id = Some 7, pc_file_path = ''a.py'',
     pc_line = 3, pc_body = ''b'', pc_dry_run = False \<rparr>"

theorem published_comments_are_recorded_once_witness:
  "\<exists>db' r. record_inline_comments (\<lambda>t. t) str_of_nat ''r'' [sample_published_comment] sample_review_db = Some (Inr (), db') \<and>
     filter (\<lambda>r. cmr_github_comment_id r = Some 7) (rdb_comments db') = [r] \<and>
     record_inline_comments (\<lambda>t. t) (\<lambda>n. ''x'') ''r'' [sample_published_comment] db' = Some (Inr (), db')"
proof -
  let ?run = "record_inline_comments (\<lambda>t. t) str_of_nat ''r'' [sample_published_comment] sample_review_db"
  have "case ?run of Some (Inr _, _) \<Rightarrow> True | _ \<Rightarrow> False" by code_simp
  then obtain db' where run: "?run = Some (Inr (), db')" by (auto split: option.splits sum.splits)
  have "on_github [sample_published_comment]" by code_simp
  from published_comments_are_recorded_once [OF this run, of "\<lambda>n. ''x''"] run show ?thesis
    by (auto simp: sample_published_comment_def)
qed

theorem repeated_comments_are_not_recorded_witness:
  "\<exists>e. record_inline_comments (\<lambda>t. t) str_of_nat ''r'' [sample_published_comment, sample_published_comment\<lparr>pc_github_comment_id := Some 8\<rparr>]
     sample_review_db = Some (Inl e, sample_review_db)"
  by (rule repeated_comments_are_not_recorded [of _ sample_published_comment "sample_published_comment\<lparr>pc_github_comment_id := Some 8\<rparr>"])
    (simp_all add: on_github_def sample_published_comment_def inline_comment_text_def)

end
