(* ===== verification/ReviewOutcome.thy ===== *)
theory ReviewOutcome
  imports ReviewQuiet ReviewStoreProperties
begin

text \<open>
  Properties of a whole review: what it sends to GitHub and records when another commit has been pushed in the meantime, and what
  becomes of it when the cached GitHub token has expired.
\<close>

section \<open>An outdated review\<close>

definition outdated :: "string \<Rightarrow> review_db \<Rightarrow> bool" where
  \<comment> \<open>the run is gone or superseded, or its pull request has another head\<close>
  "outdated i db \<longleftrightarrow> (case run_with_pull_request i db of
      None \<Rightarrow> True | Some (rr, pr) \<Rightarrow> rr_status rr = Superseded \<or> rn_head_sha rr \<noteq> prw_head_sha pr)"

lemma run_with_pull_request_superseded:
  "run_with_pull_request i (db\<lparr>rdb_runs := update_where (\<lambda>r. rn_id r = i) (superseded_run_row now sha) (rdb_runs db)\<rparr>) =
     map_option (map_prod (superseded_run_row now sha) id) (run_with_pull_request i db)"
proof -
  have run: "find (\<lambda>rr. rn_id rr = i) (update_where (\<lambda>r. rn_id r = i) (superseded_run_row now sha) rs) =
      map_option (superseded_run_row now sha) (find (\<lambda>rr. rn_id rr = i) rs)" for rs
    by (induction rs) (auto simp: update_where_def superseded_run_row_def)
  have "rn_pull_request_id (superseded_run_row now sha rr) = rn_pull_request_id rr" for rr by (simp add: superseded_run_row_def)
  then show ?thesis
    by (cases "find (\<lambda>rr. rn_id rr = i) (rdb_runs db)") (auto simp: run_with_pull_request_def run option.map_comp comp_def)
qed

lemma verify_outdated:
  assumes "outdated i db"
  obtains check db' where "verify_publishable now i db = Some (Inr check, db')" "\<not> rpk_publishable check"
    "case run_with_pull_request i db' of None \<Rightarrow> True | Some (rr, pr) \<Rightarrow> rr_status rr = Superseded"
proof (cases "run_with_pull_request i db")
  case None
  show ?thesis
    by (rule that [of "\<lparr>rpk_publishable = False, rpk_reason = Some ''review_run_not_found''\<rparr>" db])
      (simp_all add: None verify_publishable_def)
next
  case (Some p)
  then obtain rr pr where p: "run_with_pull_request i db = Some (rr, pr)" by (cases p) auto
  show ?thesis
  proof (cases "rr_status rr = Superseded")
    case True
    then have "verify_publishable now i db = Some (Inr \<lparr>rpk_publishable = False, rpk_reason = Some ''review_run_superseded''\<rparr>, db)"
      by (simp add: p verify_publishable_def)
    then show ?thesis by (rule that) (simp_all add: p True)
  next
    case False
    with assms p have "rn_head_sha rr \<noteq> prw_head_sha pr" by (simp add: outdated_def)
    with False have "verify_publishable now i db = Some (Inr \<lparr>rpk_publishable = False, rpk_reason = Some ''head_sha_changed''\<rparr>,
        db\<lparr>rdb_runs := update_where (\<lambda>r. rn_id r = i) (superseded_run_row now (prw_head_sha pr)) (rdb_runs db)\<rparr>)"
      by (simp add: p verify_publishable_def)
    then show ?thesis by (rule that) (simp_all add: p run_with_pull_request_superseded superseded_run_row_def)
  qed
qed

lemma review_github_tick: "review_github m s = Some (r, s') \<Longrightarrow> rvs_tick s' = rvs_tick s"
  by (auto simp: review_github_def act_zoom_def)

lemma review_statement_tick: "review_statement svc f s = Some (r, s') \<Longrightarrow> rvs_tick s' = Suc (rvs_tick s)"
  by (auto simp: review_statement_def)

lemma publish_progress_tick: "publish_progress svc review status failure s = Some (r, s') \<Longrightarrow> r = Inr () \<and> rvs_tick s' = rvs_tick s"
  by (auto simp: publish_progress_def act_catch_def act_bind_def act_return_def split: option.splits sum.splits dest!: review_github_tick)

lemma analysis_tick:
  assumes "analyse_pull_request svc i review s = Some (Inr x, s')"
  shows "rvs_tick s' = rvs_tick s + 5"
  using assms unfolding analyse_pull_request_def
  by (auto simp: act_eq_Some split: prod.splits dest!: review_github_tick review_statement_tick publish_progress_tick)

lemma outdated_body_quiet:
  assumes "review_body svc i review s = Some (r, s')" and "rvs_tick s = 1" and "quiet_api (rsv_api svc) R"
    and "\<forall>n db. run_comments i (rsv_meanwhile svc n db) = run_comments i db" and "\<forall>db. outdated i (rsv_meanwhile svc 6 db)"
  shows "quiet_change R i s s'"
    and "r = Inr () \<Longrightarrow> case run_with_pull_request i (rvs_db s') of None \<Rightarrow> True | Some (rr, pr) \<Rightarrow> rr_status rr = Superseded"
proof -
  from assms(1) obtain r1 s1 where analysis: "analyse_pull_request svc i review s = Some (r1, s1)"
    by (auto simp: review_body_def act_bind_def split: option.splits)
  have first: "quiet_change R i s s1" using act_respectsD [OF analysis_quiet [OF assms(3,4)] analysis] .
  have "quiet_change R i s s' \<and> (r = Inr () \<longrightarrow>
      (case run_with_pull_request i (rvs_db s') of None \<Rightarrow> True | Some (rr, pr) \<Rightarrow> rr_status rr = Superseded))"
  proof (cases r1)
    case (Inl e)
    with assms(1) analysis first show ?thesis by (auto simp: review_body_def act_bind_def)
  next
    case (Inr x)
    with analysis_tick assms(2) analysis have tick: "rvs_tick s1 = 6" by fastforce
    obtain check db' where check: "verify_publishable (rsv_clock svc 6) i (rsv_meanwhile svc 6 (rvs_db s1)) = Some (Inr check, db')"
      "\<not> rpk_publishable check" "case run_with_pull_request i db' of None \<Rightarrow> True | Some (rr, pr) \<Rightarrow> rr_status rr = Superseded"
    proof -
      from assms(5) have "outdated i (rsv_meanwhile svc 6 (rvs_db s1))" by blast
      then show ?thesis using that by (rule verify_outdated)
    qed
    then have verify: "review_statement svc (\<lambda>n. verify_publishable (rsv_clock svc n) i) s1 =
        Some (Inr check, s1\<lparr>rvs_db := db', rvs_tick := 7\<rparr>)" by (simp add: review_statement_def tick)
    from act_respectsD [OF review_statement_quiet [OF assms(3) read_statements_keep_comments(2) assms(4)] verify]
    have "quiet_change R i s (s1\<lparr>rvs_db := db', rvs_tick := 7\<rparr>)"
      using first by (rule state_relation.R_trans [OF quiet_change_relation [OF assms(3)], rotated])
    moreover have "review_body svc i review s = Some (Inr (), s1\<lparr>rvs_db := db', rvs_tick := 7\<rparr>)"
      using analysis verify check(2) Inr by (simp add: review_body_def act_bind_def act_return_def split: prod.split)
    ultimately show ?thesis using assms(1) check(3) by simp
  qed
  then show "quiet_change R i s s'"
    and "r = Inr () \<Longrightarrow> case run_with_pull_request i (rvs_db s') of None \<Rightarrow> True | Some (rr, pr) \<Rightarrow> rr_status rr = Superseded" by auto
qed

text \<open>C4: When another commit has been pushed to the pull request by the time of the check (the seventh transaction of the run), or
  the run is gone or superseded, the review publishes nothing, however it ends: every request it sends reads, has no content or
  writes the progress comment, so GitHub is as before up to what such requests change, and no comment of the run is recorded. When
  it returns, its run is superseded. Other clients may do anything else to the database between the transactions.\<close>

theorem outdated_review_publishes_nothing:
  assumes "review_pipeline_run svc payload s = Some (r, s')" and "rvs_tick s = 0" and "i = rj_review_run_id payload"
    and "quiet_api (rsv_api svc) R" and "\<forall>n db. run_comments i (rsv_meanwhile svc n db) = run_comments i db"
    and "\<forall>db. outdated i (rsv_meanwhile svc 6 db)"
  shows "R (gc_world (rvs_client s)) (gc_world (rvs_client s')) \<and> run_comments i (rvs_db s') = run_comments i (rvs_db s) \<and>
     (r = Inr () \<longrightarrow> (case run_with_pull_request i (rvs_db s') of None \<Rightarrow> True | Some (rr, pr) \<Rightarrow> rr_status rr = Superseded))"
proof -
  note rel = quiet_change_relation [OF assms(4), of i]
  from assms(1) obtain r1 s1 where load: "review_statement svc (\<lambda>n. load_context i) s = Some (r1, s1)"
    by (auto simp: review_pipeline_run_def act_bind_def assms(3) split: option.splits)
  then have first: "quiet_change R i s s1" "rvs_tick s1 = 1"
    using act_respectsD [OF review_statement_quiet [OF assms(4) read_statements_keep_comments(1) assms(5)]] review_statement_tick assms(2)
    by fastforce+
  have "quiet_change R i s s' \<and> (r = Inr () \<longrightarrow>
      (case run_with_pull_request i (rvs_db s') of None \<Rightarrow> True | Some (rr, pr) \<Rightarrow> rr_status rr = Superseded))"
  proof (cases r1)
    case (Inl e)
    with assms(1) load first show ?thesis by (auto simp: review_pipeline_run_def act_bind_def assms(3))
  next
    case (Inr review)
    let ?catch = "\<lambda>e. act_bind (publish_progress svc review ''failed'' (Some (we_text e))) (\<lambda>_. act_raise e)"
    from assms(1) load Inr have run: "act_catch (review_body svc i review) ?catch s1 = Some (r, s')"
      by (simp add: review_pipeline_run_def act_bind_def assms(3))
    then obtain r2 s2 where body: "review_body svc i review s1 = Some (r2, s2)" by (auto simp: act_catch_def split: option.splits)
    note quiet = outdated_body_quiet [OF body first(2) assms(4-6)]
    show ?thesis
    proof (cases r2)
      case (Inl e)
      with run body have last: "?catch e s2 = Some (r, s')" by (simp add: act_catch_def)
      have change: "act_respects (quiet_change R i) (?catch e)"
        by (intro state_relation.bind [OF rel] publish_progress_quiet [OF assms(4)] state_relation.raise [OF rel])
      from last have "r \<noteq> Inr ()" by (auto simp: act_bind_def act_raise_def split: option.splits sum.splits)
      moreover have "quiet_change R i s2 s'" using act_respectsD [OF change last] .
      ultimately show ?thesis using first(1) quiet(1) by (auto intro: state_relation.R_trans [OF rel])
    next
      case (Inr u)
      with run body quiet first(1) show ?thesis by (auto simp: act_catch_def intro: state_relation.R_trans [OF rel])
    qed
  qed
  then show ?thesis by (simp add: quiet_change_def world_change_def)
qed

section \<open>An expired token\<close>

definition keeps_token :: "int \<Rightarrow> string \<Rightarrow> 'w github_client \<Rightarrow> 'w github_client \<Rightarrow> bool" where
  "keeps_token i t c c' \<longleftrightarrow> (gc_tokens c i = Some t \<longrightarrow> gc_tokens c' i = Some t)"

interpretation keeps_token: state_relation "keeps_token i t"
  by unfold_locales (auto simp: keeps_token_def)

lemma request_keeps_token: "act_respects (keeps_token i t) (request_json api meth path bearer body)"
  by (auto simp: act_respects_def request_json_def keeps_token_def split: prod.splits)

lemma installation_token_keeps_token: "act_respects (keeps_token i t) (installation_token api j)"
  by (auto simp: act_respects_def installation_token_def act_bind_def act_raise_def request_json_def keeps_token_def
      split: option.splits sum.splits json.splits prod.splits)

lemma scanning_comment_keeps_token: "act_respects (keeps_token i t) (publish_scanning_comment api dry_run inst name number body)"
  unfolding publish_scanning_comment_def upsert_activity_comment_def gh_split_def created_id_def invalid_response_def
  by (auto intro!: keeps_token.bind keeps_token.return keeps_token.raise request_keeps_token installation_token_keeps_token
      split: json.split option.split sum.split)

lemma publish_progress_keeps_token:
  assumes "publish_progress svc review status failure s = Some (r, s')" and "gc_tokens (rvs_client s) i = Some t"
  shows "gc_tokens (rvs_client s') i = Some t"
  using assms
  by (auto simp: publish_progress_def act_catch_def act_bind_def act_return_def review_github_def act_zoom_def act_map_error_def keeps_token_def
      split: option.splits sum.splits dest!: act_respectsD [OF scanning_comment_keeps_token [of i t]])

lemma request_json_total: "act_total (request_json api meth path bearer body)"
  by (simp add: act_total_def request_json_def split: prod.split)

lemma installation_token_total: "act_total (installation_token api i)"
  by (auto simp: act_total_def installation_token_def act_bind_def act_raise_def request_json_def
      split: option.splits sum.splits json.splits prod.splits)

lemma publish_progress_returns:
  assumes "rvs_db s = db" and "gc_tokens (rvs_client s) i = Some t"
  obtains s' where "publish_progress svc review status failure s = Some (Inr (), s')" and "rvs_db s' = db"
    and "gc_tokens (rvs_client s') i = Some t"
proof -
  have "act_total (publish_progress svc review status failure)"
    unfolding publish_progress_def review_github_def publish_scanning_comment_def upsert_activity_comment_def gh_split_def
      created_id_def invalid_response_def
    by (auto intro!: total_intros installation_token_total request_json_total split: json.split option.split sum.split)
  then obtain r s' where run: "publish_progress svc review status failure s = Some (r, s')" by (rule act_totalE)
  moreover from run have "rvs_db s' = rvs_db s"
    by (auto simp: publish_progress_def act_catch_def act_bind_def act_return_def review_github_def act_zoom_def split: option.splits sum.splits)
  moreover have "r = Inr ()" using publish_progress_tick [OF run] by simp
  ultimately show ?thesis using publish_progress_keeps_token [OF run assms(2)] assms(1) by (intro that [of s']) simp_all
qed

lemma cached_token: "gc_tokens c i = Some t \<Longrightarrow> installation_token api i c = Some (Inr t, c)"
  by (simp add: installation_token_def)

lemma refused_listing:
  assumes "gc_tokens c i = Some t" and "\<And>path w. \<exists>e. fst (ga_request api ''GET'' path t None w) = Inl e"
  shows "\<exists>e w. fetch_pull_request_files api i name number c = Some (Inl e, c\<lparr>gc_world := w\<rparr>)"
proof (cases "split_repository_full_name name")
  case (Inl e)
  have "c = c\<lparr>gc_world := gc_world c\<rparr>" by simp
  then have "\<exists>w. c = c\<lparr>gc_world := w\<rparr>" by blast
  with Inl show ?thesis
    by (simp add: fetch_pull_request_files_def act_bind_def cached_token [OF assms(1)] gh_split_def act_raise_def)
next
  case (Inr r)
  obtain e w where "ga_request api ''GET'' (pull_files_path r number 1) t None (gc_world c) = (Inl e, w)"
    using assms(2) by (metis prod.collapse)
  with Inr have "fetch_pull_request_files api i name number c = Some (Inl e, c\<lparr>gc_world := w\<rparr>)"
    by (simp add: fetch_pull_request_files_def act_bind_def cached_token [OF assms(1)] gh_split_def act_return_def
        pull_files_pages.simps request_json_def)
  then show ?thesis by blast
qed

text \<open>C24: A client whose cached token GitHub refuses, as it does when an hour has passed, never asks for another: every review
  of that installation raises, whatever it was to review, and leaves the token in the cache and the tables as they were,
  so the next review of the installation finds the same.\<close>

theorem expired_token_fails_every_review:
  assumes "review_context_row (rj_review_run_id payload) (rsv_meanwhile svc (rvs_tick s) (rvs_db s)) = Some review"
    and "gc_tokens (rvs_client s) (rvc_installation_id review) = Some t"
    and "\<forall>meth path body w. \<exists>e. fst (ga_request (rsv_api svc) meth path t body w) = Inl e"
  shows "\<exists>e s'. review_pipeline_run svc payload s = Some (Inl e, s') \<and>
     gc_tokens (rvs_client s') (rvc_installation_id review) = Some t \<and> rvs_db s' = rsv_meanwhile svc (rvs_tick s) (rvs_db s)"
proof -
  let ?db = "rsv_meanwhile svc (rvs_tick s) (rvs_db s)" and ?i = "rvc_installation_id review"
  let ?s1 = "s\<lparr>rvs_db := ?db, rvs_tick := Suc (rvs_tick s)\<rparr>"
  have load: "review_statement svc (\<lambda>n. load_context (rj_review_run_id payload)) s = Some (Inr review, ?s1)"
    by (simp add: review_statement_def load_context_def assms(1))
  have "rvs_db ?s1 = ?db" and "gc_tokens (rvs_client ?s1) ?i = Some t" using assms(2) by simp_all
  then obtain s2 where progress: "publish_progress svc review ''running'' None ?s1 = Some (Inr (), s2)"
    and s2: "rvs_db s2 = ?db" "gc_tokens (rvs_client s2) ?i = Some t" by (rule publish_progress_returns)
  have "\<exists>e. fst (ga_request (rsv_api svc) ''GET'' path t None w) = Inl e" for path w using assms(3) by blast
  from refused_listing [OF s2(2) this] obtain e w where "fetch_pull_request_files (rsv_api svc) ?i
      (rvc_repository_full_name review) (rvc_pull_request_number review) (rvs_client s2) = Some (Inl e, (rvs_client s2)\<lparr>gc_world := w\<rparr>)"
    by blast
  then have body: "review_body svc (rj_review_run_id payload) review ?s1 =
      Some (Inl (review_error_of e), s2\<lparr>rvs_client := (rvs_client s2)\<lparr>gc_world := w\<rparr>\<rparr>)"
    by (simp add: review_body_def analyse_pull_request_def act_bind_def progress review_github_def act_zoom_def act_map_error_def)
  let ?s3 = "s2\<lparr>rvs_client := (rvs_client s2)\<lparr>gc_world := w\<rparr>\<rparr>"
  have "rvs_db ?s3 = ?db" and "gc_tokens (rvs_client ?s3) ?i = Some t" using s2 by simp_all
  then obtain s4 where failed: "publish_progress svc review ''failed'' (Some (we_text (review_error_of e))) ?s3 = Some (Inr (), s4)"
    and s4: "rvs_db s4 = ?db" "gc_tokens (rvs_client s4) ?i = Some t" by (rule publish_progress_returns)
  have "review_pipeline_run svc payload s = Some (Inl (review_error_of e), s4)"
    by (simp add: review_pipeline_run_def act_bind_def load act_catch_def body failed act_raise_def)
  with s4 show ?thesis by blast
qed

section \<open>A completed review\<close>

definition superseded_or_gone :: "string \<Rightarrow> review_db \<Rightarrow> bool" where
  "superseded_or_gone i db \<longleftrightarrow> (case run_with_pull_request i db of None \<Rightarrow> True | Some (rr, pr) \<Rightarrow> rr_status rr = Superseded)"

definition summary_recorded :: "string \<Rightarrow> string \<Rightarrow> review_db \<Rightarrow> bool" where
  "summary_recorded i body db \<longleftrightarrow> (\<exists>c \<in> set (rdb_comments db). cmr_review_run_id c = i \<and> cmr_comment_type c = ''summary'' \<and> cmr_body c = Some body)"

lemma upsert_result:
  "\<exists>r \<in> set (upsert_on key merge new rows). r = new \<or> (\<exists>old. key old = key new \<and> key new \<noteq> None \<and> r = merge new old)"
proof (cases "key new \<noteq> None \<and> list_ex (\<lambda>r. key r = key new) rows")
  case True
  then obtain old where old: "old \<in> set rows" "key old = key new" by (auto simp: list_ex_iff)
  then have "merge new old \<in> set (upsert_on key merge new rows)" using True by (auto simp: upsert_on_def update_where_def)
  with old True show ?thesis by blast
qed (auto simp: upsert_on_def)

lemma record_summary_recorded:
  assumes "record_summary_comment sha256 uuid i github_id body dry_run db = Some (Inr u, db')"
  shows "summary_recorded i body db'"
proof -
  let ?new = "summary_row_of sha256 uuid i github_id body dry_run"
  let ?key = "\<lambda>c. Some (comment_content_key c)"
  from assms consider "db' = db\<lparr>rdb_comments := upsert_on comment_github_key republished_summary ?new (rdb_comments db)\<rparr>"
    | "db' = db\<lparr>rdb_comments := upsert_on ?key same_content_summary ?new (rdb_comments db)\<rparr>"
    by (auto simp: record_summary_comment_def Let_def put_comments_eq_Inr split: if_splits)
  then show ?thesis
  proof cases
    case 1
    obtain r where "r \<in> set (rdb_comments db')" and r: "r = ?new \<or> (\<exists>old. r = republished_summary ?new old)"
      using upsert_result [of comment_github_key republished_summary ?new "rdb_comments db"] 1 by auto
    moreover from r have "cmr_review_run_id r = i \<and> cmr_comment_type r = ''summary'' \<and> cmr_body r = Some body"
      by (auto simp: summary_row_of_def republished_summary_def)
    ultimately show ?thesis unfolding summary_recorded_def by blast
  next
    case 2
    obtain r where "r \<in> set (rdb_comments db')"
      and r: "r = ?new \<or> (\<exists>old. comment_content_key old = comment_content_key ?new \<and> r = same_content_summary ?new old)"
      using upsert_result [of ?key same_content_summary ?new "rdb_comments db"] 2 by auto
    moreover from r have "cmr_review_run_id r = i \<and> cmr_comment_type r = ''summary'' \<and> cmr_body r = Some body"
      by (auto simp: summary_row_of_def same_content_summary_def comment_content_key_def)
    ultimately show ?thesis unfolding summary_recorded_def by blast
  qed
qed

lemma reraised_Inr: "act_catch m (\<lambda>e. act_bind (h e) (\<lambda>_. act_raise e)) s = Some (Inr u, s') \<longleftrightarrow> m s = Some (Inr u, s')"
  by (cases "m s") (auto simp: act_catch_def act_bind_def act_raise_def split: option.splits sum.splits)

lemma review_statement_Inr:
  "review_statement svc f s = Some (Inr x, s') \<Longrightarrow> \<exists>n db. f n db = Some (Inr x, rvs_db s')"
  by (auto simp: review_statement_def) blast

lemma publish_progress_db: "publish_progress svc review status failure s = Some (r, s') \<Longrightarrow> rvs_db s' = rvs_db s"
  by (auto simp: publish_progress_def act_catch_def act_bind_def act_return_def review_github_def act_zoom_def split: option.splits sum.splits)

lemma published_summary_recorded:
  assumes "publish_review svc i review changed artifact s = Some (Inr u, s')"
  shows "\<exists>found. summary_recorded i (render_summary_comment (rsv_symbol svc) (rsv_sha256 svc) changed artifact found) (rvs_db s')"
  using assms unfolding publish_review_def Let_def
  by (auto simp: act_eq_Some dest!: review_statement_Inr record_summary_recorded publish_progress_db split: prod.splits)

lemma verified_run:
  assumes "verify_publishable now i db = Some (Inr check, db')"
  shows "rpk_publishable check \<or> superseded_or_gone i db'"
  using assms
  by (auto simp: verify_publishable_def Let_def superseded_or_gone_def run_with_pull_request_superseded superseded_run_row_def
      split: option.splits if_splits)

lemma review_returns:
  assumes "review_pipeline_run svc payload s = Some (Inr u, s')" and "i = rj_review_run_id payload"
  shows "superseded_or_gone i (rvs_db s') \<or>
     (\<exists>review s0 changed artifact s1 found. analyse_pull_request svc i review s0 = Some (Inr (changed, artifact), s1) \<and>
        summary_recorded i (render_summary_comment (rsv_symbol svc) (rsv_sha256 svc) changed artifact found) (rvs_db s'))"
proof -
  from assms obtain review s0 where body: "review_body svc i review s0 = Some (Inr (), s')"
    unfolding review_pipeline_run_def act_bind_eq_Inr reraised_Inr by auto
  from this obtain changed artifact s1 where analysis: "analyse_pull_request svc i review s0 = Some (Inr (changed, artifact), s1)"
    and rest: "act_bind (review_statement svc (\<lambda>n. verify_publishable (rsv_clock svc n) i)) (\<lambda>publish_check.
       if \<not> rpk_publishable publish_check then act_return () else publish_review svc i review changed artifact) s1 = Some (Inr (), s')"
    by (auto simp: review_body_def act_bind_eq_Inr [of "analyse_pull_request _ _ _"])
  from rest obtain check s2 where check: "review_statement svc (\<lambda>n. verify_publishable (rsv_clock svc n) i) s1 = Some (Inr check, s2)"
    and last: "(if \<not> rpk_publishable check then act_return () else publish_review svc i review changed artifact) s2 = Some (Inr (), s')"
    by (auto simp: act_bind_eq_Inr)
  from review_statement_Inr [OF check] have verified: "rpk_publishable check \<or> superseded_or_gone i (rvs_db s2)" by (auto dest: verified_run)
  show ?thesis
  proof (cases "rpk_publishable check")
    case True
    with last have "publish_review svc i review changed artifact s2 = Some (Inr (), s')" by simp
    from published_summary_recorded [OF this] analysis show ?thesis by blast
  next
    case False
    with last verified show ?thesis by (simp add: act_return_eq_Some)
  qed
qed

text \<open>A review that returns has done its work or was overtaken: either its run is superseded or gone, or the table of comments has a
  summary of this run whose text is rendered from the files and the Semgrep findings of its own analysis.\<close>

theorem completed_review_has_its_summary:
  assumes "review_pipeline_run svc payload s = Some (Inr u, s')" and "i = rj_review_run_id payload"
  shows "superseded_or_gone i (rvs_db s') \<or>
     (\<exists>review s0 changed artifact s1 found. analyse_pull_request svc i review s0 = Some (Inr (changed, artifact), s1) \<and>
        summary_recorded i (render_summary_comment (rsv_symbol svc) (rsv_sha256 svc) changed artifact found) (rvs_db s'))"
  by (rule review_returns [OF assms])

section \<open>A small review\<close>

declare pull_files_pages.simps [code]

definition sample_review_services :: "string list review_services" where
  \<comment> \<open>GitHub lists nothing, accepts everything and remembers the requests that publish\<close>
  "sample_review_services = \<lparr>
     rsv_api = \<lparr> ga_request = (\<lambda>meth path bearer body w.
         (Inr (if meth = ''GET'' then JList [] else JObj [(''id'', JInt 1), (''token'', JStr ''t'')]), if quiet_request meth body then w else path # w)),
       ga_sleep = (\<lambda>_ w. w), ga_jwt = (\<lambda>_. ''jwt'') \<rparr>,
     rsv_dry_run = False, rsv_env = (\<lambda>_. None), rsv_wide = (\<lambda>_. CHR ''?''), rsv_semgrep = (\<lambda>_ _. Inr []), rsv_tree_sitter = (\<lambda>_ _. Inr []),
     rsv_sha256 = (\<lambda>t. t), rsv_dedupe_hash = (\<lambda>_. ''h''), rsv_symbol = (\<lambda>_. []), rsv_isoformat = (\<lambda>_. ''now''), rsv_clock = int,
     rsv_uuid = (\<lambda>n m. str_of_nat n @ ''-'' @ str_of_nat m), rsv_meanwhile = (\<lambda>_ db. db) \<rparr>"

definition sample_stored_review :: review_db where
  "sample_stored_review = sample_review_db\<lparr>
     rdb_scan := \<lparr> db_installations = [\<lparr> inst_id = ''i'', inst_installation_id = 7 \<rparr>],
       db_repositories = [\<lparr> repo_id = ''p'', repo_installation = ''i'', repo_full_name = ''o/n'', repo_owner = ''o'', repo_name = ''n'', repo_enabled = True \<rparr>],
       db_scan_runs = [], db_findings = [] \<rparr>,
     rdb_pull_requests := [\<lparr> prw_id = ''q'', prw_number = 3, prw_title = ''t'', prw_base_sha = ''b'', prw_head_sha = ''h'' \<rparr>]\<rparr>"

definition sample_review_state :: "string list review_state" where
  "sample_review_state = \<lparr> rvs_client = \<lparr> gc_tokens = [7 \<mapsto> ''t''], gc_world = [] \<rparr>, rvs_db = sample_stored_review, rvs_tick = 0 \<rparr>"

definition supersede_runs :: "review_db \<Rightarrow> review_db" where
  "supersede_runs db = db\<lparr>rdb_runs := map (rr_status_update (\<lambda>_. Superseded)) (rdb_runs db)\<rparr>"

lemma supersede_runs_outdated: "outdated i (supersede_runs db)"
proof (cases "run_with_pull_request i (supersede_runs db)")
  case (Some p)
  then have "fst p \<in> set (rdb_runs (supersede_runs db))"
    by (auto simp: run_with_pull_request_def find_Some_iff bind_eq_Some_conv)
  with Some show ?thesis by (auto simp: outdated_def supersede_runs_def)
qed (simp add: outdated_def)

theorem outdated_review_publishes_nothing_witness:
  "\<exists>r s'. review_pipeline_run (sample_review_services\<lparr>rsv_meanwhile := (\<lambda>n db. if n = 6 then supersede_runs db else db)\<rparr>)
       sample_job sample_review_state = Some (r, s') \<and>
     gc_world (rvs_client s') = [] \<and> run_comments ''r'' (rvs_db s') = []"
proof -
  let ?svc = "sample_review_services\<lparr>rsv_meanwhile := (\<lambda>n db. if n = 6 then supersede_runs db else db)\<rparr>"
  let ?run = "review_pipeline_run ?svc sample_job sample_review_state"
  have "?run \<noteq> None" by code_simp
  then obtain r s' where run: "?run = Some (r, s')" by auto
  have quiet: "quiet_api (rsv_api ?svc) (=)" by (simp add: quiet_api_def sample_review_services_def)
  have "\<forall>n db. run_comments ''r'' (rsv_meanwhile ?svc n db) = run_comments ''r'' db"
    by (simp add: run_comments_def supersede_runs_def)
  moreover have "\<forall>db. outdated ''r'' (rsv_meanwhile ?svc 6 db)" by (simp add: supersede_runs_outdated)
  moreover have "rvs_tick sample_review_state = 0" "''r'' = rj_review_run_id sample_job"
    by (simp_all add: sample_review_state_def sample_job_def)
  ultimately have "[] = gc_world (rvs_client s') \<and> run_comments ''r'' (rvs_db s') = []"
    using outdated_review_publishes_nothing [OF run, of "''r''" "(=)"] quiet
    by (simp add: sample_review_state_def sample_stored_review_def sample_review_db_def run_comments_def)
  with run show ?thesis by simp
qed

theorem expired_token_fails_every_review_witness:
  "\<exists>e s'. review_pipeline_run (sample_review_services\<lparr>rsv_api := \<lparr> ga_request = (\<lambda>meth path bearer body w.
         if bearer = ''t'' then (Inl (ReviewPipelineError ''github_request_failed'' ''401''), w) else (Inr (JObj [(''token'', JStr ''u'')]), w)),
       ga_sleep = (\<lambda>_ w. w), ga_jwt = (\<lambda>_. ''jwt'') \<rparr>\<rparr>) sample_job sample_review_state = Some (Inl e, s') \<and>
     gc_tokens (rvs_client s') 7 = Some ''t''"
proof -
  have "map_option rvc_installation_id (review_context_row ''r'' sample_stored_review) = Some 7" by code_simp
  then obtain review where "review_context_row ''r'' sample_stored_review = Some review" "rvc_installation_id review = 7" by auto
  then show ?thesis
    using expired_token_fails_every_review [of sample_job "sample_review_services\<lparr>rsv_api := \<lparr> ga_request =
        (\<lambda>meth path bearer body w.
         if bearer = ''t'' then (Inl (ReviewPipelineError ''github_request_failed'' ''401''), w) else (Inr (JObj [(''token'', JStr ''u'')]), w)),
        ga_sleep = (\<lambda>_ w. w), ga_jwt = (\<lambda>_. ''jwt'') \<rparr>\<rparr>" sample_review_state review "''t''"]
    by (auto simp: sample_review_services_def sample_review_state_def sample_job_def)
qed

theorem completed_review_has_its_summary_witness:
  "\<exists>s' body. review_pipeline_run sample_review_services sample_job sample_review_state = Some (Inr (), s') \<and>
     summary_recorded ''r'' body (rvs_db s')"
proof -
  let ?run = "review_pipeline_run sample_review_services sample_job sample_review_state"
  have "case ?run of Some (r, s') \<Rightarrow> r = Inr () \<and> \<not> superseded_or_gone ''r'' (rvs_db s') | None \<Rightarrow> False" by code_simp
  then obtain s' where run: "?run = Some (Inr (), s')" "\<not> superseded_or_gone ''r'' (rvs_db s')" by (auto split: option.splits)
  have "''r'' = rj_review_run_id sample_job" by (simp add: sample_job_def)
  from completed_review_has_its_summary [OF run(1) this] run show ?thesis by blast
qed

end
