(* ===== verification/ContentProperties.thy ===== *)
theory ContentProperties
  imports ReviewRun ScanOutcome
begin

text \<open>
  The contents of files the two pipelines read from GitHub: what is read is the text of the file, and bytes that are no text
  are read as well.
\<close>

definition github_base64 :: "nat list \<Rightarrow> string \<Rightarrow> bool" where
  \<comment> \<open>the base64 of the UTF-8 of a text, given by its code points, with characters such as line feeds in between\<close>
  "github_base64 points content \<longleftrightarrow> list_all scalar_value points \<and> list_all is_ascii content \<and>
     b64_significant content = b64_encode (map word_of_nat (utf8_encode points))"

text \<open>C26: Both pipelines read a file of the repository as it is: from the base64 GitHub sends for a text in UTF-8, in lines of any length,
  the review pipeline takes the text and the size GitHub gives, and the scan pipeline the text and the number of its bytes.\<close>

theorem contents_read_back:
  assumes "github_base64 points content" and "obj_get v ''type'' = JStr ''file''" and "obj_get v ''encoding'' = JStr ''base64''"
    and "obj_get v ''content'' = JStr content"
  shows "read_content_response wide path (JObj v) = Inr (map (text_char wide) points, pv_optional_int (obj_get v ''size'')) \<and>
     read_blob_response wide (JObj v) = Inr (map (text_char wide) points, int (length (utf8_encode points)))"
proof -
  have "decode_base64_text wide content = Inr (map (text_char wide) points, length (utf8_encode points))"
    using assms(1) unfolding github_base64_def by (intro decode_base64_text_encode) simp_all
  with assms(2-4) show ?thesis
    by (simp add: read_content_response_def read_blob_response_def decode_content_def decode_blob_def bind_sum_def)
qed

theorem contents_read_back_witness:
  "read_content_response (\<lambda>_. CHR ''?'') ''a'' (JObj [(''type'', JStr ''file''), (''encoding'', JStr ''base64''),
     (''content'', JStr (''aMOp'' @ [CHR 0x0A] @ ''4oKs'' @ [CHR 0x0A])), (''size'', JInt 6)]) = Inr ([CHR ''h'', CHR 0xE9, CHR ''?''], Some 6)"
proof -
  let ?v = "[(''type'', JStr ''file''), (''encoding'', JStr ''base64''), (''content'', JStr (''aMOp'' @ [CHR 0x0A] @ ''4oKs'' @ [CHR 0x0A])),
      (''size'', JInt 6)]"
  have "utf8_encode [104, 0xE9, 0x20AC] = [0x68, 0xC3, 0xA9, 0xE2, 0x82, 0xAC]" by (simp add: utf8_encode_def utf8_encode_point_def)
  moreover have "b64_significant (''aMOp'' @ [CHR 0x0A] @ ''4oKs'' @ [CHR 0x0A]) = b64_encode (map word_of_nat [0x68, 0xC3, 0xA9, 0xE2, 0x82, 0xAC])"
    by code_simp
  moreover have "list_all is_ascii (''aMOp'' @ [CHR 0x0A] @ ''4oKs'' @ [CHR 0x0A])" by code_simp
  ultimately have "github_base64 [104, 0xE9, 0x20AC] (''aMOp'' @ [CHR 0x0A] @ ''4oKs'' @ [CHR 0x0A])"
    by (simp add: github_base64_def scalar_value_def)
  from contents_read_back [OF this, of ?v "\<lambda>_. CHR ''?''" "''a''"] show ?thesis
    by (simp add: text_char_def pv_optional_int_def obj_get_def char_of_def bit_simps)
qed

section \<open>Bytes that are no text\<close>

definition undecodable :: "CodebaseSkippedPath \<Rightarrow> bool" where
  "undecodable s \<longleftrightarrow> csp_detail s = ''Blob content could not be decoded as UTF-8.''"

lemma skip_before_fetch_decodable: "skip_before_fetch config path f language = Some s \<Longrightarrow> \<not> undecodable s"
  by (auto simp: skip_before_fetch_def Let_def scan_skip_def undecodable_def split: if_splits)

definition all_decodable :: "plan_state \<Rightarrow> bool" where
  "all_decodable st \<longleftrightarrow> list_all (\<lambda>s. \<not> undecodable s) (pst_skipped st)"

lemma all_decodable_skip: "all_decodable (plan_skip s st) \<longleftrightarrow> all_decodable st \<and> \<not> undecodable s"
  by (auto simp: all_decodable_def)

lemma undecodable_skip: "undecodable (scan_skip path reason detail n) \<longleftrightarrow> detail = ''Blob content could not be decoded as UTF-8.''"
  by (simp add: undecodable_def scan_skip_def)

lemma accept_content_decodable: "all_decodable st \<Longrightarrow> all_decodable (accept_content config path f language (Some r) st)"
  by (cases r) (simp add: accept_content_def all_decodable_skip undecodable_skip, simp add: all_decodable_def)

lemma plan_step_decodable:
  assumes step: "plan_step config fetch f st s = Some (Inr st', s')" and fetch: "\<And>f s r s'. fetch f s = Some (Inr r, s') \<Longrightarrow> r \<noteq> None"
    and st: "all_decodable st"
  shows "all_decodable st'"
proof -
  from step have path: "normalize_repo_path (rtf_path f) = Inr (rtf_path f)"
    by (auto simp: plan_step_def act_eq_Some normalize_repo_path_Inr)
  show ?thesis
  proof (cases "skip_before_fetch config (rtf_path f) f (language_for_path (rtf_path f))")
    case (Some k)
    with step path st skip_before_fetch_decodable [OF Some] show ?thesis
      by (simp add: plan_step_def Let_def act_eq_Some all_decodable_skip)
  next
    case None
    with step path have "(\<exists>detail n. st' = plan_skip (scan_skip (rtf_path f) detail n (rtf_size_bytes f)) st \<and>
          n \<noteq> ''Blob content could not be decoded as UTF-8.'') \<or>
        (\<exists>r s1. fetch f s = Some (Inr r, s1) \<and> st' = accept_content config (rtf_path f) f (language_for_path (rtf_path f)) r st)"
      by (fastforce simp: plan_step_def Let_def act_eq_Some split: if_splits)
    with st show ?thesis
      by (elim disjE exE conjE) (simp add: all_decodable_skip undecodable_skip, metis fetch accept_content_decodable not_None_eq)
  qed
qed

lemma plan_files_decodable:
  assumes "plan_files config fetch fs st s = Some (Inr st', s')" and "\<And>f s r s'. fetch f s = Some (Inr r, s') \<Longrightarrow> r \<noteq> None"
    and "all_decodable st"
  shows "all_decodable st'"
  using assms(1,3) by (induction fs arbitrary: st s) (auto simp: act_eq_Some dest: plan_step_decodable [OF _ assms(2)])

text \<open>A scan never skips a file because its bytes are no UTF-8, although the planner has a case for it: the decoding replaces what
  is ill-formed and raises no \<open>UnicodeDecodeError\<close>. The analysers get such a file with replacement characters.\<close>

theorem no_blob_is_undecodable:
  assumes "scan_plan config (\<lambda>item. act_bind (fetch_blob_content wide api inst name (rtf_sha item)) (\<lambda>r. act_return (Some r))) tree_files c =
     Some (Inr selection, c')"
  shows "\<forall>s \<in> set (sel_skipped_paths selection). \<not> undecodable s"
proof -
  let ?fetch = "\<lambda>item. act_bind (fetch_blob_content wide api inst name (rtf_sha item)) (\<lambda>r. act_return (Some r))"
  have fetch: "?fetch f s = Some (Inr r, s') \<Longrightarrow> r \<noteq> None" for f s r s' by (auto simp: act_eq_Some)
  from assms obtain st where st: "plan_files config ?fetch (sort_key rtf_path tree_files)
      \<lparr> pst_selected = [], pst_skipped = [], pst_total = 0 \<rparr> c = Some (Inr st, c')" "sel_skipped_paths selection = pst_skipped st"
    by (auto simp: scan_plan_def act_eq_Some)
  have "all_decodable st" by (rule plan_files_decodable [OF st(1) fetch]) (simp_all add: all_decodable_def)
  with st show ?thesis by (simp add: all_decodable_def list_all_iff)
qed

theorem no_blob_is_undecodable_witness:
  "\<exists>selection c'. scan_plan (CodebaseScanConfig_from_env ''/tmp'' (\<lambda>_. None)) (\<lambda>item. act_bind (fetch_blob_content (\<lambda>_. CHR ''?'')
       \<lparr> ga_request = (\<lambda>_ _ _ _ w. (Inr (JObj [(''encoding'', JStr ''base64''), (''content'', JStr ''/w=='')]), w)), ga_sleep = (\<lambda>_ w. w),
         ga_jwt = (\<lambda>_. []) \<rparr> 7 ''o/n'' (rtf_sha item)) (\<lambda>r. act_return (Some r)))
       [\<lparr> rtf_path = ''a.py'', rtf_sha = ''b'', rtf_size_bytes = None \<rparr>] \<lparr> gc_tokens = [7 \<mapsto> ''t''], gc_world = () \<rparr> = Some (Inr selection, c') \<and>
     map scf_content (sel_files selection) = [''?''] \<and> (\<forall>s \<in> set (sel_skipped_paths selection). \<not> undecodable s)"
proof -
  let ?plan = "scan_plan (CodebaseScanConfig_from_env ''/tmp'' (\<lambda>_. None)) (\<lambda>item. act_bind (fetch_blob_content (\<lambda>_. CHR ''?'')
       \<lparr> ga_request = (\<lambda>_ _ _ _ w. (Inr (JObj [(''encoding'', JStr ''base64''), (''content'', JStr ''/w=='')]), w)), ga_sleep = (\<lambda>_ w. w),
         ga_jwt = (\<lambda>_. []) \<rparr> 7 ''o/n'' (rtf_sha item)) (\<lambda>r. act_return (Some r)))
       [\<lparr> rtf_path = ''a.py'', rtf_sha = ''b'', rtf_size_bytes = None \<rparr>] \<lparr> gc_tokens = [7 \<mapsto> ''t''], gc_world = () \<rparr>"
  have "case ?plan of Some (Inr selection, _) \<Rightarrow> map scf_content (sel_files selection) = [''?''] | _ \<Rightarrow> False" by code_simp
  then obtain selection c' where plan: "?plan = Some (Inr selection, c')" "map scf_content (sel_files selection) = [''?'']"
    by (auto split: option.splits sum.splits)
  show ?thesis by (intro exI conjI, rule plan(1), rule plan(2), rule no_blob_is_undecodable [OF plan(1)])
qed

end
