(* ===== verification/WorkerStartup.thy ===== *)
theory WorkerStartup
  imports AppKey Evaluation ScanPlanner
begin

text \<open>
  runtime.py and the construction of the two pipelines: the configuration read from the environment, the checks at start-up
  and the exit code of the process. The environment is a function. Parameters: opening a TCP connection, looking up an
  executable and a module, \<open>float()\<close> of a text, the library's validation of a host in brackets (it differs between versions
  of Python) and serving the two queues. \<open>urlparse\<close> is Python 3.12's on texts up to U+00FF.
\<close>

section \<open>Addresses\<close>

record split_url =
  su_scheme :: string
  su_netloc :: string

definition is_scheme_char :: "char \<Rightarrow> bool" where
  "is_scheme_char c \<longleftrightarrow> is_lower_ascii c \<or> is_upper_ascii c \<or> is_digit c \<or> c \<in> set ''+-.''"

definition url_text :: "string \<Rightarrow> string" where
  \<comment> \<open>control characters and blanks before it are dropped, and the three unsafe characters anywhere\<close>
  "url_text url = filter (\<lambda>c. c \<notin> {CHR 0x09, CHR 0x0A, CHR 0x0D}) (dropWhile (\<lambda>c. (of_char c :: nat) \<le> 32) url)"

definition after_last :: "char \<Rightarrow> string \<Rightarrow> string" where
  \<comment> \<open>\<open>text.rpartition(c)[2]\<close>\<close>
  "after_last d s = rev (takeWhile (\<lambda>c. c \<noteq> d) (rev s))"

definition before_first :: "char \<Rightarrow> string \<Rightarrow> string" where
  "before_first d s = takeWhile (\<lambda>c. c \<noteq> d) s"

definition after_first :: "char \<Rightarrow> string \<Rightarrow> string" where
  \<comment> \<open>\<open>text.partition(c)[2]\<close>\<close>
  "after_first d s = drop 1 (dropWhile (\<lambda>c. c \<noteq> d) s)"

definition url_host_part :: "string \<Rightarrow> string" where
  "url_host_part netloc = (let hostinfo = after_last (CHR ''@'') netloc
     in if CHR ''['' \<in> set hostinfo then before_first (CHR '']'') (after_first (CHR ''['') hostinfo)
        else before_first (CHR '':'') hostinfo)"

definition url_port_part :: "string \<Rightarrow> string" where
  "url_port_part netloc = (let hostinfo = after_last (CHR ''@'') netloc
     in if CHR ''['' \<in> set hostinfo then after_first (CHR '':'') (after_first (CHR '']'') (after_first (CHR ''['') hostinfo))
        else after_first (CHR '':'') hostinfo)"

definition urlparse :: "(string \<Rightarrow> string option) \<Rightarrow> string \<Rightarrow> value_error + split_url" where
  \<comment> \<open>the first argument: why a host in brackets is refused\<close>
  "urlparse check_host url =
     (let text = url_text url; before = before_first (CHR '':'') text;
          has_scheme = CHR '':'' \<in> set text \<and> before \<noteq> [] \<and> (is_lower_ascii (hd text) \<or> is_upper_ascii (hd text)) \<and> list_all is_scheme_char before;
          scheme = (if has_scheme then lower before else []); rest = (if has_scheme then after_first (CHR '':'') text else text);
          netloc = (if starts_with ''//'' rest then takeWhile (\<lambda>c. c \<notin> set ''/?#'') (drop 2 rest) else [])
      in if (CHR ''['' \<in> set netloc) \<noteq> (CHR '']'' \<in> set netloc) then Inl (ValueError ''Invalid IPv6 URL'')
         else (case (if CHR ''['' \<in> set netloc then check_host netloc else None) of
             Some message \<Rightarrow> Inl (ValueError message)
           | None \<Rightarrow> Inr \<lparr> su_scheme = scheme, su_netloc = netloc \<rparr>))"

definition url_hostname :: "split_url \<Rightarrow> string option" where
  "url_hostname u = (let host = url_host_part (su_netloc u)
     in if host = [] then None
        else Some (lower (before_first (CHR ''%'') host) @ dropWhile (\<lambda>c. c \<noteq> CHR ''%'') host))"

definition url_port :: "split_url \<Rightarrow> value_error + int option" where
  "url_port u = (let port = url_port_part (su_netloc u)
     in if port = [] then Inr None
        else if \<not> list_all is_digit port then Inl (ValueError (''Port could not be cast to integer value as '' @ py_repr port))
        else (case py_int port of
            None \<Rightarrow> Inl (ValueError (''Port could not be cast to integer value as '' @ py_repr port))
          | Some n \<Rightarrow> if 0 \<le> n \<and> n \<le> 65535 then Inr (Some n) else Inl (ValueError ''Port out of range 0-65535'')))"

section \<open>Configuration\<close>

record WorkerRuntimeConfig =
  wrc_database_url :: string
  wrc_redis_url :: string
  wrc_queue_name :: string
  wrc_codebase_scan_queue_name :: string
  wrc_log_level :: string
  wrc_semgrep_executable :: string
  wrc_semgrep_startup_timeout_seconds :: py_float
  wrc_semgrep_startup_version_check :: bool

definition read_required :: "(string \<Rightarrow> string option) \<Rightarrow> string \<Rightarrow> value_error + string" where
  "read_required env name = (let value = strip (env_text (env name))
     in if value = [] then Inl (ValueError (name @ '' is required'')) else Inr value)"

definition read_positive_float :: "(string \<Rightarrow> py_float option) \<Rightarrow> (string \<Rightarrow> string option) \<Rightarrow> string \<Rightarrow> py_float \<Rightarrow> value_error + py_float" where
  "read_positive_float to_float env name dflt = (let raw_value = strip (env_text (env name))
     in if raw_value = [] then Inr dflt
        else (case to_float raw_value of
            None \<Rightarrow> Inl (ValueError (name @ '' must be a positive number''))
          | Some value \<Rightarrow> if float_le value (Fin 0) then Inl (ValueError (name @ '' must be a positive number'')) else Inr value))"

definition startup_read_bool :: "(string \<Rightarrow> string option) \<Rightarrow> string \<Rightarrow> bool \<Rightarrow> value_error + bool" where
  "startup_read_bool env name dflt = (let raw_value = lower (strip (env_text (env name)))
     in if raw_value = [] then Inr dflt
        else if raw_value \<in> set [''1'', ''true'', ''yes'', ''on''] then Inr True
        else if raw_value \<in> set [''0'', ''false'', ''no'', ''off''] then Inr False
        else Inl (ValueError (name @ '' must be a boolean'')))"

definition validate_url :: "(string \<Rightarrow> string option) \<Rightarrow> string \<Rightarrow> string list \<Rightarrow> string \<Rightarrow> value_error + unit" where
  "validate_url check_host value schemes name = bind_sum (urlparse check_host value) (\<lambda>parsed.
     if su_scheme parsed \<notin> set schemes \<or> url_hostname parsed = None
     then Inl (ValueError (name @ '' must be a '' @ join '', '' schemes @ '' connection string'')) else Inr ())"

definition env_or :: "string option \<Rightarrow> string \<Rightarrow> string" where
  \<comment> \<open>\<open>env.get(name, default)\<close>\<close>
  "env_or value dflt = (case value of Some v \<Rightarrow> v | None \<Rightarrow> dflt)"

definition load_worker_config ::
  "(string \<Rightarrow> string option) \<Rightarrow> (string \<Rightarrow> py_float option) \<Rightarrow> (string \<Rightarrow> string option) \<Rightarrow> value_error + WorkerRuntimeConfig" where
  "load_worker_config check_host to_float env =
     bind_sum (read_required env ''DATABASE_URL'') (\<lambda>database_url.
     bind_sum (read_required env ''REDIS_URL'') (\<lambda>redis_url.
     bind_sum (validate_url check_host database_url [''postgres'', ''postgresql''] ''DATABASE_URL'') (\<lambda>_.
     bind_sum (validate_url check_host redis_url [''redis'', ''rediss''] ''REDIS_URL'') (\<lambda>_.
     bind_sum (read_positive_float to_float env ''SEMGREP_STARTUP_TIMEOUT_SECONDS'' (Fin 20)) (\<lambda>timeout.
     bind_sum (startup_read_bool env ''SEMGREP_STARTUP_VERSION_CHECK'' False) (\<lambda>version_check.
       Inr \<lparr> wrc_database_url = database_url, wrc_redis_url = redis_url,
         wrc_queue_name = env_or (env ''REVIEW_QUEUE_NAME'') ''review-runs'',
         wrc_codebase_scan_queue_name = env_or (env ''CODEBASE_SCAN_QUEUE_NAME'') ''codebase-scans'',
         wrc_log_level = env_or (env ''LOG_LEVEL'') ''info'',
         wrc_semgrep_executable = or_else (strip (env_or (env ''SEMGREP_EXECUTABLE'') ''semgrep'')) ''semgrep'',
         wrc_semgrep_startup_timeout_seconds = timeout, wrc_semgrep_startup_version_check = version_check \<rparr>))))))"

section \<open>Checks\<close>

record DependencyCheck =
  dpc_name :: string
  dpc_status :: string
  dpc_host :: "string option"
  dpc_port :: "int option"
  dpc_error :: "string option"

datatype connection_attempt = Connected | ConnectionOSError string | ConnectionValueError string

record startup_services =
  sus_connect :: "string \<Rightarrow> int \<Rightarrow> connection_attempt"     \<comment> \<open>\<open>socket.create_connection\<close>\<close>
  sus_which :: "string \<Rightarrow> string option"                  \<comment> \<open>\<open>shutil.which\<close>\<close>
  sus_has_module :: "string \<Rightarrow> bool"                      \<comment> \<open>\<open>importlib.util.find_spec\<close>\<close>
  sus_check_host :: "string \<Rightarrow> string option"
  sus_float :: "string \<Rightarrow> py_float option"
  sus_wide :: "nat \<Rightarrow> char"
  sus_version :: string

definition named_check :: "string \<Rightarrow> string \<Rightarrow> string option \<Rightarrow> DependencyCheck" where
  "named_check name status problem = \<lparr> dpc_name = name, dpc_status = status, dpc_host = None, dpc_port = None, dpc_error = problem \<rparr>"

definition check_tcp_url :: "startup_services \<Rightarrow> string \<Rightarrow> string \<Rightarrow> int \<Rightarrow> value_error + DependencyCheck" where
  "check_tcp_url sus name raw_url default_port =
     bind_sum (urlparse (sus_check_host sus) raw_url) (\<lambda>parsed.
     bind_sum (url_port parsed) (\<lambda>parsed_port.
       let port = (case parsed_port of Some n \<Rightarrow> if n \<noteq> 0 then n else default_port | None \<Rightarrow> default_port)
       in case url_hostname parsed of
            None \<Rightarrow> Inr (named_check name ''unavailable'' (Some ''missing_host''))
          | Some host \<Rightarrow> (case sus_connect sus host port of
                Connected \<Rightarrow> Inr \<lparr> dpc_name = name, dpc_status = ''ok'', dpc_host = Some host, dpc_port = Some port, dpc_error = None \<rparr>
              | ConnectionOSError cls \<Rightarrow> Inr \<lparr> dpc_name = name, dpc_status = ''unavailable'', dpc_host = Some host, dpc_port = Some port,
                  dpc_error = Some cls \<rparr>
              | ConnectionValueError message \<Rightarrow> Inl (ValueError message))))"

definition check_semgrep :: "startup_services \<Rightarrow> WorkerRuntimeConfig \<Rightarrow> DependencyCheck" where
  "check_semgrep sus config = (if sus_which sus (wrc_semgrep_executable config) = None
     then named_check ''semgrep'' ''unavailable'' (Some ''executable_missing'') else named_check ''semgrep'' ''ok'' None)"

definition check_tree_sitter :: "startup_services \<Rightarrow> DependencyCheck" where
  "check_tree_sitter sus = (if \<not> sus_has_module sus ''tree_sitter''
     then named_check ''tree_sitter'' ''unavailable'' (Some ''module_missing'') else named_check ''tree_sitter'' ''ok'' None)"

definition run_startup_checks :: "startup_services \<Rightarrow> WorkerRuntimeConfig \<Rightarrow> value_error + DependencyCheck list" where
  "run_startup_checks sus config =
     bind_sum (check_tcp_url sus ''database'' (wrc_database_url config) 5432) (\<lambda>database.
     bind_sum (check_tcp_url sus ''redis'' (wrc_redis_url config) 6379) (\<lambda>redis.
       Inr [database, redis, check_semgrep sus config, check_tree_sitter sus]))"

definition check_to_dict :: "DependencyCheck \<Rightarrow> obj" where
  "check_to_dict check = [(''name'', JStr (dpc_name check)), (''status'', JStr (dpc_status check))] @
     (case dpc_host check of Some h \<Rightarrow> [(''host'', JStr h)] | None \<Rightarrow> []) @
     (case dpc_port check of Some n \<Rightarrow> [(''port'', JInt n)] | None \<Rightarrow> []) @
     (case dpc_error check of Some e \<Rightarrow> [(''error'', JStr e)] | None \<Rightarrow> [])"

section \<open>The pipelines\<close>

record app_credentials =
  acr_app_id :: string
  acr_private_key :: string
  acr_dry_run :: bool

definition new_github_client :: "(nat \<Rightarrow> char) \<Rightarrow> string \<Rightarrow> string \<Rightarrow> bool \<Rightarrow> app_credentials" where
  \<comment> \<open>\<open>GitHubClient.__init__\<close>, but for the empty cache of tokens\<close>
  "new_github_client wide app_id private_key dry_run =
     \<lparr> acr_app_id = app_id, acr_private_key = normalize_private_key wide private_key, acr_dry_run = dry_run \<rparr>"

definition read_required_env :: "(string \<Rightarrow> string option) \<Rightarrow> string \<Rightarrow> worker_exception + string" where
  "read_required_env env name = (let value = strip (env_text (env name))
     in if value = []
        then Inl \<lparr> we_class = ''ReviewPipelineError'', we_text = name @ '' is required for the real review pipeline.'',
          we_error_code = Some ''missing_worker_env'' \<rparr>
        else Inr value)"

definition review_pipeline_from_env :: "(nat \<Rightarrow> char) \<Rightarrow> (string \<Rightarrow> string option) \<Rightarrow> worker_exception + app_credentials" where
  "review_pipeline_from_env wide env =
     bind_sum (read_required_env env ''GITHUB_APP_ID'') (\<lambda>app_id.
     bind_sum (read_required_env env ''GITHUB_APP_PRIVATE_KEY'') (\<lambda>private_key.
       Inr (new_github_client wide app_id private_key (env_bool (env ''DRY_RUN'') False))))"

definition required_env :: "(string \<Rightarrow> string option) \<Rightarrow> string \<Rightarrow> worker_exception + string" where
  "required_env env name = (let value = strip (env_text (env name))
     in if value = [] then Inl (CodebaseScanPipelineError ''missing_worker_config'' (name @ '' is required'')) else Inr value)"

definition scan_pipeline_from_env :: "(nat \<Rightarrow> char) \<Rightarrow> string \<Rightarrow> (string \<Rightarrow> string option) \<Rightarrow> worker_exception + app_credentials \<times> CodebaseScanConfig" where
  "scan_pipeline_from_env wide tempdir env =
     bind_sum (required_env env ''GITHUB_APP_ID'') (\<lambda>app_id.
     bind_sum (required_env env ''GITHUB_APP_PRIVATE_KEY'') (\<lambda>private_key.
       Inr (new_github_client wide app_id private_key False, CodebaseScanConfig_from_env tempdir env)))"

definition default_pipeline :: "worker_exception + 'a \<Rightarrow> worker_exception + 'a" where
  \<comment> \<open>\<open>_default_review_pipeline\<close> and \<open>_default_codebase_scan_pipeline\<close>\<close>
  "default_pipeline made = map_sum (\<lambda>e. ReviewWorkerError (error_code e) (error_message e)) id made"

definition run_bullmq_review_worker ::
  "(app_credentials \<Rightarrow> app_credentials \<times> CodebaseScanConfig \<Rightarrow> worker_exception + unit) \<Rightarrow> (nat \<Rightarrow> char) \<Rightarrow> string \<Rightarrow> (string \<Rightarrow> string option) \<Rightarrow>
   worker_exception + unit" where
  \<comment> \<open>both pipelines are made before the queues are served\<close>
  "run_bullmq_review_worker serve wide tempdir env =
     bind_sum (default_pipeline (review_pipeline_from_env wide env)) (\<lambda>review_pipeline.
     bind_sum (default_pipeline (scan_pipeline_from_env wide tempdir env)) (\<lambda>scan_pipeline.
       serve review_pipeline scan_pipeline))"

section \<open>The process\<close>

definition log_event :: "string \<Rightarrow> obj \<Rightarrow> obj" where
  "log_event event entries = (''event'', JStr event) # entries"

definition worker_main ::
  "startup_services \<Rightarrow> (app_credentials \<Rightarrow> app_credentials \<times> CodebaseScanConfig \<Rightarrow> worker_exception + unit) \<Rightarrow> string \<Rightarrow>
   (string \<Rightarrow> string option) \<Rightarrow> bool \<Rightarrow> obj list \<times> (worker_exception + int)" where
  \<comment> \<open>the events logged, and the exit code or what escapes; the flag is \<open>--check\<close>\<close>
  "worker_main sus serve tempdir env check_only =
     (case bind_sum (load_worker_config (sus_check_host sus) (sus_float sus) env) (\<lambda>config.
             map_sum id (Pair config) (run_startup_checks sus config)) of
        Inl (ValueError message) \<Rightarrow>
          ([log_event ''worker.startup.failed'' [(''status'', JStr ''unavailable''), (''error'', JStr message)]], Inr 1)
      | Inr (config, checks) \<Rightarrow>
          (let status = (if list_all (\<lambda>c. dpc_status c = ''ok'') checks then ''ok'' else ''unavailable'');
               completed = log_event ''worker.startup.completed'' [(''status'', JStr status), (''worker_version'', JStr (sus_version sus)),
                 (''semgrep_startup_probe'', JStr ''executable_only''), (''dependencies'', JList (map (\<lambda>c. JObj (check_to_dict c)) checks))];
               connected = log_event ''worker.queue.connected'' [(''status'', JStr ''ok''), (''queue'', JStr (wrc_queue_name config)),
                 (''codebaseScanQueue'', JStr (wrc_codebase_scan_queue_name config))]
           in if check_only then ([completed], Inr (if status = ''ok'' then 0 else 1))
              else if status \<noteq> ''ok'' then ([completed], Inr 1)
              else (case run_bullmq_review_worker serve (sus_wide sus) tempdir env of
                  Inl e \<Rightarrow> ([completed, connected], Inl e)
                | Inr _ \<Rightarrow> ([completed, connected, log_event ''worker.shutdown'' [(''status'', JStr ''ok'')]], Inr 0))))"

section \<open>When the queues are served\<close>

definition reachable :: "startup_services \<Rightarrow> string list \<Rightarrow> string \<Rightarrow> bool" where
  "reachable sus schemes url \<longleftrightarrow> (\<exists>u host port. urlparse (sus_check_host sus) url = Inr u \<and> su_scheme u \<in> set schemes \<and>
     url_hostname u = Some host \<and> 1 \<le> port \<and> port \<le> 65535 \<and> sus_connect sus host port = Connected)"

lemma bind_sum_Inr: "bind_sum m f = Inr y \<longleftrightarrow> (\<exists>x. m = Inr x \<and> f x = Inr y)"
  by (cases m) (auto simp: bind_sum_def)

lemma map_sum_Inr: "map_sum f g m = Inr y \<longleftrightarrow> (\<exists>x. m = Inr x \<and> y = g x)"
  by (cases m) auto

lemma url_port_bounds: "url_port u = Inr (Some n) \<Longrightarrow> 0 \<le> n \<and> n \<le> 65535"
  by (auto simp: url_port_def Let_def split: if_splits option.splits)

lemma checked_url_reachable:
  assumes "validate_url (sus_check_host sus) url schemes label = Inr ()" and "check_tcp_url sus name url port = Inr c" and "dpc_status c = ''ok''"
    and "1 \<le> port" and "port \<le> 65535"
  shows "reachable sus schemes url"
  using assms url_port_bounds unfolding reachable_def validate_url_def check_tcp_url_def Let_def
  by (auto simp: bind_sum_Inr named_check_def split: if_splits option.splits connection_attempt.splits) (smt (verit))+

lemma loaded_urls:
  assumes "load_worker_config check_host to_float env = Inr config"
  shows "validate_url check_host (wrc_database_url config) [''postgres'', ''postgresql''] ''DATABASE_URL'' = Inr ()"
    and "validate_url check_host (wrc_redis_url config) [''redis'', ''rediss''] ''REDIS_URL'' = Inr ()"
  using assms by (auto simp: load_worker_config_def bind_sum_Inr)

lemma startup_checks_ok:
  assumes "run_startup_checks sus config = Inr checks" and "list_all (\<lambda>c. dpc_status c = ''ok'') checks"
    and "load_worker_config (sus_check_host sus) to_float env = Inr config"
  shows "reachable sus [''postgres'', ''postgresql''] (wrc_database_url config)" and "reachable sus [''redis'', ''rediss''] (wrc_redis_url config)"
    and "sus_which sus (wrc_semgrep_executable config) \<noteq> None" and "sus_has_module sus ''tree_sitter''"
proof -
  from assms(1) obtain database redis where checks: "check_tcp_url sus ''database'' (wrc_database_url config) 5432 = Inr database"
    "check_tcp_url sus ''redis'' (wrc_redis_url config) 6379 = Inr redis" "checks = [database, redis, check_semgrep sus config, check_tree_sitter sus]"
    by (auto simp: run_startup_checks_def bind_sum_Inr)
  with assms(2) have ok: "dpc_status database = ''ok''" "dpc_status redis = ''ok''" "dpc_status (check_semgrep sus config) = ''ok''"
    "dpc_status (check_tree_sitter sus) = ''ok''" by auto
  show "reachable sus [''postgres'', ''postgresql''] (wrc_database_url config)"
    by (rule checked_url_reachable [OF loaded_urls(1) [OF assms(3)] checks(1) ok(1)]) simp_all
  show "reachable sus [''redis'', ''rediss''] (wrc_redis_url config)"
    by (rule checked_url_reachable [OF loaded_urls(2) [OF assms(3)] checks(2) ok(2)]) simp_all
  show "sus_which sus (wrc_semgrep_executable config) \<noteq> None" "sus_has_module sus ''tree_sitter''"
    using ok(3,4) by (auto simp: check_semgrep_def check_tree_sitter_def named_check_def split: if_splits)
qed

lemma worker_main_ready:
  assumes "worker_main sus serve tempdir env check_only = (events, r)" and "length events \<ge> 2"
  obtains config checks where "load_worker_config (sus_check_host sus) (sus_float sus) env = Inr config"
    and "run_startup_checks sus config = Inr checks" and "list_all (\<lambda>c. dpc_status c = ''ok'') checks" and "\<not> check_only"
  using assms that
  by (auto simp: worker_main_def Let_def bind_sum_Inr map_sum_Inr split: sum.splits value_error.splits prod.splits if_splits)

text \<open>The worker takes jobs only when it was started without \<open>--check\<close>, its database and Redis addresses have the right scheme, a host
  and a port between 1 and 65535, both accepted a connection, and Semgrep and tree-sitter are installed. It says so before it
  serves the queues.\<close>

theorem queues_served_only_when_ready:
  assumes "worker_main sus serve tempdir env check_only = (events, r)"
    and "log_event ''worker.queue.connected'' entries \<in> set events"
  shows "\<not> check_only \<and> (\<exists>config. load_worker_config (sus_check_host sus) (sus_float sus) env = Inr config \<and>
     reachable sus [''postgres'', ''postgresql''] (wrc_database_url config) \<and> reachable sus [''redis'', ''rediss''] (wrc_redis_url config) \<and>
     sus_which sus (wrc_semgrep_executable config) \<noteq> None \<and> sus_has_module sus ''tree_sitter'')"
proof -
  from assms have "length events \<ge> 2"
    by (auto simp: worker_main_def Let_def log_event_def split: sum.splits value_error.splits prod.splits if_splits)
  with assms(1) obtain config checks where "load_worker_config (sus_check_host sus) (sus_float sus) env = Inr config"
    and "run_startup_checks sus config = Inr checks" and "list_all (\<lambda>c. dpc_status c = ''ok'') checks" and "\<not> check_only"
    by (rule worker_main_ready)
  with startup_checks_ok [of sus config checks] show ?thesis by blast
qed

text \<open>The check the health probe runs does not look at the credentials of the GitHub App: without them it exits with 0 although
  the worker itself, started in the same environment, raises before it serves a queue.\<close>

theorem health_check_ignores_credentials:
  assumes "snd (worker_main sus serve tempdir env True) = Inr 0" and "strip (env_text (env ''GITHUB_APP_ID'')) = []"
  shows "snd (worker_main sus serve tempdir env False) =
     Inl (ReviewWorkerError ''missing_worker_env'' ''GITHUB_APP_ID is required for the real review pipeline.'')"
proof -
  have "strip ''GITHUB_APP_ID is required for the real review pipeline.'' = ''GITHUB_APP_ID is required for the real review pipeline.''"
    by code_simp
  then have "run_bullmq_review_worker serve (sus_wide sus) tempdir env =
      Inl (ReviewWorkerError ''missing_worker_env'' ''GITHUB_APP_ID is required for the real review pipeline.'')"
    using assms(2) by (simp add: run_bullmq_review_worker_def default_pipeline_def review_pipeline_from_env_def read_required_env_def
        bind_sum_def error_code_def error_message_def Let_def)
  with assms(1) show ?thesis
    by (auto simp: worker_main_def Let_def split: sum.splits value_error.splits prod.splits if_splits)
qed

section \<open>A start\<close>

definition sample_startup :: startup_services where
  "sample_startup = \<lparr> sus_connect = (\<lambda>host port. if host = ''db'' \<and> port = 5432 \<or> host = ''cache'' \<and> port = 7000 then Connected
       else ConnectionOSError ''ConnectionRefusedError''),
     sus_which = Some, sus_has_module = (\<lambda>m. m = ''tree_sitter''), sus_check_host = (\<lambda>_. None), sus_float = (\<lambda>_. None),
     sus_wide = (\<lambda>_. CHR ''?''), sus_version = ''0'' \<rparr>"

definition sample_environment :: "string \<Rightarrow> string option" where
  "sample_environment = map_of [(''DATABASE_URL'', ''postgresql://u:p@DB/firmcode''), (''REDIS_URL'', '' redis://cache:7000/0'')]"

theorem queues_served_only_when_ready_witness:
  "\<exists>config. load_worker_config (sus_check_host sample_startup) (sus_float sample_startup) (sample_environment(''GITHUB_APP_ID'' \<mapsto> ''1'',
     ''GITHUB_APP_PRIVATE_KEY'' \<mapsto> ''k'')) = Inr config \<and> reachable sample_startup [''redis'', ''rediss''] (wrc_redis_url config)"
proof -
  let ?main = "worker_main sample_startup (\<lambda>_ _. Inr ()) ''/tmp'' (sample_environment(''GITHUB_APP_ID'' \<mapsto> ''1'', ''GITHUB_APP_PRIVATE_KEY'' \<mapsto> ''k'')) False"
  have "log_event ''worker.queue.connected'' [(''status'', JStr ''ok''), (''queue'', JStr ''review-runs''),
      (''codebaseScanQueue'', JStr ''codebase-scans'')] \<in> set (fst ?main)" by code_simp
  from queues_served_only_when_ready [OF prod.collapse [symmetric] this] show ?thesis by blast
qed

theorem health_check_ignores_credentials_witness:
  "snd (worker_main sample_startup (\<lambda>_ _. Inr ()) ''/tmp'' sample_environment False) =
     Inl (ReviewWorkerError ''missing_worker_env'' ''GITHUB_APP_ID is required for the real review pipeline.'')"
proof (rule health_check_ignores_credentials)
  show "snd (worker_main sample_startup (\<lambda>_ _. Inr ()) ''/tmp'' sample_environment True) = Inr 0" by code_simp
  show "strip (env_text (sample_environment ''GITHUB_APP_ID'')) = []" by code_simp
qed

end
