(* ===== verification/LlmConfig.thy ===== *)
theory LlmConfig
  imports LlmClient PyPath
begin

text \<open>
  The rest of llm/client.py: the configuration read from the environment, the options of a review request made from it, the
  log events as the values the logger receives, and the cost estimates. The environment is a function, \<open>float()\<close> of a text
  is a parameter. An amount of money is its exact rational value.
\<close>

section \<open>Configuration\<close>

record LLMClientConfig =
  llc_provider :: string
  llc_api_key :: string
  llc_review_model :: string
  llc_summary_model :: "string option"
  llc_timeout_ms :: int
  llc_max_retries :: int
  llc_max_input_tokens :: "int option"
  llc_max_output_tokens :: int
  llc_temperature :: py_float

definition stripped_value :: "string option \<Rightarrow> string" where
  \<comment> \<open>\<open>(value or "").strip()\<close>, also \<open>env.get(name, "").strip()\<close>\<close>
  "stripped_value value = (case value of None \<Rightarrow> [] | Some v \<Rightarrow> strip v)"

definition llm_read_required :: "(string \<Rightarrow> string option) \<Rightarrow> string \<Rightarrow> value_error + string" where
  "llm_read_required env name = (let value = stripped_value (env name)
     in if value = [] then Inl (ValueError (name @ '' is required'')) else Inr value)"

definition llm_read_optional :: "(string \<Rightarrow> string option) \<Rightarrow> string \<Rightarrow> string option" where
  "llm_read_optional env name = (let value = stripped_value (env name) in if value = [] then None else Some value)"

definition llm_read_positive_int :: "string option \<Rightarrow> int \<Rightarrow> value_error + int" where
  "llm_read_positive_int value dflt = (let raw_value = stripped_value value
     in if raw_value = [] then Inr dflt
        else (case py_int raw_value of
            None \<Rightarrow> Inl (ValueError ''LLM integer configuration values must be valid integers.'')
          | Some parsed \<Rightarrow> if parsed \<le> 0 then Inl (ValueError ''LLM integer configuration values must be positive.'') else Inr parsed))"

definition llm_read_optional_positive_int :: "string option \<Rightarrow> value_error + int option" where
  "llm_read_optional_positive_int value = (let raw_value = stripped_value value
     in if raw_value = [] then Inr None else map_sum id Some (llm_read_positive_int (Some raw_value) 1))"

definition llm_read_non_negative_int :: "string option \<Rightarrow> int \<Rightarrow> value_error + int" where
  "llm_read_non_negative_int value dflt = (let raw_value = stripped_value value
     in if raw_value = [] then Inr dflt
        else (case py_int raw_value of
            None \<Rightarrow> Inl (ValueError ''LLM retry configuration must be a valid integer.'')
          | Some parsed \<Rightarrow> if parsed < 0 then Inl (ValueError ''LLM retry configuration must be zero or greater.'') else Inr parsed))"

definition llm_read_float :: "(string \<Rightarrow> py_float option) \<Rightarrow> string option \<Rightarrow> py_float \<Rightarrow> value_error + py_float" where
  "llm_read_float to_float value dflt = (let raw_value = stripped_value value
     in if raw_value = [] then Inr dflt
        else (case to_float raw_value of
            None \<Rightarrow> Inl (ValueError ''LLM temperature must be a valid number.'')
          | Some parsed \<Rightarrow> Inr parsed))"

definition DEFAULT_LLM_TEMPERATURE :: py_float where
  \<comment> \<open>the double nearest to 0.2\<close>
  "DEFAULT_LLM_TEMPERATURE = Fin (3602879701896397 / 18014398509481984)"

definition LLMClientConfig_from_env ::
  "(string \<Rightarrow> py_float option) \<Rightarrow> (string \<Rightarrow> string option) \<Rightarrow> value_error + LLMClientConfig" where
  "LLMClientConfig_from_env to_float env =
     bind_sum (llm_read_required env ''LLM_PROVIDER'') (\<lambda>provider.
     bind_sum (llm_read_required env ''LLM_API_KEY'') (\<lambda>api_key.
     bind_sum (llm_read_required env ''LLM_REVIEW_MODEL'') (\<lambda>review_model.
     bind_sum (llm_read_positive_int (env ''LLM_TIMEOUT_MS'') DEFAULT_LLM_TIMEOUT_MS) (\<lambda>timeout_ms.
     bind_sum (llm_read_non_negative_int (env ''LLM_MAX_RETRIES'') DEFAULT_LLM_MAX_RETRIES) (\<lambda>max_retries.
     bind_sum (llm_read_optional_positive_int (env ''LLM_MAX_INPUT_TOKENS'')) (\<lambda>max_input_tokens.
     bind_sum (llm_read_positive_int (env ''LLM_MAX_OUTPUT_TOKENS'') DEFAULT_LLM_MAX_OUTPUT_TOKENS) (\<lambda>max_output_tokens.
     bind_sum (llm_read_float to_float (env ''LLM_TEMPERATURE'') DEFAULT_LLM_TEMPERATURE) (\<lambda>temperature.
       Inr \<lparr> llc_provider = provider, llc_api_key = api_key, llc_review_model = review_model,
         llc_summary_model = llm_read_optional env ''LLM_SUMMARY_MODEL'', llc_timeout_ms = timeout_ms, llc_max_retries = max_retries,
         llc_max_input_tokens = max_input_tokens, llc_max_output_tokens = max_output_tokens, llc_temperature = temperature \<rparr>))))))))"

definition review_options :: "LLMClientConfig \<Rightarrow> value_error + LLMRequestOptions" where
  "review_options config =
     bind_sum (make_LLMRetryConfig (llc_max_retries config) DEFAULT_RETRY_BACKOFF_MS DEFAULT_RETRY_BACKOFF_MULTIPLIER) (\<lambda>retry_config.
       make_LLMRequestOptions (llc_review_model config) (llc_temperature config) (llc_max_output_tokens config)
         (llc_timeout_ms config) retry_config)"

section \<open>Log events\<close>

definition usage_to_dict :: "LLMTokenUsage \<Rightarrow> json" where
  "usage_to_dict usage = JObj [(''inputTokens'', JInt (tu_input_tokens usage)), (''outputTokens'', JInt (tu_output_tokens usage)),
     (''totalTokens'', JInt (tu_total_tokens usage))]"

definition prompt_preview_json :: "(string \<times> string) list \<Rightarrow> json" where
  "prompt_preview_json preview =
     JList (map (\<lambda>(role, text). JObj [(''role'', JStr role), (''contentPreview'', JStr text)]) preview)"

fun logged_event :: "string \<Rightarrow> string \<Rightarrow> LLMRequestOptions \<Rightarrow> int \<Rightarrow> llm_event \<Rightarrow> obj option" where
  \<comment> \<open>what the event logger receives for an event of a request; a sleep is not logged\<close>
  "logged_event provider_name operation options latency_ms (RequestStarted attempt preview keys) = Some
     [(''event'', JStr ''llm.request.started''), (''provider'', JStr provider_name), (''operation'', JStr operation),
      (''model'', JStr (ro_model options)), (''temperature'', JFloat (ro_temperature options)), (''maxTokens'', JInt (ro_max_tokens options)),
      (''timeoutMs'', JInt (ro_timeout_ms options)), (''attempt'', JInt (int attempt)), (''prompt'', prompt_preview_json preview),
      (''schemaKeys'', JList (map JStr keys))]"
| "logged_event provider_name operation options latency_ms (RequestCompleted model attempt usage finish_reason) = Some
     [(''event'', JStr ''llm.request.completed''), (''provider'', JStr provider_name), (''operation'', JStr operation),
      (''model'', JStr model), (''attempt'', JInt (int attempt)), (''latencyMs'', JInt latency_ms), (''usage'', usage_to_dict usage),
      (''finishReason'', opt_json JStr finish_reason)]"
| "logged_event provider_name operation options latency_ms (RequestFailed attempt retrying code text) = Some
     [(''event'', JStr ''llm.request.failed''), (''provider'', JStr provider_name), (''operation'', JStr operation),
      (''model'', JStr (ro_model options)), (''attempt'', JInt (int attempt)), (''retrying'', JBool retrying), (''errorCode'', JStr code),
      (''error'', JStr text)]"
| "logged_event provider_name operation options latency_ms (Slept seconds) = None"

section \<open>Costs\<close>

record LLMCostEstimate =
  lce_model :: string
  lce_amount_usd :: "rat option"

definition estimate_cost :: "LLMTokenUsage \<Rightarrow> string \<Rightarrow> LLMCostEstimate" where
  "estimate_cost usage model = \<lparr> lce_model = model, lce_amount_usd = None \<rparr>"

definition fake_estimate_cost :: "LLMTokenUsage \<Rightarrow> string \<Rightarrow> LLMCostEstimate" where
  "fake_estimate_cost usage model = \<lparr> lce_model = model, lce_amount_usd = Some 0 \<rparr>"

section \<open>What the environment can cause\<close>

lemma nonblank_stripped: "strip s \<noteq> [] \<Longrightarrow> nonblank (strip s)"
  using nonblank_take_strip [of "length (strip s)" s] by simp

lemma llm_read_required_nonblank: "llm_read_required env name = Inr value \<Longrightarrow> nonblank value"
  by (auto simp: llm_read_required_def Let_def stripped_value_def nonblank_stripped split: if_splits option.splits)

lemma llm_read_positive_int_positive: "llm_read_positive_int value dflt = Inr n \<Longrightarrow> 0 < dflt \<Longrightarrow> 0 < n"
  by (auto simp: llm_read_positive_int_def Let_def split: if_splits option.splits)

lemma llm_read_non_negative_int_nonneg: "llm_read_non_negative_int value dflt = Inr n \<Longrightarrow> 0 \<le> dflt \<Longrightarrow> 0 \<le> n"
  by (auto simp: llm_read_non_negative_int_def Let_def split: if_splits option.splits)

lemma llm_read_optional_positive_int_positive:
  assumes "llm_read_optional_positive_int value = Inr (Some n)"
  shows "0 < n"
  using assms llm_read_positive_int_positive [of "Some (stripped_value value)" 1 n]
  by (cases "llm_read_positive_int (Some (stripped_value value)) 1")
    (auto simp: llm_read_optional_positive_int_def Let_def split: if_splits)

definition usable_llm_config :: "LLMClientConfig \<Rightarrow> bool" where
  "usable_llm_config config \<longleftrightarrow> nonblank (llc_provider config) \<and> nonblank (llc_api_key config) \<and> nonblank (llc_review_model config) \<and>
     0 < llc_timeout_ms config \<and> 0 \<le> llc_max_retries config \<and> 0 < llc_max_output_tokens config \<and>
     (\<forall>n. llc_max_input_tokens config = Some n \<longrightarrow> 0 < n)"

lemma config_of_environment_usable:
  assumes "LLMClientConfig_from_env to_float env = Inr config"
  shows "usable_llm_config config"
  using assms
  by (auto simp: LLMClientConfig_from_env_def usable_llm_config_def bind_sum_eq_Inr DEFAULT_LLM_TIMEOUT_MS_def
      DEFAULT_LLM_MAX_RETRIES_def DEFAULT_LLM_MAX_OUTPUT_TOKENS_def
      intro: llm_read_required_nonblank llm_read_optional_positive_int_positive
      dest!: llm_read_positive_int_positive llm_read_non_negative_int_nonneg)

text \<open>Every number and name the environment gives is checked when it is read, except for the temperature: it alone can make the
  options of a review request fail, and a temperature that is no number passes.\<close>

theorem environment_fails_only_by_temperature:
  assumes "LLMClientConfig_from_env to_float env = Inr config"
  shows "review_options config =
    (if float_gt (Fin 0) (llc_temperature config) \<or> float_gt (llc_temperature config) (Fin 2)
     then Inl (ValueError ''LLM temperature must be between 0 and 2.'')
     else Inr \<lparr> ro_model = llc_review_model config, ro_temperature = llc_temperature config,
       ro_max_tokens = llc_max_output_tokens config, ro_timeout_ms = llc_timeout_ms config,
       ro_retry_config = \<lparr> rc_max_retries = llc_max_retries config, rc_backoff_initial_ms = 100, rc_backoff_multiplier = 2 \<rparr> \<rparr>)"
  using config_of_environment_usable [OF assms]
  by (simp add: usable_llm_config_def review_options_def make_LLMRetryConfig_def make_LLMRequestOptions_def
      DEFAULT_RETRY_BACKOFF_MS_def DEFAULT_RETRY_BACKOFF_MULTIPLIER_def)

definition sample_llm_environment :: "string \<Rightarrow> string option" where
  "sample_llm_environment = map_of [(''LLM_PROVIDER'', ''openai''), (''LLM_API_KEY'', '' k1 ''), (''LLM_REVIEW_MODEL'', ''m''),
     (''LLM_MAX_RETRIES'', ''0''), (''LLM_TIMEOUT_MS'', ''  ''), (''LLM_TEMPERATURE'', ''nan'')]"

theorem environment_fails_only_by_temperature_witness:
  "\<exists>config options. LLMClientConfig_from_env (\<lambda>s. if s = ''nan'' then Some NotANum else None) sample_llm_environment = Inr config \<and>
     llc_api_key config = ''k1'' \<and> review_options config = Inr options \<and> ro_temperature options = NotANum"
proof -
  let ?config = "\<lparr> llc_provider = ''openai'', llc_api_key = ''k1'', llc_review_model = ''m'', llc_summary_model = None,
    llc_timeout_ms = 30000, llc_max_retries = 0, llc_max_input_tokens = None, llc_max_output_tokens = 2000, llc_temperature = NotANum \<rparr>"
  have read: "LLMClientConfig_from_env (\<lambda>s. if s = ''nan'' then Some NotANum else None) sample_llm_environment = Inr ?config"
    by code_simp
  from environment_fails_only_by_temperature [OF read] read show ?thesis
    by (simp add: float_gt_def)
qed

end
