(* ===== verification/WorkspaceDisk.thy ===== *)
theory WorkspaceDisk
  imports SemgrepWorkspace "HOL-Library.AList"
begin

text \<open>
  semgrep/workspace.py: the life of the scan workspace on the disk (\<open>create_changed_file_scan_workspace\<close>). The disk is an
  association list from absolute paths, as their segments, to the contents of files; directories are not listed. Making the
  base directory, the name \<open>mkdtemp\<close> chooses, the files that cannot be written and those \<open>rmtree\<close> cannot remove, which it
  ignores, are parameters.
\<close>

type_synonym disk = "(string list \<times> string) list"

section \<open>The base directory\<close>

definition DEFAULT_SEMGREP_SCAN_TEMP_DIR :: string where "DEFAULT_SEMGREP_SCAN_TEMP_DIR = ''firmcode-semgrep''"

definition SemgrepScanWorkspaceConfig_from_env :: "string \<Rightarrow> (string \<Rightarrow> string option) \<Rightarrow> string" where
  \<comment> \<open>the directory of the configuration; the first argument is the system's directory for temporary files\<close>
  "SemgrepScanWorkspaceConfig_from_env tempdir env =
     (let configured_dir = strip (case env ''SEMGREP_SCAN_TEMP_DIR'' of Some v \<Rightarrow> v | None \<Rightarrow> [])
      in if configured_dir \<noteq> [] then path_str configured_dir else path_join tempdir DEFAULT_SEMGREP_SCAN_TEMP_DIR)"

record disk_services =
  dks_prepare :: "string \<Rightarrow> string + string list"       \<comment> \<open>why the directory cannot be made, or its resolved path\<close>
  dks_mkdtemp :: "string list \<Rightarrow> disk \<Rightarrow> string + string list"
  dks_write :: "string list \<Rightarrow> string \<Rightarrow> (string \<times> string option) option"
    \<comment> \<open>path and content of a file: why it or its directory cannot be written, and what is left of it\<close>
  dks_stuck :: "string list \<Rightarrow> bool"                   \<comment> \<open>a file that cannot be removed\<close>

definition assert_path_within :: "string list \<Rightarrow> string list \<Rightarrow> string \<Rightarrow> workspace_error + unit" where
  "assert_path_within path base label = (if prefix base path then Inr ()
     else Inl (SemgrepScanWorkspaceError (label @ '' cannot escape configured temp directory.'')))"

section \<open>Writing and removing the workspace\<close>

fun write_workspace ::
  "disk_services \<Rightarrow> string list \<Rightarrow> workspace_state \<Rightarrow> ChangedFileScanInput list \<Rightarrow> disk \<Rightarrow> (workspace_error + workspace_state) \<times> disk" where
  \<comment> \<open>\<open>_populate_workspace\<close> with what it has written when it raises\<close>
  "write_workspace dks dir st [] disk = (Inr st, disk)"
| "write_workspace dks dir st (f # fs) disk = (case populate_step st f of
      Inl e \<Rightarrow> (Inl e, disk)
    | Inr st' \<Rightarrow>
        if ws_files st' = ws_files st then write_workspace dks dir st' fs disk
        else (let path = dir @ split_char (CHR ''/'') (csi_path f)
          in case dks_write dks path (csi_content f) of
              None \<Rightarrow> write_workspace dks dir st' fs (AList.update path (csi_content f) disk)
            | Some (problem, None) \<Rightarrow> (Inl (WorkspaceOSError problem), disk)
            | Some (problem, Some part) \<Rightarrow> (Inl (WorkspaceOSError problem), AList.update path part disk)))"

definition rmtree :: "(string list \<Rightarrow> bool) \<Rightarrow> string list \<Rightarrow> disk \<Rightarrow> disk" where
  "rmtree stuck dir disk = filter (\<lambda>(path, _). \<not> prefix dir path \<or> stuck path) disk"

definition in_scan_workspace ::
  "disk_services \<Rightarrow> (workspace_error \<Rightarrow> 'e) \<Rightarrow> string \<Rightarrow> ChangedFileScanInput list \<Rightarrow>
   (string list \<Rightarrow> workspace_state \<Rightarrow> disk \<Rightarrow> ('e + 'a) \<times> disk) \<Rightarrow> disk \<Rightarrow> ('e + 'a) \<times> disk" where
  \<comment> \<open>the \<open>with\<close> statement: its body is run in the workspace, which is removed however the body ends\<close>
  "in_scan_workspace dks raised temp_dir changed_files body disk = (case dks_prepare dks temp_dir of
      Inl problem \<Rightarrow> (Inl (raised (WorkspaceOSError problem)), disk)
    | Inr base \<Rightarrow> (case dks_mkdtemp dks base disk of
        Inl problem \<Rightarrow> (Inl (raised (WorkspaceOSError problem)), disk)
      | Inr dir \<Rightarrow> (case assert_path_within dir base ''scan workspace'' of
          Inl e \<Rightarrow> (Inl (raised e), disk)
        | Inr _ \<Rightarrow>
            (case write_workspace dks dir \<lparr> ws_targets = [], ws_skipped = [], ws_seen = [], ws_files = [] \<rparr> changed_files disk of
               (Inl e, disk') \<Rightarrow> (Inl (raised e), rmtree (dks_stuck dks) dir disk')
             | (Inr ws, disk') \<Rightarrow> (case body dir ws disk' of (r, disk'') \<Rightarrow> (r, rmtree (dks_stuck dks) dir disk''))))))"

section \<open>Nothing of the workspace stays\<close>

definition outside :: "string list \<Rightarrow> disk \<Rightarrow> disk" where
  "outside dir disk = filter (\<lambda>(path, _). \<not> prefix dir path) disk"

lemma rmtree_outside: "(\<And>p. \<not> stuck p) \<Longrightarrow> rmtree stuck dir disk = outside dir disk"
  by (simp add: rmtree_def outside_def)

lemma outside_update: "prefix dir path \<Longrightarrow> outside dir (AList.update path c disk) = outside dir disk"
  by (induction disk) (auto simp: outside_def)

lemma outside_fresh: "(\<And>p. p \<in> fst ` set disk \<Longrightarrow> \<not> prefix dir p) \<Longrightarrow> outside dir disk = disk"
  by (induction disk) (auto simp: outside_def)

lemma write_workspace_outside: "outside dir (snd (write_workspace dks dir st fs disk)) = outside dir disk"
  by (induction dks dir st fs disk rule: write_workspace.induct) (auto simp: Let_def outside_update split: sum.split option.split)

definition cannot_write :: "disk_services \<Rightarrow> workspace_error \<Rightarrow> bool" where
  "cannot_write dks e \<longleftrightarrow> (\<exists>path content problem part. dks_write dks path content = Some (problem, part) \<and> e = WorkspaceOSError problem)"

lemma write_workspace_result:
  "fst (write_workspace dks dir st fs disk) = populate_from st fs \<or> (\<exists>e. fst (write_workspace dks dir st fs disk) = Inl e \<and> cannot_write dks e)"
proof (induction dks dir st fs disk rule: write_workspace.induct)
  case (2 dks dir st f fs disk)
  then show ?case by (auto simp: Let_def cannot_write_def split: sum.split option.split)
qed simp

definition fresh_workspaces :: "disk_services \<Rightarrow> disk \<Rightarrow> bool" where
  \<comment> \<open>\<open>mkdtemp\<close> makes an empty directory, and what it makes can be removed\<close>
  "fresh_workspaces dks disk \<longleftrightarrow> (\<forall>p. \<not> dks_stuck dks p) \<and>
     (\<forall>base dir p. dks_mkdtemp dks base disk = Inr dir \<longrightarrow> p \<in> fst ` set disk \<longrightarrow> \<not> prefix dir p)"

lemma workspace_is_removed:
  assumes "fresh_workspaces dks disk"
    and "\<And>dir ws d. outside dir (snd (body dir ws d)) = outside dir d"
  shows "snd (in_scan_workspace dks raised temp_dir changed_files body disk) = disk"
proof -
  have fresh: "outside dir disk = disk" if "dks_mkdtemp dks base disk = Inr dir" for base dir
    using assms(1) that by (intro outside_fresh) (auto simp: fresh_workspaces_def)
  have free: "\<not> dks_stuck dks p" for p using assms(1) by (simp add: fresh_workspaces_def)
  have "outside dir d' = outside dir disk" if "write_workspace dks dir st fs disk = (r, d')" for dir st fs r d'
    using write_workspace_outside [of dir dks st fs disk] that by simp
  moreover have "outside dir d' = outside dir d" if "body dir ws d = (r, d')" for dir ws d r d'
    using assms(2) [of dir ws d] that by simp
  ultimately show ?thesis
    by (auto simp: in_scan_workspace_def rmtree_outside [OF free] fresh split: sum.split prod.split)
qed

definition disk_failure :: "disk_services \<Rightarrow> string \<Rightarrow> disk \<Rightarrow> workspace_error \<Rightarrow> bool" where
  \<comment> \<open>the workspace cannot be made: no base directory, no directory in it, one outside of it, or a file that cannot be written\<close>
  "disk_failure dks temp_dir disk e \<longleftrightarrow> (\<exists>problem. dks_prepare dks temp_dir = Inl problem \<and> e = WorkspaceOSError problem) \<or>
     (\<exists>base problem. dks_prepare dks temp_dir = Inr base \<and> dks_mkdtemp dks base disk = Inl problem \<and> e = WorkspaceOSError problem) \<or>
     (\<exists>base dir. dks_prepare dks temp_dir = Inr base \<and> dks_mkdtemp dks base disk = Inr dir \<and>
        assert_path_within dir base ''scan workspace'' = Inl e) \<or> cannot_write dks e"

lemma workspace_result:
  assumes "dks_prepare dks temp_dir = Inr base" "dks_mkdtemp dks base disk = Inr dir" "prefix base dir"
    and "\<And>ws d. fst (body dir ws d) = result ws"
  shows "fst (in_scan_workspace dks raised temp_dir changed_files body disk) =
      bind_sum (map_sum raised id (populate_workspace changed_files)) result \<or>
    (\<exists>e. cannot_write dks e \<and> fst (in_scan_workspace dks raised temp_dir changed_files body disk) = Inl (raised e))"
proof -
  let ?st = "\<lparr> ws_targets = [], ws_skipped = [], ws_seen = [], ws_files = [] \<rparr>"
  obtain w d' where w: "write_workspace dks dir ?st changed_files disk = (w, d')" by fastforce
  with write_workspace_result [of dks dir ?st changed_files disk]
  consider "w = populate_workspace changed_files" | e where "w = Inl e" "cannot_write dks e"
    by (auto simp: populate_workspace_def)
  then show ?thesis
  proof cases
    case 1
    then show ?thesis
      using assms(1-3) assms(4) [of _ d'] w
      by (cases "populate_workspace changed_files") (simp_all add: in_scan_workspace_def assert_path_within_def case_prod_beta)
  next
    case 2
    then show ?thesis using assms(1-3) w by (auto simp: in_scan_workspace_def assert_path_within_def)
  qed
qed

lemma workspace_cases:
  assumes "\<And>dir ws d. fst (body dir ws d) = result dir ws"
  obtains e where "disk_failure dks temp_dir disk e" "fst (in_scan_workspace dks raised temp_dir changed_files body disk) = Inl (raised e)"
  | base dir where "dks_prepare dks temp_dir = Inr base" "dks_mkdtemp dks base disk = Inr dir" "prefix base dir"
      "fst (in_scan_workspace dks raised temp_dir changed_files body disk) =
        bind_sum (map_sum raised id (populate_workspace changed_files)) (result dir)"
proof (cases "dks_prepare dks temp_dir")
  case (Inl problem)
  then show ?thesis by (intro that(1) [of "WorkspaceOSError problem"]) (simp_all add: disk_failure_def in_scan_workspace_def)
next
  case base: (Inr base)
  show ?thesis
  proof (cases "dks_mkdtemp dks base disk")
    case (Inl problem)
    with base show ?thesis by (intro that(1) [of "WorkspaceOSError problem"]) (simp_all add: disk_failure_def in_scan_workspace_def)
  next
    case dir: (Inr dir)
    show ?thesis
    proof (cases "prefix base dir")
      case False
      with base dir show ?thesis
        by (intro that(1) [of "SemgrepScanWorkspaceError (''scan workspace'' @ '' cannot escape configured temp directory.'')"])
          (auto simp: disk_failure_def in_scan_workspace_def assert_path_within_def)
    next
      case True
      from workspace_result [OF base dir True, of body "result dir" raised changed_files, OF assms] that base dir True show ?thesis
        by (auto simp: disk_failure_def)
    qed
  qed
qed

end
