(* ===== verification/SemgrepStage.thy ===== *)
theory SemgrepStage
  imports ReviewRun SemgrepRunner WorkspaceDisk
begin

text \<open>
  The Semgrep stage of a review with the runner the pipeline uses by default and with the disk it works on: which artifact it
  gives, when it raises, and that the sources it wrote are gone when it ends.
\<close>

section \<open>The stage on the disk\<close>

definition escaped_exception :: "py_error \<Rightarrow> worker_exception" where
  "escaped_exception = (\<lambda>(kind, message). \<lparr> we_class = kind, we_text = message, we_error_code = None \<rparr>)"

definition process_exception :: "semgrep_process_error \<Rightarrow> worker_exception" where
  "process_exception e = (case e of
      SemgrepProcessError m \<Rightarrow> \<lparr> we_class = ''SemgrepProcessError'', we_text = m, we_error_code = None \<rparr>
    | OtherError problem \<Rightarrow> escaped_exception problem)"

definition absolute_path :: "string list \<Rightarrow> string" where
  "absolute_path dir = concat (map (\<lambda>segment. CHR ''/'' # segment) dir)"

definition default_semgrep_runner :: "runner_services \<Rightarrow> string list \<Rightarrow> string \<Rightarrow> workspace_state \<Rightarrow> worker_exception + obj" where
  \<comment> \<open>how both pipelines call \<open>run_semgrep_scan\<close>, in the directory of the workspace\<close>
  "default_semgrep_runner rns dir review_run_id workspace =
     map_sum process_exception ssr_artifact
       (run_semgrep_scan rns review_run_id (ws_targets workspace) (Some (SemgrepScanConfig_from_env (rns_env rns))) (Some (absolute_path dir)) None)"

definition stage_in_workspace ::
  "(string list \<Rightarrow> string \<Rightarrow> workspace_state \<Rightarrow> worker_exception + obj) \<Rightarrow> (string list \<Rightarrow> disk \<Rightarrow> disk) \<Rightarrow> string \<Rightarrow>
   string list \<Rightarrow> workspace_state \<Rightarrow> disk \<Rightarrow> (worker_exception + obj option) \<times> disk" where
  \<comment> \<open>the body of the \<open>with\<close> statement; None is the early return, \<open>process_effect\<close> what the process does to the disk\<close>
  "stage_in_workspace semgrep_runner process_effect review_run_id dir workspace disk =
     (if ws_targets workspace = [] then (Inr None, disk)
      else (map_sum id Some (semgrep_runner dir review_run_id workspace), process_effect dir disk))"

definition run_review_semgrep_on_disk ::
  "disk_services \<Rightarrow> string \<Rightarrow> (string list \<Rightarrow> string \<Rightarrow> workspace_state \<Rightarrow> worker_exception + obj) \<Rightarrow> (string list \<Rightarrow> disk \<Rightarrow> disk) \<Rightarrow>
   string \<Rightarrow> ChangedFile list \<Rightarrow> SkippedFile list \<Rightarrow> disk \<Rightarrow> (worker_exception + obj) \<times> disk" where
  "run_review_semgrep_on_disk dks temp_dir semgrep_runner process_effect review_run_id changed_files skipped_files disk =
     (let scan_inputs = List.map_filter review_scan_input changed_files
      in if scan_inputs = [] then (Inr (review_empty_semgrep_artifact review_run_id skipped_files), disk)
         else (case in_scan_workspace dks review_workspace_exception temp_dir scan_inputs
                 (stage_in_workspace semgrep_runner process_effect review_run_id) disk of
             (Inl e, disk') \<Rightarrow> (if we_class e = ''SemgrepProcessError''
                then Inr (semgrep_failure_artifact review_run_id ''semgrep_process_error'' (we_text e)) else Inl e, disk')
           | (Inr None, disk') \<Rightarrow> (Inr (review_empty_semgrep_artifact review_run_id skipped_files), disk')
           | (Inr (Some artifact), disk') \<Rightarrow> (Inr (merge_skipped_files skipped_files artifact), disk')))"

definition keeps_outside :: "(string list \<Rightarrow> disk \<Rightarrow> disk) \<Rightarrow> bool" where
  \<comment> \<open>the process writes nothing but below its directory\<close>
  "keeps_outside process_effect \<longleftrightarrow> (\<forall>dir d. outside dir (process_effect dir d) = outside dir d)"

lemma stage_keeps_outside:
  "keeps_outside process_effect \<Longrightarrow>
   outside dir (snd (stage_in_workspace semgrep_runner process_effect rid dir ws d)) = outside dir d"
  by (simp add: stage_in_workspace_def keeps_outside_def)

lemma workspace_exception_class: "we_class (review_workspace_exception e) \<noteq> ''SemgrepProcessError''"
  by (simp add: review_workspace_exception_def split: workspace_error.split)

definition stage_result :: "(string list \<Rightarrow> string \<Rightarrow> workspace_state \<Rightarrow> worker_exception + obj) \<Rightarrow> string \<Rightarrow> string list \<Rightarrow> workspace_state \<Rightarrow>
   worker_exception + obj option" where
  \<comment> \<open>what the body of the \<open>with\<close> statement gives, whatever is on the disk\<close>
  "stage_result semgrep_runner rid dir ws = (if ws_targets ws = [] then Inr None else map_sum id Some (semgrep_runner dir rid ws))"

lemma stage_in_workspace_result: "fst (stage_in_workspace semgrep_runner process_effect rid dir ws disk) = stage_result semgrep_runner rid dir ws"
  by (simp add: stage_in_workspace_def stage_result_def)

lemma review_stage_result:
  assumes "fst (in_scan_workspace dks review_workspace_exception temp_dir (List.map_filter review_scan_input changed)
      (stage_in_workspace semgrep_runner process_effect rid) disk) =
    bind_sum (map_sum review_workspace_exception id (populate_workspace (List.map_filter review_scan_input changed))) (stage_result semgrep_runner rid dir)"
  shows "fst (run_review_semgrep_on_disk dks temp_dir semgrep_runner process_effect rid changed skips disk) =
    run_review_semgrep (semgrep_runner dir) rid changed skips"
proof -
  let ?inputs = "List.map_filter review_scan_input changed"
  obtain r d where run: "in_scan_workspace dks review_workspace_exception temp_dir ?inputs
      (stage_in_workspace semgrep_runner process_effect rid) disk = (r, d)"
    by fastforce
  with assms workspace_exception_class show ?thesis
    by (cases "populate_workspace ?inputs")
      (auto simp: run_review_semgrep_on_disk_def run_review_semgrep_def Let_def stage_result_def split: sum.splits option.splits)
qed

lemma review_stage_failure:
  assumes "fst (in_scan_workspace dks review_workspace_exception temp_dir (List.map_filter review_scan_input changed)
      (stage_in_workspace semgrep_runner process_effect rid) disk) = Inl (review_workspace_exception e)"
    and "List.map_filter review_scan_input changed \<noteq> []"
  shows "fst (run_review_semgrep_on_disk dks temp_dir semgrep_runner process_effect rid changed skips disk) = Inl (review_workspace_exception e)"
  using assms workspace_exception_class
  by (auto simp: run_review_semgrep_on_disk_def Let_def split: prod.splits)

text \<open>C6: The Semgrep stage of a review leaves no source file behind: however it ends (a path is refused, a file cannot be written, the
  runner raises or answers), the disk is afterwards as it was before, provided the temporary directory was fresh, could be
  removed, and the Semgrep process wrote nothing elsewhere. And if the directory could be made, the stage either raises because a file
  could not be written, or gives what the pipeline's model without a disk gives for the runner in that directory.\<close>

theorem scan_leaves_no_sources:
  assumes "fresh_workspaces dks disk" and "keeps_outside process_effect"
  shows "snd (run_review_semgrep_on_disk dks temp_dir semgrep_runner process_effect rid changed skips disk) = disk \<and>
    (\<forall>base dir. dks_prepare dks temp_dir = Inr base \<longrightarrow> dks_mkdtemp dks base disk = Inr dir \<longrightarrow> prefix base dir \<longrightarrow>
      fst (run_review_semgrep_on_disk dks temp_dir semgrep_runner process_effect rid changed skips disk) =
        run_review_semgrep (semgrep_runner dir) rid changed skips \<or>
      (\<exists>e. cannot_write dks e \<and> fst (run_review_semgrep_on_disk dks temp_dir semgrep_runner process_effect rid changed skips disk) =
        Inl (review_workspace_exception e)))"
proof (intro conjI allI impI)
  let ?inputs = "List.map_filter review_scan_input changed"
  have "snd (in_scan_workspace dks review_workspace_exception temp_dir ?inputs (stage_in_workspace semgrep_runner process_effect rid) disk) = disk"
    by (rule workspace_is_removed [OF assms(1) stage_keeps_outside [OF assms(2)]])
  then show "snd (run_review_semgrep_on_disk dks temp_dir semgrep_runner process_effect rid changed skips disk) = disk"
    by (auto simp: run_review_semgrep_on_disk_def Let_def split: prod.splits sum.splits option.splits)
  fix base dir
  assume "dks_prepare dks temp_dir = Inr base" "dks_mkdtemp dks base disk = Inr dir" "prefix base dir"
  note result = workspace_result [OF this, of "stage_in_workspace semgrep_runner process_effect rid" "stage_result semgrep_runner rid dir"
      review_workspace_exception ?inputs, OF stage_in_workspace_result]
  show "fst (run_review_semgrep_on_disk dks temp_dir semgrep_runner process_effect rid changed skips disk) =
        run_review_semgrep (semgrep_runner dir) rid changed skips \<or>
      (\<exists>e. cannot_write dks e \<and> fst (run_review_semgrep_on_disk dks temp_dir semgrep_runner process_effect rid changed skips disk) =
        Inl (review_workspace_exception e))"
  proof (cases "?inputs = []")
    case True
    then show ?thesis by (simp add: run_review_semgrep_on_disk_def run_review_semgrep_def)
  next
    case False
    with result review_stage_result review_stage_failure show ?thesis by blast
  qed
qed

definition sample_stage_file :: ChangedFile where
  "sample_stage_file = \<lparr> cf_path = ''a.py'', cf_previous_path = None, cf_status = ''modified'', cf_additions = 1, cf_deletions = 0,
     cf_patch = None, cf_language = Some ''python'', cf_content = Some ''x = 1'', cf_size_bytes = Some 5, cf_changed_new_lines = [1],
     cf_hunks = [] \<rparr>"

definition sample_disk_services :: disk_services where
  "sample_disk_services = \<lparr> dks_prepare = (\<lambda>dir. Inr [''tmp'', dir]), dks_mkdtemp = (\<lambda>base d. Inr [''tmp'', ''scans'', ''scan-1'']),
     dks_write = (\<lambda>path content. None), dks_stuck = (\<lambda>p. False) \<rparr>"

definition sample_disk :: disk where "sample_disk = [([''tmp'', ''other''], ''y'')]"

definition sample_process_effect :: "string list \<Rightarrow> disk \<Rightarrow> disk" where
  "sample_process_effect dir d = AList.update (dir @ [''cache'']) ''c'' d"

theorem scan_leaves_no_sources_witness:
  "run_review_semgrep_on_disk sample_disk_services ''scans'' (default_semgrep_runner sample_runner) sample_process_effect
       ''run-1'' [sample_stage_file] [] sample_disk =
     (run_review_semgrep (default_semgrep_runner sample_runner [''tmp'', ''scans'', ''scan-1'']) ''run-1'' [sample_stage_file] [], sample_disk) \<and>
   length (snd (write_workspace sample_disk_services [''tmp'', ''scans'', ''scan-1''] \<lparr> ws_targets = [], ws_skipped = [], ws_seen = [], ws_files = [] \<rparr>
     (List.map_filter review_scan_input [sample_stage_file]) sample_disk)) = 2"
proof
  have fresh: "fresh_workspaces sample_disk_services sample_disk"
    by (auto simp: fresh_workspaces_def sample_disk_services_def sample_disk_def)
  have keeps: "keeps_outside sample_process_effect"
    by (auto simp: keeps_outside_def sample_process_effect_def intro: outside_update)
  have made: "dks_prepare sample_disk_services ''scans'' = Inr [''tmp'', ''scans'']"
    "dks_mkdtemp sample_disk_services [''tmp'', ''scans''] sample_disk = Inr [''tmp'', ''scans'', ''scan-1'']"
    "\<not> cannot_write sample_disk_services e" for e
    by (simp_all add: sample_disk_services_def cannot_write_def)
  from scan_leaves_no_sources [OF fresh keeps, where temp_dir = "''scans''" and rid = "''run-1''" and changed = "[sample_stage_file]"
      and skips = "[]" and semgrep_runner = "default_semgrep_runner sample_runner"] made
  show "run_review_semgrep_on_disk sample_disk_services ''scans'' (default_semgrep_runner sample_runner) sample_process_effect
       ''run-1'' [sample_stage_file] [] sample_disk =
     (run_review_semgrep (default_semgrep_runner sample_runner [''tmp'', ''scans'', ''scan-1'']) ''run-1'' [sample_stage_file] [], sample_disk)"
    by (simp add: prod_eq_iff)
qed code_simp

section \<open>The artifact of a review\<close>

definition skipped_record :: "SkippedFile \<Rightarrow> SemgrepSkippedPath" where
  "skipped_record file = \<lparr> sgs_path = sk_path file, sgs_reason = sk_reason file, sgs_detail = Some (sk_detail file) \<rparr>"

definition named_skip :: "SkippedFile \<Rightarrow> bool" where
  "named_skip file \<longleftrightarrow> nonblank (sk_path file) \<and> nonblank (sk_reason file) \<and> nonblank (sk_detail file)"

definition empty_artifact :: "string \<Rightarrow> SemgrepArtifact" where
  "empty_artifact rid = \<lparr> sga_schema_version = SEMGREP_ARTIFACT_SCHEMA_VERSION, sga_review_run_id = rid, sga_tool_version = None,
     sga_exit_code = 0, sga_duration_ms = 0, sga_findings = [], sga_errors = [], sga_scanned_paths = [], sga_skipped_paths = [] \<rparr>"

definition with_skipped :: "SkippedFile list \<Rightarrow> SemgrepArtifact \<Rightarrow> SemgrepArtifact" where
  "with_skipped skips a = a\<lparr>sga_skipped_paths := sga_skipped_paths a @ map skipped_record skips\<rparr>"

lemma skipped_to_semgrep_path_enc: "skipped_to_semgrep_path file = enc_semgrep_skipped_path (skipped_record file)"
  by (simp add: skipped_to_semgrep_path_def enc_semgrep_skipped_path_def skipped_record_def)

lemma empty_semgrep_enc: "review_empty_semgrep_artifact rid skips = enc_SemgrepArtifact (with_skipped skips (empty_artifact rid))"
  by (simp add: review_empty_semgrep_artifact_def enc_SemgrepArtifact_def with_skipped_def empty_artifact_def
      SEMGREP_ARTIFACT_SCHEMA_VERSION_def skipped_to_semgrep_path_enc comp_def)

lemma merge_skipped_enc: "merge_skipped_files skips (enc_SemgrepArtifact a) = enc_SemgrepArtifact (with_skipped skips a)"
  by (simp add: merge_skipped_files_def enc_SemgrepArtifact_def with_skipped_def Let_def pv_object_def pv_list_def
      skipped_to_semgrep_path_enc comp_def)

lemma with_skipped_ok: "ok_SemgrepArtifact a \<Longrightarrow> list_all named_skip skips \<Longrightarrow> ok_SemgrepArtifact (with_skipped skips a)"
  by (auto simp: with_skipped_def ok_SemgrepArtifact_def list_all_iff named_skip_def skipped_record_def ok_semgrep_skipped_path_def)

lemma empty_artifact_ok: "nonblank rid \<Longrightarrow> ok_SemgrepArtifact (empty_artifact rid)"
  by (simp add: ok_SemgrepArtifact_def empty_artifact_def)

definition default_timeout_ms :: "runner_services \<Rightarrow> int" where
  "default_timeout_ms rns = ssc_timeout_ms (SemgrepScanConfig_from_env (rns_env rns))"

definition runner_fails :: "runner_services \<Rightarrow> string list \<Rightarrow> worker_exception \<Rightarrow> bool" where
  \<comment> \<open>one of the exceptions the runner does not catch, in this directory\<close>
  "runner_fails rns dir e \<longleftrightarrow>
     (\<exists>problem. runner_escape rns (default_timeout_ms rns) (Some (absolute_path dir)) problem \<and> e = escaped_exception problem)"

definition foreign_errors :: "runner_services \<Rightarrow> bool" where
  \<comment> \<open>nothing outside the runner raises its own exception\<close>
  "foreign_errors rns \<longleftrightarrow> (\<forall>dir e. runner_fails rns dir e \<longrightarrow> we_class e \<noteq> ''SemgrepProcessError'')"

lemma default_runner_cases:
  assumes "nonblank rid" "ws_targets ws \<noteq> []"
  obtains a where "default_semgrep_runner rns dir rid ws = Inr (enc_SemgrepArtifact a)" "ok_SemgrepArtifact a" "sga_review_run_id a = rid"
  | e where "default_semgrep_runner rns dir rid ws = Inl e" "runner_fails rns dir e"
proof -
  let ?config = "Some (SemgrepScanConfig_from_env (rns_env rns))" and ?cwd = "Some (absolute_path dir)"
  let ?scan = "run_semgrep_scan rns rid (ws_targets ws) ?config ?cwd None"
  have positive: "0 < ssc_timeout_ms (SemgrepScanConfig_from_env (rns_env rns))"
    using semgrep_config_from_env_is_usable by (simp add: usable_config_def)
  show ?thesis
  proof (cases ?scan)
    case (Inl e)
    from scan_error_cases [OF Inl] assms(2) positive obtain problem where "e = OtherError problem"
        "runner_escape rns (default_timeout_ms rns) ?cwd problem"
      by (cases e) (auto simp: used_scan_config_def default_timeout_ms_def)
    then have "runner_fails rns dir (escaped_exception problem)" unfolding runner_fails_def by blast
    with Inl \<open>e = OtherError problem\<close> that(2) show ?thesis by (simp add: default_semgrep_runner_def process_exception_def)
  next
    case (Inr result)
    from process_output_artifact [OF assms(1) scan_result_cases(2) [OF Inr]] that(1) Inr show ?thesis
      by (auto simp: default_semgrep_runner_def)
  qed
qed

text \<open>What the body of the \<open>with\<close> statement can come to, for both pipelines.\<close>

lemma default_stage_cases:
  fixes raised :: "workspace_error \<Rightarrow> worker_exception"
  assumes "nonblank rid"
    and r_def: "r = fst (in_scan_workspace dks raised temp_dir inputs (stage_in_workspace (default_semgrep_runner rns) process_effect rid) disk)"
  obtains (disk) e where "disk_failure dks temp_dir disk e" "r = Inl (raised e)"
  | (refused) problem where "populate_workspace inputs = Inl problem" "r = Inl (raised problem)"
  | (nothing) "r = Inr None"
  | (fails) base dir e where "dks_prepare dks temp_dir = Inr base" "dks_mkdtemp dks base disk = Inr dir" "runner_fails rns dir e" "r = Inl e"
  | (artifact) a where "ok_SemgrepArtifact a" "sga_review_run_id a = rid" "r = Inr (Some (enc_SemgrepArtifact a))"
proof (rule workspace_cases [of "stage_in_workspace (default_semgrep_runner rns) process_effect rid"
      "stage_result (default_semgrep_runner rns) rid" dks temp_dir disk raised inputs, OF stage_in_workspace_result])
  fix e
  assume "disk_failure dks temp_dir disk e" "fst (in_scan_workspace dks raised temp_dir inputs
    (stage_in_workspace (default_semgrep_runner rns) process_effect rid) disk) = Inl (raised e)"
  with disk show thesis by (simp add: r_def)
next
  fix base dir
  assume made: "dks_prepare dks temp_dir = Inr base" "dks_mkdtemp dks base disk = Inr dir"
    and "fst (in_scan_workspace dks raised temp_dir inputs (stage_in_workspace (default_semgrep_runner rns) process_effect rid) disk) =
      bind_sum (map_sum raised id (populate_workspace inputs)) (stage_result (default_semgrep_runner rns) rid dir)"
  then have r: "r = bind_sum (map_sum raised id (populate_workspace inputs)) (stage_result (default_semgrep_runner rns) rid dir)"
    by (simp add: r_def)
  show thesis
  proof (cases "populate_workspace inputs")
    case (Inl problem)
    with r refused show thesis by simp
  next
    case (Inr ws)
    with r have r: "r = stage_result (default_semgrep_runner rns) rid dir ws" by simp
    show thesis
    proof (cases "ws_targets ws = []")
      case True
      show thesis by (rule nothing) (simp add: r True stage_result_def)
    next
      case False
      with assms(1) show thesis
        by (rule default_runner_cases [of rid ws rns dir]) (use r False made fails artifact in \<open>simp_all add: stage_result_def\<close>)
    qed
  qed
qed


definition sample_skipped_file :: SkippedFile where
  "sample_skipped_file = \<lparr> sk_path = ''b.bin'', sk_previous_path = None, sk_status = ''added'', sk_reason = ''unsupported'',
     sk_detail = ''No parser.'', sk_excluded_from_semgrep = True, sk_excluded_from_tree_sitter = True, sk_excluded_from_llm_context = True \<rparr>"

lemma sample_runner_never_fails: "\<not> runner_fails sample_runner dir e"
proof -
  have "is_utf8 [0x7B]" "is_utf8 []" by code_simp+
  then show ?thesis
    by (auto simp: runner_fails_def runner_escape_def sample_runner_def process_escape_def output_escape_def)
qed

lemma sample_disk_never_fails: "\<not> disk_failure sample_disk_services ''scans'' sample_disk e"
  by (auto simp: disk_failure_def sample_disk_services_def cannot_write_def assert_path_within_def)


text \<open>
  A process that prints one byte that is not UTF-8 ends the whole stage, where a process that fails, times out or prints no JSON gives an
  artifact with an error.
\<close>

lemma binary_output_raises:
  "fst (run_review_semgrep_on_disk sample_disk_services ''scans'' (default_semgrep_runner binary_runner) sample_process_effect
     ''run-1'' [sample_stage_file] [] sample_disk) = Inl \<lparr> we_class = ''UnicodeDecodeError'', we_text = [], we_error_code = None \<rparr>"
  by code_simp

end
