(* ===== verification/ScanStage.thy ===== *)
theory ScanStage
  imports SemgrepStage ScanRun SecretRedaction
begin

text \<open>
  The Semgrep stage of a codebase scan with the runner the pipeline uses by default and with the disk it works on: redaction keeps a
  Semgrep artifact within its contract, and so does the list of skipped paths that is added to it.
\<close>

section \<open>Texts without the characters a secret needs\<close>

lemma star_runs_shrinks: "(pr, t) \<in> set (star_runs p prev s) \<Longrightarrow> set t \<subseteq> set s"
  by (induction p prev s rule: star_runs.induct) (auto split: if_splits)

lemma run_re_shrinks: "t \<in> set (run_re r s) \<Longrightarrow> set (ms_rest t) \<subseteq> set (ms_rest s)"
proof (induction r arbitrary: s t)
  case (Cls p)
  then show ?case by (cases "ms_rest s") (auto split: if_splits)
next
  case (Seq a b)
  then show ?case by fastforce
qed (auto split: if_splits dest!: star_runs_shrinks, blast+)

definition misses :: "char set \<Rightarrow> re \<Rightarrow> bool" where
  \<comment> \<open>no text of these characters begins with a match\<close>
  "misses cs r \<longleftrightarrow> (\<forall>s. set (ms_rest s) \<subseteq> cs \<longrightarrow> run_re r s = [])"

lemma misses_Cls: "(\<And>c. c \<in> cs \<Longrightarrow> \<not> p c) \<Longrightarrow> misses cs (Cls p)"
  by (auto simp: misses_def split: list.split)

lemma misses_Seq: "misses cs a \<or> misses cs b \<Longrightarrow> misses cs (Seq a b)"
  using run_re_shrinks by (fastforce simp: misses_def)

lemma misses_seqs: "\<exists>r \<in> set rs. misses cs r \<Longrightarrow> misses cs (seqs rs)"
  by (induction rs) (auto simp: seqs_def intro: misses_Seq)

lemma misses_lit: "\<exists>c \<in> set w. c \<notin> cs \<Longrightarrow> misses cs (lit w)"
  by (induction w) (auto simp: lit_def intro!: misses_Seq misses_Cls)

lemma misses_ilit: "\<exists>c \<in> set w. \<forall>d \<in> cs. lower_char d \<noteq> lower_char c \<Longrightarrow> misses cs (ilit w)"
  by (induction w) (auto simp: ilit_def intro!: misses_Seq misses_Cls)

lemma sub_from_misses: "misses cs r \<Longrightarrow> set s \<subseteq> cs \<Longrightarrow> sub_from r f prev s = (s, 0)"
proof (induction s arbitrary: prev)
  case (Cons c s)
  then have "match_at r prev (c # s) = None" by (simp add: misses_def match_at_def)
  with Cons show ?case by simp
qed simp

lemma plain_text_not_redacted:
  assumes "set s \<subseteq> set ''abcdefghijklmnopqrstuvwxyz0123456789-/''"
  shows "redact_secret_like_text s = s"
proof -
  let ?cs = "set ''abcdefghijklmnopqrstuvwxyz0123456789-/''"
  have "misses ?cs private_key_re" "misses ?cs github_token_re" "misses ?cs aws_key_re"
    unfolding private_key_re_def github_token_re_def aws_key_re_def
    by (rule misses_seqs, simp add: misses_lit)+
  moreover have "misses ?cs secret_assignment_re"
    unfolding secret_assignment_re_def
    by (rule misses_seqs, rule bexI [of _ "Cls (\<lambda>c. c = CHR '':'' \<or> c = CHR ''='')"]) (auto intro: misses_Cls)
  moreover have "misses ?cs bearer_re"
  proof -
    have "CHR '':'' \<in> set ''authorization:''" "\<forall>d \<in> ?cs. lower_char d \<noteq> lower_char (CHR '':'')" by code_simp+
    then have "misses ?cs (ilit ''authorization:'')" by (intro misses_ilit) blast
    then show ?thesis unfolding bearer_re_def by (intro misses_seqs) simp
  qed
  ultimately show ?thesis
    using sub_from_misses [OF _ assms] by (simp add: redact_passes re_sub_def re_subn_def)
qed

lemma redaction_keeps_names:
  "redact_secret_like_text ''semgrep-artifact/v1'' = ''semgrep-artifact/v1''"
  "redact_secret_like_text ''info'' = ''info''" "redact_secret_like_text ''low'' = ''low''"
  "redact_secret_like_text ''medium'' = ''medium''" "redact_secret_like_text ''high'' = ''high''"
  "redact_secret_like_text ''critical'' = ''critical''" "redact_secret_like_text ''warning'' = ''warning''"
  "redact_secret_like_text ''error'' = ''error''"
  by (rule plain_text_not_redacted, simp)+
section \<open>Redaction keeps the contract\<close>

lemma sub_from_nonblank: "nonblank s \<Longrightarrow> nonblank m \<Longrightarrow> nonblank (fst (sub_from r (\<lambda>_. m) prev s))"
proof (induction r "\<lambda>_ :: match_state. m" prev s rule: sub_from.induct)
  case (2 r prev c cs)
  show ?case
  proof (cases "\<exists>t. match_at r prev (c # cs) = Some t \<and> length (ms_rest t) < length (c # cs)")
    case True
    with "2.prems"(2) show ?thesis by (auto simp: nonblank_iff split: prod.split)
  next
    case False
    then have "fst (sub_from r (\<lambda>_. m) prev (c # cs)) = c # fst (sub_from r (\<lambda>_. m) (Some c) cs)"
      by (auto split: option.splits prod.splits)
    with 2 False show ?thesis by (cases "match_at r prev (c # cs)") auto
  qed
qed simp

lemma nonblank_marker: "nonblank (bracketed ''REDACTED_SECRET'')"
  by code_simp

lemma nonblank_redacted [simp]: "nonblank s \<Longrightarrow> nonblank (redact_secret_like_text s)"
  by (simp add: redact_passes re_sub_def re_subn_def sub_from_nonblank nonblank_marker)

lemma pred_option_redacted: "pred_option nonblank x \<Longrightarrow> pred_option nonblank (map_option redact_secret_like_text x)"
  by (cases x) simp_all

abbreviation redacted :: "json \<Rightarrow> json" where "redacted j \<equiv> fst (redact_value j)"

lemma redacted_str [simp]: "redacted (JStr s) = JStr (redact_secret_like_text s)"
  by (simp add: redact_secret_like_text_def split: prod.split)

lemma redacted_simps [simp]:
  "redacted (JInt n) = JInt n" "redacted JNull = JNull" "redacted (JList xs) = JList (map redacted xs)"
  by (simp_all add: Let_def)

lemma redacted_obj [simp]: "redacted (JObj kvs) = JObj (map (map_prod id redacted) kvs)"
  by (simp add: Let_def case_prod_beta map_prod_def comp_def)

declare redact_value.simps [simp del]

lemma redacted_opt [simp]:
  "redacted (opt_json JStr x) = opt_json JStr (map_option redact_secret_like_text x)" "redacted (opt_json JInt y) = opt_json JInt y"
  by (cases x; simp) (cases y; simp)

lemmas redaction_literals = SEVERITIES_def SEMGREP_ARTIFACT_SCHEMA_VERSION_def

definition redacted_finding :: "SemgrepFinding \<Rightarrow> SemgrepFinding" where
  "redacted_finding f = f\<lparr>sgf_id := redact_secret_like_text (sgf_id f), sgf_rule_id := redact_secret_like_text (sgf_rule_id f),
     sgf_path := redact_secret_like_text (sgf_path f), sgf_source_severity := redact_secret_like_text (sgf_source_severity f),
     sgf_message := redact_secret_like_text (sgf_message f), sgf_fingerprint := map_option redact_secret_like_text (sgf_fingerprint f),
     sgf_lines := redact_secret_like_text (sgf_lines f), sgf_metadata := map (map_prod id redacted) (sgf_metadata f),
     sgf_fix := map_option redact_secret_like_text (sgf_fix f)\<rparr>"

definition redacted_error :: "SemgrepError \<Rightarrow> SemgrepError" where
  "redacted_error e = e\<lparr>sge_code := redact_secret_like_text (sge_code e), sge_message := redact_secret_like_text (sge_message e),
     sge_path := map_option redact_secret_like_text (sge_path e)\<rparr>"

definition redacted_skip :: "SemgrepSkippedPath \<Rightarrow> SemgrepSkippedPath" where
  "redacted_skip s = \<lparr> sgs_path = redact_secret_like_text (sgs_path s), sgs_reason = redact_secret_like_text (sgs_reason s),
     sgs_detail = map_option redact_secret_like_text (sgs_detail s) \<rparr>"

definition redacted_artifact :: "SemgrepArtifact \<Rightarrow> SemgrepArtifact" where
  "redacted_artifact a = a\<lparr>sga_review_run_id := redact_secret_like_text (sga_review_run_id a),
     sga_tool_version := map_option redact_secret_like_text (sga_tool_version a), sga_findings := map redacted_finding (sga_findings a),
     sga_errors := map redacted_error (sga_errors a), sga_scanned_paths := map redact_secret_like_text (sga_scanned_paths a),
     sga_skipped_paths := map redacted_skip (sga_skipped_paths a)\<rparr>"

lemma redacted_position [simp]: "redacted (enc_position p) = enc_position p"
  by (simp add: enc_position_def)

lemma redacted_finding_enc: "ok_semgrep_finding f \<Longrightarrow> redacted (enc_semgrep_finding f) = enc_semgrep_finding (redacted_finding f)"
  by (auto simp: enc_semgrep_finding_def redacted_finding_def ok_semgrep_finding_def redaction_keeps_names redaction_literals)

lemma redacted_error_enc: "ok_semgrep_error e \<Longrightarrow> redacted (enc_semgrep_error e) = enc_semgrep_error (redacted_error e)"
  by (auto simp: enc_semgrep_error_def redacted_error_def ok_semgrep_error_def redaction_keeps_names)

lemma redacted_skip_enc: "redacted (enc_semgrep_skipped_path s) = enc_semgrep_skipped_path (redacted_skip s)"
  by (simp add: enc_semgrep_skipped_path_def redacted_skip_def)

lemma redacted_artifact_enc:
  assumes "ok_SemgrepArtifact a"
  shows "pv_object (redacted (JObj (enc_SemgrepArtifact a))) = enc_SemgrepArtifact (redacted_artifact a)"
proof -
  from assms have "map (redacted \<circ> enc_semgrep_finding) (sga_findings a) = map (enc_semgrep_finding \<circ> redacted_finding) (sga_findings a)"
    "map (redacted \<circ> enc_semgrep_error) (sga_errors a) = map (enc_semgrep_error \<circ> redacted_error) (sga_errors a)"
    by (simp_all add: ok_SemgrepArtifact_def list_all_iff redacted_finding_enc redacted_error_enc)
  moreover have "redact_secret_like_text (sga_schema_version a) = sga_schema_version a"
    using assms by (simp add: ok_SemgrepArtifact_def redaction_literals redaction_keeps_names)
  ultimately show ?thesis
    by (simp add: enc_SemgrepArtifact_def redacted_artifact_def pv_object_def redacted_skip_enc comp_def)
qed

lemma redacted_artifact_ok: "ok_SemgrepArtifact a \<Longrightarrow> ok_SemgrepArtifact (redacted_artifact a)"
  by (auto simp: ok_SemgrepArtifact_def redacted_artifact_def list_all_iff ok_semgrep_finding_def redacted_finding_def ok_semgrep_error_def
      redacted_error_def ok_semgrep_skipped_path_def redacted_skip_def intro!: pred_option_redacted)

section \<open>The skipped paths of a plan\<close>

definition named_path :: "CodebaseSkippedPath \<Rightarrow> bool" where
  "named_path item \<longleftrightarrow> nonblank (csp_path item) \<and> nonblank (csp_reason item) \<and> nonblank (csp_detail item)"

definition skipped_path_record :: "CodebaseSkippedPath \<Rightarrow> SemgrepSkippedPath" where
  "skipped_path_record item = \<lparr> sgs_path = csp_path item, sgs_reason = csp_reason item, sgs_detail = Some (csp_detail item) \<rparr>"

lemma named_scan_skip [simp]: "named_path (scan_skip path reason detail n) \<longleftrightarrow> nonblank path \<and> nonblank reason \<and> nonblank detail"
  by (simp add: named_path_def scan_skip_def)

lemma skip_before_fetch_named:
  "skip_before_fetch config path f language = Some s \<Longrightarrow> nonblank path \<Longrightarrow> named_path s"
  by (auto simp: skip_before_fetch_def Let_def is_space_def split: if_splits)

lemma accept_content_named:
  "nonblank path \<Longrightarrow> list_all named_path (pst_skipped st) \<Longrightarrow>
   list_all named_path (pst_skipped (accept_content config path f language fetched st))"
  by (auto simp: accept_content_def is_space_def split: option.split prod.split)

lemma plan_step_named:
  assumes "plan_step config fetch_content f st c = Some (Inr st', c')" and "list_all named_path (pst_skipped st)"
  shows "list_all named_path (pst_skipped st')"
proof -
  from assms(1) have "nonblank (rtf_path f)" and path: "normalize_repo_path (rtf_path f) = Inr (rtf_path f)"
    by (auto simp: plan_step_def act_eq_Some normalize_repo_path_Inr repository_path_def)
  with assms show ?thesis
    by (auto simp: plan_step_def act_eq_Some Let_def is_space_def
        dest: skip_before_fetch_named intro: accept_content_named split: option.splits if_splits)
qed

lemma plan_files_named:
  "plan_files config fetch_content fs st c = Some (Inr st', c') \<Longrightarrow> list_all named_path (pst_skipped st) \<Longrightarrow>
   list_all named_path (pst_skipped st')"
  by (induction fs arbitrary: st c) (auto simp: act_eq_Some dest: plan_step_named)

lemma scan_plan_named:
  "scan_plan config fetch_content files c = Some (Inr sel, c') \<Longrightarrow> list_all named_path (sel_skipped_paths sel)"
  by (auto simp: scan_plan_def act_eq_Some dest!: plan_files_named)

section \<open>The artifact with the skipped paths\<close>

lemma accepts_items_list:
  "list_all2 (\<lambda>j a. \<forall>p. accepts (rd j p) a) js xs \<Longrightarrow> accepts (read_items_from rd path i js) xs"
  by (induction arbitrary: i rule: list_all2_induct) (auto intro!: accepts_bind accepts_return)

lemma skipped_path_accepted: "named_path item \<Longrightarrow> accepts (read_semgrep_skipped_path (skipped_to_artifact item) p) (skipped_path_record item)"
  by (simp add: accepts_def read_semgrep_skipped_path_def skipped_to_artifact_def skipped_path_record_def named_path_def run_reader primitive_readers
      read_nullable_str_def)

lemma skipped_items_run:
  assumes "list_all ok_semgrep_skipped_path xs" and "list_all named_path skips"
  shows "run_state (read_items read_semgrep_skipped_path path (map enc_semgrep_skipped_path xs @ map skipped_to_artifact skips)) es =
    (xs @ map skipped_path_record skips, es)"
proof (rule accepts_run, unfold read_items_def, rule accepts_items_list)
  from assms show "list_all2 (\<lambda>j a. \<forall>p. accepts (read_semgrep_skipped_path j p) a)
      (map enc_semgrep_skipped_path xs @ map skipped_to_artifact skips) (xs @ map skipped_path_record skips)"
    by (intro list_all2_appendI)
      (auto simp: list_all2_map1 list_all2_map2 list_all2_same list_all_iff skipped_path_accepted semgrep_skipped_path.complete)
qed

lemma artifact_with_skips_accepted:
  assumes "ok_SemgrepArtifact a" and "list_all named_path skips"
  shows "SemgrepArtifact_from_mapping (add_skipped_paths skips (enc_SemgrepArtifact a)) =
    Inr (a\<lparr>sga_skipped_paths := sga_skipped_paths a @ map skipped_path_record skips\<rparr>)"
proof -
  have "accepts (SemgrepArtifact_reader (add_skipped_paths skips (enc_SemgrepArtifact a)))
      (a\<lparr>sga_skipped_paths := sga_skipped_paths a @ map skipped_path_record skips\<rparr>)"
    using assms
    by (simp add: accepts_def SemgrepArtifact_reader_def add_skipped_paths_def Let_def pv_object_def pv_list_def enc_SemgrepArtifact_def
        ok_SemgrepArtifact_def run_reader primitive_readers semgrep_error.items_run semgrep_finding.items_run skipped_items_run)
  then show ?thesis
    by (simp add: SemgrepArtifact_from_mapping_def raise_if_errors_accepts)
qed

lemma empty_artifact_with_skips:
  "empty_semgrep_artifact context skips = add_skipped_paths skips (enc_SemgrepArtifact (empty_artifact (ctx_scan_run_id context)))"
  by (simp add: empty_semgrep_artifact_def add_skipped_paths_def enc_SemgrepArtifact_def empty_artifact_def Let_def pv_object_def pv_list_def
      SEMGREP_ARTIFACT_SCHEMA_VERSION_def)

section \<open>The findings of the stage\<close>

definition secret_free_text :: "string \<Rightarrow> bool" where
  \<comment> \<open>neither an AWS access key nor a GitHub token, as their patterns find them\<close>
  "secret_free_text s \<longleftrightarrow> \<not> re_search aws_key_re s \<and> \<not> re_search github_token_re s"

definition secret_free_finding :: "SemgrepFinding \<Rightarrow> bool" where
  "secret_free_finding f \<longleftrightarrow> secret_free_text (sgf_id f) \<and> secret_free_text (sgf_rule_id f) \<and> secret_free_text (sgf_path f) \<and> secret_free_text (sgf_source_severity f) \<and>
     secret_free_text (sgf_message f) \<and> secret_free_text (sgf_lines f) \<and> pred_option secret_free_text (sgf_fingerprint f) \<and> pred_option secret_free_text (sgf_fix f)"

lemma redacted_finding_clean: "secret_free_finding (redacted_finding f)"
  using redacted_text_clean by (simp add: secret_free_finding_def redacted_finding_def secret_free_text_def option.pred_map option.pred_True comp_def)

section \<open>The stage on the disk\<close>

definition scan_run_semgrep_on_disk ::
  "disk_services \<Rightarrow> string \<Rightarrow> (string list \<Rightarrow> string \<Rightarrow> workspace_state \<Rightarrow> worker_exception + obj) \<Rightarrow> (string list \<Rightarrow> disk \<Rightarrow> disk) \<Rightarrow>
   CodebaseScanContext \<Rightarrow> CodebaseWorkspaceSelection \<Rightarrow> disk \<Rightarrow> (worker_exception + obj) \<times> disk" where
  "scan_run_semgrep_on_disk dks temp_dir semgrep_runner process_effect context selection disk =
     (if sel_files selection = [] then (Inr (empty_semgrep_artifact context (sel_skipped_paths selection)), disk)
      else (case in_scan_workspace dks workspace_exception temp_dir (map scan_input (sel_files selection))
              (stage_in_workspace semgrep_runner process_effect (ctx_scan_run_id context)) disk of
          (Inl e, disk') \<Rightarrow> (Inl (if we_class e = ''SemgrepProcessError''
             then CodebaseScanPipelineError ''semgrep_process_error'' (we_text e) else e), disk')
        | (Inr None, disk') \<Rightarrow> (Inr (empty_semgrep_artifact context (sel_skipped_paths selection)), disk')
        | (Inr (Some result), disk') \<Rightarrow>
            (Inr (add_skipped_paths (sel_skipped_paths selection) (pv_object (fst (redact_value (JObj result))))), disk')))"

lemma scan_workspace_class: "we_class (workspace_exception e) \<noteq> ''SemgrepProcessError''"
  by (simp add: workspace_exception_def split: workspace_error.split)

lemma scan_stage_keeps_disk:
  assumes "fresh_workspaces dks disk" and "keeps_outside process_effect"
  shows "snd (scan_run_semgrep_on_disk dks temp_dir semgrep_runner process_effect context selection disk) = disk"
proof -
  have "snd (in_scan_workspace dks workspace_exception temp_dir (map scan_input (sel_files selection))
      (stage_in_workspace semgrep_runner process_effect (ctx_scan_run_id context)) disk) = disk"
    by (rule workspace_is_removed [OF assms(1) stage_keeps_outside [OF assms(2)]])
  then show ?thesis by (auto simp: scan_run_semgrep_on_disk_def split: prod.splits sum.splits option.splits)
qed

lemma scan_stage_without_disk:
  assumes "dks_prepare dks temp_dir = Inr base" "dks_mkdtemp dks base disk = Inr dir" "prefix base dir" "\<And>e. \<not> cannot_write dks e"
    and "svc_semgrep svc = semgrep_runner dir"
  shows "fst (scan_run_semgrep_on_disk dks temp_dir semgrep_runner process_effect context selection disk) = scan_run_semgrep svc context selection"
proof -
  let ?inputs = "map scan_input (sel_files selection)"
  from workspace_result [OF assms(1-3), of "stage_in_workspace semgrep_runner process_effect (ctx_scan_run_id context)"
      "stage_result semgrep_runner (ctx_scan_run_id context) dir" workspace_exception ?inputs, OF stage_in_workspace_result] assms(4)
  have "fst (in_scan_workspace dks workspace_exception temp_dir ?inputs (stage_in_workspace semgrep_runner process_effect (ctx_scan_run_id context)) disk) =
      bind_sum (map_sum workspace_exception id (populate_workspace ?inputs)) (stage_result semgrep_runner (ctx_scan_run_id context) dir)"
    by blast
  moreover obtain r d where "in_scan_workspace dks workspace_exception temp_dir ?inputs
      (stage_in_workspace semgrep_runner process_effect (ctx_scan_run_id context)) disk = (r, d)" by fastforce
  ultimately show ?thesis
    using scan_workspace_class
    by (cases "populate_workspace ?inputs")
      (auto simp: scan_run_semgrep_on_disk_def scan_run_semgrep_def assms(5) stage_result_def split: sum.splits option.splits)
qed

lemma scan_stage_artifact:
  assumes "nonblank (ctx_scan_run_id context)" and "foreign_errors rns"
    and "populate_workspace (map scan_input (sel_files sel)) = Inr ws" and "list_all named_path (sel_skipped_paths sel)"
  shows "case fst (scan_run_semgrep_on_disk dks temp_dir (default_semgrep_runner rns) process_effect context sel disk) of
      Inl e \<Rightarrow> (\<exists>problem. disk_failure dks temp_dir disk problem \<and> e = workspace_exception problem) \<or>
        (\<exists>base dir. dks_prepare dks temp_dir = Inr base \<and> dks_mkdtemp dks base disk = Inr dir \<and> runner_fails rns dir e)
    | Inr artifact \<Rightarrow> \<exists>a found. SemgrepArtifact_from_mapping artifact = Inr a \<and>
        list_all secret_free_finding (sga_findings a) \<and> sga_skipped_paths a = found @ map skipped_path_record (sel_skipped_paths sel)"
proof -
  note reads = artifact_with_skips_accepted [OF _ assms(4)]
  note empty = reads [OF empty_artifact_ok [OF assms(1)]]
  note stage = scan_run_semgrep_on_disk_def case_prod_beta fst_conv
  show ?thesis
  proof (cases "sel_files sel = []")
    case True
    with empty show ?thesis by (auto simp: stage empty_artifact_with_skips) (simp_all add: empty_artifact_def)
  next
    case False
    from assms(1) refl show ?thesis
    proof (cases rule: default_stage_cases [where rns = rns and dks = dks and raised = workspace_exception and temp_dir = temp_dir
          and inputs = "map scan_input (sel_files sel)" and process_effect = process_effect and disk = disk])
      case (fails base dir e)
      with assms(2) False show ?thesis by (auto simp: stage foreign_errors_def)
    next
      case nothing
      with False empty show ?thesis by (auto simp: stage empty_artifact_with_skips) (simp_all add: empty_artifact_def)
    next
      case (artifact a)
      have "list_all secret_free_finding (sga_findings (redacted_artifact a))"
        by (simp add: redacted_artifact_def list.pred_map list_all_iff redacted_finding_clean)
      with False artifact reads [OF redacted_artifact_ok [OF artifact(1)]] show ?thesis
        by (simp add: stage redacted_artifact_enc del: redacted_obj)
    qed (use False assms(3) scan_workspace_class in \<open>auto simp: stage\<close>)
  qed
qed

end
