(* ===== verification/ReviewJob.thy ===== *)
theory ReviewJob
  imports ReviewOutcome
begin

text \<open>
  A review job from the queue to the tables: \<open>process_review_pull_request_job\<close> of review_queue.py around the pipeline's run. The status
  updates of ReviewQueue, there on a map of runs, are statements on the table of ReviewTables, between which other
  clients act; the map is an abstraction of the table.
\<close>

section \<open>The status updates on the table\<close>

definition running_row :: "int \<Rightarrow> 'a review_run_scheme \<Rightarrow> 'a review_run_scheme" where
  "running_row now row = row\<lparr>rr_status := Running, rr_started_at := coalesce (rr_started_at row) now,
     rr_error_code := None, rr_error_message := None, rr_updated_at := now\<rparr>"

definition succeeded_row :: "int \<Rightarrow> 'a review_run_scheme \<Rightarrow> 'a review_run_scheme" where
  "succeeded_row now row = row\<lparr>rr_status := Succeeded, rr_finished_at := coalesce (rr_finished_at row) now,
     rr_error_code := None, rr_error_message := None, rr_updated_at := now\<rparr>"

definition failed_row :: "int \<Rightarrow> string \<Rightarrow> string \<Rightarrow> 'a review_run_scheme \<Rightarrow> 'a review_run_scheme" where
  "failed_row now code message row = row\<lparr>rr_status := RunFailed, rr_finished_at := coalesce (rr_finished_at row) now,
     rr_error_code := Some code, rr_error_message := Some message, rr_updated_at := now\<rparr>"

definition update_status :: "(review_run_row \<Rightarrow> review_run_row) \<Rightarrow> string \<Rightarrow> unit review_sql" where
  \<comment> \<open>\<open>UPDATE review_runs SET ... WHERE id = %s AND status <> 'superseded'\<close>\<close>
  "update_status f run_id = (\<lambda>db. Some (Inr (),
     db\<lparr>rdb_runs := update_where (\<lambda>row. rn_id row = run_id \<and> rr_status row \<noteq> Superseded) f (rdb_runs db)\<rparr>))"

definition review_job_run :: "'w review_services \<Rightarrow> ReviewJobInput \<Rightarrow> ('w, unit) review_op" where
  "review_job_run svc payload =
     act_bind (review_statement svc (\<lambda>n. update_status (running_row (rsv_clock svc n)) (rj_review_run_id payload))) (\<lambda>_.
     act_bind (act_catch (review_pipeline_run svc payload) (\<lambda>e.
         act_bind (review_statement svc (\<lambda>n. update_status (failed_row (rsv_clock svc n) (error_code e) (error_message e)) (rj_review_run_id payload)))
           (\<lambda>_. act_raise e))) (\<lambda>_.
       review_statement svc (\<lambda>n. update_status (succeeded_row (rsv_clock svc n)) (rj_review_run_id payload))))"

section \<open>The table and the map of runs\<close>

lemmas status_rows = running_row_def succeeded_row_def failed_row_def

definition runs_of :: "review_db \<Rightarrow> runs" where
  "runs_of db i = map_option review_run.truncate (find (\<lambda>row. rn_id row = i) (rdb_runs db))"

definition status_update :: "(review_run_row \<Rightarrow> review_run_row) \<Rightarrow> (review_run \<Rightarrow> review_run) \<Rightarrow> bool" where
  \<comment> \<open>sets columns of the map's rows only, and never the status superseded\<close>
  "status_update f g \<longleftrightarrow> (\<forall>row. review_run.truncate (f row) = g (review_run.truncate row) \<and> rn_id (f row) = rn_id row \<and>
     rn_pull_request_id (f row) = rn_pull_request_id row \<and> rr_status (f row) \<noteq> Superseded)"

lemma status_updates:
  "status_update (running_row now) (running_row now)" "status_update (succeeded_row now) (succeeded_row now)"
  "status_update (failed_row now code message) (failed_row now code message)"
  by (simp_all add: status_update_def status_rows review_run.truncate_def)

lemma find_updated:
  assumes "status_update f g"
  shows "find (\<lambda>row. rn_id row = j) (update_where (\<lambda>row. rn_id row = i \<and> rr_status row \<noteq> Superseded) f rows) =
    map_option (\<lambda>row. if j = i \<and> rr_status row \<noteq> Superseded then f row else row) (find (\<lambda>row. rn_id row = j) rows)"
  using assms by (induction rows) (auto simp: update_where_def status_update_def)

lemma truncated_status [simp]: "rr_status (review_run.truncate row) = rr_status row"
  by (simp add: review_run.truncate_def)

lemma update_status_refines:
  assumes "status_update f g" and "update_status f i db = Some (r, db')"
  shows "runs_of db' = update_run g i (runs_of db)"
proof
  fix j
  from assms(2) have db': "rdb_runs db' = update_where (\<lambda>row. rn_id row = i \<and> rr_status row \<noteq> Superseded) f (rdb_runs db)"
    by (auto simp: update_status_def)
  show "runs_of db' j = update_run g i (runs_of db) j"
    using assms(1) unfolding runs_of_def db' find_updated [OF assms(1)] update_run_def
    by (cases "find (\<lambda>row. rn_id row = j) (rdb_runs db)"; cases "j = i")
      (auto simp: status_update_def split: option.split)
qed

lemma mark_rows:
  "mark_running now = update_run (running_row now)" "mark_succeeded now = update_run (succeeded_row now)"
  "mark_failed now i code message = update_run (failed_row now code message) i"
  by (simp_all add: mark_running_def mark_succeeded_def mark_failed_def status_rows [abs_def] fun_eq_iff)

text \<open>The status updates of the table are those of the map.\<close>

theorem status_updates_refine_marks:
  "update_status (running_row now) i db = Some (r, db') \<Longrightarrow> runs_of db' = mark_running now i (runs_of db)"
  "update_status (succeeded_row now) i db = Some (r, db') \<Longrightarrow> runs_of db' = mark_succeeded now i (runs_of db)"
  "update_status (failed_row now code message) i db = Some (r, db') \<Longrightarrow> runs_of db' = mark_failed now i code message (runs_of db)"
  unfolding mark_rows by (rule update_status_refines [OF status_updates(1)] update_status_refines [OF status_updates(2)]
      update_status_refines [OF status_updates(3)]; assumption)+

section \<open>How a job ends\<close>

definition finished_as :: "string \<Rightarrow> (review_run_row \<Rightarrow> bool) \<Rightarrow> review_db \<Rightarrow> bool" where
  "finished_as i P db \<longleftrightarrow> (\<exists>row pr. run_with_pull_request i db = Some (row, pr) \<and> P row)"

definition others_keep_results :: "'w review_services \<Rightarrow> string \<Rightarrow> bool" where
  \<comment> \<open>other clients revive no superseded or deleted run and delete no comment\<close>
  "others_keep_results svc i \<longleftrightarrow> (\<forall>n db. (superseded_or_gone i db \<longrightarrow> superseded_or_gone i (rsv_meanwhile svc n db)) \<and>
     set (rdb_comments db) \<subseteq> set (rdb_comments (rsv_meanwhile svc n db)))"

lemma run_with_pull_request_updated:
  assumes "status_update f g" and "update_status f i db = Some (r, db')"
  shows "run_with_pull_request i db' =
    map_option (map_prod (\<lambda>row. if rr_status row \<noteq> Superseded then f row else row) id) (run_with_pull_request i db)"
proof -
  from assms(2) have db': "rdb_runs db' = update_where (\<lambda>row. rn_id row = i \<and> rr_status row \<noteq> Superseded) f (rdb_runs db)"
      "rdb_pull_requests db' = rdb_pull_requests db"
    by (auto simp: update_status_def)
  show ?thesis
    unfolding run_with_pull_request_def db' find_updated [OF assms(1)] using assms(1)
    by (cases "find (\<lambda>row. rn_id row = i) (rdb_runs db)") (auto simp: status_update_def option.map_comp comp_def)
qed

lemma update_status_eq: "update_status f i db = Some (r, db') \<Longrightarrow> r = Inr () \<and> rdb_comments db' = rdb_comments db"
  by (auto simp: update_status_def)

lemma status_statement_returns: "\<exists>s'. review_statement svc (\<lambda>n. update_status (f n) i) s = Some (Inr (), s')"
  by (simp add: review_statement_def update_status_def)

lemma status_statement:
  assumes "review_statement svc (\<lambda>n. update_status (f n) i) s = Some (r, s')" and "\<And>n. status_update (f n) (g n)"
  shows "\<exists>n. let db = rsv_meanwhile svc n (rvs_db s) in r = Inr () \<and> rdb_comments (rvs_db s') = rdb_comments db \<and>
     (superseded_or_gone i db \<and> superseded_or_gone i (rvs_db s') \<or>
      \<not> superseded_or_gone i db \<and> finished_as i (\<lambda>row. \<exists>old. row = f n old) (rvs_db s'))"
proof -
  let ?n = "rvs_tick s"
  let ?db = "rsv_meanwhile svc ?n (rvs_db s)"
  from assms(1) have update: "update_status (f ?n) i ?db = Some (r, rvs_db s')"
    by (auto simp: review_statement_def)
  note run = run_with_pull_request_updated [OF assms(2) update]
  note update_status_eq [OF update]
  moreover have "superseded_or_gone i ?db \<and> superseded_or_gone i (rvs_db s') \<or>
      \<not> superseded_or_gone i ?db \<and> finished_as i (\<lambda>row. \<exists>old. row = f ?n old) (rvs_db s')"
  proof (cases "superseded_or_gone i ?db")
    case True
    with run show ?thesis by (auto simp: superseded_or_gone_def split: option.splits)
  next
    case False
    with run show ?thesis by (auto simp: superseded_or_gone_def finished_as_def split: option.splits)
  qed
  ultimately show ?thesis by (auto simp: Let_def)
qed

lemma review_job_cases:
  assumes "review_job_run svc payload s = Some (r, s')" and "i = rj_review_run_id payload"
  obtains (returned) s1 s2 where "review_pipeline_run svc payload s1 = Some (Inr (), s2)"
      "review_statement svc (\<lambda>n. update_status (succeeded_row (rsv_clock svc n)) i) s2 = Some (r, s')"
    | (raised) s1 s2 e where "r = Inl e" "review_pipeline_run svc payload s1 = Some (Inl e, s2)"
      "review_statement svc (\<lambda>n. update_status (failed_row (rsv_clock svc n) (error_code e) (error_message e)) i) s2 = Some (Inr (), s')"
proof -
  obtain s1 where start: "review_statement svc (\<lambda>n. update_status (running_row (rsv_clock svc n)) i) s = Some (Inr (), s1)"
    using status_statement_returns [of svc "\<lambda>n. running_row (rsv_clock svc n)" i s] by blast
  with assms obtain r2 s2 where run: "review_pipeline_run svc payload s1 = Some (r2, s2)"
    by (cases "review_pipeline_run svc payload s1") (auto simp: review_job_run_def act_bind_def act_catch_def)
  show thesis
  proof (cases r2)
    case (Inr u)
    with run assms start show thesis
      by (intro returned [of s1 s2]) (simp_all add: review_job_run_def act_bind_def act_catch_def)
  next
    case (Inl e)
    obtain s3 where "review_statement svc (\<lambda>n. update_status (failed_row (rsv_clock svc n) (error_code e) (error_message e)) i) s2 = Some (Inr (), s3)"
      using status_statement_returns [of svc "\<lambda>n. failed_row (rsv_clock svc n) (error_code e) (error_message e)" i s2] by blast
    with Inl run assms start show thesis
      by (intro raised [of e s1 s2]) (simp_all add: review_job_run_def act_bind_def act_catch_def act_raise_def)
  qed
qed

definition recorded_failure :: "worker_exception \<Rightarrow> review_run_row \<Rightarrow> bool" where
  "recorded_failure e row \<longleftrightarrow> rr_status row = RunFailed \<and> rr_finished_at row \<noteq> None \<and>
     rr_error_code row = Some (error_code e) \<and> rr_error_message row = Some (error_message e)"

definition recorded_success :: "review_run_row \<Rightarrow> bool" where
  "recorded_success row \<longleftrightarrow> rr_status row = Succeeded \<and> rr_finished_at row \<noteq> None \<and> rr_error_code row = None \<and> rr_error_message row = None"

text \<open>C2: When a review job ends, the tables say how: its run was superseded or deleted meanwhile; or the job raised and the run has failed with
  the code and the message of what was raised; or it returned, the run has succeeded without an error and
  the table of comments has a summary of it. This holds whatever other clients do between the statements, as long as they
  revive no such run and delete no comment.\<close>

theorem review_job_records_how_it_ended:
  assumes "review_job_run svc payload s = Some (r, s')" and "i = rj_review_run_id payload" and "others_keep_results svc i"
  shows "superseded_or_gone i (rvs_db s') \<or>
    (case r of
       Inl e \<Rightarrow> finished_as i (recorded_failure e) (rvs_db s')
     | Inr _ \<Rightarrow> finished_as i recorded_success (rvs_db s') \<and> (\<exists>body. summary_recorded i body (rvs_db s')))"
  using assms(1,2)
proof (cases rule: review_job_cases)
  case (returned s1 s2)
  from review_returns [OF returned(1) assms(2)]
  have reviewed: "superseded_or_gone i (rvs_db s2) \<or> (\<exists>body. summary_recorded i body (rvs_db s2))" by blast
  from status_statement [OF returned(2) status_updates(2)] obtain n where r: "r = Inr ()"
    and kept: "rdb_comments (rvs_db s') = rdb_comments (rsv_meanwhile svc n (rvs_db s2))"
    and last: "superseded_or_gone i (rsv_meanwhile svc n (rvs_db s2)) \<and> superseded_or_gone i (rvs_db s') \<or>
      \<not> superseded_or_gone i (rsv_meanwhile svc n (rvs_db s2)) \<and> finished_as i (\<lambda>row. \<exists>old. row = succeeded_row (rsv_clock svc n) old) (rvs_db s')"
    by (auto simp: Let_def)
  show ?thesis
  proof (cases "superseded_or_gone i (rsv_meanwhile svc n (rvs_db s2))")
    case True
    with last show ?thesis by blast
  next
    case False
    with assms(3) have "\<not> superseded_or_gone i (rvs_db s2)" by (auto simp: others_keep_results_def)
    with reviewed obtain body where "summary_recorded i body (rvs_db s2)" by blast
    with assms(3) have "summary_recorded i body (rvs_db s')" by (auto simp: summary_recorded_def others_keep_results_def kept)
    moreover from last False have "finished_as i recorded_success (rvs_db s')"
      by (auto simp: finished_as_def recorded_success_def succeeded_row_def coalesce_def split: option.split)
    ultimately show ?thesis by (auto simp: r)
  qed
next
  case (raised s1 s2 e)
  from status_statement [OF raised(3) status_updates(3)] raised(1) show ?thesis
    by (auto simp: Let_def finished_as_def recorded_failure_def failed_row_def coalesce_def split: option.split)
qed

theorem review_job_records_how_it_ended_witness:
  "\<exists>s'. review_job_run sample_review_services sample_job sample_review_state = Some (Inr (), s') \<and>
     finished_as ''r'' recorded_success (rvs_db s') \<and> (\<exists>body. summary_recorded ''r'' body (rvs_db s'))"
proof -
  let ?run = "review_job_run sample_review_services sample_job sample_review_state"
  have "case ?run of Some (r, s') \<Rightarrow> r = Inr () \<and> \<not> superseded_or_gone ''r'' (rvs_db s') | None \<Rightarrow> False" by code_simp
  then obtain s' where run: "?run = Some (Inr (), s')" "\<not> superseded_or_gone ''r'' (rvs_db s')" by (auto split: option.splits)
  have job: "''r'' = rj_review_run_id sample_job" by (simp add: sample_job_def)
  have keep: "others_keep_results sample_review_services ''r''" by (simp add: others_keep_results_def sample_review_services_def)
  from review_job_records_how_it_ended [OF run(1) job keep] run show ?thesis by simp
qed

end
