(* ===== verification/ScanJob.thy ===== *)
theory ScanJob
  imports ScanOutcome
begin

text \<open>
  A codebase scan job from the queue to the tables: \<open>process_codebase_scan_pipeline_job\<close> of review_queue.py around the pipeline's run,
  on the same tables.
\<close>

definition scan_job_run :: "'w scan_services \<Rightarrow> CodebaseScanConfig \<Rightarrow> CodebaseScanJobInput \<Rightarrow> ('w, string) scan_op" where
  "scan_job_run svc config payload =
     act_bind (scan_sql svc (\<lambda>uuid now. process_codebase_scan_job uuid now payload)) (\<lambda>scan_run_id.
     act_bind (scan_pipeline_run svc config (payload\<lparr>cj_scan_run_id := Some scan_run_id\<rparr>)) (\<lambda>_.
     act_return scan_run_id))"

section \<open>The run of the job\<close>

lemma created_run_ok:
  assumes "scan_db_ok db" and "scan_runs_ok (db_scan_runs db @ [row])"
  shows "scan_db_ok (db\<lparr>db_scan_runs := db_scan_runs db @ [row]\<rparr>)"
  using assms by (auto simp: scan_db_ok_def scan_findings_ok_def list_all_iff)

lemma job_run_identified:
  assumes "process_codebase_scan_job uuid now payload db = (db', Inr i)" and "scan_db_ok db"
    and "\<And>j. cj_scan_run_id payload = Some j \<Longrightarrow> (j, cj_repository_id payload) \<in> set (map (\<lambda>r. (sr_id r, sr_repository_id r)) (db_scan_runs db))"
  shows "scan_db_ok db' \<and> (i, cj_repository_id payload) \<in> set (map (\<lambda>r. (sr_id r, sr_repository_id r)) (db_scan_runs db')) \<and>
    (cj_scan_run_id payload = Some i \<or> cj_scan_run_id payload = None \<and> i \<notin> set (map sr_id (db_scan_runs db)))"
proof (cases "cj_scan_run_id payload")
  case None
  let ?join = "repository_join (\<lambda>r. repo_id r = cj_repository_id payload) (cj_installation_id payload) db"
  from None assms(1) obtain repo where trigger: "cj_trigger payload = ''scheduled''" and repo: "?join = Some repo"
    by (auto simp: process_codebase_scan_job_def create_queued_scan_for_scheduled_job_def split: if_splits option.splits)
  let ?row = "queued_scan_run uuid now payload (repo_installation repo)"
  from None trigger repo assms(1) have ok: "scan_runs_ok (db_scan_runs db @ [?row])"
    and db': "db' = db\<lparr>db_scan_runs := db_scan_runs db @ [?row]\<rparr>" "i = uuid"
    by (auto simp: process_codebase_scan_job_def create_queued_scan_for_scheduled_job_def put_scan_runs_def split: if_splits)
  from created_run_ok [OF assms(2) ok] ok db' None show ?thesis
    by (auto simp: queued_scan_run_def scan_runs_ok_def)
next
  case (Some j)
  with assms show ?thesis by (auto simp: process_codebase_scan_job_def)
qed

lemma job_not_started:
  "process_codebase_scan_job uuid now payload db = (db', Inl e) \<Longrightarrow> db' = db \<and> cj_scan_run_id payload = None"
  by (auto simp: process_codebase_scan_job_def create_queued_scan_for_scheduled_job_def put_scan_runs_def
      split: option.splits if_splits prod.splits)

lemma scan_run_progress:
  assumes "scan_pipeline_run svc config payload s = Some (Inr res, s')" and "cj_scan_run_id payload = Some i"
  shows "scan_progress i s s'"
proof -
  from assms have "scan_body svc config payload i (scan_start payload s) = Some (Inr res, s')"
    by (auto simp: scan_pipeline_run_def act_catch_def act_bind_def act_raise_def scan_start_def split: option.splits sum.splits)
  from act_respectsD [OF scan_body_progress this] scan_start_progress show ?thesis by (blast intro: progress.R_trans)
qed

section \<open>How a job ends\<close>

definition job_of_run :: "CodebaseScanJobInput \<Rightarrow> 'w scan_state \<Rightarrow> string \<Rightarrow> bool" where
  \<comment> \<open>the run the job names, or a new one\<close>
  "job_of_run payload s i \<longleftrightarrow> cj_scan_run_id payload = Some i \<or>
     cj_scan_run_id payload = None \<and> i \<notin> set (map sr_id (db_scan_runs (sst_db s)))"

definition run_ended_as :: "string \<Rightarrow> string \<Rightarrow> (scan_run \<Rightarrow> bool) \<Rightarrow> 'w scan_state \<Rightarrow> bool" where
  "run_ended_as i repository_id P s \<longleftrightarrow>
     (\<exists>row \<in> set (db_scan_runs (sst_db s)). sr_id row = i \<and> sr_repository_id row = repository_id \<and> P row)"

lemma run_ended_asI:
  "run_of_repository i r s \<Longrightarrow> list_all (\<lambda>row. sr_id row = i \<longrightarrow> P row) (db_scan_runs (sst_db s)) \<Longrightarrow> run_ended_as i r P s"
  by (auto simp: run_of_repository_def run_ended_as_def list_all_iff)

text \<open>C3: No codebase scan job is lost: when it returns, the run it names, or the one it created, is in the table as succeeded or
  superseded; when it raises, either that run is in the table as failed with the error that was raised, or the job named
  no run, none could be created and the tables are as before.\<close>

theorem scan_job_records_how_it_ended:
  assumes "scan_job_run svc config payload s = Some (r, s')" and "scan_db_ok (sst_db s)"
    and "\<forall>i. cj_scan_run_id payload = Some i \<longrightarrow> run_of_repository i (cj_repository_id payload) s"
  shows "case r of
      Inr i \<Rightarrow> job_of_run payload s i \<and> run_ended_as i (cj_repository_id payload) (\<lambda>row. sr_status row \<in> {''succeeded'', ''superseded''}) s'
    | Inl e \<Rightarrow> cj_scan_run_id payload = None \<and> sst_db s' = sst_db s \<or>
        (\<exists>i. job_of_run payload s i \<and>
           run_ended_as i (cj_repository_id payload) (\<lambda>row. sr_status row = ''failed'' \<and> sr_error_json row = safe_error e) s')"
proof -
  let ?uuid = "svc_uuid svc (sst_tick s)" and ?now = "svc_clock svc (sst_tick s)"
  obtain db1 res1 where start: "process_codebase_scan_job ?uuid ?now payload (sst_db s) = (db1, res1)" by fastforce
  let ?s1 = "s\<lparr>sst_db := db1, sst_tick := Suc (sst_tick s)\<rparr>"
  show ?thesis
  proof (cases res1)
    case (Inl e)
    with start assms(1) job_not_started [of ?uuid ?now payload "sst_db s" db1 e] show ?thesis
      by (auto simp: scan_job_run_def act_bind_def scan_sql_def)
  next
    case (Inr i)
    let ?job = "payload\<lparr>cj_scan_run_id := Some i\<rparr>"
    from job_run_identified [OF start [unfolded Inr] assms(2)] assms(3)
    have ok: "scan_db_ok (sst_db ?s1)" and i: "job_of_run payload s i" and run1: "run_of_repository i (cj_repository_id payload) ?s1"
      by (auto simp: run_of_repository_def job_of_run_def)
    from start Inr assms(1) obtain r2 where run: "scan_pipeline_run svc config ?job ?s1 = Some (r2, s')" and r: "r = map_sum id (\<lambda>_. i) r2"
      by (auto simp: scan_job_run_def act_bind_def scan_sql_def act_return_def split: option.splits sum.splits)
    show ?thesis
    proof (cases r2)
      case (Inl e)
      from scan_raises [OF run [unfolded Inl] _ ok, of i] run1
      have "run_ended_as i (cj_repository_id payload) (\<lambda>row. sr_status row = ''failed'' \<and> sr_error_json row = safe_error e) s'"
        by (intro run_ended_asI) (auto intro: run_of_repository_progress)
      with i Inl r show ?thesis by auto
    next
      case (Inr res)
      from scan_returns [OF run [unfolded Inr], of i] run1
      have "list_all (\<lambda>row. sr_id row = i \<longrightarrow> sr_status row \<in> {''succeeded'', ''superseded''}) (db_scan_runs (sst_db s'))"
        by (auto simp: list_all_iff)
      moreover from scan_run_progress [OF run [unfolded Inr], of i] run1 have "run_of_repository i (cj_repository_id payload) s'"
        by (auto intro: run_of_repository_progress)
      ultimately show ?thesis using i Inr r by (auto intro: run_ended_asI)
    qed
  qed
qed

definition sample_scheduled_job :: CodebaseScanJobInput where
  "sample_scheduled_job = sample_scan_job\<lparr>cj_scan_run_id := None, cj_trigger := ''scheduled''\<rparr>"

theorem scan_job_records_how_it_ended_witness:
  "\<exists>i s'. scan_job_run sample_services sample_scan_config sample_scheduled_job sample_scan_state = Some (Inr i, s') \<and>
     job_of_run sample_scheduled_job sample_scan_state i \<and>
     run_ended_as i ''r'' (\<lambda>row. sr_status row \<in> {''succeeded'', ''superseded''}) s'"
proof -
  let ?run = "scan_job_run sample_services sample_scan_config sample_scheduled_job sample_scan_state"
  have "case ?run of Some (r, _) \<Rightarrow> \<not> is_err r | None \<Rightarrow> False" by code_simp
  then obtain i s' where run: "?run = Some (Inr i, s')" by (auto simp: is_err_def split: option.splits sum.splits)
  have ok: "scan_db_ok (sst_db sample_scan_state)" by code_simp
  have job: "cj_scan_run_id sample_scheduled_job = None" "cj_repository_id sample_scheduled_job = ''r''"
    by (simp_all add: sample_scheduled_job_def sample_scan_job_def)
  from scan_job_records_how_it_ended [OF run ok] run job show ?thesis by auto
qed

section \<open>A run left in the queue\<close>

lemma not_distinct_filtered:
  "x \<in> set xs \<Longrightarrow> P x \<Longrightarrow> P y \<Longrightarrow> f x = f y \<Longrightarrow> \<not> distinct (map f (filter P (xs @ [y])))"
  by (auto simp: image_iff)

text \<open>C40: A scheduled scan whose worker died before the scan was marked as running is never repeated: as long as its queued row
  stands, every scheduled job of the repository, the redelivered one as well, raises and changes nothing, for no
  statement of the worker ends a run that no job names.\<close>

theorem abandoned_run_blocks_the_schedule:
  assumes "row \<in> set (db_scan_runs (sst_db s))" and "sr_repository_id row = cj_repository_id payload" and "sr_trigger row = ''scheduled''"
    and "active_status (sr_status row)" and "sr_commit_sha row = None"
    and "cj_scan_run_id payload = None" and "cj_trigger payload = ''scheduled''" and "cj_commit_sha payload = None"
  shows "\<exists>e s'. scan_job_run svc config payload s = Some (Inl e, s') \<and> sst_db s' = sst_db s"
proof -
  have "\<not> scan_runs_ok (db_scan_runs (sst_db s) @ [queued_scan_run uuid now payload inst])" for uuid now inst
    using not_distinct_filtered [OF assms(1), where P = "\<lambda>r. active_status (sr_status r) \<and> sr_commit_sha r = None" and
        f = "\<lambda>r. (sr_repository_id r, sr_trigger r)" and y = "queued_scan_run uuid now payload inst"] assms
    by (simp add: scan_runs_ok_def queued_scan_run_def active_status_def del: filter_append map_append)
  with assms(6,7) have "\<exists>e. process_codebase_scan_job uuid now payload (sst_db s) = (sst_db s, Inl e)" for uuid now
    by (simp add: process_codebase_scan_job_def create_queued_scan_for_scheduled_job_def put_scan_runs_def split: option.split)
  then obtain e where "process_codebase_scan_job (svc_uuid svc (sst_tick s)) (svc_clock svc (sst_tick s)) payload (sst_db s) = (sst_db s, Inl e)" by blast
  then show ?thesis by (simp add: scan_job_run_def act_bind_def scan_sql_def)
qed

theorem abandoned_run_blocks_the_schedule_witness:
  "\<exists>e s'. scan_job_run sample_services sample_scan_config sample_scheduled_job
       (sample_scan_state\<lparr>sst_db := fst (process_codebase_scan_job ''u'' 1 sample_scheduled_job sample_scan_db)\<rparr>) = Some (Inl e, s') \<and>
     length (db_scan_runs (sst_db s')) = 2"
proof -
  let ?db = "fst (process_codebase_scan_job ''u'' 1 sample_scheduled_job sample_scan_db)"
  let ?row = "queued_scan_run ''u'' 1 sample_scheduled_job ''i''"
  have db: "?db = sample_scan_db\<lparr>db_scan_runs := [sample_run_row, ?row]\<rparr>" by code_simp
  have row: "sr_repository_id ?row = cj_repository_id sample_scheduled_job" "sr_trigger ?row = ''scheduled''" "active_status (sr_status ?row)"
      "sr_commit_sha ?row = None" "cj_scan_run_id sample_scheduled_job = None" "cj_trigger sample_scheduled_job = ''scheduled''"
      "cj_commit_sha sample_scheduled_job = None"
    by (simp_all add: queued_scan_run_def sample_scheduled_job_def sample_scan_job_def active_status_def)
  have "?row \<in> set (db_scan_runs (sst_db (sample_scan_state\<lparr>sst_db := ?db\<rparr>)))" by (simp add: db)
  from abandoned_run_blocks_the_schedule [OF this row, of sample_services sample_scan_config] show ?thesis by (auto simp: db)
qed

end
