(* ===== verification/Spec2Isabelle.thy ===== *)
theory Spec2Isabelle
  imports Evaluation SemgrepRunner SemgrepWorkspace Chunker CiExplanation PipelineGitHub
    ScanOutcome SecretRedaction ReviewScanFindings TreeSitterProperties ReviewOutcome ContentProperties WorkerStartup
    LlmConfig ScanStage ReviewJob ScanJob
begin

text \<open>
  The review worker of Firmcode: \<open>src/apps/worker/firmcode_worker\<close> (Python). The worker takes jobs from a queue,
  reads a pull request or a repository from GitHub, runs Semgrep and tree-sitter on it, asks a language model
  for a structured review, and writes comments and database rows. Paths below are relative to that directory.

  \<^bold>\<open>How the parts interact.\<close> A job payload is read by \<open>schemas/contracts.py\<close> and handed by \<open>review_queue.py\<close> to one of two
  pipelines. The review pipeline (\<open>pipeline.py\<close>) fetches the files of a pull request and parses their patches, runs
  \<open>semgrep/workspace.py\<close>, \<open>runner.py\<close>, \<open>normalizer.py\<close> and \<open>tree_sitter/extractor.py\<close>, stores what they find, checks that no other
  commit has been pushed, and publishes inline comments and a summary. The scan pipeline (\<open>codebase_scan.py\<close>) selects
  the files of a whole repository, analyses them the same way and keeps a table of findings, from which a review shows those near
  its files. \<open>runtime.py\<close> checks the environment and makes both. The stages of a review by a language model are there but
  no pipeline calls them yet: the context (\<open>context/chunker.py\<close>), the request (\<open>llm/client.py\<close>), the repair and pruning of the
  answer (\<open>llm/output_validation.py\<close>), and the explanation of CI logs (\<open>ci/explanation.py\<close>). Every artifact that passes
  between two parts is one of the contracts.

  \<^bold>\<open>Theories and code.\<close>
  \<^item> Prelude, PyJson, PyPath, PyRegex, PyRegexWords, PyFnmatch, PyBytes, PyAction: what the code uses of Python. Results are
    \<open>'e + 'a\<close> with the exception on the left, JSON values a datatype whose objects are association lists in insertion order,
    \<open>Path\<close> pure string functions, \<open>re\<close> and \<open>fnmatch\<close> backtracking matchers, bytes \<open>8 word\<close> with the decoders of base64 and
    UTF-8. A statement with effects is an action
    \<open>'s \<Rightarrow> (('e + 'a) \<times> 's) option\<close>: it changes a state, raises or returns; None is a loop that does not end. The locale
    \<open>state_relation\<close> proves once how facts about the state compose along an action.
  \<^item> Reader and the theories Contracts*: \<open>schemas/contracts.py\<close>. A reader is a state monad over the list of
    problems; for every class there is a record, the reader, \<open>from_mapping\<close>, the JSON object and the set of well-formed values.
    ContractProperties shows that each \<open>from_mapping\<close> accepts exactly those and reads them back.
  \<^item> LlmClient (retries, deadlines, redaction of the request log) and LlmConfig (configuration, log events): \<open>llm/client.py\<close>. OutputValidation:
    \<open>llm/output_validation.py\<close>. Evaluation: \<open>review/evaluation.py\<close>.
  \<^item> SemgrepNormalizer, SemgrepRunner, SemgrepWorkspace, WorkspaceDisk (the files of a workspace, from their directory to its removal):
    \<open>semgrep/\<close>. SemgrepStage and ScanStage put them together with the stages of the two pipelines that use them,
    on a disk that can refuse what is asked of it; ReviewRun and ScanRun take the stages without a disk, which are those of a disk that refuses
    nothing. Chunker: \<open>context/chunker.py\<close>. CiPatterns,
    CiExplanation: \<open>ci/explanation.py\<close>.
  \<^item> PipelineHunks (\<open>parse_patch_hunks\<close>), PipelineFiles (file selection and diff artifact), PipelineComments (inline
    comments and their matching), PipelineGitHub (\<open>GitHubClient\<close>: paging, publication), PipelineDedupe (findings of scans
    in a review), ReviewTables and ReviewStore (the tables with the constraints of migrations 001 and 007, and
    \<open>PostgresReviewPipelineStore\<close>), ReviewText and ReviewReport (the Markdown of the comments), ReviewRun
    (\<open>DeterministicReviewPipeline.run\<close> over all of them): \<open>pipeline.py\<close>. ReviewJob puts the job handler of the queue around
    that run, on the same tables. ReviewStoreProperties, ReviewScanFindings, ReviewQuiet and
    ReviewOutcome hold their properties.
  \<^item> TreeSitterRegistry and TreeSitterExtractor: \<open>tree_sitter/\<close>, with the trees of the library as a datatype; TreeSitterProperties.
  \<^item> AppKey (\<open>normalize_private_key\<close>) and WorkerStartup: \<open>runtime.py\<close> and the construction of the pipelines.
  \<^item> ReviewQueue: \<open>review_queue.py\<close>, both job handlers and their repositories.
  \<^item> ScanTables: the tables of runs and findings with the constraints of migration 008; for findings, whose lines and texts come from outside, the
    limits of the column types as well; a statement that violates one raises and changes nothing. ScanPlanner, ScanStore, ScanFindings, ScanRun: \<open>codebase_scan.py\<close>, from the configuration over the
    plan, the store, the findings and their redaction to the run; ScanJob puts the job handler around it. ScanOutcome, ScanFindingProperties and
    SecretRedaction hold their properties. ContentProperties: the contents both pipelines read.
  \<^item> This theory: what spans two components.

  \<^bold>\<open>What the lemmas show.\<close> Contracts: exactly the well-formed values are accepted, and every artifact a part produces
    satisfies the contract of its reader, or the exact condition under which it does not (PipelineFiles, CiExplanation).
    Selection and budgets: what is chosen is eligible, within every limit, and nothing eligible is lost without a record (Chunker,
    PipelineFiles, ScanPlanner, OutputValidation). Tables: the status of a run and of a finding under any sequence or
    interleaving of statements (ReviewQueue, ScanStore), and the tables after a whole scan against a specification on the
    abstract map from finding keys to status (ScanOutcome). Publication: comments as multisets, where publishing
    again changes nothing (PipelineComments, PipelineGitHub), and rows that record each published comment once
    (ReviewStoreProperties). A whole review: what it may send and record when it is overtaken, what it leaves when it
    returns, when it can never succeed (ReviewQuiet, ReviewOutcome), and what the tables say of a job that has ended (ReviewJob, ScanJob). Encodings: what base64, UTF-8 and the key readers give back
    (PyBytes, AppKey, ContentProperties). Start-up: when jobs are taken (WorkerStartup). The Semgrep stage: which
    artifact it gives, exactly which exceptions of the disk, the process and the decoders leave it, and that no source file outlives it
    (SemgrepRunner, SemgrepStage, ScanStage, this theory). CI logs: every line that reports a failure is in exactly one group (CiExplanation). Secrets: what no log line or stored text contains
    (LlmClient, SecretRedaction). Retries and paging loops end (LlmClient, PipelineGitHub).

  \<^bold>\<open>Parameters and bounds.\<close> Code outside the worker is an argument: HTTP and the GitHub API with its state, the Semgrep process,
  the parsers of tree-sitter, the model, SHA-256, JSON decoding, clocks, identifiers, the file system, and what other clients do to the
  database between two statements of a review. Where a property needs a law of
  one (the GitHub API appends a review, two digests differ) the law is a premise, and a witness instantiates it. Paging loops
  are \<open>partial_function (option)\<close>; that they return is proved. The matcher of \<open>re\<close> recurses on the pattern, with
  repetition only of single characters, so it needs no fuel. Integers are Python's, that is \<open>int\<close>; a float is
  its exact rational value or one of the three non-finite ones. A text is a list of the code points U+0000 to U+00FF, on which
  case mapping, white space and the classes of \<open>re\<close> are those of Python; decoding a file and the symbols of a report take a function
  for the characters beyond.

  \<^bold>\<open>Not modelled.\<close> The signature of the GitHub token, HTTP, the loading of a grammar from the tree-sitter packages, directories
  but for the files in them, the queue library, signals and log output but for the events of the LLM client and of the start, the
  interpreter's limits on recursion and memory but for those of \<open>json.loads\<close> in the Semgrep runner, and of PostgreSQL the column types of the
  other tables, the references to repositories and the size of index entries.
  The API server and the web application are TypeScript; \<open>src/semgrep\<close>, \<open>src/tree-sitter\<close> and \<open>src/pr-agent\<close> are vendored projects
  of which the worker only runs command lines or bindings.
\<close>

section \<open>From the plan of a scan to the workspace of its analyser\<close>

lemma scan_languages_supported:
  assumes "language_for_path p = Some l"
  shows "lower l \<in> set SUPPORTED_SEMGREP_LANGUAGES"
proof -
  have "list_all (\<lambda>l. lower l \<in> set SUPPORTED_SEMGREP_LANGUAGES)
      [''dockerfile'', ''go'', ''hcl'', ''java'', ''javascript'', ''json'', ''python'', ''terraform'', ''typescript'', ''yaml'']"
    by code_simp
  with language_for_path_values [OF assms] show ?thesis by (auto simp only: list_all_iff)
qed

lemma selected_file_is_accepted:
  assumes "selected_from config fetch_content files s" and "validate_repository_relative_path (scf_path s) = Inr (scf_path s)"
    and "scf_path s \<notin> set (ws_seen ws)" and "\<not> (\<exists>q \<in> fst ` set (ws_files ws). blocks (scf_path s) q)"
  shows "populate_step ws (scan_input s) = Inr (ws\<lparr>ws_seen := ws_seen ws @ [scf_path s],
     ws_files := ws_files ws @ [(scf_path s, scf_content s)], ws_targets := ws_targets ws @ [scf_path s]\<rparr>)"
proof -
  from assms(1) obtain p where "language_for_path p = Some (scf_language s)" by (auto simp: selected_from_def)
  then have "lower (scf_language s) \<in> set SUPPORTED_SEMGREP_LANGUAGES" by (rule scan_languages_supported)
  moreover have "lower ''modified'' \<notin> set DELETED_FILE_STATUSES" by code_simp
  ultimately have "skip_reason (scan_input s) = None" by (simp add: skip_reason_def scan_input_def)
  with assms(2-4) show ?thesis by (simp add: populate_step_def scan_input_def Let_def)
qed

lemma repository_path_valid:
  assumes "repository_path p"
  shows "validate_repository_relative_path p = Inr p"
  using assms path_str_plain(2) [of p] by (auto simp: validate_Inr safe_path_def repository_path_def list_all_iff)

lemma populate_selected_from:
  "list_all (selected_from config fetch_content files) sel \<Longrightarrow> distinct (ws_seen ws @ map scf_path sel) \<Longrightarrow>
     (\<forall>p \<in> set (map fst (ws_files ws) @ map scf_path sel). \<forall>q \<in> set (map fst (ws_files ws) @ map scf_path sel). \<not> blocks p q) \<Longrightarrow>
     populate_from ws (map scan_input sel) = Inr (ws\<lparr>ws_seen := ws_seen ws @ map scf_path sel,
       ws_files := ws_files ws @ map (\<lambda>s. (scf_path s, scf_content s)) sel, ws_targets := ws_targets ws @ map scf_path sel\<rparr>)"
proof (induction sel arbitrary: ws)
  case (Cons s sel)
  from Cons.prems(1) have "validate_repository_relative_path (scf_path s) = Inr (scf_path s)"
    by (auto simp: selected_from_def intro: repository_path_valid)
  with Cons.prems have step: "populate_step ws (scan_input s) = Inr (ws\<lparr>ws_seen := ws_seen ws @ [scf_path s],
     ws_files := ws_files ws @ [(scf_path s, scf_content s)], ws_targets := ws_targets ws @ [scf_path s]\<rparr>)"
    by (intro selected_file_is_accepted [of config fetch_content files]) auto
  show ?case by (simp add: step, subst Cons.IH) (use Cons.prems in auto)
qed simp

definition tree_paths :: "RepositoryTreeFile list \<Rightarrow> bool" where
  \<comment> \<open>what a Git tree guarantees of its listing: no path twice, and none both a file and a directory\<close>
  "tree_paths files \<longleftrightarrow> distinct (map rtf_path files) \<and>
     (\<forall>f \<in> set files. \<forall>g \<in> set files. \<not> blocks (rtf_path f) (rtf_path g))"

lemma plan_fills_workspace:
  assumes "scan_plan config fetch_content files c = Some (Inr sel, c')" and "tree_paths files"
  shows "\<exists>ws. populate_workspace (map scan_input (sel_files sel)) = Inr ws \<and> ws_targets ws = map scf_path (sel_files sel) \<and>
     ws_files ws = map (\<lambda>s. (scf_path s, scf_content s)) (sel_files sel) \<and> ws_skipped ws = []"
proof -
  from assms(1) obtain st where st: "list_all (selected_from config fetch_content files) (pst_selected st)"
      "subseq (map scf_path (pst_selected st)) (map rtf_path (sort_key rtf_path files))"
    and sel: "sel = \<lparr> sel_files = pst_selected st, sel_skipped_paths = pst_skipped st, sel_metrics = plan_metrics config files st \<rparr>"
    by (rule scan_plan_result) blast
  from st(2) obtain N where paths: "map scf_path (pst_selected st) = nths (map rtf_path (sort_key rtf_path files)) N"
    unfolding subseq_conv_nths by blast
  have "mset (map rtf_path (sort_key rtf_path files)) = mset (map rtf_path files)" by simp
  then have "distinct (map rtf_path (sort_key rtf_path files))" using assms(2) by (metis mset_eq_imp_distinct_iff tree_paths_def)
  then have "distinct (map scf_path (pst_selected st))" unfolding paths by (rule distinct_nthsI)
  moreover have "set (map scf_path (pst_selected st)) \<subseteq> rtf_path ` set files"
    using set_nths_subset [of "map rtf_path (sort_key rtf_path files)" N] unfolding paths by simp
  then have "\<forall>p \<in> set (map scf_path (pst_selected st)). \<forall>q \<in> set (map scf_path (pst_selected st)). \<not> blocks p q"
    using assms(2) unfolding tree_paths_def by blast
  ultimately show ?thesis
    unfolding populate_workspace_def by (simp add: sel, subst populate_selected_from [OF st(1)]) auto
qed

text \<open>C17: Whatever the fetches returned, the analyser gets all of a plan: for a listing of a Git tree the scan workspace
  accepts every file the plan selected, writes it with the content that was fetched, makes it a target, in the
  order of the plan, and reports none as skipped. The checks of the planner imply those of the workspace.\<close>

theorem selected_files_are_all_scanned:
  assumes "scan_plan config fetch_content files c = Some (Inr sel, c')" and "tree_paths files"
  shows "\<exists>ws. populate_workspace (map scan_input (sel_files sel)) = Inr ws \<and> ws_targets ws = map scf_path (sel_files sel) \<and>
     ws_files ws = map (\<lambda>s. (scf_path s, scf_content s)) (sel_files sel) \<and> ws_skipped ws = []"
  by (rule plan_fills_workspace [OF assms])

theorem selected_files_are_all_scanned_witness:
  "\<exists>sel c' ws. scan_plan sample_scan_config sample_fetch sample_scan_tree sample_scan_client = Some (Inr sel, c') \<and>
     populate_workspace (map scan_input (sel_files sel)) = Inr ws \<and> ws_targets ws = map scf_path (sel_files sel)"
proof -
  have "case scan_plan sample_scan_config sample_fetch sample_scan_tree sample_scan_client of
      Some (r, _) \<Rightarrow> \<not> is_err r | None \<Rightarrow> False" by code_simp
  then obtain sel c' where run: "scan_plan sample_scan_config sample_fetch sample_scan_tree sample_scan_client = Some (Inr sel, c')"
    by (auto simp: is_err_def split: option.splits sum.splits)
  moreover have "tree_paths sample_scan_tree" by code_simp
  ultimately show ?thesis using selected_files_are_all_scanned [OF run] by blast
qed

section \<open>From the plan of a scan to its Semgrep artifact\<close>



end
